(* ===== verification/Prelude.thy ===== *)
theory Prelude
  imports Main "HOL-Library.Word" "HOL-Library.Sublist" "HOL-Library.State_Monad"
begin

text \<open>
  Shared vocabulary of the development: the byte-string operations of Go's \<open>strings\<close>,
  \<open>fmt\<close> and \<open>time\<close> packages that the code uses, fallible results, and the reasoning rules for
  the state monad in which the controllers are written.

  Go strings are byte sequences, as is \<^typ>\<open>string\<close>; every operation below works on bytes.
  \<open>toLower\<close> maps the ASCII letters and the two non-ASCII code points whose lower case is ASCII
  (the Kelvin sign and the dotted capital I), so a comparison of its result with an ASCII string
  is exact; \<open>equalFold\<close> is exact for an ASCII second argument.
\<close>

named_theorems wp_intro \<open>introduction rules for the weakest precondition of a state computation\<close>
named_theorems wp_simp \<open>equations for the weakest precondition of a state computation\<close>

section \<open>Results\<close>

text \<open>A Go pair \<open>(value, error)\<close>: exactly one of the two is meaningful.\<close>

type_synonym ('e, 'a) result = "'e + 'a"

fun result_bind :: "'e + 'a \<Rightarrow> ('a \<Rightarrow> 'e + 'b) \<Rightarrow> 'e + 'b" where
  "result_bind (Inl e) f = Inl e"
| "result_bind (Inr a) f = f a"

fun map_error :: "('e \<Rightarrow> 'f) \<Rightarrow> 'e + 'a \<Rightarrow> 'f + 'a" where
  "map_error g (Inl e) = Inl (g e)"
| "map_error g (Inr a) = Inr a"

lemma result_bind_Inr_iff [simp]:
  "result_bind r f = Inr b \<longleftrightarrow> (\<exists>a. r = Inr a \<and> f a = Inr b)"
  by (cases r) auto

lemma map_error_Inr_iff [simp]: "map_error g r = Inr a \<longleftrightarrow> r = Inr a"
  by (cases r) auto

text \<open>The first error of a list of checks that are tried in order; \<open>None\<close> is Go's \<open>nil\<close>.\<close>

fun first_error :: "'e option list \<Rightarrow> 'e option" where
  "first_error [] = None"
| "first_error (None # xs) = first_error xs"
| "first_error (Some e # xs) = Some e"

lemma first_error_None_iff: "first_error xs = None \<longleftrightarrow> set xs \<subseteq> {None}"
  by (induction xs rule: first_error.induct) auto

lemma first_error_NoneD: "first_error xs = None \<Longrightarrow> x \<in> set xs \<Longrightarrow> x = None"
  by (auto simp: first_error_None_iff)

definition check :: "bool \<Rightarrow> 'e \<Rightarrow> 'e option" where
  "check bad e = (if bad then Some e else None)"

lemma check_None_iff [simp]: "check bad e = None \<longleftrightarrow> \<not> bad"
  by (simp add: check_def)

section \<open>Byte strings\<close>

definition hasPrefix :: "string \<Rightarrow> string \<Rightarrow> bool" where
  "hasPrefix s p \<longleftrightarrow> take (length p) s = p"

definition hasSuffix :: "string \<Rightarrow> string \<Rightarrow> bool" where
  "hasSuffix s p \<longleftrightarrow> length p \<le> length s \<and> drop (length s - length p) s = p"

definition trimSuffix :: "string \<Rightarrow> string \<Rightarrow> string" where
  "trimSuffix s p = (if hasSuffix s p then take (length s - length p) s else s)"

definition trimPrefix :: "string \<Rightarrow> string \<Rightarrow> string" where
  "trimPrefix s p = (if hasPrefix s p then drop (length p) s else s)"

fun contains :: "string \<Rightarrow> string \<Rightarrow> bool" where
  "contains [] sub \<longleftrightarrow> sub = []"
| "contains (c # cs) sub \<longleftrightarrow> hasPrefix (c # cs) sub \<or> contains cs sub"

lemma hasPrefix_iff: "hasPrefix s p \<longleftrightarrow> prefix p s"
  by (metis append_eq_conv_conj append_take_drop_id hasPrefix_def prefix_def)

lemma hasPrefix_append [simp]: "hasPrefix (p @ s) p"
  by (simp add: hasPrefix_def)

lemma hasPrefix_Nil [simp]: "hasPrefix s []"
  by (simp add: hasPrefix_def)

lemma hasSuffix_iff: "hasSuffix s p \<longleftrightarrow> suffix p s"
  unfolding hasSuffix_def suffix_def
  by (metis append_eq_append_conv append_take_drop_id diff_diff_cancel length_append
      length_drop le_add2 drop_eq_Nil)

lemma trimSuffix_not [simp]: "\<not> hasSuffix s p \<Longrightarrow> trimSuffix s p = s"
  by (simp add: trimSuffix_def)

lemma trimSuffix_append [simp]: "trimSuffix (s @ p) p = s"
  by (simp add: trimSuffix_def hasSuffix_def)

lemma contains_Nil [simp]: "contains s []"
  by (cases s) (auto simp: hasPrefix_def)

lemma contains_iff: "contains s sub \<longleftrightarrow> sublist sub s"
proof (induction s)
  case Nil
  then show ?case by auto
next
  case (Cons c cs)
  then show ?case by (auto simp: hasPrefix_iff sublist_Cons_right)
qed

text \<open>\<open>strings.Cut\<close>, and on top of it \<open>strings.Split\<close> and \<open>strings.SplitN (_, _, 2)\<close>, for a
  non-empty separator.\<close>

fun cut :: "string \<Rightarrow> string \<Rightarrow> (string \<times> string) option" where
  "cut [] sep = (if sep = [] then Some ([], []) else None)"
| "cut (c # cs) sep =
     (if hasPrefix (c # cs) sep then Some ([], drop (length sep) (c # cs))
      else map_option (\<lambda>(a, b). (c # a, b)) (cut cs sep))"

lemma cut_Some: "cut s sep = Some (a, b) \<Longrightarrow> s = a @ sep @ b"
proof (induction s arbitrary: a)
  case Nil
  then show ?case by (simp split: if_splits)
next
  case (Cons c cs)
  then show ?case
    by (auto simp: hasPrefix_def split: if_splits)
      (metis append_take_drop_id)
qed

lemma cut_None: "cut s sep = None \<longleftrightarrow> \<not> contains s sep"
  by (induction s) auto

lemma cut_length: "cut s sep = Some (a, b) \<Longrightarrow> length b + length sep \<le> length s"
  by (auto dest: cut_Some)

function splitOn :: "string \<Rightarrow> string \<Rightarrow> string list" where
  "splitOn s sep =
     (if sep = [] then [s]
      else case cut s sep of None \<Rightarrow> [s] | Some (a, b) \<Rightarrow> a # splitOn b sep)"
  by pat_completeness auto
termination
proof (relation "measure (\<lambda>(s, sep). length s)", goal_cases)
  case (2 s sep x a b)
  then have "length b + length sep \<le> length s" by (auto dest: cut_length)
  with 2 show ?case by (cases sep) auto
qed simp

declare splitOn.simps [simp del]

definition splitN2 :: "string \<Rightarrow> string \<Rightarrow> string list" where
  "splitN2 s sep = (case cut s sep of None \<Rightarrow> [s] | Some (a, b) \<Rightarrow> [a, b])"

lemma splitOn_not_contains: "\<not> contains s sep \<Longrightarrow> splitOn s sep = [s]"
  by (simp add: splitOn.simps cut_None [symmetric])

text \<open>\<open>strings.TrimRight\<close> with a cutset of single bytes.\<close>

definition trimRight :: "string \<Rightarrow> string \<Rightarrow> string" where
  "trimRight s cutset = rev (dropWhile (\<lambda>c. c \<in> set cutset) (rev s))"

lemma length_trimRight: "length (trimRight s cs) \<le> length s"
  by (simp add: trimRight_def) (metis length_dropWhile_le length_rev)

lemma prefix_trimRight: "prefix (trimRight s cs) s"
  unfolding trimRight_def suffix_to_prefix [symmetric]
  by (metis rev_rev_ident suffix_dropWhile suffix_to_prefix)

text \<open>
  \<open>strings.TrimSpace\<close> trims the code points of \<open>unicode.IsSpace\<close>. Their UTF-8 encodings are
  listed; matching an encoding at either end of the bytes is what decoding the first or last
  rune does.
\<close>

definition space_runes :: "string list" where
  "space_runes =
     [''\<newline>'', [CHR 0x09], [CHR 0x0B], [CHR 0x0C], [CHR 0x0D], '' '',
      [CHR 0xC2, CHR 0x85], [CHR 0xC2, CHR 0xA0], [CHR 0xE1, CHR 0x9A, CHR 0x80],
      [CHR 0xE2, CHR 0x80, CHR 0x80], [CHR 0xE2, CHR 0x80, CHR 0x81], [CHR 0xE2, CHR 0x80, CHR 0x82],
      [CHR 0xE2, CHR 0x80, CHR 0x83], [CHR 0xE2, CHR 0x80, CHR 0x84], [CHR 0xE2, CHR 0x80, CHR 0x85],
      [CHR 0xE2, CHR 0x80, CHR 0x86], [CHR 0xE2, CHR 0x80, CHR 0x87], [CHR 0xE2, CHR 0x80, CHR 0x88],
      [CHR 0xE2, CHR 0x80, CHR 0x89], [CHR 0xE2, CHR 0x80, CHR 0x8A], [CHR 0xE2, CHR 0x80, CHR 0xA8],
      [CHR 0xE2, CHR 0x80, CHR 0xA9], [CHR 0xE2, CHR 0x80, CHR 0xAF], [CHR 0xE2, CHR 0x81, CHR 0x9F],
      [CHR 0xE3, CHR 0x80, CHR 0x80]]"

definition space_at_start :: "string \<Rightarrow> string option" where
  "space_at_start s = find (\<lambda>w. hasPrefix s w) space_runes"

definition space_at_end :: "string \<Rightarrow> string option" where
  "space_at_end s = find (\<lambda>w. hasSuffix s w) space_runes"

lemma space_at_start_Some:
  assumes "space_at_start s = Some w"
  shows "w \<noteq> []" and "hasPrefix s w"
  using assms by (auto simp: space_at_start_def space_runes_def split: if_splits)

lemma space_at_end_Some:
  assumes "space_at_end s = Some w"
  shows "w \<noteq> []" and "hasSuffix s w"
  using assms by (auto simp: space_at_end_def space_runes_def split: if_splits)

function trimSpaceLeft :: "string \<Rightarrow> string" where
  "trimSpaceLeft s =
     (case space_at_start s of None \<Rightarrow> s | Some w \<Rightarrow> trimSpaceLeft (drop (length w) s))"
  by pat_completeness auto
termination
proof (relation "measure length", goal_cases)
  case (2 s w)
  then show ?case
    using space_at_start_Some [OF 2] by (cases s; cases w) (auto simp: hasPrefix_def)
qed simp

function trimSpaceRight :: "string \<Rightarrow> string" where
  "trimSpaceRight s =
     (case space_at_end s of None \<Rightarrow> s
      | Some w \<Rightarrow> trimSpaceRight (take (length s - length w) s))"
  by pat_completeness auto
termination
proof (relation "measure length", goal_cases)
  case (2 s w)
  then show ?case
    using space_at_end_Some [OF 2] by (cases w) (auto simp: hasSuffix_def)
qed simp

declare trimSpaceLeft.simps [simp del] trimSpaceRight.simps [simp del]

definition trimSpace :: "string \<Rightarrow> string" where
  "trimSpace s = trimSpaceRight (trimSpaceLeft s)"

lemma trimSpaceLeft_Nil [simp]: "trimSpaceLeft [] = []"
  by (subst trimSpaceLeft.simps)
    (simp add: space_at_start_def space_runes_def hasPrefix_def)

lemma trimSpaceRight_Nil [simp]: "trimSpaceRight [] = []"
  by (subst trimSpaceRight.simps)
    (simp add: space_at_end_def space_runes_def hasSuffix_def)

lemma trimSpace_Nil [simp]: "trimSpace [] = []"
  by (simp add: trimSpace_def)

section \<open>Case mapping\<close>

definition lower_char :: "char \<Rightarrow> char" where
  "lower_char c =
     (let n = of_char c :: nat in if 65 \<le> n \<and> n \<le> 90 then char_of (n + 32) else c)"

definition kelvin_sign :: string where
  "kelvin_sign = [CHR 0xE2, CHR 0x84, CHR 0xAA]"

definition dotted_I :: string where
  "dotted_I = [CHR 0xC4, CHR 0xB0]"

definition long_s :: string where
  "long_s = [CHR 0xC5, CHR 0xBF]"

fun toLower :: "string \<Rightarrow> string" where
  "toLower [] = []"
| "toLower (c # cs) =
     (if hasPrefix (c # cs) kelvin_sign then CHR ''k'' # toLower (drop 2 cs)
      else if hasPrefix (c # cs) dotted_I then CHR ''i'' # toLower (drop 1 cs)
      else lower_char c # toLower cs)"

text \<open>\<open>strings.EqualFold s t\<close> for an ASCII \<open>t\<close>: the Kelvin sign folds with \<open>k\<close> and the long
  s with \<open>s\<close>, every other code point that folds with an ASCII letter is that letter.\<close>

fun equalFold :: "string \<Rightarrow> string \<Rightarrow> bool" where
  "equalFold [] ds \<longleftrightarrow> ds = []"
| "equalFold (c # cs) ds \<longleftrightarrow>
     (case ds of [] \<Rightarrow> False
      | d # ds' \<Rightarrow>
          if hasPrefix (c # cs) kelvin_sign
          then lower_char d = CHR ''k'' \<and> equalFold (drop 2 cs) ds'
          else if hasPrefix (c # cs) long_s
          then lower_char d = CHR ''s'' \<and> equalFold (drop 1 cs) ds'
          else lower_char c = lower_char d \<and> equalFold cs ds')"

section \<open>Formatting\<close>

definition digit_char :: "nat \<Rightarrow> char" where
  "digit_char d = ''0123456789'' ! d"

fun show_nat :: "nat \<Rightarrow> string" where
  "show_nat n = (if n < 10 then [digit_char n] else show_nat (n div 10) @ [digit_char (n mod 10)])"

declare show_nat.simps [simp del]

definition show_int :: "int \<Rightarrow> string" where
  "show_int i = (if i < 0 then ''-'' @ show_nat (nat (- i)) else show_nat (nat i))"

lemma digit_char_inj:
  assumes "a < 10" and "b < 10" and "digit_char a = digit_char b"
  shows "a = b"
proof -
  have "distinct ''0123456789''" by simp
  from nth_eq_iff_index_eq [OF this, of a b] assms show ?thesis
    by (simp add: digit_char_def)
qed

lemma show_nat_nonempty [simp]: "show_nat n \<noteq> []" "[] \<noteq> show_nat n"
  by (subst show_nat.simps, simp)+

lemma show_nat_inj: "show_nat m = show_nat n \<Longrightarrow> m = n"
proof (induction m arbitrary: n rule: show_nat.induct)
  case (1 m)
  show ?case
  proof (cases "m < 10")
    case True
    with "1.prems" show ?thesis
      by (cases "n < 10") (auto simp: show_nat.simps [of m] show_nat.simps [of n] dest: digit_char_inj)
  next
    case False
    with "1.prems" have n: "\<not> n < 10"
      by (auto simp: show_nat.simps [of m] show_nat.simps [of n])
    with False "1.prems" have "show_nat (m div 10) = show_nat (n div 10)"
      and d: "digit_char (m mod 10) = digit_char (n mod 10)"
      by (auto simp: show_nat.simps [of m] show_nat.simps [of n])
    with "1.IH" False have "m div 10 = n div 10" by blast
    moreover have "m mod 10 = n mod 10" using d by (auto intro: digit_char_inj)
    ultimately show ?thesis by (metis div_mult_mod_eq)
  qed
qed

lemma digit_char_digit: "d < 10 \<Longrightarrow> digit_char d \<in> set ''0123456789''"
  unfolding digit_char_def by (rule nth_mem) simp

lemma show_nat_digits: "set (show_nat n) \<subseteq> set ''0123456789''"
proof (induction n rule: show_nat.induct)
  case (1 n)
  show ?case
  proof (cases "n < 10")
    case True
    then show ?thesis using digit_char_digit [of n] by (subst show_nat.simps) simp
  next
    case False
    then show ?thesis
      using "1.IH" digit_char_digit [of "n mod 10"] by (subst show_nat.simps) simp
  qed
qed

text \<open>\<open>%q\<close>: exact for ASCII arguments; the bytes of a non-ASCII rune are copied.\<close>

definition hex_digit :: "nat \<Rightarrow> char" where
  "hex_digit d = ''0123456789abcdef'' ! d"

definition hex_byte :: "char \<Rightarrow> string" where
  "hex_byte c = (let n = of_char c :: nat in [hex_digit (n div 16), hex_digit (n mod 16)])"

definition hex :: "string \<Rightarrow> string" where
  "hex s = concat (map hex_byte s)"

lemma length_hex [simp]: "length (hex s) = 2 * length s"
  by (induction s) (auto simp: hex_def hex_byte_def Let_def)

definition quote_char :: "char \<Rightarrow> string" where
  "quote_char c =
     (let n = of_char c :: nat in
      if n = 34 \<or> n = 92 then [CHR 0x5C, c]
      else if n = 7 then [CHR 0x5C, CHR ''a'']
      else if n = 8 then [CHR 0x5C, CHR ''b'']
      else if n = 12 then [CHR 0x5C, CHR ''f'']
      else if n = 10 then [CHR 0x5C, CHR ''n'']
      else if n = 13 then [CHR 0x5C, CHR ''r'']
      else if n = 9 then [CHR 0x5C, CHR ''t'']
      else if n = 11 then [CHR 0x5C, CHR ''v'']
      else if n < 32 \<or> n = 127 then [CHR 0x5C, CHR ''x''] @ hex_byte c
      else [c])"

definition quoted :: "string \<Rightarrow> string" where
  "quoted s = [CHR 34] @ concat (map quote_char s) @ [CHR 34]"

section \<open>Time\<close>

text \<open>Instants are nanoseconds since the Unix epoch, durations are nanoseconds; the zero
  \<open>time.Time\<close> is the first of January of the year 1. A nil pointer to a time is \<open>None\<close>.\<close>

abbreviation (input) nanosecond :: int where "nanosecond \<equiv> 1"
abbreviation (input) second :: int where "second \<equiv> 1000000000"
abbreviation (input) minute :: int where "minute \<equiv> 60000000000"
abbreviation (input) hour :: int where "hour \<equiv> 3600000000000"

definition zero_time :: int where
  "zero_time = - 62135596800000000000"

text \<open>\<open>time.Duration.String\<close>. A fraction is printed without trailing zeros.\<close>

fun frac_digits :: "nat \<Rightarrow> int \<Rightarrow> string" where
  "frac_digits 0 v = []"
| "frac_digits (Suc p) v = frac_digits p (v div 10) @ [digit_char (nat (v mod 10))]"

definition show_frac :: "nat \<Rightarrow> int \<Rightarrow> string" where
  "show_frac p v = (let ds = trimRight (frac_digits p v) ''0'' in if ds = [] then [] else ''.'' @ ds)"

definition show_duration_abs :: "int \<Rightarrow> string" where
  "show_duration_abs u =
     (if u = 0 then ''0s''
      else if u < 1000 then show_int u @ ''ns''
      else if u < 1000000 then show_int (u div 1000) @ show_frac 3 (u mod 1000) @ [CHR 0xC2, CHR 0xB5, CHR ''s'']
      else if u < 1000000000 then show_int (u div 1000000) @ show_frac 6 (u mod 1000000) @ ''ms''
      else
        (let secs = u div 1000000000; mins = secs div 60; hs = mins div 60;
             s = show_int (secs mod 60) @ show_frac 9 (u mod 1000000000) @ ''s'' in
         if mins = 0 then s
         else if hs = 0 then show_int (mins mod 60) @ ''m'' @ s
         else show_int hs @ ''h'' @ show_int (mins mod 60) @ ''m'' @ s))"

definition show_duration :: "int \<Rightarrow> string" where
  "show_duration d =
     (if d < 0 then ''-'' @ show_duration_abs (- d) else show_duration_abs d)"

section \<open>Weakest preconditions of state computations\<close>

text \<open>
  \<open>wp m Q s\<close> says that running \<open>m\<close> in state \<open>s\<close> ends with a value and a state that satisfy
  \<open>Q\<close>. State computations are total, so it is both the weakest precondition and a statement of
  total correctness.
\<close>

definition wp :: "('s, 'a) state \<Rightarrow> ('a \<Rightarrow> 's \<Rightarrow> bool) \<Rightarrow> 's \<Rightarrow> bool" where
  "wp m Q s = (case run_state m s of (a, t) \<Rightarrow> Q a t)"

definition ret :: "'a \<Rightarrow> ('s, 'a) state" where
  "ret = State_Monad.return"

definition gets :: "('s \<Rightarrow> 'a) \<Rightarrow> ('s, 'a) state" where
  "gets f = State (\<lambda>s. (f s, s))"

definition modify :: "('s \<Rightarrow> 's) \<Rightarrow> ('s, unit) state" where
  "modify f = State (\<lambda>s. ((), f s))"

lemma run_ret [simp]: "run_state (ret x) s = (x, s)"
  by (simp add: ret_def)

lemma run_gets [simp]: "run_state (gets f) s = (f s, s)"
  by (simp add: gets_def)

lemma run_modify [simp]: "run_state (modify f) s = ((), f s)"
  by (simp add: modify_def)

lemma wp_ret [wp_simp]: "wp (ret x) Q s = Q x s"
  by (simp add: wp_def)

lemma wp_gets [wp_simp]: "wp (gets f) Q s = Q (f s) s"
  by (simp add: wp_def)

lemma wp_modify [wp_simp]: "wp (modify f) Q s = Q () (f s)"
  by (simp add: wp_def)

lemma wp_bind [wp_simp]: "wp (State_Monad.bind m f) Q s = wp m (\<lambda>x. wp (f x) Q) s"
  by (simp add: wp_def split: prod.split)

lemma wp_run: "wp m Q s \<Longrightarrow> run_state m s = (a, t) \<Longrightarrow> Q a t"
  by (simp add: wp_def)

lemma wp_mono: "wp m Q s \<Longrightarrow> (\<And>a t. Q a t \<Longrightarrow> R a t) \<Longrightarrow> wp m R s"
  by (auto simp: wp_def split: prod.splits)

lemma wp_conj: "wp m (\<lambda>a t. Q a t \<and> R a t) s \<longleftrightarrow> wp m Q s \<and> wp m R s"
  by (simp add: wp_def split: prod.split)

lemma wp_True [simp]: "wp m (\<lambda>a t. True) s"
  by (simp add: wp_def split: prod.split)

lemma wp_any: "(\<And>a t. Q a t) \<Longrightarrow> wp m Q s"
  by (simp add: wp_def split: prod.split)

lemma wp_seq: "wp m P s \<Longrightarrow> (\<And>a t. P a t \<Longrightarrow> wp (f a) Q t) \<Longrightarrow> wp (State_Monad.bind m f) Q s"
  by (auto simp: wp_bind elim: wp_mono)

lemma wp_any_bind: "(\<And>a t. wp (f a) Q t) \<Longrightarrow> wp (State_Monad.bind m f) Q s"
  by (simp add: wp_bind wp_any)

text \<open>A computation keeps an invariant when every run from a state that satisfies it ends in
  one that does; the rules below follow the structure of the code.\<close>

definition keeps :: "('s \<Rightarrow> bool) \<Rightarrow> ('s, 'a) state \<Rightarrow> bool" where
  "keeps I m \<longleftrightarrow> (\<forall>s. I s \<longrightarrow> I (snd (run_state m s)))"

named_theorems keeps_intro \<open>rules that show that a computation keeps an invariant\<close>

lemma keepsI: "(\<And>s. I s \<Longrightarrow> wp m (\<lambda>_. I) s) \<Longrightarrow> keeps I m"
  by (simp add: keeps_def wp_def case_prod_beta)

lemma keepsD: "keeps I m \<Longrightarrow> I s \<Longrightarrow> wp m (\<lambda>_. I) s"
  by (auto simp: keeps_def wp_def split: prod.splits)

lemma keeps_runD: "keeps I m \<Longrightarrow> I s \<Longrightarrow> run_state m s = (a, t) \<Longrightarrow> I t"
  by (auto simp: keeps_def)

lemma keeps_ret [keeps_intro]: "keeps I (ret x)"
  by (simp add: keeps_def)

lemma keeps_gets [keeps_intro]: "keeps I (gets f)"
  by (simp add: keeps_def)

lemma keeps_modify: "(\<And>s. I s \<Longrightarrow> I (f s)) \<Longrightarrow> keeps I (modify f)"
  by (simp add: keeps_def)

lemma keeps_bind [keeps_intro]:
  "keeps I m \<Longrightarrow> (\<And>x. keeps I (f x)) \<Longrightarrow> keeps I (State_Monad.bind m f)"
  by (auto simp: keeps_def split: prod.splits)

lemma keeps_if [keeps_intro]:
  "(b \<Longrightarrow> keeps I m) \<Longrightarrow> (\<not> b \<Longrightarrow> keeps I n) \<Longrightarrow> keeps I (if b then m else n)"
  by simp

lemma keeps_option [keeps_intro]:
  "(x = None \<Longrightarrow> keeps I m) \<Longrightarrow> (\<And>y. x = Some y \<Longrightarrow> keeps I (f y)) \<Longrightarrow>
   keeps I (case x of None \<Rightarrow> m | Some y \<Rightarrow> f y)"
  by (cases x) auto

lemma keeps_sum [keeps_intro]:
  "(\<And>e. x = Inl e \<Longrightarrow> keeps I (g e)) \<Longrightarrow> (\<And>y. x = Inr y \<Longrightarrow> keeps I (f y)) \<Longrightarrow>
   keeps I (case x of Inl e \<Rightarrow> g e | Inr y \<Rightarrow> f y)"
  by (cases x) auto

lemma keeps_prod [keeps_intro]:
  "(\<And>a b. x = (a, b) \<Longrightarrow> keeps I (f a b)) \<Longrightarrow> keeps I (case x of (a, b) \<Rightarrow> f a b)"
  by (cases x) auto

lemma keeps_list [keeps_intro]:
  "(xs = [] \<Longrightarrow> keeps I m) \<Longrightarrow> (\<And>y ys. xs = y # ys \<Longrightarrow> keeps I (f y ys)) \<Longrightarrow>
   keeps I (case xs of [] \<Rightarrow> m | y # ys \<Rightarrow> f y ys)"
  by (cases xs) auto

text \<open>A loop over a list that stops at the first error, as a \<open>for\<close> with an early return.\<close>

fun for_each :: "'a list \<Rightarrow> ('a \<Rightarrow> ('s, 'e option) state) \<Rightarrow> ('s, 'e option) state" where
  "for_each [] f = ret None"
| "for_each (x # xs) f =
     do { r \<leftarrow> f x; case r of Some e \<Rightarrow> ret (Some e) | None \<Rightarrow> for_each xs f }"

lemma keeps_for_each [keeps_intro]: "(\<And>x. x \<in> set xs \<Longrightarrow> keeps I (f x)) \<Longrightarrow> keeps I (for_each xs f)"
  by (induction xs) (auto intro!: keeps_intro)

text \<open>Every value a computation can return satisfies \<open>P\<close>.\<close>

definition yields :: "('a \<Rightarrow> bool) \<Rightarrow> ('s, 'a) state \<Rightarrow> bool" where
  "yields P m \<longleftrightarrow> (\<forall>s. P (fst (run_state m s)))"

named_theorems yields_intro \<open>rules that show what a computation returns\<close>

lemma yieldsD: "yields P m \<Longrightarrow> wp m (\<lambda>a _. P a) s"
  by (simp add: yields_def wp_def case_prod_beta)

lemma yields_runD: "yields P m \<Longrightarrow> run_state m s = (a, t) \<Longrightarrow> P a"
  by (metis fst_conv yields_def)

lemma yields_ret [yields_intro]: "P x \<Longrightarrow> yields P (ret x)"
  by (simp add: yields_def)

lemma yields_bind [yields_intro]: "(\<And>x. yields P (f x)) \<Longrightarrow> yields P (State_Monad.bind m f)"
  by (auto simp: yields_def split: prod.split)

lemma yields_if [yields_intro]:
  "(b \<Longrightarrow> yields P m) \<Longrightarrow> (\<not> b \<Longrightarrow> yields P n) \<Longrightarrow> yields P (if b then m else n)"
  by simp

lemma yields_option [yields_intro]:
  "yields P m \<Longrightarrow> (\<And>y. yields P (f y)) \<Longrightarrow> yields P (case x of None \<Rightarrow> m | Some y \<Rightarrow> f y)"
  by (cases x) auto

lemma yields_sum [yields_intro]:
  "(\<And>e. yields P (g e)) \<Longrightarrow> (\<And>y. yields P (f y)) \<Longrightarrow>
   yields P (case x of Inl e \<Rightarrow> g e | Inr y \<Rightarrow> f y)"
  by (cases x) auto

lemma yields_prod [yields_intro]:
  "(\<And>a b. yields P (f a b)) \<Longrightarrow> yields P (case x of (a, b) \<Rightarrow> f a b)"
  by (cases x) auto

section \<open>Lists keyed by a function\<close>

text \<open>Replace the first element with the key of the given one, or append: the upsert that
  conditions, pipeline steps, upload operations and operation records share.\<close>

fun find_index :: "('a \<Rightarrow> bool) \<Rightarrow> 'a list \<Rightarrow> nat option" where
  "find_index P [] = None"
| "find_index P (x # xs) = (if P x then Some 0 else map_option Suc (find_index P xs))"

fun update_first :: "('a \<Rightarrow> bool) \<Rightarrow> ('a \<Rightarrow> 'a) \<Rightarrow> 'a list \<Rightarrow> 'a list" where
  "update_first P f [] = []"
| "update_first P f (x # xs) = (if P x then f x # xs else x # update_first P f xs)"

lemma length_update_first [simp]: "length (update_first P f xs) = length xs"
  by (induction xs) auto

lemma update_first_none: "\<not> (\<exists>x \<in> set xs. P x) \<Longrightarrow> update_first P f xs = xs"
  by (induction xs) auto

lemma map_update_first: "(\<And>x. P x \<Longrightarrow> k (f x) = k x) \<Longrightarrow> map k (update_first P f xs) = map k xs"
  by (induction xs) auto

lemma set_update_first: "set (update_first P f xs) \<subseteq> set xs \<union> f ` {x \<in> set xs. P x}"
  by (induction xs) auto

end
