(* ===== verification/Provider_Errors.thy ===== *)
theory Provider_Errors
  imports Prelude
begin

text \<open>
  Go errors and their retry classification (\<open>pkg/provider/errors/errors.go\<close>). An error value is a
  chain: each link has a message, the capabilities that \<open>errors.Is\<close> and \<open>errors.As\<close> look for, and
  the error it wraps. \<open>errors.As\<close> finds the first link with the capability.
\<close>

section \<open>Error chains\<close>

text \<open>
  One field per interface or sentinel the classifier asks for: \<open>Transient\<close> and \<open>RetryAfter\<close> of
  \<open>classifiedError\<close>, the sentinels \<open>context.DeadlineExceeded\<close> and \<open>context.Canceled\<close>,
  \<open>Timeout\<close> of \<open>net.Error\<close>, the gRPC status code with its \<open>RetryInfo\<close> details, and the three
  methods of the cloud SDK errors.
\<close>

record error_caps =
  cap_transient :: "bool option"
  cap_retryAfter :: "int option"
  cap_deadlineExceeded :: bool
  cap_canceled :: bool
  cap_netTimeout :: "bool option"
  cap_grpcStatus :: "(nat \<times> int option) option"
  cap_httpStatusCode :: "int option"
  cap_statusCode :: "int option"
  cap_errorCode :: "string option"

definition no_caps :: error_caps where
  "no_caps =
     \<lparr>cap_transient = None, cap_retryAfter = None, cap_deadlineExceeded = False,
      cap_canceled = False, cap_netTimeout = None, cap_grpcStatus = None,
      cap_httpStatusCode = None, cap_statusCode = None, cap_errorCode = None\<rparr>"

datatype go_error = Err (err_msg: string) (err_caps: error_caps) (err_cause: "go_error option")

text \<open>\<open>errors.New\<close> and \<open>fmt.Errorf\<close> without a wrapped error, and \<open>fmt.Errorf("...: %w", err)\<close>.\<close>

definition errorf :: "string \<Rightarrow> go_error" where
  "errorf m = Err m no_caps None"

definition wrapf :: "string \<Rightarrow> go_error \<Rightarrow> go_error" where
  "wrapf m e = Err (m @ err_msg e) no_caps (Some e)"

fun error_chain :: "go_error \<Rightarrow> error_caps list" where
  "error_chain (Err m c None) = [c]"
| "error_chain (Err m c (Some e)) = c # error_chain e"

definition errors_as :: "(error_caps \<Rightarrow> 'a option) \<Rightarrow> go_error \<Rightarrow> 'a option" where
  "errors_as f e = (case List.map_filter f (error_chain e) of [] \<Rightarrow> None | x # _ \<Rightarrow> Some x)"

definition errors_is :: "(error_caps \<Rightarrow> bool) \<Rightarrow> go_error \<Rightarrow> bool" where
  "errors_is P e = list_ex P (error_chain e)"

lemma errors_as_errorf [simp]: "errors_as f (errorf m) = f no_caps"
  by (simp add: errors_as_def errorf_def List.map_filter_def split: option.split)

lemma errors_as_Err:
  "errors_as f (Err m c x) =
     (case f c of Some v \<Rightarrow> Some v | None \<Rightarrow> (case x of None \<Rightarrow> None | Some e \<Rightarrow> errors_as f e))"
  by (cases x) (auto simp: errors_as_def List.map_filter_def split: option.split)

lemma errors_is_Err:
  "errors_is P (Err m c x) = (P c \<or> (case x of None \<Rightarrow> False | Some e \<Rightarrow> errors_is P e))"
  by (cases x) (auto simp: errors_is_def)

text \<open>Wrapping with a message keeps every capability that the empty link does not have.\<close>

lemma errors_as_wrapf [simp]: "f no_caps = None \<Longrightarrow> errors_as f (wrapf m e) = errors_as f e"
  by (simp add: wrapf_def errors_as_Err)

lemma errors_is_wrapf [simp]: "\<not> P no_caps \<Longrightarrow> errors_is P (wrapf m e) = errors_is P e"
  by (simp add: wrapf_def errors_is_Err)

section \<open>Marking errors\<close>

text \<open>\<open>Transient\<close> and \<open>Terminal\<close> build a \<open>classifiedError\<close>, which has both methods; a nil
  error stays nil.\<close>

definition classifiedError :: "go_error \<Rightarrow> bool \<Rightarrow> int \<Rightarrow> go_error" where
  "classifiedError e transient retryAfter =
     Err (err_msg e)
       (no_caps\<lparr>cap_transient := Some transient, cap_retryAfter := Some retryAfter\<rparr>) (Some e)"

definition Transient :: "go_error option \<Rightarrow> int \<Rightarrow> go_error option" where
  "Transient err retryAfter = map_option (\<lambda>e. classifiedError e True retryAfter) err"

definition Terminal :: "go_error option \<Rightarrow> go_error option" where
  "Terminal err = map_option (\<lambda>e. classifiedError e False 0) err"

section \<open>Classification\<close>

definition isExplicitlyClassified :: "go_error \<Rightarrow> bool" where
  "isExplicitlyClassified e \<longleftrightarrow> errors_as cap_transient e \<noteq> None"

definition transientHTTPStatus :: "int \<Rightarrow> bool" where
  "transientHTTPStatus code \<longleftrightarrow> code = 408 \<or> code = 429 \<or> code \<ge> 500"

text \<open>\<open>strings.NewReplacer("_", "", "-", "", " ", "")\<close> deletes the three bytes.\<close>

definition transientErrorCode :: "string \<Rightarrow> bool" where
  "transientErrorCode code0 =
     (let code = toLower (trimSpace code0);
          code = filter (\<lambda>c. c \<notin> set ''_- '') code
      in list_ex (\<lambda>marker. contains code marker)
           [''throttl'', ''requestlimitexceeded'', ''requesttimeout'', ''requestexpired'',
            ''serviceunavailable'', ''temporarilyunavailable'', ''toomanyrequests'',
            ''internalerror'', ''internalfailure'', ''serverbusy'', ''operationtimedout'',
            ''resourceexhausted'', ''quotaexceeded'', ''ratelimitexceeded''])"

text \<open>\<open>status.Code\<close>: the code of the first gRPC status of the chain, \<open>Unknown\<close> (2) for an error
  without one. \<open>OK\<close> is 0, \<open>DeadlineExceeded\<close> 4, \<open>ResourceExhausted\<close> 8, \<open>Aborted\<close> 10,
  \<open>Unavailable\<close> 14.\<close>

abbreviation (input) codes_OK :: nat where "codes_OK \<equiv> 0"
abbreviation (input) codes_Unknown :: nat where "codes_Unknown \<equiv> 2"
abbreviation (input) codes_DeadlineExceeded :: nat where "codes_DeadlineExceeded \<equiv> 4"
abbreviation (input) codes_ResourceExhausted :: nat where "codes_ResourceExhausted \<equiv> 8"
abbreviation (input) codes_FailedPrecondition :: nat where "codes_FailedPrecondition \<equiv> 9"
abbreviation (input) codes_Aborted :: nat where "codes_Aborted \<equiv> 10"
abbreviation (input) codes_Unimplemented :: nat where "codes_Unimplemented \<equiv> 12"
abbreviation (input) codes_Unavailable :: nat where "codes_Unavailable \<equiv> 14"

definition status_Code :: "go_error \<Rightarrow> nat" where
  "status_Code e = (case errors_as cap_grpcStatus e of None \<Rightarrow> codes_Unknown | Some (c, _) \<Rightarrow> c)"

definition genericTransient :: "go_error \<Rightarrow> bool" where
  "genericTransient err =
     (if errors_is cap_deadlineExceeded err then True
      else if errors_is cap_canceled err then False
      else if errors_as cap_netTimeout err = Some True then True
      else
        (let code = status_Code err in
         if code \<in> {codes_Unavailable, codes_DeadlineExceeded, codes_ResourceExhausted, codes_Aborted}
         then True
         else if code \<notin> {codes_OK, codes_Unknown} then False
         else if (\<exists>c \<in> set_option (errors_as cap_httpStatusCode err). transientHTTPStatus c) then True
         else if (\<exists>c \<in> set_option (errors_as cap_statusCode err). transientHTTPStatus c) then True
         else (\<exists>c \<in> set_option (errors_as cap_errorCode err). transientErrorCode c)))"

definition Classify :: "go_error option \<Rightarrow> go_error option" where
  "Classify err =
     (case err of None \<Rightarrow> None
      | Some e \<Rightarrow>
          if isExplicitlyClassified e then Some e
          else if genericTransient e then Transient (Some e) 0
          else Some e)"

definition IsTransient :: "go_error option \<Rightarrow> bool" where
  "IsTransient err =
     (case err of None \<Rightarrow> False
      | Some e \<Rightarrow>
          (case errors_as cap_transient e of Some t \<Rightarrow> t | None \<Rightarrow> genericTransient e))"

text \<open>The details of the gRPC status of the chain are used only when no link has a
  \<open>RetryAfter\<close> method of its own; a nil error has no delay.\<close>

definition RetryAfter :: "go_error option \<Rightarrow> int" where
  "RetryAfter err =
     (case err of None \<Rightarrow> 0
      | Some e \<Rightarrow>
          (case errors_as cap_retryAfter e of Some d \<Rightarrow> d
           | None \<Rightarrow>
               (case errors_as cap_grpcStatus e of Some (_, Some d) \<Rightarrow> d | _ \<Rightarrow> 0)))"

section \<open>Lemmas\<close>

lemma no_caps_simps [simp]:
  "cap_transient no_caps = None" "cap_retryAfter no_caps = None"
  "\<not> cap_deadlineExceeded no_caps" "\<not> cap_canceled no_caps" "cap_netTimeout no_caps = None"
  "cap_grpcStatus no_caps = None" "cap_httpStatusCode no_caps = None"
  "cap_statusCode no_caps = None" "cap_errorCode no_caps = None"
  by (simp_all add: no_caps_def)

lemma errors_as_classified [simp]:
  "errors_as cap_transient (classifiedError e t d) = Some t"
  "errors_as cap_retryAfter (classifiedError e t d) = Some d"
  by (simp_all add: classifiedError_def errors_as_Err)

lemma status_Code_wrapf [simp]: "status_Code (wrapf m e) = status_Code e"
  by (simp add: status_Code_def)

lemma genericTransient_wrapf [simp]: "genericTransient (wrapf m e) = genericTransient e"
  by (simp add: genericTransient_def Let_def cong: if_cong)

lemma IsTransient_wrapf [simp]: "IsTransient (Some (wrapf m e)) = IsTransient (Some e)"
  by (simp add: IsTransient_def split: option.split)

lemma RetryAfter_wrapf [simp]: "RetryAfter (Some (wrapf m e)) = RetryAfter (Some e)"
  by (simp add: RetryAfter_def split: option.split)

lemma IsTransient_classified [simp]: "IsTransient (Some (classifiedError e t d)) = t"
  by (simp add: IsTransient_def)

lemma genericTransient_errorf [simp]: "\<not> genericTransient (errorf m)"
  by (simp add: genericTransient_def status_Code_def Let_def errors_is_def)
    (simp add: errorf_def)

lemma IsTransient_errorf [simp]: "\<not> IsTransient (Some (errorf m))"
  by (simp add: IsTransient_def)

text \<open>Classification is idempotent and does not change what an error is, only records it.\<close>

lemma IsTransient_Classify [simp]: "IsTransient (Classify err) = IsTransient err"
proof (cases err)
  case None
  then show ?thesis by (simp add: Classify_def)
next
  case (Some e)
  then show ?thesis
    by (auto simp: Classify_def Transient_def IsTransient_def isExplicitlyClassified_def
        split: option.splits)
qed

lemma Classify_idem [simp]: "Classify (Classify err) = Classify err"
  by (cases err)
    (auto simp: Classify_def Transient_def isExplicitlyClassified_def)

end
