(* ===== verification/Netguard.thy ===== *)
theory Netguard
  imports Provider_Errors
begin

unbundle bit_operations_syntax

text \<open>
  The SSRF guard (\<open>pkg/security/netguard/url.go\<close>), used by the admission webhooks, the
  reconcilers and the uploader. \<open>net.ParseIP\<close>, \<open>net.ParseCIDR\<close> and \<open>IPNet.Contains\<close> are
  modelled on 32- and 128-bit words; \<open>url.Parse\<close> and the DNS resolver are parameters.
\<close>

section \<open>Addresses\<close>

text \<open>A parsed address; \<open>to4\<close> is \<open>IP.To4\<close>, which also accepts the IPv4-mapped IPv6 form.\<close>

datatype addr = A4 "32 word" | A6 "128 word"

definition to4 :: "addr \<Rightarrow> 32 word option" where
  "to4 a =
     (case a of A4 w \<Rightarrow> Some w
      | A6 w \<Rightarrow> if drop_bit 32 w = 0xFFFF then Some (ucast w) else None)"

definition normal :: "addr \<Rightarrow> addr" where
  "normal a = (case to4 a of Some w \<Rightarrow> A4 w | None \<Rightarrow> a)"

fun digits_value :: "int \<Rightarrow> string \<Rightarrow> int \<Rightarrow> int option" where
  "digits_value base [] acc = Some acc"
| "digits_value base (c # cs) acc =
     (let n = of_char c :: int;
          d = (if 48 \<le> n \<and> n \<le> 57 then n - 48
               else if 97 \<le> n \<and> n \<le> 102 then n - 87
               else if 65 \<le> n \<and> n \<le> 70 then n - 55 else 99)
      in if d < base then digits_value base cs (acc * base + d) else None)"

text \<open>A decimal field of an IPv4 address: at most three digits, no leading zero, at most 255.\<close>

definition parse_octet :: "string \<Rightarrow> int option" where
  "parse_octet s =
     (if s = [] \<or> length s > 3 \<or> (length s > 1 \<and> hd s = CHR ''0'') then None
      else case digits_value 10 s 0 of Some n \<Rightarrow> if n \<le> 255 then Some n else None | None \<Rightarrow> None)"

definition parse_v4 :: "string \<Rightarrow> 32 word option" where
  "parse_v4 s =
     (case map parse_octet (splitOn s ''.'') of
        [Some a, Some b, Some c, Some d] \<Rightarrow>
          Some (word_of_int (((a * 256 + b) * 256 + c) * 256 + d))
      | _ \<Rightarrow> None)"

text \<open>The 16-bit groups of one side of an IPv6 address; the last may be a dotted IPv4 address.\<close>

definition parse_group :: "string \<Rightarrow> int option" where
  "parse_group s = (if s = [] \<or> length s > 4 then None else digits_value 16 s 0)"

fun parse_groups :: "string list \<Rightarrow> int list option" where
  "parse_groups [] = Some []"
| "parse_groups [g] =
     (if contains g ''.''
      then map_option (\<lambda>w. [uint w div 65536, uint w mod 65536]) (parse_v4 g)
      else map_option (\<lambda>n. [n]) (parse_group g))"
| "parse_groups (g # gs) =
     (case parse_group g of None \<Rightarrow> None | Some n \<Rightarrow> map_option ((#) n) (parse_groups gs))"

definition side_groups :: "string \<Rightarrow> int list option" where
  "side_groups s = (if s = [] then Some [] else parse_groups (splitOn s '':''))"

definition groups_word :: "int list \<Rightarrow> 128 word" where
  "groups_word gs = word_of_int (foldl (\<lambda>acc g. acc * 65536 + g) 0 gs)"

text \<open>The double colon stands for at least one group of zeros, and a dotted tail is allowed on
  its right side only.\<close>

definition parse_v6 :: "string \<Rightarrow> 128 word option" where
  "parse_v6 s =
     (case cut s ''::'' of
        None \<Rightarrow>
          (case side_groups s of
             Some gs \<Rightarrow> if length gs = 8 then Some (groups_word gs) else None
           | None \<Rightarrow> None)
      | Some (l, r) \<Rightarrow>
          (case (side_groups l, side_groups r) of
             (Some ls, Some rs) \<Rightarrow>
               if \<not> contains l ''.'' \<and> length ls + length rs \<le> 7
               then Some (groups_word (ls @ replicate (8 - length ls - length rs) 0 @ rs))
               else None
           | _ \<Rightarrow> None))"

definition parseIP :: "string \<Rightarrow> addr option" where
  "parseIP s =
     (if contains s '':'' then map_option A6 (parse_v6 s) else map_option A4 (parse_v4 s))"

section \<open>Networks\<close>

text \<open>A network is its address masked to the prefix and the number of host bits: an address is in
  it when the two agree above the host bits. \<open>IPNet.Contains\<close> compares addresses of one family.\<close>

datatype ipnet = N4 "32 word" nat | N6 "128 word" nat

definition net_contains :: "ipnet \<Rightarrow> addr \<Rightarrow> bool" where
  "net_contains n a =
     (case (n, normal a) of
        (N4 b k, A4 w) \<Rightarrow> drop_bit k w = drop_bit k b
      | (N6 b k, A6 w) \<Rightarrow> drop_bit k w = drop_bit k b
      | _ \<Rightarrow> False)"

definition net_IP :: "ipnet \<Rightarrow> addr" where
  "net_IP n = (case n of N4 b k \<Rightarrow> A4 b | N6 b k \<Rightarrow> A6 b)"

text \<open>\<open>dtoi\<close>: decimal digits, below \<open>0xFFFFFF\<close>.\<close>

definition parse_prefix_len :: "string \<Rightarrow> int option" where
  "parse_prefix_len s =
     (if s = [] then None
      else case digits_value 10 s 0 of Some n \<Rightarrow> if n < 16777215 then Some n else None | None \<Rightarrow> None)"

definition masked4 :: "32 word \<Rightarrow> nat \<Rightarrow> ipnet" where
  "masked4 w p = N4 (push_bit (32 - p) (drop_bit (32 - p) w)) (32 - p)"

text \<open>A network whose masked address is IPv4-mapped is compared as an IPv4 network, under the low
  32 bits of its mask (\<open>networkNumberAndMask\<close>).\<close>

definition masked6 :: "128 word \<Rightarrow> nat \<Rightarrow> ipnet" where
  "masked6 w p =
     (let b = push_bit (128 - p) (drop_bit (128 - p) w) in
      case to4 (A6 b) of Some v \<Rightarrow> N4 v (min 32 (128 - p)) | None \<Rightarrow> N6 b (128 - p))"

definition parseCIDR :: "string \<Rightarrow> ipnet option" where
  "parseCIDR s =
     (case cut s ''/'' of None \<Rightarrow> None
      | Some (address, masklen) \<Rightarrow>
          (case (parseIP address, parse_prefix_len masklen) of
             (Some (A4 w), Some p) \<Rightarrow> if p \<le> 32 then Some (masked4 w (nat p)) else None
           | (Some (A6 w), Some p) \<Rightarrow> if p \<le> 128 then Some (masked6 w (nat p)) else None
           | _ \<Rightarrow> None))"

text \<open>A network of the tables is kept with its text, which is what \<open>IPNet.String\<close> prints for the
  canonical texts of the two tables.\<close>

definition mustCIDRs :: "string list \<Rightarrow> (string \<times> ipnet) list" where
  "mustCIDRs raw = List.map_filter (\<lambda>c. map_option (Pair c) (parseCIDR c)) raw"

definition permanentlyBlockedCIDRs :: "(string \<times> ipnet) list" where
  "permanentlyBlockedCIDRs =
     mustCIDRs
       [''0.0.0.0/8'', ''100.64.0.0/10'', ''127.0.0.0/8'', ''169.254.0.0/16'', ''224.0.0.0/4'',
        ''::/128'', ''::1/128'', ''fe80::/10'', ''ff00::/8'']"

definition privateCIDRs :: "(string \<times> ipnet) list" where
  "privateCIDRs =
     mustCIDRs [''10.0.0.0/8'', ''172.16.0.0/12'', ''192.168.0.0/16'', ''fc00::/7'']"

definition containedByAny :: "addr \<Rightarrow> ipnet list \<Rightarrow> bool" where
  "containedByAny ip networks = list_ex (\<lambda>n. net_contains n ip) networks"

definition overlaps_permanent :: "ipnet \<Rightarrow> (string \<times> ipnet) option" where
  "overlaps_permanent network =
     find (\<lambda>(c, p). net_contains p (net_IP network) \<or> net_contains network (net_IP p))
       permanentlyBlockedCIDRs"

fun parseCIDRs :: "string list \<Rightarrow> go_error + ipnet list" where
  "parseCIDRs [] = Inr []"
| "parseCIDRs (value # raw) =
     (case parseCIDR (trimSpace value) of
        None \<Rightarrow> Inl (errorf (quoted value @ '' is not a CIDR''))
      | Some network \<Rightarrow>
          (case overlaps_permanent network of
             Some (c, p) \<Rightarrow>
               Inl (errorf (quoted value @ '' overlaps permanently blocked range '' @ c))
           | None \<Rightarrow> result_bind (parseCIDRs raw) (\<lambda>nets. Inr (network # nets))))"

section \<open>URL validation\<close>

text \<open>What the guard reads of a parsed URL, and the options of the caller. The resolver is the
  configured one, or the process default; either way a function from host names to a lookup
  result.\<close>

record URL =
  u_scheme :: string
  u_user :: bool
  u_hostname :: string

record Options =
  o_allowUnresolved :: bool
  o_allowedPrivateCIDRs :: "string list"
  o_allowedDNSNames :: "string list"

type_synonym url_parser = "string \<Rightarrow> go_error + URL"
type_synonym resolver = "string \<Rightarrow> go_error + string list"

definition canonical_name :: "string \<Rightarrow> string" where
  "canonical_name s = toLower (trimSuffix (trimSpace s) ''.'')"

fun dnsNameAllowed_pattern :: "string \<Rightarrow> string \<Rightarrow> bool" where
  "dnsNameAllowed_pattern host pattern0 =
     (let pattern = canonical_name pattern0 in
      if pattern = host then True
      else if hasPrefix pattern ''*.'' then
        (let suffix = trimPrefix pattern ''*''
         in hasSuffix host suffix \<and> host \<noteq> trimPrefix suffix ''.'')
      else False)"

definition dnsNameAllowed :: "string \<Rightarrow> string list \<Rightarrow> bool" where
  "dnsNameAllowed host0 patterns = list_ex (dnsNameAllowed_pattern (canonical_name host0)) patterns"

text \<open>The check of one resolved address; an address that does not parse is skipped.\<close>

definition check_addr :: "string \<Rightarrow> string \<Rightarrow> ipnet list \<Rightarrow> string \<Rightarrow> go_error option" where
  "check_addr fieldPath host allowedPrivate address =
     (case parseIP address of None \<Rightarrow> None
      | Some ip \<Rightarrow>
          (case find (\<lambda>(c, n). net_contains n ip) permanentlyBlockedCIDRs of
             Some (c, _) \<Rightarrow>
               Some (errorf (fieldPath @ '': URL host '' @ quoted host @ '' resolves to '' @ address @
                 '' which is in blocked range '' @ c @ '' (SSRF protection, AS-047)''))
           | None \<Rightarrow>
               if list_ex (\<lambda>(c, n). net_contains n ip \<and> \<not> containedByAny ip allowedPrivate) privateCIDRs
               then Some (errorf (fieldPath @ '': URL host '' @ quoted host @
                 '' resolves to private address '' @ address @ '' outside the configured CIDR allowlist''))
               else None))"

definition ValidatePublicHTTPSURL ::
    "url_parser \<Rightarrow> resolver \<Rightarrow> string \<Rightarrow> string \<Rightarrow> Options \<Rightarrow> go_error option" where
  "ValidatePublicHTTPSURL url_parse lookupHost fieldPath rawURL opts =
     (if rawURL = '''' then None
      else case url_parse rawURL of
        Inl err \<Rightarrow> Some (wrapf (fieldPath @ '': invalid URL: '') err)
      | Inr parsedURL \<Rightarrow>
          if toLower (u_scheme parsedURL) \<noteq> ''https'' then
            Some (errorf (fieldPath @ '': URL must use https, got '' @ quoted (u_scheme parsedURL)))
          else if u_user parsedURL then
            Some (errorf (fieldPath @ '': URL must not embed credentials; use Secret references for authentication''))
          else
            (let host = u_hostname parsedURL in
             if host = '''' then Some (errorf (fieldPath @ '': URL has no host''))
             else if parseIP host \<noteq> None then
               Some (errorf (fieldPath @ '': URL host must be a DNS name, not a raw IP address ('' @ host @ '')''))
             else if o_allowedDNSNames opts \<noteq> [] \<and> \<not> dnsNameAllowed host (o_allowedDNSNames opts) then
               Some (errorf (fieldPath @ '': URL host '' @ quoted host @ '' is not in the configured DNS allowlist''))
             else
               (case parseCIDRs (o_allowedPrivateCIDRs opts) of
                  Inl err \<Rightarrow> Some (wrapf (fieldPath @ '': invalid private endpoint allowlist: '') err)
                | Inr allowedPrivate \<Rightarrow>
                    (case lookupHost host of
                       Inl err \<Rightarrow>
                         if o_allowUnresolved opts then None
                         else Some (wrapf (fieldPath @ '': URL host '' @ quoted host @ '' could not be resolved: '') err)
                     | Inr addrs \<Rightarrow>
                         if addrs = [] then
                           (if o_allowUnresolved opts then None
                            else Some (errorf (fieldPath @ '': URL host '' @ quoted host @ '' did not resolve to any address'')))
                         else first_error (map (check_addr fieldPath host allowedPrivate) addrs)))))"

section \<open>Lemmas\<close>

text \<open>Networks are nested: agreeing above \<open>k\<close> bits implies agreeing above more.\<close>

lemma drop_bit_mono_eq:
  fixes a b :: "'a::len word"
  assumes "drop_bit k a = drop_bit k b" and "k \<le> l"
  shows "drop_bit l a = drop_bit l b"
proof -
  from assms(2) have eq: "drop_bit l x = drop_bit (l - k) (drop_bit k x)" for x :: "'a word"
    by (simp add: drop_bit_drop_bit)
  show ?thesis by (simp only: eq assms(1))
qed

text \<open>A network in normal form: an IPv6 network whose address is not IPv4-mapped.\<close>

definition normal_net :: "ipnet \<Rightarrow> bool" where
  "normal_net n = (normal (net_IP n) = net_IP n)"

lemma to4_A4 [simp]: "to4 (A4 w) = Some w"
  by (simp add: to4_def)

lemma normal_A4 [simp]: "normal (A4 w) = A4 w"
  by (simp add: normal_def to4_def)

lemma normal_A6_cases: "normal (A6 w) = A6 w \<or> (\<exists>v. normal (A6 w) = A4 v)"
  by (auto simp: normal_def split: option.split)

lemma normal_net_masked4 [simp]: "normal_net (masked4 w p)"
  by (simp add: normal_net_def masked4_def net_IP_def)

lemma normal_net_masked6 [simp]: "normal_net (masked6 w p)"
  by (simp add: normal_net_def masked6_def net_IP_def Let_def normal_def split: option.split)

lemma normal_net_parseCIDR: "parseCIDR s = Some n \<Longrightarrow> normal_net n"
  by (auto simp: parseCIDR_def split: option.splits prod.splits addr.splits if_splits)

lemma normal_net_mustCIDRs: "(c, n) \<in> set (mustCIDRs raw) \<Longrightarrow> normal_net n"
  by (auto simp: mustCIDRs_def List.map_filter_def dest: normal_net_parseCIDR)

text \<open>Two networks that share an address are nested, so the base address of one is in the other:
  what the overlap test of the allowlist parser looks for.\<close>

lemma overlap_nested:
  assumes "normal_net m" and "normal_net n" and "net_contains m ip" and "net_contains n ip"
  shows "net_contains n (net_IP m) \<or> net_contains m (net_IP n)"
proof (cases m)
  case (N4 b k)
  with assms(3) obtain w where w: "normal ip = A4 w"
    by (cases "normal ip") (auto simp: net_contains_def)
  with assms(4) obtain c l where n: "n = N4 c l" by (cases n) (auto simp: net_contains_def)
  have "drop_bit k w = drop_bit k b" "drop_bit l w = drop_bit l c"
    using assms(3,4) N4 n w by (auto simp: net_contains_def)
  then show ?thesis
    using drop_bit_mono_eq [of k w b l] drop_bit_mono_eq [of l w c k] N4 n
    by (cases "k \<le> l") (auto simp: net_contains_def net_IP_def)
next
  case (N6 b k)
  with assms(3) obtain w where w: "normal ip = A6 w"
    by (cases "normal ip") (auto simp: net_contains_def)
  with assms(4) obtain c l where n: "n = N6 c l" by (cases n) (auto simp: net_contains_def)
  have "drop_bit k w = drop_bit k b" "drop_bit l w = drop_bit l c"
    using assms(3,4) N6 n w by (auto simp: net_contains_def)
  then show ?thesis
    using drop_bit_mono_eq [of k w b l] drop_bit_mono_eq [of l w c k] N6 n assms(1,2)
    by (cases "k \<le> l") (auto simp: net_contains_def net_IP_def normal_net_def)
qed

lemma overlaps_permanent_None:
  assumes "overlaps_permanent n = None" and "normal_net n" and "net_contains n ip"
    and "(c, p) \<in> set permanentlyBlockedCIDRs"
  shows "\<not> net_contains p ip"
proof
  assume "net_contains p ip"
  moreover have "normal_net p"
    using assms(4) by (auto simp: permanentlyBlockedCIDRs_def dest: normal_net_mustCIDRs)
  ultimately have "net_contains p (net_IP n) \<or> net_contains n (net_IP p)"
    using overlap_nested [OF assms(2)] assms(3) by blast
  with assms(1,4) show False by (auto simp: overlaps_permanent_def find_None_iff)
qed

lemma parseCIDRs_disjoint:
  assumes "parseCIDRs raw = Inr nets" and "n \<in> set nets" and "net_contains n ip"
    and "(c, p) \<in> set permanentlyBlockedCIDRs"
  shows "\<not> net_contains p ip"
  using assms(1,2)
proof (induction raw arbitrary: nets)
  case Nil
  then show ?case by simp
next
  case (Cons v raw)
  then show ?case
    using assms(3,4)
    by (auto split: option.splits) (meson normal_net_parseCIDR overlaps_permanent_None)
qed

lemma check_addr_None:
  assumes "check_addr f host allowed address = None" and "parseIP address = Some ip"
  shows "(c, n) \<in> set permanentlyBlockedCIDRs \<Longrightarrow> \<not> net_contains n ip"
    and "(c, n) \<in> set privateCIDRs \<Longrightarrow> net_contains n ip \<Longrightarrow> containedByAny ip allowed"
  using assms
  by (auto simp: check_addr_def find_None_iff list_ex_iff split: option.splits if_splits)

lemma ValidatePublicHTTPSURL_None:
  assumes "ValidatePublicHTTPSURL up lk f raw opts = None" and "raw \<noteq> ''''"
  obtains u nets where "up raw = Inr u" and "toLower (u_scheme u) = ''https''" and "\<not> u_user u"
    and "u_hostname u \<noteq> ''''" and "parseIP (u_hostname u) = None"
    and "o_allowedDNSNames opts \<noteq> [] \<Longrightarrow> dnsNameAllowed (u_hostname u) (o_allowedDNSNames opts)"
    and "parseCIDRs (o_allowedPrivateCIDRs opts) = Inr nets"
    and "\<And>addrs a. lk (u_hostname u) = Inr addrs \<Longrightarrow> a \<in> set addrs \<Longrightarrow>
           check_addr f (u_hostname u) nets a = None"
    and "\<not> o_allowUnresolved opts \<Longrightarrow> \<exists>addrs. lk (u_hostname u) = Inr addrs \<and> addrs \<noteq> []"
proof -
  from assms obtain u where u: "up raw = Inr u"
    by (cases "up raw") (auto simp: ValidatePublicHTTPSURL_def)
  with assms have g: "toLower (u_scheme u) = ''https''" "\<not> u_user u" "u_hostname u \<noteq> ''''"
      "parseIP (u_hostname u) = None"
      "o_allowedDNSNames opts \<noteq> [] \<Longrightarrow> dnsNameAllowed (u_hostname u) (o_allowedDNSNames opts)"
    by (auto simp: ValidatePublicHTTPSURL_def Let_def split: if_splits)
  with assms u obtain nets where nets: "parseCIDRs (o_allowedPrivateCIDRs opts) = Inr nets"
    by (cases "parseCIDRs (o_allowedPrivateCIDRs opts)")
      (auto simp: ValidatePublicHTTPSURL_def Let_def split: if_splits)
  have looked: "check_addr f (u_hostname u) nets a = None"
    if "lk (u_hostname u) = Inr addrs" "a \<in> set addrs" for addrs a
    using assms u g nets that
    by (auto simp: ValidatePublicHTTPSURL_def Let_def first_error_None_iff image_subset_iff
        split: if_splits)
  have resolved: "\<exists>addrs. lk (u_hostname u) = Inr addrs \<and> addrs \<noteq> []"
    if "\<not> o_allowUnresolved opts"
    using assms u g nets that
    by (cases "lk (u_hostname u)") (auto simp: ValidatePublicHTTPSURL_def Let_def split: if_splits)
  show thesis by (rule that [OF u g nets looked resolved])
qed

section \<open>Properties\<close>

text \<open>The concrete environment of the witnesses: one host, which resolves to a private address
  and a public IPv6 one, and a caller that allows the private network.\<close>

definition ex_url_parse :: url_parser where
  "ex_url_parse raw = Inr \<lparr>u_scheme = ''HTTPS'', u_user = False, u_hostname = ''Harbor.corp.io''\<rparr>"

definition ex_lookup :: resolver where
  "ex_lookup host = Inr [''10.1.2.3'', ''2001:db8::7'']"

definition ex_options :: Options where
  "ex_options = \<lparr>o_allowUnresolved = False, o_allowedPrivateCIDRs = ['' 10.1.0.0/16''],
     o_allowedDNSNames = [''*.corp.io.'']\<rparr>"

text \<open>C9: A URL the guard accepts cannot reach a blocked address: it parses, its scheme is https,
  it embeds no credentials, its host is a DNS name on the allowlist (if there is one), and every
  address the resolver returned for that host lies outside the permanently blocked ranges and,
  where it is private, inside a configured CIDR. At run time, where unresolved names are not
  allowed, the name did resolve.\<close>

theorem netguard_accepts_only_safe_targets:
  assumes "ValidatePublicHTTPSURL url_parse lookupHost fieldPath rawURL opts = None"
    and "rawURL \<noteq> ''''"
  shows "\<exists>u nets. url_parse rawURL = Inr u \<and> toLower (u_scheme u) = ''https'' \<and> \<not> u_user u
    \<and> parseIP (u_hostname u) = None
    \<and> (o_allowedDNSNames opts \<noteq> [] \<longrightarrow> dnsNameAllowed (u_hostname u) (o_allowedDNSNames opts))
    \<and> parseCIDRs (o_allowedPrivateCIDRs opts) = Inr nets
    \<and> (\<forall>addrs a ip. lookupHost (u_hostname u) = Inr addrs \<longrightarrow> a \<in> set addrs \<longrightarrow> parseIP a = Some ip \<longrightarrow>
         (\<forall>(c, n) \<in> set permanentlyBlockedCIDRs. \<not> net_contains n ip)
         \<and> (\<forall>(c, n) \<in> set privateCIDRs. net_contains n ip \<longrightarrow> containedByAny ip nets))
    \<and> (\<not> o_allowUnresolved opts \<longrightarrow> (\<exists>addrs. lookupHost (u_hostname u) = Inr addrs \<and> addrs \<noteq> []))"
proof -
  obtain u nets where u: "url_parse rawURL = Inr u" "toLower (u_scheme u) = ''https''" "\<not> u_user u"
      "parseIP (u_hostname u) = None"
      "o_allowedDNSNames opts \<noteq> [] \<Longrightarrow> dnsNameAllowed (u_hostname u) (o_allowedDNSNames opts)"
      "parseCIDRs (o_allowedPrivateCIDRs opts) = Inr nets"
      "\<And>addrs a. lookupHost (u_hostname u) = Inr addrs \<Longrightarrow> a \<in> set addrs \<Longrightarrow>
           check_addr fieldPath (u_hostname u) nets a = None"
      "\<not> o_allowUnresolved opts \<Longrightarrow> \<exists>addrs. lookupHost (u_hostname u) = Inr addrs \<and> addrs \<noteq> []"
    by (rule ValidatePublicHTTPSURL_None [OF assms]) blast
  then show ?thesis
    by (intro exI [of _ u] exI [of _ nets]) (auto dest: check_addr_None)
qed

lemma ex_guard_accepts:
  "ValidatePublicHTTPSURL ex_url_parse ex_lookup ''spec.url'' ''https://Harbor.corp.io/a'' ex_options = None"
  by code_simp

theorem netguard_accepts_only_safe_targets_witness:
  "list_all (\<lambda>(c, n). \<not> net_contains n (A4 0x0A010203)) permanentlyBlockedCIDRs
   \<and> dnsNameAllowed ''Harbor.corp.io'' [''*.corp.io.'']"
proof -
  have ip: "parseIP ''10.1.2.3'' = Some (A4 0x0A010203)" by code_simp
  show ?thesis
    using netguard_accepts_only_safe_targets [OF ex_guard_accepts] ip
    by (auto simp: ex_url_parse_def ex_lookup_def ex_options_def list_all_iff)
qed

text \<open>The private-address allowlist cannot open a permanently blocked range: when the
  configured CIDRs are accepted, no address of any of them is in a blocked range.\<close>

theorem allowlist_disjoint_from_blocked:
  assumes "parseCIDRs raw = Inr nets" and "containedByAny ip nets"
  shows "\<forall>(c, p) \<in> set permanentlyBlockedCIDRs. \<not> net_contains p ip"
  using assms by (auto simp: containedByAny_def list_ex_iff dest: parseCIDRs_disjoint)

theorem allowlist_disjoint_from_blocked_witness:
  "list_all (\<lambda>(c, p). \<not> net_contains p (A4 0xC0A80A01)) permanentlyBlockedCIDRs"
proof -
  have "parseCIDRs [''192.168.0.0/16'', '' fd00::/8''] = Inr [N4 0xC0A80000 16, N6 (push_bit 120 0xFD) 120]"
    by code_simp
  moreover have "containedByAny (A4 0xC0A80A01) [N4 0xC0A80000 16, N6 (push_bit 120 0xFD) 120]"
    by code_simp
  ultimately show ?thesis unfolding list_all_iff by (rule allowlist_disjoint_from_blocked)
qed

end
