(* ===== verification/Registry.thy ===== *)
theory Registry
  imports Provider_Errors
begin

text \<open>
  The plugin registry (\<open>pkg/plugin/registry.go\<close>) and the plugin contract
  (\<open>pkg/plugin/platform/contract.go\<close>). Every operation holds the registry's mutex for as long
  as it touches the maps, so operations are atomic; the log lines are left out.

  A plugin is what the core reads of one: its identity and capabilities, which optional
  interfaces it implements, and a handle that stands for the instance. A factory builds a new
  instance at every call, so it is a function of a counter of instances built so far.
\<close>

section \<open>Plugins\<close>

record Plugin =
  pl_name :: string
  pl_version :: string
  pl_formats :: "string list"
  pl_os :: "string list"
  pl_buildModes :: "string list option"  \<comment> \<open>\<open>Some\<close> for a \<open>RemoteBuildPlugin\<close>\<close>
  pl_cleanup :: bool                      \<comment> \<open>implements \<open>RemoteBuildCleanupPlugin\<close>\<close>
  pl_closer :: bool                       \<comment> \<open>implements \<open>ClosePlugin\<close>\<close>
  pl_handle :: nat

definition ValidatePluginContract :: "Plugin option \<Rightarrow> go_error option" where
  "ValidatePluginContract p =
     (case p of None \<Rightarrow> Some (errorf ''platform plugin is nil'')
      | Some q \<Rightarrow>
          if pl_name q = '''' then Some (errorf ''platform plugin name is required'')
          else if pl_version q = '''' then
            Some (errorf (''platform plugin '' @ quoted (pl_name q) @ '' version is required''))
          else None)"

lemma ValidatePluginContract_None:
  "ValidatePluginContract p = None \<longleftrightarrow> (\<exists>q. p = Some q \<and> pl_name q \<noteq> '''' \<and> pl_version q \<noteq> '''')"
  by (simp add: ValidatePluginContract_def split: option.split)

section \<open>The registry\<close>

type_synonym Factory = "nat \<Rightarrow> Plugin option"

record externalEntry =
  xe_plugin :: Plugin
  xe_ownerUID :: string

text \<open>The three maps of the registry, the number of factory calls so far, and the handles of
  the plugins that have been closed.\<close>

record Registry =
  reg_plugins :: "string \<rightharpoonup> Plugin"
  reg_factories :: "string \<rightharpoonup> Factory"
  reg_external :: "string \<rightharpoonup> externalEntry"
  reg_built :: nat
  reg_closed :: "nat list"

definition NewRegistry :: Registry where
  "NewRegistry =
     \<lparr>reg_plugins = Map.empty, reg_factories = Map.empty, reg_external = Map.empty,
      reg_built = 0, reg_closed = []\<rparr>"

definition closePlugin :: "Plugin \<Rightarrow> Registry \<Rightarrow> Registry" where
  "closePlugin p r =
     (if pl_closer p then r\<lparr>reg_closed := reg_closed r @ [pl_handle p]\<rparr> else r)"

definition Register :: "Plugin option \<Rightarrow> Registry \<Rightarrow> go_error option \<times> Registry" where
  "Register p r =
     (case ValidatePluginContract p of Some err \<Rightarrow> (Some err, r)
      | None \<Rightarrow>
          (let name = pl_name (the p) in
           if reg_plugins r name \<noteq> None then
             (Some (errorf (''platform plugin '' @ quoted name @ '' is already registered'')), r)
           else (None, r\<lparr>reg_plugins := (reg_plugins r)(name \<mapsto> the p)\<rparr>)))"

definition Deregister :: "string \<Rightarrow> Registry \<Rightarrow> Registry" where
  "Deregister name r =
     r\<lparr>reg_plugins := (reg_plugins r)(name := None), reg_factories := (reg_factories r)(name := None)\<rparr>"

definition call_factory :: "Factory \<Rightarrow> Registry \<Rightarrow> Plugin option \<times> Registry" where
  "call_factory f r = (f (reg_built r), r\<lparr>reg_built := Suc (reg_built r)\<rparr>)"

definition RegisterFactory ::
    "Plugin option \<Rightarrow> Factory option \<Rightarrow> Registry \<Rightarrow> go_error option \<times> Registry" where
  "RegisterFactory prototype factory r =
     (case factory of None \<Rightarrow> (Some (errorf ''platform plugin factory is required''), r)
      | Some f \<Rightarrow>
          (case Register prototype r of
             (Some err, r1) \<Rightarrow> (Some err, r1)
           | (None, r1) \<Rightarrow>
               (let name = pl_name (the prototype); (instance, r2) = call_factory f r1 in
                case ValidatePluginContract instance of
                  Some err \<Rightarrow>
                    (Some (wrapf (''validate platform plugin '' @ quoted name @ '' factory: '') err),
                     Deregister name r2)
                | None \<Rightarrow>
                    if pl_name (the instance) \<noteq> name then
                      (Some (errorf (''platform plugin factory returned '' @
                          quoted (pl_name (the instance)) @ '', want '' @ quoted name)),
                       Deregister name r2)
                    else (None, r2\<lparr>reg_factories := (reg_factories r2)(name \<mapsto> f)\<rparr>))))"

definition RegisterExternal ::
    "string \<Rightarrow> string \<Rightarrow> Plugin option \<Rightarrow> Registry \<Rightarrow> go_error option \<times> Registry" where
  "RegisterExternal ownerName ownerUID p r =
     (if ownerName = '''' then
        (Some (errorf ''external PlatformProvider owner name is required''), r)
      else case ValidatePluginContract p of Some err \<Rightarrow> (Some err, r)
      | None \<Rightarrow>
          (let previous = reg_external r ownerName;
               r1 = r\<lparr>reg_external := (reg_external r)
                       (ownerName \<mapsto> \<lparr>xe_plugin = the p, xe_ownerUID = ownerUID\<rparr>)\<rparr> in
           (None, case previous of None \<Rightarrow> r1 | Some e \<Rightarrow> closePlugin (xe_plugin e) r1)))"

definition DeregisterExternal :: "string \<Rightarrow> string \<Rightarrow> Registry \<Rightarrow> bool \<times> Registry" where
  "DeregisterExternal ownerName ownerUID r =
     (case reg_external r ownerName of None \<Rightarrow> (False, r)
      | Some entry \<Rightarrow>
          if xe_ownerUID entry \<noteq> ownerUID then (False, r)
          else (True, closePlugin (xe_plugin entry)
                        (r\<lparr>reg_external := (reg_external r)(ownerName := None)\<rparr>)))"

definition not_found :: "string \<Rightarrow> go_error" where
  "not_found name =
     errorf (''platform plugin '' @ quoted name @ '' not found '' @
       [CHR 0xE2, CHR 0x80, CHR 0x94] @ '' is the PlatformProvider installed?'')"

definition New :: "string \<Rightarrow> Registry \<Rightarrow> (go_error + Plugin) \<times> Registry" where
  "New name r =
     (case reg_plugins r name of None \<Rightarrow> (Inl (not_found name), r)
      | Some p \<Rightarrow>
          (case reg_factories r name of None \<Rightarrow> (Inr p, r)
           | Some f \<Rightarrow>
               (let (instance, r1) = call_factory f r in
                case ValidatePluginContract instance of
                  Some err \<Rightarrow> (Inl (wrapf (''construct platform plugin '' @ quoted name @ '': '') err), r1)
                | None \<Rightarrow>
                    if pl_name (the instance) \<noteq> name then
                      (Inl (errorf (''platform plugin factory returned '' @
                         quoted (pl_name (the instance)) @ '', want '' @ quoted name)), r1)
                    else (Inr (the instance), r1))))"

definition External :: "string \<Rightarrow> string \<Rightarrow> string \<Rightarrow> Registry \<Rightarrow> go_error + Plugin" where
  "External ownerName ownerUID providerName r =
     (case reg_external r ownerName of
        None \<Rightarrow>
          Inl (errorf (''external PlatformProvider '' @ quoted ownerName @ '' is not registered or healthy''))
      | Some entry \<Rightarrow>
          if xe_ownerUID entry \<noteq> ownerUID then
            Inl (errorf (''external PlatformProvider '' @ quoted ownerName @
              '' registration belongs to a different resource generation''))
          else if pl_name (xe_plugin entry) \<noteq> providerName then
            Inl (errorf (''external PlatformProvider '' @ quoted ownerName @ '' advertises provider '' @
              quoted (pl_name (xe_plugin entry)) @ '', want '' @ quoted providerName))
          else Inr (xe_plugin entry))"

definition SupportsExternal :: "string \<Rightarrow> string \<Rightarrow> string \<Rightarrow> Registry \<Rightarrow> bool" where
  "SupportsExternal ownerName ownerUID providerName r \<longleftrightarrow>
     (case External ownerName ownerUID providerName r of Inl _ \<Rightarrow> False | Inr _ \<Rightarrow> True)"

definition Get :: "string \<Rightarrow> Registry \<Rightarrow> go_error + Plugin" where
  "Get name r = (case reg_plugins r name of None \<Rightarrow> Inl (not_found name) | Some p \<Rightarrow> Inr p)"

definition Supports :: "string \<Rightarrow> Registry \<Rightarrow> bool" where
  "Supports provider r \<longleftrightarrow> reg_plugins r provider \<noteq> None"

section \<open>Registry states\<close>

text \<open>What an operator process does with its registry, from an empty one. An external adapter is
  a new client connection, so its handle is not one of a plugin seen before; \<open>seen\<close> collects
  the handles handed to \<open>RegisterExternal\<close>.\<close>

inductive registry_run :: "Registry \<Rightarrow> nat set \<Rightarrow> bool" where
  run_new: "registry_run NewRegistry {}"
| run_register: "registry_run r H \<Longrightarrow> Register p r = (err, r') \<Longrightarrow> registry_run r' H"
| run_factory: "registry_run r H \<Longrightarrow> RegisterFactory p f r = (err, r') \<Longrightarrow> registry_run r' H"
| run_deregister: "registry_run r H \<Longrightarrow> registry_run (Deregister name r) H"
| run_construct: "registry_run r H \<Longrightarrow> New name r = (res, r') \<Longrightarrow> registry_run r' H"
| run_external:
    "registry_run r H \<Longrightarrow> pl_handle p \<notin> H \<Longrightarrow> RegisterExternal owner uid (Some p) r = (err, r') \<Longrightarrow>
     registry_run r' (insert (pl_handle p) H)"
| run_deregister_external:
    "registry_run r H \<Longrightarrow> DeregisterExternal owner uid r = (gone, r') \<Longrightarrow> registry_run r' H"

definition registry_wf :: "Registry \<Rightarrow> bool" where
  "registry_wf r \<longleftrightarrow>
     (\<forall>name p. reg_plugins r name = Some p \<longrightarrow> pl_name p = name \<and> ValidatePluginContract (Some p) = None)
     \<and> dom (reg_factories r) \<subseteq> dom (reg_plugins r)
     \<and> (\<forall>owner e. reg_external r owner = Some e \<longrightarrow>
          owner \<noteq> '''' \<and> ValidatePluginContract (Some (xe_plugin e)) = None)"

definition adapters_live :: "Registry \<Rightarrow> nat set \<Rightarrow> bool" where
  "adapters_live r H \<longleftrightarrow>
     set (reg_closed r) \<subseteq> H \<and> distinct (reg_closed r)
     \<and> (\<forall>owner e. reg_external r owner = Some e \<longrightarrow>
          pl_handle (xe_plugin e) \<in> H \<and> pl_handle (xe_plugin e) \<notin> set (reg_closed r))
     \<and> (\<forall>o1 o2 e1 e2. reg_external r o1 = Some e1 \<longrightarrow> reg_external r o2 = Some e2 \<longrightarrow>
          pl_handle (xe_plugin e1) = pl_handle (xe_plugin e2) \<longrightarrow> o1 = o2)"

lemma closePlugin_simps [simp]:
  "reg_plugins (closePlugin p r) = reg_plugins r"
  "reg_factories (closePlugin p r) = reg_factories r"
  "reg_external (closePlugin p r) = reg_external r"
  "reg_closed (closePlugin p r) = reg_closed r @ (if pl_closer p then [pl_handle p] else [])"
  by (simp_all add: closePlugin_def)

lemma Register_cases:
  assumes "Register p r = (err, r')"
  obtains (rejected) "err \<noteq> None" "r' = r"
  | (added) q where "p = Some q" "err = None" "ValidatePluginContract (Some q) = None"
      "reg_plugins r (pl_name q) = None"
      "r' = r\<lparr>reg_plugins := (reg_plugins r)(pl_name q \<mapsto> q)\<rparr>"
proof (cases "ValidatePluginContract p")
  case (Some e)
  with assms have "err = Some e" "r' = r" by (simp_all add: Register_def)
  then show thesis using rejected by simp
next
  case None
  moreover from None obtain q where "p = Some q" by (auto simp: ValidatePluginContract_None)
  ultimately show thesis
    using assms rejected added by (auto simp: Register_def Let_def split: if_splits)
qed

lemma RegisterFactory_cases:
  assumes "RegisterFactory p f r = (err, r')"
  obtains (same) "err \<noteq> None" "r' = r"
  | (undone) q where "err \<noteq> None" "reg_plugins r (pl_name q) = None"
      "r' = Deregister (pl_name q)
              (r\<lparr>reg_plugins := (reg_plugins r)(pl_name q \<mapsto> q), reg_built := Suc (reg_built r)\<rparr>)"
  | (added) q g where "p = Some q" "f = Some g" "err = None" "ValidatePluginContract (Some q) = None"
      "reg_plugins r (pl_name q) = None"
      "r' = r\<lparr>reg_plugins := (reg_plugins r)(pl_name q \<mapsto> q), reg_built := Suc (reg_built r),
              reg_factories := (reg_factories r)(pl_name q \<mapsto> g)\<rparr>"
proof (cases f)
  case None
  with assms same show thesis by (auto simp: RegisterFactory_def)
next
  case (Some g)
  obtain e1 r1 where reg: "Register p r = (e1, r1)" by fastforce
  show thesis
  proof (cases rule: Register_cases [OF reg])
    case 1
    with assms Some reg same show thesis by (auto simp: RegisterFactory_def)
  next
    case (2 q)
    note q = this
    define r2 where "r2 = r1\<lparr>reg_built := Suc (reg_built r)\<rparr>"
    have r2: "r2 = r\<lparr>reg_plugins := (reg_plugins r)(pl_name q \<mapsto> q), reg_built := Suc (reg_built r)\<rparr>"
      using q by (simp add: r2_def)
    have body: "(err \<noteq> None \<and> r' = Deregister (pl_name q) r2) \<or>
        (err = None \<and> r' = r2\<lparr>reg_factories := (reg_factories r2)(pl_name q \<mapsto> g)\<rparr>)"
      using assms Some reg q
      by (auto simp: RegisterFactory_def call_factory_def Let_def r2_def split: option.splits if_splits)
    show thesis
    proof (cases "err = None")
      case True
      with body have "r' = r2\<lparr>reg_factories := (reg_factories r2)(pl_name q \<mapsto> g)\<rparr>"
        by blast
      with True q Some r2 added show thesis by simp
    next
      case False
      with body have "r' = Deregister (pl_name q) r2" by blast
      with False q(4) r2 undone show thesis by blast
    qed
  qed
qed

lemma New_frame:
  "New name r = (res, r') \<Longrightarrow>
   reg_plugins r' = reg_plugins r \<and> reg_factories r' = reg_factories r \<and>
   reg_external r' = reg_external r \<and> reg_closed r' = reg_closed r"
  by (auto simp: New_def call_factory_def Let_def split: option.splits if_splits)

lemma RegisterExternal_cases:
  assumes "RegisterExternal owner uid (Some p) r = (err, r')"
  obtains (rejected) "err \<noteq> None" "r' = r"
  | (added) "err = None" "owner \<noteq> ''''" "ValidatePluginContract (Some p) = None"
      "reg_plugins r' = reg_plugins r" "reg_factories r' = reg_factories r"
      "reg_external r' = (reg_external r)(owner \<mapsto> \<lparr>xe_plugin = p, xe_ownerUID = uid\<rparr>)"
      "reg_closed r' = reg_closed r @
         (case reg_external r owner of None \<Rightarrow> []
          | Some e \<Rightarrow> if pl_closer (xe_plugin e) then [pl_handle (xe_plugin e)] else [])"
proof (cases "owner \<noteq> '''' \<and> ValidatePluginContract (Some p) = None")
  case True
  with assms show thesis
    by (intro added) (auto simp: RegisterExternal_def Let_def split: option.splits)
next
  case False
  with assms have "err \<noteq> None \<and> r' = r"
    by (cases "ValidatePluginContract (Some p)") (auto simp: RegisterExternal_def split: if_splits, metis)
  with rejected show thesis by blast
qed

lemma DeregisterExternal_cases:
  assumes "DeregisterExternal owner uid r = (gone, r')"
  obtains (kept) "\<not> gone" "r' = r"
  | (removed) e where "gone" "reg_external r owner = Some e" "xe_ownerUID e = uid"
      "reg_plugins r' = reg_plugins r" "reg_factories r' = reg_factories r"
      "reg_external r' = (reg_external r)(owner := None)"
      "reg_closed r' = reg_closed r @ (if pl_closer (xe_plugin e) then [pl_handle (xe_plugin e)] else [])"
proof (cases "\<exists>e. reg_external r owner = Some e \<and> xe_ownerUID e = uid")
  case True
  then obtain e where "reg_external r owner = Some e" "xe_ownerUID e = uid" by blast
  with assms show thesis by (intro removed) (auto simp: DeregisterExternal_def)
next
  case False
  with assms have "\<not> gone \<and> r' = r"
    by (auto simp: DeregisterExternal_def split: if_splits option.splits)
  with kept show thesis by blast
qed

text \<open>A rejected factory registration leaves no trace in the maps when none was there.\<close>

lemma Deregister_undo:
  assumes "reg_plugins r name = None" and "registry_wf r"
  shows "Deregister name (r\<lparr>reg_plugins := (reg_plugins r)(name \<mapsto> q), reg_built := n\<rparr>) = r\<lparr>reg_built := n\<rparr>"
proof -
  have "reg_factories r name = None" using assms by (auto simp: registry_wf_def)
  with assms(1) show ?thesis
    by (simp add: Deregister_def fun_upd_idem)
qed

lemma registry_run_wf: "registry_run r H \<Longrightarrow> registry_wf r"
proof (induction rule: registry_run.induct)
  case run_new
  then show ?case by (simp add: registry_wf_def NewRegistry_def)
next
  case (run_register r H p err r')
  from run_register(2) show ?case
    by (rule Register_cases) (use run_register.IH in \<open>auto simp: registry_wf_def\<close>)
next
  case (run_factory r H p f err r')
  from run_factory(2) show ?case
  proof (cases rule: RegisterFactory_cases)
    case same
    with run_factory.IH show ?thesis by simp
  next
    case (undone q)
    with Deregister_undo [OF undone(2) run_factory.IH] run_factory.IH show ?thesis
      by (simp add: registry_wf_def)
  next
    case (added q g)
    with run_factory.IH show ?thesis by (auto simp: registry_wf_def)
  qed
next
  case (run_deregister r H name)
  then show ?case by (auto simp: registry_wf_def Deregister_def)
next
  case (run_construct r H name res r')
  then show ?case using New_frame [OF run_construct(2)] by (simp add: registry_wf_def)
next
  case (run_external r H p owner uid err r')
  from run_external(3) show ?case
    by (rule RegisterExternal_cases)
      (use run_external.IH in \<open>simp_all add: registry_wf_def\<close>)
next
  case (run_deregister_external r H owner uid gone r')
  from run_deregister_external(2) show ?case
    by (rule DeregisterExternal_cases)
      (use run_deregister_external.IH in \<open>simp_all add: registry_wf_def\<close>)
qed

lemma registry_run_live: "registry_run r H \<Longrightarrow> adapters_live r H"
proof (induction rule: registry_run.induct)
  case run_new
  then show ?case by (simp add: adapters_live_def NewRegistry_def)
next
  case (run_register r H p err r')
  from run_register(2) show ?case
    by (rule Register_cases) (use run_register.IH in \<open>auto simp: adapters_live_def\<close>)
next
  case (run_factory r H p f err r')
  from run_factory(2) show ?case
    by (rule RegisterFactory_cases)
      (use run_factory.IH in \<open>auto simp: adapters_live_def Deregister_def\<close>)
next
  case (run_deregister r H name)
  then show ?case by (simp add: adapters_live_def Deregister_def)
next
  case (run_construct r H name res r')
  then show ?case using New_frame [OF run_construct(2)] by (simp add: adapters_live_def)
next
  case (run_external r H p owner uid err r')
  note ih = run_external.IH [unfolded adapters_live_def]
  from run_external(3) show ?case
  proof (cases rule: RegisterExternal_cases)
    case rejected
    with ih show ?thesis unfolding adapters_live_def by blast
  next
    case added
    note ext = added(6) and closed = added(7)
    have sub: "set (reg_closed r') \<subseteq> H" and dist: "distinct (reg_closed r')"
      unfolding closed using ih by (auto split: option.splits)
    have old: "pl_handle (xe_plugin e) \<in> H \<and> pl_handle (xe_plugin e) \<notin> set (reg_closed r')"
      if e: "reg_external r o' = Some e" "o' \<noteq> owner" for o' e
    proof -
      have "pl_handle (xe_plugin e) \<noteq> pl_handle (xe_plugin e1)" if "reg_external r owner = Some e1" for e1
        using e that ih by metis
      with ih e show ?thesis unfolding closed by (auto split: option.splits)
    qed
    have live: "pl_handle (xe_plugin e) \<in> insert (pl_handle p) H \<and> pl_handle (xe_plugin e) \<notin> set (reg_closed r')"
      if "reg_external r' o' = Some e" for o' e
      using that old [of o' e] sub run_external(2) unfolding ext by (cases "o' = owner") auto
    have one: "o1 = o2" if "reg_external r' o1 = Some e1" "reg_external r' o2 = Some e2"
      "pl_handle (xe_plugin e1) = pl_handle (xe_plugin e2)" for o1 o2 e1 e2
    proof (cases "o1 = owner \<or> o2 = owner")
      case True
      with that old [of o1 e1] old [of o2 e2] run_external(2) show ?thesis
        unfolding ext by (cases "o1 = owner"; cases "o2 = owner") auto
    next
      case False
      with that have "reg_external r o1 = Some e1" "reg_external r o2 = Some e2" unfolding ext by auto
      with that(3) ih show ?thesis by blast
    qed
    from sub dist live one show ?thesis unfolding adapters_live_def by blast
  qed
next
  case (run_deregister_external r H owner uid gone r')
  note ih = run_deregister_external.IH [unfolded adapters_live_def]
  from run_deregister_external(2) show ?case
  proof (cases rule: DeregisterExternal_cases)
    case kept
    with ih show ?thesis unfolding adapters_live_def by blast
  next
    case (removed e)
    note ext = removed(6) and closed = removed(7)
    have sub: "set (reg_closed r') \<subseteq> H" and dist: "distinct (reg_closed r')"
      unfolding closed using ih removed(2) by auto
    have live: "pl_handle (xe_plugin e') \<in> H \<and> pl_handle (xe_plugin e') \<notin> set (reg_closed r')"
      if "reg_external r' o' = Some e'" for o' e'
    proof -
      have o': "reg_external r o' = Some e'" "o' \<noteq> owner" using that unfolding ext by (auto split: if_splits)
      with ih removed(2) have "pl_handle (xe_plugin e') \<noteq> pl_handle (xe_plugin e)" by metis
      with o' ih show ?thesis unfolding closed by auto
    qed
    have one: "o1 = o2" if "reg_external r' o1 = Some e1" "reg_external r' o2 = Some e2"
      "pl_handle (xe_plugin e1) = pl_handle (xe_plugin e2)" for o1 o2 e1 e2
    proof -
      from that have "reg_external r o1 = Some e1" "reg_external r o2 = Some e2"
        unfolding ext by (auto split: if_splits)
      with that(3) ih show ?thesis by blast
    qed
    from sub dist live one show ?thesis unfolding adapters_live_def by blast
  qed
qed

lemma External_Inr:
  "External owner uid name r = Inr p \<longleftrightarrow>
     (\<exists>e. reg_external r owner = Some e \<and> xe_ownerUID e = uid \<and> xe_plugin e = p \<and> pl_name p = name)"
  by (auto simp: External_def split: option.splits)

lemma New_valid:
  assumes "New name r = (Inr p, r')" and "registry_wf r"
  shows "pl_name p = name \<and> ValidatePluginContract (Some p) = None"
proof -
  obtain q where q: "reg_plugins r name = Some q"
    using assms(1) by (auto simp: New_def split: option.splits)
  show ?thesis
  proof (cases "reg_factories r name")
    case None
    with q assms have "p = q" by (simp add: New_def)
    with q assms(2) show ?thesis by (simp add: registry_wf_def)
  next
    case (Some f)
    have "ValidatePluginContract (f (reg_built r)) = None"
      using q Some assms(1) by (auto simp: New_def call_factory_def split: option.splits)
    moreover from this obtain i where "f (reg_built r) = Some i" by (auto simp: ValidatePluginContract_None)
    ultimately show ?thesis
      using q Some assms(1) by (auto simp: New_def call_factory_def split: if_splits)
  qed
qed

section \<open>Properties\<close>

text \<open>C15: A registry never hands out a closed adapter: whatever sequence of registrations,
  replacements and removals led to the registry, the adapter that \<open>External\<close> returns for a
  PlatformProvider resource has not been closed, belongs to that resource (name and UID), has the
  requested provider name, and satisfies the plugin contract.\<close>

theorem external_adapter_open:
  assumes "registry_run r H" and "External owner uid name r = Inr p"
  shows "pl_handle p \<notin> set (reg_closed r) \<and> pl_name p = name \<and> ValidatePluginContract (Some p) = None
    \<and> reg_external r owner = Some \<lparr>xe_plugin = p, xe_ownerUID = uid\<rparr>"
proof -
  obtain e where e: "reg_external r owner = Some e" "xe_ownerUID e = uid" "xe_plugin e = p" "pl_name p = name"
    using assms(2) by (auto simp: External_Inr)
  then have "e = \<lparr>xe_plugin = p, xe_ownerUID = uid\<rparr>" by (cases e) simp
  moreover have "pl_handle (xe_plugin e) \<notin> set (reg_closed r)"
    using registry_run_live [OF assms(1)] e(1) unfolding adapters_live_def by blast
  moreover have "ValidatePluginContract (Some (xe_plugin e)) = None"
    using registry_run_wf [OF assms(1)] e(1) unfolding registry_wf_def by blast
  ultimately show ?thesis using e by simp
qed

definition ex_adapter :: "string \<Rightarrow> nat \<Rightarrow> Plugin" where
  "ex_adapter name h =
     \<lparr>pl_name = name, pl_version = ''v1'', pl_formats = [''qcow2''], pl_os = [''linux''],
      pl_buildModes = Some [''remote''], pl_cleanup = True, pl_closer = True, pl_handle = h\<rparr>"

lemma ex_registry_run:
  "registry_run (snd (RegisterExternal ''aws-a'' ''u2'' (Some (ex_adapter ''aws'' 2))
     (snd (RegisterExternal ''aws-a'' ''u1'' (Some (ex_adapter ''aws'' 1)) NewRegistry)))) {2, 1}"
proof -
  have "registry_run (snd (RegisterExternal ''aws-a'' ''u1'' (Some (ex_adapter ''aws'' 1)) NewRegistry)) {1}"
    using run_external [OF run_new, of "ex_adapter ''aws'' 1" _ _ _ "snd (RegisterExternal ''aws-a'' ''u1'' (Some (ex_adapter ''aws'' 1)) NewRegistry)"]
    by (simp add: ex_adapter_def)
      (metis prod.collapse)
  from run_external [OF this, of "ex_adapter ''aws'' 2"] show ?thesis
    by (simp add: ex_adapter_def)
      (metis prod.collapse)
qed

theorem external_adapter_open_witness:
  "2 \<notin> set (reg_closed (snd (RegisterExternal ''aws-a'' ''u2'' (Some (ex_adapter ''aws'' 2))
     (snd (RegisterExternal ''aws-a'' ''u1'' (Some (ex_adapter ''aws'' 1)) NewRegistry)))))"
  using external_adapter_open [OF ex_registry_run, of "''aws-a''" "''u2''" "''aws''" "ex_adapter ''aws'' 2"]
  by (simp add: ex_adapter_def External_Inr RegisterExternal_def ValidatePluginContract_def
      NewRegistry_def)

text \<open>Ownership by UID: after a PlatformProvider is recreated under the same name, a removal
  that still carries the UID of its predecessor changes nothing, so the new adapter stays
  selected; the removal with the UID that owns the entry takes it away and closes it.\<close>

theorem deregister_external_guarded:
  assumes "RegisterExternal owner uid (Some p) r = (None, r')"
  shows "(stale \<noteq> uid \<longrightarrow> DeregisterExternal owner stale r' = (False, r') \<and>
           External owner uid (pl_name p) r' = Inr p)
    \<and> (\<exists>r''. DeregisterExternal owner uid r' = (True, r'') \<and> \<not> SupportsExternal owner uid (pl_name p) r''
           \<and> (pl_closer p \<longrightarrow> pl_handle p \<in> set (reg_closed r''))
           \<and> (\<forall>other. other \<noteq> owner \<longrightarrow> reg_external r'' other = reg_external r other))"
proof -
  have ext: "reg_external r' = (reg_external r)(owner \<mapsto> \<lparr>xe_plugin = p, xe_ownerUID = uid\<rparr>)"
    using assms by (auto simp: RegisterExternal_def Let_def split: if_splits option.splits)
  show ?thesis
    by (simp add: DeregisterExternal_def SupportsExternal_def External_def ext)
qed

theorem deregister_external_guarded_witness:
  "DeregisterExternal ''aws-a'' ''u1''
     (snd (RegisterExternal ''aws-a'' ''u2'' (Some (ex_adapter ''aws'' 2)) NewRegistry)) =
   (False, snd (RegisterExternal ''aws-a'' ''u2'' (Some (ex_adapter ''aws'' 2)) NewRegistry))"
proof -
  let ?r = "snd (RegisterExternal ''aws-a'' ''u2'' (Some (ex_adapter ''aws'' 2)) NewRegistry)"
  have "RegisterExternal ''aws-a'' ''u2'' (Some (ex_adapter ''aws'' 2)) NewRegistry = (None, ?r)"
    by (simp add: RegisterExternal_def ex_adapter_def ValidatePluginContract_def NewRegistry_def Let_def)
  from deregister_external_guarded [OF this, of "''u1''"] show ?thesis by simp
qed

text \<open>Factories build what they were registered for: in every registry state, a plugin that
  \<open>New\<close> returns has the name it was asked for and satisfies the contract, and asking for it
  leaves the registered plugins, factories and adapters as they were.\<close>

theorem new_returns_named_plugin:
  assumes "registry_run r H" and "New name r = (Inr p, r')"
  shows "pl_name p = name \<and> ValidatePluginContract (Some p) = None
    \<and> reg_plugins r' = reg_plugins r \<and> reg_factories r' = reg_factories r
    \<and> reg_external r' = reg_external r \<and> reg_closed r' = reg_closed r"
  using New_valid [OF assms(2) registry_run_wf [OF assms(1)]] New_frame [OF assms(2)] by blast

definition ex_registry :: Registry where
  "ex_registry = snd (RegisterFactory (Some (ex_adapter ''gcp'' 0)) (Some (\<lambda>n. Some (ex_adapter ''gcp'' n))) NewRegistry)"

lemma ex_registry_reachable: "registry_run ex_registry {}"
  unfolding ex_registry_def by (rule run_factory [OF run_new prod.collapse [symmetric]])

theorem new_returns_named_plugin_witness:
  "pl_name (ex_adapter ''gcp'' 1) = ''gcp''"
proof -
  have "\<exists>r'. New ''gcp'' ex_registry = (Inr (ex_adapter ''gcp'' 1), r')"
    by (simp add: New_def ex_registry_def RegisterFactory_def Register_def call_factory_def
        ValidatePluginContract_def ex_adapter_def NewRegistry_def Let_def)
  then show ?thesis using new_returns_named_plugin [OF ex_registry_reachable] by blast
qed

end
