(* ===== verification/Api_Types.thy ===== *)
theory Api_Types
  imports Prelude
begin

text \<open>
  The custom resources of \<open>api/v1alpha1\<close>: \<open>VMImage\<close>, \<open>ProviderConfig\<close> and
  \<open>PlatformProvider\<close>, one record per Go struct, one field per struct field, in the order of the
  source. A pointer field is an \<^typ>\<open>'a option\<close>, a \<open>map[string]string\<close> a partial function, an
  enumerated string the string itself, since the code also meets values outside the enumeration.
  \<open>int32\<close> counters that the code increments are 32-bit words; other integers are \<^typ>\<open>int\<close>.
\<close>

section \<open>VMImage specification\<close>

abbreviation (input) PhasePending :: string where "PhasePending \<equiv> ''Pending''"
abbreviation (input) PhaseBuilding :: string where "PhaseBuilding \<equiv> ''Building''"
abbreviation (input) PhaseProvisioning :: string where "PhaseProvisioning \<equiv> ''Provisioning''"
abbreviation (input) PhaseUploading :: string where "PhaseUploading \<equiv> ''Uploading''"
abbreviation (input) PhaseReady :: string where "PhaseReady \<equiv> ''Ready''"
abbreviation (input) PhaseFailed :: string where "PhaseFailed \<equiv> ''Failed''"

abbreviation (input) BuildModeLocal :: string where "BuildModeLocal \<equiv> ''local''"
abbreviation (input) BuildModeRemote :: string where "BuildModeRemote \<equiv> ''remote''"

type_synonym strmap = "string \<rightharpoonup> string"

text \<open>Indexing a Go map with an absent key gives the zero value.\<close>

definition get_str :: "strmap \<Rightarrow> string \<Rightarrow> string" where
  "get_str m k = (case m k of None \<Rightarrow> '''' | Some v \<Rightarrow> v)"

record EvidenceSpec =
  ev_required :: bool
  ev_sbomFormat :: string
  ev_vulnerabilityScanner :: string
  ev_failOnSeverity :: "string list"
  ev_registryRepository :: string

record OSSpec =
  os_family :: string
  os_distribution :: string
  os_version :: string
  os_arch :: string

record CloudbaseInitSpec =
  cbi_metadataServices :: "string list"
  cbi_plugins :: "string list"
  cbi_localScriptsPath :: string
  cbi_addUserToLocalGroups :: "string list"

record WindowsInstallerMediaSpec =
  win_virtioDriverPath :: string
  win_cloudbaseInitMSI :: string
  win_cloudbaseInit :: "CloudbaseInitSpec option"

record InstallerMediaSpec =
  inst_type :: string
  inst_userData :: string
  inst_metaData :: string
  inst_networkConfig :: string
  inst_kickstart :: string
  inst_preseed :: string
  inst_autounattend :: string
  inst_windows :: "WindowsInstallerMediaSpec option"

record MarketplaceRef =
  mp_publisher :: string
  mp_offer :: string
  mp_sku :: string
  mp_version :: string

record SourceSpec =
  src_type :: string
  src_url :: string
  src_providerRef :: string
  src_checksum :: string
  src_bootCommand :: "string list"
  src_installer :: "InstallerMediaSpec option"
  src_marketplaceRef :: "MarketplaceRef option"

record GitProvisionerAuthSecretRef =
  gas_name :: string
  gas_tokenKey :: string
  gas_usernameKey :: string
  gas_passwordKey :: string

record GitProvisionerAuthSpec =
  ga_secretRef :: "GitProvisionerAuthSecretRef option"
  ga_tokenPath :: string
  ga_usernamePath :: string
  ga_passwordPath :: string
  ga_runtimeToken :: string
  ga_runtimeUsername :: string
  ga_runtimePassword :: string

record GitProvisionerSourceSpec =
  git_url :: string
  git_ref :: string
  git_path :: string
  git_auth :: "GitProvisionerAuthSpec option"

record ProvisionerSourceSpec =
  psrc_git :: "GitProvisionerSourceSpec option"

record SecretKeyRef =
  skr_name :: string
  skr_key :: string

record EnvVarSource =
  evs_secretKeyRef :: "SecretKeyRef option"

record EnvVar =
  env_name :: string
  env_value :: string
  env_valueFrom :: "EnvVarSource option"

record SysprepConfig =
  sp_generalize :: bool
  sp_shutdown :: bool

record WindowsProvisionerConfig =
  wpc_autounattend :: string
  wpc_virtioDrivers :: bool
  wpc_cloudbaseInit :: bool
  wpc_sysprep :: "SysprepConfig option"

record ProvisionerSpec =
  prov_type :: string
  prov_image :: string
  prov_inline :: string
  prov_source :: "ProvisionerSourceSpec option"
  prov_playbook :: string
  prov_args :: "string list"
  prov_env :: "EnvVar list"
  prov_extraVars :: strmap
  prov_windowsConfig :: "WindowsProvisionerConfig option"

record TargetSpec =
  tgt_providerConfigRef :: string  \<comment> \<open>the \<open>Name\<close> of the embedded \<open>ProviderConfigRef\<close>\<close>
  tgt_format :: string
  tgt_tags :: strmap

record BuildRevisionRetentionSpec =
  ret_maxCount :: "int option"
  ret_ttl :: "int option"

record SourceCacheSpec =
  cache_ref :: string
  cache_ttl :: "int option"
  cache_retainPolicy :: string

record ImagePolicySpec =
  ip_allowedRegistries :: "string list"
  ip_requireDigest :: bool
  ip_verifySignature :: bool

record BuildSecuritySpec =
  sec_enableKVM :: bool
  sec_provisionerImages :: "ImagePolicySpec option"

record WinRMAccessSpec =
  wr_https :: "bool option"
  wr_insecureSkipVerify :: bool

record GuestCredentialsSecretRef =
  gcs_name :: string
  gcs_sshPrivateKeyKey :: string
  gcs_passwordKey :: string

record GuestGeneratedCredentialsSpec =
  gg_sshKey :: bool
  gg_password :: bool
  gg_passwordLength :: int

record GuestCredentialsSpec =
  gc_secretRef :: "GuestCredentialsSecretRef option"
  gc_generate :: "GuestGeneratedCredentialsSpec option"
  gc_injection :: "string option"  \<comment> \<open>the \<open>Method\<close> of \<open>GuestCredentialInjectionSpec\<close>\<close>

record GuestAccessSpec =
  gac_protocol :: string
  gac_host :: string
  gac_hostPort :: int
  gac_user :: string
  gac_sshKeyPath :: string
  gac_passwordPath :: string
  gac_credentials :: "GuestCredentialsSpec option"
  gac_guestPort :: int
  gac_timeout :: "int option"
  gac_winRM :: "WinRMAccessSpec option"

record ArtifactPVCSpec =
  pvc_claimName :: string
  pvc_storageClassName :: "string option"
  pvc_size :: string
  pvc_accessMode :: string
  pvc_retainPolicy :: string

record ArtifactStorageSpec =
  as_type :: string
  as_pvc :: "ArtifactPVCSpec option"

record ResourceRequirements =
  rr_cpu :: string
  rr_memory :: string
  rr_storage :: string

record BuildSpec =
  bld_revision :: string
  bld_revisionRetention :: "BuildRevisionRetentionSpec option"
  bld_mode :: string
  bld_timeout :: "int option"
  bld_nodeSelector :: strmap
  bld_resources :: "ResourceRequirements option"
  bld_cacheRef :: "string option"
  bld_cache :: "SourceCacheSpec option"
  bld_artifactStorage :: "ArtifactStorageSpec option"
  bld_upload :: "string option"  \<comment> \<open>the \<open>Image\<close> of \<open>UploadSpec\<close>\<close>
  bld_guestAccess :: "GuestAccessSpec option"
  bld_security :: "BuildSecuritySpec option"

record VMImageSpec =
  spec_os :: OSSpec
  spec_source :: SourceSpec
  spec_provisioners :: "ProvisionerSpec list"
  spec_targets :: "TargetSpec list"
  spec_build :: BuildSpec
  spec_evidence :: "EvidenceSpec option"

section \<open>VMImage status\<close>

record PipelineStepStatus =
  step_name :: string
  step_status :: string
  step_reason :: string
  step_message :: string
  step_lastTransitionTime :: int
  step_resultRef :: string

record EvidenceStatus =
  evs_status :: string
  evs_message :: string
  evs_sbomRef :: string
  evs_vulnerabilityReportRef :: string
  evs_provenanceRef :: string
  evs_signatureRef :: string
  evs_generatedAt :: "int option"

record ArtifactStatus =
  art_path :: string
  art_format :: string
  art_checksum :: string
  art_sizeBytes :: int
  art_os :: string
  art_metadata :: strmap

record HygieneResultStatus =
  hyg_status :: string
  hyg_message :: string
  hyg_checks :: "string list"
  hyg_resultRef :: string

record ImageStatus =
  is_provider :: string
  is_providerConfig :: string
  is_imageRef :: string
  is_location :: string
  is_format :: string
  is_checksum :: string

record UploadOperationStatus =
  uo_provider :: string
  uo_providerConfig :: string
  uo_format :: string
  uo_phase :: string
  uo_operationRef :: string
  uo_imageRef :: string
  uo_message :: string
  uo_lastTransitionTime :: int
  uo_uploadMilliseconds :: int
  uo_uploadBytes :: int
  uo_registerMilliseconds :: int
  uo_resumeMode :: string
  uo_committedBytes :: int
  uo_retryCount :: int
  uo_lastRetryTime :: "int option"
  uo_lastRetryReason :: string

text \<open>\<open>metav1.Condition\<close>, with the status \<open>True\<close>, \<open>False\<close> or \<open>Unknown\<close>.\<close>

record Condition =
  cond_type :: string
  cond_status :: string
  cond_reason :: string
  cond_message :: string
  cond_observedGeneration :: int
  cond_lastTransitionTime :: int

record VMImageStatus =
  st_observedGeneration :: int
  st_observedRevision :: string
  st_phase :: string
  st_images :: "ImageStatus list"
  st_buildArtifact :: "ArtifactStatus option"
  st_steps :: "PipelineStepStatus list"
  st_provisionerResultRef :: string
  st_hygieneResult :: "HygieneResultStatus option"
  st_evidence :: "EvidenceStatus option"
  st_conditions :: "Condition list"
  st_startTime :: "int option"
  st_completionTime :: "int option"
  st_buildJobRef :: "string option"
  st_uploadJobRef :: "string option"
  st_uploadOperations :: "UploadOperationStatus list"
  st_remoteBuildRef :: "string option"
  st_remoteRetryCount :: "32 word"
  st_nextRemoteRetryTime :: "int option"
  st_buildLeaseRefs :: "string list"
  st_scheduledNodeName :: string

definition empty_status :: VMImageStatus where
  "empty_status =
     \<lparr>st_observedGeneration = 0, st_observedRevision = '''', st_phase = '''', st_images = [],
      st_buildArtifact = None, st_steps = [], st_provisionerResultRef = '''',
      st_hygieneResult = None, st_evidence = None, st_conditions = [], st_startTime = None,
      st_completionTime = None, st_buildJobRef = None, st_uploadJobRef = None,
      st_uploadOperations = [], st_remoteBuildRef = None, st_remoteRetryCount = 0,
      st_nextRemoteRetryTime = None, st_buildLeaseRefs = [], st_scheduledNodeName = ''''\<rparr>"

text \<open>The object metadata the code reads: name, namespace, uid, generation, finalizers, and the
  creation and deletion timestamps (\<open>None\<close> for a zero deletion timestamp).\<close>

record VMImage =
  img_name :: string
  img_namespace :: string
  img_uid :: string
  img_generation :: int
  img_finalizers :: "string list"
  img_creationTimestamp :: int
  img_deletionTimestamp :: "int option"
  img_spec :: VMImageSpec
  img_status :: VMImageStatus

section \<open>ProviderConfig and PlatformProvider\<close>

record ProviderNetworkAccessSpec =
  na_allowedPrivateCIDRs :: "string list"
  na_allowedDNSNames :: "string list"

record ProviderConfig =
  pc_name :: string
  pc_namespace :: string
  pc_provider :: string
  pc_secretRef_name :: string
  pc_secretRef_key :: string
  pc_region :: string
  pc_endpoint :: string
  pc_insecure :: bool
  pc_extra :: strmap
  pc_networkAccess :: "ProviderNetworkAccessSpec option"

record ProviderTLSSecretRef =
  tsr_name :: string
  tsr_namespace :: string
  tsr_caKey :: string
  tsr_certKey :: string
  tsr_keyKey :: string

record ProviderTransportTLSSpec =
  tls_mode :: string
  tls_serverName :: string
  tls_caSecretRef :: "ProviderTLSSecretRef option"
  tls_clientCertificateSecretRef :: "ProviderTLSSecretRef option"
  tls_serverCertificateSecretRef :: "ProviderTLSSecretRef option"

record ProviderTransportSpec =
  tr_tls :: "ProviderTransportTLSSpec option"

record ProviderPackageSecuritySpec =
  pps_allowedRegistries :: "string list"
  pps_requireDigest :: bool
  pps_verifySignature :: bool

record ProviderCapabilities =
  cap_providerName :: string
  cap_providerVersion :: string
  cap_formats :: "string list"
  cap_osFamilies :: "string list"
  cap_buildModes :: "string list"
  cap_protocolVersion :: string

record PlatformProviderSpec =
  pp_package :: string
  pp_packagePullPolicy :: string
  pp_packagePullSecrets :: "string list"
  pp_controllerConfigRef :: "string option"
  pp_security :: "ProviderPackageSecuritySpec option"
  pp_transport :: "ProviderTransportSpec option"
  pp_serviceAccountName :: string
  pp_automountServiceAccountToken :: "bool option"
  pp_podLabels :: strmap
  pp_podAnnotations :: strmap
  pp_env :: "EnvVar list"

record PlatformProviderStatus =
  pps_phase :: string
  pps_currentRevision :: string
  pps_capabilities :: "ProviderCapabilities option"
  pps_conditions :: "Condition list"

record PlatformProvider =
  ppr_name :: string
  ppr_namespace :: string
  ppr_uid :: string
  ppr_finalizers :: "string list"
  ppr_deletionTimestamp :: "int option"
  ppr_spec :: PlatformProviderSpec
  ppr_status :: PlatformProviderStatus

section \<open>Build mode\<close>

text \<open>\<open>buildMode\<close> of the controller: the empty mode is the local one.\<close>

definition buildMode :: "VMImage \<Rightarrow> string" where
  "buildMode img =
     (if bld_mode (spec_build (img_spec img)) = '''' then BuildModeLocal
      else bld_mode (spec_build (img_spec img)))"

definition img_phase :: "VMImage \<Rightarrow> string" where
  "img_phase img = st_phase (img_status img)"

text \<open>Writes to the embedded status, as assignments through \<open>img.Status\<close>.\<close>

definition upd_status :: "(VMImageStatus \<Rightarrow> VMImageStatus) \<Rightarrow> VMImage \<Rightarrow> VMImage" where
  "upd_status f img = img\<lparr>img_status := f (img_status img)\<rparr>"

lemma upd_status_simps [simp]:
  "img_status (upd_status f img) = f (img_status img)"
  "img_spec (upd_status f img) = img_spec img"
  "img_name (upd_status f img) = img_name img"
  "img_namespace (upd_status f img) = img_namespace img"
  "img_uid (upd_status f img) = img_uid img"
  "img_generation (upd_status f img) = img_generation img"
  "img_finalizers (upd_status f img) = img_finalizers img"
  "img_deletionTimestamp (upd_status f img) = img_deletionTimestamp img"
  "img_creationTimestamp (upd_status f img) = img_creationTimestamp img"
  by (simp_all add: upd_status_def)

lemma img_phase_upd_status [simp]: "img_phase (upd_status f img) = st_phase (f (img_status img))"
  by (simp add: img_phase_def)

lemma buildMode_upd_status [simp]: "buildMode (upd_status f img) = buildMode img"
  by (simp add: buildMode_def)

end
