(* ===== verification/Revision.thy ===== *)
theory Revision
  imports Api_Types
begin

text \<open>
  Names scoped to a build revision (\<open>pkg/controller/revision/names.go\<close>) and the resource names
  the Job assemblers derive from them (\<open>pkg/controller/buildpod\<close>, \<open>pkg/controller/uploadpod\<close>).
  \<open>crypto/sha256\<close> is the parameter \<open>sha256\<close>, a function on byte strings; the facts that need it
  assume only that a digest has 32 bytes.
\<close>

section \<open>Names\<close>

abbreviation (input) maxDNSLabelLength :: nat where "maxDNSLabelLength \<equiv> 63"

definition ResourceName :: "(string \<Rightarrow> string) \<Rightarrow> string \<Rightarrow> string \<Rightarrow> string" where
  "ResourceName sha256 base buildRevision =
     (if buildRevision = '''' then base
      else
        (let digest = sha256 buildRevision;
             suffix = hex (take 6 digest);
             maxBaseLength = maxDNSLabelLength - length suffix - 1;
             base' = (if length base > maxBaseLength
                      then trimRight (take maxBaseLength base) ''-.'' else base)
         in base' @ ''-'' @ suffix))"

definition BuildID :: "(string \<Rightarrow> string) \<Rightarrow> string \<Rightarrow> string \<Rightarrow> string" where
  "BuildID sha256 uid buildRevision =
     (if buildRevision = '''' then uid
      else uid @ ''-'' @ hex (take 6 (sha256 buildRevision)))"

definition Hash :: "(string \<Rightarrow> string) \<Rightarrow> string \<Rightarrow> string" where
  "Hash sha256 buildRevision =
     (if buildRevision = '''' then ''initial'' else hex (take 6 (sha256 buildRevision)))"

definition img_revision :: "VMImage \<Rightarrow> string" where
  "img_revision img = bld_revision (spec_build (img_spec img))"

definition jobName :: "(string \<Rightarrow> string) \<Rightarrow> VMImage \<Rightarrow> string" where
  "jobName sha256 img = ResourceName sha256 (img_name img @ ''-build'') (img_revision img)"

definition JobName :: "(string \<Rightarrow> string) \<Rightarrow> VMImage \<Rightarrow> string" where
  "JobName sha256 img = ResourceName sha256 (img_name img @ ''-upload'') (img_revision img)"

definition CleanupJobName :: "(string \<Rightarrow> string) \<Rightarrow> VMImage \<Rightarrow> string" where
  "CleanupJobName sha256 img =
     ResourceName sha256 (img_name img @ ''-upload-cleanup'') (img_revision img)"

definition jobNameForMode :: "(string \<Rightarrow> string) \<Rightarrow> VMImage \<Rightarrow> bool \<Rightarrow> string" where
  "jobNameForMode sha256 img cleanupOnly =
     (if cleanupOnly then CleanupJobName sha256 img else JobName sha256 img)"

definition claim_name :: "VMImage \<Rightarrow> string" where
  "claim_name img =
     (case bld_artifactStorage (spec_build (img_spec img)) of None \<Rightarrow> ''''
      | Some s \<Rightarrow> (case as_pvc s of None \<Rightarrow> '''' | Some p \<Rightarrow> pvc_claimName p))"

definition WorkspaceClaimName :: "(string \<Rightarrow> string) \<Rightarrow> VMImage \<Rightarrow> string" where
  "WorkspaceClaimName sha256 img =
     (if claim_name img \<noteq> '''' then claim_name img
      else ResourceName sha256 (img_name img @ ''-workspace'') (img_revision img))"

section \<open>Lemmas\<close>

lemma hex_digit_inj: "a < 16 \<Longrightarrow> b < 16 \<Longrightarrow> hex_digit a = hex_digit b \<Longrightarrow> a = b"
proof -
  assume "a < 16" "b < 16" "hex_digit a = hex_digit b"
  moreover have "distinct ''0123456789abcdef''" by simp
  ultimately show "a = b"
    using nth_eq_iff_index_eq [of "''0123456789abcdef''" a b] by (simp add: hex_digit_def)
qed

lemma hex_byte_inj: "hex_byte c = hex_byte d \<Longrightarrow> c = d"
proof -
  assume h: "hex_byte c = hex_byte d"
  let ?m = "of_char c :: nat" and ?n = "of_char d :: nat"
  have b: "?m < 256" "?n < 256" by (rule nat_of_char_less_256)+
  have "?m div 16 < 16" "?n div 16 < 16" using b by (simp_all add: less_mult_imp_div_less)
  with h have "?m div 16 = ?n div 16" "?m mod 16 = ?n mod 16"
    by (auto simp: hex_byte_def Let_def intro: hex_digit_inj)
  then have "?m = ?n" by (metis div_mult_mod_eq)
  then show "c = d" by simp
qed

lemma length_hex_byte [simp]: "length (hex_byte c) = 2"
  by (simp add: hex_byte_def Let_def)

lemma hex_Cons: "hex (c # s) = hex_byte c @ hex s"
  by (simp add: hex_def)

lemma hex_inj: "hex s = hex t \<Longrightarrow> s = t"
proof (induction s arbitrary: t)
  case Nil
  then have "length (hex t) = 0" by (metis length_hex list.size(3) mult_0_right)
  then show ?case by simp
next
  case (Cons c s)
  then have "length (hex t) = 2 * Suc (length s)" by (metis length_Cons length_hex)
  then obtain d t' where t: "t = d # t'" by (cases t) auto
  with Cons.prems have "hex_byte c = hex_byte d \<and> hex s = hex t'"
    by (simp add: hex_Cons)
  with Cons.IH t show ?case by (auto dest: hex_byte_inj)
qed

lemma length_hex_take6: "length d = 32 \<Longrightarrow> length (hex (take 6 d)) = 12"
  by simp

lemma length_trimRight_take: "length (trimRight (take n s) cs) \<le> n"
  by (rule order_trans [OF length_trimRight]) simp

lemma ResourceName_length:
  assumes "buildRevision \<noteq> ''''"
  shows "length (ResourceName sha256 base buildRevision) \<le> maxDNSLabelLength"
proof -
  have "length (hex (take 6 (sha256 buildRevision))) \<le> 12" by simp
  then show ?thesis
    using assms length_trimRight_take [of "62 - length (hex (take 6 (sha256 buildRevision)))" base "''-.''"]
    by (auto simp: ResourceName_def Let_def)
qed

lemma ResourceName_neq:
  assumes "length (sha256 r1) = 32" and "length (sha256 r2) = 32"
    and "r1 \<noteq> ''''" and "r2 \<noteq> ''''"
    and "take 6 (sha256 r1) \<noteq> take 6 (sha256 r2)"
  shows "ResourceName sha256 b1 r1 \<noteq> ResourceName sha256 b2 r2"
proof
  assume eq: "ResourceName sha256 b1 r1 = ResourceName sha256 b2 r2"
  have "length (hex (take 6 (sha256 r1))) = length (hex (take 6 (sha256 r2)))"
    using assms by simp
  with eq assms(3,4) have "hex (take 6 (sha256 r1)) = hex (take 6 (sha256 r2))"
    by (auto simp: ResourceName_def Let_def simp del: length_hex)
  with assms(5) show False by (auto dest: hex_inj)
qed

text \<open>A base that fits is kept whole, so different bases give different names.\<close>

lemma ResourceName_short:
  assumes "length (sha256 r) = 32" and "r \<noteq> ''''" and "length base \<le> 50"
  shows "ResourceName sha256 base r = base @ ''-'' @ hex (take 6 (sha256 r))"
  using assms by (simp add: ResourceName_def Let_def)

text \<open>A base that does not fit is cut to its first 50 bytes: what follows them is lost.\<close>

lemma ResourceName_long:
  assumes "length (sha256 r) = 32" and "r \<noteq> ''''" and "50 < length base"
  shows "ResourceName sha256 base r =
           trimRight (take 50 base) ''-.'' @ ''-'' @ hex (take 6 (sha256 r))"
  using assms by (simp add: ResourceName_def Let_def)

end
