(* ===== verification/Cluster.thy ===== *)
theory Cluster
  imports Netguard Registry Revision
begin

text \<open>
  The environment of the controllers: the Kubernetes objects they read and write besides the
  custom resources, the request and result types of \<open>pkg/plugin/platform/interface.go\<close>, and
  every service the code calls but does not contain (the API server, the clock, DNS, the
  provider plugins, JSON decoding), as the fields of a record of functions over an abstract
  world. The handlers run in a state that holds the \<open>VMImage\<close> being reconciled, the world, and
  the trace of the effects they had.
\<close>

section \<open>Kubernetes objects\<close>

record Lease =
  ls_name :: string
  ls_namespace :: string
  ls_labels :: strmap
  ls_holderIdentity :: "string option"
  ls_leaseDurationSeconds :: "int option"
  ls_acquireTime :: "int option"
  ls_renewTime :: "int option"

record JobCondition =
  jc_type :: string
  jc_status :: string

text \<open>A Job is its metadata and status; its pod template is the business of the assemblers.\<close>

record Job =
  job_name :: string
  job_namespace :: string
  job_labels :: strmap
  job_creationTimestamp :: int
  job_deletionTimestamp :: "int option"
  job_active :: int
  job_failed :: int
  job_conditions :: "JobCondition list"

record PVC =
  pvcl_name :: string
  pvcl_namespace :: string
  pvcl_labels :: strmap
  pvcl_creationTimestamp :: int
  pvcl_accessModes :: "string list"
  pvcl_storage :: string
  pvcl_storageClassName :: "string option"
  pvcl_ownerUID :: "string option"

record ContainerStatus =
  cs_name :: string
  cs_terminatedMessage :: "string option"  \<comment> \<open>\<open>None\<close> when the container has not terminated\<close>

record Pod =
  pod_creationTimestamp :: int
  pod_containerStatuses :: "ContainerStatus list"

record Secret =
  secr_name :: string
  secr_namespace :: string
  secr_labels :: strmap
  secr_type :: string
  secr_data :: strmap
  secr_ownerUID :: "string option"

section \<open>Plugin requests and results\<close>

record PluginConfig =
  plc_ProviderConfigName :: string
  plc_SecretData :: strmap
  plc_Region :: string
  plc_Endpoint :: string
  plc_Insecure :: bool
  plc_Extra :: strmap
  plc_AllowedPrivateCIDRs :: "string list"
  plc_AllowedDNSNames :: "string list"

record BuildArtifact =
  ba_Path :: string
  ba_Format :: string
  ba_Checksum :: string
  ba_SizeBytes :: int
  ba_OS :: string
  ba_Metadata :: strmap

record RemoteBuildRequest =
  rq_BuildID :: string
  rq_OperationRef :: string
  rq_ImageName :: string
  rq_Namespace :: string
  rq_OSFamily :: string
  rq_OSDistribution :: string
  rq_OSVersion :: string
  rq_OSArch :: string
  rq_SourceType :: string
  rq_SourceURL :: string
  rq_SourceProviderRef :: string
  rq_SourceMarketplace :: "MarketplaceRef option"
  rq_SourceChecksum :: string
  rq_Target :: TargetSpec
  rq_Provisioners :: "ProvisionerSpec list"
  rq_GuestAccess :: "GuestAccessSpec option"
  rq_Evidence :: "EvidenceSpec option"
  rq_Timeout :: int

record RemoteHygieneResult =
  rh_Status :: string
  rh_Message :: string
  rh_Checks :: "string list"
  rh_ResultRef :: string

record RemoteEvidenceResult =
  re_Status :: string
  re_Message :: string
  re_SBOMRef :: string
  re_VulnerabilityReportRef :: string
  re_ProvenanceRef :: string
  re_SignatureRef :: string

text \<open>Of an \<open>ImageRef\<close> the controller reads the identifier and the location.\<close>

record RemoteImageRef =
  ri_Provider :: string
  ri_ProviderConfig :: string
  ri_ImageRef_ID :: string
  ri_ImageRef_Location :: string
  ri_Format :: string
  ri_Checksum :: string

record RemoteBuildResult =
  rr_OperationRef :: string
  rr_Phase :: string
  rr_Message :: string
  rr_Images :: "RemoteImageRef list"
  rr_Artifact :: "BuildArtifact option"
  rr_Hygiene :: "RemoteHygieneResult option"
  rr_Evidence :: "RemoteEvidenceResult option"
  rr_Done :: bool

text \<open>The upload Job's view of an external provider (\<open>uploadpod.ProviderConnection\<close>).\<close>

record ProviderConnection =
  conn_Address :: string
  conn_TLSSecretName :: string
  conn_ServerName :: string

section \<open>Results of API calls\<close>

text \<open>The code distinguishes \<open>apierrors.IsNotFound\<close> and \<open>apierrors.IsAlreadyExists\<close> from every
  other error.\<close>

datatype 'a get_result = Found 'a | NotFound go_error | GetError go_error
datatype create_result = Created | AlreadyExists go_error | CreateError go_error
datatype delete_result = Deleted | DeleteNotFound go_error | DeleteError go_error

fun get_error :: "'a get_result \<Rightarrow> go_error + 'a" where
  "get_error (Found a) = Inr a"
| "get_error (NotFound e) = Inl e"
| "get_error (GetError e) = Inl e"

section \<open>The environment\<close>

text \<open>
  Keys are written namespace first. \<open>e_shuffle\<close> is the iteration order of a Go map with the given
  keys. \<open>e_decodeX\<close> are \<open>json.Unmarshal\<close> into the payload types of the reconciler. The fields
  that assemble Jobs are \<open>pkg/controller/buildpod\<close> and \<open>pkg/controller/uploadpod\<close>.
\<close>

record ProvisionerTiming =
  pt_type :: string
  pt_success :: bool
  pt_duration :: int

record BuildPayload =
  bp_artifact :: ArtifactStatus
  bp_provisioners :: "ProvisionerTiming list"

record 'w Env =
  e_now :: "'w \<Rightarrow> int \<times> 'w"
  e_getVMImage :: "string \<Rightarrow> string \<Rightarrow> 'w \<Rightarrow> VMImage get_result \<times> 'w"
  e_updateVMImage :: "VMImage \<Rightarrow> 'w \<Rightarrow> go_error option \<times> 'w"
  e_updateStatus :: "VMImage \<Rightarrow> 'w \<Rightarrow> go_error option \<times> 'w"
  e_getProviderConfig :: "string \<Rightarrow> string \<Rightarrow> 'w \<Rightarrow> ProviderConfig get_result \<times> 'w"
  e_getPlatformProvider :: "string \<Rightarrow> 'w \<Rightarrow> PlatformProvider get_result \<times> 'w"
  e_client_getSecret :: "string \<Rightarrow> string \<Rightarrow> 'w \<Rightarrow> strmap get_result \<times> 'w"
  e_apiReader_getSecret :: "string \<Rightarrow> string \<Rightarrow> 'w \<Rightarrow> strmap get_result \<times> 'w"
  e_applySecret :: "Secret \<Rightarrow> 'w \<Rightarrow> go_error option \<times> 'w"
  e_getJob :: "string \<Rightarrow> string \<Rightarrow> 'w \<Rightarrow> Job get_result \<times> 'w"
  e_createJob :: "Job \<Rightarrow> 'w \<Rightarrow> create_result \<times> 'w"
  e_deleteJob :: "string \<Rightarrow> string \<Rightarrow> 'w \<Rightarrow> delete_result \<times> 'w"
  e_listJobs :: "string \<Rightarrow> strmap \<Rightarrow> 'w \<Rightarrow> (go_error + Job list) \<times> 'w"
  e_getPVC :: "string \<Rightarrow> string \<Rightarrow> 'w \<Rightarrow> PVC get_result \<times> 'w"
  e_createPVC :: "PVC \<Rightarrow> 'w \<Rightarrow> create_result \<times> 'w"
  e_deletePVC :: "string \<Rightarrow> string \<Rightarrow> 'w \<Rightarrow> delete_result \<times> 'w"
  e_listPVCs :: "string \<Rightarrow> strmap \<Rightarrow> 'w \<Rightarrow> (go_error + PVC list) \<times> 'w"
  e_getLease :: "string \<Rightarrow> string \<Rightarrow> 'w \<Rightarrow> Lease get_result \<times> 'w"
  e_createLease :: "Lease \<Rightarrow> 'w \<Rightarrow> create_result \<times> 'w"
  e_updateLease :: "Lease \<Rightarrow> 'w \<Rightarrow> go_error option \<times> 'w"
  e_deleteLease :: "string \<Rightarrow> string \<Rightarrow> 'w \<Rightarrow> delete_result \<times> 'w"
  e_listPods :: "string \<Rightarrow> strmap \<Rightarrow> 'w \<Rightarrow> (go_error + Pod list) \<times> 'w"
  e_getRegistry :: "'w \<Rightarrow> Registry"
  e_putRegistry :: "Registry \<Rightarrow> 'w \<Rightarrow> 'w"
  e_pluginInit :: "Plugin \<Rightarrow> PluginConfig \<Rightarrow> 'w \<Rightarrow> go_error option \<times> 'w"
  e_pluginValidate :: "Plugin \<Rightarrow> TargetSpec \<Rightarrow> 'w \<Rightarrow> go_error option \<times> 'w"
  e_reconcileRemote :: "Plugin \<Rightarrow> RemoteBuildRequest \<Rightarrow> 'w \<Rightarrow> (go_error + RemoteBuildResult option) \<times> 'w"
  e_cleanupRemote :: "Plugin \<Rightarrow> RemoteBuildRequest \<Rightarrow> 'w \<Rightarrow> go_error option \<times> 'w"
  e_pluginClose :: "Plugin \<Rightarrow> 'w \<Rightarrow> go_error option \<times> 'w"
  e_lookupHost :: "'w \<Rightarrow> resolver"
  e_shuffle :: "string list \<Rightarrow> 'w \<Rightarrow> string list \<times> 'w"
  e_url_parse :: url_parser
  e_sha256 :: "string \<Rightarrow> string"
  e_parseQuantity :: "string \<Rightarrow> string option"
  e_setControllerReference :: "VMImage \<Rightarrow> go_error option"
  e_assembleBuild :: "VMImage \<Rightarrow> go_error + Job"
  e_assembleUpload :: "VMImage \<Rightarrow> ProviderConfig list \<Rightarrow> (string \<rightharpoonup> ProviderConnection) \<Rightarrow> go_error + Job"
  e_assembleCleanup :: "VMImage \<Rightarrow> ProviderConfig list \<Rightarrow> (string \<rightharpoonup> ProviderConnection) \<Rightarrow> go_error + Job"
  e_decodeStringMap :: "string \<Rightarrow> go_error + (string \<times> string) list"
  e_decodeUploadError :: "string \<Rightarrow> go_error + string"
  e_decodeUploadRetry :: "string \<Rightarrow> go_error + string \<times> UploadOperationStatus list"
  e_decodeUpload :: "string \<Rightarrow> go_error + ImageStatus list \<times> UploadOperationStatus list"
  e_decodeImages :: "string \<Rightarrow> go_error + ImageStatus list"
  e_decodeBuild :: "string \<Rightarrow> go_error + BuildPayload"
  e_decodeFailure :: "string \<Rightarrow> go_error + string \<times> string"

section \<open>Effects\<close>

text \<open>The effects a handler has outside its own state, in the order it has them. A measurement is
  a fraction of integers.\<close>

datatype call =
    UpdateObject VMImage "go_error option"
  | UpdateStatus VMImage "go_error option"
  | CreateJob Job create_result
  | DeleteJob string string delete_result
  | CreatePVC PVC create_result
  | DeletePVC string string delete_result
  | CreateLease Lease create_result
  | UpdateLease Lease "go_error option"
  | DeleteLease string string delete_result
  | ApplySecret Secret "go_error option"
  | InitPlugin Plugin PluginConfig "go_error option"
  | ReconcileRemote Plugin RemoteBuildRequest
  | CleanupRemote Plugin RemoteBuildRequest "go_error option"
  | ClosePlugin Plugin
  | Event string string string
  | MetricInc string "string list"
  | MetricDec string "string list"
  | MetricAdd string "string list" int
  | MetricObserve string "string list" "int \<times> int"

text \<open>The state of a reconciliation: the object in memory, the outside world, and the calls made so far. The
  trace belongs to the proofs alone, no operation looks at it: it lists the worlds in which the run made its reads
  (\<open>None\<close>) and its calls, in their order.\<close>

record 'w st =
  obj :: VMImage
  world :: 'w
  calls :: "call list"
  trace :: "('w \<times> call option) list"

type_synonym ('w, 'a) handler = "('w st, 'a) state"

definition after_read :: "'w st \<Rightarrow> 'w \<Rightarrow> 'w st" where
  "after_read s w = s\<lparr>world := w, trace := trace s @ [(world s, None)]\<rparr>"

definition after_call :: "'w st \<Rightarrow> call \<Rightarrow> 'w \<Rightarrow> 'w st" where
  "after_call s c w = s\<lparr>world := w, calls := calls s @ [c], trace := trace s @ [(world s, Some c)]\<rparr>"

lemma after_simps [simp]:
  "obj (after_read s w) = obj s" "world (after_read s w) = w" "calls (after_read s w) = calls s"
  "trace (after_read s w) = trace s @ [(world s, None)]"
  "obj (after_call s c w) = obj s" "world (after_call s c w) = w" "calls (after_call s c w) = calls s @ [c]"
  "trace (after_call s c w) = trace s @ [(world s, Some c)]"
  by (simp_all add: after_read_def after_call_def)

definition query :: "('w \<Rightarrow> 'a \<times> 'w) \<Rightarrow> ('w, 'a) handler" where
  "query f = State (\<lambda>s. let (a, w) = f (world s) in (a, after_read s w))"

definition command :: "('a \<Rightarrow> call) \<Rightarrow> ('w \<Rightarrow> 'a \<times> 'w) \<Rightarrow> ('w, 'a) handler" where
  "command c f = State (\<lambda>s. let (a, w) = f (world s) in (a, after_call s (c a) w))"

definition emit :: "call \<Rightarrow> ('w, unit) handler" where
  "emit c = modify (\<lambda>s. after_call s c (world s))"

definition get_obj :: "('w, VMImage) handler" where
  "get_obj = gets obj"

definition set_obj :: "(VMImage \<Rightarrow> VMImage) \<Rightarrow> ('w, unit) handler" where
  "set_obj f = modify (\<lambda>s. s\<lparr>obj := f (obj s)\<rparr>)"

text \<open>An assignment to fields of \<open>img.Status\<close>.\<close>

definition set_status :: "(VMImageStatus \<Rightarrow> VMImageStatus) \<Rightarrow> ('w, unit) handler" where
  "set_status f = set_obj (upd_status f)"

text \<open>A successful update writes the server's answer back into the object: what was sent, with
  a new resource version, which the model does not keep.\<close>

definition update_object :: "'w Env \<Rightarrow> ('w, go_error option) handler" where
  "update_object E = do { img \<leftarrow> get_obj; command (UpdateObject img) (e_updateVMImage E img) }"

definition update_status :: "'w Env \<Rightarrow> ('w, go_error option) handler" where
  "update_status E = do { img \<leftarrow> get_obj; command (UpdateStatus img) (e_updateStatus E img) }"

text \<open>\<open>ctrl.Result\<close> is its \<open>RequeueAfter\<close>.\<close>

type_synonym outcome = "int \<times> go_error option"

lemma wp_query [wp_simp]:
  "wp (query f) Q s = (case f (world s) of (a, w) \<Rightarrow> Q a (after_read s w))"
  by (simp add: wp_def query_def Let_def split: prod.split)

lemma wp_command [wp_simp]:
  "wp (command c f) Q s =
     (case f (world s) of (a, w) \<Rightarrow> Q a (after_call s (c a) w))"
  by (simp add: wp_def command_def Let_def split: prod.split)

lemma wp_emit [wp_simp]: "wp (emit c) Q s = Q () (after_call s c (world s))"
  by (simp add: emit_def wp_simp)

lemma wp_get_obj [wp_simp]: "wp get_obj Q s = Q (obj s) s"
  by (simp add: get_obj_def wp_simp)

lemma wp_set_obj [wp_simp]: "wp (set_obj f) Q s = Q () (s\<lparr>obj := f (obj s)\<rparr>)"
  by (simp add: set_obj_def wp_simp)

lemma wp_set_status [wp_simp]: "wp (set_status f) Q s = Q () (s\<lparr>obj := upd_status f (obj s)\<rparr>)"
  by (simp add: set_status_def wp_simp)

section \<open>Directly read configuration\<close>

record Reconciler =
  r_hasAPIReader :: bool
  r_hasRecorder :: bool
  r_MaxConcurrentBuilds :: int
  r_SchedulerNamespace :: string
  r_ProviderNamespace :: string

definition directReader_getSecret ::
    "Reconciler \<Rightarrow> 'w Env \<Rightarrow> string \<Rightarrow> string \<Rightarrow> ('w, strmap get_result) handler" where
  "directReader_getSecret r E ns name =
     query (if r_hasAPIReader r then e_apiReader_getSecret E ns name else e_client_getSecret E ns name)"

definition recordEvent :: "Reconciler \<Rightarrow> string \<Rightarrow> string \<Rightarrow> string \<Rightarrow> ('w, unit) handler" where
  "recordEvent r eventType reason message =
     (if r_hasRecorder r then emit (Event eventType reason message) else ret ())"

abbreviation (input) finalizerName :: string where "finalizerName \<equiv> ''imagebuilder.io/cleanup''"
abbreviation (input) defaultBuildTimeout :: int where "defaultBuildTimeout \<equiv> 7200000000000"
abbreviation (input) requeueAfter :: int where "requeueAfter \<equiv> 15000000000"
abbreviation (input) remoteRetryMaxDelay :: int where "remoteRetryMaxDelay \<equiv> 300000000000"
abbreviation (input) defaultProviderNamespace :: string where "defaultProviderNamespace \<equiv> ''imagebuilder-system''"
abbreviation (input) providerGRPCPort :: int where "providerGRPCPort \<equiv> 50051"

abbreviation (input) EventNormal :: string where "EventNormal \<equiv> ''Normal''"
abbreviation (input) EventWarning :: string where "EventWarning \<equiv> ''Warning''"
abbreviation (input) ConditionTrue :: string where "ConditionTrue \<equiv> ''True''"
abbreviation (input) ConditionFalse :: string where "ConditionFalse \<equiv> ''False''"

section \<open>Frames\<close>

text \<open>
  \<open>does A R m\<close>: every call that \<open>m\<close> makes satisfies \<open>A\<close>, and the object before and after is
  related by \<open>R\<close>; \<open>only A m\<close>: and it leaves the object as it is. The trace grows by what \<open>m\<close> reads and
  calls, \<open>made\<close> are its calls. The rules follow the structure of the code, so that a frame fact is
  proved by applying them.
\<close>

definition made :: "('w \<times> call option) list \<Rightarrow> call list" where
  "made tr = List.map_filter snd tr"

lemma made_simps [simp]:
  "made [] = []" "made (x # tr) = (case snd x of None \<Rightarrow> made tr | Some c \<Rightarrow> c # made tr)"
  "made (tr @ tr') = made tr @ made tr'"
  by (simp_all add: made_def List.map_filter_def split: option.split)

lemma made_mem: "c \<in> set (made tr) \<longleftrightarrow> (\<exists>w. (w, Some c) \<in> set tr)"
  by (induction tr) (auto split: option.splits)

definition does :: "(call \<Rightarrow> bool) \<Rightarrow> (VMImage \<Rightarrow> VMImage \<Rightarrow> bool) \<Rightarrow> ('w, 'a) handler \<Rightarrow> bool" where
  "does A R m \<longleftrightarrow>
     (\<forall>s. R (obj s) (obj (snd (run_state m s))) \<and>
          (\<exists>tr. trace (snd (run_state m s)) = trace s @ tr \<and> calls (snd (run_state m s)) = calls s @ made tr
             \<and> (\<forall>c \<in> set (made tr). A c)))"

abbreviation only :: "(call \<Rightarrow> bool) \<Rightarrow> ('w, 'a) handler \<Rightarrow> bool" where
  "only A \<equiv> does A (=)"

named_theorems does_intro \<open>frame rules\<close>

lemma doesD_trace:
  "does A R m \<Longrightarrow>
   wp m (\<lambda>_ s'. R (obj s) (obj s') \<and> (\<exists>tr. trace s' = trace s @ tr \<and> calls s' = calls s @ made tr
     \<and> (\<forall>c \<in> set (made tr). A c))) s"
  by (simp add: does_def wp_def case_prod_beta)

lemma doesD:
  "does A R m \<Longrightarrow>
   wp m (\<lambda>_ s'. R (obj s) (obj s') \<and> (\<exists>cs. calls s' = calls s @ cs \<and> (\<forall>c \<in> set cs. A c))) s"
  by (rule wp_mono [OF doesD_trace]) auto

lemma does_mono:
  assumes "does A R m" and "\<And>c. A c \<Longrightarrow> B c" and "\<And>x y. R x y \<Longrightarrow> S x y"
  shows "does B S m"
  using assms unfolding does_def by meson

lemma does_ret [does_intro]: "reflp R \<Longrightarrow> does A R (ret x)"
  by (simp add: does_def reflpD)

lemma does_bind [does_intro]:
  assumes "transp R" and "does A R m" and "\<And>x. does A R (f x)"
  shows "does A R (State_Monad.bind m f)"
  unfolding does_def
proof
  fix s
  obtain a t where m: "run_state m s = (a, t)" by fastforce
  obtain b u where f: "run_state (f a) t = (b, u)" by fastforce
  obtain tr where tr: "R (obj s) (obj t)" "trace t = trace s @ tr" "calls t = calls s @ made tr" "\<forall>c \<in> set (made tr). A c"
    using assms(2) m unfolding does_def by (metis snd_conv)
  obtain tr' where tr': "R (obj t) (obj u)" "trace u = trace t @ tr'" "calls u = calls t @ made tr'" "\<forall>c \<in> set (made tr'). A c"
    using assms(3) [of a] f unfolding does_def by (metis snd_conv)
  have "R (obj s) (obj u)" using tr(1) tr'(1) assms(1) by (auto dest: transpD)
  then show "R (obj s) (obj (snd (run_state (State_Monad.bind m f) s))) \<and>
      (\<exists>tr. trace (snd (run_state (State_Monad.bind m f) s)) = trace s @ tr
        \<and> calls (snd (run_state (State_Monad.bind m f) s)) = calls s @ made tr \<and> (\<forall>c \<in> set (made tr). A c))"
    using tr(2-) tr'(2-) m f by (auto intro!: exI [of _ "tr @ tr'"])
qed

lemma does_query [does_intro]: "reflp R \<Longrightarrow> does A R (query f)"
  by (simp add: does_def query_def Let_def reflpD split: prod.split)

lemma does_command [does_intro]: "reflp R \<Longrightarrow> (\<And>a. A (c a)) \<Longrightarrow> does A R (command c f)"
  by (simp add: does_def command_def Let_def reflpD split: prod.split)

lemma does_emit [does_intro]: "reflp R \<Longrightarrow> A c \<Longrightarrow> does A R (emit c)"
  by (simp add: does_def emit_def reflpD)

lemma does_gets [does_intro]: "reflp R \<Longrightarrow> does A R (gets f)"
  by (simp add: does_def reflpD)

lemma does_get_obj [does_intro]: "reflp R \<Longrightarrow> does A R get_obj"
  by (simp add: get_obj_def does_intro)

lemma does_set_obj [does_intro]: "(\<And>x. R x (f x)) \<Longrightarrow> does A R (set_obj f)"
  by (simp add: does_def set_obj_def)

lemma does_set_status [does_intro]: "(\<And>x. R x (upd_status f x)) \<Longrightarrow> does A R (set_status f)"
  by (simp add: set_status_def does_set_obj)

lemma does_if [does_intro]:
  "(b \<Longrightarrow> does A R m) \<Longrightarrow> (\<not> b \<Longrightarrow> does A R n) \<Longrightarrow> does A R (if b then m else n)"
  by simp

lemma does_option [does_intro]:
  "does A R m \<Longrightarrow> (\<And>y. does A R (f y)) \<Longrightarrow> does A R (case x of None \<Rightarrow> m | Some y \<Rightarrow> f y)"
  by (cases x) auto

lemma does_sum [does_intro]:
  "(\<And>e. does A R (g e)) \<Longrightarrow> (\<And>y. does A R (f y)) \<Longrightarrow> does A R (case x of Inl e \<Rightarrow> g e | Inr y \<Rightarrow> f y)"
  by (cases x) auto

lemma does_prod [does_intro]: "(\<And>a b. does A R (f a b)) \<Longrightarrow> does A R (case x of (a, b) \<Rightarrow> f a b)"
  by (cases x) auto

lemma does_list [does_intro]:
  "does A R m \<Longrightarrow> (\<And>y ys. does A R (f y ys)) \<Longrightarrow> does A R (case xs of [] \<Rightarrow> m | y # ys \<Rightarrow> f y ys)"
  by (cases xs) auto

lemma does_get_result [does_intro]:
  "(\<And>a. does A R (f a)) \<Longrightarrow> (\<And>e. does A R (g e)) \<Longrightarrow> (\<And>e. does A R (h e)) \<Longrightarrow>
   does A R (case x of Found a \<Rightarrow> f a | NotFound e \<Rightarrow> g e | GetError e \<Rightarrow> h e)"
  by (cases x) auto

lemma does_create_result [does_intro]:
  "does A R m \<Longrightarrow> (\<And>e. does A R (g e)) \<Longrightarrow> (\<And>e. does A R (h e)) \<Longrightarrow>
   does A R (case x of Created \<Rightarrow> m | AlreadyExists e \<Rightarrow> g e | CreateError e \<Rightarrow> h e)"
  by (cases x) auto

lemma does_delete_result [does_intro]:
  "does A R m \<Longrightarrow> (\<And>e. does A R (g e)) \<Longrightarrow> (\<And>e. does A R (h e)) \<Longrightarrow>
   does A R (case x of Deleted \<Rightarrow> m | DeleteNotFound e \<Rightarrow> g e | DeleteError e \<Rightarrow> h e)"
  by (cases x) auto

lemma does_for_each [does_intro]:
  "reflp R \<Longrightarrow> transp R \<Longrightarrow> (\<And>x. does A R (f x)) \<Longrightarrow> does A R (for_each xs f)"
  by (induction xs) (auto intro!: does_intro)

lemma frame_eq [does_intro]: "reflp ((=) :: VMImage \<Rightarrow> VMImage \<Rightarrow> bool)" "transp ((=) :: VMImage \<Rightarrow> VMImage \<Rightarrow> bool)"
  by (simp_all add: reflp_def transp_def)

text \<open>Updates of the object send exactly the object.\<close>

lemma does_update_status [does_intro]:
  "reflp R \<Longrightarrow> transp R \<Longrightarrow> (\<And>img e. A (UpdateStatus img e)) \<Longrightarrow> does A R (update_status E)"
  unfolding update_status_def by (intro does_intro)

lemma does_update_object [does_intro]:
  "reflp R \<Longrightarrow> transp R \<Longrightarrow> (\<And>img e. A (UpdateObject img e)) \<Longrightarrow> does A R (update_object E)"
  unfolding update_object_def by (intro does_intro)

lemma does_recordEvent [does_intro]:
  "reflp R \<Longrightarrow> (\<And>t x m. A (Event t x m)) \<Longrightarrow> does A R (recordEvent r ty re msg)"
  unfolding recordEvent_def by (intro does_intro)

lemma does_directReader [does_intro]: "reflp R \<Longrightarrow> does A R (directReader_getSecret r E ns n)"
  unfolding directReader_getSecret_def by (intro does_intro)

end
