(* ===== verification/Sample_Cluster.thy ===== *)
theory Sample_Cluster
  imports Cluster
begin

text \<open>
  A concrete environment, on which the witnesses run the handlers: an API server whose storage is
  a map per kind, a clock that advances by one second at every reading, and provider plugins with
  fixed answers.
\<close>

section \<open>Storage\<close>

record sample =
  sw_now :: int
  sw_image :: "VMImage option"
  sw_configs :: "string \<times> string \<rightharpoonup> ProviderConfig"
  sw_providers :: "string \<rightharpoonup> PlatformProvider"
  sw_secrets :: "string \<times> string \<rightharpoonup> strmap"
  sw_jobs :: "string \<times> string \<rightharpoonup> Job"
  sw_pvcs :: "string \<times> string \<rightharpoonup> PVC"
  sw_leases :: "string \<times> string \<rightharpoonup> Lease"
  sw_pods :: "Pod list"
  sw_registry :: Registry
  sw_initError :: "go_error option"
  sw_remote :: "go_error + RemoteBuildResult option"

definition found :: "'a option \<Rightarrow> 'a get_result" where
  "found x = (case x of None \<Rightarrow> NotFound (errorf ''not found'') | Some a \<Rightarrow> Found a)"

definition exists_error :: create_result where
  "exists_error = AlreadyExists (errorf ''already exists'')"

definition gone_error :: delete_result where
  "gone_error = DeleteNotFound (errorf ''not found'')"

text \<open>A lease is stored under its own name.\<close>

definition lease_at :: "sample \<Rightarrow> string \<times> string \<Rightarrow> Lease option" where
  "lease_at w k =
     (case sw_leases w k of None \<Rightarrow> None
      | Some l \<Rightarrow> if k = (ls_namespace l, ls_name l) then Some l else None)"

section \<open>The environment\<close>

definition job_of :: "VMImage \<Rightarrow> string \<Rightarrow> Job" where
  "job_of img tail =
     \<lparr>job_name = img_name img @ tail, job_namespace = img_namespace img, job_labels = Map.empty,
      job_creationTimestamp = 0, job_deletionTimestamp = None, job_active = 0, job_failed = 0,
      job_conditions = []\<rparr>"

definition sample_env :: "sample Env" where
  "sample_env =
     \<lparr>e_now = (\<lambda>w. (sw_now w, w\<lparr>sw_now := sw_now w + second\<rparr>)),
      e_getVMImage = (\<lambda>ns n w. (found (sw_image w), w)),
      e_updateVMImage = (\<lambda>img w. (None, w\<lparr>sw_image := Some img\<rparr>)),
      e_updateStatus = (\<lambda>img w. (None, w\<lparr>sw_image := Some img\<rparr>)),
      e_getProviderConfig = (\<lambda>ns n w. (found (sw_configs w (ns, n)), w)),
      e_getPlatformProvider = (\<lambda>n w. (found (sw_providers w n), w)),
      e_client_getSecret = (\<lambda>ns n w. (found (sw_secrets w (ns, n)), w)),
      e_apiReader_getSecret = (\<lambda>ns n w. (found (sw_secrets w (ns, n)), w)),
      e_applySecret = (\<lambda>s w. (None,
        w\<lparr>sw_secrets := (sw_secrets w)((secr_namespace s, secr_name s) \<mapsto> secr_data s)\<rparr>)),
      e_getJob = (\<lambda>ns n w. (found (sw_jobs w (ns, n)), w)),
      e_createJob = (\<lambda>j w. if sw_jobs w (job_namespace j, job_name j) \<noteq> None then (exists_error, w)
        else (Created, w\<lparr>sw_jobs := (sw_jobs w)((job_namespace j, job_name j) \<mapsto> j)\<rparr>)),
      e_deleteJob = (\<lambda>ns n w. if sw_jobs w (ns, n) = None then (gone_error, w)
        else (Deleted, w\<lparr>sw_jobs := (sw_jobs w)((ns, n) := None)\<rparr>)),
      e_listJobs = (\<lambda>ns l w. (Inr [], w)),
      e_getPVC = (\<lambda>ns n w. (found (sw_pvcs w (ns, n)), w)),
      e_createPVC = (\<lambda>p w. if sw_pvcs w (pvcl_namespace p, pvcl_name p) \<noteq> None then (exists_error, w)
        else (Created, w\<lparr>sw_pvcs := (sw_pvcs w)((pvcl_namespace p, pvcl_name p) \<mapsto> p)\<rparr>)),
      e_deletePVC = (\<lambda>ns n w. if sw_pvcs w (ns, n) = None then (gone_error, w)
        else (Deleted, w\<lparr>sw_pvcs := (sw_pvcs w)((ns, n) := None)\<rparr>)),
      e_listPVCs = (\<lambda>ns l w. (Inr [], w)),
      e_getLease = (\<lambda>ns n w. (found (lease_at w (ns, n)), w)),
      e_createLease = (\<lambda>l w. if lease_at w (ls_namespace l, ls_name l) \<noteq> None then (exists_error, w)
        else (Created, w\<lparr>sw_leases := (sw_leases w)((ls_namespace l, ls_name l) \<mapsto> l)\<rparr>)),
      e_updateLease = (\<lambda>l w. if lease_at w (ls_namespace l, ls_name l) = None
        then (Some (errorf ''not found''), w)
        else (None, w\<lparr>sw_leases := (sw_leases w)((ls_namespace l, ls_name l) \<mapsto> l)\<rparr>)),
      e_deleteLease = (\<lambda>ns n w. if lease_at w (ns, n) = None then (gone_error, w)
        else (Deleted, w\<lparr>sw_leases := (sw_leases w)((ns, n) := None)\<rparr>)),
      e_listPods = (\<lambda>ns l w. (Inr (sw_pods w), w)),
      e_getRegistry = sw_registry,
      e_putRegistry = (\<lambda>r w. w\<lparr>sw_registry := r\<rparr>),
      e_pluginInit = (\<lambda>p c w. (sw_initError w, w)),
      e_pluginValidate = (\<lambda>p t w. (None, w)),
      e_reconcileRemote = (\<lambda>p q w. (sw_remote w, w)),
      e_cleanupRemote = (\<lambda>p q w. (None, w)),
      e_pluginClose = (\<lambda>p w. (None, w)),
      e_lookupHost = (\<lambda>w h. Inr [''93.184.216.34'']),
      e_shuffle = (\<lambda>xs w. (xs, w)),
      e_url_parse = (\<lambda>u. Inr \<lparr>u_scheme = ''https'', u_user = False, u_hostname = u\<rparr>),
      e_sha256 = (\<lambda>s. replicate 32 CHR ''0''),
      e_parseQuantity = (\<lambda>s. if s = '''' then None else Some s),
      e_setControllerReference = (\<lambda>img. None),
      e_assembleBuild = (\<lambda>img. Inr (job_of img ''-build'')),
      e_assembleUpload = (\<lambda>img cs conns. Inr (job_of img ''-upload'')),
      e_assembleCleanup = (\<lambda>img cs conns. Inr (job_of img ''-upload-cleanup'')),
      e_decodeStringMap = (\<lambda>s. Inl (errorf ''not a JSON object'')),
      e_decodeUploadError = (\<lambda>s. Inr ''connection reset''),
      e_decodeUploadRetry = (\<lambda>s. Inr (''connection reset'', [])),
      e_decodeUpload = (\<lambda>s. Inr
        ([\<lparr>is_provider = ''aws'', is_providerConfig = ''cfg'', is_imageRef = ''ami-1'',
           is_location = ''eu'', is_format = ''ami'', is_checksum = ''''\<rparr>], [])),
      e_decodeImages = (\<lambda>s. Inl (errorf ''not a JSON array'')),
      e_decodeBuild = (\<lambda>s. Inr
        \<lparr>bp_artifact = \<lparr>art_path = ''/workspace/out.qcow2'', art_format = ''qcow2'', art_checksum = ''sha256:00'',
          art_sizeBytes = 4096, art_os = ''linux'', art_metadata = Map.empty\<rparr>, bp_provisioners = []\<rparr>),
      e_decodeFailure = (\<lambda>s. Inr (''BootFailed'', ''no boot device''))\<rparr>"

section \<open>Objects\<close>

definition sample_spec :: VMImageSpec where
  "sample_spec =
     \<lparr>spec_os = \<lparr>os_family = ''linux'', os_distribution = ''ubuntu'', os_version = ''24.04'', os_arch = ''x86_64''\<rparr>,
      spec_source = \<lparr>src_type = ''url'', src_url = ''https://cloud-images.example/img'', src_providerRef = '''',
        src_checksum = '''', src_bootCommand = [], src_installer = None, src_marketplaceRef = None\<rparr>,
      spec_provisioners = [],
      spec_targets = [\<lparr>tgt_providerConfigRef = ''cfg'', tgt_format = ''ami'', tgt_tags = Map.empty\<rparr>],
      spec_build = \<lparr>bld_revision = '''', bld_revisionRetention = None, bld_mode = '''', bld_timeout = None,
        bld_nodeSelector = Map.empty, bld_resources = None, bld_cacheRef = None, bld_cache = None,
        bld_artifactStorage = None, bld_upload = None, bld_guestAccess = None, bld_security = None\<rparr>,
      spec_evidence = None\<rparr>"

definition sample_image :: VMImage where
  "sample_image =
     \<lparr>img_name = ''web'', img_namespace = ''ci'', img_uid = ''u1'', img_generation = 1,
      img_finalizers = [finalizerName], img_creationTimestamp = 5, img_deletionTimestamp = None,
      img_spec = sample_spec,
      img_status = empty_status\<lparr>st_observedGeneration := 1\<rparr>\<rparr>"

definition remote_image :: VMImage where
  "remote_image = sample_image\<lparr>img_spec := sample_spec
     \<lparr>spec_build := (spec_build sample_spec)\<lparr>bld_mode := BuildModeRemote\<rparr>\<rparr>\<rparr>"

definition sample_config :: ProviderConfig where
  "sample_config =
     \<lparr>pc_name = ''cfg'', pc_namespace = ''ci'', pc_provider = ''aws'', pc_secretRef_name = '''',
      pc_secretRef_key = '''', pc_region = ''eu'', pc_endpoint = '''', pc_insecure = False,
      pc_extra = Map.empty, pc_networkAccess = None\<rparr>"

definition sample_plugin :: "nat \<Rightarrow> Plugin" where
  "sample_plugin h =
     \<lparr>pl_name = ''aws'', pl_version = ''v1'', pl_formats = [''ami''], pl_os = [''linux''],
      pl_buildModes = Some [BuildModeRemote], pl_cleanup = True, pl_closer = True, pl_handle = h\<rparr>"

definition sample_world :: sample where
  "sample_world =
     \<lparr>sw_now = 100 * second, sw_image = Some sample_image,
      sw_configs = [(''ci'', ''cfg'') \<mapsto> sample_config], sw_providers = Map.empty,
      sw_secrets = Map.empty, sw_jobs = Map.empty, sw_pvcs = Map.empty, sw_leases = Map.empty,
      sw_pods = [], sw_registry = NewRegistry\<lparr>reg_plugins := [''aws'' \<mapsto> sample_plugin 0]\<rparr>,
      sw_initError = None, sw_remote = Inr None\<rparr>"

definition sample_reconciler :: Reconciler where
  "sample_reconciler =
     \<lparr>r_hasAPIReader = True, r_hasRecorder = True, r_MaxConcurrentBuilds = 2,
      r_SchedulerNamespace = ''ops'', r_ProviderNamespace = ''''\<rparr>"

definition start :: "VMImage \<Rightarrow> sample \<Rightarrow> sample st" where
  "start img w = \<lparr>obj = img, world = w, calls = [], trace = []\<rparr>"

lemma start_simps [simp]:
  "obj (start img w) = img" "world (start img w) = w" "calls (start img w) = []" "trace (start img w) = []"
  by (simp_all add: start_def)

lemma sample_reconciler_simps [simp]:
  "r_hasAPIReader sample_reconciler" "r_hasRecorder sample_reconciler"
  "r_MaxConcurrentBuilds sample_reconciler = 2" "r_SchedulerNamespace sample_reconciler = ''ops''"
  "r_ProviderNamespace sample_reconciler = ''''"
  by (simp_all add: sample_reconciler_def)

lemma sample_image_simps [simp]:
  "img_name sample_image = ''web''" "img_namespace sample_image = ''ci''" "img_uid sample_image = ''u1''"
  "img_generation sample_image = 1" "img_finalizers sample_image = [finalizerName]"
  "img_deletionTimestamp sample_image = None" "img_spec sample_image = sample_spec"
  "img_status sample_image = empty_status\<lparr>st_observedGeneration := 1\<rparr>"
  by (simp_all add: sample_image_def)

end
