(* ===== verification/Scheduler.thy ===== *)
theory Scheduler
  imports Sample_Cluster
begin

text \<open>
  The build scheduler (\<open>pkg/controller/vmimage/scheduler.go\<close>): concurrency slots held as
  \<open>Lease\<close> objects, one per slot of the global limit. The lemmas give, for any API server, which
  calls the operations make; for a server whose lease storage behaves like a map, mutual
  exclusion and release.
\<close>

section \<open>Lease names and references\<close>

abbreviation (input) defaultMaxConcurrentBuilds :: int where "defaultMaxConcurrentBuilds \<equiv> 3"
abbreviation (input) defaultBuildLeaseDurationSeconds :: int where "defaultBuildLeaseDurationSeconds \<equiv> 21600"
abbreviation (input) buildLeasePrefix :: string where "buildLeasePrefix \<equiv> ''imagebuilder-build''"

record buildSlotAcquisition =
  acq_Acquired :: bool
  acq_Reason :: string
  acq_Refs :: "string list"

definition leaseHolder :: "VMImage \<Rightarrow> string" where
  "leaseHolder img = img_namespace img @ ''/'' @ img_name img @ ''/'' @ img_uid img"

definition globalLeaseName :: "nat \<Rightarrow> string" where
  "globalLeaseName slot = buildLeasePrefix @ ''-global-'' @ show_nat slot"

definition leaseRef :: "string \<Rightarrow> string \<Rightarrow> string" where
  "leaseRef namespace name = namespace @ ''/'' @ name"

definition splitLeaseRef :: "string \<Rightarrow> go_error + string \<times> string" where
  "splitLeaseRef ref =
     (case splitOn ref ''/'' of
        [a, b] \<Rightarrow> if a = '''' \<or> b = '''' then Inl (errorf (''invalid build lease ref '' @ quoted ref))
                  else Inr (a, b)
      | _ \<Rightarrow> Inl (errorf (''invalid build lease ref '' @ quoted ref)))"

definition schedulerNamespace :: "Reconciler \<Rightarrow> VMImage \<Rightarrow> string" where
  "schedulerNamespace r img =
     (if r_SchedulerNamespace r \<noteq> '''' then r_SchedulerNamespace r else img_namespace img)"

definition maxConcurrentBuilds :: "Reconciler \<Rightarrow> int" where
  "maxConcurrentBuilds r =
     (if r_MaxConcurrentBuilds r < 0 then 0
      else if r_MaxConcurrentBuilds r = 0 then defaultMaxConcurrentBuilds
      else r_MaxConcurrentBuilds r)"

section \<open>Lease objects\<close>

definition lease_labels :: "VMImage \<Rightarrow> strmap" where
  "lease_labels img =
     [''app.kubernetes.io/managed-by'' \<mapsto> ''imagebuilder'',
      ''imagebuilder.io/lease-type'' \<mapsto> ''build-slot'',
      ''imagebuilder.io/vmimage'' \<mapsto> img_name img,
      ''imagebuilder.io/vmimage-ns'' \<mapsto> img_namespace img]"

definition buildLease ::
    "string \<Rightarrow> string \<Rightarrow> string \<Rightarrow> string \<Rightarrow> nat \<Rightarrow> string \<Rightarrow> VMImage \<Rightarrow> int \<Rightarrow> Lease" where
  "buildLease namespace name scope key slot holder img now =
     \<lparr>ls_name = name, ls_namespace = namespace,
      ls_labels = (lease_labels img)
        (''imagebuilder.io/scope'' \<mapsto> scope, ''imagebuilder.io/slot'' \<mapsto> show_nat slot),
      ls_holderIdentity = Some holder,
      ls_leaseDurationSeconds = Some defaultBuildLeaseDurationSeconds,
      ls_acquireTime = Some now, ls_renewTime = Some now\<rparr>"

definition recoveredBuildLease ::
    "string \<Rightarrow> string \<Rightarrow> string \<Rightarrow> VMImage \<Rightarrow> int \<Rightarrow> int \<Rightarrow> Lease" where
  "recoveredBuildLease namespace name holder img now duration =
     \<lparr>ls_name = name, ls_namespace = namespace, ls_labels = lease_labels img,
      ls_holderIdentity = Some holder, ls_leaseDurationSeconds = Some duration,
      ls_acquireTime = Some now, ls_renewTime = Some now\<rparr>"

definition last_renew :: "Lease \<Rightarrow> int" where
  "last_renew lease =
     (case ls_renewTime lease of Some t \<Rightarrow> t
      | None \<Rightarrow> (case ls_acquireTime lease of Some t \<Rightarrow> t | None \<Rightarrow> zero_time))"

definition buildLeaseExpired :: "Lease \<Rightarrow> int \<Rightarrow> bool" where
  "buildLeaseExpired lease now =
     (if ls_holderIdentity lease = None \<or> ls_holderIdentity lease = Some '''' then True
      else case ls_leaseDurationSeconds lease of
        None \<Rightarrow> False
      | Some d \<Rightarrow>
          if d \<le> 0 then False
          else if last_renew lease = zero_time then False
          else now > last_renew lease + d * second)"

text \<open>The renewed lease of \<open>renewBuildSlots\<close>.\<close>

definition renewedLease :: "Lease \<Rightarrow> string \<Rightarrow> VMImage \<Rightarrow> int \<Rightarrow> Lease" where
  "renewedLease lease holder img now =
     lease\<lparr>ls_holderIdentity := Some holder,
           ls_acquireTime := (case ls_acquireTime lease of None \<Rightarrow> Some now | Some t \<Rightarrow> Some t),
           ls_leaseDurationSeconds :=
             (case ls_leaseDurationSeconds lease of
                Some d \<Rightarrow> if d \<le> 0 then Some defaultBuildLeaseDurationSeconds else Some d
              | None \<Rightarrow> Some defaultBuildLeaseDurationSeconds),
           ls_renewTime := Some now,
           ls_labels := (ls_labels lease)
             (''app.kubernetes.io/managed-by'' \<mapsto> ''imagebuilder'',
              ''imagebuilder.io/lease-type'' \<mapsto> ''build-slot'',
              ''imagebuilder.io/vmimage'' \<mapsto> img_name img,
              ''imagebuilder.io/vmimage-ns'' \<mapsto> img_namespace img)\<rparr>"

section \<open>Acquisition\<close>

text \<open>The loop over the slots: the result is the reference and whether a slot was found.\<close>

definition createLease :: "'w Env \<Rightarrow> Lease \<Rightarrow> ('w, create_result) handler" where
  "createLease E lease = command (CreateLease lease) (e_createLease E lease)"

definition deleteLease :: "'w Env \<Rightarrow> string \<Rightarrow> string \<Rightarrow> ('w, delete_result) handler" where
  "deleteLease E ns name = command (DeleteLease ns name) (e_deleteLease E ns name)"

fun acquireLeaseSlot ::
    "'w Env \<Rightarrow> string \<Rightarrow> string \<Rightarrow> string \<Rightarrow> nat list \<Rightarrow> string \<Rightarrow> VMImage \<Rightarrow>
     ('w, go_error + string \<times> bool) handler" where
  "acquireLeaseSlot E namespace scope key [] holder img = ret (Inr ('''', False))"
| "acquireLeaseSlot E namespace scope key (slot # slots) holder img =
     (let name = globalLeaseName slot; path = namespace @ ''/'' @ name in do {
        existing \<leftarrow> query (e_getLease E namespace name);
        case existing of
          NotFound _ \<Rightarrow> do {
            now \<leftarrow> query (e_now E);
            created \<leftarrow> createLease E (buildLease namespace name scope key slot holder img now);
            case created of
              Created \<Rightarrow> ret (Inr (leaseRef namespace name, True))
            | AlreadyExists _ \<Rightarrow> acquireLeaseSlot E namespace scope key slots holder img
            | CreateError err \<Rightarrow> ret (Inl (wrapf (''create build lease '' @ path @ '': '') err))
          }
        | GetError err \<Rightarrow> ret (Inl (wrapf (''get build lease '' @ path @ '': '') err))
        | Found lease \<Rightarrow>
            if ls_holderIdentity lease = Some holder then ret (Inr (leaseRef namespace name, True))
            else do {
              now \<leftarrow> query (e_now E);
              if buildLeaseExpired lease now then do {
                deleted \<leftarrow> deleteLease E namespace name;
                case deleted of
                  DeleteError err \<Rightarrow>
                    ret (Inl (wrapf (''delete expired build lease '' @ path @ '': '') err))
                | _ \<Rightarrow> do {
                    now2 \<leftarrow> query (e_now E);
                    created \<leftarrow> createLease E (buildLease namespace name scope key slot holder img now2);
                    case created of
                      Created \<Rightarrow> ret (Inr (leaseRef namespace name, True))
                    | AlreadyExists _ \<Rightarrow> acquireLeaseSlot E namespace scope key slots holder img
                    | CreateError err \<Rightarrow>
                        ret (Inl (wrapf (''create build lease '' @ path @ '' after expiry: '') err))
                  }
              }
              else acquireLeaseSlot E namespace scope key slots holder img
            }
      })"

definition acquireBuildSlots ::
    "Reconciler \<Rightarrow> 'w Env \<Rightarrow> ('w, go_error + buildSlotAcquisition) handler" where
  "acquireBuildSlots r E = do {
     img \<leftarrow> get_obj;
     if st_buildLeaseRefs (img_status img) \<noteq> [] then
       ret (Inr \<lparr>acq_Acquired = True, acq_Reason = '''', acq_Refs = st_buildLeaseRefs (img_status img)\<rparr>)
     else
       (let namespace = schedulerNamespace r img; holder = leaseHolder img;
            globalMax = maxConcurrentBuilds r in
        if globalMax > 0 then do {
          res \<leftarrow> acquireLeaseSlot E namespace ''global'' '''' [0..<nat globalMax] holder img;
          case res of
            Inl err \<Rightarrow> ret (Inl err)
          | Inr (ref, ok) \<Rightarrow>
              if \<not> ok then
                ret (Inr \<lparr>acq_Acquired = False,
                  acq_Reason = ''global build concurrency limit '' @ show_int globalMax @ '' reached'',
                  acq_Refs = []\<rparr>)
              else ret (Inr \<lparr>acq_Acquired = True, acq_Reason = '''', acq_Refs = [ref]\<rparr>)
        }
        else ret (Inr \<lparr>acq_Acquired = True, acq_Reason = '''', acq_Refs = []\<rparr>))
   }"

section \<open>Release and renewal\<close>

fun releaseBuildSlots :: "'w Env \<Rightarrow> string list \<Rightarrow> string \<Rightarrow> ('w, go_error option) handler" where
  "releaseBuildSlots E [] holder = ret None"
| "releaseBuildSlots E (ref # refs) holder =
     (case splitLeaseRef ref of
        Inl err \<Rightarrow> ret (Some err)
      | Inr (namespace, name) \<Rightarrow> do {
          got \<leftarrow> query (e_getLease E namespace name);
          case got of
            NotFound _ \<Rightarrow> releaseBuildSlots E refs holder
          | GetError err \<Rightarrow> ret (Some (wrapf (''get build lease '' @ ref @ '': '') err))
          | Found lease \<Rightarrow>
              if ls_holderIdentity lease \<noteq> None \<and> ls_holderIdentity lease \<noteq> Some holder then
                releaseBuildSlots E refs holder
              else do {
                deleted \<leftarrow> deleteLease E namespace name;
                case deleted of
                  DeleteError err \<Rightarrow> ret (Some (wrapf (''delete build lease '' @ ref @ '': '') err))
                | _ \<Rightarrow> releaseBuildSlots E refs holder
              }
        })"

definition releaseImageBuildSlots :: "'w Env \<Rightarrow> ('w, go_error option) handler" where
  "releaseImageBuildSlots E = do {
     img \<leftarrow> get_obj;
     if st_buildLeaseRefs (img_status img) = [] then ret None
     else releaseBuildSlots E (st_buildLeaseRefs (img_status img)) (leaseHolder img)
   }"

fun renew_loop ::
    "'w Env \<Rightarrow> string list \<Rightarrow> string \<Rightarrow> VMImage \<Rightarrow> int \<Rightarrow> ('w, go_error option) handler" where
  "renew_loop E [] holder img now = ret None"
| "renew_loop E (ref # refs) holder img now =
     (case splitLeaseRef ref of
        Inl err \<Rightarrow> ret (Some err)
      | Inr (namespace, name) \<Rightarrow> do {
          got \<leftarrow> query (e_getLease E namespace name);
          case got of
            NotFound _ \<Rightarrow> do {
              created \<leftarrow> createLease E
                (recoveredBuildLease namespace name holder img now defaultBuildLeaseDurationSeconds);
              case created of
                CreateError err \<Rightarrow> ret (Some (wrapf (''recreate missing build lease '' @ ref @ '': '') err))
              | _ \<Rightarrow> renew_loop E refs holder img now
            }
          | GetError err \<Rightarrow> ret (Some (wrapf (''get build lease '' @ ref @ '' for renewal: '') err))
          | Found lease \<Rightarrow> do {
              t \<leftarrow> query (e_now E);
              if ls_holderIdentity lease \<noteq> None \<and> ls_holderIdentity lease \<noteq> Some holder
                   \<and> \<not> buildLeaseExpired lease t then
                ret (Some (errorf (''build lease '' @ ref @ '' is held by '' @
                  quoted (the (ls_holderIdentity lease)) @ '', expected '' @ quoted holder)))
              else do {
                updated \<leftarrow> command (UpdateLease (renewedLease lease holder img now))
                  (e_updateLease E (renewedLease lease holder img now));
                case updated of
                  Some err \<Rightarrow> ret (Some (wrapf (''renew build lease '' @ ref @ '': '') err))
                | None \<Rightarrow> renew_loop E refs holder img now
              }
            }
        })"

definition renewBuildSlots ::
    "'w Env \<Rightarrow> string list \<Rightarrow> string \<Rightarrow> VMImage \<Rightarrow> ('w, go_error option) handler" where
  "renewBuildSlots E refs holder img = do { now \<leftarrow> query (e_now E); renew_loop E refs holder img now }"

definition renewImageBuildSlots :: "'w Env \<Rightarrow> ('w, go_error option) handler" where
  "renewImageBuildSlots E = do {
     img \<leftarrow> get_obj;
     if st_buildLeaseRefs (img_status img) = [] then ret None
     else renewBuildSlots E (st_buildLeaseRefs (img_status img)) (leaseHolder img) img
   }"

section \<open>Frames\<close>

text \<open>The scheduler touches leases only, and never the image it schedules.\<close>

fun lease_call :: "call \<Rightarrow> bool" where
  "lease_call (CreateLease l res) = True"
| "lease_call (UpdateLease l err) = True"
| "lease_call (DeleteLease ns n res) = True"
| "lease_call _ = False"

lemma only_acquireLeaseSlot [does_intro]:
  "(\<And>c. lease_call c \<Longrightarrow> A c) \<Longrightarrow> only A (acquireLeaseSlot E ns scope key slots holder img)"
  by (induction slots) (auto simp: Let_def createLease_def deleteLease_def intro!: does_intro)

lemma only_acquireBuildSlots [does_intro]:
  "(\<And>c. lease_call c \<Longrightarrow> A c) \<Longrightarrow> only A (acquireBuildSlots r E)"
  unfolding acquireBuildSlots_def Let_def by (intro does_intro)

lemma only_releaseBuildSlots [does_intro]:
  "(\<And>c. lease_call c \<Longrightarrow> A c) \<Longrightarrow> only A (releaseBuildSlots E refs holder)"
  by (induction refs) (auto simp: deleteLease_def intro!: does_intro)

lemma only_releaseImageBuildSlots [does_intro]:
  "(\<And>c. lease_call c \<Longrightarrow> A c) \<Longrightarrow> only A (releaseImageBuildSlots E)"
  unfolding releaseImageBuildSlots_def by (intro does_intro)

lemma only_renew_loop [does_intro]:
  "(\<And>c. lease_call c \<Longrightarrow> A c) \<Longrightarrow> only A (renew_loop E refs holder img now)"
  by (induction refs) (auto simp: createLease_def intro!: does_intro)

lemma only_renewImageBuildSlots [does_intro]:
  "(\<And>c. lease_call c \<Longrightarrow> A c) \<Longrightarrow> only A (renewImageBuildSlots E)"
  unfolding renewImageBuildSlots_def renewBuildSlots_def by (intro does_intro)

section \<open>Names\<close>

lemma splitOn_two:
  assumes "CHR ''/'' \<notin> set a" and "CHR ''/'' \<notin> set b"
  shows "splitOn (a @ ''/'' @ b) ''/'' = [a, b]"
proof -
  have one: "hasPrefix (c # cs) ''/'' \<longleftrightarrow> c = CHR ''/''" for c cs by (simp add: hasPrefix_def)
  have cut: "cut (a @ ''/'' @ b) ''/'' = Some (a, b)"
    using assms(1) by (induction a) (auto simp: one)
  have "\<not> contains b ''/''" using assms(2) by (induction b) (auto simp: one)
  then have "splitOn b ''/'' = [b]" by (rule splitOn_not_contains)
  then show ?thesis using cut by (subst splitOn.simps) simp
qed

lemma splitLeaseRef_leaseRef:
  assumes "CHR ''/'' \<notin> set ns" "ns \<noteq> ''''" "CHR ''/'' \<notin> set n" "n \<noteq> ''''"
  shows "splitLeaseRef (leaseRef ns n) = Inr (ns, n)"
  using assms splitOn_two [of ns n] by (simp add: splitLeaseRef_def leaseRef_def)

lemma globalLeaseName_slash_free: "CHR ''/'' \<notin> set (globalLeaseName slot)" "globalLeaseName slot \<noteq> ''''"
  using show_nat_digits [of slot] by (auto simp: globalLeaseName_def)

lemma globalLeaseName_inj: "globalLeaseName a = globalLeaseName b \<longleftrightarrow> a = b"
  by (auto simp: globalLeaseName_def dest: show_nat_inj)

lemma append_slash_inj:
  assumes "CHR ''/'' \<notin> set a" and "CHR ''/'' \<notin> set b" and "a @ ''/'' @ x = b @ ''/'' @ y"
  shows "a = b \<and> x = y"
  using assms
proof (induction a arbitrary: b)
  case Nil
  then show ?case by (cases b) auto
next
  case (Cons c a)
  then show ?case by (cases b) auto
qed

lemma leaseHolder_inj:
  assumes "CHR ''/'' \<notin> set (img_namespace a)" "CHR ''/'' \<notin> set (img_namespace b)"
    and "CHR ''/'' \<notin> set (img_name a)" "CHR ''/'' \<notin> set (img_name b)"
    and "leaseHolder a = leaseHolder b"
  shows "img_namespace a = img_namespace b \<and> img_name a = img_name b \<and> img_uid a = img_uid b"
proof -
  from assms(5) have eq: "img_namespace a @ ''/'' @ (img_name a @ ''/'' @ img_uid a) =
      img_namespace b @ ''/'' @ (img_name b @ ''/'' @ img_uid b)"
    by (simp add: leaseHolder_def)
  from append_slash_inj [OF assms(1,2) eq] have "img_namespace a = img_namespace b"
    and eq2: "img_name a @ ''/'' @ img_uid a = img_name b @ ''/'' @ img_uid b" by simp_all
  with append_slash_inj [OF assms(3,4) eq2] show ?thesis by simp
qed

lemma buildLeaseExpired_mono: "buildLeaseExpired l t \<Longrightarrow> t \<le> t' \<Longrightarrow> buildLeaseExpired l t'"
  by (auto simp: buildLeaseExpired_def split: option.splits if_splits)

section \<open>A lease storage that behaves like a map\<close>

text \<open>
  What the scheduler relies on of the API server: \<open>view\<close> is the leases stored, \<open>clk\<close> a clock that
  does not run backwards. Reads do not change the leases and report what is stored or an error;
  a create succeeds only on a free name; a failed call changes nothing. Nobody else writes leases
  in between (one elected leader reconciles, one image at a time).
\<close>

type_synonym 'w lease_view = "'w \<Rightarrow> string \<times> string \<rightharpoonup> Lease"

definition lease_reads :: "'w Env \<Rightarrow> 'w lease_view \<Rightarrow> ('w \<Rightarrow> int) \<Rightarrow> bool" where
  "lease_reads E view clk \<longleftrightarrow>
     (\<forall>w t w'. e_now E w = (t, w') \<longrightarrow> view w' = view w \<and> clk w \<le> t \<and> t \<le> clk w')
     \<and> (\<forall>ns n w res w'. e_getLease E ns n w = (res, w') \<longrightarrow>
          view w' = view w \<and> clk w \<le> clk w' \<and>
          (case res of Found l \<Rightarrow> view w (ns, n) = Some l
                     | NotFound _ \<Rightarrow> view w (ns, n) = None | GetError _ \<Rightarrow> True))"

definition lease_writes :: "'w Env \<Rightarrow> 'w lease_view \<Rightarrow> ('w \<Rightarrow> int) \<Rightarrow> bool" where
  "lease_writes E view clk \<longleftrightarrow>
     (\<forall>l w res w'. e_createLease E l w = (res, w') \<longrightarrow> clk w \<le> clk w' \<and>
        (case res of
           Created \<Rightarrow> view w (ls_namespace l, ls_name l) = None
                      \<and> view w' = (view w)((ls_namespace l, ls_name l) \<mapsto> l)
         | AlreadyExists _ \<Rightarrow> view w (ls_namespace l, ls_name l) \<noteq> None \<and> view w' = view w
         | CreateError _ \<Rightarrow> view w' = view w))
     \<and> (\<forall>l w err w'. e_updateLease E l w = (err, w') \<longrightarrow> clk w \<le> clk w' \<and>
        view w' = (if err = None then (view w)((ls_namespace l, ls_name l) \<mapsto> l) else view w))
     \<and> (\<forall>ns n w res w'. e_deleteLease E ns n w = (res, w') \<longrightarrow> clk w \<le> clk w' \<and>
        (case res of
           Deleted \<Rightarrow> view w' = (view w)((ns, n) := None)
         | DeleteNotFound _ \<Rightarrow> view w (ns, n) = None \<and> view w' = view w
         | DeleteError _ \<Rightarrow> view w' = view w))
     \<and> (\<forall>w k l. view w k = Some l \<longrightarrow> k = (ls_namespace l, ls_name l))"

definition lease_store :: "'w Env \<Rightarrow> 'w lease_view \<Rightarrow> ('w \<Rightarrow> int) \<Rightarrow> bool" where
  "lease_store E view clk \<longleftrightarrow> lease_reads E view clk \<and> lease_writes E view clk"

lemma wp_now:
  assumes "lease_store E view clk"
    and "\<And>t w. view w = view (world s) \<Longrightarrow> clk (world s) \<le> t \<Longrightarrow> t \<le> clk w \<Longrightarrow> Q t (after_read s w)"
  shows "wp (query (e_now E)) Q s"
proof -
  obtain t w where r: "e_now E (world s) = (t, w)" by fastforce
  with assms(1) have "view w = view (world s) \<and> clk (world s) \<le> t \<and> t \<le> clk w"
    unfolding lease_store_def lease_reads_def by blast
  then show ?thesis using assms(2) by (simp add: wp_simp r)
qed

lemma wp_getLease:
  assumes "lease_store E view clk"
    and "\<And>l w. view (world s) (ns, n) = Some l \<Longrightarrow> view w = view (world s) \<Longrightarrow> clk (world s) \<le> clk w \<Longrightarrow>
           Q (Found l) (after_read s w)"
    and "\<And>e w. view (world s) (ns, n) = None \<Longrightarrow> view w = view (world s) \<Longrightarrow> clk (world s) \<le> clk w \<Longrightarrow>
           Q (NotFound e) (after_read s w)"
    and "\<And>e w. view w = view (world s) \<Longrightarrow> clk (world s) \<le> clk w \<Longrightarrow> Q (GetError e) (after_read s w)"
  shows "wp (query (e_getLease E ns n)) Q s"
proof -
  obtain res w where r: "e_getLease E ns n (world s) = (res, w)" by fastforce
  with assms(1) have "view w = view (world s)" "clk (world s) \<le> clk w"
      "case res of Found l \<Rightarrow> view (world s) (ns, n) = Some l
         | NotFound _ \<Rightarrow> view (world s) (ns, n) = None | GetError _ \<Rightarrow> True"
    unfolding lease_store_def lease_reads_def by blast+
  then show ?thesis using assms(2-4) by (cases res) (simp_all add: wp_simp r)
qed

lemma wp_createLease:
  assumes "lease_store E view clk"
    and "\<And>w. view (world s) (ls_namespace l, ls_name l) = None \<Longrightarrow>
           view w = (view (world s))((ls_namespace l, ls_name l) \<mapsto> l) \<Longrightarrow> clk (world s) \<le> clk w \<Longrightarrow>
           Q Created (after_call s (CreateLease l Created) w)"
    and "\<And>e w. view (world s) (ls_namespace l, ls_name l) \<noteq> None \<Longrightarrow> view w = view (world s) \<Longrightarrow>
           clk (world s) \<le> clk w \<Longrightarrow>
           Q (AlreadyExists e) (after_call s (CreateLease l (AlreadyExists e)) w)"
    and "\<And>e w. view w = view (world s) \<Longrightarrow> clk (world s) \<le> clk w \<Longrightarrow>
           Q (CreateError e) (after_call s (CreateLease l (CreateError e)) w)"
  shows "wp (createLease E l) Q s"
proof -
  obtain res w where r: "e_createLease E l (world s) = (res, w)" by fastforce
  with assms(1) have "clk (world s) \<le> clk w"
      "case res of
         Created \<Rightarrow> view (world s) (ls_namespace l, ls_name l) = None
                    \<and> view w = (view (world s))((ls_namespace l, ls_name l) \<mapsto> l)
       | AlreadyExists _ \<Rightarrow> view (world s) (ls_namespace l, ls_name l) \<noteq> None \<and> view w = view (world s)
       | CreateError _ \<Rightarrow> view w = view (world s)"
    unfolding lease_store_def lease_writes_def by blast+
  then show ?thesis
    using assms(2-4) unfolding createLease_def by (cases res) (simp_all add: wp_simp r)
qed

lemma wp_deleteLease:
  assumes "lease_store E view clk"
    and "\<And>w. view w = (view (world s))((ns, n) := None) \<Longrightarrow> clk (world s) \<le> clk w \<Longrightarrow>
           Q Deleted (after_call s (DeleteLease ns n Deleted) w)"
    and "\<And>e w. view (world s) (ns, n) = None \<Longrightarrow> view w = view (world s) \<Longrightarrow> clk (world s) \<le> clk w \<Longrightarrow>
           Q (DeleteNotFound e) (after_call s (DeleteLease ns n (DeleteNotFound e)) w)"
    and "\<And>e w. view w = view (world s) \<Longrightarrow> clk (world s) \<le> clk w \<Longrightarrow>
           Q (DeleteError e) (after_call s (DeleteLease ns n (DeleteError e)) w)"
  shows "wp (deleteLease E ns n) Q s"
proof -
  obtain res w where r: "e_deleteLease E ns n (world s) = (res, w)" by fastforce
  with assms(1) have "clk (world s) \<le> clk w"
      "case res of
         Deleted \<Rightarrow> view w = (view (world s))((ns, n) := None)
       | DeleteNotFound _ \<Rightarrow> view (world s) (ns, n) = None \<and> view w = view (world s)
       | DeleteError _ \<Rightarrow> view w = view (world s)"
    unfolding lease_store_def lease_writes_def by blast+
  then show ?thesis
    using assms(2-4) unfolding deleteLease_def by (cases res) (simp_all add: wp_simp r)
qed

lemma wp_updateLease:
  assumes "lease_store E view clk"
    and "\<And>w. view w = (view (world s))((ls_namespace l, ls_name l) \<mapsto> l) \<Longrightarrow> clk (world s) \<le> clk w \<Longrightarrow>
           Q None (after_call s (UpdateLease l None) w)"
    and "\<And>e w. view w = view (world s) \<Longrightarrow> clk (world s) \<le> clk w \<Longrightarrow>
           Q (Some e) (after_call s (UpdateLease l (Some e)) w)"
  shows "wp (command (UpdateLease l) (e_updateLease E l)) Q s"
proof -
  obtain res w where r: "e_updateLease E l (world s) = (res, w)" by fastforce
  with assms(1) have "clk (world s) \<le> clk w"
      "view w = (if res = None then (view (world s))((ls_namespace l, ls_name l) \<mapsto> l) else view (world s))"
    unfolding lease_store_def lease_writes_def by blast+
  then show ?thesis using assms(2,3) by (cases res) (simp_all add: wp_simp r)
qed

text \<open>What acquisition may do to the leases: a lease that another holder keeps unexpired is left
  alone, and only the names of the slots are touched; a successful acquisition leaves the slot
  leased to the holder, an unsuccessful one found every slot leased to somebody else.\<close>

definition slot_key :: "string \<Rightarrow> nat \<Rightarrow> string \<times> string" where
  "slot_key ns slot = (ns, globalLeaseName slot)"

definition held_by :: "(string \<times> string \<rightharpoonup> Lease) \<Rightarrow> string \<times> string \<Rightarrow> string \<Rightarrow> bool" where
  "held_by v k holder \<longleftrightarrow> (\<exists>l. v k = Some l \<and> ls_holderIdentity l = Some holder)"

definition others_kept ::
    "string \<Rightarrow> int \<Rightarrow> (string \<times> string \<rightharpoonup> Lease) \<Rightarrow> (string \<times> string \<rightharpoonup> Lease) \<Rightarrow> bool" where
  "others_kept holder t v v' \<longleftrightarrow>
     (\<forall>k l. v k = Some l \<longrightarrow> ls_holderIdentity l \<noteq> Some holder \<longrightarrow> \<not> buildLeaseExpired l t \<longrightarrow> v' k = Some l)"

lemma others_kept_refl [simp]: "others_kept holder t v v"
  by (simp add: others_kept_def)

lemma others_kept_mono: "others_kept holder t v v' \<Longrightarrow> t \<le> t' \<Longrightarrow> others_kept holder t' v v'"
  unfolding others_kept_def using buildLeaseExpired_mono by blast

definition acquired_post ::
    "string \<Rightarrow> nat set \<Rightarrow> string \<Rightarrow> int \<Rightarrow> (string \<times> string \<rightharpoonup> Lease) \<Rightarrow> (go_error + string \<times> bool) \<Rightarrow>
     int \<Rightarrow> (string \<times> string \<rightharpoonup> Lease) \<Rightarrow> bool" where
  "acquired_post ns slots holder t0 v res t1 v' \<longleftrightarrow>
     t0 \<le> t1 \<and> others_kept holder t1 v v'
     \<and> (\<forall>k. k \<notin> slot_key ns ` slots \<longrightarrow> v' k = v k)
     \<and> (\<forall>ref. res = Inr (ref, True) \<longrightarrow>
          (\<exists>slot \<in> slots. ref = leaseRef ns (globalLeaseName slot) \<and> held_by v' (slot_key ns slot) holder))
     \<and> (\<forall>ref. res = Inr (ref, False) \<longrightarrow> v' = v \<and>
          (\<forall>slot \<in> slots. \<exists>l. v (slot_key ns slot) = Some l \<and> ls_holderIdentity l \<noteq> Some holder
             \<and> \<not> buildLeaseExpired l t0))"

lemma acquired_post_frame:
  "acquired_post ns slots holder t0 v res t1 v' \<Longrightarrow> k \<notin> slot_key ns ` slots \<Longrightarrow> v' k = v k"
  unfolding acquired_post_def by blast

lemma acquireLeaseSlot_wp:
  assumes laws: "lease_store E view clk"
  shows "wp (acquireLeaseSlot E ns scope key slots holder img)
    (\<lambda>res s'. acquired_post ns (set slots) holder (clk (world s)) (view (world s)) res
                (clk (world s')) (view (world s'))) s"
proof (induction slots arbitrary: s)
  case Nil
  then show ?case by (simp add: wp_simp acquired_post_def)
next
  case (Cons slot slots)
  let ?k = "(ns, globalLeaseName slot)"
  have next_slot: "wp (acquireLeaseSlot E ns scope key slots holder img)
      (\<lambda>res s'. acquired_post ns (set (slot # slots)) holder (clk (world s)) (view (world s)) res
                  (clk (world s')) (view (world s'))) u"
    if "view (world u) = view (world s)" "clk (world s) \<le> clk (world u)"
      "\<exists>l. view (world s) ?k = Some l \<and> ls_holderIdentity l \<noteq> Some holder \<and> \<not> buildLeaseExpired l (clk (world s))"
    for u
    by (rule wp_mono [OF Cons.IH [of u]])
      (use that in \<open>auto simp: acquired_post_def slot_key_def, meson buildLeaseExpired_mono\<close>)
  let ?lease = "\<lambda>now. buildLease ns (globalLeaseName slot) scope key slot holder img now"
  have created: "wp (do {
        created \<leftarrow> createLease E (?lease now);
        case created of
          Created \<Rightarrow> ret (Inr (leaseRef ns (globalLeaseName slot), True))
        | AlreadyExists _ \<Rightarrow> acquireLeaseSlot E ns scope key slots holder img
        | CreateError err \<Rightarrow> ret (Inl (wrapf msg err)) })
      (\<lambda>res s'. acquired_post ns (set (slot # slots)) holder (clk (world s)) (view (world s)) res
                  (clk (world s')) (view (world s'))) u"
    if "view (world u) = (view (world s))(?k := None)" "clk (world s) \<le> clk (world u)"
      "\<forall>l. view (world s) ?k = Some l \<longrightarrow> ls_holderIdentity l \<noteq> Some holder \<longrightarrow>
         buildLeaseExpired l (clk (world u))"
    for u now msg
    unfolding wp_bind
    by (rule wp_createLease [OF laws])
      (use that in \<open>auto simp: buildLease_def wp_simp acquired_post_def others_kept_def slot_key_def
         held_by_def dest: buildLeaseExpired_mono\<close>)
  show ?case
    unfolding acquireLeaseSlot.simps Let_def wp_bind
  proof (rule wp_getLease [OF laws], goal_cases)
    case (1 l w)
    show ?case
    proof (cases "ls_holderIdentity l = Some holder")
      case True
      with 1 show ?thesis
        by (auto simp: wp_simp acquired_post_def slot_key_def held_by_def)
    next
      case False
      note other = False
      show ?thesis
        unfolding get_result.case if_not_P [OF False] wp_bind
      proof (rule wp_now [OF laws], goal_cases)
        case (1 t w')
        note t = 1
        show ?case
        proof (cases "buildLeaseExpired l t")
          case False
          have "\<not> buildLeaseExpired l (clk (world s))"
            using False t \<open>clk (world s) \<le> clk w\<close> buildLeaseExpired_mono [of l "clk (world s)" t] by auto
          then show ?thesis
            unfolding if_not_P [OF False]
            by (intro next_slot) (use t \<open>view w = view (world s)\<close> \<open>clk (world s) \<le> clk w\<close> other
                 \<open>view (world s) ?k = Some l\<close> in auto)
        next
          case True
          have exp: "buildLeaseExpired l' t'" if "view (world s) ?k = Some l'" "t \<le> t'" for l' t'
            using that True \<open>view (world s) ?k = Some l\<close> buildLeaseExpired_mono by auto
          show ?thesis
            unfolding if_P [OF True] wp_bind
          proof (rule wp_deleteLease [OF laws], goal_cases)
            case (1 w2)
            show ?case
              unfolding delete_result.case wp_bind
              by (rule wp_now [OF laws], unfold wp_bind [symmetric], rule created)
                (use 1 t \<open>view w = view (world s)\<close> \<open>clk (world s) \<le> clk w\<close> exp in auto)
          next
            case (2 e w2)
            then show ?case using t \<open>view w = view (world s)\<close> \<open>view (world s) ?k = Some l\<close> by simp
          next
            case (3 e w2)
            then show ?case
              using t \<open>view w = view (world s)\<close> \<open>clk (world s) \<le> clk w\<close>
              by (simp add: wp_simp acquired_post_def)
          qed
        qed
      qed
    qed
  next
    case (2 e w)
    show ?case
      unfolding get_result.case wp_bind
      by (rule wp_now [OF laws], unfold wp_bind [symmetric], rule created)
        (use 2 in \<open>auto simp: fun_upd_idem\<close>)
  next
    case (3 e w)
    then show ?case by (simp add: wp_simp acquired_post_def)
  qed
qed

definition ref_key :: "string \<Rightarrow> (string \<times> string) option" where
  "ref_key ref = (case splitLeaseRef ref of Inl _ \<Rightarrow> None | Inr k \<Rightarrow> Some k)"

definition released_post ::
    "string list \<Rightarrow> string \<Rightarrow> int \<Rightarrow> (string \<times> string \<rightharpoonup> Lease) \<Rightarrow> go_error option \<Rightarrow> int \<Rightarrow>
     (string \<times> string \<rightharpoonup> Lease) \<Rightarrow> bool" where
  "released_post refs holder t0 v res t1 v' \<longleftrightarrow> t0 \<le> t1
     \<and> (\<forall>k l. v k = Some l \<longrightarrow> ls_holderIdentity l \<noteq> None \<longrightarrow> ls_holderIdentity l \<noteq> Some holder \<longrightarrow> v' k = Some l)
     \<and> (\<forall>k. v' k = v k \<or> v' k = None)
     \<and> (\<forall>k. k \<notin> {k. \<exists>ref \<in> set refs. ref_key ref = Some k} \<longrightarrow> v' k = v k)
     \<and> (res = None \<longrightarrow> (\<forall>ref \<in> set refs. \<exists>k. ref_key ref = Some k \<and> \<not> held_by v' k holder))"

lemma releaseBuildSlots_wp:
  assumes laws: "lease_store E view clk"
  shows "wp (releaseBuildSlots E refs holder)
    (\<lambda>res s'. released_post refs holder (clk (world s)) (view (world s)) res (clk (world s')) (view (world s'))) s"
proof (induction refs arbitrary: s)
  case Nil
  then show ?case by (simp add: wp_simp released_post_def)
next
  case (Cons ref refs)
  show ?case
  proof (cases "splitLeaseRef ref")
    case (Inl err)
    then show ?thesis by (simp add: wp_simp released_post_def)
  next
    case (Inr k)
    obtain ns n where k: "k = (ns, n)" by fastforce
    have key: "ref_key ref = Some (ns, n)" using Inr k by (simp add: ref_key_def)
    have rest: "wp (releaseBuildSlots E refs holder)
        (\<lambda>res s'. released_post (ref # refs) holder (clk (world s)) (view (world s)) res
                    (clk (world s')) (view (world s'))) u"
      if "clk (world s) \<le> clk (world u)" "\<not> held_by (view (world u)) (ns, n) holder"
        "view (world u) = view (world s) \<or> view (world u) = (view (world s))((ns, n) := None)
           \<and> (\<forall>l. view (world s) (ns, n) = Some l \<longrightarrow> ls_holderIdentity l \<in> {None, Some holder})"
      for u
    proof (rule wp_mono [OF Cons.IH [of u]], goal_cases)
      case (1 res t)
      have "\<not> held_by (view (world t)) (ns, n) holder"
        using 1 that(2) unfolding released_post_def held_by_def by (metis option.distinct(1))
      note free = this
      have u: "\<forall>k. view (world u) k = view (world s) k \<or> view (world u) k = None"
        "\<forall>k. k \<noteq> (ns, n) \<longrightarrow> view (world u) k = view (world s) k"
        "\<forall>k l. view (world s) k = Some l \<longrightarrow> ls_holderIdentity l \<noteq> None \<longrightarrow>
           ls_holderIdentity l \<noteq> Some holder \<longrightarrow> view (world u) k = Some l"
        using that(3) by (auto split: if_splits)
      note ih = 1 [unfolded released_post_def]
      show ?case
        unfolding released_post_def
      proof (intro conjI)
        show "clk (world s) \<le> clk (world t)" using ih that(1) by linarith
        show "\<forall>k l. view (world s) k = Some l \<longrightarrow> ls_holderIdentity l \<noteq> None \<longrightarrow>
            ls_holderIdentity l \<noteq> Some holder \<longrightarrow> view (world t) k = Some l" using ih u(3) by blast
        show "\<forall>k. view (world t) k = view (world s) k \<or> view (world t) k = None" using ih u(1) by metis
        show "\<forall>k. k \<notin> {k. \<exists>ref \<in> set (ref # refs). ref_key ref = Some k} \<longrightarrow> view (world t) k = view (world s) k"
        proof (intro allI impI)
          fix k
          assume k: "k \<notin> {k. \<exists>ref \<in> set (ref # refs). ref_key ref = Some k}"
          then have "k \<noteq> (ns, n)" and "k \<notin> {k. \<exists>ref \<in> set refs. ref_key ref = Some k}" using key by auto
          with ih u(2) have "view (world t) k = view (world u) k" "view (world u) k = view (world s) k"
            by blast+
          then show "view (world t) k = view (world s) k" by simp
        qed
        show "res = None \<longrightarrow> (\<forall>ref \<in> set (ref # refs). \<exists>k. ref_key ref = Some k \<and> \<not> held_by (view (world t)) k holder)"
          using ih free key by auto
      qed
    qed
    show ?thesis
      unfolding releaseBuildSlots.simps Inr k sum.case prod.case wp_bind
    proof (rule wp_getLease [OF laws], goal_cases)
      case (1 l w)
      show ?case
      proof (cases "ls_holderIdentity l \<noteq> None \<and> ls_holderIdentity l \<noteq> Some holder")
        case True
        show ?thesis
          unfolding get_result.case if_P [OF True]
          by (rule rest) (use 1 True in \<open>auto simp: held_by_def\<close>)
      next
        case False
        show ?thesis
          unfolding get_result.case if_not_P [OF False] wp_bind
        proof (rule wp_deleteLease [OF laws], goal_cases)
          case (1 w2)
          show ?case
            unfolding delete_result.case
            by (rule rest) (use 1 \<open>view w = view (world s)\<close> \<open>clk (world s) \<le> clk w\<close>
                \<open>view (world s) (ns, n) = Some l\<close> False in \<open>auto simp: held_by_def\<close>)
        next
          case (2 e w2)
          then show ?case using \<open>view w = view (world s)\<close> \<open>view (world s) (ns, n) = Some l\<close> by simp
        next
          case (3 e w2)
          then show ?case using \<open>view w = view (world s)\<close> \<open>clk (world s) \<le> clk w\<close>
            by (simp add: wp_simp released_post_def)
        qed
      qed
    next
      case (2 e w)
      show ?case
        unfolding get_result.case by (rule rest) (use 2 in \<open>auto simp: held_by_def\<close>)
    next
      case (3 e w)
      then show ?case by (simp add: wp_simp released_post_def)
    qed
  qed
qed

text \<open>A renewed lease is the holder's, dated \<open>now\<close>, with a positive duration.\<close>

definition fresh_lease :: "string \<Rightarrow> int \<Rightarrow> Lease \<Rightarrow> bool" where
  "fresh_lease holder now l \<longleftrightarrow> ls_holderIdentity l = Some holder \<and> ls_renewTime l = Some now
     \<and> (\<exists>d > 0. ls_leaseDurationSeconds l = Some d)"

definition is_fresh :: "(string \<times> string \<rightharpoonup> Lease) \<Rightarrow> string \<Rightarrow> int \<Rightarrow> string \<times> string \<Rightarrow> bool" where
  "is_fresh v holder now k \<longleftrightarrow> (\<exists>l. v k = Some l \<and> fresh_lease holder now l)"

lemma fresh_renewedLease [simp]: "fresh_lease holder now (renewedLease l holder img now)"
  by (auto simp: fresh_lease_def renewedLease_def split: option.split)

lemma fresh_recoveredBuildLease [simp]:
  "0 < d \<Longrightarrow> fresh_lease holder now (recoveredBuildLease ns n holder img now d)"
  by (simp add: fresh_lease_def recoveredBuildLease_def)

lemma fresh_lease_unexpired:
  assumes "fresh_lease holder now l" and "holder \<noteq> ''''"
  shows "\<exists>d > 0. ls_leaseDurationSeconds l = Some d \<and> (\<forall>t \<le> now + d * second. \<not> buildLeaseExpired l t)"
  using assms by (auto simp: fresh_lease_def buildLeaseExpired_def last_renew_def)

definition renewed_post ::
    "string list \<Rightarrow> string \<Rightarrow> int \<Rightarrow> int \<Rightarrow> (string \<times> string \<rightharpoonup> Lease) \<Rightarrow> go_error option \<Rightarrow> int \<Rightarrow>
     (string \<times> string \<rightharpoonup> Lease) \<Rightarrow> bool" where
  "renewed_post refs holder now t0 v res t1 v' \<longleftrightarrow> t0 \<le> t1 \<and> others_kept holder t1 v v'
     \<and> (\<forall>k. is_fresh v holder now k \<longrightarrow> is_fresh v' holder now k)
     \<and> (\<forall>k. k \<notin> {k. \<exists>ref \<in> set refs. ref_key ref = Some k} \<longrightarrow> v' k = v k)
     \<and> (res = None \<longrightarrow> (\<forall>ref \<in> set refs. \<exists>k. ref_key ref = Some k \<and> is_fresh v' holder now k))"

lemma renew_loop_wp:
  assumes laws: "lease_store E view clk"
  shows "wp (renew_loop E refs holder img now)
    (\<lambda>res s'. renewed_post refs holder now (clk (world s)) (view (world s)) res
                (clk (world s')) (view (world s'))) s"
proof (induction refs arbitrary: s)
  case Nil
  then show ?case by (simp add: wp_simp renewed_post_def)
next
  case (Cons ref refs)
  show ?case
  proof (cases "splitLeaseRef ref")
    case (Inl err)
    then show ?thesis by (simp add: wp_simp renewed_post_def)
  next
    case (Inr k)
    obtain ns n where k: "k = (ns, n)" by fastforce
    have key: "ref_key ref = Some (ns, n)" using Inr k by (simp add: ref_key_def)
    have rest: "wp (renew_loop E refs holder img now)
        (\<lambda>res s'. renewed_post (ref # refs) holder now (clk (world s)) (view (world s)) res
                    (clk (world s')) (view (world s'))) u"
      if "clk (world s) \<le> clk (world u)" "view (world u) = (view (world s))((ns, n) \<mapsto> l)"
        "fresh_lease holder now l"
        "\<forall>l. view (world s) (ns, n) = Some l \<longrightarrow> ls_holderIdentity l \<noteq> Some holder \<longrightarrow>
           buildLeaseExpired l (clk (world u))"
      for u l
    proof (rule wp_mono [OF Cons.IH [of u]], goal_cases)
      case (1 res t)
      have fresh_u: "is_fresh (view (world u)) holder now (ns, n)"
        "\<And>k. is_fresh (view (world s)) holder now k \<Longrightarrow> is_fresh (view (world u)) holder now k"
        using that(2,3) by (auto simp: is_fresh_def)
      have kept: "others_kept holder (clk (world t)) (view (world s)) (view (world t))"
        unfolding others_kept_def
      proof (intro allI impI)
        fix k l0
        assume l0: "view (world s) k = Some l0" "ls_holderIdentity l0 \<noteq> Some holder"
          "\<not> buildLeaseExpired l0 (clk (world t))"
        have "k \<noteq> (ns, n)"
          using l0 that(4) 1 buildLeaseExpired_mono unfolding renewed_post_def by blast
        with l0(1) that(2) have "view (world u) k = Some l0" by simp
        with 1 l0 show "view (world t) k = Some l0" unfolding renewed_post_def others_kept_def by blast
      qed
      show ?case
        using 1 that(1,2) key fresh_u kept unfolding renewed_post_def by auto
    qed
    show ?thesis
      unfolding renew_loop.simps Inr k sum.case prod.case wp_bind
    proof (rule wp_getLease [OF laws], goal_cases)
      case (1 l w)
      then have lk: "ls_namespace l = ns" "ls_name l = n"
        using laws unfolding lease_store_def lease_writes_def by blast+
      show ?case
        unfolding get_result.case wp_bind
      proof (rule wp_now [OF laws], goal_cases)
        case (1 t w2)
        show ?case
        proof (cases "ls_holderIdentity l \<noteq> None \<and> ls_holderIdentity l \<noteq> Some holder \<and> \<not> buildLeaseExpired l t")
          case True
          show ?thesis
            unfolding if_P [OF True]
            using 1 \<open>view w = view (world s)\<close> \<open>clk (world s) \<le> clk w\<close>
            by (simp add: wp_simp renewed_post_def)
        next
          case False
          have "buildLeaseExpired l t" if "ls_holderIdentity l = None"
            using that by (simp add: buildLeaseExpired_def)
          with False have expired: "ls_holderIdentity l = Some holder \<or> buildLeaseExpired l t" by blast
          show ?thesis
            unfolding if_not_P [OF False] wp_bind
          proof (rule wp_updateLease [OF laws], goal_cases)
            case (1 w3)
            show ?case
              unfolding option.case
            proof (rule rest [where l = "renewedLease l holder img now"], goal_cases)
              case 1
              then show ?case
                using \<open>clk (world s) \<le> clk w\<close> \<open>t \<le> clk w2\<close>
                  \<open>clk (world (after_read s w)) \<le> t\<close> \<open>clk (world (after_read (after_read s w) w2)) \<le> clk w3\<close> by simp
            next
              case 2
              then show ?case
                using \<open>view w3 = _\<close> \<open>view w2 = _\<close> \<open>view w = view (world s)\<close> lk
                by (simp add: renewedLease_def)
            next
              case 3
              then show ?case by simp
            next
              case 4
              then show ?case
                using expired \<open>view (world s) (ns, n) = Some l\<close> \<open>t \<le> clk w2\<close>
                  \<open>clk (world (after_read (after_read s w) w2)) \<le> clk w3\<close>
                by (auto intro: buildLeaseExpired_mono)
            qed
          next
            case (2 e w3)
            then show ?case
              using 1 \<open>view w = view (world s)\<close> \<open>clk (world s) \<le> clk w\<close>
              by (simp add: wp_simp renewed_post_def)
          qed
        qed
      qed
    next
      case (2 e w)
      show ?case
        unfolding get_result.case wp_bind
      proof (rule wp_createLease [OF laws], goal_cases)
        case (1 w2)
        show ?case
          unfolding create_result.case
          by (rule rest [where l = "recoveredBuildLease ns n holder img now defaultBuildLeaseDurationSeconds"])
            (use 1 2 in \<open>auto simp: recoveredBuildLease_def [of ns n] fresh_lease_def\<close>)
      next
        case (2 e' w2)
        then show ?case using \<open>view (world s) (ns, n) = None\<close> \<open>view w = view (world s)\<close>
          by (simp add: recoveredBuildLease_def)
      next
        case (3 e' w2)
        then show ?case using \<open>clk (world s) \<le> clk w\<close> \<open>view w = view (world s)\<close>
          by (simp add: wp_simp renewed_post_def)
      qed
    next
      case (3 e w)
      then show ?case by (simp add: wp_simp renewed_post_def)
    qed
  qed
qed

section \<open>The scheduler as a whole\<close>

lemma acquireBuildSlots_run:
  assumes "st_buildLeaseRefs (img_status (obj s)) = []" and "0 < maxConcurrentBuilds r"
  shows "run_state (acquireBuildSlots r E) s =
    (case run_state (acquireLeaseSlot E (schedulerNamespace r (obj s)) ''global'' ''''
            [0..<nat (maxConcurrentBuilds r)] (leaseHolder (obj s)) (obj s)) s of
       (res, s') \<Rightarrow>
         (case res of Inl e \<Rightarrow> Inl e
          | Inr (ref, ok) \<Rightarrow>
              Inr (if ok then \<lparr>acq_Acquired = True, acq_Reason = '''', acq_Refs = [ref]\<rparr>
                   else \<lparr>acq_Acquired = False,
                     acq_Reason = ''global build concurrency limit '' @ show_int (maxConcurrentBuilds r) @ '' reached'',
                     acq_Refs = []\<rparr>), s'))"
  using assms
  by (auto simp: acquireBuildSlots_def get_obj_def Let_def split: prod.split sum.split)

lemma acquireBuildSlots_post:
  assumes laws: "lease_store E view clk"
    and none: "st_buildLeaseRefs (img_status (obj s)) = []" and max: "0 < maxConcurrentBuilds r"
    and run: "run_state (acquireBuildSlots r E) s = (res, s')"
  obtains res0 where
    "acquired_post (schedulerNamespace r (obj s)) {..<nat (maxConcurrentBuilds r)} (leaseHolder (obj s))
       (clk (world s)) (view (world s)) res0 (clk (world s')) (view (world s'))"
    "\<And>e. res = Inl e \<Longrightarrow> res0 = Inl e"
    "\<And>a. res = Inr a \<Longrightarrow> acq_Acquired a \<Longrightarrow> \<exists>ref. res0 = Inr (ref, True) \<and> acq_Refs a = [ref]"
    "\<And>a. res = Inr a \<Longrightarrow> \<not> acq_Acquired a \<Longrightarrow> \<exists>ref. res0 = Inr (ref, False)"
proof -
  obtain res0 s0 where r0: "run_state (acquireLeaseSlot E (schedulerNamespace r (obj s)) ''global'' ''''
            [0..<nat (maxConcurrentBuilds r)] (leaseHolder (obj s)) (obj s)) s = (res0, s0)" by fastforce
  have s0: "s0 = s'" using run unfolding acquireBuildSlots_run [OF none max] r0 by simp
  have "acquired_post (schedulerNamespace r (obj s)) (set [0..<nat (maxConcurrentBuilds r)]) (leaseHolder (obj s))
       (clk (world s)) (view (world s)) res0 (clk (world s')) (view (world s'))"
    using wp_run [OF acquireLeaseSlot_wp [OF laws] r0] s0 by simp
  then show thesis
    using run unfolding acquireBuildSlots_run [OF none max] r0
    by (intro that [of res0]) (auto simp: atLeast0LessThan split: sum.splits prod.splits if_splits)
qed

text \<open>
  The build-slot leases of a namespace, and the scheduler as a transition system: any image may
  acquire slots when it holds none, renew or release the ones it was given; other code may do
  anything that leaves the build-slot leases of the namespace alone. \<open>refs\<close> is what each image's
  status says it holds.
\<close>

definition build_slots :: "(string \<times> string \<rightharpoonup> Lease) \<Rightarrow> string \<Rightarrow> (string \<times> string) set" where
  "build_slots v ns =
     {k. fst k = ns \<and> (\<exists>l. v k = Some l \<and> ls_labels l ''imagebuilder.io/lease-type'' = Some ''build-slot'')}"

definition holding :: "VMImage \<Rightarrow> string list \<Rightarrow> VMImage" where
  "holding img refs = upd_status (\<lambda>st. st\<lparr>st_buildLeaseRefs := refs\<rparr>) img"

inductive scheduler_run ::
    "Reconciler \<Rightarrow> 'w Env \<Rightarrow> 'w lease_view \<Rightarrow> 'w \<Rightarrow> (string \<Rightarrow> string list) \<Rightarrow> bool"
  for r E view where
  sched_start: "build_slots (view w) (r_SchedulerNamespace r) = {} \<Longrightarrow> scheduler_run r E view w (\<lambda>_. [])"
| sched_acquire:
    "scheduler_run r E view w refs \<Longrightarrow> refs (leaseHolder img) = [] \<Longrightarrow>
     run_state (acquireBuildSlots r E) \<lparr>obj = holding img [], world = w, calls = cs, trace = tr\<rparr> = (res, s') \<Longrightarrow>
     refs' = (case res of Inl _ \<Rightarrow> refs | Inr a \<Rightarrow> refs(leaseHolder img := acq_Refs a)) \<Longrightarrow>
     scheduler_run r E view (world s') refs'"
| sched_renew:
    "scheduler_run r E view w refs \<Longrightarrow>
     run_state (renewImageBuildSlots E) \<lparr>obj = holding img (refs (leaseHolder img)), world = w, calls = cs, trace = tr\<rparr> = (err, s') \<Longrightarrow>
     scheduler_run r E view (world s') refs"
| sched_release:
    "scheduler_run r E view w refs \<Longrightarrow>
     run_state (releaseImageBuildSlots E) \<lparr>obj = holding img (refs (leaseHolder img)), world = w, calls = cs, trace = tr\<rparr> = (err, s') \<Longrightarrow>
     refs' = (if err = None then refs(leaseHolder img := []) else refs) \<Longrightarrow>
     scheduler_run r E view (world s') refs'"
| sched_other:
    "scheduler_run r E view w refs \<Longrightarrow>
     build_slots (view w') (r_SchedulerNamespace r) \<subseteq> build_slots (view w) (r_SchedulerNamespace r) \<Longrightarrow>
     scheduler_run r E view w' refs"

lemma holding_simps [simp]:
  "leaseHolder (holding img refs) = leaseHolder img"
  "st_buildLeaseRefs (img_status (holding img refs)) = refs"
  "img_namespace (holding img refs) = img_namespace img"
  by (simp_all add: holding_def leaseHolder_def)

definition slot_refs :: "Reconciler \<Rightarrow> string set" where
  "slot_refs r =
     (\<lambda>slot. leaseRef (r_SchedulerNamespace r) (globalLeaseName slot)) ` {..<nat (maxConcurrentBuilds r)}"

definition slot_keys :: "Reconciler \<Rightarrow> (string \<times> string) set" where
  "slot_keys r = slot_key (r_SchedulerNamespace r) ` {..<nat (maxConcurrentBuilds r)}"

lemma card_slot_keys: "card (slot_keys r) = nat (maxConcurrentBuilds r)"
  unfolding slot_keys_def by (subst card_image) (auto simp: inj_on_def slot_key_def globalLeaseName_inj)

lemma ref_key_slot_ref:
  assumes "r_SchedulerNamespace r \<noteq> ''''" "CHR ''/'' \<notin> set (r_SchedulerNamespace r)" "ref \<in> slot_refs r"
  shows "\<exists>k \<in> slot_keys r. ref_key ref = Some k"
  using assms splitLeaseRef_leaseRef [OF assms(2,1) globalLeaseName_slash_free]
  by (auto simp: slot_refs_def slot_keys_def slot_key_def ref_key_def)

lemma build_slots_outside:
  assumes "build_slots v ns \<subseteq> K" and "\<And>k. k \<notin> K \<Longrightarrow> v' k = v k \<or> v' k = None"
  shows "build_slots v' ns \<subseteq> K"
proof
  fix k assume k: "k \<in> build_slots v' ns"
  show "k \<in> K"
  proof (rule ccontr)
    assume "k \<notin> K"
    with assms(2) [of k] k have "v' k = v k" by (auto simp: build_slots_def)
    with k have "k \<in> build_slots v ns" by (simp add: build_slots_def)
    with assms(1) \<open>k \<notin> K\<close> show False by blast
  qed
qed

lemma scheduler_run_slots:
  assumes laws: "lease_store E view clk"
    and ns: "r_SchedulerNamespace r \<noteq> ''''" "CHR ''/'' \<notin> set (r_SchedulerNamespace r)"
  shows "scheduler_run r E view w refs \<Longrightarrow>
    build_slots (view w) (r_SchedulerNamespace r) \<subseteq> slot_keys r \<and> (\<forall>h. set (refs h) \<subseteq> slot_refs r)"
proof (induction rule: scheduler_run.induct)
  case (sched_start w)
  then show ?case by simp
next
  case (sched_acquire w refs img cs tr res s' refs')
  let ?s = "\<lparr>obj = holding img [], world = w, calls = cs, trace = tr\<rparr>"
  have nsr: "schedulerNamespace r (obj ?s) = r_SchedulerNamespace r" using ns by (simp add: schedulerNamespace_def)
  show ?case
  proof (cases "0 < maxConcurrentBuilds r")
    case True
    have none: "st_buildLeaseRefs (img_status (obj ?s)) = []" by simp
    obtain res0 where post: "acquired_post (r_SchedulerNamespace r) {..<nat (maxConcurrentBuilds r)}
        (leaseHolder (obj ?s)) (clk (world ?s)) (view (world ?s)) res0 (clk (world s')) (view (world s'))"
      and ok: "\<And>a. res = Inr a \<Longrightarrow> acq_Acquired a \<Longrightarrow> \<exists>ref. res0 = Inr (ref, True) \<and> acq_Refs a = [ref]"
      by (rule acquireBuildSlots_post [OF laws none True sched_acquire.hyps(3), unfolded nsr]) blast
    have "view (world s') k = view w k" if "k \<notin> slot_keys r" for k
      using acquired_post_frame [OF post, of k] that by (simp add: slot_keys_def)
    then have "build_slots (view (world s')) (r_SchedulerNamespace r) \<subseteq> slot_keys r"
      by (intro build_slots_outside [OF conjunct1 [OF sched_acquire.IH]] disjI1)
    moreover have "set (refs' h) \<subseteq> slot_refs r" for h
    proof (cases res)
      case (Inl e)
      with sched_acquire show ?thesis by simp
    next
      case (Inr a)
      show ?thesis
      proof (cases "acq_Acquired a")
        case True
        with ok Inr obtain ref where ref: "res0 = Inr (ref, True)" "acq_Refs a = [ref]" by blast
        with post have "ref \<in> slot_refs r" unfolding acquired_post_def slot_refs_def by blast
        with ref Inr sched_acquire show ?thesis by simp
      next
        case False
        then have "acq_Refs a = []"
          using sched_acquire.hyps(3) True Inr
          unfolding acquireBuildSlots_run [OF none True] by (auto split: prod.splits sum.splits if_splits)
        with Inr sched_acquire show ?thesis by simp
      qed
    qed
    ultimately show ?thesis by blast
  next
    case False
    then have "s' = ?s" "res = Inr \<lparr>acq_Acquired = True, acq_Reason = '''', acq_Refs = []\<rparr>"
      using sched_acquire.hyps(3) by (auto simp: acquireBuildSlots_def get_obj_def Let_def)
    with sched_acquire show ?thesis by simp
  qed
next
  case (sched_renew w refs img cs tr err s')
  let ?h = "leaseHolder img"
  let ?s = "\<lparr>obj = holding img (refs ?h), world = w, calls = cs, trace = tr\<rparr>"
  have "wp (renewImageBuildSlots E) (\<lambda>_ s'. \<forall>k. k \<notin> slot_keys r \<longrightarrow> view (world s') k = view w k) ?s"
  proof (cases "refs ?h = []")
    case True
    then show ?thesis by (simp add: renewImageBuildSlots_def wp_simp)
  next
    case False
    have "wp (renew_loop E (refs ?h) ?h (holding img (refs ?h)) t)
        (\<lambda>_ s'. \<forall>k. k \<notin> slot_keys r \<longrightarrow> view (world s') k = view w k) u"
      if "view (world u) = view w" for t u
    proof (rule wp_mono [OF renew_loop_wp [OF laws]], goal_cases)
      case (1 res u')
      have "k \<notin> {k. \<exists>ref \<in> set (refs ?h). ref_key ref = Some k}" if "k \<notin> slot_keys r" for k
        using sched_renew.IH ref_key_slot_ref [OF ns] that by fastforce
      with 1 that show ?case unfolding renewed_post_def by auto
    qed
    with False show ?thesis
      unfolding renewImageBuildSlots_def renewBuildSlots_def
      by (simp add: wp_get_obj wp_bind) (rule wp_now [OF laws]; simp)
  qed
  from wp_run [OF this sched_renew.hyps(2)] sched_renew.IH show ?case
    using build_slots_outside [of "view w" "r_SchedulerNamespace r" "slot_keys r" "view (world s')"] by auto
next
  case (sched_release w refs img cs tr err s' refs')
  let ?h = "leaseHolder img"
  let ?s = "\<lparr>obj = holding img (refs ?h), world = w, calls = cs, trace = tr\<rparr>"
  have "wp (releaseImageBuildSlots E) (\<lambda>_ s'. \<forall>k. view (world s') k = view w k \<or> view (world s') k = None) ?s"
    using wp_mono [OF releaseBuildSlots_wp [OF laws, of "refs ?h" ?h ?s],
        of "\<lambda>_ s'. \<forall>k. view (world s') k = view w k \<or> view (world s') k = None"]
    by (auto simp: releaseImageBuildSlots_def wp_simp released_post_def)
  from wp_run [OF this sched_release.hyps(2)] sched_release show ?case
    using build_slots_outside [of "view w" "r_SchedulerNamespace r" "slot_keys r" "view (world s')"] by auto
next
  case (sched_other w refs w')
  then show ?case by blast
qed

section \<open>Properties\<close>

lemma lease_at_update:
  "lease_at (w\<lparr>sw_leases := (sw_leases w)((ls_namespace l, ls_name l) \<mapsto> l)\<rparr>) =
     (lease_at w)((ls_namespace l, ls_name l) \<mapsto> l)"
  "lease_at (w\<lparr>sw_leases := (sw_leases w)(k := None)\<rparr>) = (lease_at w)(k := None)"
  "lease_at (w\<lparr>sw_now := t\<rparr>) = lease_at w"
  by (auto simp: lease_at_def fun_eq_iff)

lemma sample_lease_store: "lease_store sample_env lease_at sw_now"
proof -
  have key: "k = (ls_namespace l, ls_name l)" if "lease_at w k = Some l" for w k l
    using that by (auto simp: lease_at_def split: option.splits if_splits)
  show ?thesis
    unfolding lease_store_def lease_reads_def lease_writes_def
    by (auto simp: sample_env_def found_def exists_error_def gone_error_def lease_at_update
        split: option.splits if_splits dest: key)
qed

definition queued_world :: sample where
  "queued_world = sample_world\<lparr>sw_leases :=
     [slot_key ''ops'' 0 \<mapsto> buildLease ''ops'' (globalLeaseName 0) ''global'' '''' 0 ''ci/db/u9'' sample_image (90 * second)]\<rparr>"

text \<open>C5: Mutual exclusion of build slots: an acquisition for an image that holds no slot never
  takes away, or changes, a lease that another image keeps unexpired. When it succeeds, the one
  reference it returns names a slot below the limit, and that slot's lease is now held by the
  image; when it reports that the limit is reached, every slot was held by somebody else, by a
  lease not expired when the acquisition started, and nothing was changed.\<close>

theorem acquire_respects_leases:
  assumes "lease_store E view clk"
    and "st_buildLeaseRefs (img_status (obj s)) = []" and "0 < maxConcurrentBuilds r"
    and "run_state (acquireBuildSlots r E) s = (res, s')"
  shows "others_kept (leaseHolder (obj s)) (clk (world s')) (view (world s)) (view (world s'))
    \<and> (case res of
         Inl e \<Rightarrow> True
       | Inr a \<Rightarrow>
           if acq_Acquired a
           then (\<exists>slot < nat (maxConcurrentBuilds r).
                   acq_Refs a = [leaseRef (schedulerNamespace r (obj s)) (globalLeaseName slot)]
                   \<and> held_by (view (world s')) (slot_key (schedulerNamespace r (obj s)) slot) (leaseHolder (obj s)))
           else view (world s') = view (world s)
             \<and> (\<forall>slot < nat (maxConcurrentBuilds r). \<exists>l.
                   view (world s) (slot_key (schedulerNamespace r (obj s)) slot) = Some l
                   \<and> ls_holderIdentity l \<noteq> Some (leaseHolder (obj s))
                   \<and> \<not> buildLeaseExpired l (clk (world s))))"
proof -
  obtain res0 where post: "acquired_post (schedulerNamespace r (obj s)) {..<nat (maxConcurrentBuilds r)}
        (leaseHolder (obj s)) (clk (world s)) (view (world s)) res0 (clk (world s')) (view (world s'))"
    and ok: "\<And>a. res = Inr a \<Longrightarrow> acq_Acquired a \<Longrightarrow> \<exists>ref. res0 = Inr (ref, True) \<and> acq_Refs a = [ref]"
    and busy: "\<And>a. res = Inr a \<Longrightarrow> \<not> acq_Acquired a \<Longrightarrow> \<exists>ref. res0 = Inr (ref, False)"
    by (rule acquireBuildSlots_post [OF assms]) blast
  show ?thesis
  proof (cases res)
    case (Inl e)
    with post show ?thesis by (simp add: acquired_post_def)
  next
    case (Inr a)
    show ?thesis
    proof (cases "acq_Acquired a")
      case True
      with ok Inr obtain ref where "res0 = Inr (ref, True)" "acq_Refs a = [ref]" by blast
      with True Inr post show ?thesis unfolding acquired_post_def by auto
    next
      case False
      with busy Inr obtain ref where "res0 = Inr (ref, False)" by blast
      with False Inr post show ?thesis unfolding acquired_post_def by auto
    qed
  qed
qed

text \<open>Slot 0 is taken by another image: the image gets slot 1.\<close>

theorem acquire_respects_leases_witness:
  "others_kept ''ci/web/u1'' (103 * second) (lease_at queued_world)
     (lease_at (world (snd (run_state (acquireBuildSlots sample_reconciler sample_env) (start sample_image queued_world)))))"
proof -
  let ?s = "start sample_image queued_world"
  obtain res s' where run: "run_state (acquireBuildSlots sample_reconciler sample_env) ?s = (res, s')"
    by fastforce
  have now: "sw_now (world (snd (run_state (acquireBuildSlots sample_reconciler sample_env) ?s))) \<le> 103 * second"
    by code_simp
  have pre: "st_buildLeaseRefs (img_status (obj ?s)) = []" "0 < maxConcurrentBuilds sample_reconciler"
    and h: "leaseHolder (obj ?s) = ''ci/web/u1''" and w: "world ?s = queued_world"
    by (simp_all add: empty_status_def maxConcurrentBuilds_def leaseHolder_def)
  from conjunct1 [OF acquire_respects_leases [OF sample_lease_store pre run]] now
  have "others_kept ''ci/web/u1'' (103 * second) (lease_at queued_world) (lease_at (world s'))"
    unfolding h w run snd_conv by (rule others_kept_mono)
  then show ?thesis by (simp add: run)
qed

text \<open>C6: The concurrency limit: however images acquire, renew and release their slots, starting
  from a scheduler namespace without build-slot leases, there are never more build-slot leases in
  it than \<open>maxConcurrentBuilds\<close>, and every reference an image was given is one of these slots.\<close>

theorem concurrency_limit:
  assumes "lease_store E view clk"
    and "r_SchedulerNamespace r \<noteq> ''''" and "CHR ''/'' \<notin> set (r_SchedulerNamespace r)"
    and "scheduler_run r E view w refs"
  shows "card (build_slots (view w) (r_SchedulerNamespace r)) \<le> nat (maxConcurrentBuilds r)
    \<and> (\<forall>h. set (refs h) \<subseteq> slot_refs r)"
proof -
  have "finite (slot_keys r)" by (simp add: slot_keys_def)
  then show ?thesis
    using scheduler_run_slots [OF assms] card_mono [of "slot_keys r"] card_slot_keys [of r] by auto
qed

theorem concurrency_limit_witness:
  "card (build_slots (lease_at (world (snd (run_state (acquireBuildSlots sample_reconciler sample_env)
      \<lparr>obj = holding sample_image [], world = sample_world, calls = [], trace = []\<rparr>)))) ''ops'') \<le> 2"
proof -
  let ?s = "\<lparr>obj = holding sample_image [], world = sample_world, calls = [], trace = []\<rparr>"
  obtain res s' where run: "run_state (acquireBuildSlots sample_reconciler sample_env) ?s = (res, s')"
    by fastforce
  have "build_slots (lease_at sample_world) (r_SchedulerNamespace sample_reconciler) = {}"
    by (simp add: build_slots_def lease_at_def sample_world_def)
  from sched_acquire [OF sched_start [where view = lease_at and w = sample_world and r = sample_reconciler and E = sample_env, OF this] _ run refl]
  obtain refs where "scheduler_run sample_reconciler sample_env lease_at (world s') refs" by blast
  from concurrency_limit [OF sample_lease_store _ _ this] show ?thesis
    by (simp add: run maxConcurrentBuilds_def)
qed

text \<open>Release: when the slots of an image are released without an error, none of the leases its
  status refers to is held by the image any more, no lease appeared or changed, and no lease that
  somebody else holds was removed.\<close>

theorem release_frees_slots:
  assumes "lease_store E view clk"
    and "run_state (releaseImageBuildSlots E) s = (None, s')"
  shows "(\<forall>ref \<in> set (st_buildLeaseRefs (img_status (obj s))).
            \<exists>k. ref_key ref = Some k \<and> \<not> held_by (view (world s')) k (leaseHolder (obj s)))
    \<and> (\<forall>k. view (world s') k = view (world s) k \<or> view (world s') k = None)
    \<and> (\<forall>k l. view (world s) k = Some l \<longrightarrow> ls_holderIdentity l \<noteq> None \<longrightarrow>
          ls_holderIdentity l \<noteq> Some (leaseHolder (obj s)) \<longrightarrow> view (world s') k = Some l)"
proof (cases "st_buildLeaseRefs (img_status (obj s)) = []")
  case True
  with assms(2) show ?thesis by (simp add: releaseImageBuildSlots_def get_obj_def)
next
  case False
  let ?refs = "st_buildLeaseRefs (img_status (obj s))"
  from False assms(2) have "run_state (releaseBuildSlots E ?refs (leaseHolder (obj s))) s = (None, s')"
    by (simp add: releaseImageBuildSlots_def get_obj_def)
  from wp_run [OF releaseBuildSlots_wp [OF assms(1)] this] show ?thesis
    unfolding released_post_def by simp
qed

definition building_world :: sample where
  "building_world = sample_world\<lparr>sw_leases :=
     [slot_key ''ops'' 0 \<mapsto> buildLease ''ops'' (globalLeaseName 0) ''global'' '''' 0 ''ci/web/u1'' sample_image (90 * second)]\<rparr>"

definition building_image :: VMImage where
  "building_image = upd_status (\<lambda>st. st\<lparr>st_phase := PhaseBuilding, st_buildJobRef := Some ''web-build'',
     st_startTime := Some (90 * second), st_buildLeaseRefs := [leaseRef ''ops'' (globalLeaseName 0)]\<rparr>) sample_image"

lemma release_sample_run:
  "fst (run_state (releaseImageBuildSlots sample_env) (start building_image building_world)) = None"
  by code_simp

theorem release_frees_slots_witness:
  "\<exists>k. ref_key (leaseRef ''ops'' (globalLeaseName 0)) = Some k \<and>
     \<not> held_by (lease_at (world (snd (run_state (releaseImageBuildSlots sample_env) (start building_image building_world)))))
       k ''ci/web/u1''"
proof -
  obtain s' where run: "run_state (releaseImageBuildSlots sample_env) (start building_image building_world) = (None, s')"
    using release_sample_run by (metis prod.collapse)
  have refs: "st_buildLeaseRefs (img_status (obj (start building_image building_world))) = [leaseRef ''ops'' (globalLeaseName 0)]"
    and h: "leaseHolder (obj (start building_image building_world)) = ''ci/web/u1''"
    by (simp_all add: building_image_def leaseHolder_def)
  from conjunct1 [OF release_frees_slots [OF sample_lease_store run], unfolded refs h] show ?thesis
    unfolding run snd_conv by (rule bspec) simp
qed

text \<open>Renewal: when the slots of an image are renewed without an error, every lease its status
  refers to is held by the image, and stays unexpired for its (positive) duration from the time of
  renewal on; no unexpired lease of somebody else was taken.\<close>

theorem renew_keeps_slots:
  assumes "lease_store E view clk"
    and "run_state (renewImageBuildSlots E) s = (None, s')"
  shows "others_kept (leaseHolder (obj s)) (clk (world s')) (view (world s)) (view (world s'))
    \<and> (\<forall>ref \<in> set (st_buildLeaseRefs (img_status (obj s))). \<exists>k l d now.
          ref_key ref = Some k \<and> view (world s') k = Some l
          \<and> ls_holderIdentity l = Some (leaseHolder (obj s))
          \<and> ls_leaseDurationSeconds l = Some d \<and> d > 0 \<and> clk (world s) \<le> now
          \<and> (\<forall>t \<le> now + d * second. \<not> buildLeaseExpired l t))"
proof (cases "st_buildLeaseRefs (img_status (obj s)) = []")
  case True
  with assms(2) show ?thesis by (simp add: renewImageBuildSlots_def get_obj_def)
next
  case False
  let ?refs = "st_buildLeaseRefs (img_status (obj s))" and ?h = "leaseHolder (obj s)"
  have h: "?h \<noteq> ''''" by (simp add: leaseHolder_def)
  have "wp (renewBuildSlots E ?refs ?h (obj s)) (\<lambda>err s'. err = None \<longrightarrow>
      others_kept ?h (clk (world s')) (view (world s)) (view (world s')) \<and>
      (\<exists>now \<ge> clk (world s). \<forall>ref \<in> set ?refs. \<exists>k. ref_key ref = Some k \<and> is_fresh (view (world s')) ?h now k)) s"
    unfolding renewBuildSlots_def wp_bind
  proof (rule wp_now [OF assms(1)], goal_cases)
    case (1 t w)
    then show ?case
      by (intro wp_mono [OF renew_loop_wp [OF assms(1)]]) (auto simp: renewed_post_def)
  qed
  moreover from False assms(2) have "run_state (renewBuildSlots E ?refs ?h (obj s)) s = (None, s')"
    by (simp add: renewImageBuildSlots_def get_obj_def)
  ultimately obtain now where now: "clk (world s) \<le> now"
      "others_kept ?h (clk (world s')) (view (world s)) (view (world s'))"
      "\<forall>ref \<in> set ?refs. \<exists>k. ref_key ref = Some k \<and> is_fresh (view (world s')) ?h now k"
    by (auto dest: wp_run)
  have "\<exists>l d. view (world s') k = Some l \<and> ls_holderIdentity l = Some ?h
      \<and> ls_leaseDurationSeconds l = Some d \<and> d > 0 \<and> (\<forall>t \<le> now + d * second. \<not> buildLeaseExpired l t)"
    if "is_fresh (view (world s')) ?h now k" for k
    using that fresh_lease_unexpired [OF _ h] unfolding is_fresh_def fresh_lease_def by blast
  with now show ?thesis by meson
qed

lemma renew_sample_run:
  "fst (run_state (renewImageBuildSlots sample_env) (start building_image building_world)) = None"
  by code_simp

theorem renew_keeps_slots_witness:
  "\<exists>k l. ref_key (leaseRef ''ops'' (globalLeaseName 0)) = Some k \<and>
     ls_holderIdentity l = Some ''ci/web/u1'' \<and> \<not> buildLeaseExpired l (101 * second)"
proof -
  obtain s' where run: "run_state (renewImageBuildSlots sample_env) (start building_image building_world) = (None, s')"
    using renew_sample_run by (metis prod.collapse)
  have refs: "st_buildLeaseRefs (img_status (obj (start building_image building_world))) = [leaseRef ''ops'' (globalLeaseName 0)]"
    and h: "leaseHolder (obj (start building_image building_world)) = ''ci/web/u1''"
    and t: "sw_now (world (start building_image building_world)) = 100 * second"
    by (simp_all add: building_image_def leaseHolder_def building_world_def sample_world_def)
  from bspec [OF conjunct2 [OF renew_keeps_slots [OF sample_lease_store run, unfolded refs h t]], of "leaseRef ''ops'' (globalLeaseName 0)"]
  obtain k l d now where "ref_key (leaseRef ''ops'' (globalLeaseName 0)) = Some k" "ls_holderIdentity l = Some ''ci/web/u1''"
      "0 < d" "100 * second \<le> now" "\<forall>t \<le> now + d * second. \<not> buildLeaseExpired l t" by auto
  moreover from this have "101 * second \<le> now + d * second" by simp
  ultimately show ?thesis by blast
qed

text \<open>Lease references: the reference of a slot, read back from the status, names the lease it
  was made for, and images with different namespace, name or UID have different holder identities
  (names of Kubernetes objects contain no slash).\<close>

theorem lease_identity:
  assumes "CHR ''/'' \<notin> set ns" and "ns \<noteq> ''''"
    and "CHR ''/'' \<notin> set (img_namespace a)" and "CHR ''/'' \<notin> set (img_name a)"
    and "CHR ''/'' \<notin> set (img_namespace b)" and "CHR ''/'' \<notin> set (img_name b)"
  shows "splitLeaseRef (leaseRef ns (globalLeaseName slot)) = Inr (ns, globalLeaseName slot)
    \<and> (leaseHolder a = leaseHolder b \<longleftrightarrow>
         img_namespace a = img_namespace b \<and> img_name a = img_name b \<and> img_uid a = img_uid b)"
  using splitLeaseRef_leaseRef [OF assms(1,2) globalLeaseName_slash_free]
    leaseHolder_inj [OF assms(3,5,4,6)]
  by (auto simp: leaseHolder_def)

theorem lease_identity_witness:
  "splitLeaseRef (leaseRef ''ops'' (globalLeaseName 12)) = Inr (''ops'', globalLeaseName 12)
   \<and> leaseHolder sample_image \<noteq> leaseHolder (sample_image\<lparr>img_uid := ''u2''\<rparr>)"
  using lease_identity [of "''ops''" sample_image "sample_image\<lparr>img_uid := ''u2''\<rparr>" 12]
  by (simp add: sample_image_def)

end
