(* ===== verification/Status_Steps.thy ===== *)
theory Status_Steps
  imports Sample_Cluster
begin

text \<open>
  Conditions and pipeline steps of the \<open>VMImage\<close> status, and the metrics derived from them
  (\<open>setCondition\<close>, \<open>setStep\<close>, \<open>setBuildFailureSteps\<close>, \<open>observeBuildDuration\<close>, ... of
  \<open>pkg/controller/vmimage/reconciler.go\<close>). Both lists are updated by key; the locale
  \<open>keyed_upsert\<close> is that contract, which the upload operations share.
\<close>

section \<open>Keyed upsert\<close>

locale keyed_upsert =
  fixes key :: "'a \<Rightarrow> 'k" and upsert :: "'a list \<Rightarrow> 'a list" and k :: 'k
  assumes keys: "map key (upsert xs) = (if k \<in> key ` set xs then map key xs else map key xs @ [k])"
    and others: "filter (\<lambda>x. key x \<noteq> k) (upsert xs) = filter (\<lambda>x. key x \<noteq> k) xs"
begin

lemma distinct_keys: "distinct (map key xs) \<Longrightarrow> distinct (map key (upsert xs))"
  by (simp add: keys)

lemma has_key: "k \<in> key ` set (upsert xs)"
proof -
  have "set (map key (upsert xs)) = insert k (set (map key xs))" by (auto simp: keys)
  then show ?thesis by auto
qed

lemma keys_set: "key ` set (upsert xs) = insert k (key ` set xs)"
proof -
  have "set (map key (upsert xs)) = insert k (set (map key xs))" by (auto simp: keys)
  then show ?thesis by simp
qed

lemma other_elements: "key x \<noteq> k \<Longrightarrow> x \<in> set (upsert xs) \<longleftrightarrow> x \<in> set xs"
proof -
  assume "key x \<noteq> k"
  then have eq: "x \<in> set ys \<longleftrightarrow> x \<in> set (filter (\<lambda>x. key x \<noteq> k) ys)" for ys by simp
  show ?thesis by (simp only: eq [of "upsert xs"] eq [of xs] others)
qed

lemma find_other: "k' \<noteq> k \<Longrightarrow> find (\<lambda>x. key x = k') (upsert xs) = find (\<lambda>x. key x = k') xs"
proof -
  assume "k' \<noteq> k"
  then have eq: "find (\<lambda>x. key x = k') ys = find (\<lambda>x. key x = k') (filter (\<lambda>x. key x \<noteq> k) ys)" for ys
    by (induction ys) auto
  show ?thesis by (simp only: eq [of "upsert xs"] eq [of xs] others)
qed

lemma length_upsert: "length xs \<le> length (upsert xs)"
proof -
  have "length (map key xs) \<le> length (map key (upsert xs))" by (simp add: keys)
  then show ?thesis by simp
qed

end

text \<open>Update the first element with the key, or append a new one.\<close>

definition upsert_first :: "('a \<Rightarrow> 'k) \<Rightarrow> 'k \<Rightarrow> ('a \<Rightarrow> 'a) \<Rightarrow> 'a \<Rightarrow> 'a list \<Rightarrow> 'a list" where
  "upsert_first key k f new xs =
     (if k \<in> key ` set xs then update_first (\<lambda>x. key x = k) f xs else xs @ [new])"

lemma filter_update_first:
  "(\<And>x. key x = k \<Longrightarrow> key (f x) = k) \<Longrightarrow>
   filter (\<lambda>x. key x \<noteq> k) (update_first (\<lambda>x. key x = k) f xs) = filter (\<lambda>x. key x \<noteq> k) xs"
  by (induction xs) auto

lemma keyed_upsert_first:
  assumes "\<And>x. key x = k \<Longrightarrow> key (f x) = k" and "key new = k"
  shows "keyed_upsert key (upsert_first key k f new) k"
proof
  have "map key (update_first (\<lambda>x. key x = k) f xs) = map key xs" for xs
    using assms(1) by (intro map_update_first) simp
  then show "map key (upsert_first key k f new xs) =
      (if k \<in> key ` set xs then map key xs else map key xs @ [k])" for xs
    using assms(2) by (simp add: upsert_first_def)
  show "filter (\<lambda>x. key x \<noteq> k) (upsert_first key k f new xs) = filter (\<lambda>x. key x \<noteq> k) xs" for xs
    using assms by (simp add: upsert_first_def filter_update_first)
qed

lemma find_upsert_first:
  "(\<And>x. key x = k \<Longrightarrow> key (f x) = k) \<Longrightarrow> key new = k \<Longrightarrow>
   find (\<lambda>x. key x = k) (upsert_first key k f new xs) =
     Some (case find (\<lambda>x. key x = k) xs of None \<Rightarrow> new | Some x \<Rightarrow> f x)"
proof -
  assume kf: "\<And>x. key x = k \<Longrightarrow> key (f x) = k" and kn: "key new = k"
  have upd: "find (\<lambda>x. key x = k) (update_first (\<lambda>x. key x = k) f xs) =
      map_option f (find (\<lambda>x. key x = k) xs)"
    using kf by (induction xs) auto
  have app: "find (\<lambda>x. key x = k) (xs @ [new]) = Some new" if "k \<notin> key ` set xs"
    using that kn by (induction xs) auto
  show ?thesis
  proof (cases "k \<in> key ` set xs")
    case True
    then have "find (\<lambda>x. key x = k) xs \<noteq> None" by (auto simp: find_None_iff)
    with True show ?thesis by (auto simp: upsert_first_def upd)
  next
    case False
    then have "find (\<lambda>x. key x = k) xs = None" by (auto simp: find_None_iff)
    with False show ?thesis by (simp add: upsert_first_def app)
  qed
qed

section \<open>Conditions\<close>

definition set_condition ::
    "int \<Rightarrow> int \<Rightarrow> string \<Rightarrow> string \<Rightarrow> string \<Rightarrow> string \<Rightarrow> Condition list \<Rightarrow> Condition list" where
  "set_condition now generation condType status reason msg =
     upsert_first cond_type condType
       (\<lambda>c. c\<lparr>cond_status := status, cond_reason := reason, cond_message := msg,
              cond_observedGeneration := generation, cond_lastTransitionTime := now\<rparr>)
       \<lparr>cond_type = condType, cond_status = status, cond_reason = reason, cond_message = msg,
        cond_observedGeneration = generation, cond_lastTransitionTime = now\<rparr>"

interpretation conditions: keyed_upsert cond_type "set_condition now generation condType status reason msg" condType
  for now generation condType status reason msg
  unfolding set_condition_def by (rule keyed_upsert_first) simp_all

definition setCondition :: "'w Env \<Rightarrow> string \<Rightarrow> string \<Rightarrow> string \<Rightarrow> string \<Rightarrow> ('w, unit) handler" where
  "setCondition E condType status reason msg = do {
     now \<leftarrow> query (e_now E);
     set_obj (\<lambda>img. upd_status (\<lambda>st. st\<lparr>st_conditions :=
       set_condition now (img_generation img) condType status reason msg (st_conditions st)\<rparr>) img)
   }"

section \<open>Pipeline steps\<close>

definition set_step ::
    "int \<Rightarrow> string \<Rightarrow> string \<Rightarrow> string \<Rightarrow> string \<Rightarrow> string \<Rightarrow> PipelineStepStatus list \<Rightarrow> PipelineStepStatus list"
  where
  "set_step now name status reason msg resultRef =
     upsert_first step_name name
       (\<lambda>s. s\<lparr>step_lastTransitionTime := (if step_status s \<noteq> status then now else step_lastTransitionTime s),
              step_status := status, step_reason := reason, step_message := msg,
              step_resultRef := resultRef\<rparr>)
       \<lparr>step_name = name, step_status = status, step_reason = reason, step_message = msg,
        step_lastTransitionTime = now, step_resultRef = resultRef\<rparr>"

interpretation steps: keyed_upsert step_name "set_step now name status reason msg resultRef" name
  for now name status reason msg resultRef
  unfolding set_step_def by (rule keyed_upsert_first) simp_all

definition setStep :: "'w Env \<Rightarrow> string \<Rightarrow> string \<Rightarrow> string \<Rightarrow> string \<Rightarrow> string \<Rightarrow> ('w, unit) handler" where
  "setStep E name status reason msg resultRef = do {
     now \<leftarrow> query (e_now E);
     set_status (\<lambda>st. st\<lparr>st_steps := set_step now name status reason msg resultRef (st_steps st)\<rparr>)
   }"

definition stepStatus :: "VMImage \<Rightarrow> string \<Rightarrow> PipelineStepStatus option" where
  "stepStatus img name = find (\<lambda>s. step_name s = name) (st_steps (img_status img))"

definition workspaceResult :: string where
  "workspaceResult = ''/workspace/provisioners-result.json''"

definition setBuildFailureSteps :: "'w Env \<Rightarrow> string \<Rightarrow> string \<Rightarrow> ('w, unit) handler" where
  "setBuildFailureSteps E reason message = do {
     img \<leftarrow> get_obj;
     (if reason = ''SourceFetchFailed'' then do {
        setStep E ''Build'' ''Failed'' reason message '''';
        setStep E ''Boot'' ''Skipped'' ''BuildFailed'' ''Source fetch failed before guest boot'' '''';
        setStep E ''Readiness'' ''Skipped'' ''BuildFailed'' ''Source fetch failed before guest readiness'' '''';
        setStep E ''Provisioning'' ''Skipped'' ''BuildFailed'' ''Source fetch failed before provisioning'' '''';
        setStep E ''Sanitization'' ''Skipped'' ''BuildFailed'' ''Source fetch failed before sanitization'' ''''
      }
      else if reason = ''BootFailed'' then do {
        setStep E ''Build'' ''Running'' ''BuildJobRunning'' ''Build Job reached guest boot'' '''';
        setStep E ''Boot'' ''Failed'' reason message '''';
        setStep E ''Readiness'' ''Skipped'' ''BootFailed'' ''Guest boot failed before readiness'' '''';
        setStep E ''Provisioning'' ''Skipped'' ''BootFailed'' ''Guest boot failed before provisioning'' '''';
        setStep E ''Sanitization'' ''Skipped'' ''BootFailed'' ''Guest boot failed before sanitization'' ''''
      }
      else if reason = ''GuestReadinessTimeout'' then do {
        setStep E ''Build'' ''Running'' ''BuildJobRunning'' ''Build Job reached guest readiness'' '''';
        setStep E ''Boot'' ''Succeeded'' ''GuestBooted'' ''Guest boot completed before readiness wait'' '''';
        setStep E ''Readiness'' ''Failed'' reason message '''';
        setStep E ''Provisioning'' ''Skipped'' ''ReadinessFailed'' ''Guest readiness failed before provisioning'' '''';
        setStep E ''Sanitization'' ''Skipped'' ''ReadinessFailed'' ''Guest readiness failed before sanitization'' ''''
      }
      else if reason = ''ProvisionerFailed'' then do {
        setStep E ''Build'' ''Running'' ''BuildJobRunning'' ''Build Job reached provisioning'' '''';
        setStep E ''Boot'' ''Succeeded'' ''GuestBooted'' ''Guest boot completed before provisioning'' '''';
        setStep E ''Readiness'' ''Succeeded'' ''GuestReady'' ''Guest readiness completed before provisioning'' '''';
        setStep E ''Provisioning'' ''Failed'' reason message workspaceResult;
        setStep E ''Sanitization'' ''Skipped'' ''ProvisionerFailed'' ''Provisioning failed before sanitization'' ''''
      }
      else if reason = ''ArtifactConvertFailed'' then do {
        setStep E ''Build'' ''Failed'' reason message '''';
        setStep E ''Boot'' ''Succeeded'' ''GuestBooted'' ''Guest boot completed before artifact conversion'' '''';
        setStep E ''Readiness'' ''Succeeded'' ''GuestReady'' ''Guest readiness completed before artifact conversion'' '''';
        (if spec_provisioners (img_spec img) \<noteq> [] then
           setStep E ''Provisioning'' ''Succeeded'' ''ProvisioningComplete''
             ''Provisioners completed before artifact conversion'' workspaceResult
         else setStep E ''Provisioning'' ''Skipped'' ''NoProvisioners'' ''No provisioners configured'' '''')
      }
      else setStep E ''Build'' ''Failed'' reason message '''');
     setStep E ''Upload'' ''Skipped'' ''BuildFailed'' ''Upload skipped because build failed'' ''''
   }"

section \<open>Metrics\<close>

definition metricProvider :: "VMImage \<Rightarrow> string" where
  "metricProvider img =
     (case spec_targets (img_spec img) of [] \<Rightarrow> ''unknown'' | t # _ \<Rightarrow> tgt_providerConfigRef t)"

definition metricFormat :: "VMImage \<Rightarrow> string" where
  "metricFormat img =
     (case spec_targets (img_spec img) of [] \<Rightarrow> ''unknown'' | t # _ \<Rightarrow> tgt_format t)"

definition observeBuildDuration :: "'w Env \<Rightarrow> string \<Rightarrow> ('w, unit) handler" where
  "observeBuildDuration E phase = do {
     img \<leftarrow> get_obj;
     case st_startTime (img_status img) of
       None \<Rightarrow> ret ()
     | Some t \<Rightarrow> do {
         now \<leftarrow> query (e_now E);
         emit (MetricObserve ''BuildDurationSeconds'' [phase, metricProvider img, metricFormat img] (now - t, second))
       }
   }"

definition observeUploadDuration :: "'w Env \<Rightarrow> string \<Rightarrow> ('w, unit) handler" where
  "observeUploadDuration E success = do {
     img \<leftarrow> get_obj;
     case stepStatus img ''Upload'' of
       None \<Rightarrow> ret ()
     | Some step \<Rightarrow>
         if step_lastTransitionTime step = zero_time then ret ()
         else do {
           now \<leftarrow> query (e_now E);
           emit (MetricObserve ''UploadDurationSeconds'' [metricProvider img, metricFormat img, success]
             (now - step_lastTransitionTime step, second))
         }
   }"

section \<open>Job status\<close>

definition isJobSucceeded :: "Job \<Rightarrow> bool" where
  "isJobSucceeded job = list_ex (\<lambda>c. jc_type c = ''Complete'' \<and> jc_status c = ConditionTrue) (job_conditions job)"

definition isJobFailed :: "Job \<Rightarrow> bool" where
  "isJobFailed job = list_ex (\<lambda>c. jc_type c = ''Failed'' \<and> jc_status c = ConditionTrue) (job_conditions job)"

definition jobHasActiveBuildPod :: "Job \<Rightarrow> bool" where
  "jobHasActiveBuildPod job = (job_active job > 0)"

definition hasGeneratedGuestCredentials :: "VMImage \<Rightarrow> bool" where
  "hasGeneratedGuestCredentials img =
     (case bld_guestAccess (spec_build (img_spec img)) of None \<Rightarrow> False
      | Some g \<Rightarrow> (case gac_credentials g of None \<Rightarrow> False | Some c \<Rightarrow> gc_generate c \<noteq> None))"

section \<open>What steps and conditions leave alone\<close>

text \<open>The status without its steps and conditions: what the life cycle of an image is about. Two
  images are alike when they differ at most in these two lists.\<close>

definition core :: "VMImage \<Rightarrow> VMImage" where
  "core img = upd_status (\<lambda>st. st\<lparr>st_steps := [], st_conditions := []\<rparr>) img"

definition has_condition :: "VMImage \<Rightarrow> string \<Rightarrow> string \<Rightarrow> bool" where
  "has_condition img ty status \<longleftrightarrow>
     (\<exists>c. find (\<lambda>c. cond_type c = ty) (st_conditions (img_status img)) = Some c \<and> cond_status c = status)"

lemma core_fields:
  assumes "core x = core y"
  shows "img_spec x = img_spec y" "img_name x = img_name y" "img_namespace x = img_namespace y"
    "img_uid x = img_uid y" "img_generation x = img_generation y" "img_finalizers x = img_finalizers y"
    "img_deletionTimestamp x = img_deletionTimestamp y" "img_phase x = img_phase y"
    "st_images (img_status x) = st_images (img_status y)"
    "st_buildArtifact (img_status x) = st_buildArtifact (img_status y)"
    "st_completionTime (img_status x) = st_completionTime (img_status y)"
    "st_startTime (img_status x) = st_startTime (img_status y)"
    "st_buildJobRef (img_status x) = st_buildJobRef (img_status y)"
    "st_uploadJobRef (img_status x) = st_uploadJobRef (img_status y)"
    "st_buildLeaseRefs (img_status x) = st_buildLeaseRefs (img_status y)"
    "st_evidence (img_status x) = st_evidence (img_status y)"
    "st_observedGeneration (img_status x) = st_observedGeneration (img_status y)"
    "st_observedRevision (img_status x) = st_observedRevision (img_status y)"
    "st_uploadOperations (img_status x) = st_uploadOperations (img_status y)"
proof -
  have st: "img_status (core x) = img_status (core y)" using assms by simp
  show "img_spec x = img_spec y" "img_name x = img_name y" "img_namespace x = img_namespace y"
    "img_uid x = img_uid y" "img_generation x = img_generation y" "img_finalizers x = img_finalizers y"
    "img_deletionTimestamp x = img_deletionTimestamp y"
    using arg_cong [OF assms, of img_spec] arg_cong [OF assms, of img_name]
      arg_cong [OF assms, of img_namespace] arg_cong [OF assms, of img_uid]
      arg_cong [OF assms, of img_generation] arg_cong [OF assms, of img_finalizers]
      arg_cong [OF assms, of img_deletionTimestamp]
    by (simp_all add: core_def)
  show "img_phase x = img_phase y"
    using arg_cong [OF st, of st_phase] by (simp add: core_def img_phase_def)
  show "st_images (img_status x) = st_images (img_status y)"
    using arg_cong [OF st, of st_images] by (simp add: core_def)
  show "st_buildArtifact (img_status x) = st_buildArtifact (img_status y)"
    using arg_cong [OF st, of st_buildArtifact] by (simp add: core_def)
  show "st_completionTime (img_status x) = st_completionTime (img_status y)"
    using arg_cong [OF st, of st_completionTime] by (simp add: core_def)
  show "st_startTime (img_status x) = st_startTime (img_status y)"
    using arg_cong [OF st, of st_startTime] by (simp add: core_def)
  show "st_buildJobRef (img_status x) = st_buildJobRef (img_status y)"
    using arg_cong [OF st, of st_buildJobRef] by (simp add: core_def)
  show "st_uploadJobRef (img_status x) = st_uploadJobRef (img_status y)"
    using arg_cong [OF st, of st_uploadJobRef] by (simp add: core_def)
  show "st_buildLeaseRefs (img_status x) = st_buildLeaseRefs (img_status y)"
    using arg_cong [OF st, of st_buildLeaseRefs] by (simp add: core_def)
  show "st_evidence (img_status x) = st_evidence (img_status y)"
    using arg_cong [OF st, of st_evidence] by (simp add: core_def)
  show "st_observedGeneration (img_status x) = st_observedGeneration (img_status y)"
    using arg_cong [OF st, of st_observedGeneration] by (simp add: core_def)
  show "st_observedRevision (img_status x) = st_observedRevision (img_status y)"
    using arg_cong [OF st, of st_observedRevision] by (simp add: core_def)
  show "st_uploadOperations (img_status x) = st_uploadOperations (img_status y)"
    using arg_cong [OF st, of st_uploadOperations] by (simp add: core_def)
qed

text \<open>\<open>same_core\<close>: the relation of a handler that only writes steps and conditions, and of the
  conditions at most those whose type is in the given set.\<close>

definition same_core :: "string set \<Rightarrow> VMImage \<Rightarrow> VMImage \<Rightarrow> bool" where
  "same_core T x y \<longleftrightarrow> core x = core y
     \<and> (\<forall>ty. ty \<notin> T \<longrightarrow> find (\<lambda>c. cond_type c = ty) (st_conditions (img_status x)) =
                          find (\<lambda>c. cond_type c = ty) (st_conditions (img_status y)))"

lemma same_core_preorder [does_intro]: "reflp (same_core T)" "transp (same_core T)"
  by (auto simp: same_core_def reflp_def transp_def)

lemma does_setCondition [does_intro]: "ty \<in> T \<Longrightarrow> does A (same_core T) (setCondition E ty status reason msg)"
  unfolding setCondition_def
  by (intro does_intro) (auto simp: same_core_def core_def upd_status_def, metis conditions.find_other)

lemma does_setStep [does_intro]: "does A (same_core T) (setStep E n status reason msg ref)"
  unfolding setStep_def
  by (intro does_intro) (auto simp: same_core_def core_def upd_status_def)

lemma does_setBuildFailureSteps [does_intro]: "does A (same_core T) (setBuildFailureSteps E reason msg)"
  unfolding setBuildFailureSteps_def by (intro does_intro)

lemma only_observeBuildDuration [does_intro]:
  "reflp R \<Longrightarrow> transp R \<Longrightarrow> (\<And>n ls v. A (MetricObserve n ls v)) \<Longrightarrow> does A R (observeBuildDuration E phase)"
  unfolding observeBuildDuration_def by (intro does_intro)

lemma only_observeUploadDuration [does_intro]:
  "reflp R \<Longrightarrow> transp R \<Longrightarrow> (\<And>n ls v. A (MetricObserve n ls v)) \<Longrightarrow> does A R (observeUploadDuration E success)"
  unfolding observeUploadDuration_def by (intro does_intro)

lemma has_condition_setCondition: "wp (setCondition E ty status reason msg) (\<lambda>_ s. has_condition (obj s) ty status) s"
  unfolding setCondition_def
  by (auto simp: wp_simp has_condition_def set_condition_def find_upsert_first split: prod.split option.split)

end
