(* ===== verification/Remote_Status.thy ===== *)
theory Remote_Status
  imports Status_Steps
begin

text \<open>
  What a remote build reports, and what the status says of it: evidence, hygiene, image
  references, progress steps, and the delay before a retry (the helpers of the remote build in
  \<open>pkg/controller/vmimage/reconciler.go\<close>).
\<close>

section \<open>Evidence\<close>

definition remoteEvidenceStatus :: "int \<Rightarrow> RemoteEvidenceResult option \<Rightarrow> EvidenceStatus" where
  "remoteEvidenceStatus now result =
     (case result of
        None \<Rightarrow>
          \<lparr>evs_status = ''unknown'', evs_message = ''Provider did not return supply-chain evidence'',
           evs_sbomRef = '''', evs_vulnerabilityReportRef = '''', evs_provenanceRef = '''',
           evs_signatureRef = '''', evs_generatedAt = None\<rparr>
      | Some r \<Rightarrow>
          \<lparr>evs_status = toLower (trimSpace (re_Status r)), evs_message = trimSpace (re_Message r),
           evs_sbomRef = trimSpace (re_SBOMRef r),
           evs_vulnerabilityReportRef = trimSpace (re_VulnerabilityReportRef r),
           evs_provenanceRef = trimSpace (re_ProvenanceRef r),
           evs_signatureRef = trimSpace (re_SignatureRef r), evs_generatedAt = Some now\<rparr>)"

text \<open>\<open>hex.DecodeString\<close> accepts an even number of hexadecimal digits.\<close>

definition hex_char :: "char \<Rightarrow> bool" where
  "hex_char c = (c \<in> set ''0123456789abcdefABCDEF'')"

definition hex_decodes :: "string \<Rightarrow> bool" where
  "hex_decodes s \<longleftrightarrow> even (length s) \<and> list_all hex_char s"

definition immutableOCIReference :: "string \<Rightarrow> bool" where
  "immutableOCIReference ref =
     (if \<not> hasPrefix ref ''oci://'' then False
      else (case splitOn ref ''@sha256:'' of
              [repository, digest] \<Rightarrow>
                if trimSpace repository = ''oci://'' \<or> length digest \<noteq> 64 then False
                else hex_decodes digest
            | _ \<Rightarrow> False))"

text \<open>The references of the evidence by field name, in the order of the map literal; the code
  ranges over the map, in the order \<open>order\<close>.\<close>

definition evidence_refs :: "EvidenceStatus \<Rightarrow> strmap" where
  "evidence_refs ev =
     [''sbomRef'' \<mapsto> evs_sbomRef ev, ''vulnerabilityReportRef'' \<mapsto> evs_vulnerabilityReportRef ev,
      ''provenanceRef'' \<mapsto> evs_provenanceRef ev, ''signatureRef'' \<mapsto> evs_signatureRef ev]"

definition evidence_fields :: "string list" where
  "evidence_fields = [''sbomRef'', ''vulnerabilityReportRef'', ''provenanceRef'', ''signatureRef'']"

definition in_repository :: "string \<Rightarrow> string \<Rightarrow> bool" where
  "in_repository registryRepository ref =
     (let refRepository = hd (splitN2 ref ''@sha256:'');
          policyRepository = trimSuffix registryRepository ''/''
      in refRepository = policyRepository \<or> hasPrefix refRepository (policyRepository @ ''/''))"

definition check_evidence_field :: "EvidenceSpec \<Rightarrow> EvidenceStatus \<Rightarrow> string \<Rightarrow> go_error option" where
  "check_evidence_field policy ev field =
     (let ref = get_str (evidence_refs ev) field in
      if \<not> immutableOCIReference ref then
        Some (errorf (''required evidence '' @ field @
          '' must be an immutable oci:// reference pinned by sha256 digest''))
      else if \<not> in_repository (ev_registryRepository policy) ref then
        Some (errorf (''required evidence '' @ field @ '' is outside registry repository '' @
          quoted (ev_registryRepository policy)))
      else None)"

definition validateRemoteEvidence ::
    "string list \<Rightarrow> EvidenceSpec option \<Rightarrow> EvidenceStatus \<Rightarrow> go_error option" where
  "validateRemoteEvidence order policy ev =
     (case policy of None \<Rightarrow> None
      | Some p \<Rightarrow>
          if \<not> ev_required p then None
          else if evs_status ev \<noteq> ''passed'' then
            Some (errorf (''required provider evidence status is '' @ quoted (evs_status ev) @ '', want passed''))
          else first_error (map (check_evidence_field p ev) order))"

section \<open>Retry delay\<close>

text \<open>The retry counter is a signed 32-bit integer.\<close>

definition remoteRetryDelay :: "32 word \<Rightarrow> int" where
  "remoteRetryDelay retryCount =
     (if sint retryCount \<le> 1 then requeueAfter
      else
        (let shift = min (sint retryCount - 1) 5; delay = requeueAfter * 2 ^ nat shift in
         if delay > remoteRetryMaxDelay then remoteRetryMaxDelay else delay))"

text \<open>The delay of \<open>retryRemoteBuild\<close>: the back-off or the provider's wish, capped by the maximum
  and by what is left of the build timeout, and at least a second.\<close>

definition retry_delay :: "32 word \<Rightarrow> go_error \<Rightarrow> int \<Rightarrow> int" where
  "retry_delay retryCount providerErr remaining =
     (let delay0 = remoteRetryDelay retryCount;
          requested = RetryAfter (Some providerErr);
          delay1 = (if requested > delay0 then requested else delay0);
          delay2 = (if delay1 > remoteRetryMaxDelay then remoteRetryMaxDelay else delay1);
          delay3 = (if delay2 > remaining then remaining else delay2)
      in if delay3 < second then second else delay3)"

section \<open>Steps\<close>

definition remoteBuildMessage :: "RemoteBuildResult \<Rightarrow> string" where
  "remoteBuildMessage result =
     (if rr_Message result \<noteq> '''' then rr_Message result
      else if rr_Phase result \<noteq> '''' then ''Remote build phase '' @ rr_Phase result
      else ''Remote build is in progress'')"

definition updateRemoteSteps :: "'w Env \<Rightarrow> RemoteBuildResult \<Rightarrow> ('w, unit) handler" where
  "updateRemoteSteps E result =
     (let reason = ''RemoteBuildProgress''; message = remoteBuildMessage result; phase = rr_Phase result in do {
        (if phase = ''Booting'' then do {
           setStep E ''Build'' ''Running'' reason message '''';
           setStep E ''Boot'' ''Running'' ''RemoteGuestBooting'' message ''''
         }
         else if phase = ''Readiness'' then do {
           setStep E ''Boot'' ''Succeeded'' ''RemoteGuestBooted'' ''Guest boot completed on provider'' '''';
           setStep E ''Readiness'' ''Running'' ''RemoteGuestReadiness'' message ''''
         }
         else if phase = ''Provisioning'' then do {
           set_status (\<lambda>st. st\<lparr>st_phase := PhaseProvisioning\<rparr>);
           setStep E ''Readiness'' ''Succeeded'' ''RemoteGuestReady'' ''Guest readiness completed on provider'' '''';
           setStep E ''Provisioning'' ''Running'' ''RemoteProvisioning'' message ''''
         }
         else if phase = ''Sanitizing'' then do {
           setStep E ''Provisioning'' ''Succeeded'' ''RemoteProvisioningSucceeded'' ''Provisioning completed on provider'' '''';
           setStep E ''Sanitization'' ''Running'' ''RemoteSanitizing'' message ''''
         }
         else if phase = ''Registering'' then do {
           setStep E ''Sanitization'' ''Succeeded'' ''RemoteSanitizationSucceeded'' ''Sanitization completed on provider'' '''';
           setStep E ''Upload'' ''Running'' ''RemoteRegistering'' message ''''
         }
         else if phase = ''Ready'' then setStep E ''Upload'' ''Succeeded'' ''RemoteImageRegistered'' message ''''
         else setStep E ''Build'' ''Running'' reason message '''');
        (case rr_Evidence result of
           None \<Rightarrow> ret ()
         | Some _ \<Rightarrow> do {
             now \<leftarrow> query (e_now E);
             let status = remoteEvidenceStatus now (rr_Evidence result) in do {
               set_status (\<lambda>st. st\<lparr>st_evidence := Some status\<rparr>);
               (if evs_status status = ''passed'' then
                  setStep E ''Evidence'' ''Succeeded'' ''RemoteEvidencePublished'' (evs_message status) (evs_provenanceRef status)
                else if evs_status status = ''failed'' then
                  setStep E ''Evidence'' ''Failed'' ''RemoteEvidenceFailed'' (evs_message status) ''''
                else setStep E ''Evidence'' ''Running'' ''RemoteEvidencePending'' (evs_message status) '''')
             }
           })
      })"

definition setRemoteFailureSteps :: "'w Env \<Rightarrow> string \<Rightarrow> string \<Rightarrow> ('w, unit) handler" where
  "setRemoteFailureSteps E reason message = do {
     setStep E ''Build'' ''Failed'' reason message '''';
     setStep E ''Boot'' ''Failed'' reason message '''';
     setStep E ''Readiness'' ''Failed'' reason message '''';
     setStep E ''Provisioning'' ''Failed'' reason message '''';
     setStep E ''Sanitization'' ''Failed'' reason message '''';
     setStep E ''Upload'' ''Failed'' reason message ''''
   }"

section \<open>Hygiene and image references\<close>

definition remoteHygieneStatus :: "RemoteHygieneResult option \<Rightarrow> HygieneResultStatus" where
  "remoteHygieneStatus result =
     (case result of
        None \<Rightarrow>
          \<lparr>hyg_status = ''unknown'',
           hyg_message = ''Provider did not return a final image hygiene attestation'',
           hyg_checks = [], hyg_resultRef = ''''\<rparr>
      | Some r \<Rightarrow>
          (let status = (if rh_Status r \<in> {''passed'', ''failed'', ''unknown''} then rh_Status r else ''unknown'');
               message =
                 (if rh_Message r = '''' then
                    (if status = ''passed'' then ''Provider attested final image hygiene checks passed''
                     else if status = ''failed'' then ''Provider reported final image hygiene checks failed''
                     else ''Provider did not return a conclusive final image hygiene attestation'')
                  else rh_Message r)
           in \<lparr>hyg_status = status, hyg_message = message, hyg_checks = rh_Checks r,
               hyg_resultRef = rh_ResultRef r\<rparr>))"

definition or_default :: "string \<Rightarrow> string \<Rightarrow> string" where
  "or_default s d = (if s = '''' then d else s)"

definition remote_image_status :: "TargetSpec \<Rightarrow> string \<Rightarrow> RemoteImageRef \<Rightarrow> ImageStatus option" where
  "remote_image_status target defaultProvider im =
     (let provider = or_default (ri_Provider im) defaultProvider;
          providerConfig = or_default (ri_ProviderConfig im) (tgt_providerConfigRef target);
          format = or_default (ri_Format im) (tgt_format target)
      in if provider = '''' \<or> providerConfig = '''' \<or> ri_ImageRef_ID im = '''' \<or> format = '''' then None
         else Some \<lparr>is_provider = provider, is_providerConfig = providerConfig,
                    is_imageRef = ri_ImageRef_ID im, is_location = ri_ImageRef_Location im,
                    is_format = format, is_checksum = ri_Checksum im\<rparr>)"

definition remoteImageStatuses :: "RemoteImageRef list \<Rightarrow> TargetSpec \<Rightarrow> string \<Rightarrow> ImageStatus list" where
  "remoteImageStatuses images target defaultProvider =
     List.map_filter (remote_image_status target defaultProvider) images"

section \<open>Lemmas\<close>

text \<open>An image reference is complete when its provider, configuration, reference and format are
  known: what the status promises of a ready image.\<close>

definition image_complete :: "ImageStatus \<Rightarrow> bool" where
  "image_complete i \<longleftrightarrow>
     is_provider i \<noteq> '''' \<and> is_providerConfig i \<noteq> '''' \<and> is_imageRef i \<noteq> '''' \<and> is_format i \<noteq> ''''"

lemma remoteImageStatuses_complete:
  "i \<in> set (remoteImageStatuses images target defaultProvider) \<Longrightarrow> image_complete i"
  by (auto simp: remoteImageStatuses_def List.map_filter_def remote_image_status_def
      image_complete_def Let_def split: if_splits)

lemma splitOn_nonempty: "splitOn s sep \<noteq> []"
  by (subst splitOn.simps) (auto split: option.split)

lemma immutableOCIReference_cases:
  assumes "immutableOCIReference ref"
  obtains repository digest where "ref = repository @ ''@sha256:'' @ digest"
    "hasPrefix ref ''oci://''" "length digest = 64" "list_all hex_char digest"
    "hd (splitN2 ref ''@sha256:'') = repository"
proof -
  from assms obtain a b where split: "splitOn ref ''@sha256:'' = [a, b]"
    and p: "hasPrefix ref ''oci://''" and d: "length b = 64" "list_all hex_char b"
    by (auto simp: immutableOCIReference_def hex_decodes_def split: if_splits list.splits)
  from split obtain b' where c: "cut ref ''@sha256:'' = Some (a, b')" and "splitOn b' ''@sha256:'' = [b]"
    by (auto simp: splitOn.simps [of ref] split: option.splits)
  moreover from this have "b' = b"
    by (auto simp: splitOn.simps [of b'] splitOn_nonempty split: option.splits)
  ultimately show thesis
    using cut_Some [OF c] p d by (intro that) (simp_all add: splitN2_def)
qed

definition evidence_pinned :: "EvidenceSpec \<Rightarrow> EvidenceStatus \<Rightarrow> bool" where
  "evidence_pinned policy ev \<longleftrightarrow>
     evs_status ev = ''passed''
     \<and> (\<forall>ref \<in> {evs_sbomRef ev, evs_vulnerabilityReportRef ev, evs_provenanceRef ev, evs_signatureRef ev}.
          \<exists>repository digest. ref = repository @ ''@sha256:'' @ digest
            \<and> hasPrefix ref ''oci://'' \<and> length digest = 64 \<and> list_all hex_char digest
            \<and> (repository = trimSuffix (ev_registryRepository policy) ''/''
               \<or> hasPrefix repository (trimSuffix (ev_registryRepository policy) ''/'' @ ''/'')))"

lemma check_evidence_field_None:
  assumes "check_evidence_field policy ev field = None" and "evidence_refs ev field = Some ref"
  shows "\<exists>repository digest. ref = repository @ ''@sha256:'' @ digest
            \<and> hasPrefix ref ''oci://'' \<and> length digest = 64 \<and> list_all hex_char digest
            \<and> (repository = trimSuffix (ev_registryRepository policy) ''/''
               \<or> hasPrefix repository (trimSuffix (ev_registryRepository policy) ''/'' @ ''/''))"
proof -
  from assms have i: "immutableOCIReference ref" and r: "in_repository (ev_registryRepository policy) ref"
    by (auto simp: check_evidence_field_def get_str_def Let_def split: if_splits)
  from i show ?thesis
    by (rule immutableOCIReference_cases) (use r in \<open>auto simp: in_repository_def Let_def\<close>)
qed

lemma validateRemoteEvidence_None:
  assumes "validateRemoteEvidence order (Some policy) ev = None" and "ev_required policy"
    and "set order = set evidence_fields"
  shows "evidence_pinned policy ev"
proof -
  have all: "check_evidence_field policy ev field = None" if "field \<in> set evidence_fields" for field
    using assms that by (auto simp: validateRemoteEvidence_def first_error_None_iff split: if_splits)
  have "evs_status ev = ''passed''"
    using assms by (auto simp: validateRemoteEvidence_def split: if_splits)
  moreover have "evidence_refs ev ''sbomRef'' = Some (evs_sbomRef ev)"
      "evidence_refs ev ''vulnerabilityReportRef'' = Some (evs_vulnerabilityReportRef ev)"
      "evidence_refs ev ''provenanceRef'' = Some (evs_provenanceRef ev)"
      "evidence_refs ev ''signatureRef'' = Some (evs_signatureRef ev)"
    by (simp_all add: evidence_refs_def)
  note refs = this [THEN check_evidence_field_None [rotated]]
  have "check_evidence_field policy ev ''sbomRef'' = None"
      "check_evidence_field policy ev ''vulnerabilityReportRef'' = None"
      "check_evidence_field policy ev ''provenanceRef'' = None"
      "check_evidence_field policy ev ''signatureRef'' = None"
    by (intro all, simp add: evidence_fields_def)+
  note pinned = refs(1) [OF this(1)] refs(2) [OF this(2)] refs(3) [OF this(3)] refs(4) [OF this(4)]
  ultimately show ?thesis
    unfolding evidence_pinned_def ball_simps(7) ball_simps(5) using pinned by blast
qed

lemma remoteRetryDelay_bounds: "requeueAfter \<le> remoteRetryDelay n \<and> remoteRetryDelay n \<le> remoteRetryMaxDelay"
proof -
  have "(1::int) \<le> 2 ^ k" for k :: nat by simp
  then have "requeueAfter \<le> requeueAfter * 2 ^ k" for k :: nat by (simp add: mult_le_cancel_left1)
  then show ?thesis by (simp add: remoteRetryDelay_def Let_def)
qed

lemma does_updateRemoteSteps:
  assumes "\<And>x. R x (upd_status (\<lambda>st. st\<lparr>st_phase := PhaseProvisioning\<rparr>) x)"
    and "\<And>x e. R x (upd_status (\<lambda>st. st\<lparr>st_evidence := e\<rparr>) x)"
    and "\<And>x y. same_core {} x y \<Longrightarrow> R x y" and "reflp R" and "transp R"
  shows "does A R (updateRemoteSteps E result)"
proof -
  have step: "does A R (setStep E n status reason msg ref)" for n status reason msg ref
    by (rule does_mono [OF does_setStep [where T = "{}"]]) (use assms(3) in auto)
  show ?thesis
    unfolding updateRemoteSteps_def Let_def by (intro does_intro step assms)
qed

lemma does_setRemoteFailureSteps [does_intro]: "does A (same_core T) (setRemoteFailureSteps E reason msg)"
  unfolding setRemoteFailureSteps_def by (intro does_intro)

section \<open>Properties\<close>

text \<open>C13: Required evidence is pinned: if the validation of the evidence a provider returned passes
  under a policy that requires it, in whatever order the fields are visited, then its status is
  \<open>passed\<close> and each of the four references is an \<open>oci://\<close> reference that ends in a sha256
  digest of 64 hexadecimal digits and lies in the repository the policy names.\<close>

theorem required_evidence_pinned:
  assumes "validateRemoteEvidence order (Some policy) ev = None" and "ev_required policy"
    and "set order = set evidence_fields"
  shows "evidence_pinned policy ev"
  using assms by (rule validateRemoteEvidence_None)

definition ex_policy :: EvidenceSpec where
  "ex_policy = \<lparr>ev_required = True, ev_sbomFormat = '''', ev_vulnerabilityScanner = '''',
     ev_failOnSeverity = [], ev_registryRepository = ''oci://r.io/ev/''\<rparr>"

definition ex_ref :: string where
  "ex_ref = ''oci://r.io/ev/x'' @ ''@sha256:'' @ replicate 64 CHR ''a''"

definition ex_evidence :: EvidenceStatus where
  "ex_evidence = \<lparr>evs_status = ''passed'', evs_message = '''', evs_sbomRef = ex_ref,
     evs_vulnerabilityReportRef = ex_ref, evs_provenanceRef = ex_ref, evs_signatureRef = ex_ref,
     evs_generatedAt = None\<rparr>"

theorem required_evidence_pinned_witness: "evidence_pinned ex_policy ex_evidence"
proof -
  have "validateRemoteEvidence (rev evidence_fields) (Some ex_policy) ex_evidence = None" by code_simp
  then show ?thesis
    by (rule required_evidence_pinned) (simp_all add: ex_policy_def)
qed

text \<open>C14: Retry delays are bounded: whatever the counter (32-bit, wrapping), the delay the provider
  asks for and the time left, the delay before a retry is at least a second and at most five
  minutes; when at least a second is left it does not exceed what is left of the build timeout,
  and when there is time enough it is no shorter than the back-off.\<close>

theorem retry_delay_bounds:
  "second \<le> retry_delay n err remaining \<and> retry_delay n err remaining \<le> remoteRetryMaxDelay
   \<and> (second \<le> remaining \<longrightarrow> retry_delay n err remaining \<le> remaining)
   \<and> (remoteRetryMaxDelay \<le> remaining \<longrightarrow> remoteRetryDelay n \<le> retry_delay n err remaining)"
  using remoteRetryDelay_bounds [of n] by (auto simp: retry_delay_def Let_def)

theorem retry_delay_bounds_witness:
  "retry_delay 3 (errorf ''busy'') (40 * second) = 40 * second \<and>
   retry_delay 0x7FFFFFFF (errorf ''busy'') (hour) = remoteRetryMaxDelay
   \<and> retry_delay 1 (errorf ''busy'') 0 \<le> 5 * minute"
  using retry_delay_bounds [of 1 "errorf ''busy''" 0]
  by (simp add: retry_delay_def remoteRetryDelay_def RetryAfter_def Let_def)

end
