(* ===== verification/Upload_Status.thy ===== *)
theory Upload_Status
  imports Remote_Status
begin

text \<open>
  The upload operations of the status and the results that build and upload Jobs leave in their
  containers' termination messages (\<open>initialUploadOperations\<close>, \<open>mergeUploadOperations\<close>,
  \<open>terminatedContainerMessage\<close> and their neighbours in \<open>pkg/controller/vmimage/reconciler.go\<close>).
\<close>

section \<open>Upload operations\<close>

definition uploadOperationKey :: "string \<Rightarrow> string \<Rightarrow> string" where
  "uploadOperationKey providerConfig format = providerConfig @ [CHR 0x00] @ format"

definition op_key :: "UploadOperationStatus \<Rightarrow> string" where
  "op_key op = uploadOperationKey (uo_providerConfig op) (uo_format op)"

definition initialUploadOperations ::
    "int \<Rightarrow> ProviderConfig list \<Rightarrow> TargetSpec list \<Rightarrow> UploadOperationStatus list" where
  "initialUploadOperations now configs targets =
     (let providers = foldl (\<lambda>m cfg. m(pc_name cfg \<mapsto> pc_provider cfg)) Map.empty configs in
      map (\<lambda>target.
        \<lparr>uo_provider = get_str providers (tgt_providerConfigRef target),
         uo_providerConfig = tgt_providerConfigRef target, uo_format = tgt_format target,
         uo_phase = ''Uploading'', uo_operationRef = '''', uo_imageRef = '''',
         uo_message = ''Upload Job created'', uo_lastTransitionTime = now, uo_uploadMilliseconds = 0,
         uo_uploadBytes = 0, uo_registerMilliseconds = 0, uo_resumeMode = '''', uo_committedBytes = 0,
         uo_retryCount = 0, uo_lastRetryTime = None, uo_lastRetryReason = ''''\<rparr>) targets)"

definition markUploadOperations ::
    "int \<Rightarrow> UploadOperationStatus list \<Rightarrow> string \<Rightarrow> string \<Rightarrow> UploadOperationStatus list" where
  "markUploadOperations now operations phase message =
     map (\<lambda>op. op\<lparr>uo_lastTransitionTime := (if uo_phase op \<noteq> phase then now else uo_lastTransitionTime op),
                  uo_phase := phase, uo_message := message\<rparr>) operations"

text \<open>Non-empty fields of the reported operation overwrite those of the recorded one.\<close>

definition over_str :: "string \<Rightarrow> string \<Rightarrow> string" where
  "over_str new old = (if new \<noteq> '''' then new else old)"

definition over_pos :: "int \<Rightarrow> int \<Rightarrow> int" where
  "over_pos new old = (if new > 0 then new else old)"

definition merge_op :: "UploadOperationStatus \<Rightarrow> UploadOperationStatus \<Rightarrow> UploadOperationStatus" where
  "merge_op op old =
     old\<lparr>uo_provider := over_str (uo_provider op) (uo_provider old),
         uo_phase := over_str (uo_phase op) (uo_phase old),
         uo_operationRef := over_str (uo_operationRef op) (uo_operationRef old),
         uo_imageRef := over_str (uo_imageRef op) (uo_imageRef old),
         uo_message := over_str (uo_message op) (uo_message old),
         uo_lastTransitionTime :=
           (if uo_lastTransitionTime op \<noteq> zero_time then uo_lastTransitionTime op else uo_lastTransitionTime old),
         uo_uploadMilliseconds := over_pos (uo_uploadMilliseconds op) (uo_uploadMilliseconds old),
         uo_uploadBytes := over_pos (uo_uploadBytes op) (uo_uploadBytes old),
         uo_registerMilliseconds := over_pos (uo_registerMilliseconds op) (uo_registerMilliseconds old),
         uo_resumeMode := over_str (uo_resumeMode op) (uo_resumeMode old),
         uo_committedBytes := over_pos (uo_committedBytes op) (uo_committedBytes old),
         uo_retryCount := over_pos (uo_retryCount op) (uo_retryCount old),
         uo_lastRetryTime := (if uo_lastRetryTime op \<noteq> None then uo_lastRetryTime op else uo_lastRetryTime old),
         uo_lastRetryReason := over_str (uo_lastRetryReason op) (uo_lastRetryReason old)\<rparr>"

text \<open>The merge keeps the operations in a list and their index by key in a map.\<close>

type_synonym op_index = "(string \<rightharpoonup> nat) \<times> UploadOperationStatus list"

definition index_existing :: "UploadOperationStatus list \<Rightarrow> op_index" where
  "index_existing existing =
     foldl (\<lambda>(byKey, out) op. (byKey(op_key op \<mapsto> length out), out @ [op])) (Map.empty, []) existing"

fun upsert_op :: "int \<Rightarrow> UploadOperationStatus \<Rightarrow> op_index \<Rightarrow> op_index" where
  "upsert_op now op (byKey, out) =
     (case byKey (op_key op) of
        Some idx \<Rightarrow> (byKey, out[idx := merge_op op (out ! idx)])
      | None \<Rightarrow>
          (byKey(op_key op \<mapsto> length out),
           out @ [if uo_lastTransitionTime op = zero_time then op\<lparr>uo_lastTransitionTime := now\<rparr> else op]))"

definition reported_op :: "string \<Rightarrow> string \<Rightarrow> UploadOperationStatus \<Rightarrow> UploadOperationStatus" where
  "reported_op phase message op =
     op\<lparr>uo_phase := (if uo_phase op = '''' then phase else uo_phase op),
        uo_message := (if uo_message op = '''' then message else uo_message op)\<rparr>"

definition image_op :: "int \<Rightarrow> string \<Rightarrow> string \<Rightarrow> ImageStatus \<Rightarrow> UploadOperationStatus" where
  "image_op now phase message img =
     \<lparr>uo_provider = is_provider img, uo_providerConfig = is_providerConfig img, uo_format = is_format img,
      uo_phase = phase, uo_operationRef = '''', uo_imageRef = is_imageRef img, uo_message = message,
      uo_lastTransitionTime = now, uo_uploadMilliseconds = 0, uo_uploadBytes = 0,
      uo_registerMilliseconds = 0, uo_resumeMode = '''', uo_committedBytes = 0, uo_retryCount = 0,
      uo_lastRetryTime = None, uo_lastRetryReason = ''''\<rparr>"

definition mergeUploadOperations ::
    "int \<Rightarrow> UploadOperationStatus list \<Rightarrow> UploadOperationStatus list \<Rightarrow> ImageStatus list \<Rightarrow>
     string \<Rightarrow> string \<Rightarrow> UploadOperationStatus list" where
  "mergeUploadOperations now existing reported images phase message =
     snd (fold (upsert_op now)
       (map (reported_op phase message) reported @ map (image_op now phase message) images)
       (index_existing existing))"

definition maxUploadRetryCount :: "UploadOperationStatus list \<Rightarrow> int" where
  "maxUploadRetryCount operations =
     fold (\<lambda>op maxCount. if uo_retryCount op > maxCount then uo_retryCount op else maxCount) operations 0"

section \<open>Results of Jobs\<close>

text \<open>The message of the newest terminated container with the name; \<open>sort.SliceStable\<close> by
  creation time, newest first.\<close>

fun container_message :: "string \<Rightarrow> ContainerStatus list \<Rightarrow> (go_error + string) option" where
  "container_message containerName [] = None"
| "container_message containerName (status # statuses) =
     (if cs_name status \<noteq> containerName then container_message containerName statuses
      else case cs_terminatedMessage status of
        None \<Rightarrow> container_message containerName statuses
      | Some message \<Rightarrow>
          Some (if message = '''' then
                  Inl (errorf (containerName @ '' container termination message is empty''))
                else Inr message))"

fun pods_message :: "string \<Rightarrow> Pod list \<Rightarrow> go_error + string" where
  "pods_message containerName [] = Inl (errorf (containerName @ '' pod result not found''))"
| "pods_message containerName (pod # pods) =
     (case container_message containerName (pod_containerStatuses pod) of
        Some result \<Rightarrow> result
      | None \<Rightarrow> pods_message containerName pods)"

definition terminatedContainerMessage ::
    "'w Env \<Rightarrow> string \<Rightarrow> Job \<Rightarrow> string \<Rightarrow> ('w, go_error + string) handler" where
  "terminatedContainerMessage E namespace job containerName = do {
     listed \<leftarrow> query (e_listPods E namespace [''batch.kubernetes.io/job-name'' \<mapsto> job_name job]);
     case listed of
       Inl err \<Rightarrow> ret (Inl (wrapf ''list build pods: '' err))
     | Inr pods0 \<Rightarrow> do {
         legacy \<leftarrow> (if pods0 = [] then query (e_listPods E namespace [''job-name'' \<mapsto> job_name job])
                   else ret (Inr pods0));
         case legacy of
           Inl err \<Rightarrow> ret (Inl (wrapf ''list legacy build pods: '' err))
         | Inr pods \<Rightarrow>
             ret (pods_message containerName (sort_key (\<lambda>p. - pod_creationTimestamp p) pods))
       }
   }"

definition uploadFailureFromJob :: "'w Env \<Rightarrow> string \<Rightarrow> Job \<Rightarrow> ('w, go_error + string) handler" where
  "uploadFailureFromJob E namespace job = do {
     r \<leftarrow> terminatedContainerMessage E namespace job ''upload'';
     case r of
       Inl err \<Rightarrow> ret (Inl err)
     | Inr message \<Rightarrow>
         (case e_decodeUploadError E message of
            Inr payload_error \<Rightarrow> ret (Inr (if payload_error \<noteq> '''' then payload_error else message))
          | Inl _ \<Rightarrow> ret (Inr message))
   }"

definition uploadRetryOperationsFromJob ::
    "'w Env \<Rightarrow> string \<Rightarrow> Job \<Rightarrow> ('w, go_error + UploadOperationStatus list) handler" where
  "uploadRetryOperationsFromJob E namespace job = do {
     r \<leftarrow> terminatedContainerMessage E namespace job ''upload'';
     case r of
       Inl err \<Rightarrow> ret (Inl err)
     | Inr message \<Rightarrow>
         (case e_decodeUploadRetry E message of
            Inl err \<Rightarrow> ret (Inl err)
          | Inr (payload_error, operations) \<Rightarrow>
              ret (Inr (map (\<lambda>op. op\<lparr>uo_lastRetryReason :=
                 (if uo_lastRetryReason op = '''' then payload_error else uo_lastRetryReason op)\<rparr>)
                 operations)))
   }"

fun observe_operations :: "UploadOperationStatus list \<Rightarrow> ('w, unit) handler" where
  "observe_operations [] = ret ()"
| "observe_operations (op # ops) = do {
     (if uo_uploadMilliseconds op > 0 then
        emit (MetricObserve ''UploadDurationSeconds'' [uo_provider op, uo_format op, ''true'']
          (uo_uploadMilliseconds op, 1000)) else ret ());
     (if uo_uploadBytes op > 0 then do {
        emit (MetricAdd ''UploadBytesTotal'' [uo_provider op, uo_format op] (uo_uploadBytes op));
        (if uo_uploadMilliseconds op > 0 then
           emit (MetricObserve ''UploadThroughputBytesPerSecond'' [uo_provider op, uo_format op]
             (uo_uploadBytes op * 1000, uo_uploadMilliseconds op)) else ret ())
      } else ret ());
     (if uo_registerMilliseconds op > 0 then
        emit (MetricObserve ''RegisterDurationSeconds'' [uo_provider op, uo_format op, ''true'']
          (uo_registerMilliseconds op, 1000)) else ret ());
     observe_operations ops
   }"

definition imageStatusesFromUploadJob ::
    "'w Env \<Rightarrow> string \<Rightarrow> Job \<Rightarrow> ('w, go_error + ImageStatus list \<times> UploadOperationStatus list) handler" where
  "imageStatusesFromUploadJob E namespace job = do {
     r \<leftarrow> terminatedContainerMessage E namespace job ''upload'';
     case r of
       Inl err \<Rightarrow> ret (Inl err)
     | Inr message \<Rightarrow> do {
         decoded \<leftarrow>
           (case e_decodeUpload E message of
              Inr (images, operations) \<Rightarrow>
                if images \<noteq> [] then do {
                  observe_operations operations;
                  ret (Inr (images, operations))
                }
                else ret (map_error (wrapf ''parse upload result: '')
                       (result_bind (e_decodeImages E message) (\<lambda>images. Inr (images, []))))
            | Inl _ \<Rightarrow> ret (map_error (wrapf ''parse upload result: '')
                       (result_bind (e_decodeImages E message) (\<lambda>images. Inr (images, [])))));
         case decoded of
           Inl err \<Rightarrow> ret (Inl err)
         | Inr (images, operations) \<Rightarrow>
             if images = [] then ret (Inl (errorf ''upload result contains no images''))
             else if list_ex (\<lambda>i. \<not> image_complete i) images then
               ret (Inl (errorf ''upload result is incomplete''))
             else ret (Inr (images, operations))
       }
   }"

definition artifact_complete :: "ArtifactStatus \<Rightarrow> bool" where
  "artifact_complete a \<longleftrightarrow>
     \<not> (art_path a = '''' \<or> art_format a = '''' \<or> art_checksum a = '''' \<or> art_sizeBytes a \<le> 0 \<or> art_os a = '''')"

fun observe_provisioners :: "ProvisionerTiming list \<Rightarrow> ('w, unit) handler" where
  "observe_provisioners [] = ret ()"
| "observe_provisioners (step # steps) = do {
     (if pt_duration step > 0 then
        emit (MetricObserve ''ProvisionerDurationSeconds''
          [pt_type step, if pt_success step then ''true'' else ''false''] (pt_duration step, 1))
      else ret ());
     observe_provisioners steps
   }"

definition buildArtifactFromJob ::
    "'w Env \<Rightarrow> string \<Rightarrow> Job \<Rightarrow> ('w, go_error + ArtifactStatus) handler" where
  "buildArtifactFromJob E namespace job = do {
     r \<leftarrow> terminatedContainerMessage E namespace job ''build'';
     case r of
       Inl err \<Rightarrow> ret (Inl err)
     | Inr message \<Rightarrow>
         (case e_decodeBuild E message of
            Inl err \<Rightarrow> ret (Inl (wrapf ''parse build result: '' err))
          | Inr payload \<Rightarrow>
              if \<not> artifact_complete (bp_artifact payload) then
                ret (Inl (errorf ''build result is incomplete''))
              else do {
                observe_provisioners (bp_provisioners payload);
                ret (Inr (bp_artifact payload))
              })
   }"

definition buildFailureFromJob ::
    "'w Env \<Rightarrow> string \<Rightarrow> Job \<Rightarrow> ('w, go_error + string \<times> string) handler" where
  "buildFailureFromJob E namespace job = do {
     r \<leftarrow> terminatedContainerMessage E namespace job ''build'';
     case r of
       Inl err \<Rightarrow> ret (Inl err)
     | Inr message \<Rightarrow>
         (case e_decodeFailure E message of
            Inr (reason, err) \<Rightarrow>
              if reason \<noteq> '''' \<or> err \<noteq> '''' then
                ret (Inr (if reason = '''' then ''BuildFailed'' else reason, err))
              else ret (Inr (''BuildFailed'', message))
          | Inl _ \<Rightarrow> ret (Inr (''BuildFailed'', message)))
   }"

section \<open>The index of the merge\<close>

text \<open>The map of the merge always holds, for every key of the list, an index with that key; so the
  merge is a function of the list alone, and an upsert by key.\<close>

definition op_index_ok :: "op_index \<Rightarrow> bool" where
  "op_index_ok x \<longleftrightarrow>
     (\<forall>k i. fst x k = Some i \<longrightarrow> i < length (snd x) \<and> op_key (snd x ! i) = k)
     \<and> op_key ` set (snd x) \<subseteq> dom (fst x)"

lemma op_key_merge_op [simp]: "op_key (merge_op op old) = op_key old"
  by (simp add: op_key_def merge_op_def)

lemma op_key_stamped [simp]:
  "op_key (op\<lparr>uo_lastTransitionTime := t\<rparr>) = op_key op"
  by (simp add: op_key_def)

lemma op_index_ok_append:
  assumes "op_index_ok (m, out)" and "op_key new = k"
  shows "op_index_ok (m(k \<mapsto> length out), out @ [new])"
proof -
  have "i < length out \<and> op_key (out ! i) = k'" if "m k' = Some i" for k' i
    using assms(1) that by (auto simp: op_index_ok_def)
  then have "i < length (out @ [new]) \<and> op_key ((out @ [new]) ! i) = k'"
    if "(m(k \<mapsto> length out)) k' = Some i" for k' i
    using that assms(2) by (cases "k' = k") (auto simp: nth_append less_SucI)
  moreover have "op_key ` set (out @ [new]) \<subseteq> dom (m(k \<mapsto> length out))"
    using assms by (auto simp: op_index_ok_def)
  ultimately show ?thesis by (simp add: op_index_ok_def)
qed

lemma op_index_ok_existing: "op_index_ok (index_existing existing) \<and> snd (index_existing existing) = existing"
proof (induction existing rule: rev_induct)
  case Nil
  then show ?case by (simp add: index_existing_def op_index_ok_def)
next
  case (snoc op existing)
  obtain m out where x: "index_existing existing = (m, out)" by fastforce
  then have "index_existing (existing @ [op]) = (m(op_key op \<mapsto> length out), out @ [op])"
    by (simp add: index_existing_def)
  with snoc x show ?case by (auto intro!: op_index_ok_append)
qed

lemma upsert_op_ok: "op_index_ok x \<Longrightarrow> op_index_ok (upsert_op now op x)"
proof (cases x)
  case (Pair m out)
  assume ok: "op_index_ok x"
  show ?thesis
  proof (cases "m (op_key op)")
    case None
    with ok Pair show ?thesis by (auto intro!: op_index_ok_append)
  next
    case (Some i)
    with ok Pair have i: "i < length out" "op_key (out ! i) = op_key op" by (auto simp: op_index_ok_def)
    have "op_key y \<in> dom m" if "y \<in> set (out[i := merge_op op (out ! i)])" for y
    proof -
      have "y = merge_op op (out ! i) \<or> y \<in> set out" using that set_update_subset_insert [of out i] by blast
      then show ?thesis using ok Pair i Some by (auto simp: op_index_ok_def)
    qed
    then have "op_key ` set (out[i := merge_op op (out ! i)]) \<subseteq> dom m" by blast
    moreover have "op_key (out[i := merge_op op (out ! i)] ! j) = op_key (out ! j)" if "j < length out" for j
      using that by (cases "i = j") auto
    ultimately show ?thesis using ok Pair Some by (auto simp: op_index_ok_def)
  qed
qed

lemma upsert_op_keys:
  assumes "op_index_ok x"
  shows "map op_key (snd (upsert_op now op x)) =
      (if op_key op \<in> op_key ` set (snd x) then map op_key (snd x) else map op_key (snd x) @ [op_key op])"
    and "filter (\<lambda>y. op_key y \<noteq> op_key op) (snd (upsert_op now op x)) =
      filter (\<lambda>y. op_key y \<noteq> op_key op) (snd x)"
proof -
  obtain m out where x: "x = (m, out)" by fastforce
  have "map op_key (snd (upsert_op now op x)) =
      (if op_key op \<in> op_key ` set (snd x) then map op_key (snd x) else map op_key (snd x) @ [op_key op])
    \<and> filter (\<lambda>y. op_key y \<noteq> op_key op) (snd (upsert_op now op x)) =
      filter (\<lambda>y. op_key y \<noteq> op_key op) (snd x)"
  proof (cases "m (op_key op)")
    case None
    with assms x have "op_key op \<notin> op_key ` set out" by (auto simp: op_index_ok_def)
    with None x show ?thesis by simp
  next
    case (Some i)
    with assms x have i: "i < length out" "op_key (out ! i) = op_key op" by (auto simp: op_index_ok_def)
    then have "op_key op \<in> op_key ` set out" by (metis image_eqI nth_mem)
    moreover have "map op_key (out[i := merge_op op (out ! i)]) = map op_key out"
      by (simp add: map_update) (metis i(1) list_update_id nth_map)
    moreover have "filter (\<lambda>y. op_key y \<noteq> op_key op) (out[i := merge_op op (out ! i)]) =
        filter (\<lambda>y. op_key y \<noteq> op_key op) out"
      by (subst (2) id_take_nth_drop [OF i(1)], subst upd_conv_take_nth_drop [OF i(1)]) (simp add: i)
    ultimately show ?thesis using x Some by simp
  qed
  then show "map op_key (snd (upsert_op now op x)) =
      (if op_key op \<in> op_key ` set (snd x) then map op_key (snd x) else map op_key (snd x) @ [op_key op])"
    and "filter (\<lambda>y. op_key y \<noteq> op_key op) (snd (upsert_op now op x)) =
      filter (\<lambda>y. op_key y \<noteq> op_key op) (snd x)" by simp_all
qed

text \<open>The merge of one operation into a list.\<close>

definition merge_one :: "int \<Rightarrow> UploadOperationStatus \<Rightarrow> UploadOperationStatus list \<Rightarrow> UploadOperationStatus list" where
  "merge_one now op out = snd (upsert_op now op (index_existing out))"

interpretation operations: keyed_upsert op_key "merge_one now op" "op_key op" for now op
proof
  fix xs
  note ok = op_index_ok_existing [of xs]
  show "map op_key (merge_one now op xs) =
      (if op_key op \<in> op_key ` set xs then map op_key xs else map op_key xs @ [op_key op])"
    using upsert_op_keys(1) [where x = "index_existing xs" and now = now and op = op] ok by (simp add: merge_one_def)
  show "filter (\<lambda>x. op_key x \<noteq> op_key op) (merge_one now op xs) = filter (\<lambda>x. op_key x \<noteq> op_key op) xs"
    using upsert_op_keys(2) [where x = "index_existing xs" and now = now and op = op] ok by (simp add: merge_one_def)
qed

lemma distinct_key_nth:
  assumes "distinct (map op_key out)" and "i < length out" and "j < length out"
    and "op_key (out ! i) = op_key (out ! j)"
  shows "i = j"
  using assms nth_eq_iff_index_eq [OF assms(1), of i j] by simp

text \<open>With distinct keys the index is determined by the list.\<close>

lemma op_index_unique:
  assumes "op_index_ok (m, out)" and "op_index_ok (m', out)" and "distinct (map op_key out)"
  shows "m = m'"
proof
  fix k
  have *: "n k = Some i \<Longrightarrow> n' k = Some i"
    if "op_index_ok (n, out)" "op_index_ok (n', out)" for n n' :: "string \<rightharpoonup> nat" and i
  proof -
    assume n: "n k = Some i"
    with that(1) have i: "i < length out" "op_key (out ! i) = k" by (auto simp: op_index_ok_def)
    then have "k \<in> op_key ` set out" by (metis image_eqI nth_mem)
    with that(2) obtain j where j: "n' k = Some j" by (auto simp: op_index_ok_def)
    with that(2) have "j < length out" "op_key (out ! j) = k" by (auto simp: op_index_ok_def)
    with i assms(3) have "j = i" using distinct_key_nth [of out j i] by simp
    with j show ?thesis by simp
  qed
  show "m k = m' k"
    using * [OF assms(1,2)] * [OF assms(2,1)] by (cases "m k"; cases "m' k") auto
qed

lemma fold_upsert_merge_one:
  assumes "op_index_ok x" and "distinct (map op_key (snd x))"
  shows "snd (fold (upsert_op now) ops x) = fold (merge_one now) ops (snd x)"
  using assms
proof (induction ops arbitrary: x)
  case Nil
  then show ?case by simp
next
  case (Cons op ops)
  have x: "x = index_existing (snd x)"
    using Cons.prems op_index_unique [of "fst x" "snd x" "fst (index_existing (snd x))"]
      op_index_ok_existing [of "snd x"]
    by (metis prod.collapse)
  then have one: "snd (upsert_op now op x) = merge_one now op (snd x)" by (simp add: merge_one_def)
  then have "distinct (map op_key (snd (upsert_op now op x)))"
    using Cons.prems(2) operations.distinct_keys by simp
  with Cons.IH [OF upsert_op_ok [OF Cons.prems(1)]] one show ?case by simp
qed

lemma mergeUploadOperations_fold:
  assumes "distinct (map op_key existing)"
  shows "mergeUploadOperations now existing reported images phase message =
    fold (merge_one now) (map (reported_op phase message) reported @ map (image_op now phase message) images) existing"
  unfolding mergeUploadOperations_def
  using op_index_ok_existing [of existing] assms by (subst fold_upsert_merge_one) (simp_all del: fold_append)

section \<open>What a merge keeps and what it records\<close>

lemma fold_merge_keys:
  "op_key ` set (fold (merge_one now) ops xs) = op_key ` set xs \<union> op_key ` set ops"
  "distinct (map op_key xs) \<Longrightarrow> distinct (map op_key (fold (merge_one now) ops xs))"
  by (induction ops arbitrary: xs) (auto simp: operations.keys_set operations.distinct_keys)

lemma fold_merge_other:
  "k \<notin> op_key ` set ops \<Longrightarrow>
   find (\<lambda>x. op_key x = k) (fold (merge_one now) ops xs) = find (\<lambda>x. op_key x = k) xs"
  by (induction ops arbitrary: xs) (auto simp: operations.find_other)

text \<open>The merge of one operation into the entry of its key, if there is one, and of a list of operations, of which
  only those with the key count.\<close>

definition merge_entry :: "int \<Rightarrow> UploadOperationStatus \<Rightarrow> UploadOperationStatus option \<Rightarrow> UploadOperationStatus option" where
  "merge_entry now op entry =
     Some (case entry of Some old \<Rightarrow> merge_op op old
       | None \<Rightarrow> if uo_lastTransitionTime op = zero_time then op\<lparr>uo_lastTransitionTime := now\<rparr> else op)"

definition merged_entry ::
    "int \<Rightarrow> UploadOperationStatus list \<Rightarrow> string \<Rightarrow> UploadOperationStatus option \<Rightarrow> UploadOperationStatus option" where
  "merged_entry now ops k entry = fold (merge_entry now) (filter (\<lambda>op. op_key op = k) ops) entry"

lemma find_merge_one:
  assumes "distinct (map op_key xs)"
  shows "find (\<lambda>x. op_key x = op_key op) (merge_one now op xs) =
    merge_entry now op (find (\<lambda>x. op_key x = op_key op) xs)"
proof -
  obtain m out where x: "index_existing xs = (m, out)" by fastforce
  with op_index_ok_existing [of xs] have ok: "op_index_ok (m, xs)" and out: "out = xs" by auto
  show ?thesis
  proof (cases "m (op_key op)")
    case None
    with ok have "find (\<lambda>x. op_key x = op_key op) xs = None"
      by (auto simp: op_index_ok_def find_None_iff)
    moreover from this have "find (\<lambda>x. op_key x = op_key op) (xs @ [y]) = (if op_key y = op_key op then Some y else None)" for y
      by (induction xs) (auto split: if_splits)
    ultimately show ?thesis using None x out by (simp add: merge_one_def merge_entry_def)
  next
    case (Some i)
    with ok have i: "i < length xs" "op_key (xs ! i) = op_key op" by (auto simp: op_index_ok_def)
    have only: "find (\<lambda>x. op_key x = op_key op) ys = Some (ys ! i)"
      if "map op_key ys = map op_key xs" for ys
    proof -
      have len: "length ys = length xs" using that by (metis length_map)
      have "op_key (ys ! j) = op_key (xs ! j)" if "j < length xs" for j
        using that len \<open>map op_key ys = map op_key xs\<close> by (metis nth_map)
      with i len distinct_key_nth [OF assms] have "op_key (ys ! i) = op_key op"
        "\<forall>j < i. op_key (ys ! j) \<noteq> op_key op" by (auto, metis less_trans nat_neq_iff)
      with i len show ?thesis by (auto simp: find_Some_iff)
    qed
    have "map op_key (xs[i := merge_op op (xs ! i)]) = map op_key xs"
      by (simp add: map_update) (metis i(1) list_update_id nth_map)
    from only [OF this] only [OF refl] Some x out i show ?thesis by (simp add: merge_one_def merge_entry_def)
  qed
qed

lemma find_fold_merge_one:
  "distinct (map op_key xs) \<Longrightarrow>
   find (\<lambda>x. op_key x = k) (fold (merge_one now) ops xs) = merged_entry now ops k (find (\<lambda>x. op_key x = k) xs)"
proof (induction ops arbitrary: xs)
  case Nil
  then show ?case by (simp add: merged_entry_def)
next
  case (Cons op ops)
  have "distinct (map op_key (merge_one now op xs))" using fold_merge_keys(2) [OF Cons.prems, of now "[op]"] by simp
  from Cons.IH [OF this] show ?case
    by (cases "op_key op = k") (auto simp: merged_entry_def find_merge_one [OF Cons.prems] operations.find_other)
qed

text \<open>After images were merged, an entry has the phase and the reference of the last image of its key.\<close>

lemma merged_images_entry:
  assumes "phase \<noteq> ''''" and "\<And>i. i \<in> set images \<Longrightarrow> is_imageRef i \<noteq> ''''"
    and "\<exists>i \<in> set images. op_key (image_op now phase message i) = k"
  shows "\<exists>x j. merged_entry now (map (image_op now phase message) images) k entry = Some x
    \<and> find (\<lambda>i. op_key (image_op now phase message i) = k) (rev images) = Some j
    \<and> uo_phase x = phase \<and> uo_imageRef x = is_imageRef j"
  using assms(2,3)
proof (induction images rule: rev_induct)
  case Nil
  then show ?case by simp
next
  case (snoc i images)
  show ?case
  proof (cases "op_key (image_op now phase message i) = k")
    case True
    then show ?thesis
      using assms(1) snoc.prems(1) [of i]
      by (auto simp: merged_entry_def merge_entry_def image_op_def merge_op_def over_str_def split: option.split)
  next
    case False
    with snoc show ?thesis by (auto simp: merged_entry_def)
  qed
qed

section \<open>Frames of the readers\<close>

fun observe_call :: "call \<Rightarrow> bool" where
  "observe_call (MetricObserve n ls v) = True"
| "observe_call (MetricAdd n ls v) = True"
| "observe_call _ = False"

lemma only_terminatedContainerMessage [does_intro]:
  "reflp R \<Longrightarrow> transp R \<Longrightarrow> does A R (terminatedContainerMessage E ns job c)"
  unfolding terminatedContainerMessage_def by (intro does_intro)

lemma only_uploadFailureFromJob [does_intro]:
  "reflp R \<Longrightarrow> transp R \<Longrightarrow> does A R (uploadFailureFromJob E ns job)"
  unfolding uploadFailureFromJob_def by (intro does_intro)

lemma only_uploadRetryOperationsFromJob [does_intro]:
  "reflp R \<Longrightarrow> transp R \<Longrightarrow> does A R (uploadRetryOperationsFromJob E ns job)"
  unfolding uploadRetryOperationsFromJob_def by (intro does_intro)

lemma only_buildFailureFromJob [does_intro]:
  "reflp R \<Longrightarrow> transp R \<Longrightarrow> does A R (buildFailureFromJob E ns job)"
  unfolding buildFailureFromJob_def by (intro does_intro)

lemma only_observe_operations [does_intro]:
  "reflp R \<Longrightarrow> transp R \<Longrightarrow> (\<And>c. observe_call c \<Longrightarrow> A c) \<Longrightarrow> does A R (observe_operations ops)"
  by (induction ops) (auto intro!: does_intro)

lemma only_observe_provisioners [does_intro]:
  "reflp R \<Longrightarrow> transp R \<Longrightarrow> (\<And>c. observe_call c \<Longrightarrow> A c) \<Longrightarrow> does A R (observe_provisioners ps)"
  by (induction ps) (auto intro!: does_intro)

lemma only_imageStatusesFromUploadJob [does_intro]:
  "reflp R \<Longrightarrow> transp R \<Longrightarrow> (\<And>c. observe_call c \<Longrightarrow> A c) \<Longrightarrow> does A R (imageStatusesFromUploadJob E ns job)"
  unfolding imageStatusesFromUploadJob_def by (intro does_intro)

lemma only_buildArtifactFromJob [does_intro]:
  "reflp R \<Longrightarrow> transp R \<Longrightarrow> (\<And>c. observe_call c \<Longrightarrow> A c) \<Longrightarrow> does A R (buildArtifactFromJob E ns job)"
  unfolding buildArtifactFromJob_def by (intro does_intro)

text \<open>What they return: complete images, at least one; a complete artifact.\<close>

lemma imageStatusesFromUploadJob_complete:
  "yields (\<lambda>r. \<forall>images ops. r = Inr (images, ops) \<longrightarrow> images \<noteq> [] \<and> list_all image_complete images)
     (imageStatusesFromUploadJob E ns job)"
  unfolding imageStatusesFromUploadJob_def
  by (intro yields_intro) (auto simp: list_all_iff list_ex_iff)

lemma buildArtifactFromJob_complete:
  "yields (\<lambda>r. \<forall>a. r = Inr a \<longrightarrow> artifact_complete a) (buildArtifactFromJob E ns job)"
  unfolding buildArtifactFromJob_def by (intro yields_intro) auto

section \<open>Properties\<close>

text \<open>C12: Merging upload operations: when the recorded operations have distinct keys (provider
  configuration and format), so have the merged ones, and the keys are those recorded, reported or of an
  image. Under every key stands exactly the recorded entry with the reported operations and the images
  of this key merged into it, in their order, and nothing of another key; so each image that the upload
  Job registered has an entry in the final phase with the reference of the last image of its own key.\<close>

theorem merge_upload_operations:
  assumes "distinct (map op_key existing)" and "phase \<noteq> ''''"
    and "\<forall>i \<in> set images. is_imageRef i \<noteq> ''''"
  shows "let merged = mergeUploadOperations now existing reported images phase message;
             image_key = (\<lambda>i. uploadOperationKey (is_providerConfig i) (is_format i)) in
    distinct (map op_key merged)
    \<and> op_key ` set merged = op_key ` set existing \<union> op_key ` set reported \<union> image_key ` set images
    \<and> (\<forall>k. find (\<lambda>x. op_key x = k) merged =
         merged_entry now (map (reported_op phase message) reported @ map (image_op now phase message) images) k
           (find (\<lambda>x. op_key x = k) existing))
    \<and> (\<forall>i \<in> set images. \<exists>x j. find (\<lambda>x. op_key x = image_key i) merged = Some x
         \<and> find (\<lambda>j. image_key j = image_key i) (rev images) = Some j
         \<and> uo_phase x = phase \<and> uo_imageRef x = is_imageRef j)"
proof -
  let ?r = "map (reported_op phase message) reported" and ?i = "map (image_op now phase message) images"
  let ?key = "\<lambda>i. uploadOperationKey (is_providerConfig i) (is_format i)"
  have merged: "mergeUploadOperations now existing reported images phase message = fold (merge_one now) (?r @ ?i) existing"
    using assms(1) by (rule mergeUploadOperations_fold)
  have rk: "op_key ` set ?r = op_key ` set reported"
    by (simp add: image_image reported_op_def op_key_def)
  have ik: "op_key (image_op now phase message i) = ?key i" for i
    by (simp add: image_op_def op_key_def)
  have entry: "find (\<lambda>x. op_key x = k) (fold (merge_one now) (?r @ ?i) existing) =
      merged_entry now (?r @ ?i) k (find (\<lambda>x. op_key x = k) existing)" for k
    using assms(1) by (rule find_fold_merge_one)
  have split: "merged_entry now (?r @ ?i) k e = merged_entry now ?i k (merged_entry now ?r k e)" for k e
    by (simp add: merged_entry_def)
  have keys: "op_key ` set (fold (merge_one now) (?r @ ?i) existing) =
      op_key ` set existing \<union> op_key ` set reported \<union> ?key ` set images"
    unfolding fold_merge_keys set_append image_Un rk by (simp add: image_image ik Un_assoc)
  have recorded: "\<exists>x j. merged_entry now (?r @ ?i) (?key i) e = Some x \<and> find (\<lambda>j. ?key j = ?key i) (rev images) = Some j
      \<and> uo_phase x = phase \<and> uo_imageRef x = is_imageRef j" if "i \<in> set images" for i e
    unfolding split using merged_images_entry [OF assms(2), of images now message "?key i"] assms(3) that ik by fastforce
  show ?thesis
    unfolding Let_def merged entry using fold_merge_keys(2) [OF assms(1)] keys recorded by blast
qed

definition ex_image :: ImageStatus where
  "ex_image = \<lparr>is_provider = ''aws'', is_providerConfig = ''cfg'', is_imageRef = ''ami-1'',
     is_location = ''eu'', is_format = ''ami'', is_checksum = ''''\<rparr>"

definition ex_operations :: "UploadOperationStatus list" where
  "ex_operations = initialUploadOperations 7 [sample_config]
     [\<lparr>tgt_providerConfigRef = ''cfg'', tgt_format = ''ami'', tgt_tags = Map.empty\<rparr>,
      \<lparr>tgt_providerConfigRef = ''cfg'', tgt_format = ''raw'', tgt_tags = Map.empty\<rparr>]"

text \<open>Two images of two configurations: each entry gets the reference of its own image.\<close>

theorem merge_upload_operations_witness:
  "\<exists>x y. find (\<lambda>x. op_key x = uploadOperationKey ''cfg'' ''ami'')
     (mergeUploadOperations 9 ex_operations [] [ex_image, ex_image\<lparr>is_format := ''raw'', is_imageRef := ''raw-1''\<rparr>]
       ''Succeeded'' ''Image registered'') = Some x
     \<and> find (\<lambda>x. op_key x = uploadOperationKey ''cfg'' ''raw'')
     (mergeUploadOperations 9 ex_operations [] [ex_image, ex_image\<lparr>is_format := ''raw'', is_imageRef := ''raw-1''\<rparr>]
       ''Succeeded'' ''Image registered'') = Some y
     \<and> uo_phase x = ''Succeeded'' \<and> uo_imageRef x = ''ami-1'' \<and> uo_imageRef y = ''raw-1''"
proof -
  let ?raw = "ex_image\<lparr>is_format := ''raw'', is_imageRef := ''raw-1''\<rparr>"
  let ?key = "\<lambda>i. uploadOperationKey (is_providerConfig i) (is_format i)"
  let ?merged = "mergeUploadOperations 9 ex_operations [] [ex_image, ?raw] ''Succeeded'' ''Image registered''"
  have distinct: "distinct (map op_key ex_operations)" by code_simp
  have named: "\<forall>i \<in> set [ex_image, ?raw]. is_imageRef i \<noteq> []" by (simp add: ex_image_def)
  have phase: "''Succeeded'' \<noteq> []" by simp
  have merged: "\<forall>i \<in> set [ex_image, ?raw]. \<exists>x j. find (\<lambda>x. op_key x = ?key i) ?merged = Some x
      \<and> find (\<lambda>j. ?key j = ?key i) (rev [ex_image, ?raw]) = Some j \<and> uo_phase x = ''Succeeded'' \<and> uo_imageRef x = is_imageRef j"
    using merge_upload_operations [OF distinct phase named, of 9 "[]" "''Image registered''"]
    unfolding Let_def by (elim conjE)
  have keys: "?key ex_image = uploadOperationKey ''cfg'' ''ami''" "?key ?raw = uploadOperationKey ''cfg'' ''raw''"
    "?key ex_image \<noteq> ?key ?raw" by (simp_all add: ex_image_def uploadOperationKey_def)
  from bspec [OF merged, of ex_image] obtain x where x: "find (\<lambda>x. op_key x = ?key ex_image) ?merged = Some x"
      "uo_phase x = ''Succeeded''" "uo_imageRef x = ''ami-1''"
    using keys(3) by (auto simp: ex_image_def)
  from bspec [OF merged, of ?raw] obtain y where y: "find (\<lambda>x. op_key x = ?key ?raw) ?merged = Some y" "uo_imageRef y = ''raw-1''"
    using keys(3) by (auto simp: ex_image_def)
  from x y show ?thesis unfolding keys by blast
qed

end
