(* ===== verification/Artifact_Storage.thy ===== *)
theory Artifact_Storage
  imports Upload_Status
begin

text \<open>
  The workspace volume claim of a build: its shape, when it is created, kept and deleted
  (\<open>artifactPVC\<close>, \<open>ensureArtifactStorage\<close>, \<open>cleanupArtifactStorage\<close> and the policy predicates of
  \<open>pkg/controller/vmimage/reconciler.go\<close>), and how a cleanup failure is recorded.
\<close>

section \<open>Shape and policy\<close>

definition pvc_spec :: "VMImage \<Rightarrow> ArtifactPVCSpec option" where
  "pvc_spec img =
     (case bld_artifactStorage (spec_build (img_spec img)) of None \<Rightarrow> None | Some s \<Rightarrow> as_pvc s)"

definition artifactPVCSize :: "VMImage \<Rightarrow> string" where
  "artifactPVCSize img =
     (case pvc_spec img of
        Some p \<Rightarrow> if pvc_size p \<noteq> '''' then pvc_size p
          else (case bld_resources (spec_build (img_spec img)) of
                  Some r \<Rightarrow> if rr_storage r \<noteq> '''' then rr_storage r else ''20Gi''
                | None \<Rightarrow> ''20Gi'')
      | None \<Rightarrow>
          (case bld_resources (spec_build (img_spec img)) of
             Some r \<Rightarrow> if rr_storage r \<noteq> '''' then rr_storage r else ''20Gi''
           | None \<Rightarrow> ''20Gi''))"

definition artifactPVCAccessMode :: "VMImage \<Rightarrow> string" where
  "artifactPVCAccessMode img =
     (case pvc_spec img of
        Some p \<Rightarrow> if pvc_accessMode p \<noteq> '''' then pvc_accessMode p else ''ReadWriteOnce''
      | None \<Rightarrow> ''ReadWriteOnce'')"

definition artifactPVCRetainPolicy :: "VMImage \<Rightarrow> string" where
  "artifactPVCRetainPolicy img =
     (case pvc_spec img of
        Some p \<Rightarrow> if pvc_retainPolicy p \<noteq> '''' then pvc_retainPolicy p else ''Never''
      | None \<Rightarrow> ''Never'')"

definition usesArtifactPVC :: "VMImage \<Rightarrow> bool" where
  "usesArtifactPVC img =
     (let storage = bld_artifactStorage (spec_build (img_spec img)) in
      if buildMode img = BuildModeRemote \<and> storage = None then False
      else (case storage of None \<Rightarrow> True | Some s \<Rightarrow> as_type s = '''' \<or> as_type s = ''pvc''))"

definition usesExistingArtifactPVC :: "VMImage \<Rightarrow> bool" where
  "usesExistingArtifactPVC img \<longleftrightarrow>
     usesArtifactPVC img \<and>
     (case pvc_spec img of None \<Rightarrow> False | Some p \<Rightarrow> pvc_claimName p \<noteq> '''')"

definition shouldOwnerReferenceArtifactPVC :: "VMImage \<Rightarrow> bool" where
  "shouldOwnerReferenceArtifactPVC img \<longleftrightarrow> artifactPVCRetainPolicy img = ''Never''"

definition shouldRetainArtifactPVC :: "VMImage \<Rightarrow> bool \<Rightarrow> bool" where
  "shouldRetainArtifactPVC img success =
     (if artifactPVCRetainPolicy img = ''Always'' then True
      else if artifactPVCRetainPolicy img = ''OnFailure'' then \<not> success
      else False)"

text \<open>\<open>resource.MustParse\<close> panics on a string that is no quantity: then there is no claim.\<close>

definition artifactPVC :: "'w Env \<Rightarrow> VMImage \<Rightarrow> PVC option" where
  "artifactPVC E img =
     (case e_parseQuantity E (artifactPVCSize img) of None \<Rightarrow> None
      | Some quantity \<Rightarrow> Some
          \<lparr>pvcl_name = WorkspaceClaimName (e_sha256 E) img, pvcl_namespace = img_namespace img,
           pvcl_labels =
             [''app.kubernetes.io/managed-by'' \<mapsto> ''imagebuilder'',
              ''imagebuilder.io/vmimage'' \<mapsto> img_name img,
              ''imagebuilder.io/revision'' \<mapsto> Hash (e_sha256 E) (img_revision img)],
           pvcl_creationTimestamp = zero_time,
           pvcl_accessModes = [artifactPVCAccessMode img], pvcl_storage = quantity,
           pvcl_storageClassName =
             (case pvc_spec img of None \<Rightarrow> None | Some p \<Rightarrow> pvc_storageClassName p),
           pvcl_ownerUID = None\<rparr>)"

section \<open>Creation\<close>

text \<open>The result is \<open>None\<close> when the call panics, else the error returned.\<close>

definition ensureArtifactStorage :: "'w Env \<Rightarrow> ('w, go_error option option) handler" where
  "ensureArtifactStorage E = do {
     img \<leftarrow> get_obj;
     if \<not> usesArtifactPVC img \<or> usesExistingArtifactPVC img then ret (Some None)
     else case artifactPVC E img of
       None \<Rightarrow> ret None
     | Some pvc \<Rightarrow> do {
         existing \<leftarrow> query (e_getPVC E (pvcl_namespace pvc) (pvcl_name pvc));
         case existing of
           Found _ \<Rightarrow> ret (Some None)
         | GetError err \<Rightarrow> ret (Some (Some (wrapf ''get workspace pvc: '' err)))
         | NotFound _ \<Rightarrow>
             (case (if shouldOwnerReferenceArtifactPVC img then e_setControllerReference E img else None) of
                Some err \<Rightarrow> ret (Some (Some (wrapf ''set workspace pvc owner reference: '' err)))
              | None \<Rightarrow>
                  (let owned = pvc\<lparr>pvcl_ownerUID :=
                     (if shouldOwnerReferenceArtifactPVC img then Some (img_uid img) else None)\<rparr> in do {
                     created \<leftarrow> command (CreatePVC owned) (e_createPVC E owned);
                     case created of
                       CreateError err \<Rightarrow> ret (Some (Some (wrapf ''create workspace pvc: '' err)))
                     | _ \<Rightarrow> ret (Some None)
                   }))
       }
   }"

section \<open>Cleanup\<close>

definition markCleanupFailure ::
    "Reconciler \<Rightarrow> 'w Env \<Rightarrow> string \<Rightarrow> string \<Rightarrow> go_error \<Rightarrow> ('w, unit) handler" where
  "markCleanupFailure r E scope reason cleanupErr =
     (let message = err_msg cleanupErr in do {
        img \<leftarrow> get_obj;
        emit (MetricInc ''CleanupFailuresTotal'' [scope, reason, metricProvider img]);
        setStep E ''Cleanup'' ''Failed'' reason message '''';
        setCondition E ''CleanupFailed'' ConditionTrue reason message;
        recordEvent r EventWarning reason message;
        err \<leftarrow> update_status E;
        ret ()
      })"

definition cleanupArtifactStorage ::
    "Reconciler \<Rightarrow> 'w Env \<Rightarrow> bool \<Rightarrow> ('w, go_error option) handler" where
  "cleanupArtifactStorage r E success = do {
     img \<leftarrow> get_obj;
     if \<not> usesArtifactPVC img \<or> usesExistingArtifactPVC img \<or> shouldRetainArtifactPVC img success
     then ret None
     else
       (let namespace = img_namespace img; name = WorkspaceClaimName (e_sha256 E) img in do {
          got \<leftarrow> query (e_getPVC E namespace name);
          case got of
            NotFound _ \<Rightarrow> ret None
          | GetError err \<Rightarrow>
              (let cleanupErr = wrapf ''get workspace pvc for cleanup: '' err in do {
                 markCleanupFailure r E ''artifact-storage'' ''ArtifactStorageCleanupFailed'' cleanupErr;
                 ret (Some cleanupErr)
               })
          | Found pvc \<Rightarrow> do {
              deleted \<leftarrow> command (DeletePVC namespace (pvcl_name pvc)) (e_deletePVC E namespace (pvcl_name pvc));
              case deleted of
                DeleteError err \<Rightarrow>
                  (let cleanupErr = wrapf ''delete workspace pvc: '' err in do {
                     markCleanupFailure r E ''artifact-storage'' ''ArtifactStorageCleanupFailed'' cleanupErr;
                     ret (Some cleanupErr)
                   })
              | _ \<Rightarrow> ret None
            }
        })
   }"

section \<open>Lemmas\<close>

lemma does_markCleanupFailure:
  assumes "\<And>n ls. A (MetricInc n ls)" and "\<And>t x m. A (Event t x m)" and "\<And>img e. A (UpdateStatus img e)"
  shows "does A (same_core {''CleanupFailed''}) (markCleanupFailure r E scope reason err)"
  unfolding markCleanupFailure_def Let_def by (intro does_intro assms) auto

lemma same_core_WorkspaceClaimName:
  assumes "core x = core y"
  shows "usesArtifactPVC x = usesArtifactPVC y" "usesExistingArtifactPVC x = usesExistingArtifactPVC y"
    "shouldRetainArtifactPVC x b = shouldRetainArtifactPVC y b"
    "WorkspaceClaimName sha x = WorkspaceClaimName sha y"
  using core_fields [OF assms]
  by (simp_all add: usesArtifactPVC_def usesExistingArtifactPVC_def shouldRetainArtifactPVC_def
      artifactPVCRetainPolicy_def pvc_spec_def WorkspaceClaimName_def claim_name_def img_revision_def
      buildMode_def)

text \<open>The calls of \<open>ensureArtifactStorage\<close> and \<open>cleanupArtifactStorage\<close>.\<close>

lemma only_ensureArtifactStorage [does_intro]:
  "(\<And>p res. A (CreatePVC p res)) \<Longrightarrow> only A (ensureArtifactStorage E)"
  unfolding ensureArtifactStorage_def Let_def by (intro does_intro)

lemma does_cleanupArtifactStorage:
  assumes "\<And>n ls. A (MetricInc n ls)" and "\<And>t x m. A (Event t x m)" and "\<And>img e. A (UpdateStatus img e)"
    and "\<And>ns n res. A (DeletePVC ns n res)"
  shows "does A (same_core {''CleanupFailed''}) (cleanupArtifactStorage r E success)"
  unfolding cleanupArtifactStorage_def Let_def
  by (intro does_intro does_markCleanupFailure assms)

end
