(* ===== verification/Providers.thy ===== *)
theory Providers
  imports Artifact_Storage
begin

text \<open>
  Provider selection, configuration and connections in the \<open>VMImage\<close> controller
  (\<open>providerNameForTarget\<close>, \<open>providerPlugin\<close>, \<open>initProviderForTarget\<close>,
  \<open>providerConfigsForTargets\<close>, \<open>providerConnectionsForTargets\<close>, the TLS and credential Secrets,
  and the remote build request, all of \<open>pkg/controller/vmimage/reconciler.go\<close>).
\<close>

section \<open>Selection\<close>

definition providerNameForTarget ::
    "'w Env \<Rightarrow> string \<Rightarrow> TargetSpec \<Rightarrow> ('w, go_error + string) handler" where
  "providerNameForTarget E namespace target = do {
     got \<leftarrow> query (e_getProviderConfig E namespace (tgt_providerConfigRef target));
     ret (case get_error got of
            Inl err \<Rightarrow> Inl (wrapf (''get ProviderConfig '' @ quoted (tgt_providerConfigRef target) @ '': '') err)
          | Inr cfg \<Rightarrow> Inr (pc_provider cfg))
   }"

text \<open>\<open>Registry.New\<close> of the registry the controller holds.\<close>

definition registry_New :: "'w Env \<Rightarrow> string \<Rightarrow> ('w, go_error + Plugin) handler" where
  "registry_New E name =
     query (\<lambda>w. case New name (e_getRegistry E w) of (res, reg) \<Rightarrow> (res, e_putRegistry E reg w))"

definition handshake_ok :: "PlatformProvider \<Rightarrow> string \<Rightarrow> bool" where
  "handshake_ok pp providerName \<longleftrightarrow>
     (case pps_capabilities (ppr_status pp) of None \<Rightarrow> False | Some c \<Rightarrow> cap_providerName c = providerName)"

text \<open>The provider and whether the caller owns it, and so has to close it.\<close>

definition providerPlugin :: "'w Env \<Rightarrow> string \<Rightarrow> ('w, go_error + Plugin \<times> bool) handler" where
  "providerPlugin E providerName = do {
     got \<leftarrow> query (e_getPlatformProvider E providerName);
     case got of
       Found pp \<Rightarrow>
         if pps_phase (ppr_status pp) \<noteq> ''Healthy'' then
           ret (Inl (errorf (''PlatformProvider '' @ quoted providerName @ '' is not healthy (phase '' @
             quoted (pps_phase (ppr_status pp)) @ '')'')))
         else if \<not> handshake_ok pp providerName then
           ret (Inl (errorf (''PlatformProvider '' @ quoted providerName @ '' has no matching capability handshake'')))
         else do {
           registry \<leftarrow> gets (\<lambda>s. e_getRegistry E (world s));
           ret (case External (ppr_name pp) (ppr_uid pp) providerName registry of
                  Inl err \<Rightarrow> Inl err | Inr p \<Rightarrow> Inr (p, False))
         }
     | GetError err \<Rightarrow>
         ret (Inl (wrapf (''get PlatformProvider '' @ quoted providerName @ '': '') err))
     | NotFound _ \<Rightarrow> do {
         res \<leftarrow> registry_New E providerName;
         ret (case res of Inl err \<Rightarrow> Inl err | Inr p \<Rightarrow> Inr (p, True))
       }
   }"

definition closeProviderPlugin :: "'w Env \<Rightarrow> Plugin \<Rightarrow> ('w, unit) handler" where
  "closeProviderPlugin E p =
     (if pl_closer p then do { err \<leftarrow> command (\<lambda>_. ClosePlugin p) (e_pluginClose E p); ret () }
      else ret ())"

definition supportsBuildMode :: "string list \<Rightarrow> string \<Rightarrow> bool" where
  "supportsBuildMode modes want = list_ex (\<lambda>mode. mode = want) modes"

section \<open>Credentials\<close>

definition expandProviderCredentialJSON :: "'w Env \<Rightarrow> string \<Rightarrow> strmap option" where
  "expandProviderCredentialJSON E raw =
     (if \<not> hasPrefix (trimSpace raw) ''{'' then None
      else (case e_decodeStringMap E raw of
              Inl _ \<Rightarrow> None
            | Inr values \<Rightarrow> if values = [] then None else Some (map_of values)))"

definition providerSecretData ::
    "Reconciler \<Rightarrow> 'w Env \<Rightarrow> ProviderConfig \<Rightarrow> ('w, go_error + strmap) handler" where
  "providerSecretData r E cfg =
     (if pc_secretRef_name cfg = '''' then ret (Inr Map.empty)
      else do {
        got \<leftarrow> directReader_getSecret r E (pc_namespace cfg) (pc_secretRef_name cfg);
        case get_error got of
          Inl err \<Rightarrow>
            ret (Inl (wrapf (''get credentials Secret '' @ quoted (pc_secretRef_name cfg) @
              '' for ProviderConfig '' @ quoted (pc_name cfg) @ '': '') err))
        | Inr secret_data \<Rightarrow>
            if pc_secretRef_key cfg = '''' then ret (Inr secret_data)
            else (case secret_data (pc_secretRef_key cfg) of
              None \<Rightarrow>
                ret (Inl (errorf (''credentials Secret '' @ quoted (pc_secretRef_name cfg) @
                  '' missing key '' @ quoted (pc_secretRef_key cfg))))
            | Some secret_value \<Rightarrow>
                (case expandProviderCredentialJSON E secret_value of
                   Some expanded \<Rightarrow> ret (Inr expanded)
                 | None \<Rightarrow> ret (Inr [pc_secretRef_key cfg \<mapsto> secret_value])))
      })"

section \<open>Initialisation\<close>

definition providerAllowedPrivateCIDRs :: "ProviderConfig \<Rightarrow> string list" where
  "providerAllowedPrivateCIDRs cfg =
     (case pc_networkAccess cfg of None \<Rightarrow> [] | Some na \<Rightarrow> na_allowedPrivateCIDRs na)"

definition providerAllowedDNSNames :: "ProviderConfig \<Rightarrow> string list" where
  "providerAllowedDNSNames cfg =
     (case pc_networkAccess cfg of None \<Rightarrow> [] | Some na \<Rightarrow> na_allowedDNSNames na)"

definition endpoint_options :: "ProviderConfig \<Rightarrow> Options" where
  "endpoint_options cfg =
     \<lparr>o_allowUnresolved = False, o_allowedPrivateCIDRs = providerAllowedPrivateCIDRs cfg,
      o_allowedDNSNames = providerAllowedDNSNames cfg\<rparr>"

definition gcp_endpoint_keys :: "string list" where
  "gcp_endpoint_keys = [''storageEndpoint'', ''computeEndpoint'', ''storageUploadEndpoint'']"

definition validateRuntimeProviderEndpoints ::
    "url_parser \<Rightarrow> resolver \<Rightarrow> ProviderConfig \<Rightarrow> go_error option" where
  "validateRuntimeProviderEndpoints up lk cfg =
     (let options = endpoint_options cfg;
          rejected = wrapf (''ProviderConfig '' @ quoted (pc_name cfg) @ '' endpoint rejected: '') in
      case ValidatePublicHTTPSURL up lk ''ProviderConfig endpoint'' (pc_endpoint cfg) options of
        Some err \<Rightarrow> Some (rejected err)
      | None \<Rightarrow>
          if equalFold (pc_provider cfg) ''gcp'' then
            map_option rejected (first_error (map (\<lambda>key.
              ValidatePublicHTTPSURL up lk (''ProviderConfig extra '' @ key)
                (get_str (pc_extra cfg) key) options) gcp_endpoint_keys))
          else None)"

definition plugin_config :: "ProviderConfig \<Rightarrow> strmap \<Rightarrow> PluginConfig" where
  "plugin_config cfg secretData =
     \<lparr>plc_ProviderConfigName = pc_name cfg, plc_SecretData = secretData, plc_Region = pc_region cfg,
      plc_Endpoint = pc_endpoint cfg, plc_Insecure = pc_insecure cfg, plc_Extra = pc_extra cfg,
      plc_AllowedPrivateCIDRs = providerAllowedPrivateCIDRs cfg,
      plc_AllowedDNSNames = providerAllowedDNSNames cfg\<rparr>"

definition initProviderForTarget ::
    "Reconciler \<Rightarrow> 'w Env \<Rightarrow> string \<Rightarrow> TargetSpec \<Rightarrow> Plugin \<Rightarrow> ('w, go_error option) handler" where
  "initProviderForTarget r E namespace target p = do {
     got \<leftarrow> query (e_getProviderConfig E namespace (tgt_providerConfigRef target));
     case get_error got of
       Inl err \<Rightarrow>
         ret (Some (wrapf (''get ProviderConfig '' @ quoted (tgt_providerConfigRef target) @ '': '') err))
     | Inr cfg \<Rightarrow> do {
         verdict \<leftarrow> gets (\<lambda>s. validateRuntimeProviderEndpoints (e_url_parse E) (e_lookupHost E (world s)) cfg);
         case verdict of
           Some err \<Rightarrow> ret (Some err)
         | None \<Rightarrow> do {
             secret \<leftarrow> providerSecretData r E cfg;
             case secret of
               Inl err \<Rightarrow> ret (Some err)
             | Inr secretData \<Rightarrow>
                 command (InitPlugin p (plugin_config cfg secretData))
                   (e_pluginInit E p (plugin_config cfg secretData))
           }
       }
   }"

section \<open>Configurations and connections of an upload\<close>

fun configs_loop ::
    "'w Env \<Rightarrow> string \<Rightarrow> TargetSpec list \<Rightarrow> string list \<Rightarrow> ProviderConfig list \<Rightarrow>
     ('w, go_error + ProviderConfig list) handler" where
  "configs_loop E namespace [] seen configs = ret (Inr configs)"
| "configs_loop E namespace (target # targets) seen configs =
     (let name = tgt_providerConfigRef target in
      if name \<in> set seen then configs_loop E namespace targets seen configs
      else do {
        got \<leftarrow> query (e_getProviderConfig E namespace name);
        case get_error got of
          Inl err \<Rightarrow> ret (Inl (wrapf (''get ProviderConfig '' @ quoted name @ '': '') err))
        | Inr cfg \<Rightarrow> configs_loop E namespace targets (name # seen) (configs @ [cfg])
      })"

definition providerConfigsForTargets :: "'w Env \<Rightarrow> ('w, go_error + ProviderConfig list) handler" where
  "providerConfigsForTargets E = do {
     img \<leftarrow> get_obj;
     configs_loop E (img_namespace img) (spec_targets (img_spec img)) [] []
   }"

definition providerTLSCAKey :: "ProviderTLSSecretRef \<Rightarrow> string" where
  "providerTLSCAKey ref = (if tsr_caKey ref \<noteq> '''' then tsr_caKey ref else ''ca.crt'')"

definition providerTLSCertKey :: "ProviderTLSSecretRef \<Rightarrow> string" where
  "providerTLSCertKey ref = (if tsr_certKey ref \<noteq> '''' then tsr_certKey ref else ''tls.crt'')"

definition providerTLSKeyKey :: "ProviderTLSSecretRef \<Rightarrow> string" where
  "providerTLSKeyKey ref = (if tsr_keyKey ref \<noteq> '''' then tsr_keyKey ref else ''tls.key'')"

definition providerTLSSecretValue ::
    "Reconciler \<Rightarrow> 'w Env \<Rightarrow> ProviderTLSSecretRef \<Rightarrow> string \<Rightarrow> ('w, go_error + string) handler" where
  "providerTLSSecretValue r E ref key = do {
     got \<leftarrow> directReader_getSecret r E (tsr_namespace ref) (tsr_name ref);
     ret (case get_error got of
            Inl err \<Rightarrow> Inl err
          | Inr secret_data \<Rightarrow>
              if get_str secret_data key = '''' then
                Inl (errorf (''secret '' @ tsr_namespace ref @ ''/'' @ tsr_name ref @ '' key '' @
                  quoted key @ '' is empty or missing''))
              else Inr (get_str secret_data key))
   }"

definition uploadClientTLSSecretName :: "'w Env \<Rightarrow> VMImage \<Rightarrow> string \<Rightarrow> string" where
  "uploadClientTLSSecretName E img providerName =
     ''imagebuilder-upload-tls-'' @
     hex (take 8 (e_sha256 E (img_namespace img @ ''/'' @ img_name img @ ''/'' @ providerName)))"

text \<open>\<open>controllerutil.CreateOrUpdate\<close> writes the Secret that the mutate function describes.\<close>

definition ensureUploadClientTLSSecret ::
    "Reconciler \<Rightarrow> 'w Env \<Rightarrow> PlatformProvider \<Rightarrow> ProviderTransportTLSSpec \<Rightarrow> string \<Rightarrow>
     ('w, go_error + string) handler" where
  "ensureUploadClientTLSSecret r E pp tlsSpec providerNamespace = do {
     img \<leftarrow> get_obj;
     case (tls_caSecretRef tlsSpec, tls_clientCertificateSecretRef tlsSpec) of
       (Some caRef, Some clientRef) \<Rightarrow>
         if tsr_namespace caRef \<noteq> providerNamespace \<or> tsr_namespace clientRef \<noteq> providerNamespace then
           ret (Inl (errorf (''mTLS source Secrets must be in provider namespace '' @ quoted providerNamespace)))
         else do {
           ca \<leftarrow> providerTLSSecretValue r E caRef (providerTLSCAKey caRef);
           case ca of Inl err \<Rightarrow> ret (Inl (wrapf ''load CA bundle: '' err))
           | Inr caBundle \<Rightarrow> do {
               cert \<leftarrow> providerTLSSecretValue r E clientRef (providerTLSCertKey clientRef);
               case cert of Inl err \<Rightarrow> ret (Inl (wrapf ''load client certificate: '' err))
               | Inr certPEM \<Rightarrow> do {
                   key \<leftarrow> providerTLSSecretValue r E clientRef (providerTLSKeyKey clientRef);
                   case key of Inl err \<Rightarrow> ret (Inl (wrapf ''load client key: '' err))
                   | Inr keyPEM \<Rightarrow>
                       (let name = uploadClientTLSSecretName E img (ppr_name pp);
                            secret = \<lparr>secr_name = name, secr_namespace = img_namespace img,
                              secr_labels = [''app.kubernetes.io/managed-by'' \<mapsto> ''imagebuilder'',
                                ''imagebuilder.io/vmimage'' \<mapsto> img_name img,
                                ''imagebuilder.io/provider-name'' \<mapsto> ppr_name pp],
                              secr_type = ''kubernetes.io/tls'',
                              secr_data = [''ca.crt'' \<mapsto> caBundle, ''tls.crt'' \<mapsto> certPEM, ''tls.key'' \<mapsto> keyPEM],
                              secr_ownerUID = Some (img_uid img)\<rparr>;
                            failed = wrapf (''reconcile upload client TLS Secret '' @ img_namespace img @ ''/'' @
                              name @ '': '') in
                        case e_setControllerReference E img of
                          Some err \<Rightarrow> ret (Inl (failed err))
                        | None \<Rightarrow> do {
                            applied \<leftarrow> command (ApplySecret secret) (e_applySecret E secret);
                            ret (case applied of Some err \<Rightarrow> Inl (failed err) | None \<Rightarrow> Inr name)
                          })
                 }
             }
         }
     | _ \<Rightarrow> ret (Inl (errorf ''mTLS requires caSecretRef and clientCertificateSecretRef''))
   }"

definition connection_namespace :: "Reconciler \<Rightarrow> PlatformProvider \<Rightarrow> string" where
  "connection_namespace r pp =
     (if r_ProviderNamespace r \<noteq> '''' then r_ProviderNamespace r
      else if ppr_namespace pp \<noteq> '''' then ppr_namespace pp else defaultProviderNamespace)"

text \<open>The TLS settings that ask for anything but plain text.\<close>

definition transport_tls :: "PlatformProvider \<Rightarrow> ProviderTransportTLSSpec option" where
  "transport_tls pp =
     (case pp_transport (ppr_spec pp) of None \<Rightarrow> None
      | Some t \<Rightarrow>
          (case tr_tls t of None \<Rightarrow> None
           | Some tls \<Rightarrow> if tls_mode tls \<noteq> '''' \<and> tls_mode tls \<noteq> ''Disabled'' then Some tls else None))"

fun connections_loop ::
    "Reconciler \<Rightarrow> 'w Env \<Rightarrow> ProviderConfig list \<Rightarrow> (string \<rightharpoonup> ProviderConnection) \<Rightarrow>
     ('w, go_error + (string \<rightharpoonup> ProviderConnection)) handler" where
  "connections_loop r E [] connections = ret (Inr connections)"
| "connections_loop r E (cfg # configs) connections =
     (let providerName = pc_provider cfg; q = quoted providerName in
      if connections providerName \<noteq> None then connections_loop r E configs connections
      else do {
        got \<leftarrow> query (e_getPlatformProvider E providerName);
        case got of
          NotFound _ \<Rightarrow> connections_loop r E configs connections
        | GetError err \<Rightarrow> ret (Inl (wrapf (''get PlatformProvider '' @ q @ '': '') err))
        | Found pp \<Rightarrow>
            if pps_phase (ppr_status pp) \<noteq> ''Healthy'' then
              ret (Inl (errorf (''PlatformProvider '' @ q @ '' is not healthy (phase '' @
                quoted (pps_phase (ppr_status pp)) @ '')'')))
            else if \<not> handshake_ok pp providerName then
              ret (Inl (errorf (''PlatformProvider '' @ q @ '' has no matching capability handshake'')))
            else
              (let providerNamespace = connection_namespace r pp;
                   service = ''provider-'' @ ppr_name pp @ ''.'' @ providerNamespace @ ''.svc'';
                   address = service @ '':'' @ show_int providerGRPCPort in
               case transport_tls pp of
                 None \<Rightarrow>
                   connections_loop r E configs (connections(providerName \<mapsto>
                     \<lparr>conn_Address = address, conn_TLSSecretName = '''', conn_ServerName = ''''\<rparr>))
               | Some tls \<Rightarrow>
                   if tls_mode tls \<noteq> ''Mutual'' then
                     ret (Inl (errorf (''PlatformProvider '' @ q @ '' uses unsupported TLS mode '' @
                       quoted (tls_mode tls))))
                   else do {
                     secret \<leftarrow> ensureUploadClientTLSSecret r E pp tls providerNamespace;
                     case secret of
                       Inl err \<Rightarrow> ret (Inl (wrapf (''prepare mTLS for PlatformProvider '' @ q @ '': '') err))
                     | Inr secretName \<Rightarrow>
                         connections_loop r E configs (connections(providerName \<mapsto>
                           \<lparr>conn_Address = address, conn_TLSSecretName = secretName,
                            conn_ServerName =
                              (if tls_serverName tls = '''' then service else tls_serverName tls)\<rparr>))
                   })
      })"

definition providerConnectionsForTargets ::
    "Reconciler \<Rightarrow> 'w Env \<Rightarrow> ProviderConfig list \<Rightarrow>
     ('w, go_error + (string \<rightharpoonup> ProviderConnection)) handler" where
  "providerConnectionsForTargets r E configs = connections_loop r E configs Map.empty"

section \<open>Remote build requests\<close>

definition build_timeout :: "VMImage \<Rightarrow> int" where
  "build_timeout img =
     (case bld_timeout (spec_build (img_spec img)) of None \<Rightarrow> defaultBuildTimeout | Some t \<Rightarrow> t)"

definition remoteBuildRequest :: "'w Env \<Rightarrow> VMImage \<Rightarrow> TargetSpec \<Rightarrow> RemoteBuildRequest" where
  "remoteBuildRequest E img target =
     \<lparr>rq_BuildID = BuildID (e_sha256 E) (img_uid img) (img_revision img),
      rq_OperationRef = (case st_remoteBuildRef (img_status img) of None \<Rightarrow> '''' | Some ref \<Rightarrow> ref),
      rq_ImageName = img_name img, rq_Namespace = img_namespace img,
      rq_OSFamily = os_family (spec_os (img_spec img)),
      rq_OSDistribution = os_distribution (spec_os (img_spec img)),
      rq_OSVersion = os_version (spec_os (img_spec img)), rq_OSArch = os_arch (spec_os (img_spec img)),
      rq_SourceType = src_type (spec_source (img_spec img)),
      rq_SourceURL = src_url (spec_source (img_spec img)),
      rq_SourceProviderRef = src_providerRef (spec_source (img_spec img)),
      rq_SourceMarketplace = src_marketplaceRef (spec_source (img_spec img)),
      rq_SourceChecksum = src_checksum (spec_source (img_spec img)),
      rq_Target = target, rq_Provisioners = spec_provisioners (img_spec img),
      rq_GuestAccess = bld_guestAccess (spec_build (img_spec img)),
      rq_Evidence = spec_evidence (img_spec img), rq_Timeout = build_timeout img\<rparr>"

definition gitAuthTokenKey :: "GitProvisionerAuthSecretRef \<Rightarrow> string" where
  "gitAuthTokenKey ref = (if gas_tokenKey ref \<noteq> '''' then gas_tokenKey ref else ''token'')"

definition gitAuthUsernameKey :: "GitProvisionerAuthSecretRef \<Rightarrow> string" where
  "gitAuthUsernameKey ref = (if gas_usernameKey ref \<noteq> '''' then gas_usernameKey ref else ''username'')"

definition gitAuthPasswordKey :: "GitProvisionerAuthSecretRef \<Rightarrow> string" where
  "gitAuthPasswordKey ref = (if gas_passwordKey ref \<noteq> '''' then gas_passwordKey ref else ''password'')"

text \<open>The Secret reference a provisioner's Git source uses, if it names one.\<close>

definition git_secret_ref ::
    "ProvisionerSpec \<Rightarrow>
     (ProvisionerSourceSpec \<times> GitProvisionerSourceSpec \<times> GitProvisionerAuthSpec \<times> GitProvisionerAuthSecretRef) option"
  where
  "git_secret_ref spec =
     (case prov_source spec of None \<Rightarrow> None
      | Some source \<Rightarrow>
          (case psrc_git source of None \<Rightarrow> None
           | Some git \<Rightarrow>
               (case git_auth git of None \<Rightarrow> None
                | Some auth \<Rightarrow>
                    (case ga_secretRef auth of None \<Rightarrow> None
                     | Some ref \<Rightarrow> if gas_name ref = '''' then None else Some (source, git, auth, ref)))))"

fun with_git_auth_loop ::
    "Reconciler \<Rightarrow> 'w Env \<Rightarrow> string \<Rightarrow> ProvisionerSpec list \<Rightarrow> (string \<rightharpoonup> strmap) \<Rightarrow> ProvisionerSpec list \<Rightarrow>
     ('w, go_error + ProvisionerSpec list) handler" where
  "with_git_auth_loop r E namespace [] cache out = ret (Inr out)"
| "with_git_auth_loop r E namespace (spec # specs) cache out =
     (case git_secret_ref spec of
        None \<Rightarrow> with_git_auth_loop r E namespace specs cache (out @ [spec])
      | Some (source, git, auth, ref) \<Rightarrow> do {
          secret \<leftarrow> (case cache (gas_name ref) of
             Some m \<Rightarrow> ret (Inr m)
           | None \<Rightarrow> do {
               got \<leftarrow> directReader_getSecret r E namespace (gas_name ref);
               ret (map_error (wrapf (''read git provisioner auth secret '' @ quoted (gas_name ref) @ '': ''))
                      (get_error got))
             });
          case secret of
            Inl err \<Rightarrow> ret (Inl err)
          | Inr secret_data \<Rightarrow>
              (let auth' = auth\<lparr>ga_runtimeToken := get_str secret_data (gitAuthTokenKey ref),
                     ga_runtimeUsername := get_str secret_data (gitAuthUsernameKey ref),
                     ga_runtimePassword := get_str secret_data (gitAuthPasswordKey ref)\<rparr>;
                   spec' = spec\<lparr>prov_source := Some (source\<lparr>psrc_git := Some (git\<lparr>git_auth := Some auth'\<rparr>)\<rparr>)\<rparr>
               in with_git_auth_loop r E namespace specs (cache(gas_name ref \<mapsto> secret_data)) (out @ [spec']))
        })"

definition withRemoteGitAuth ::
    "Reconciler \<Rightarrow> 'w Env \<Rightarrow> string \<Rightarrow> ProvisionerSpec list \<Rightarrow> ('w, go_error + ProvisionerSpec list) handler"
  where
  "withRemoteGitAuth r E namespace specs = with_git_auth_loop r E namespace specs Map.empty []"

definition remoteBuildRequest_auth ::
    "Reconciler \<Rightarrow> 'w Env \<Rightarrow> TargetSpec \<Rightarrow> ('w, go_error + RemoteBuildRequest) handler" where
  "remoteBuildRequest_auth r E target = do {
     img \<leftarrow> get_obj;
     provisioners \<leftarrow> withRemoteGitAuth r E (img_namespace img) (rq_Provisioners (remoteBuildRequest E img target));
     ret (case provisioners of
            Inl err \<Rightarrow> Inl err
          | Inr ps \<Rightarrow> Inr ((remoteBuildRequest E img target)\<lparr>rq_Provisioners := ps\<rparr>))
   }"

section \<open>Frames\<close>

lemma only_providerNameForTarget [does_intro]:
  "reflp R \<Longrightarrow> transp R \<Longrightarrow> does A R (providerNameForTarget E ns target)"
  unfolding providerNameForTarget_def by (intro does_intro)

lemma only_providerPlugin [does_intro]: "reflp R \<Longrightarrow> transp R \<Longrightarrow> does A R (providerPlugin E n)"
  unfolding providerPlugin_def registry_New_def by (intro does_intro)

lemma only_closeProviderPlugin [does_intro]:
  "reflp R \<Longrightarrow> transp R \<Longrightarrow> (\<And>p. A (ClosePlugin p)) \<Longrightarrow> does A R (closeProviderPlugin E p)"
  unfolding closeProviderPlugin_def by (intro does_intro)

lemma only_providerSecretData [does_intro]: "reflp R \<Longrightarrow> transp R \<Longrightarrow> does A R (providerSecretData r E cfg)"
  unfolding providerSecretData_def by (intro does_intro)

lemma only_configs_loop [does_intro]:
  "reflp R \<Longrightarrow> transp R \<Longrightarrow> does A R (configs_loop E ns targets seen configs)"
  by (induction targets arbitrary: seen configs) (auto simp: Let_def intro!: does_intro)

lemma only_providerConfigsForTargets [does_intro]:
  "reflp R \<Longrightarrow> transp R \<Longrightarrow> does A R (providerConfigsForTargets E)"
  unfolding providerConfigsForTargets_def by (intro does_intro)

lemma only_providerTLSSecretValue [does_intro]:
  "reflp R \<Longrightarrow> transp R \<Longrightarrow> does A R (providerTLSSecretValue r E ref key)"
  unfolding providerTLSSecretValue_def by (intro does_intro)

lemma only_ensureUploadClientTLSSecret [does_intro]:
  "reflp R \<Longrightarrow> transp R \<Longrightarrow> (\<And>s e. A (ApplySecret s e)) \<Longrightarrow>
   does A R (ensureUploadClientTLSSecret r E pp tls ns)"
  unfolding ensureUploadClientTLSSecret_def Let_def by (intro does_intro)

lemma only_connections_loop [does_intro]:
  "reflp R \<Longrightarrow> transp R \<Longrightarrow> (\<And>s e. A (ApplySecret s e)) \<Longrightarrow> does A R (connections_loop r E configs conns)"
  by (induction configs arbitrary: conns) (auto simp: Let_def intro!: does_intro)

lemma only_providerConnectionsForTargets [does_intro]:
  "reflp R \<Longrightarrow> transp R \<Longrightarrow> (\<And>s e. A (ApplySecret s e)) \<Longrightarrow>
   does A R (providerConnectionsForTargets r E configs)"
  unfolding providerConnectionsForTargets_def by (intro does_intro)

lemma only_with_git_auth_loop [does_intro]:
  "reflp R \<Longrightarrow> transp R \<Longrightarrow> does A R (with_git_auth_loop r E ns specs cache out)"
  by (induction specs arbitrary: cache out) (auto simp: Let_def intro!: does_intro)

lemma only_remoteBuildRequest_auth [does_intro]:
  "reflp R \<Longrightarrow> transp R \<Longrightarrow> does A R (remoteBuildRequest_auth r E target)"
  unfolding remoteBuildRequest_auth_def withRemoteGitAuth_def by (intro does_intro)

text \<open>A configuration is safe to hand to a plugin when the guard accepts its endpoint, under its
  own allowlists and with names resolved at that moment.\<close>

definition safe_config :: "'w Env \<Rightarrow> PluginConfig \<Rightarrow> bool" where
  "safe_config E c \<longleftrightarrow>
     (\<exists>w. ValidatePublicHTTPSURL (e_url_parse E) (e_lookupHost E w) ''ProviderConfig endpoint'' (plc_Endpoint c)
        \<lparr>o_allowUnresolved = False, o_allowedPrivateCIDRs = plc_AllowedPrivateCIDRs c,
         o_allowedDNSNames = plc_AllowedDNSNames c\<rparr> = None)"

fun safe_init :: "'w Env \<Rightarrow> call \<Rightarrow> bool" where
  "safe_init E (InitPlugin p c err) = safe_config E c"
| "safe_init E _ = True"

lemma validateRuntimeProviderEndpoints_None:
  "validateRuntimeProviderEndpoints up lk cfg = None \<Longrightarrow>
   ValidatePublicHTTPSURL up lk ''ProviderConfig endpoint'' (pc_endpoint cfg) (endpoint_options cfg) = None"
  by (simp add: validateRuntimeProviderEndpoints_def Let_def split: option.splits)

lemma does_gets_bind: "(\<And>s. does A R (f (g s))) \<Longrightarrow> does A R (State_Monad.bind (gets g) f)"
  by (simp add: does_def)

lemma only_initProviderForTarget:
  assumes "reflp R" and "transp R" and "\<And>p c e. safe_config E c \<Longrightarrow> A (InitPlugin p c e)"
  shows "does A R (initProviderForTarget r E ns target p)"
proof -
  have safe: "safe_config E (plugin_config cfg secretData)"
    if "validateRuntimeProviderEndpoints (e_url_parse E) (e_lookupHost E w) cfg = None" for cfg secretData w
    using validateRuntimeProviderEndpoints_None [OF that]
    by (auto simp: safe_config_def plugin_config_def endpoint_options_def)
  have rest: "does A R (case validateRuntimeProviderEndpoints (e_url_parse E) (e_lookupHost E w) cfg of
           Some err \<Rightarrow> ret (Some err)
         | None \<Rightarrow> do {
             secret \<leftarrow> providerSecretData r E cfg;
             case secret of
               Inl err \<Rightarrow> ret (Some err)
             | Inr secretData \<Rightarrow>
                 command (InitPlugin p (plugin_config cfg secretData))
                   (e_pluginInit E p (plugin_config cfg secretData))
           })" for w cfg
    using assms safe
    by (cases "validateRuntimeProviderEndpoints (e_url_parse E) (e_lookupHost E w) cfg")
      (auto intro!: does_intro)
  show ?thesis
    unfolding initProviderForTarget_def
    by (intro does_intro does_gets_bind rest assms)
qed

end
