(* ===== verification/Cleanup.thy ===== *)
theory Cleanup
  imports Providers Scheduler
begin

text \<open>
  Failure and cleanup in the \<open>VMImage\<close> controller: \<open>setFailedWithReason\<close>, the cleanup of uploads
  and remote builds, and the garbage collection of old build revisions
  (\<open>pkg/controller/vmimage/reconciler.go\<close>).
\<close>

section \<open>Failure\<close>

definition setFailedWithReason ::
    "Reconciler \<Rightarrow> 'w Env \<Rightarrow> string \<Rightarrow> string \<Rightarrow> ('w, outcome) handler" where
  "setFailedWithReason r E conditionReason message = do {
     now \<leftarrow> query (e_now E);
     set_status (\<lambda>st. st\<lparr>st_phase := PhaseFailed, st_completionTime := Some now\<rparr>);
     released \<leftarrow> releaseImageBuildSlots E;
     case released of
       Some err \<Rightarrow> ret (0, Some (wrapf ''release build slots after failure: '' err))
     | None \<Rightarrow> do {
         set_status (\<lambda>st. st\<lparr>st_buildLeaseRefs := [], st_scheduledNodeName := ''''\<rparr>);
         setCondition E ''Failed'' ConditionTrue conditionReason message;
         updated \<leftarrow> update_status E;
         case updated of
           Some err \<Rightarrow> ret (0, Some (wrapf ''update status to Failed: '' err))
         | None \<Rightarrow> do {
             recordEvent r EventWarning conditionReason message;
             cleaned \<leftarrow> cleanupArtifactStorage r E False;
             case cleaned of
               Some err \<Rightarrow> ret (0, Some (wrapf ''cleanup artifact storage after failure: '' err))
             | None \<Rightarrow> ret (0, None)
           }
       }
   }"

definition setFailed :: "Reconciler \<Rightarrow> 'w Env \<Rightarrow> string \<Rightarrow> ('w, outcome) handler" where
  "setFailed r E reason = setFailedWithReason r E ''Error'' reason"

section \<open>Uploads\<close>

definition fail_cleanup ::
    "Reconciler \<Rightarrow> 'w Env \<Rightarrow> string \<Rightarrow> string \<Rightarrow> go_error \<Rightarrow> ('w, go_error + 'a) handler" where
  "fail_cleanup r E scope reason cleanupErr = do {
     markCleanupFailure r E scope reason cleanupErr;
     ret (Inl cleanupErr)
   }"

text \<open>The result is the error, or whether the cleanup is done.\<close>

definition cleanup_upload_job :: "Reconciler \<Rightarrow> 'w Env \<Rightarrow> ('w, go_error + bool) handler" where
  "cleanup_upload_job r E =
     (let failed = fail_cleanup r E ''upload-register'' ''UploadCleanupFailed'' in do {
        img \<leftarrow> get_obj;
        configs0 \<leftarrow> providerConfigsForTargets E;
        case configs0 of
          Inl err \<Rightarrow> failed (wrapf ''load provider configs for upload cleanup: '' err)
        | Inr configs \<Rightarrow> do {
            got \<leftarrow> query (e_getJob E (img_namespace img) (CleanupJobName (e_sha256 E) img));
            case got of
              GetError err \<Rightarrow> failed (wrapf ''get upload cleanup job: '' err)
            | NotFound _ \<Rightarrow> do {
                conns \<leftarrow> providerConnectionsForTargets r E configs;
                case conns of
                  Inl err \<Rightarrow> failed (wrapf ''prepare provider connections for upload cleanup: '' err)
                | Inr connections \<Rightarrow>
                    (case e_assembleCleanup E img configs connections of
                       Inl err \<Rightarrow> failed (wrapf ''assemble upload cleanup job: '' err)
                     | Inr job \<Rightarrow> do {
                         created \<leftarrow> command (CreateJob job) (e_createJob E job);
                         case created of
                           CreateError err \<Rightarrow> failed (wrapf ''create upload cleanup job: '' err)
                         | _ \<Rightarrow> do {
                             recordEvent r EventNormal ''UploadCleanupStarted''
                               (''Upload cleanup Job '' @ quoted (job_name job) @ '' created'');
                             ret (Inr False)
                           }
                       })
              }
            | Found cleanupJob \<Rightarrow>
                if isJobSucceeded cleanupJob then do {
                  recordEvent r EventNormal ''UploadCleanupComplete''
                    (''Upload cleanup Job '' @ quoted (job_name cleanupJob) @ '' completed'');
                  ret (Inr True)
                }
                else if isJobFailed cleanupJob then do {
                  emit (MetricInc ''FailuresTotal'' [''Cleanup'', ''UploadCleanupJobFailed'', metricProvider img]);
                  fail_cleanup r E ''upload-register'' ''UploadCleanupJobFailed''
                    (errorf (''upload cleanup Job '' @ quoted (job_name cleanupJob) @ '' failed''))
                }
                else ret (Inr False)
          }
      })"

definition cleanupLocalUpload :: "Reconciler \<Rightarrow> 'w Env \<Rightarrow> ('w, go_error + bool) handler" where
  "cleanupLocalUpload r E =
     (let failed = fail_cleanup r E ''upload-register'' ''UploadCleanupFailed'' in do {
        img \<leftarrow> get_obj;
        if st_buildArtifact (img_status img) = None \<or> \<not> usesArtifactPVC img then ret (Inr True)
        else case st_uploadJobRef (img_status img) of
          None \<Rightarrow> cleanup_upload_job r E
        | Some ref \<Rightarrow> do {
            got \<leftarrow> query (e_getJob E (img_namespace img) ref);
            case got of
              GetError err \<Rightarrow> failed (wrapf ''get upload job: '' err)
            | NotFound _ \<Rightarrow> cleanup_upload_job r E
            | Found uploadJob \<Rightarrow>
                if job_deletionTimestamp uploadJob = None \<and> \<not> isJobSucceeded uploadJob
                     \<and> \<not> isJobFailed uploadJob then do {
                  deleted \<leftarrow> command (DeleteJob (img_namespace img) (job_name uploadJob))
                    (e_deleteJob E (img_namespace img) (job_name uploadJob));
                  case deleted of
                    DeleteError err \<Rightarrow> failed (wrapf ''delete active upload job: '' err)
                  | _ \<Rightarrow> do {
                      recordEvent r EventNormal ''UploadCleanupPending''
                        (''Upload Job '' @ quoted (job_name uploadJob) @ '' is being stopped before cleanup'');
                      ret (Inr False)
                    }
                }
                else if job_deletionTimestamp uploadJob \<noteq> None then ret (Inr False)
                else cleanup_upload_job r E
          }
      })"

section \<open>Remote builds\<close>

definition fail_remote_cleanup :: "Reconciler \<Rightarrow> 'w Env \<Rightarrow> go_error \<Rightarrow> ('w, go_error option) handler" where
  "fail_remote_cleanup r E err = do {
     res \<leftarrow> (fail_cleanup r E ''remote-build'' ''RemoteBuildCleanupFailed'' err :: ('w, go_error + unit) handler);
     ret (Some err)
   }"

text \<open>The cleanup by the selected plugin; a plugin without the cleanup interface has nothing to do.\<close>

definition remote_cleanup_call ::
    "Reconciler \<Rightarrow> 'w Env \<Rightarrow> VMImage \<Rightarrow> TargetSpec \<Rightarrow> string \<Rightarrow> Plugin \<Rightarrow> ('w, go_error option) handler" where
  "remote_cleanup_call r E img target providerName p =
     (if \<not> (pl_buildModes p \<noteq> None \<and> pl_cleanup p) then ret None
      else do {
        init \<leftarrow> initProviderForTarget r E (img_namespace img) target p;
        case init of
          Some err \<Rightarrow>
            fail_remote_cleanup r E
              (wrapf (''initialise provider '' @ quoted providerName @ '' for remote cleanup: '') err)
        | None \<Rightarrow> do {
            cleaned \<leftarrow> command (CleanupRemote p (remoteBuildRequest E img target))
              (e_cleanupRemote E p (remoteBuildRequest E img target));
            case cleaned of
              Some err \<Rightarrow> fail_remote_cleanup r E (wrapf ''provider remote cleanup: '' err)
            | None \<Rightarrow> ret None
          }
      })"

definition cleanupRemoteBuild :: "Reconciler \<Rightarrow> 'w Env \<Rightarrow> ('w, go_error option) handler" where
  "cleanupRemoteBuild r E = do {
     img \<leftarrow> get_obj;
     case spec_targets (img_spec img) of
       [target] \<Rightarrow>
         if buildMode img \<noteq> BuildModeRemote then ret None
         else do {
           name \<leftarrow> providerNameForTarget E (img_namespace img) target;
           case name of
             Inl err \<Rightarrow> fail_remote_cleanup r E (wrapf ''provider lookup failed: '' err)
           | Inr providerName \<Rightarrow> do {
               selected \<leftarrow> providerPlugin E providerName;
               case selected of
                 Inl err \<Rightarrow> fail_remote_cleanup r E (wrapf (''get provider '' @ quoted providerName @ '': '') err)
               | Inr (p, owned) \<Rightarrow> do {
                   result \<leftarrow> remote_cleanup_call r E img target providerName p;
                   (if owned then closeProviderPlugin E p else ret ());
                   ret result
                 }
             }
         }
     | _ \<Rightarrow> ret None
   }"

section \<open>Garbage collection of revisions\<close>

record revisionGroup =
  grp_created :: int
  grp_jobs :: "Job list"
  grp_pvcs :: "PVC list"

type_synonym groups = "(string \<times> revisionGroup) list"

text \<open>The group of a hash, created or dated up by \<open>ensure\<close>, with the item appended. The list
  keeps the groups in the order they were first seen.\<close>

definition ensure_group :: "string \<Rightarrow> int \<Rightarrow> (revisionGroup \<Rightarrow> revisionGroup) \<Rightarrow> groups \<Rightarrow> groups" where
  "ensure_group hash created add groups =
     upsert_first fst hash
       (\<lambda>(h, g). (h, add (if created > grp_created g then g\<lparr>grp_created := created\<rparr> else g)))
       (hash, add \<lparr>grp_created = created, grp_jobs = [], grp_pvcs = []\<rparr>) groups"

definition add_job :: "string \<Rightarrow> Job \<Rightarrow> groups \<Rightarrow> groups" where
  "add_job current job groups =
     (let hash = get_str (job_labels job) ''imagebuilder.io/revision'' in
      if hash = '''' \<or> hash = current then groups
      else ensure_group hash (job_creationTimestamp job) (\<lambda>g. g\<lparr>grp_jobs := grp_jobs g @ [job]\<rparr>) groups)"

definition add_pvc :: "string \<Rightarrow> PVC \<Rightarrow> groups \<Rightarrow> groups" where
  "add_pvc current pvc groups =
     (let hash = get_str (pvcl_labels pvc) ''imagebuilder.io/revision'' in
      if hash = '''' \<or> hash = current then groups
      else ensure_group hash (pvcl_creationTimestamp pvc) (\<lambda>g. g\<lparr>grp_pvcs := grp_pvcs g @ [pvc]\<rparr>) groups)"

definition revision_selector :: "VMImage \<Rightarrow> strmap" where
  "revision_selector img =
     [''app.kubernetes.io/managed-by'' \<mapsto> ''imagebuilder'', ''imagebuilder.io/vmimage'' \<mapsto> img_name img]"

text \<open>Which entries go: beyond the maximum count, or older than the TTL. The entries are in the
  order of the map iteration, sorted by creation time, newest first, with a stable sort.\<close>

definition expired_entries ::
    "BuildRevisionRetentionSpec \<Rightarrow> int \<Rightarrow> revisionGroup list \<Rightarrow> revisionGroup list" where
  "expired_entries policy now entries =
     map snd (filter (\<lambda>(index, g).
       (case ret_maxCount policy of None \<Rightarrow> False | Some c \<Rightarrow> int index \<ge> c)
       \<or> (case ret_ttl policy of None \<Rightarrow> False | Some ttl \<Rightarrow> ttl \<ge> 0 \<and> now - grp_created g \<ge> ttl))
       (enumerate 0 (sort_key (\<lambda>g. - grp_created g) entries)))"

definition delete_historical_job :: "'w Env \<Rightarrow> Job \<Rightarrow> ('w, go_error option) handler" where
  "delete_historical_job E job = do {
     deleted \<leftarrow> command (DeleteJob (job_namespace job) (job_name job)) (e_deleteJob E (job_namespace job) (job_name job));
     ret (case deleted of
            DeleteError err \<Rightarrow> Some (wrapf (''delete historical Job '' @ quoted (job_name job) @ '': '') err)
          | _ \<Rightarrow> None)
   }"

definition delete_historical_pvc :: "'w Env \<Rightarrow> PVC \<Rightarrow> ('w, go_error option) handler" where
  "delete_historical_pvc E pvc = do {
     deleted \<leftarrow> command (DeletePVC (pvcl_namespace pvc) (pvcl_name pvc)) (e_deletePVC E (pvcl_namespace pvc) (pvcl_name pvc));
     ret (case deleted of
            DeleteError err \<Rightarrow> Some (wrapf (''delete historical PVC '' @ quoted (pvcl_name pvc) @ '': '') err)
          | _ \<Rightarrow> None)
   }"

definition garbageCollectHistoricalRevisions :: "'w Env \<Rightarrow> ('w, go_error option) handler" where
  "garbageCollectHistoricalRevisions E = do {
     img \<leftarrow> get_obj;
     case bld_revisionRetention (spec_build (img_spec img)) of
       None \<Rightarrow> ret None
     | Some policy \<Rightarrow>
         if ret_maxCount policy = None \<and> ret_ttl policy = None then ret None
         else
           (let current = Hash (e_sha256 E) (img_revision img) in do {
              jobs \<leftarrow> query (e_listJobs E (img_namespace img) (revision_selector img));
              case jobs of
                Inl err \<Rightarrow> ret (Some (wrapf ''list revision Jobs: '' err))
              | Inr js \<Rightarrow> do {
                  pvcs \<leftarrow> query (e_listPVCs E (img_namespace img) (revision_selector img));
                  case pvcs of
                    Inl err \<Rightarrow> ret (Some (wrapf ''list revision PVCs: '' err))
                  | Inr ps \<Rightarrow>
                      (let groups = fold (add_pvc current) ps (fold (add_job current) js []) in do {
                         order \<leftarrow> query (e_shuffle E (map fst groups));
                         now \<leftarrow> query (e_now E);
                         for_each (expired_entries policy now
                             (List.map_filter (\<lambda>hash. map_of groups hash) order)) (\<lambda>g. do {
                           failed \<leftarrow> for_each (grp_jobs g) (delete_historical_job E);
                           case failed of
                             Some err \<Rightarrow> ret (Some err)
                           | None \<Rightarrow> for_each (grp_pvcs g) (delete_historical_pvc E)
                         })
                       })
                }
            })
   }"

section \<open>Frames\<close>

definition cleanup_call :: "call \<Rightarrow> bool" where
  "cleanup_call c \<longleftrightarrow>
     (case c of
        UpdateObject img e \<Rightarrow> False | CreateLease l x \<Rightarrow> False | UpdateLease l x \<Rightarrow> False
      | DeleteLease ns n x \<Rightarrow> False | CreatePVC p x \<Rightarrow> False | ReconcileRemote p q \<Rightarrow> False | _ \<Rightarrow> True)"

lemma does_fail_cleanup:
  assumes "\<And>n ls. A (MetricInc n ls)" and "\<And>t x m. A (Event t x m)" and "\<And>img e. A (UpdateStatus img e)"
  shows "does A (same_core {''CleanupFailed''}) (fail_cleanup r E scope reason err)"
  unfolding fail_cleanup_def by (intro does_intro does_markCleanupFailure assms)

lemma does_cleanup_upload_job:
  assumes "\<And>n ls. A (MetricInc n ls)" and "\<And>t x m. A (Event t x m)" and "\<And>img e. A (UpdateStatus img e)"
    and "\<And>j x. A (CreateJob j x)" and "\<And>s e. A (ApplySecret s e)"
  shows "does A (same_core {''CleanupFailed''}) (cleanup_upload_job r E)"
  unfolding cleanup_upload_job_def Let_def by (intro does_intro does_fail_cleanup assms)

lemma does_cleanupLocalUpload:
  assumes "\<And>n ls. A (MetricInc n ls)" and "\<And>t x m. A (Event t x m)" and "\<And>img e. A (UpdateStatus img e)"
    and "\<And>j x. A (CreateJob j x)" and "\<And>s e. A (ApplySecret s e)" and "\<And>ns n x. A (DeleteJob ns n x)"
  shows "does A (same_core {''CleanupFailed''}) (cleanupLocalUpload r E)"
  unfolding cleanupLocalUpload_def Let_def
  by (intro does_intro does_fail_cleanup does_cleanup_upload_job assms)

lemma does_cleanupRemoteBuild:
  assumes "\<And>n ls. A (MetricInc n ls)" and "\<And>t x m. A (Event t x m)" and "\<And>img e. A (UpdateStatus img e)"
    and "\<And>p c e. safe_config E c \<Longrightarrow> A (InitPlugin p c e)" and "\<And>p q e. A (CleanupRemote p q e)"
    and "\<And>p. A (ClosePlugin p)"
  shows "does A (same_core {''CleanupFailed''}) (cleanupRemoteBuild r E)"
  unfolding cleanupRemoteBuild_def remote_cleanup_call_def fail_remote_cleanup_def
  by (intro does_intro does_fail_cleanup only_initProviderForTarget assms)

lemma only_garbageCollect:
  assumes "\<And>ns n x. A (DeleteJob ns n x)" and "\<And>ns n x. A (DeletePVC ns n x)" and "reflp R" and "transp R"
  shows "does A R (garbageCollectHistoricalRevisions E)"
  unfolding garbageCollectHistoricalRevisions_def Let_def delete_historical_job_def delete_historical_pvc_def
  by (intro does_intro assms)

end
