(* ===== verification/Reconcile.thy ===== *)
theory Reconcile
  imports Cleanup
begin

text \<open>
  The reconciliation of a \<open>VMImage\<close> (\<open>Reconcile\<close> and the phase handlers of
  \<open>pkg/controller/vmimage/reconciler.go\<close>), one definition per method. The outcome of a handler is
  the requeue delay and the error. Log lines are left out.
\<close>

section \<open>Pending\<close>

text \<open>The validation loop over the targets: the message of the failure, if any, and the plugins
  whose closing is deferred, last deferred first.\<close>

fun pending_targets ::
    "Reconciler \<Rightarrow> 'w Env \<Rightarrow> string \<Rightarrow> TargetSpec list \<Rightarrow> Plugin list \<Rightarrow>
     ('w, string option \<times> Plugin list) handler" where
  "pending_targets r E namespace [] owned = ret (None, owned)"
| "pending_targets r E namespace (target # targets) owned = do {
     name \<leftarrow> providerNameForTarget E namespace target;
     case name of
       Inl err \<Rightarrow> ret (Some (''provider lookup failed: '' @ err_msg err), owned)
     | Inr providerName \<Rightarrow> do {
         selected \<leftarrow> providerPlugin E providerName;
         case selected of
           Inl err \<Rightarrow>
             ret (Some (''provider '' @ quoted providerName @ '' is not installed or not healthy: '' @ err_msg err), owned)
         | Inr (p, providerOwned) \<Rightarrow>
             (let owned' = (if providerOwned then p # owned else owned) in do {
                init \<leftarrow> initProviderForTarget r E namespace target p;
                case init of
                  Some err \<Rightarrow>
                    ret (Some (''provider '' @ quoted providerName @ '' config '' @
                      quoted (tgt_providerConfigRef target) @ '' rejected: '' @ err_msg err), owned')
                | None \<Rightarrow> do {
                    valid \<leftarrow> query (e_pluginValidate E p target);
                    case valid of
                      Some err \<Rightarrow>
                        ret (Some (''provider '' @ quoted providerName @ '' rejected target '' @
                          quoted (tgt_providerConfigRef target) @ '': '' @ err_msg err), owned')
                    | None \<Rightarrow> pending_targets r E namespace targets owned'
                  }
              })
       }
   }"

fun close_all :: "'w Env \<Rightarrow> Plugin list \<Rightarrow> ('w, unit) handler" where
  "close_all E [] = ret ()"
| "close_all E (p # ps) = do { closeProviderPlugin E p; close_all E ps }"

text \<open>The part of \<open>reconcilePending\<close> from the acquisition of the slots on.\<close>

definition start_local_build :: "Reconciler \<Rightarrow> 'w Env \<Rightarrow> ('w, outcome) handler" where
  "start_local_build r E = do {
     acquired \<leftarrow> acquireBuildSlots r E;
     case acquired of
       Inl err \<Rightarrow> ret (0, Some err)
     | Inr acquisition \<Rightarrow>
         if \<not> acq_Acquired acquisition then do {
           setStep E ''Build'' ''Pending'' ''BuildQueued'' (acq_Reason acquisition) '''';
           setCondition E ''Queued'' ConditionTrue ''BuildConcurrencyLimitReached'' (acq_Reason acquisition);
           updated \<leftarrow> update_status E;
           case updated of
             Some err \<Rightarrow> ret (0, Some (wrapf ''update status to queued: '' err))
           | None \<Rightarrow> do {
               recordEvent r EventNormal ''BuildQueued'' (acq_Reason acquisition);
               ret (requeueAfter, None)
             }
         }
         else do {
           set_status (\<lambda>st. st\<lparr>st_buildLeaseRefs := acq_Refs acquisition, st_scheduledNodeName := ''''\<rparr>);
           img \<leftarrow> get_obj;
           case e_assembleBuild E img of
             Inl err \<Rightarrow> do {
               released \<leftarrow> releaseBuildSlots E (acq_Refs acquisition) (leaseHolder img);
               setFailed r E (''assemble build job: '' @ err_msg err)
             }
           | Inr job \<Rightarrow> do {
               created \<leftarrow> command (CreateJob job) (e_createJob E job);
               case created of
                 CreateError err \<Rightarrow> do {
                   released \<leftarrow> releaseBuildSlots E (acq_Refs acquisition) (leaseHolder img);
                   ret (0, Some (wrapf ''create build job: '' err))
                 }
               | _ \<Rightarrow> do {
                   now \<leftarrow> query (e_now E);
                   set_status (\<lambda>st. st\<lparr>st_phase := PhaseBuilding, st_startTime := Some now,
                                       st_buildJobRef := Some (job_name job)\<rparr>);
                   setStep E ''Build'' ''Running'' ''BuildJobCreated'' ''Build Job created successfully'' '''';
                   setStep E ''Boot'' ''Pending'' ''WaitingForBuild'' ''Guest boot has not started yet'' '''';
                   setStep E ''Readiness'' ''Pending'' ''WaitingForBoot'' ''Guest readiness has not started yet'' '''';
                   setStep E ''Provisioning'' ''Pending'' ''WaitingForReadiness'' ''Provisioning has not started yet'' '''';
                   setStep E ''Sanitization'' ''Pending'' ''WaitingForProvisioning'' ''Credential sanitization has not started yet'' '''';
                   setStep E ''Upload'' ''Pending'' ''WaitingForBuild'' ''Upload has not started yet'' '''';
                   setCondition E ''BuildStarted'' ConditionTrue ''BuildJobCreated'' ''Build Job created successfully'';
                   updated \<leftarrow> update_status E;
                   case updated of
                     Some err \<Rightarrow> ret (0, Some (wrapf ''update status to Building: '' err))
                   | None \<Rightarrow> do {
                       (if created = Created then do {
                          t \<leftarrow> query (e_now E);
                          emit (MetricObserve ''QueueDurationSeconds'' [metricProvider img, metricFormat img]
                            (t - img_creationTimestamp img, second));
                          emit (MetricInc ''ActiveBuilds'' [metricProvider img, metricFormat img])
                        } else ret ());
                       recordEvent r EventNormal ''BuildStarted'' (''Build Job '' @ quoted (job_name job) @ '' created'');
                       ret (requeueAfter, None)
                     }
                 }
             }
         }
   }"

definition panic_error :: go_error where
  "panic_error = errorf ''panic: cannot parse the artifact volume size [recovered]''"

definition reconcilePending_local :: "Reconciler \<Rightarrow> 'w Env \<Rightarrow> ('w, outcome) handler" where
  "reconcilePending_local r E = do {
     img \<leftarrow> get_obj;
     (failure, owned) \<leftarrow> pending_targets r E (img_namespace img) (spec_targets (img_spec img)) [];
     out \<leftarrow> (case failure of
        Some message \<Rightarrow> setFailed r E message
      | None \<Rightarrow> do {
          storage \<leftarrow> ensureArtifactStorage E;
          case storage of
            None \<Rightarrow> ret (0, Some panic_error)
          | Some (Some err) \<Rightarrow> setFailed r E (''prepare artifact storage: '' @ err_msg err)
          | Some None \<Rightarrow> start_local_build r E
        });
     close_all E owned;
     ret out
   }"

section \<open>Building and provisioning\<close>

definition dec_active_builds :: "('w, unit) handler" where
  "dec_active_builds = do {
     img \<leftarrow> get_obj;
     emit (MetricDec ''ActiveBuilds'' [metricProvider img, metricFormat img])
   }"

definition clear_slots :: "('w, unit) handler" where
  "clear_slots = set_status (\<lambda>st. st\<lparr>st_buildLeaseRefs := [], st_scheduledNodeName := ''''\<rparr>)"

definition build_succeeded :: "Reconciler \<Rightarrow> 'w Env \<Rightarrow> Job \<Rightarrow> ('w, outcome) handler" where
  "build_succeeded r E job = do {
     img \<leftarrow> get_obj;
     built \<leftarrow> buildArtifactFromJob E (img_namespace img) job;
     case built of
       Inl err \<Rightarrow> setFailed r E (''read build result: '' @ err_msg err)
     | Inr artifact \<Rightarrow> do {
         set_status (\<lambda>st. st\<lparr>st_phase := PhaseUploading, st_buildArtifact := Some artifact\<rparr>);
         setStep E ''Build'' ''Succeeded'' ''JobSucceeded'' ''Build Job completed successfully'' '''';
         setStep E ''Boot'' ''Succeeded'' ''JobSucceeded'' ''Guest boot completed inside the build job'' '''';
         setStep E ''Readiness'' ''Succeeded'' ''JobSucceeded'' ''Guest readiness completed inside the build job'' '''';
         (if spec_provisioners (img_spec img) \<noteq> [] then do {
            set_status (\<lambda>st. st\<lparr>st_provisionerResultRef := workspaceResult\<rparr>);
            setStep E ''Provisioning'' ''Succeeded'' ''JobSucceeded'' ''Provisioners completed inside the build job'' workspaceResult
          }
          else setStep E ''Provisioning'' ''Skipped'' ''NoProvisioners'' ''No provisioners configured'' '''');
         (if hasGeneratedGuestCredentials img then
            setStep E ''Sanitization'' ''Succeeded'' ''JobSucceeded'' ''Generated guest credentials were sanitized inside the build job'' ''''
          else setStep E ''Sanitization'' ''Skipped'' ''NoGeneratedCredentials'' ''No generated guest credentials configured'' '''');
         setStep E ''Upload'' ''Running'' ''WaitingForUploadJob'' ''Waiting for upload/register job'' '''';
         setCondition E ''BuildComplete'' ConditionTrue ''JobSucceeded'' ''Build Job completed successfully'';
         observeBuildDuration E ''Succeeded'';
         dec_active_builds;
         released \<leftarrow> releaseImageBuildSlots E;
         case released of
           Some err \<Rightarrow> ret (0, Some (wrapf ''release build slots: '' err))
         | None \<Rightarrow> do {
             clear_slots;
             updated \<leftarrow> update_status E;
             case updated of
               Some err \<Rightarrow> ret (0, Some (wrapf ''update status to Uploading: '' err))
             | None \<Rightarrow> do {
                 recordEvent r EventNormal ''BuildComplete''
                   (''Build Job '' @ quoted (job_name job) @ '' completed successfully'');
                 ret (nanosecond, None)
               }
           }
       }
   }"

definition build_failed :: "Reconciler \<Rightarrow> 'w Env \<Rightarrow> Job \<Rightarrow> ('w, outcome) handler" where
  "build_failed r E job = do {
     img \<leftarrow> get_obj;
     detail \<leftarrow> buildFailureFromJob E (img_namespace img) job;
     let reason = (case detail of Inr (why, err) \<Rightarrow> if why \<noteq> '''' then why else ''BuildFailed''
                                | Inl _ \<Rightarrow> ''BuildFailed'');
         message = (case detail of
             Inr (why, err) \<Rightarrow> if err \<noteq> '''' then err else ''build Job failed - check Job logs for details''
           | Inl _ \<Rightarrow> ''build Job failed - check Job logs for details'') in do {
       setBuildFailureSteps E reason message;
       observeBuildDuration E reason;
       dec_active_builds;
       emit (MetricInc ''FailuresTotal'' [''Build'', reason, metricProvider img]);
       released \<leftarrow> releaseImageBuildSlots E;
       case released of
         Some err \<Rightarrow> ret (0, Some (wrapf ''release build slots after failure: '' err))
       | None \<Rightarrow> do { clear_slots; setFailedWithReason r E reason message }
     }
   }"

definition build_running :: "Reconciler \<Rightarrow> 'w Env \<Rightarrow> Job \<Rightarrow> ('w, outcome) handler" where
  "build_running r E job = do {
     renewed \<leftarrow> renewImageBuildSlots E;
     case renewed of
       Some err \<Rightarrow> ret (0, Some (wrapf ''renew build leases: '' err))
     | None \<Rightarrow> do {
         img \<leftarrow> get_obj;
         let timeout = build_timeout img in do {
         expired \<leftarrow> (case st_startTime (img_status img) of None \<Rightarrow> ret False
           | Some t \<Rightarrow> do { now \<leftarrow> query (e_now E); ret (now - t > timeout) });
         if expired then do {
           setStep E ''Build'' ''Failed'' ''BuildTimedOut'' (''Build timed out after '' @ show_duration timeout) '''';
           dec_active_builds;
           released \<leftarrow> releaseImageBuildSlots E;
           case released of
             Some err \<Rightarrow> ret (0, Some (wrapf ''release build slots after timeout: '' err))
           | None \<Rightarrow> do {
               clear_slots;
               setFailed r E (''build timed out after '' @ show_duration timeout)
             }
         }
         else ret (requeueAfter, None)
         }
       }
   }"

definition reconcileBuilding :: "Reconciler \<Rightarrow> 'w Env \<Rightarrow> ('w, outcome) handler" where
  "reconcileBuilding r E = do {
     img \<leftarrow> get_obj;
     case st_buildJobRef (img_status img) of
       None \<Rightarrow> setFailed r E ''build job reference missing from status''
     | Some ref \<Rightarrow> do {
         got \<leftarrow> query (e_getJob E (img_namespace img) ref);
         case got of
           NotFound _ \<Rightarrow> setFailed r E ''build job disappeared unexpectedly''
         | GetError err \<Rightarrow> ret (0, Some (wrapf ''get build job: '' err))
         | Found job \<Rightarrow> do {
             progressed \<leftarrow>
               (if img_phase img = PhaseBuilding \<and> jobHasActiveBuildPod job then do {
                  set_status (\<lambda>st. st\<lparr>st_phase := PhaseProvisioning\<rparr>);
                  setStep E ''Build'' ''Running'' ''BuildJobRunning'' ''Build Job is running'' '''';
                  setStep E ''Boot'' ''Running'' ''GuestBooting'' ''Guest boot/readiness phase is in progress'' '''';
                  setStep E ''Readiness'' ''Running'' ''WaitingForGuest'' ''Waiting for guest management endpoint'' '''';
                  setStep E ''Provisioning'' ''Running'' ''BuildJobRunning'' ''Provisioning is coordinated inside the build job'' '''';
                  setCondition E ''Provisioning'' ConditionTrue ''BuildJobRunning'' ''Provisioning is coordinated inside the build job'';
                  updated \<leftarrow> update_status E;
                  case updated of
                    Some err \<Rightarrow> ret (Some err)
                  | None \<Rightarrow> do {
                      recordEvent r EventNormal ''ProvisioningStarted''
                        (''Provisioning is coordinated in Job '' @ quoted (job_name job));
                      ret None
                    }
                }
                else ret None);
             case progressed of
               Some err \<Rightarrow> ret (0, Some (wrapf ''update status to Provisioning: '' err))
             | None \<Rightarrow>
                 if isJobSucceeded job then build_succeeded r E job
                 else if isJobFailed job then build_failed r E job
                 else build_running r E job
           }
       }
   }"

section \<open>Remote builds\<close>

definition retryRemoteBuild ::
    "Reconciler \<Rightarrow> 'w Env \<Rightarrow> string \<Rightarrow> go_error \<Rightarrow> int \<Rightarrow> int \<Rightarrow> ('w, outcome) handler" where
  "retryRemoteBuild r E providerName providerErr timeout startTime = do {
     set_status (\<lambda>st. st\<lparr>st_remoteRetryCount := st_remoteRetryCount st + 1\<rparr>);
     img \<leftarrow> get_obj;
     t \<leftarrow> query (e_now E);
     let delay = retry_delay (st_remoteRetryCount (img_status img)) providerErr (timeout - (t - startTime)) in do {
       now \<leftarrow> query (e_now E);
       set_status (\<lambda>st. st\<lparr>st_nextRemoteRetryTime := Some (now + delay)\<rparr>);
       setCondition E ''RemoteBuildRetrying'' ConditionTrue ''TransientProviderError''
         ''Remote provider is temporarily unavailable; reconciliation will retry'';
       emit (MetricInc ''RemoteBuildRetriesTotal'' [providerName]);
       updated \<leftarrow> update_status E;
       case updated of
         Some err \<Rightarrow> ret (0, Some (wrapf ''update transient remote build retry status: '' err))
       | None \<Rightarrow> do {
           recordEvent r EventWarning ''RemoteBuildRetrying''
             (''Remote provider '' @ quoted providerName @ '' is temporarily unavailable; retry '' @
              show_int (sint (st_remoteRetryCount (img_status img))) @ '' in '' @ show_duration delay);
           ret (delay, None)
         }
     }
   }"

definition evidence_required :: "VMImage \<Rightarrow> bool" where
  "evidence_required img =
     (case spec_evidence (img_spec img) of None \<Rightarrow> False | Some p \<Rightarrow> ev_required p)"

definition start_remote_build :: "Reconciler \<Rightarrow> 'w Env \<Rightarrow> string \<Rightarrow> ('w, outcome) handler" where
  "start_remote_build r E providerName = do {
     now \<leftarrow> query (e_now E);
     img \<leftarrow> get_obj;
     set_status (\<lambda>st. st\<lparr>st_phase := PhaseBuilding, st_startTime := Some now\<rparr>);
     setStep E ''Build'' ''Running'' ''RemoteBuildStarted'' ''Remote build requested from provider'' '''';
     setStep E ''Boot'' ''Pending'' ''WaitingForRemoteBuild'' ''Guest boot is provider-managed'' '''';
     setStep E ''Readiness'' ''Pending'' ''WaitingForRemoteBuild'' ''Guest readiness is provider-managed'' '''';
     setStep E ''Provisioning'' ''Pending'' ''WaitingForRemoteBuild'' ''Provisioning is provider-managed'' '''';
     setStep E ''Sanitization'' ''Pending'' ''WaitingForRemoteBuild'' ''Sanitization is provider-managed'' '''';
     (if evidence_required img then
        setStep E ''Evidence'' ''Pending'' ''WaitingForRemoteEvidence'' ''Supply-chain evidence is provider-managed'' ''''
      else setStep E ''Evidence'' ''Skipped'' ''EvidenceNotRequired'' ''Supply-chain evidence was not required'' '''');
     setStep E ''Upload'' ''Pending'' ''WaitingForRemoteBuild'' ''Registration is provider-managed'' '''';
     setCondition E ''BuildStarted'' ConditionTrue ''RemoteBuildStarted'' ''Remote build requested from provider'';
     updated \<leftarrow> update_status E;
     case updated of
       Some err \<Rightarrow> ret (0, Some (wrapf ''update status to remote building: '' err))
     | None \<Rightarrow> do {
         recordEvent r EventNormal ''RemoteBuildStarted''
           (''Remote build requested from provider '' @ quoted providerName);
         ret (nanosecond, None)
       }
   }"

text \<open>A failure after which the provider's resources are cleaned up first.\<close>

definition fail_remote_build ::
    "Reconciler \<Rightarrow> 'w Env \<Rightarrow> string \<Rightarrow> string \<Rightarrow> string \<Rightarrow> string \<Rightarrow> ('w, outcome) handler" where
  "fail_remote_build r E providerName reason message cleanupContext = do {
     emit (MetricInc ''FailuresTotal'' [''RemoteBuild'', reason, providerName]);
     cleaned \<leftarrow> cleanupRemoteBuild r E;
     case cleaned of
       Some err \<Rightarrow> ret (0, Some (wrapf cleanupContext err))
     | None \<Rightarrow> setFailedWithReason r E reason message
   }"

definition remote_ready ::
    "Reconciler \<Rightarrow> 'w Env \<Rightarrow> string \<Rightarrow> RemoteBuildResult \<Rightarrow> ImageStatus list \<Rightarrow>
     HygieneResultStatus \<Rightarrow> EvidenceStatus \<Rightarrow> ('w, outcome) handler" where
  "remote_ready r E providerName result images hygiene evidence = do {
     now \<leftarrow> query (e_now E);
     img \<leftarrow> get_obj;
     set_status (\<lambda>st. st\<lparr>st_phase := PhaseReady, st_completionTime := Some now, st_images := images,
                         st_hygieneResult := Some hygiene\<rparr>);
     (if spec_evidence (img_spec img) \<noteq> None \<or> rr_Evidence result \<noteq> None then
        set_status (\<lambda>st. st\<lparr>st_evidence := Some evidence\<rparr>) else ret ());
     (case rr_Artifact result of
        None \<Rightarrow> ret ()
      | Some a \<Rightarrow> set_status (\<lambda>st. st\<lparr>st_buildArtifact := Some
          \<lparr>art_path = ba_Path a, art_format = ba_Format a, art_checksum = ba_Checksum a,
           art_sizeBytes = ba_SizeBytes a, art_os = ba_OS a, art_metadata = ba_Metadata a\<rparr>\<rparr>));
     setStep E ''Build'' ''Succeeded'' ''RemoteBuildSucceeded'' ''Remote build completed successfully'' '''';
     setStep E ''Boot'' ''Succeeded'' ''RemoteBuildSucceeded'' ''Guest boot completed on provider'' '''';
     setStep E ''Readiness'' ''Succeeded'' ''RemoteBuildSucceeded'' ''Guest readiness completed on provider'' '''';
     (if spec_provisioners (img_spec img) \<noteq> [] then
        setStep E ''Provisioning'' ''Succeeded'' ''RemoteBuildSucceeded'' ''Provisioning completed on provider'' ''''
      else setStep E ''Provisioning'' ''Skipped'' ''NoProvisioners'' ''No provisioners configured'' '''');
     (if hyg_status hygiene = ''passed'' then
        setStep E ''Sanitization'' ''Succeeded'' ''RemoteHygienePassed'' (hyg_message hygiene) (hyg_resultRef hygiene)
      else setStep E ''Sanitization'' ''Succeeded'' ''RemoteHygieneUnknown'' (hyg_message hygiene) (hyg_resultRef hygiene));
     (if rr_Evidence result \<noteq> None \<and> evs_status evidence = ''passed'' then
        setStep E ''Evidence'' ''Succeeded'' ''RemoteEvidencePassed'' (evs_message evidence) (evs_provenanceRef evidence)
      else if evidence_required img then
        setStep E ''Evidence'' ''Failed'' ''RemoteEvidenceMissing'' ''Required remote evidence was not returned'' ''''
      else setStep E ''Evidence'' ''Skipped'' ''EvidenceNotRequired'' ''Supply-chain evidence was not required'' '''');
     setStep E ''Upload'' ''Succeeded'' ''RemoteImageRegistered'' ''Remote image registered by provider'' '''';
     setCondition E ''Ready'' ConditionTrue ''RemoteBuildSucceeded'' ''Remote build completed successfully'';
     updated \<leftarrow> update_status E;
     case updated of
       Some err \<Rightarrow> ret (0, Some (wrapf ''update remote build ready status: '' err))
     | None \<Rightarrow> do {
         recordEvent r EventNormal ''Ready'' (''Remote image registered on provider '' @ quoted providerName);
         ret (0, None)
       }
   }"

definition remote_done ::
    "Reconciler \<Rightarrow> 'w Env \<Rightarrow> string \<Rightarrow> TargetSpec \<Rightarrow> RemoteBuildResult \<Rightarrow> ('w, outcome) handler" where
  "remote_done r E providerName target result =
     (let images = remoteImageStatuses (rr_Images result) target providerName;
          hygiene = remoteHygieneStatus (rr_Hygiene result) in
      if images = [] then
        setFailedWithReason r E ''RemoteBuildFailed''
          (''provider '' @ quoted providerName @ '' completed remote build without image references'')
      else if hyg_status hygiene = ''failed'' then do {
        set_status (\<lambda>st. st\<lparr>st_hygieneResult := Some hygiene\<rparr>);
        setStep E ''Sanitization'' ''Failed'' ''RemoteHygieneFailed'' (hyg_message hygiene) (hyg_resultRef hygiene);
        fail_remote_build r E providerName ''RemoteHygieneFailed'' (hyg_message hygiene)
          ''cleanup remote build after hygiene failure: ''
      }
      else do {
        now \<leftarrow> query (e_now E);
        img \<leftarrow> get_obj;
        order \<leftarrow> query (e_shuffle E evidence_fields);
        let evidence = remoteEvidenceStatus now (rr_Evidence result) in
        case validateRemoteEvidence order (spec_evidence (img_spec img)) evidence of
          Some err \<Rightarrow> do {
            set_status (\<lambda>st. st\<lparr>st_evidence := Some evidence\<rparr>);
            setStep E ''Evidence'' ''Failed'' ''RemoteEvidenceRejected'' (err_msg err) '''';
            fail_remote_build r E providerName ''RemoteEvidenceRejected'' (err_msg err)
              ''cleanup remote build after evidence failure: ''
          }
        | None \<Rightarrow> remote_ready r E providerName result images hygiene evidence
      })"

definition remote_progress ::
    "Reconciler \<Rightarrow> 'w Env \<Rightarrow> string \<Rightarrow> TargetSpec \<Rightarrow> RemoteBuildResult option \<Rightarrow> ('w, outcome) handler" where
  "remote_progress r E providerName target res = do {
     img \<leftarrow> get_obj;
     (if sint (st_remoteRetryCount (img_status img)) > 0 \<or> st_nextRemoteRetryTime (img_status img) \<noteq> None then do {
        set_status (\<lambda>st. st\<lparr>st_remoteRetryCount := 0, st_nextRemoteRetryTime := None\<rparr>);
        setCondition E ''RemoteBuildRetrying'' ConditionFalse ''RemoteBuildRecovered''
          ''Remote provider communication recovered'';
        recordEvent r EventNormal ''RemoteBuildRecovered''
          (''Remote provider '' @ quoted providerName @ '' communication recovered'')
      } else ret ());
     case res of
       None \<Rightarrow>
         setFailedWithReason r E ''RemoteBuildFailed''
           (''provider '' @ quoted providerName @ '' returned an empty remote build result'')
     | Some result \<Rightarrow> do {
         (if rr_OperationRef result \<noteq> '''' \<and> st_remoteBuildRef (img_status img) \<noteq> Some (rr_OperationRef result)
          then set_status (\<lambda>st. st\<lparr>st_remoteBuildRef := Some (rr_OperationRef result)\<rparr>) else ret ());
         updateRemoteSteps E result;
         if \<not> rr_Done result then do {
           updated \<leftarrow> update_status E;
           case updated of
             Some err \<Rightarrow> ret (0, Some (wrapf ''update remote build status: '' err))
           | None \<Rightarrow> do {
               recordEvent r EventNormal ''RemoteBuildProgress'' (remoteBuildMessage result);
               ret (requeueAfter, None)
             }
         }
         else remote_done r E providerName target result
       }
   }"

definition remote_call ::
    "Reconciler \<Rightarrow> 'w Env \<Rightarrow> string \<Rightarrow> TargetSpec \<Rightarrow> Plugin \<Rightarrow> int \<Rightarrow> int \<Rightarrow> ('w, outcome) handler" where
  "remote_call r E providerName target p timeout startTime = do {
     img \<leftarrow> get_obj;
     init \<leftarrow> initProviderForTarget r E (img_namespace img) target p;
     case init of
       Some err \<Rightarrow>
         if IsTransient (Some err) then retryRemoteBuild r E providerName err timeout startTime
         else setFailedWithReason r E ''RemoteBuildConfigInvalid''
           (''provider '' @ quoted providerName @ '' config '' @ quoted (tgt_providerConfigRef target) @
            '' rejected: '' @ err_msg err)
     | None \<Rightarrow> do {
         req \<leftarrow> remoteBuildRequest_auth r E target;
         case req of
           Inl err \<Rightarrow> setFailedWithReason r E ''RemoteBuildAuthFailed'' (err_msg err)
         | Inr q \<Rightarrow> do {
             res \<leftarrow> command (\<lambda>_. ReconcileRemote p q) (e_reconcileRemote E p q);
             case res of
               Inl err \<Rightarrow>
                 if IsTransient (Some err) then retryRemoteBuild r E providerName err timeout startTime
                 else do {
                   setRemoteFailureSteps E ''RemoteBuildFailed'' (err_msg err);
                   fail_remote_build r E providerName ''RemoteBuildFailed''
                     (''provider '' @ quoted providerName @ '' remote build failed: '' @ err_msg err)
                     ''cleanup remote build after provider failure: ''
                 }
             | Inr result \<Rightarrow> remote_progress r E providerName target result
           }
       }
   }"

definition remote_step ::
    "Reconciler \<Rightarrow> 'w Env \<Rightarrow> string \<Rightarrow> TargetSpec \<Rightarrow> Plugin \<Rightarrow> ('w, outcome) handler" where
  "remote_step r E providerName target p = do {
     img \<leftarrow> get_obj;
     if \<not> (case pl_buildModes p of None \<Rightarrow> False | Some modes \<Rightarrow> supportsBuildMode modes BuildModeRemote) then
       setFailedWithReason r E ''RemoteBuildUnsupported''
         (''provider '' @ quoted providerName @ '' does not advertise remote build support'')
     else case st_startTime (img_status img) of
       None \<Rightarrow> start_remote_build r E providerName
     | Some startTime \<Rightarrow>
         (let timeout = build_timeout img in do {
            now \<leftarrow> query (e_now E);
            if now - startTime > timeout then do {
              setRemoteFailureSteps E ''RemoteBuildTimedOut'' (''Remote build timed out after '' @ show_duration timeout);
              fail_remote_build r E providerName ''RemoteBuildTimedOut''
                (''remote build timed out after '' @ show_duration timeout)
                ''cleanup remote build after timeout: ''
            }
            else case st_nextRemoteRetryTime (img_status img) of
                Some retryTime \<Rightarrow> do {
                  t \<leftarrow> query (e_now E);
                  if retryTime - t > 0 then ret (retryTime - t, None)
                  else remote_call r E providerName target p timeout startTime
                }
              | None \<Rightarrow> remote_call r E providerName target p timeout startTime
          })
   }"

definition reconcileRemoteBuild :: "Reconciler \<Rightarrow> 'w Env \<Rightarrow> ('w, outcome) handler" where
  "reconcileRemoteBuild r E = do {
     img \<leftarrow> get_obj;
     case spec_targets (img_spec img) of
       [target] \<Rightarrow> do {
         name \<leftarrow> providerNameForTarget E (img_namespace img) target;
         case name of
           Inl err \<Rightarrow> setFailed r E (''provider lookup failed: '' @ err_msg err)
         | Inr providerName \<Rightarrow> do {
             selected \<leftarrow> providerPlugin E providerName;
             case selected of
               Inl err \<Rightarrow>
                 setFailedWithReason r E ''RemoteBuildUnsupported''
                   (''provider '' @ quoted providerName @ '' is not installed or not healthy: '' @ err_msg err)
             | Inr (p, owned) \<Rightarrow> do {
                 out \<leftarrow> remote_step r E providerName target p;
                 (if owned then closeProviderPlugin E p else ret ());
                 ret out
               }
           }
       }
     | _ \<Rightarrow> setFailedWithReason r E ''RemoteBuildInvalid'' ''remote build currently requires exactly one target''
   }"

definition reconcilePending :: "Reconciler \<Rightarrow> 'w Env \<Rightarrow> ('w, outcome) handler" where
  "reconcilePending r E = do {
     img \<leftarrow> get_obj;
     if buildMode img = BuildModeRemote then reconcileRemoteBuild r E
     else reconcilePending_local r E
   }"

section \<open>Uploading\<close>

definition start_upload :: "Reconciler \<Rightarrow> 'w Env \<Rightarrow> ('w, outcome) handler" where
  "start_upload r E = do {
     img \<leftarrow> get_obj;
     loaded \<leftarrow> providerConfigsForTargets E;
     case loaded of
       Inl err \<Rightarrow> setFailed r E (''provider lookup failed: '' @ err_msg err)
     | Inr configs \<Rightarrow> do {
         conns \<leftarrow> providerConnectionsForTargets r E configs;
         case conns of
           Inl err \<Rightarrow> setFailed r E (''provider connection setup failed: '' @ err_msg err)
         | Inr connections \<Rightarrow>
             (case e_assembleUpload E img configs connections of
                Inl err \<Rightarrow> setFailed r E (''assemble upload job: '' @ err_msg err)
              | Inr job \<Rightarrow> do {
                  created \<leftarrow> command (CreateJob job) (e_createJob E job);
                  case created of
                    CreateError err \<Rightarrow> ret (0, Some (wrapf ''create upload job: '' err))
                  | _ \<Rightarrow> do {
                      now \<leftarrow> query (e_now E);
                      set_status (\<lambda>st. st\<lparr>st_uploadJobRef := Some (job_name job),
                        st_uploadOperations := initialUploadOperations now configs (spec_targets (img_spec img))\<rparr>);
                      setStep E ''Upload'' ''Running'' ''UploadJobCreated'' ''Upload Job created successfully'' '''';
                      setCondition E ''UploadStarted'' ConditionTrue ''UploadJobCreated'' ''Upload Job created successfully'';
                      updated \<leftarrow> update_status E;
                      case updated of
                        Some err \<Rightarrow> ret (0, Some (wrapf ''update status with upload job ref: '' err))
                      | None \<Rightarrow> do {
                          recordEvent r EventNormal ''UploadStarted''
                            (''Upload Job '' @ quoted (job_name job) @ '' created'');
                          ret (requeueAfter, None)
                        }
                    }
                })
       }
   }"

definition upload_failed :: "Reconciler \<Rightarrow> 'w Env \<Rightarrow> Job \<Rightarrow> ('w, outcome) handler" where
  "upload_failed r E job = do {
     img \<leftarrow> get_obj;
     detail \<leftarrow> uploadFailureFromJob E (img_namespace img) job;
     let reason = (case detail of
           Inr d \<Rightarrow> if d \<noteq> '''' then ''upload Job failed: '' @ d
             else ''upload Job failed '' @ [CHR 0xE2, CHR 0x80, CHR 0x94] @ '' check Job logs for details''
         | Inl _ \<Rightarrow> ''upload Job failed '' @ [CHR 0xE2, CHR 0x80, CHR 0x94] @ '' check Job logs for details'') in do {
       cleaned \<leftarrow> cleanupLocalUpload r E;
       case cleaned of
         Inl cleanupErr \<Rightarrow> do {
           setStep E ''Cleanup'' ''Failed'' ''UploadCleanupFailed'' (err_msg cleanupErr) '''';
           ret (requeueAfter, Some cleanupErr)
         }
       | Inr False \<Rightarrow> do {
           setStep E ''Cleanup'' ''Running'' ''UploadCleanupPending''
             ''Cleaning provider resources before releasing artifact storage'' '''';
           updated \<leftarrow> update_status E;
           case updated of
             Some err \<Rightarrow> ret (0, Some (wrapf ''update upload cleanup status: '' err))
           | None \<Rightarrow> ret (requeueAfter, None)
         }
       | Inr True \<Rightarrow> do {
           now \<leftarrow> query (e_now E);
           set_status (\<lambda>st. st\<lparr>st_uploadOperations :=
             markUploadOperations now (st_uploadOperations st) ''Failed'' reason\<rparr>);
           setStep E ''Upload'' ''Failed'' ''UploadJobFailed'' reason '''';
           setStep E ''Cleanup'' ''Succeeded'' ''UploadCleanupComplete''
             ''Provider resources cleaned before artifact storage release'' '''';
           observeUploadDuration E ''false'';
           emit (MetricInc ''FailuresTotal'' [''Upload'', ''UploadJobFailed'', metricProvider img]);
           setFailed r E reason
         }
     }
   }"

definition upload_running :: "Reconciler \<Rightarrow> 'w Env \<Rightarrow> Job \<Rightarrow> ('w, outcome) handler" where
  "upload_running r E job = do {
     img \<leftarrow> get_obj;
     if job_failed job > maxUploadRetryCount (st_uploadOperations (img_status img)) then do {
       reported \<leftarrow> uploadRetryOperationsFromJob E (img_namespace img) job;
       case reported of
         Inl _ \<Rightarrow> ret (requeueAfter, None)
       | Inr ops \<Rightarrow>
           if ops = [] then ret (requeueAfter, None)
           else do {
             now \<leftarrow> query (e_now E);
             t \<leftarrow> query (e_now E);
             set_status (\<lambda>st. st\<lparr>st_uploadOperations := mergeUploadOperations t (st_uploadOperations st)
               (map (\<lambda>op. op\<lparr>uo_retryCount := job_failed job, uo_lastRetryTime := Some now\<rparr>) ops)
               [] ''Uploading'' ''Upload retry in progress''\<rparr>);
             setStep E ''Upload'' ''Running'' ''UploadRetrying''
               (''Upload retry '' @ show_int (job_failed job) @ '' of 3'') '''';
             updated \<leftarrow> update_status E;
             case updated of
               Some err \<Rightarrow> ret (0, Some (wrapf ''update upload retry status: '' err))
             | None \<Rightarrow> ret (requeueAfter, None)
           }
     }
     else ret (requeueAfter, None)
   }"

definition upload_succeeded :: "Reconciler \<Rightarrow> 'w Env \<Rightarrow> Job \<Rightarrow> ('w, outcome) handler" where
  "upload_succeeded r E job = do {
     img \<leftarrow> get_obj;
     uploaded \<leftarrow> imageStatusesFromUploadJob E (img_namespace img) job;
     case uploaded of
       Inl err \<Rightarrow> setFailed r E (''read upload result: '' @ err_msg err)
     | Inr (images, operations) \<Rightarrow> do {
         now \<leftarrow> query (e_now E);
         t \<leftarrow> query (e_now E);
         set_status (\<lambda>st. st\<lparr>st_phase := PhaseReady, st_completionTime := Some now, st_images := images,
           st_uploadOperations := mergeUploadOperations t (st_uploadOperations st) operations images
             ''Succeeded'' ''Image registered''\<rparr>);
         setStep E ''Upload'' ''Succeeded'' ''AllTargetsRegistered'' ''Image registered on all target platforms'' '''';
         setCondition E ''Ready'' ConditionTrue ''AllTargetsRegistered'' ''Image registered on all target platforms'';
         updated \<leftarrow> update_status E;
         case updated of
           Some err \<Rightarrow> ret (0, Some (wrapf ''update status to Ready: '' err))
         | None \<Rightarrow> do {
             recordEvent r EventNormal ''Ready''
               (''Image registered on '' @ show_nat (length images) @ '' target platform(s)'');
             cleaned \<leftarrow> cleanupArtifactStorage r E True;
             case cleaned of
               Some err \<Rightarrow> ret (0, Some (wrapf ''cleanup artifact storage: '' err))
             | None \<Rightarrow> ret (0, None)
           }
       }
   }"

definition reconcileUploading :: "Reconciler \<Rightarrow> 'w Env \<Rightarrow> ('w, outcome) handler" where
  "reconcileUploading r E = do {
     img \<leftarrow> get_obj;
     if st_buildArtifact (img_status img) = None then
       setFailed r E ''build artifact result missing from status''
     else if \<not> usesArtifactPVC img then
       setFailed r E ''artifactStorage.type=pvc is required for the upload job''
     else case st_uploadJobRef (img_status img) of
       None \<Rightarrow> start_upload r E
     | Some ref \<Rightarrow> do {
         got \<leftarrow> query (e_getJob E (img_namespace img) ref);
         case got of
           NotFound _ \<Rightarrow> setFailed r E ''upload job disappeared unexpectedly''
         | GetError err \<Rightarrow> ret (0, Some (wrapf ''get upload job: '' err))
         | Found job \<Rightarrow>
             if isJobFailed job then upload_failed r E job
             else if \<not> isJobSucceeded job then upload_running r E job
             else upload_succeeded r E job
       }
   }"

section \<open>Deletion\<close>

definition remove_finalizer :: "'w Env \<Rightarrow> ('w, outcome) handler" where
  "remove_finalizer E = do {
     released \<leftarrow> releaseImageBuildSlots E;
     case released of
       Some err \<Rightarrow> ret (0, Some (wrapf ''release build slots during deletion: '' err))
     | None \<Rightarrow> do {
         set_obj (\<lambda>img. img\<lparr>img_finalizers := filter (\<lambda>f. f \<noteq> finalizerName) (img_finalizers img)\<rparr>);
         updated \<leftarrow> update_object E;
         ret (0, map_option (wrapf ''remove finalizer: '') updated)
       }
   }"

definition reconcileDelete :: "Reconciler \<Rightarrow> 'w Env \<Rightarrow> ('w, outcome) handler" where
  "reconcileDelete r E = do {
     img \<leftarrow> get_obj;
     if buildMode img = BuildModeRemote then do {
       cleaned \<leftarrow> cleanupRemoteBuild r E;
       case cleaned of
         Some err \<Rightarrow> ret (0, Some (wrapf ''cleanup remote build during deletion: '' err))
       | None \<Rightarrow> remove_finalizer E
     }
     else if img_phase img = PhaseUploading then do {
       cleaned \<leftarrow> cleanupLocalUpload r E;
       case cleaned of
         Inl err \<Rightarrow> ret (0, Some (wrapf ''cleanup local upload during deletion: '' err))
       | Inr False \<Rightarrow> ret (requeueAfter, None)
       | Inr True \<Rightarrow> remove_finalizer E
     }
     else remove_finalizer E
   }"

section \<open>Spec generations\<close>

text \<open>\<open>Some\<close> when the generation was handled and the reconciliation ends with this outcome.\<close>

definition reconcileSpecGeneration :: "Reconciler \<Rightarrow> 'w Env \<Rightarrow> ('w, outcome option) handler" where
  "reconcileSpecGeneration r E = do {
     img \<leftarrow> get_obj;
     let terminal = (img_phase img = PhaseReady \<or> img_phase img = PhaseFailed);
         generation = img_generation img in
     if st_observedGeneration (img_status img) = generation then ret None
     else if st_observedGeneration (img_status img) = 0 then do {
       set_status (\<lambda>st. st\<lparr>st_observedGeneration := generation, st_observedRevision := img_revision img,
         st_conditions := map (\<lambda>c. c\<lparr>cond_observedGeneration := generation\<rparr>) (st_conditions st)\<rparr>);
       if \<not> terminal then ret None
       else do {
         updated \<leftarrow> update_status E;
         ret (Some (0, map_option (wrapf ''initialize observed generation: '') updated))
       }
     }
     else if st_observedRevision (img_status img) = img_revision img then ret (Some (0, None))
     else if \<not> terminal then
       ret (Some (0, Some (errorf (''build revision changed while VMImage phase is '' @ quoted (img_phase img)))))
     else do {
       released \<leftarrow> releaseImageBuildSlots E;
       case released of
         Some err \<Rightarrow> ret (Some (0, Some (wrapf ''release build slots before rebuild: '' err)))
       | None \<Rightarrow> do {
           set_status (\<lambda>_. empty_status\<lparr>st_observedGeneration := generation,
             st_observedRevision := img_revision img, st_phase := PhasePending\<rparr>);
           updated \<leftarrow> update_status E;
           case updated of
             Some err \<Rightarrow> ret (Some (0, Some (wrapf ''reset status for rebuild: '' err)))
           | None \<Rightarrow> do {
               collected \<leftarrow> garbageCollectHistoricalRevisions E;
               case collected of
                 Some err \<Rightarrow> ret (Some (0, Some (wrapf ''garbage collect historical revisions: '' err)))
               | None \<Rightarrow> do {
                   recordEvent r EventNormal ''RebuildRequested''
                     (''Build revision changed from '' @ quoted (st_observedRevision (img_status img)) @ '' to '' @
                      quoted (img_revision img));
                   ret (Some (nanosecond, None))
                 }
             }
         }
     }
   }"

section \<open>Reconcile\<close>

definition dispatch :: "Reconciler \<Rightarrow> 'w Env \<Rightarrow> ('w, outcome) handler" where
  "dispatch r E = do {
     img \<leftarrow> get_obj;
     let phase = img_phase img in
     if phase = '''' \<or> phase = PhasePending then reconcilePending r E
     else if phase = PhaseBuilding \<or> phase = PhaseProvisioning then
       (if buildMode img = BuildModeRemote then reconcileRemoteBuild r E else reconcileBuilding r E)
     else if phase = PhaseUploading then reconcileUploading r E
     else if phase = PhaseReady \<or> phase = PhaseFailed then ret (0, None)
     else ret (0, Some (errorf (''unknown phase '' @ quoted phase)))
   }"

text \<open>The reconciliation of an object that was found.\<close>

definition reconcile_found :: "Reconciler \<Rightarrow> 'w Env \<Rightarrow> ('w, outcome) handler" where
  "reconcile_found r E = do {
     img \<leftarrow> get_obj;
     if img_deletionTimestamp img \<noteq> None then reconcileDelete r E
     else if finalizerName \<notin> set (img_finalizers img) then do {
       set_obj (\<lambda>img. img\<lparr>img_finalizers := img_finalizers img @ [finalizerName]\<rparr>);
       updated \<leftarrow> update_object E;
       case updated of
         Some err \<Rightarrow> ret (0, Some (wrapf ''add finalizer: '' err))
       | None \<Rightarrow> ret (nanosecond, None)
     }
     else do {
       handled \<leftarrow> reconcileSpecGeneration r E;
       case handled of
         Some out \<Rightarrow> ret out
       | None \<Rightarrow> dispatch r E
     }
   }"

definition Reconcile :: "Reconciler \<Rightarrow> 'w Env \<Rightarrow> string \<Rightarrow> string \<Rightarrow> ('w, outcome) handler" where
  "Reconcile r E namespace name = do {
     got \<leftarrow> query (e_getVMImage E namespace name);
     case got of
       NotFound _ \<Rightarrow> ret (0, None)
     | GetError err \<Rightarrow> ret (0, Some (wrapf ''get vmimage: '' err))
     | Found img \<Rightarrow> do { set_obj (\<lambda>_. img); reconcile_found r E }
   }"

end
