(* ===== verification/Lifecycle.thy ===== *)
theory Lifecycle
  imports Reconcile
begin

text \<open>
  The life cycle of a \<open>VMImage\<close> as an abstract transition system, and the proof that the
  reconciler implements it: every status that a reconciliation writes is reached from the status it
  read by the steps of the system. What the written statuses satisfy then follows by rule induction
  over a dozen steps instead of the code.

  The system speaks of the image without its conditions and pipeline steps (its \<open>core\<close>).
\<close>

section \<open>The transition system\<close>

definition is_remote :: "VMImage \<Rightarrow> bool" where
  "is_remote x \<longleftrightarrow> buildMode x = BuildModeRemote"

text \<open>The phases in which a build has not produced an artifact.\<close>

definition early :: "VMImage \<Rightarrow> bool" where
  "early x \<longleftrightarrow> img_phase x \<in> {'''', PhasePending, PhaseBuilding, PhaseProvisioning}"

definition terminal :: "VMImage \<Rightarrow> bool" where
  "terminal x \<longleftrightarrow> img_phase x \<in> {PhaseReady, PhaseFailed}"

definition failed_at :: "int \<Rightarrow> VMImage \<Rightarrow> VMImage" where
  "failed_at now x = upd_status (\<lambda>st. st\<lparr>st_phase := PhaseFailed, st_completionTime := Some now,
     st_buildLeaseRefs := [], st_scheduledNodeName := ''''\<rparr>) x"

text \<open>Details that do not take part in the life cycle.\<close>

definition same_details :: "VMImage \<Rightarrow> VMImage \<Rightarrow> bool" where
  "same_details x y \<longleftrightarrow>
     (let blur = upd_status (\<lambda>st. st\<lparr>st_hygieneResult := None, st_evidence := None,
        st_uploadOperations := [], st_remoteBuildRef := None, st_remoteRetryCount := 0,
        st_nextRemoteRetryTime := None\<rparr>) in blur x = blur y)"

definition evidence_ok :: "VMImage \<Rightarrow> EvidenceStatus option \<Rightarrow> bool" where
  "evidence_ok x ev \<longleftrightarrow>
     (case spec_evidence (img_spec x) of None \<Rightarrow> True
      | Some policy \<Rightarrow> ev_required policy \<longrightarrow> (\<exists>e. ev = Some e \<and> evidence_pinned policy e))"

inductive status_step :: "VMImage \<Rightarrow> VMImage \<Rightarrow> bool" where
  migrate:
    "st_observedGeneration (img_status x) = 0 \<Longrightarrow>
     status_step x (upd_status (\<lambda>st. st\<lparr>st_observedGeneration := img_generation x,
       st_observedRevision := img_revision x\<rparr>) x)"
| rebuild:
    "terminal x \<Longrightarrow> st_observedGeneration (img_status x) \<notin> {0, img_generation x} \<Longrightarrow>
     st_observedRevision (img_status x) \<noteq> img_revision x \<Longrightarrow>
     status_step x (upd_status (\<lambda>_. empty_status\<lparr>st_observedGeneration := img_generation x,
       st_observedRevision := img_revision x, st_phase := PhasePending\<rparr>) x)"
| build:
    "\<not> is_remote x \<Longrightarrow> img_phase x \<in> {'''', PhasePending} \<Longrightarrow>
     status_step x (upd_status (\<lambda>st. st\<lparr>st_buildLeaseRefs := refs, st_scheduledNodeName := '''',
       st_phase := PhaseBuilding, st_startTime := Some now, st_buildJobRef := Some job\<rparr>) x)"
| provision:
    "\<not> is_remote x \<Longrightarrow> img_phase x = PhaseBuilding \<Longrightarrow> st_buildJobRef (img_status x) \<noteq> None \<Longrightarrow>
     status_step x (upd_status (\<lambda>st. st\<lparr>st_phase := PhaseProvisioning\<rparr>) x)"
| built:
    "\<not> is_remote x \<Longrightarrow> img_phase x \<in> {PhaseBuilding, PhaseProvisioning} \<Longrightarrow>
     st_buildJobRef (img_status x) \<noteq> None \<Longrightarrow> artifact_complete a \<Longrightarrow>
     status_step x (upd_status (\<lambda>st. st\<lparr>st_phase := PhaseUploading, st_buildArtifact := Some a,
       st_provisionerResultRef := ref, st_buildLeaseRefs := [], st_scheduledNodeName := ''''\<rparr>) x)"
| upload:
    "img_phase x = PhaseUploading \<Longrightarrow> st_buildArtifact (img_status x) \<noteq> None \<Longrightarrow>
     st_uploadJobRef (img_status x) = None \<Longrightarrow>
     status_step x (upd_status (\<lambda>st. st\<lparr>st_uploadJobRef := Some job, st_uploadOperations := ops\<rparr>) x)"
| registered:
    "img_phase x = PhaseUploading \<Longrightarrow> st_buildArtifact (img_status x) \<noteq> None \<Longrightarrow>
     st_uploadJobRef (img_status x) \<noteq> None \<Longrightarrow> images \<noteq> [] \<Longrightarrow> list_all image_complete images \<Longrightarrow>
     status_step x (upd_status (\<lambda>st. st\<lparr>st_phase := PhaseReady, st_completionTime := Some now,
       st_images := images, st_uploadOperations := ops\<rparr>) x)"
| remote_start:
    "is_remote x \<Longrightarrow> early x \<Longrightarrow> st_startTime (img_status x) = None \<Longrightarrow>
     status_step x (upd_status (\<lambda>st. st\<lparr>st_phase := PhaseBuilding, st_startTime := Some now\<rparr>) x)"
| remote_provision:
    "is_remote x \<Longrightarrow> early x \<Longrightarrow> st_startTime (img_status x) \<noteq> None \<Longrightarrow>
     status_step x (upd_status (\<lambda>st. st\<lparr>st_phase := PhaseProvisioning\<rparr>) x)"
| remote_ready:
    "is_remote x \<Longrightarrow> early x \<Longrightarrow> st_startTime (img_status x) \<noteq> None \<Longrightarrow>
     images \<noteq> [] \<Longrightarrow> list_all image_complete images \<Longrightarrow> evidence_ok x ev \<Longrightarrow>
     status_step x (upd_status (\<lambda>st. st\<lparr>st_phase := PhaseReady, st_completionTime := Some now,
       st_images := images, st_hygieneResult := hygiene, st_evidence := ev, st_buildArtifact := artifact\<rparr>) x)"
| details: "\<not> terminal x \<Longrightarrow> same_details x y \<Longrightarrow> status_step x y"
| fail: "\<not> terminal x \<Longrightarrow> status_step x (failed_at now x)"

abbreviation reaches :: "VMImage \<Rightarrow> VMImage \<Rightarrow> bool" where
  "reaches \<equiv> status_step\<^sup>*\<^sup>*"

section \<open>Tracking a handler\<close>

text \<open>\<open>tracked c0 c s\<close>: the object in the state has the core \<open>c\<close>, and every status written so far
  is reached from \<open>c0\<close>. \<open>ends c0\<close> forgets the current core.\<close>

definition written :: "VMImage \<Rightarrow> 'w st \<Rightarrow> bool" where
  "written c0 s \<longleftrightarrow> (\<forall>img e. UpdateStatus img e \<in> set (calls s) \<longrightarrow> reaches c0 (core img))"

definition tracked :: "VMImage \<Rightarrow> VMImage \<Rightarrow> 'w st \<Rightarrow> bool" where
  "tracked c0 c s \<longleftrightarrow> core (obj s) = c \<and> written c0 s"

fun quiet :: "call \<Rightarrow> bool" where
  "quiet (UpdateStatus img e) = False"
| "quiet _ = True"

named_theorems tracked_intro \<open>rules for handlers that keep the tracked core\<close>

lemma does_keeps_tracked:
  fixes m :: "('w, 'a) handler"
  assumes "does quiet R m" and "\<And>x y. R x y \<Longrightarrow> core x = core y"
  shows "keeps (tracked c0 c) m"
proof (rule keepsI)
  fix s :: "'w st" assume s: "tracked c0 c s"
  show "wp m (\<lambda>_. tracked c0 c) s"
    by (rule wp_mono [OF doesD [OF assms(1)]])
      (use s assms(2) in \<open>fastforce simp: tracked_def written_def\<close>)
qed

lemma does_core_tracked: "does quiet (same_core T) m \<Longrightarrow> keeps (tracked c0 c) m"
  by (rule does_keeps_tracked [where R = "same_core T"]) (auto simp: same_core_def)

lemma only_tracked: "only quiet m \<Longrightarrow> keeps (tracked c0 c) m"
  by (rule does_keeps_tracked [where R = "(=)"]) auto

lemma update_status_tracked: "reaches c0 c \<Longrightarrow> keeps (tracked c0 c) (update_status E)"
  by (rule keepsI)
    (auto simp: update_status_def wp_simp tracked_def written_def split: prod.split)

lemma keeps_get_result [keeps_intro]:
  "(\<And>a. keeps I (f a)) \<Longrightarrow> (\<And>e. keeps I (g e)) \<Longrightarrow> (\<And>e. keeps I (h e)) \<Longrightarrow>
   keeps I (case x of Found a \<Rightarrow> f a | NotFound e \<Rightarrow> g e | GetError e \<Rightarrow> h e)"
  by (cases x) auto

lemma keeps_create_result [keeps_intro]:
  "keeps I m \<Longrightarrow> (\<And>e. keeps I (g e)) \<Longrightarrow> (\<And>e. keeps I (h e)) \<Longrightarrow>
   keeps I (case x of Created \<Rightarrow> m | AlreadyExists e \<Rightarrow> g e | CreateError e \<Rightarrow> h e)"
  by (cases x) auto

lemma keeps_delete_result [keeps_intro]:
  "keeps I m \<Longrightarrow> (\<And>e. keeps I (g e)) \<Longrightarrow> (\<And>e. keeps I (h e)) \<Longrightarrow>
   keeps I (case x of Deleted \<Rightarrow> m | DeleteNotFound e \<Rightarrow> g e | DeleteError e \<Rightarrow> h e)"
  by (cases x) auto

lemma keeps_bool [keeps_intro]:
  "keeps I m \<Longrightarrow> keeps I n \<Longrightarrow> keeps I (case b of True \<Rightarrow> m | False \<Rightarrow> n)"
  by (cases b) auto

lemma tracked_query: "keeps (tracked c0 c) (query f)"
  by (rule only_tracked) (intro does_intro)

lemma tracked_command: "(\<And>a. quiet (k a)) \<Longrightarrow> keeps (tracked c0 c) (command k f)"
  by (rule only_tracked) (intro does_intro)

lemma tracked_emit: "quiet k \<Longrightarrow> keeps (tracked c0 c) (emit k)"
  by (rule only_tracked) (intro does_intro)

lemma tracked_get_obj: "keeps (tracked c0 c) get_obj"
  by (rule only_tracked) (intro does_intro)

lemma tracked_setStep: "keeps (tracked c0 c) (setStep E n st re m ref)"
  by (rule does_core_tracked) (rule does_setStep)

lemma tracked_setCondition: "keeps (tracked c0 c) (setCondition E ty st re m)"
  by (rule does_core_tracked [where T = "{ty}"]) (intro does_intro, simp)

lemma tracked_recordEvent: "keeps (tracked c0 c) (recordEvent r ty re m)"
  by (rule only_tracked) (intro does_intro, simp)

lemma tracked_leases:
  "keeps (tracked c0 c) (releaseImageBuildSlots E)" "keeps (tracked c0 c) (releaseBuildSlots E refs holder)"
  "keeps (tracked c0 c) (renewImageBuildSlots E)" "keeps (tracked c0 c) (acquireBuildSlots r E)"
  by (rule only_tracked, intro does_intro, metis quiet.elims(3) lease_call.simps(4) lease_call.simps)+

lemma tracked_readers:
  "keeps (tracked c0 c) (providerNameForTarget E ns t)" "keeps (tracked c0 c) (providerPlugin E n)"
  "keeps (tracked c0 c) (closeProviderPlugin E p)" "keeps (tracked c0 c) (providerConfigsForTargets E)"
  "keeps (tracked c0 c) (providerConnectionsForTargets r E configs)"
  "keeps (tracked c0 c) (remoteBuildRequest_auth r E t)"
  "keeps (tracked c0 c) (initProviderForTarget r E ns t p)"
  "keeps (tracked c0 c) (ensureArtifactStorage E)"
  "keeps (tracked c0 c) (observeBuildDuration E ph)" "keeps (tracked c0 c) (observeUploadDuration E su)"
  by (rule only_tracked, (intro does_intro only_initProviderForTarget | simp)+)+

lemma observe_quiet: "observe_call k \<Longrightarrow> quiet k"
  by (cases k) auto

lemma tracked_jobs:
  "keeps (tracked c0 c) (buildArtifactFromJob E ns j)" "keeps (tracked c0 c) (buildFailureFromJob E ns j)"
  "keeps (tracked c0 c) (imageStatusesFromUploadJob E ns j)" "keeps (tracked c0 c) (uploadFailureFromJob E ns j)"
  "keeps (tracked c0 c) (uploadRetryOperationsFromJob E ns j)"
  by (rule only_tracked, intro does_intro, (erule observe_quiet)?)+

lemma tracked_failure_steps:
  "keeps (tracked c0 c) (setBuildFailureSteps E re m)" "keeps (tracked c0 c) (setRemoteFailureSteps E re m)"
  by (rule does_core_tracked, intro does_intro)+

lemma tracked_dec: "keeps (tracked c0 c) dec_active_builds"
  unfolding dec_active_builds_def by (rule only_tracked) (intro does_intro, simp)

lemmas tracked_calls [tracked_intro] =
  tracked_query tracked_command tracked_emit tracked_get_obj tracked_setStep tracked_setCondition
  tracked_recordEvent tracked_leases tracked_readers tracked_jobs tracked_failure_steps tracked_dec

text \<open>The cleanup handlers write the status of the core they run on.\<close>

lemma tracked_markCleanupFailure:
  "reaches c0 c \<Longrightarrow> keeps (tracked c0 c) (markCleanupFailure r E scope reason err)"
  unfolding markCleanupFailure_def Let_def
  by (intro keeps_intro tracked_calls update_status_tracked) simp_all

lemma tracked_fail_cleanup:
  "reaches c0 c \<Longrightarrow> keeps (tracked c0 c) (fail_cleanup r E scope reason err)"
  unfolding fail_cleanup_def by (intro keeps_intro tracked_markCleanupFailure)

lemma tracked_cleanupArtifactStorage:
  "reaches c0 c \<Longrightarrow> keeps (tracked c0 c) (cleanupArtifactStorage r E success)"
  unfolding cleanupArtifactStorage_def Let_def
  by (intro keeps_intro tracked_calls tracked_markCleanupFailure) simp_all

lemma tracked_cleanupLocalUpload:
  "reaches c0 c \<Longrightarrow> keeps (tracked c0 c) (cleanupLocalUpload r E)"
  unfolding cleanupLocalUpload_def cleanup_upload_job_def Let_def
  by (intro keeps_intro tracked_calls tracked_fail_cleanup) simp_all

lemma tracked_cleanupRemoteBuild:
  "reaches c0 c \<Longrightarrow> keeps (tracked c0 c) (cleanupRemoteBuild r E)"
  unfolding cleanupRemoteBuild_def remote_cleanup_call_def fail_remote_cleanup_def
  by (intro keeps_intro tracked_calls tracked_fail_cleanup) simp_all

end
