(* ===== verification/Refinement.thy ===== *)
theory Refinement
  imports Lifecycle
begin

text \<open>
  The reconciler implements the life cycle: rules that walk through a handler while tracking the
  core of the image, one lemma per phase handler, and the refinement theorem. The properties of the
  statuses that are written follow from it.
\<close>

section \<open>Walking through a handler\<close>

text \<open>\<open>moves c0 c m\<close>: started on an image with core \<open>c\<close>, \<open>m\<close> writes only statuses reached from
  \<open>c0\<close>. The rules consume the handler from the left.\<close>

definition moves :: "VMImage \<Rightarrow> VMImage \<Rightarrow> ('w, 'a) handler \<Rightarrow> bool" where
  "moves c0 c m \<longleftrightarrow> (\<forall>s. tracked c0 c s \<longrightarrow> wp m (\<lambda>_. written c0) s)"

named_theorems moves_intro \<open>rules for what a handler writes\<close>

lemma moves_keeps: "keeps (tracked c0 c) m \<Longrightarrow> moves c0 c m"
  unfolding moves_def
  by (blast intro: wp_mono [OF keepsD] dest: tracked_def [THEN iffD1])

lemma moves_ret [moves_intro]: "moves c0 c (ret x)"
  by (rule moves_keeps) (intro keeps_intro)

lemma moves_bind:
  assumes "keeps (tracked c0 c) m" and "\<And>x. moves c0 c (f x)"
  shows "moves c0 c (State_Monad.bind m f)"
  unfolding moves_def wp_simp
  by (intro allI impI wp_mono [OF keepsD [OF assms(1)]]) (use assms(2) in \<open>auto simp: moves_def\<close>)

lemma moves_bind_yields:
  fixes m :: "('w, 'a) handler"
  assumes "keeps (tracked c0 c) m" and "yields P m" and "\<And>x. P x \<Longrightarrow> moves c0 c (f x)"
  shows "moves c0 c (State_Monad.bind m f)"
  unfolding moves_def wp_simp
proof (intro allI impI)
  fix s :: "'w st" assume s: "tracked c0 c s"
  have "wp m (\<lambda>x t. P x \<and> tracked c0 c t) s"
    using yieldsD [OF assms(2)] keepsD [OF assms(1) s] by (simp add: wp_conj)
  then show "wp m (\<lambda>x. wp (f x) (\<lambda>_. written c0)) s"
    by (rule wp_mono) (use assms(3) in \<open>auto simp: moves_def\<close>)
qed

lemma moves_after:
  fixes m :: "('w, 'a) handler"
  assumes "moves c0 c m" and "\<And>x. only quiet (f x)"
  shows "moves c0 c (State_Monad.bind m f)"
  unfolding moves_def wp_simp
proof (intro allI impI)
  fix s :: "'w st" assume "tracked c0 c s"
  then have "wp m (\<lambda>_. written c0) s" using assms(1) by (simp add: moves_def)
  then show "wp m (\<lambda>x. wp (f x) (\<lambda>_. written c0)) s"
  proof (rule wp_mono)
    fix x and t :: "'w st" assume t: "written c0 t"
    show "wp (f x) (\<lambda>_. written c0) t"
      by (rule wp_mono [OF doesD [OF assms(2)]]) (use t in \<open>fastforce simp: written_def\<close>)
  qed
qed

lemma moves_get [moves_intro]:
  "(\<And>img. core img = c \<Longrightarrow> moves c0 c (f img)) \<Longrightarrow> moves c0 c (State_Monad.bind get_obj f)"
  unfolding moves_def by (simp add: wp_simp tracked_def)

lemma moves_set [moves_intro]:
  "(\<And>x. core (upd_status g x) = upd_status g (core x)) \<Longrightarrow> moves c0 (upd_status g c) (f ()) \<Longrightarrow>
   moves c0 c (State_Monad.bind (set_status g) f)"
  unfolding moves_def by (simp add: wp_simp tracked_def written_def)

lemma moves_set_last [moves_intro]: "moves c0 c (set_status g)" "moves c0 c (set_obj h)"
  unfolding moves_def by (simp_all add: wp_simp tracked_def written_def)

lemma moves_update [moves_intro]:
  "reaches c0 c \<Longrightarrow> (\<And>x. moves c0 c (f x)) \<Longrightarrow> moves c0 c (State_Monad.bind (update_status E) f)"
  by (rule moves_bind [OF update_status_tracked])

lemma moves_assoc [moves_intro]:
  "moves c0 c (State_Monad.bind m (\<lambda>x. State_Monad.bind (g x) f)) \<Longrightarrow>
   moves c0 c (State_Monad.bind (State_Monad.bind m g) f)"
  by (simp add: moves_def wp_simp)

lemma moves_ret_bind [moves_intro]: "moves c0 c (f x) \<Longrightarrow> moves c0 c (State_Monad.bind (ret x) f)"
  by (simp add: moves_def wp_simp)

lemma moves_if [moves_intro]:
  "(b \<Longrightarrow> moves c0 c m) \<Longrightarrow> (\<not> b \<Longrightarrow> moves c0 c n) \<Longrightarrow> moves c0 c (if b then m else n)"
  by simp

lemma moves_if_bind [moves_intro]:
  "(b \<Longrightarrow> moves c0 c (State_Monad.bind m f)) \<Longrightarrow> (\<not> b \<Longrightarrow> moves c0 c (State_Monad.bind n f)) \<Longrightarrow>
   moves c0 c (State_Monad.bind (if b then m else n) f)"
  by simp

lemma moves_option [moves_intro]:
  "(x = None \<Longrightarrow> moves c0 c m) \<Longrightarrow> (\<And>y. x = Some y \<Longrightarrow> moves c0 c (f y)) \<Longrightarrow>
   moves c0 c (case x of None \<Rightarrow> m | Some y \<Rightarrow> f y)"
  by (cases x) auto

lemma moves_option_bind [moves_intro]:
  "(x = None \<Longrightarrow> moves c0 c (State_Monad.bind m g)) \<Longrightarrow>
   (\<And>y. x = Some y \<Longrightarrow> moves c0 c (State_Monad.bind (f y) g)) \<Longrightarrow>
   moves c0 c (State_Monad.bind (case x of None \<Rightarrow> m | Some y \<Rightarrow> f y) g)"
  by (cases x) auto

lemma moves_sum [moves_intro]:
  "(\<And>e. x = Inl e \<Longrightarrow> moves c0 c (g e)) \<Longrightarrow> (\<And>y. x = Inr y \<Longrightarrow> moves c0 c (f y)) \<Longrightarrow>
   moves c0 c (case x of Inl e \<Rightarrow> g e | Inr y \<Rightarrow> f y)"
  by (cases x) auto

lemma moves_prod [moves_intro]:
  "(\<And>a b. x = (a, b) \<Longrightarrow> moves c0 c (f a b)) \<Longrightarrow> moves c0 c (case x of (a, b) \<Rightarrow> f a b)"
  by (cases x) auto

lemma moves_list [moves_intro]:
  "(xs = [] \<Longrightarrow> moves c0 c m) \<Longrightarrow> (\<And>y ys. xs = y # ys \<Longrightarrow> moves c0 c (f y ys)) \<Longrightarrow>
   moves c0 c (case xs of [] \<Rightarrow> m | y # ys \<Rightarrow> f y ys)"
  by (cases xs) auto

lemma moves_bool [moves_intro]:
  "(b \<Longrightarrow> moves c0 c m) \<Longrightarrow> (\<not> b \<Longrightarrow> moves c0 c n) \<Longrightarrow>
   moves c0 c (case b of True \<Rightarrow> m | False \<Rightarrow> n)"
  by (cases b) auto

lemma moves_get_result [moves_intro]:
  "(\<And>a. x = Found a \<Longrightarrow> moves c0 c (f a)) \<Longrightarrow> (\<And>e. x = NotFound e \<Longrightarrow> moves c0 c (g e)) \<Longrightarrow>
   (\<And>e. x = GetError e \<Longrightarrow> moves c0 c (h e)) \<Longrightarrow>
   moves c0 c (case x of Found a \<Rightarrow> f a | NotFound e \<Rightarrow> g e | GetError e \<Rightarrow> h e)"
  by (cases x) auto

lemma moves_create_result [moves_intro]:
  "moves c0 c m \<Longrightarrow> (\<And>e. moves c0 c (g e)) \<Longrightarrow> (\<And>e. moves c0 c (h e)) \<Longrightarrow>
   moves c0 c (case x of Created \<Rightarrow> m | AlreadyExists e \<Rightarrow> g e | CreateError e \<Rightarrow> h e)"
  by (cases x) auto

lemmas moves_calls [moves_intro] = tracked_calls [THEN moves_bind]

lemmas moves_last [moves_intro] = tracked_calls [THEN moves_keeps]

lemma moves_init [moves_intro]:
  "(\<And>x. moves c0 c (f x)) \<Longrightarrow> moves c0 c (State_Monad.bind (initProviderForTarget r E ns t p) f)"
  by (rule moves_bind [OF tracked_readers(7)])

section \<open>Failure\<close>

text \<open>The core from which a failure may be recorded: one that differs from a reached, unfinished
  core only in what the failure overwrites.\<close>

definition failable :: "VMImage \<Rightarrow> VMImage \<Rightarrow> bool" where
  "failable c0 c \<longleftrightarrow> (\<exists>d. reaches c0 d \<and> \<not> terminal d \<and> (\<forall>now. failed_at now c = failed_at now d))"

lemma failable_reached: "reaches c0 c \<Longrightarrow> \<not> terminal c \<Longrightarrow> failable c0 c"
  unfolding failable_def by blast

lemma failable_clear_slots:
  "failable c0 c \<Longrightarrow>
   failable c0 (upd_status (\<lambda>st. st\<lparr>st_buildLeaseRefs := refs, st_scheduledNodeName := node\<rparr>) c)"
  unfolding failable_def by (simp add: failed_at_def upd_status_def)

lemma failable_fails: "failable c0 c \<Longrightarrow> reaches c0 (failed_at now c)"
  unfolding failable_def by (metis rtranclp.rtrancl_into_rtrancl status_step.fail)

lemma moves_setFailedWithReason [moves_intro]:
  fixes E :: "'w Env"
  assumes "failable c0 c"
  shows "moves c0 c (setFailedWithReason r E reason message)"
proof -
  have fails: "reaches c0 (upd_status (\<lambda>st. st\<lparr>st_buildLeaseRefs := [], st_scheduledNodeName := ''''\<rparr>)
      (upd_status (\<lambda>st. st\<lparr>st_phase := PhaseFailed, st_completionTime := Some now\<rparr>) c))" for now
    using failable_fails [OF assms, of now] by (simp add: failed_at_def upd_status_def)
  show ?thesis
    unfolding setFailedWithReason_def
    by (intro moves_intro moves_bind [OF tracked_cleanupArtifactStorage] fails)
      (simp_all add: core_def upd_status_def)
qed

lemma moves_setFailed [moves_intro]: "failable c0 c \<Longrightarrow> moves c0 c (setFailed r E reason)"
  unfolding setFailed_def by (rule moves_setFailedWithReason)

section \<open>Local builds\<close>

lemma core_facts [simp]:
  "img_phase (core x) = img_phase x" "img_spec (core x) = img_spec x" "buildMode (core x) = buildMode x"
  "is_remote (core x) = is_remote x" "early (core x) = early x" "terminal (core x) = terminal x"
  "core (core x) = core x" "img_generation (core x) = img_generation x"
  "img_revision (core x) = img_revision x"
  by (simp_all add: core_def is_remote_def early_def terminal_def img_revision_def img_phase_def
      upd_status_def buildMode_def)

lemma core_status [simp]:
  "st_buildJobRef (img_status (core x)) = st_buildJobRef (img_status x)"
  "st_uploadJobRef (img_status (core x)) = st_uploadJobRef (img_status x)"
  "st_startTime (img_status (core x)) = st_startTime (img_status x)"
  "st_buildArtifact (img_status (core x)) = st_buildArtifact (img_status x)"
  "st_observedGeneration (img_status (core x)) = st_observedGeneration (img_status x)"
  "st_observedRevision (img_status (core x)) = st_observedRevision (img_status x)"
  by (simp_all add: core_def)

lemma reaches_step: "reaches c0 c \<Longrightarrow> status_step c d \<Longrightarrow> reaches c0 d"
  by (rule rtranclp.rtrancl_into_rtrancl)

lemma moves_start_local_build:
  fixes E :: "'w Env"
  assumes c: "reaches c0 c" and "\<not> is_remote c" and "img_phase c \<in> {'''', PhasePending}"
  shows "moves c0 c (start_local_build r E)"
proof -
  have open_c: "\<not> terminal c" using assms by (auto simp: terminal_def)
  have step: "reaches c0 (upd_status (\<lambda>st. st\<lparr>st_phase := PhaseBuilding, st_startTime := Some now,
        st_buildJobRef := Some job\<rparr>)
      (upd_status (\<lambda>st. st\<lparr>st_buildLeaseRefs := refs, st_scheduledNodeName := ''''\<rparr>) c))" for now job refs
    using reaches_step [OF c status_step.build [OF assms(2,3), where refs = refs and now = now and job = job]]
    by (simp add: upd_status_def)
  have failing: "failable c0 (upd_status (\<lambda>st. st\<lparr>st_buildLeaseRefs := refs, st_scheduledNodeName := ''''\<rparr>) c)" for refs
    by (intro failable_clear_slots failable_reached c open_c)
  show ?thesis
    unfolding start_local_build_def Let_def
    by (intro moves_intro step failing c) (simp_all add: core_def upd_status_def)
qed

lemma only_pending_targets: "only quiet (pending_targets r E ns targets owned)"
  by (induction targets arbitrary: owned)
    (auto simp: Let_def intro!: does_intro only_initProviderForTarget)

lemma only_close_all: "only quiet (close_all E ps)"
  by (induction ps) (auto intro!: does_intro)

lemma moves_pending_local:
  fixes E :: "'w Env"
  assumes c: "reaches c0 c" and l: "\<not> is_remote c" and ph: "img_phase c \<in> {'''', PhasePending}"
  shows "moves c0 c (reconcilePending_local r E)"
proof -
  have open_c: "\<not> terminal c" using assms by (auto simp: terminal_def)
  show ?thesis
    unfolding reconcilePending_local_def
    by (intro moves_get moves_bind [OF only_tracked [OF only_pending_targets]] moves_prod moves_after
        moves_option moves_setFailed moves_calls(14) moves_ret moves_start_local_build failable_reached assms open_c
        moves_bind [OF tracked_readers(8)] does_intro only_close_all)
qed

text \<open>The core once a build is over: what \<open>build_succeeded\<close> writes.\<close>

lemma moves_build_succeeded:
  fixes E :: "'w Env"
  assumes c: "reaches c0 c" and l: "\<not> is_remote c" and ph: "img_phase c \<in> {PhaseBuilding, PhaseProvisioning}"
    and job: "st_buildJobRef (img_status c) \<noteq> None"
  shows "moves c0 c (build_succeeded r E j)"
proof -
  have open_c: "\<not> terminal c" using ph by (auto simp: terminal_def)
  have fails: "failable c0 c" by (intro failable_reached c open_c)
  have step: "reaches c0 (upd_status (\<lambda>st. st\<lparr>st_buildLeaseRefs := [], st_scheduledNodeName := ''''\<rparr>)
      (upd_status (\<lambda>st. st\<lparr>st_provisionerResultRef := ref\<rparr>)
      (upd_status (\<lambda>st. st\<lparr>st_phase := PhaseUploading, st_buildArtifact := Some a\<rparr>) c)))"
    if "artifact_complete a" for a ref
    using reaches_step [OF c status_step.built [OF l ph job that, where ref = ref]]
    by (simp add: upd_status_def)
  have step': "reaches c0 (upd_status (\<lambda>st. st\<lparr>st_buildLeaseRefs := [], st_scheduledNodeName := ''''\<rparr>)
      (upd_status (\<lambda>st. st\<lparr>st_phase := PhaseUploading, st_buildArtifact := Some a\<rparr>) c))"
    if "artifact_complete a" for a
    using step [OF that, of "st_provisionerResultRef (img_status c)"] by (simp add: upd_status_def)
  show ?thesis
    unfolding build_succeeded_def clear_slots_def
    by (intro moves_get moves_bind_yields [OF tracked_jobs(1) buildArtifactFromJob_complete] moves_sum
        moves_intro step step' fails)
      (auto simp: core_def upd_status_def)
qed

lemma moves_build_failed [moves_intro]:
  fixes E :: "'w Env"
  assumes "failable c0 c"
  shows "moves c0 c (build_failed r E j)"
  unfolding build_failed_def clear_slots_def Let_def
  by (intro moves_intro failable_clear_slots assms) (simp_all add: core_def upd_status_def)

lemma moves_build_running [moves_intro]:
  fixes E :: "'w Env"
  assumes "failable c0 c"
  shows "moves c0 c (build_running r E j)"
  unfolding build_running_def clear_slots_def Let_def
  by (intro moves_intro failable_clear_slots assms) (simp_all add: core_def upd_status_def)

lemma moves_building:
  fixes E :: "'w Env"
  assumes c: "reaches c0 c" and l: "\<not> is_remote c" and ph: "img_phase c \<in> {PhaseBuilding, PhaseProvisioning}"
  shows "moves c0 c (reconcileBuilding r E)"
proof -
  have "moves c0 d (if isJobSucceeded j then build_succeeded r E j
      else if isJobFailed j then build_failed r E j else build_running r E j)"
    if "reaches c0 d" "\<not> is_remote d" "img_phase d \<in> {PhaseBuilding, PhaseProvisioning}"
      "st_buildJobRef (img_status d) \<noteq> None" for d j
  proof -
    have "failable c0 d" using that by (intro failable_reached) (auto simp: terminal_def)
    then show ?thesis using that by (intro moves_if moves_build_succeeded moves_build_failed moves_build_running)
  qed
  note over = this
  have open_c: "\<not> terminal c" using ph by (auto simp: terminal_def)
  have fails: "failable c0 c" by (intro failable_reached c open_c)
  let ?p = "upd_status (\<lambda>st. st\<lparr>st_phase := PhaseProvisioning\<rparr>) c"
  have p: "reaches c0 ?p" "\<not> is_remote ?p" "img_phase ?p \<in> {PhaseBuilding, PhaseProvisioning}"
      "st_buildJobRef (img_status ?p) \<noteq> None"
    if "img_phase c = PhaseBuilding" "st_buildJobRef (img_status c) \<noteq> None"
    using reaches_step [OF c status_step.provision [OF l that]] l that by (simp_all add: is_remote_def)
  show ?thesis
    unfolding reconcileBuilding_def
    by (intro moves_get moves_option moves_get_result moves_calls moves_if_bind moves_assoc moves_set
        moves_update moves_option_bind moves_ret_bind moves_ret over moves_setFailed fails)
      (use c l ph p in \<open>auto simp: core_def upd_status_def img_phase_def\<close>)
qed

section \<open>Uploads\<close>

lemma moves_cleanups [moves_intro]:
  "reaches c0 c \<Longrightarrow> (\<And>x. moves c0 c (f x)) \<Longrightarrow> moves c0 c (State_Monad.bind (cleanupArtifactStorage r E b) f)"
  "reaches c0 c \<Longrightarrow> (\<And>x. moves c0 c (g x)) \<Longrightarrow> moves c0 c (State_Monad.bind (cleanupLocalUpload r E) g)"
  "reaches c0 c \<Longrightarrow> (\<And>x. moves c0 c (h x)) \<Longrightarrow> moves c0 c (State_Monad.bind (cleanupRemoteBuild r E) h)"
  by (rule moves_bind, rule tracked_cleanupArtifactStorage tracked_cleanupLocalUpload
      tracked_cleanupRemoteBuild, assumption+)+

lemma reaches_details: "reaches c0 c \<Longrightarrow> \<not> terminal c \<Longrightarrow> same_details c d \<Longrightarrow> reaches c0 d"
  by (blast intro: reaches_step status_step.details)

lemma same_details_upd:
  "same_details c (upd_status (\<lambda>st. st\<lparr>st_uploadOperations := ops st\<rparr>) c)"
  "same_details c (upd_status (\<lambda>st. st\<lparr>st_hygieneResult := hygiene\<rparr>) c)"
  "same_details c (upd_status (\<lambda>st. st\<lparr>st_evidence := ev\<rparr>) c)"
  "same_details c (upd_status (\<lambda>st. st\<lparr>st_remoteBuildRef := ref\<rparr>) c)"
  "same_details c (upd_status (\<lambda>st. st\<lparr>st_remoteRetryCount := n st\<rparr>) c)"
  "same_details c (upd_status (\<lambda>st. st\<lparr>st_nextRemoteRetryTime := t\<rparr>) c)"
  "same_details c (upd_status (\<lambda>st. st\<lparr>st_remoteRetryCount := m, st_nextRemoteRetryTime := t\<rparr>) c)"
  by (simp_all add: same_details_def upd_status_def)

lemma moves_start_upload:
  fixes E :: "'w Env"
  assumes c: "reaches c0 c" and ph: "img_phase c = PhaseUploading"
    and a: "st_buildArtifact (img_status c) \<noteq> None" and u: "st_uploadJobRef (img_status c) = None"
  shows "moves c0 c (start_upload r E)"
proof -
  have fails: "failable c0 c" by (intro failable_reached c) (simp add: ph terminal_def)
  show ?thesis
    unfolding start_upload_def
    by (intro moves_intro fails reaches_step [OF c status_step.upload [OF ph a u]])
      (simp_all add: core_def upd_status_def)
qed

lemma moves_upload_failed:
  fixes E :: "'w Env"
  assumes c: "reaches c0 c" and ph: "img_phase c = PhaseUploading"
  shows "moves c0 c (upload_failed r E j)"
proof -
  have open_c: "\<not> terminal c" by (simp add: ph terminal_def)
  have "failable c0 (upd_status (\<lambda>st. st\<lparr>st_uploadOperations := ops st\<rparr>) c)" for ops
    by (intro failable_reached reaches_details [OF c open_c] same_details_upd)
      (use open_c in \<open>simp add: terminal_def img_phase_def\<close>)
  then show ?thesis
    unfolding upload_failed_def Let_def
    by (intro moves_intro c) (simp_all add: core_def upd_status_def)
qed

lemma moves_upload_running:
  fixes E :: "'w Env"
  assumes c: "reaches c0 c" and ph: "img_phase c = PhaseUploading"
  shows "moves c0 c (upload_running r E j)"
proof -
  have open_c: "\<not> terminal c" by (simp add: ph terminal_def)
  show ?thesis
    unfolding upload_running_def
    by (intro moves_intro reaches_details [OF c open_c] same_details_upd)
      (simp_all add: core_def upd_status_def)
qed

lemma moves_upload_succeeded:
  fixes E :: "'w Env"
  assumes c: "reaches c0 c" and ph: "img_phase c = PhaseUploading"
    and a: "st_buildArtifact (img_status c) \<noteq> None" and u: "st_uploadJobRef (img_status c) \<noteq> None"
  shows "moves c0 c (upload_succeeded r E j)"
proof -
  have fails: "failable c0 c" by (intro failable_reached c) (simp add: ph terminal_def)
  have step: "reaches c0 (upd_status (\<lambda>st. st\<lparr>st_phase := PhaseReady, st_completionTime := Some now,
        st_images := images, st_uploadOperations := ops (st_uploadOperations st)\<rparr>) c)"
    if "images \<noteq> []" and "list_all image_complete images" for images now ops
    using reaches_step [OF c status_step.registered [OF ph a u that, where now = now
          and ops = "ops (st_uploadOperations (img_status c))"]]
    by (simp add: upd_status_def)
  show ?thesis
    unfolding upload_succeeded_def
    by (intro moves_get moves_bind_yields [OF tracked_jobs(3) imageStatusesFromUploadJob_complete] moves_sum
        moves_prod moves_intro fails step)
      (auto simp: core_def upd_status_def)
qed

lemma moves_uploading:
  fixes E :: "'w Env"
  assumes c: "reaches c0 c" and ph: "img_phase c = PhaseUploading"
  shows "moves c0 c (reconcileUploading r E)"
proof -
  have fails: "failable c0 c" by (intro failable_reached c) (simp add: ph terminal_def)
  show ?thesis
    unfolding reconcileUploading_def
    by (intro moves_intro moves_start_upload moves_upload_failed moves_upload_running moves_upload_succeeded
        fails c ph) auto
qed

section \<open>Remote builds\<close>

text \<open>The iteration order of a map visits exactly its keys.\<close>

definition shuffle_ok :: "'w Env \<Rightarrow> bool" where
  "shuffle_ok E \<longleftrightarrow> (\<forall>keys w. set (fst (e_shuffle E keys w)) = set keys)"

definition remote_open :: "VMImage \<Rightarrow> VMImage \<Rightarrow> bool" where
  "remote_open c0 c \<longleftrightarrow> reaches c0 c \<and> is_remote c \<and> early c \<and> st_startTime (img_status c) \<noteq> None"

lemma remote_openD:
  assumes "remote_open c0 c"
  shows "reaches c0 c" "\<not> terminal c" "failable c0 c"
  using assms failable_reached [of c0 c] by (auto simp: remote_open_def early_def terminal_def)

lemma remote_open_details:
  assumes "remote_open c0 c" and "same_details c (upd_status g c)"
    and "st_phase (g (img_status c)) = st_phase (img_status c)"
    and "st_startTime (g (img_status c)) = st_startTime (img_status c)"
  shows "remote_open c0 (upd_status g c)"
  using assms reaches_details [OF remote_openD(1,2) [OF assms(1)] assms(2)]
  by (auto simp: remote_open_def is_remote_def early_def img_phase_def)

lemma remote_open_upd:
  assumes "remote_open c0 c"
  shows "remote_open c0 (upd_status (\<lambda>st. st\<lparr>st_hygieneResult := hygiene\<rparr>) c)"
    "remote_open c0 (upd_status (\<lambda>st. st\<lparr>st_evidence := ev\<rparr>) c)"
    "remote_open c0 (upd_status (\<lambda>st. st\<lparr>st_remoteBuildRef := ref\<rparr>) c)"
    "remote_open c0 (upd_status (\<lambda>st. st\<lparr>st_remoteRetryCount := n st\<rparr>) c)"
    "remote_open c0 (upd_status (\<lambda>st. st\<lparr>st_nextRemoteRetryTime := t\<rparr>) c)"
    "remote_open c0 (upd_status (\<lambda>st. st\<lparr>st_remoteRetryCount := m, st_nextRemoteRetryTime := t\<rparr>) c)"
  by (rule remote_open_details [OF assms]; simp add: same_details_upd)+

lemma remote_open_provisioning:
  assumes "remote_open c0 c"
  shows "remote_open c0 (upd_status (\<lambda>st. st\<lparr>st_phase := PhaseProvisioning\<rparr>) c)"
  using assms reaches_step [OF remote_openD(1) [OF assms] status_step.remote_provision [of c]]
  by (auto simp: remote_open_def is_remote_def early_def)

lemma moves_retryRemoteBuild [moves_intro]:
  fixes E :: "'w Env"
  assumes "remote_open c0 c"
  shows "moves c0 c (retryRemoteBuild r E provider err timeout t0)"
  unfolding retryRemoteBuild_def Let_def
  by (intro moves_intro remote_openD(1) remote_open_upd assms) (simp_all add: core_def upd_status_def)

lemma moves_fail_remote_build [moves_intro]:
  fixes E :: "'w Env"
  assumes "remote_open c0 c"
  shows "moves c0 c (fail_remote_build r E provider reason message context)"
  unfolding fail_remote_build_def
  by (intro moves_intro remote_openD [OF assms]) simp_all

lemma moves_start_remote_build:
  fixes E :: "'w Env"
  assumes c: "reaches c0 c" and m: "is_remote c" and e: "early c" and t: "st_startTime (img_status c) = None"
  shows "moves c0 c (start_remote_build r E provider)"
  unfolding start_remote_build_def
  by (intro moves_intro reaches_step [OF c status_step.remote_start [OF m e t]])
    (simp_all add: core_def upd_status_def)

lemma moves_remote_ready:
  fixes E :: "'w Env"
  assumes "remote_open c0 c" and "images \<noteq> []" and "list_all image_complete images"
    and policy: "\<And>policy. spec_evidence (img_spec c) = Some policy \<Longrightarrow> ev_required policy \<Longrightarrow> evidence_pinned policy evidence"
  shows "moves c0 c (remote_ready r E provider result images hygiene evidence)"
proof -
  note c = assms(1) [unfolded remote_open_def]
  define ready where "ready now ev artifact = upd_status (\<lambda>st. st\<lparr>st_phase := PhaseReady,
      st_completionTime := Some now, st_images := images, st_hygieneResult := Some hygiene,
      st_evidence := ev, st_buildArtifact := artifact\<rparr>) c" for now ev artifact
  have step: "reaches c0 (ready now ev artifact)" if "evidence_ok c ev" for now ev artifact
    using reaches_step [OF _ status_step.remote_ready [where x = c and images = images and ev = ev and now = now
          and hygiene = "Some hygiene" and artifact = artifact]] c assms(2,3) that
    by (simp add: ready_def)
  have none: "spec_evidence (img_spec c) = None \<Longrightarrow> evidence_ok c ev" for ev
    by (simp add: evidence_ok_def)
  have some: "evidence_ok c (Some evidence)"
    using policy by (auto simp: evidence_ok_def split: option.split)
  have "reaches c0 (upd_status (\<lambda>st. st\<lparr>st_buildArtifact := Some a\<rparr>) (upd_status (\<lambda>st. st\<lparr>st_evidence := Some evidence\<rparr>)
      (upd_status (\<lambda>st. st\<lparr>st_phase := PhaseReady, st_completionTime := Some now, st_images := images,
      st_hygieneResult := Some hygiene\<rparr>) c)))" for now a
    using step [OF some, of now "Some a"] by (simp add: ready_def upd_status_def)
  moreover have "reaches c0 (upd_status (\<lambda>st. st\<lparr>st_evidence := Some evidence\<rparr>)
      (upd_status (\<lambda>st. st\<lparr>st_phase := PhaseReady, st_completionTime := Some now, st_images := images,
      st_hygieneResult := Some hygiene\<rparr>) c))" for now
    using step [OF some, of now "st_buildArtifact (img_status c)"] by (simp add: ready_def upd_status_def)
  moreover have "reaches c0 (upd_status (\<lambda>st. st\<lparr>st_buildArtifact := Some a\<rparr>)
      (upd_status (\<lambda>st. st\<lparr>st_phase := PhaseReady, st_completionTime := Some now, st_images := images,
      st_hygieneResult := Some hygiene\<rparr>) c))" if "spec_evidence (img_spec c) = None" for now a
    using step [OF none [OF that], of now "st_evidence (img_status c)" "Some a"] by (simp add: ready_def upd_status_def)
  moreover have "reaches c0
      (upd_status (\<lambda>st. st\<lparr>st_phase := PhaseReady, st_completionTime := Some now, st_images := images,
      st_hygieneResult := Some hygiene\<rparr>) c)" if "spec_evidence (img_spec c) = None" for now
    using step [OF none [OF that], of now "st_evidence (img_status c)" "st_buildArtifact (img_status c)"]
    by (simp add: ready_def upd_status_def)
  ultimately show ?thesis
    unfolding remote_ready_def
    by (intro moves_intro) (auto simp: core_def upd_status_def)
qed

lemma moves_bind_does:
  fixes m :: "('w, 'a) handler"
  assumes "does quiet R m" and "\<And>x y a. core x = c \<Longrightarrow> R x y \<Longrightarrow> moves c0 (core y) (f a)"
  shows "moves c0 c (State_Monad.bind m f)"
  unfolding moves_def wp_simp
proof (intro allI impI)
  fix s :: "'w st" assume s: "tracked c0 c s"
  show "wp m (\<lambda>x. wp (f x) (\<lambda>_. written c0)) s"
  proof (rule wp_mono [OF doesD [OF assms(1)]])
    fix a and t :: "'w st"
    assume t: "R (obj s) (obj t) \<and> (\<exists>cs. calls t = calls s @ cs \<and> (\<forall>c \<in> set cs. quiet c))"
    then have "tracked c0 (core (obj t)) t" using s by (fastforce simp: tracked_def written_def)
    moreover have "moves c0 (core (obj t)) (f a)" using assms(2) t s by (auto simp: tracked_def)
    ultimately show "wp (f a) (\<lambda>_. written c0) t" by (simp add: moves_def)
  qed
qed

definition remote_kept :: "VMImage \<Rightarrow> VMImage \<Rightarrow> VMImage \<Rightarrow> bool" where
  "remote_kept c0 x y \<longleftrightarrow>
     (remote_open c0 (core x) \<longrightarrow> remote_open c0 (core y)) \<and> img_spec y = img_spec x"

lemma moves_updateRemoteSteps:
  fixes E :: "'w Env"
  assumes c: "remote_open c0 c"
    and rest: "\<And>d. remote_open c0 d \<Longrightarrow> img_spec d = img_spec c \<Longrightarrow> moves c0 d (f ())"
  shows "moves c0 c (State_Monad.bind (updateRemoteSteps E result) f)"
proof (rule moves_bind_does)
  have upd: "core (upd_status (\<lambda>st. st\<lparr>st_phase := PhaseProvisioning\<rparr>) x) =
        upd_status (\<lambda>st. st\<lparr>st_phase := PhaseProvisioning\<rparr>) (core x)"
      "core (upd_status (\<lambda>st. st\<lparr>st_evidence := e\<rparr>) x) = upd_status (\<lambda>st. st\<lparr>st_evidence := e\<rparr>) (core x)" for x e
    by (simp_all add: core_def upd_status_def)
  show "does quiet (remote_kept c0) (updateRemoteSteps E result)"
    by (rule does_updateRemoteSteps)
      (auto simp: remote_kept_def upd remote_open_provisioning remote_open_upd reflp_def transp_def same_core_def
        dest: core_fields(1))
  show "moves c0 (core y) (f a)" if "core x = c" and "remote_kept c0 x y" for x y a
    using that c rest [of "core y"] by (auto simp: remote_kept_def)
qed

lemma moves_remote_done:
  fixes E :: "'w Env"
  assumes c: "remote_open c0 c" and shuffle: "shuffle_ok E"
  shows "moves c0 c (remote_done r E provider target result)"
proof -
  have visits: "yields (\<lambda>order. set order = set evidence_fields) (query (e_shuffle E evidence_fields))"
    using shuffle by (simp add: yields_def query_def shuffle_ok_def Let_def split: prod.split)
      (metis fst_conv)
  have images: "list_all image_complete (remoteImageStatuses images target provider)" for images
    using remoteImageStatuses_complete by (auto simp: list_all_iff)
  have evidence: "evidence_pinned policy ev"
    if "validateRemoteEvidence order (spec_evidence (img_spec img)) ev = None" "set order = set evidence_fields"
      "core img = c" "spec_evidence (img_spec c) = Some policy" "ev_required policy" for order img ev policy
    using that validateRemoteEvidence_None [of order policy ev] by auto
  show ?thesis
    unfolding remote_done_def Let_def
    by (intro moves_if moves_setFailedWithReason moves_set moves_calls moves_get moves_fail_remote_build
        moves_bind_yields [OF tracked_calls(1) visits] moves_option moves_remote_ready images
        remote_openD [OF c] remote_open_upd c evidence)
      (assumption | simp add: core_def upd_status_def)+
qed

lemma moves_remote_progress:
  fixes E :: "'w Env"
  assumes c: "remote_open c0 c" and shuffle: "shuffle_ok E"
  shows "moves c0 c (remote_progress r E provider target res)"
  unfolding remote_progress_def
  by (intro moves_get moves_if_bind moves_assoc moves_set moves_calls moves_ret_bind moves_option moves_setFailedWithReason
      moves_updateRemoteSteps moves_if moves_update moves_ret moves_remote_done remote_openD remote_open_upd c shuffle)
    (simp_all add: core_def upd_status_def remote_openD)

lemma moves_remote_call:
  fixes E :: "'w Env"
  assumes c: "remote_open c0 c" and shuffle: "shuffle_ok E"
  shows "moves c0 c (remote_call r E provider target p timeout t0)"
  unfolding remote_call_def
  by (intro moves_get moves_init moves_option moves_if moves_retryRemoteBuild moves_setFailedWithReason moves_calls
      moves_sum moves_fail_remote_build moves_remote_progress remote_openD [OF c] c shuffle) simp_all

lemma moves_remote_step:
  fixes E :: "'w Env"
  assumes c: "reaches c0 c" and m: "is_remote c" and e: "early c" and shuffle: "shuffle_ok E"
  shows "moves c0 c (remote_step r E provider target p)"
proof -
  have open_c: "\<not> terminal c" using e by (auto simp: early_def terminal_def)
  have ro: "remote_open c0 c" if "st_startTime (img_status c) = Some t" for t
    using that c m e by (simp add: remote_open_def)
  show ?thesis
    unfolding remote_step_def Let_def
    by (intro moves_get moves_if moves_setFailedWithReason moves_option moves_start_remote_build moves_calls
        moves_fail_remote_build moves_remote_call moves_ret failable_reached ro c m e open_c shuffle)
      auto
qed

lemma moves_remote:
  fixes E :: "'w Env"
  assumes c: "reaches c0 c" and m: "is_remote c" and e: "early c" and shuffle: "shuffle_ok E"
  shows "moves c0 c (reconcileRemoteBuild r E)"
proof -
  have open_c: "\<not> terminal c" using e by (auto simp: early_def terminal_def)
  have closes: "only quiet (do { (if owned then closeProviderPlugin E p else ret ()); ret out })" for owned p out
    by (intro does_intro) simp
  show ?thesis
    unfolding reconcileRemoteBuild_def
    by (intro moves_get moves_list moves_calls moves_sum moves_setFailed moves_setFailedWithReason
        moves_prod moves_after [OF _ closes] moves_remote_step failable_reached c m e open_c shuffle)
qed

section \<open>Deletion and generations\<close>

lemma moves_delete:
  fixes E :: "'w Env"
  assumes c: "reaches c0 c"
  shows "moves c0 c (reconcileDelete r E)"
proof -
  have "moves c0 c (remove_finalizer E)"
  proof -
    have "only quiet (do { updated \<leftarrow> update_object E; ret (0, map_option (wrapf ''remove finalizer: '') updated) })"
      by (intro does_intro) simp
    note end_quiet = this
    have "moves c0 c (do { set_obj g;
        updated \<leftarrow> update_object E; ret (0, map_option (wrapf ''remove finalizer: '') updated) })" for g
      by (rule moves_after [OF moves_set_last(2) end_quiet])
    then show ?thesis
      unfolding remove_finalizer_def by (intro moves_intro)
  qed
  then show ?thesis
    unfolding reconcileDelete_def by (intro moves_intro c)
qed

lemma core_buildMode: "core x = core y \<Longrightarrow> buildMode x = buildMode y"
  by (metis core_facts(3))

lemma moves_dispatch:
  fixes E :: "'w Env"
  assumes c: "reaches c0 c" and shuffle: "shuffle_ok E"
  shows "moves c0 c (dispatch r E)"
  unfolding dispatch_def reconcilePending_def Let_def
  by (intro moves_get moves_if moves_remote moves_pending_local moves_building moves_uploading moves_ret c shuffle)
    (auto simp: is_remote_def early_def dest: core_buildMode)

lemma moves_generation:
  fixes E :: "'w Env"
  assumes c: "reaches c0 c" and shuffle: "shuffle_ok E"
  shows "moves c0 c (do {
    handled \<leftarrow> reconcileSpecGeneration r E;
    case handled of Some out \<Rightarrow> ret out | None \<Rightarrow> dispatch r E })"
proof -
  have migrate: "reaches c0 (upd_status (\<lambda>st. st\<lparr>st_observedGeneration := img_generation img,
        st_observedRevision := img_revision img,
        st_conditions := map (\<lambda>k. k\<lparr>cond_observedGeneration := img_generation img\<rparr>) (st_conditions st)\<rparr>) c)"
    if "core img = c" "st_observedGeneration (img_status img) = 0" for img
  proof -
    have "status_step c (upd_status (\<lambda>st. st\<lparr>st_observedGeneration := img_generation img,
        st_observedRevision := img_revision img\<rparr>) c)"
      using status_step.migrate [of c] that by auto
    moreover have "st_conditions (img_status c) = []" using that(1) by (auto simp: core_def)
    then have "upd_status (\<lambda>st. st\<lparr>st_observedGeneration := img_generation img,
        st_observedRevision := img_revision img,
        st_conditions := map (\<lambda>k. k\<lparr>cond_observedGeneration := img_generation img\<rparr>) (st_conditions st)\<rparr>) c =
      upd_status (\<lambda>st. st\<lparr>st_observedGeneration := img_generation img,
        st_observedRevision := img_revision img\<rparr>) c"
      by (cases c; cases "img_status c") (simp add: upd_status_def)
    ultimately show ?thesis using reaches_step [OF c] by simp
  qed
  have rebuild: "reaches c0 (upd_status (\<lambda>_. empty_status\<lparr>st_observedGeneration := img_generation img,
        st_observedRevision := img_revision img, st_phase := PhasePending\<rparr>) c)"
    if "core img = c" "st_observedGeneration (img_status img) \<noteq> img_generation img"
      "st_observedGeneration (img_status img) \<noteq> 0" "st_observedRevision (img_status img) \<noteq> img_revision img"
      "\<not> \<not> (img_phase img = PhaseReady \<or> img_phase img = PhaseFailed)" for img
    using reaches_step [OF c status_step.rebuild [of c]] that by (auto simp: terminal_def)
  have gc: "keeps (tracked c0 d) (garbageCollectHistoricalRevisions E)" for d
    by (rule only_tracked) (intro only_garbageCollect does_intro, simp_all)
  show ?thesis
    unfolding reconcileSpecGeneration_def Let_def
    by (intro moves_assoc moves_get moves_if_bind moves_ret_bind moves_option_bind moves_option moves_ret
        moves_set moves_update moves_calls moves_bind [OF gc] moves_dispatch migrate rebuild c shuffle)
      (assumption | simp add: core_def upd_status_def empty_status_def)+
qed

section \<open>The refinement\<close>

lemma moves_reconcile_found:
  fixes E :: "'w Env"
  assumes c: "reaches c0 c" and shuffle: "shuffle_ok E"
  shows "moves c0 c (reconcile_found r E)"
proof -
  have "only quiet (do {
       updated \<leftarrow> update_object E;
       case updated of
         Some err \<Rightarrow> ret (0, Some (wrapf ''add finalizer: '' err))
       | None \<Rightarrow> ret (nanosecond, None)
     })"
    by (intro does_intro) simp
  from moves_after [OF moves_set_last(2) this]
  show ?thesis
    unfolding reconcile_found_def
    by (intro moves_get moves_if moves_delete moves_generation c shuffle)
qed

end
