(* ===== verification/Execution.thy ===== *)
theory Execution
  imports Reconcile
begin

text \<open>
  Running the handlers inside the logic. The rules evaluate a run from the left and never rewrite
  the code that is still to run, so that the simplifier follows one path of a handler on concrete
  objects (\<open>simp add: run_simp sample_simp cong: run_cong\<close>). The witnesses use them.
\<close>

named_theorems run_simp \<open>evaluation of a run\<close>
named_theorems run_cong \<open>congruences that stop the evaluation of code that has not been reached\<close>

lemma run_state_cong [run_cong]: "s = t \<Longrightarrow> run_state m s = run_state m t"
  by simp

lemmas run_case_congs [run_cong] =
  if_weak_cong prod.case_cong_weak option.case_cong_weak sum.case_cong_weak list.case_cong_weak
  get_result.case_cong_weak create_result.case_cong_weak delete_result.case_cong_weak

lemma run_bind [run_simp]:
  "run_state (State_Monad.bind m f) s = (case run_state m s of (a, t) \<Rightarrow> run_state (f a) t)"
  by (simp add: case_prod_beta split: prod.split)

lemma run_query [run_simp]:
  "run_state (query f) s = (case f (world s) of (a, w) \<Rightarrow> (a, after_read s w))"
  by (simp add: query_def Let_def)

lemma run_command [run_simp]:
  "run_state (command k f) s =
     (case f (world s) of (a, w) \<Rightarrow> (a, after_call s (k a) w))"
  by (simp add: command_def Let_def)

lemma run_primitive [run_simp]:
  "run_state (emit k) s = ((), after_call s k (world s))"
  "run_state get_obj s = (obj s, s)"
  "run_state (set_obj g) s = ((), s\<lparr>obj := g (obj s)\<rparr>)"
  "run_state (set_status u) s = ((), s\<lparr>obj := upd_status u (obj s)\<rparr>)"
  by (simp_all add: emit_def get_obj_def set_obj_def set_status_def)

lemma run_if [run_simp]:
  "run_state (if b then m else n) s = (if b then run_state m s else run_state n s)"
  by simp

lemma run_case [run_simp]:
  "run_state (case x of None \<Rightarrow> m | Some y \<Rightarrow> f y) s =
     (case x of None \<Rightarrow> run_state m s | Some y \<Rightarrow> run_state (f y) s)"
  "run_state (case e of Inl a \<Rightarrow> g a | Inr b \<Rightarrow> h b) s =
     (case e of Inl a \<Rightarrow> run_state (g a) s | Inr b \<Rightarrow> run_state (h b) s)"
  "run_state (case p of (a, b) \<Rightarrow> k a b) s = (case p of (a, b) \<Rightarrow> run_state (k a b) s)"
  "run_state (case xs of [] \<Rightarrow> m | z # zs \<Rightarrow> l z zs) s =
     (case xs of [] \<Rightarrow> run_state m s | z # zs \<Rightarrow> run_state (l z zs) s)"
  "run_state (Let v j) s = (let v = v in run_state (j v) s)"
  by (simp_all split: option.split sum.split prod.split list.split)

lemma run_result [run_simp]:
  "run_state (case x of Found a \<Rightarrow> f a | NotFound e \<Rightarrow> g e | GetError e \<Rightarrow> h e) s =
     (case x of Found a \<Rightarrow> run_state (f a) s | NotFound e \<Rightarrow> run_state (g e) s
      | GetError e \<Rightarrow> run_state (h e) s)"
  "run_state (case y of Created \<Rightarrow> m | AlreadyExists e \<Rightarrow> g e | CreateError e \<Rightarrow> h e) s =
     (case y of Created \<Rightarrow> run_state m s | AlreadyExists e \<Rightarrow> run_state (g e) s
      | CreateError e \<Rightarrow> run_state (h e) s)"
  "run_state (case z of Deleted \<Rightarrow> m | DeleteNotFound e \<Rightarrow> g e | DeleteError e \<Rightarrow> h e) s =
     (case z of Deleted \<Rightarrow> run_state m s | DeleteNotFound e \<Rightarrow> run_state (g e) s
      | DeleteError e \<Rightarrow> run_state (h e) s)"
  by (simp_all split: get_result.split create_result.split delete_result.split)

lemmas unfold_run = arg_cong2 [where f = run_state, OF _ refl]

lemmas run_reconcile [run_simp] =
  unfold_run [OF Reconcile_def] unfold_run [OF reconcile_found_def] unfold_run [OF reconcileSpecGeneration_def]
  unfold_run [OF dispatch_def] unfold_run [OF reconcilePending_def] unfold_run [OF reconcilePending_local_def]
  unfold_run [OF start_local_build_def] unfold_run [OF reconcileBuilding_def] unfold_run [OF build_succeeded_def]
  unfold_run [OF build_failed_def] unfold_run [OF build_running_def] unfold_run [OF reconcileUploading_def]
  unfold_run [OF start_upload_def] unfold_run [OF upload_failed_def] unfold_run [OF upload_running_def]
  unfold_run [OF upload_succeeded_def] unfold_run [OF reconcileDelete_def] unfold_run [OF remove_finalizer_def]

lemmas run_remote [run_simp] =
  unfold_run [OF reconcileRemoteBuild_def] unfold_run [OF remote_step_def] unfold_run [OF start_remote_build_def]
  unfold_run [OF remote_call_def] unfold_run [OF remote_progress_def] unfold_run [OF remote_done_def]
  unfold_run [OF remote_ready_def] unfold_run [OF retryRemoteBuild_def] unfold_run [OF fail_remote_build_def]
  unfold_run [OF updateRemoteSteps_def] unfold_run [OF setRemoteFailureSteps_def]
  unfold_run [OF remoteBuildRequest_auth_def] unfold_run [OF withRemoteGitAuth_def]

lemmas run_helpers [run_simp] =
  unfold_run [OF setStep_def] unfold_run [OF setCondition_def] unfold_run [OF setBuildFailureSteps_def]
  unfold_run [OF update_status_def] unfold_run [OF update_object_def] unfold_run [OF recordEvent_def]
  unfold_run [OF observeBuildDuration_def] unfold_run [OF observeUploadDuration_def]
  unfold_run [OF dec_active_builds_def] unfold_run [OF clear_slots_def]

lemmas run_providers [run_simp] =
  unfold_run [OF providerNameForTarget_def] unfold_run [OF providerPlugin_def]
  unfold_run [OF closeProviderPlugin_def] unfold_run [OF registry_New_def]
  unfold_run [OF initProviderForTarget_def] unfold_run [OF providerSecretData_def]
  unfold_run [OF directReader_getSecret_def] unfold_run [OF providerConfigsForTargets_def]
  unfold_run [OF providerConnectionsForTargets_def]

lemmas run_loops [run_simp] =
  pending_targets.simps [THEN unfold_run] close_all.simps [THEN unfold_run]

lemmas run_cleanup [run_simp] =
  unfold_run [OF setFailedWithReason_def] unfold_run [OF setFailed_def] unfold_run [OF fail_cleanup_def]
  unfold_run [OF cleanup_upload_job_def] unfold_run [OF cleanupLocalUpload_def]
  unfold_run [OF cleanupRemoteBuild_def] unfold_run [OF remote_cleanup_call_def]
  unfold_run [OF fail_remote_cleanup_def] unfold_run [OF markCleanupFailure_def]
  unfold_run [OF cleanupArtifactStorage_def] unfold_run [OF ensureArtifactStorage_def]
  unfold_run [OF releaseImageBuildSlots_def]

text \<open>The sample environment and objects, field by field.\<close>

lemma sample_env_simps:
  "e_now sample_env = (\<lambda>w. (sw_now w, w\<lparr>sw_now := sw_now w + second\<rparr>))"
  "e_getVMImage sample_env = (\<lambda>ns n w. (found (sw_image w), w))"
  "e_updateVMImage sample_env = (\<lambda>img w. (None, w\<lparr>sw_image := Some img\<rparr>))"
  "e_updateStatus sample_env = (\<lambda>img w. (None, w\<lparr>sw_image := Some img\<rparr>))"
  "e_getProviderConfig sample_env = (\<lambda>ns n w. (found (sw_configs w (ns, n)), w))"
  "e_getPlatformProvider sample_env = (\<lambda>n w. (found (sw_providers w n), w))"
  "e_client_getSecret sample_env = (\<lambda>ns n w. (found (sw_secrets w (ns, n)), w))"
  "e_apiReader_getSecret sample_env = (\<lambda>ns n w. (found (sw_secrets w (ns, n)), w))"
  "e_applySecret sample_env = (\<lambda>s w. (None,
        w\<lparr>sw_secrets := (sw_secrets w)((secr_namespace s, secr_name s) \<mapsto> secr_data s)\<rparr>))"
  "e_getJob sample_env = (\<lambda>ns n w. (found (sw_jobs w (ns, n)), w))"
  "e_createJob sample_env = (\<lambda>j w. if sw_jobs w (job_namespace j, job_name j) \<noteq> None then (exists_error, w)
        else (Created, w\<lparr>sw_jobs := (sw_jobs w)((job_namespace j, job_name j) \<mapsto> j)\<rparr>))"
  "e_deleteJob sample_env = (\<lambda>ns n w. if sw_jobs w (ns, n) = None then (gone_error, w)
        else (Deleted, w\<lparr>sw_jobs := (sw_jobs w)((ns, n) := None)\<rparr>))"
  "e_listJobs sample_env = (\<lambda>ns l w. (Inr [], w))"
  "e_getPVC sample_env = (\<lambda>ns n w. (found (sw_pvcs w (ns, n)), w))"
  "e_createPVC sample_env = (\<lambda>p w. if sw_pvcs w (pvcl_namespace p, pvcl_name p) \<noteq> None then (exists_error, w)
        else (Created, w\<lparr>sw_pvcs := (sw_pvcs w)((pvcl_namespace p, pvcl_name p) \<mapsto> p)\<rparr>))"
  "e_deletePVC sample_env = (\<lambda>ns n w. if sw_pvcs w (ns, n) = None then (gone_error, w)
        else (Deleted, w\<lparr>sw_pvcs := (sw_pvcs w)((ns, n) := None)\<rparr>))"
  "e_listPVCs sample_env = (\<lambda>ns l w. (Inr [], w))"
  "e_getLease sample_env = (\<lambda>ns n w. (found (lease_at w (ns, n)), w))"
  "e_createLease sample_env = (\<lambda>l w. if lease_at w (ls_namespace l, ls_name l) \<noteq> None then (exists_error, w)
        else (Created, w\<lparr>sw_leases := (sw_leases w)((ls_namespace l, ls_name l) \<mapsto> l)\<rparr>))"
  "e_updateLease sample_env = (\<lambda>l w. if lease_at w (ls_namespace l, ls_name l) = None
        then (Some (errorf ''not found''), w)
        else (None, w\<lparr>sw_leases := (sw_leases w)((ls_namespace l, ls_name l) \<mapsto> l)\<rparr>))"
  "e_deleteLease sample_env = (\<lambda>ns n w. if lease_at w (ns, n) = None then (gone_error, w)
        else (Deleted, w\<lparr>sw_leases := (sw_leases w)((ns, n) := None)\<rparr>))"
  "e_listPods sample_env = (\<lambda>ns l w. (Inr (sw_pods w), w))"
  "e_getRegistry sample_env = sw_registry"
  "e_putRegistry sample_env = (\<lambda>r w. w\<lparr>sw_registry := r\<rparr>)"
  "e_pluginInit sample_env = (\<lambda>p c w. (sw_initError w, w))"
  "e_pluginValidate sample_env = (\<lambda>p t w. (None, w))"
  "e_reconcileRemote sample_env = (\<lambda>p q w. (sw_remote w, w))"
  "e_cleanupRemote sample_env = (\<lambda>p q w. (None, w))"
  "e_pluginClose sample_env = (\<lambda>p w. (None, w))"
  "e_lookupHost sample_env = (\<lambda>w h. Inr [''93.184.216.34''])"
  "e_shuffle sample_env = (\<lambda>xs w. (xs, w))"
  "e_url_parse sample_env = (\<lambda>u. Inr \<lparr>u_scheme = ''https'', u_user = False, u_hostname = u\<rparr>)"
  "e_sha256 sample_env = (\<lambda>s. replicate 32 CHR ''0'')"
  "e_parseQuantity sample_env = (\<lambda>s. if s = '''' then None else Some s)"
  "e_setControllerReference sample_env = (\<lambda>img. None)"
  "e_assembleBuild sample_env = (\<lambda>img. Inr (job_of img ''-build''))"
  "e_assembleUpload sample_env = (\<lambda>img cs conns. Inr (job_of img ''-upload''))"
  "e_assembleCleanup sample_env = (\<lambda>img cs conns. Inr (job_of img ''-upload-cleanup''))"
  "e_decodeStringMap sample_env = (\<lambda>s. Inl (errorf ''not a JSON object''))"
  "e_decodeUploadError sample_env = (\<lambda>s. Inr ''connection reset'')"
  "e_decodeUploadRetry sample_env = (\<lambda>s. Inr (''connection reset'', []))"
  "e_decodeUpload sample_env = (\<lambda>s. Inr
        ([\<lparr>is_provider = ''aws'', is_providerConfig = ''cfg'', is_imageRef = ''ami-1'',
           is_location = ''eu'', is_format = ''ami'', is_checksum = ''''\<rparr>], []))"
  "e_decodeImages sample_env = (\<lambda>s. Inl (errorf ''not a JSON array''))"
  "e_decodeBuild sample_env = (\<lambda>s. Inr
        \<lparr>bp_artifact = \<lparr>art_path = ''/workspace/out.qcow2'', art_format = ''qcow2'', art_checksum = ''sha256:00'',
          art_sizeBytes = 4096, art_os = ''linux'', art_metadata = Map.empty\<rparr>, bp_provisioners = []\<rparr>)"
  "e_decodeFailure sample_env = (\<lambda>s. Inr (''BootFailed'', ''no boot device''))"
  by (simp_all add: sample_env_def)

lemma sample_world_simps [simp]:
  "sw_image sample_world = Some sample_image" "sw_now sample_world = 100 * second"
  "sw_configs sample_world = [(''ci'', ''cfg'') \<mapsto> sample_config]" "sw_providers sample_world = Map.empty"
  "sw_registry sample_world = NewRegistry\<lparr>reg_plugins := [''aws'' \<mapsto> sample_plugin 0]\<rparr>"
  "sw_jobs sample_world = Map.empty" "sw_pvcs sample_world = Map.empty" "sw_leases sample_world = Map.empty"
  "sw_secrets sample_world = Map.empty" "sw_pods sample_world = []" "sw_initError sample_world = None"
  by (simp_all add: sample_world_def)

lemma sample_config_simps [simp]:
  "pc_name sample_config = ''cfg''" "pc_namespace sample_config = ''ci''" "pc_provider sample_config = ''aws''"
  "pc_secretRef_name sample_config = ''''" "pc_networkAccess sample_config = None"
  by (simp_all add: sample_config_def)

lemma sample_plugin_simps [simp]:
  "pl_name (sample_plugin h) = ''aws''" "pl_buildModes (sample_plugin h) = Some [BuildModeRemote]"
  "pl_cleanup (sample_plugin h)" "pl_closer (sample_plugin h)"
  by (simp_all add: sample_plugin_def)

lemmas sample_simp =
  sample_env_simps found_def exists_error_def gone_error_def New_def NewRegistry_def run_gets
  remote_image_def sample_spec_def empty_status_def img_phase_def buildMode_def
  usesArtifactPVC_def usesExistingArtifactPVC_def shouldRetainArtifactPVC_def artifactPVCRetainPolicy_def pvc_spec_def

end
