(* ===== verification/Correctness.thy ===== *)
theory Correctness
  imports Refinement Execution
begin

text \<open>
  What the refinement gives: an invariant of every status the reconciler writes, the direction of
  the phases, and the same through any number of reconciliations.
\<close>

section \<open>Invariants of the life cycle\<close>

text \<open>What each phase promises.\<close>

definition status_ok :: "VMImage \<Rightarrow> bool" where
  "status_ok x \<longleftrightarrow>
     (let st = img_status x; ph = img_phase x in
      (ph \<in> {PhaseBuilding, PhaseProvisioning} \<longrightarrow>
         st_startTime st \<noteq> None \<and> (is_remote x \<or> st_buildJobRef st \<noteq> None))
      \<and> (ph = PhaseUploading \<longrightarrow>
           \<not> is_remote x \<and> st_buildLeaseRefs st = [] \<and> (\<exists>a. st_buildArtifact st = Some a \<and> artifact_complete a))
      \<and> (ph = PhaseReady \<longrightarrow>
           st_images st \<noteq> [] \<and> list_all image_complete (st_images st) \<and> st_completionTime st \<noteq> None
           \<and> st_buildLeaseRefs st = [] \<and> (is_remote x \<longrightarrow> evidence_ok x (st_evidence st)))
      \<and> (ph = PhaseFailed \<longrightarrow> st_completionTime st \<noteq> None \<and> st_buildLeaseRefs st = [])
      \<and> (is_remote x \<longrightarrow> st_buildLeaseRefs st = []))"

text \<open>The steps of the life cycle change the status only.\<close>

lemma img_upd_status [simp]:
  "is_remote (upd_status g x) = is_remote x" "evidence_ok (upd_status g x) = evidence_ok x"
  by (auto simp: is_remote_def evidence_ok_def fun_eq_iff)

lemma same_details_kept:
  assumes "same_details x y"
  shows "img_spec y = img_spec x" "img_phase y = img_phase x" "img_generation y = img_generation x"
    "st_startTime (img_status y) = st_startTime (img_status x)"
    "st_buildJobRef (img_status y) = st_buildJobRef (img_status x)"
    "st_buildLeaseRefs (img_status y) = st_buildLeaseRefs (img_status x)"
    "st_buildArtifact (img_status y) = st_buildArtifact (img_status x)"
    "st_images (img_status y) = st_images (img_status x)"
    "st_completionTime (img_status y) = st_completionTime (img_status x)"
    "st_observedGeneration (img_status y) = st_observedGeneration (img_status x)"
    "st_observedRevision (img_status y) = st_observedRevision (img_status x)"
proof -
  define blur where "blur = upd_status (\<lambda>st. st\<lparr>st_hygieneResult := None, st_evidence := None,
     st_uploadOperations := [], st_remoteBuildRef := None, st_remoteRetryCount := 0,
     st_nextRemoteRetryTime := None\<rparr>)"
  have eq: "blur y = blur x" using assms unfolding same_details_def blur_def Let_def by (rule sym)
  have st: "img_status (blur y) = img_status (blur x)" by (simp add: eq)
  show "img_spec y = img_spec x" "img_generation y = img_generation x"
    using arg_cong [OF eq, of img_spec] arg_cong [OF eq, of img_generation] by (simp_all add: blur_def)
  show "img_phase y = img_phase x"
    using arg_cong [OF st, of st_phase] by (simp add: blur_def img_phase_def)
  show "st_startTime (img_status y) = st_startTime (img_status x)"
    "st_buildJobRef (img_status y) = st_buildJobRef (img_status x)"
    "st_buildLeaseRefs (img_status y) = st_buildLeaseRefs (img_status x)"
    "st_buildArtifact (img_status y) = st_buildArtifact (img_status x)"
    "st_images (img_status y) = st_images (img_status x)"
    "st_completionTime (img_status y) = st_completionTime (img_status x)"
    "st_observedGeneration (img_status y) = st_observedGeneration (img_status x)"
    "st_observedRevision (img_status y) = st_observedRevision (img_status x)"
    using arg_cong [OF st, of st_startTime] arg_cong [OF st, of st_buildJobRef]
      arg_cong [OF st, of st_buildLeaseRefs] arg_cong [OF st, of st_buildArtifact]
      arg_cong [OF st, of st_images] arg_cong [OF st, of st_completionTime]
      arg_cong [OF st, of st_observedGeneration] arg_cong [OF st, of st_observedRevision]
    by (simp_all add: blur_def)
qed

lemma same_details_remote:
  assumes "same_details x y"
  shows "is_remote y = is_remote x" "evidence_ok y = evidence_ok x"
  using same_details_kept(1) [OF assms]
  by (simp_all add: is_remote_def buildMode_def evidence_ok_def fun_eq_iff)

lemma status_ok_step: "status_step x y \<Longrightarrow> status_ok x \<Longrightarrow> status_ok y"
proof (induction rule: status_step.induct)
  case (details x y)
  then show ?case
    using same_details_kept [OF details(2)] same_details_remote [OF details(2)]
    by (auto simp: status_ok_def terminal_def Let_def)
qed (simp_all add: status_ok_def Let_def failed_at_def empty_status_def img_phase_def)

lemma status_ok_reaches: "reaches x y \<Longrightarrow> status_ok x \<Longrightarrow> status_ok y"
  by (induction rule: rtranclp_induct) (auto intro: status_ok_step)

lemma spec_reaches: "reaches x y \<Longrightarrow> img_spec y = img_spec x"
proof (induction rule: rtranclp_induct)
  case (step y z)
  from step(2) have "img_spec z = img_spec y"
    by cases (simp_all add: failed_at_def same_details_kept)
  with step show ?case by simp
qed simp

section \<open>Direction\<close>

definition phase_rank :: "string \<Rightarrow> nat" where
  "phase_rank ph =
     (if ph = PhaseBuilding then 1 else if ph = PhaseProvisioning then 2
      else if ph = PhaseUploading then 3 else if ph = PhaseReady \<or> ph = PhaseFailed then 4 else 0)"

text \<open>The build revision changed since the status was written. A status without an observed
  generation was written before generations were recorded.\<close>

definition revision_changed :: "VMImage \<Rightarrow> bool" where
  "revision_changed x \<longleftrightarrow> st_observedGeneration (img_status x) \<notin> {0, img_generation x}
     \<and> st_observedRevision (img_status x) \<noteq> img_revision x"

lemma img_revision_upd_status [simp]: "img_revision (upd_status g x) = img_revision x"
  by (simp add: img_revision_def)

lemma same_details_revision: "same_details x y \<Longrightarrow> img_revision y = img_revision x"
  using same_details_kept(1,3) by (simp add: img_revision_def)

lemma progress_step:
  assumes "status_step x y" and "status_ok x" and "\<not> revision_changed x"
  shows "phase_rank (img_phase x) \<le> phase_rank (img_phase y) \<and> \<not> revision_changed y
    \<and> (terminal x \<longrightarrow> img_phase y = img_phase x)"
  using assms
proof (induction rule: status_step.induct)
  case (rebuild x)
  then show ?case by (simp add: revision_changed_def)
next
  case (details x y)
  then show ?case
    using same_details_kept [OF details(2)] same_details_revision [OF details(2)]
    by (auto simp: revision_changed_def terminal_def)
next
  case (remote_start x now)
  then have "img_phase x \<in> {'''', PhasePending}" by (auto simp: early_def status_ok_def Let_def)
  with remote_start show ?case by (auto simp: phase_rank_def revision_changed_def terminal_def)
next
  case (remote_provision x)
  then show ?case by (auto simp: phase_rank_def revision_changed_def terminal_def early_def)
next
  case (remote_ready x images ev now hygiene artifact)
  then show ?case
    by (auto simp: phase_rank_def revision_changed_def terminal_def early_def)
next
  case (fail x now)
  then show ?case by (auto simp: phase_rank_def revision_changed_def terminal_def failed_at_def)
qed (auto simp: phase_rank_def revision_changed_def terminal_def img_phase_def)

lemma progress_reaches:
  assumes "reaches x y" and "status_ok x" and "\<not> revision_changed x"
  shows "phase_rank (img_phase x) \<le> phase_rank (img_phase y) \<and> \<not> revision_changed y
    \<and> (terminal x \<longrightarrow> img_phase y = img_phase x)"
  using assms(1)
proof (induction rule: rtranclp_induct)
  case base
  then show ?case by (simp add: assms)
next
  case (step y z)
  have "status_ok y" using status_ok_reaches [OF step(1) assms(2)] .
  with step have "phase_rank (img_phase y) \<le> phase_rank (img_phase z) \<and> \<not> revision_changed z
      \<and> (terminal y \<longrightarrow> img_phase z = img_phase y)"
    by (intro progress_step) auto
  with step(3) show ?case by (auto simp: terminal_def)
qed

section \<open>Reconciliations\<close>

lemma Reconcile_written:
  fixes E :: "'w Env"
  assumes shuffle: "shuffle_ok E"
    and got: "fst (e_getVMImage E ns n (world s)) = Found img0" and "calls s = []"
    and run: "run_state (Reconcile r E ns n) s = (out, t)"
  shows "written (core img0) t"
proof -
  obtain w where w: "e_getVMImage E ns n (world s) = (Found img0, w)" using got by (metis prod.collapse fst_conv)
  have "moves (core img0) (core img0) (reconcile_found r E)"
    by (intro moves_reconcile_found shuffle) simp
  moreover have "tracked (core img0) (core img0) ((after_read s w)\<lparr>obj := img0\<rparr>)"
    using assms(3) by (simp add: tracked_def written_def)
  ultimately have "wp (reconcile_found r E) (\<lambda>_. written (core img0)) ((after_read s w)\<lparr>obj := img0\<rparr>)"
    by (simp add: moves_def)
  then have "wp (Reconcile r E ns n) (\<lambda>_. written (core img0)) s"
    by (simp add: Reconcile_def wp_simp w)
  then show ?thesis using run by (rule wp_run)
qed

lemma core_ok [simp]: "status_ok (core x) = status_ok x"
proof -
  have "st_evidence (img_status (core x)) = st_evidence (img_status x)" "st_images (img_status (core x)) = st_images (img_status x)"
    "st_completionTime (img_status (core x)) = st_completionTime (img_status x)"
    "st_buildLeaseRefs (img_status (core x)) = st_buildLeaseRefs (img_status x)" "evidence_ok (core x) = evidence_ok x"
    by (simp_all add: core_def)
  then show ?thesis by (simp add: status_ok_def Let_def)
qed

lemma core_revision_changed [simp]: "revision_changed (core x) = revision_changed x"
  by (simp add: revision_changed_def)

text \<open>What happens to an image over time: reconciliations, of which each reads the status that an
  earlier one wrote (or the first one), while its metadata may have changed.\<close>

inductive history :: "Reconciler \<Rightarrow> 'w Env \<Rightarrow> VMImage \<Rightarrow> VMImage \<Rightarrow> bool"
  for r :: Reconciler and E :: "'w Env" and img0 :: VMImage where
  created: "history r E img0 img0"
| reconciled:
    "history r E img0 img \<Longrightarrow> img_spec img' = img_spec img \<Longrightarrow> img_status img' = img_status img \<Longrightarrow>
     fst (e_getVMImage E ns n (world s)) = Found img' \<Longrightarrow> calls s = [] \<Longrightarrow>
     run_state (Reconcile r E ns n) s = (out, t) \<Longrightarrow> UpdateStatus x e \<in> set (calls t) \<Longrightarrow>
     history r E img0 x"

lemma status_ok_cong:
  "img_spec x = img_spec y \<Longrightarrow> img_status x = img_status y \<Longrightarrow> status_ok x = status_ok y"
  by (simp add: status_ok_def Let_def evidence_ok_def is_remote_def buildMode_def img_phase_def)

lemma history_ok:
  assumes "shuffle_ok E" and "history r E img0 img" and "status_ok img0"
  shows "status_ok img \<and> img_spec img = img_spec img0"
  using assms(2)
proof (induction rule: history.induct)
  case (reconciled img img' ns n s out t x e)
  from Reconcile_written [OF assms(1) reconciled(4,5,6)] reconciled(7)
  have "reaches (core img') (core x)" by (auto simp: written_def)
  note ok = status_ok_reaches [OF this] spec_reaches [OF this]
  have "status_ok img'" using reconciled status_ok_cong [of img' img] by simp
  with ok reconciled show ?case by simp
qed (simp add: assms)

section \<open>Properties\<close>

text \<open>C1: The reconciler implements the life cycle: whatever the API server, the plugins and the
  clock answer, every status that a reconciliation sends to the server is reached from the status it
  read by steps of the transition system \<open>status_step\<close> (up to conditions and pipeline steps).\<close>

theorem reconcile_refines_lifecycle:
  assumes "shuffle_ok E"
    and "fst (e_getVMImage E ns n (world s)) = Found img0" and "calls s = []"
    and "run_state (Reconcile r E ns n) s = (out, t)"
  shows "written (core img0) t"
  using assms by (rule Reconcile_written)

fun status_writes :: "call list \<Rightarrow> VMImage list" where
  "status_writes [] = []"
| "status_writes (UpdateStatus img e # cs) = img # status_writes cs"
| "status_writes (_ # cs) = status_writes cs"

lemma status_writes_set: "img \<in> set (status_writes cs) \<longleftrightarrow> (\<exists>e. UpdateStatus img e \<in> set cs)"
  by (induction cs rule: status_writes.induct) auto

definition remote_start_run :: "outcome \<times> sample st" where
  "remote_start_run = run_state (Reconcile sample_reconciler sample_env ''ci'' ''web'')
     (start sample_image (sample_world\<lparr>sw_image := Some remote_image\<rparr>))"

lemma sample_shuffle_ok [simp]: "shuffle_ok sample_env"
  by (simp add: shuffle_ok_def sample_env_def)

lemma remote_start_run_writes:
  "map img_phase (status_writes (calls (snd remote_start_run))) = [PhaseBuilding]"
  unfolding remote_start_run_def
  by (simp add: run_simp sample_simp supportsBuildMode_def evidence_required_def cong: run_cong)

theorem reconcile_refines_lifecycle_witness:
  "written (core remote_image) (snd remote_start_run)
   \<and> map img_phase (status_writes (calls (snd remote_start_run))) = [PhaseBuilding]"
proof -
  have "written (core remote_image) (snd remote_start_run)"
    by (rule reconcile_refines_lifecycle [OF sample_shuffle_ok, where ns = "''ci''" and n = "''web''"
          and s = "start sample_image (sample_world\<lparr>sw_image := Some remote_image\<rparr>)"
          and r = sample_reconciler and out = "fst remote_start_run"])
      (simp_all add: sample_env_def found_def remote_start_run_def)
  then show ?thesis using remote_start_run_writes by blast
qed

text \<open>C2: Every status is consistent with its phase: starting from an image whose status is, through
  any number of reconciliations, whatever fails in between, every status written satisfies
  \<open>status_ok\<close>: an image is \<open>Ready\<close> only with a completion time, complete image references and
  released slots, and after a remote build only with the evidence its policy requires; \<open>Uploading\<close>
  only with a complete artifact; \<open>Building\<close> only with a start time; \<open>Failed\<close> only with a completion
  time and released slots. The specification is never changed.\<close>

theorem status_invariant:
  assumes "shuffle_ok E" and "history r E img0 img" and "status_ok img0"
  shows "status_ok img \<and> img_spec img = img_spec img0"
  using assms by (rule history_ok)

lemma remote_start_history:
  assumes "img \<in> set (status_writes (calls (snd remote_start_run)))"
  shows "history sample_reconciler sample_env remote_image img"
proof -
  let ?s = "start sample_image (sample_world\<lparr>sw_image := Some remote_image\<rparr>)"
  obtain e where e: "UpdateStatus img e \<in> set (calls (snd remote_start_run))"
    using assms by (auto simp: status_writes_set)
  have "fst (e_getVMImage sample_env ''ci'' ''web'' (world ?s)) = Found remote_image"
    by (simp add: sample_env_def found_def)
  from history.reconciled [OF history.created refl refl this _ _ e, where r = sample_reconciler and out = "fst remote_start_run"]
  show ?thesis by (simp add: remote_start_run_def)
qed

theorem status_invariant_witness:
  "list_all status_ok (status_writes (calls (snd remote_start_run)))
   \<and> map img_phase (status_writes (calls (snd remote_start_run))) = [PhaseBuilding]"
proof -
  have ok: "status_ok remote_image"
    by (simp add: status_ok_def remote_image_def img_phase_def empty_status_def Let_def)
  from status_invariant [OF sample_shuffle_ok remote_start_history ok] remote_start_run_writes show ?thesis
    by (simp add: list_all_iff)
qed

text \<open>C7: Phases only advance: as long as the build revision did not change since the status was
  written, no status written in a reconciliation is in an earlier phase than the one read, and a
  finished image keeps its phase.\<close>

theorem phases_only_advance:
  assumes "shuffle_ok E"
    and "fst (e_getVMImage E ns n (world s)) = Found img0" and "calls s = []"
    and "run_state (Reconcile r E ns n) s = (out, t)" and "UpdateStatus img e \<in> set (calls t)"
    and "status_ok img0" and "\<not> revision_changed img0"
  shows "phase_rank (img_phase img0) \<le> phase_rank (img_phase img) \<and> \<not> revision_changed img
    \<and> (terminal img0 \<longrightarrow> img_phase img = img_phase img0)"
proof -
  have "reaches (core img0) (core img)"
    using Reconcile_written [OF assms(1-4)] assms(5) by (auto simp: written_def)
  from progress_reaches [OF this] assms(6,7) show ?thesis by simp
qed

theorem phases_only_advance_witness:
  "list_all (\<lambda>img. phase_rank PhasePending \<le> phase_rank (img_phase img) \<and> \<not> revision_changed img)
     (status_writes (calls (snd remote_start_run)))"
proof -
  have ok: "status_ok remote_image" "\<not> revision_changed remote_image"
    by (simp_all add: status_ok_def remote_image_def img_phase_def empty_status_def Let_def revision_changed_def)
  have run: "run_state (Reconcile sample_reconciler sample_env ''ci'' ''web'')
      (start sample_image (sample_world\<lparr>sw_image := Some remote_image\<rparr>)) =
      (fst remote_start_run, snd remote_start_run)"
    by (simp add: remote_start_run_def)
  have got: "fst (e_getVMImage sample_env ''ci'' ''web''
      (world (start sample_image (sample_world\<lparr>sw_image := Some remote_image\<rparr>)))) = Found remote_image"
    by (simp add: sample_env_def found_def)
  from phases_only_advance [OF sample_shuffle_ok got _ run _ ok] show ?thesis
    by (fastforce simp: list_all_iff status_writes_set remote_image_def img_phase_def empty_status_def phase_rank_def)
qed

text \<open>C8: Nothing to do: a reconciliation of an image that is not being deleted and has its finalizer
  makes no call at all when the image is finished and up to date, when only parts of the
  specification changed that do not change the build revision, and when the build revision changed
  while the image is being built; only in the last case it returns an error.\<close>

theorem quiescent_reconciliation:
  assumes "fst (e_getVMImage E ns n (world s)) = Found img0"
    and "img_deletionTimestamp img0 = None" and "finalizerName \<in> set (img_finalizers img0)"
    and "run_state (Reconcile r E ns n) s = (out, t)"
  shows "(terminal img0 \<and> st_observedGeneration (img_status img0) = img_generation img0 \<longrightarrow>
           calls t = calls s \<and> out = (0, None))
    \<and> (st_observedGeneration (img_status img0) \<notin> {0, img_generation img0}
         \<and> st_observedRevision (img_status img0) = img_revision img0 \<longrightarrow>
           calls t = calls s \<and> out = (0, None))
    \<and> (\<not> terminal img0 \<and> revision_changed img0 \<longrightarrow>
           calls t = calls s \<and> obj t = img0 \<and> fst out = 0 \<and> snd out \<noteq> None)"
proof -
  obtain w where w: "e_getVMImage E ns n (world s) = (Found img0, w)" using assms(1) by (metis prod.collapse)
  have run: "run_state (reconcile_found r E) ((after_read s w)\<lparr>obj := img0\<rparr>) = (out, t)"
    using assms(4) by (simp add: unfold_run [OF Reconcile_def] run_bind run_query run_primitive run_result w)
  have run': "run_state (do { handled \<leftarrow> reconcileSpecGeneration r E;
      case handled of Some out \<Rightarrow> ret out | None \<Rightarrow> dispatch r E }) ((after_read s w)\<lparr>obj := img0\<rparr>) = (out, t)"
    using run assms(2,3) by (simp add: unfold_run [OF reconcile_found_def] run_bind run_primitive)
  show ?thesis
    using run'
    by (auto simp: run_simp revision_changed_def terminal_def cong: run_cong split: if_splits)
qed

theorem quiescent_reconciliation_witness:
  "calls (snd (run_state (Reconcile sample_reconciler sample_env ''ci'' ''web'') (start sample_image
     (sample_world\<lparr>sw_image := Some (upd_status (\<lambda>st. st\<lparr>st_phase := PhaseReady\<rparr>) sample_image)\<rparr>)))) = []"
proof -
  let ?img = "upd_status (\<lambda>st. st\<lparr>st_phase := PhaseReady\<rparr>) sample_image"
  let ?s = "start sample_image (sample_world\<lparr>sw_image := Some ?img\<rparr>)"
  obtain out t where run: "run_state (Reconcile sample_reconciler sample_env ''ci'' ''web'') ?s = (out, t)"
    by fastforce
  have got: "fst (e_getVMImage sample_env ''ci'' ''web'' (world ?s)) = Found ?img"
    by (simp add: sample_env_def found_def)
  from conjunct1 [OF quiescent_reconciliation [OF got _ _ run]] have "calls t = calls ?s"
    by (simp add: terminal_def)
  with run show ?thesis by simp
qed

end
