(* ===== verification/Guarantees.thy ===== *)
theory Guarantees
  imports Correctness
begin

text \<open>
  Guarantees of single operations of the \<open>VMImage\<close> controller: what a failure records, what
  happens to provider plugins, artifact claims, old revisions and the finalizer.
\<close>

section \<open>Provider initialisation\<close>

abbreviation (input) any_change :: "VMImage \<Rightarrow> VMImage \<Rightarrow> bool" where
  "any_change \<equiv> \<lambda>_ _. True"

lemma any_change_frame [does_intro]: "reflp any_change" "transp any_change"
  by (simp_all add: reflp_def transp_def)

lemma does_any: "does A R m \<Longrightarrow> does A any_change m"
  by (erule does_mono) simp_all

lemma does_bool [does_intro]: "does A R m \<Longrightarrow> does A R n \<Longrightarrow> does A R (case b of True \<Rightarrow> m | False \<Rightarrow> n)"
  by (cases b) auto

lemma lease_call_safe: "lease_call c \<Longrightarrow> safe_init E c"
  by (cases c) auto

lemma observe_call_safe: "observe_call c \<Longrightarrow> safe_init E c"
  by (cases c) auto

lemma safe_steps:
  "does A any_change (setStep E n st re m ref)" "does A any_change (setCondition E ty st re m)"
  "does A any_change (setBuildFailureSteps E re m)" "does A any_change (setRemoteFailureSteps E re m)"
  "does A any_change (updateRemoteSteps E res)"
proof -
  show "does A any_change (setStep E n st re m ref)" by (rule does_any) (rule does_setStep)
  show "does A any_change (setCondition E ty st re m)"
    by (rule does_any) (rule does_setCondition [of ty "{ty}"], simp)
  show "does A any_change (setBuildFailureSteps E re m)" by (rule does_any) (rule does_setBuildFailureSteps)
  show "does A any_change (setRemoteFailureSteps E re m)" by (rule does_any) (rule does_setRemoteFailureSteps)
  show "does A any_change (updateRemoteSteps E res)"
    by (rule does_updateRemoteSteps) (simp_all add: reflp_def transp_def)
qed

lemma safe_leases:
  "does (safe_init E) any_change (releaseImageBuildSlots E)" "does (safe_init E) any_change (releaseBuildSlots E refs h)"
  "does (safe_init E) any_change (renewImageBuildSlots E)" "does (safe_init E) any_change (acquireBuildSlots r E)"
  by (simp_all add: does_any [OF only_releaseImageBuildSlots] does_any [OF only_releaseBuildSlots]
      does_any [OF only_renewImageBuildSlots] does_any [OF only_acquireBuildSlots] lease_call_safe)

lemma safe_cleanups:
  "does (safe_init E) any_change (cleanupArtifactStorage r E b)" "does (safe_init E) any_change (cleanupLocalUpload r E)"
  "does (safe_init E) any_change (cleanupRemoteBuild r E)" "does (safe_init E) any_change (ensureArtifactStorage E)"
  by (simp_all add: does_any [OF does_cleanupArtifactStorage] does_any [OF does_cleanupLocalUpload]
      does_any [OF does_cleanupRemoteBuild] does_any [OF only_ensureArtifactStorage])

lemmas safe_rules = safe_steps safe_leases safe_cleanups only_initProviderForTarget [where R = any_change]

lemma safe_pending_targets: "does (safe_init E) any_change (pending_targets r E ns targets owned)"
  by (induction targets arbitrary: owned) (auto simp: Let_def intro!: does_intro safe_rules)

lemma safe_close_all: "does (safe_init E) any_change (close_all E ps)"
  by (induction ps) (auto intro!: does_intro)

lemma safe_setFailedWithReason: "does (safe_init E) any_change (setFailedWithReason r E re m)"
  unfolding setFailedWithReason_def by (intro does_intro safe_rules) simp_all

lemma safe_setFailed: "does (safe_init E) any_change (setFailed r E m)"
  unfolding setFailed_def by (rule safe_setFailedWithReason)

lemma safe_retry: "does (safe_init E) any_change (retryRemoteBuild r E p err d t)"
  unfolding retryRemoteBuild_def Let_def by (intro does_intro safe_rules) simp_all

lemma safe_fail_remote: "does (safe_init E) any_change (fail_remote_build r E p re m c)"
  unfolding fail_remote_build_def by (intro does_intro safe_rules safe_setFailedWithReason) simp_all

lemma safe_remote_ready: "does (safe_init E) any_change (remote_ready r E p res images hygiene evidence)"
  unfolding remote_ready_def by (intro does_intro safe_rules) simp_all

lemma safe_remote_progress: "does (safe_init E) any_change (remote_progress r E p target res)"
  unfolding remote_progress_def remote_done_def Let_def
  by (intro does_intro safe_rules safe_setFailedWithReason safe_fail_remote safe_remote_ready) simp_all

lemma safe_remote: "does (safe_init E) any_change (reconcileRemoteBuild r E)"
  unfolding reconcileRemoteBuild_def remote_step_def remote_call_def start_remote_build_def Let_def
  by (intro does_intro safe_rules safe_setFailedWithReason safe_setFailed safe_fail_remote safe_retry
      safe_remote_progress) simp_all

lemma safe_pending: "does (safe_init E) any_change (reconcilePending_local r E)"
  unfolding reconcilePending_local_def start_local_build_def
  by (intro does_intro safe_rules safe_setFailed safe_pending_targets safe_close_all) simp_all

lemma safe_building: "does (safe_init E) any_change (reconcileBuilding r E)"
  unfolding reconcileBuilding_def build_succeeded_def build_failed_def build_running_def clear_slots_def
    dec_active_builds_def Let_def
  by (intro does_intro safe_rules safe_setFailed safe_setFailedWithReason) (simp_all add: observe_call_safe)

lemma safe_uploading: "does (safe_init E) any_change (reconcileUploading r E)"
  unfolding reconcileUploading_def start_upload_def upload_failed_def upload_running_def upload_succeeded_def Let_def
  by (intro does_intro safe_rules safe_setFailed) (simp_all add: observe_call_safe)

lemma safe_found: "does (safe_init E) any_change (reconcile_found r E)"
  unfolding reconcile_found_def reconcileDelete_def remove_finalizer_def reconcileSpecGeneration_def dispatch_def
    reconcilePending_def Let_def
  by (intro does_intro safe_rules safe_remote safe_pending safe_building safe_uploading only_garbageCollect)
    simp_all

lemma safe_Reconcile: "does (safe_init E) any_change (Reconcile r E ns n)"
  unfolding Reconcile_def by (intro does_intro safe_found) simp_all

section \<open>Values and frames together\<close>

lemma wp_frame:
  fixes m :: "('w, 'a) handler"
  assumes "does A R m" and "wp m V s"
    and "\<And>a t cs. V a t \<Longrightarrow> R (obj s) (obj t) \<Longrightarrow> calls t = calls s @ cs \<Longrightarrow> \<forall>c \<in> set cs. A c \<Longrightarrow> Q a t"
  shows "wp m Q s"
proof -
  have "wp m (\<lambda>a t. V a t \<and> R (obj s) (obj t) \<and> (\<exists>cs. calls t = calls s @ cs \<and> (\<forall>c \<in> set cs. A c))) s"
    using assms(2) doesD [OF assms(1)] by (simp add: wp_conj)
  then show ?thesis by (rule wp_mono) (use assms(3) in blast)
qed

lemma wp_if: "(b \<Longrightarrow> wp m Q s) \<Longrightarrow> (\<not> b \<Longrightarrow> wp n Q s) \<Longrightarrow> wp (if b then m else n) Q s"
  by simp

lemma wp_get_bind: "wp (State_Monad.bind get_obj f) Q s = wp (f (obj s)) Q s"
  by (simp add: wp_simp)

lemma yields_query_bind:
  "(\<And>w. yields P (f (fst (g w)))) \<Longrightarrow> yields P (State_Monad.bind (query g) f)"
  by (simp add: yields_def query_def Let_def split: prod.split) (metis fst_conv)

lemma wp_only:
  fixes m :: "('w, 'a) handler"
  assumes "only A m"
    and "\<And>a t cs. obj t = obj s \<Longrightarrow> calls t = calls s @ cs \<Longrightarrow> \<forall>c \<in> set cs. A c \<Longrightarrow> Q a t"
  shows "wp m Q s"
  by (rule wp_frame [OF assms(1) wp_True]) (use assms(2) in auto)

lemma yields_command_bind:
  "(\<And>w. yields P (f (fst (g w)))) \<Longrightarrow> yields P (State_Monad.bind (command k g) f)"
  by (simp add: yields_def command_def Let_def split: prod.split) (metis fst_conv)

lemma yields_run_bind:
  "(\<And>s a t. run_state m s = (a, t) \<Longrightarrow> yields P (f a)) \<Longrightarrow> yields P (State_Monad.bind m f)"
  by (simp add: yields_def split: prod.split)

lemma yields_get_result:
  "(\<And>a. x = Found a \<Longrightarrow> yields P (f a)) \<Longrightarrow> (\<And>e. x = NotFound e \<Longrightarrow> yields P (g e)) \<Longrightarrow>
   (\<And>e. x = GetError e \<Longrightarrow> yields P (h e)) \<Longrightarrow>
   yields P (case x of Found a \<Rightarrow> f a | NotFound e \<Rightarrow> g e | GetError e \<Rightarrow> h e)"
  by (cases x) auto

lemma yields_create_result:
  "yields P m \<Longrightarrow> (\<And>e. yields P (g e)) \<Longrightarrow> (\<And>e. yields P (h e)) \<Longrightarrow>
   yields P (case x of Created \<Rightarrow> m | AlreadyExists e \<Rightarrow> g e | CreateError e \<Rightarrow> h e)"
  by (cases x) auto

lemma yields_delete_result:
  "yields P m \<Longrightarrow> (\<And>e. yields P (g e)) \<Longrightarrow> (\<And>e. yields P (h e)) \<Longrightarrow>
   yields P (case x of Deleted \<Rightarrow> m | DeleteNotFound e \<Rightarrow> g e | DeleteError e \<Rightarrow> h e)"
  by (cases x) auto

lemma yields_list:
  "(xs = [] \<Longrightarrow> yields P m) \<Longrightarrow> (\<And>y ys. xs = y # ys \<Longrightarrow> yields P (f y ys)) \<Longrightarrow>
   yields P (case xs of [] \<Rightarrow> m | y # ys \<Rightarrow> f y ys)"
  by (cases xs) auto

lemma yields_sum_eq:
  "(\<And>e. x = Inl e \<Longrightarrow> yields P (g e)) \<Longrightarrow> (\<And>y. x = Inr y \<Longrightarrow> yields P (f y)) \<Longrightarrow>
   yields P (case x of Inl e \<Rightarrow> g e | Inr y \<Rightarrow> f y)"
  by (cases x) auto

lemma yields_prod_eq:
  "(\<And>a b. x = (a, b) \<Longrightarrow> yields P (f a b)) \<Longrightarrow> yields P (case x of (a, b) \<Rightarrow> f a b)"
  by (cases x) auto

lemmas yields_results = yields_get_result yields_create_result yields_delete_result yields_list

lemma calls_made:
  assumes "does A R m" and "trace s = []" and "calls s = []"
  shows "calls (snd (run_state m s)) = made (trace (snd (run_state m s)))"
  using assms unfolding does_def by (metis append_Nil)

section \<open>Deletion\<close>

text \<open>What a run has done before a moment is what stands before it in the trace. The provider's side of an upload is
  cleaned up: the run has seen that its cleanup Job succeeded.\<close>

definition upload_cleaned :: "'w Env \<Rightarrow> VMImage \<Rightarrow> ('w \<times> call option) list \<Rightarrow> bool" where
  "upload_cleaned E img before \<longleftrightarrow>
     (\<exists>w job. (w, None) \<in> set before
        \<and> fst (e_getJob E (img_namespace img) (CleanupJobName (e_sha256 E) img) w) = Found job
        \<and> isJobSucceeded job)"

text \<open>The plugin that stands for a provider when its resource is read in \<open>w\<close>: the adapter of a healthy
  \<open>PlatformProvider\<close> resource, or a built-in plugin when there is none.\<close>

definition plugin_for :: "'w Env \<Rightarrow> string \<Rightarrow> 'w \<Rightarrow> Plugin \<Rightarrow> bool" where
  "plugin_for E name w p \<longleftrightarrow>
     (case e_getPlatformProvider E name w of
        (Found pp, w') \<Rightarrow> pps_phase (ppr_status pp) = ''Healthy'' \<and> handshake_ok pp name
          \<and> External (ppr_name pp) (ppr_uid pp) name (e_getRegistry E w') = Inr p
      | (NotFound e, w') \<Rightarrow> fst (New name (e_getRegistry E w')) = Inr p
      | (GetError e, w') \<Rightarrow> False)"

text \<open>A remote build is cleaned up: the run has read the target's configuration, has chosen the plugin of the provider
  this configuration names, and that plugin has removed what this very build left behind, or it has nothing
  to clean up.\<close>

definition remote_cleaned :: "'w Env \<Rightarrow> VMImage \<Rightarrow> TargetSpec \<Rightarrow> ('w \<times> call option) list \<Rightarrow> bool" where
  "remote_cleaned E img target before \<longleftrightarrow>
     (\<exists>wc cfg w p. (wc, None) \<in> set before
        \<and> get_error (fst (e_getProviderConfig E (img_namespace img) (tgt_providerConfigRef target) wc)) = Inr cfg
        \<and> (w, None) \<in> set before \<and> plugin_for E (pc_provider cfg) w p
        \<and> (pl_buildModes p \<noteq> None \<and> pl_cleanup p \<longrightarrow>
             (\<exists>w. (w, Some (CleanupRemote p (remoteBuildRequest E img target) None)) \<in> set before)))"

lemma cleaned_mono:
  "upload_cleaned E img tr \<Longrightarrow> set tr \<subseteq> set tr' \<Longrightarrow> upload_cleaned E img tr'"
  "remote_cleaned E img target tr \<Longrightarrow> set tr \<subseteq> set tr' \<Longrightarrow> remote_cleaned E img target tr'"
  unfolding upload_cleaned_def remote_cleaned_def by blast+

lemma yields_fail_cleanup: "(\<And>e. P (Inl e)) \<Longrightarrow> yields P (fail_cleanup r E scope reason err)"
  unfolding fail_cleanup_def by (intro yields_intro) simp

lemma wp_fail_cleanup: "(\<And>e t. Q (Inl e) t) \<Longrightarrow> wp (fail_cleanup r E scope reason err) Q s"
  by (rule wp_mono [OF yieldsD [OF yields_fail_cleanup [where P = "\<lambda>a. \<exists>e. a = Inl e"]]]) auto

lemma cleanup_upload_job_done:
  "wp (cleanup_upload_job r E) (\<lambda>res t. res = Inr True \<longrightarrow> upload_cleaned E (obj s) (trace t)) s"
  unfolding cleanup_upload_job_def Let_def wp_get_bind
  by (rule wp_any_bind)
    (auto simp: wp_simp recordEvent_def upload_cleaned_def split: sum.split get_result.split prod.split option.split
        create_result.split intro!: wp_fail_cleanup wp_any [where m = "providerConnectionsForTargets r E c" for c])

lemma cleanupLocalUpload_done:
  "wp (cleanupLocalUpload r E) (\<lambda>res t. res = Inr True \<longrightarrow>
     st_buildArtifact (img_status (obj s)) \<noteq> None \<longrightarrow> usesArtifactPVC (obj s) \<longrightarrow> upload_cleaned E (obj s) (trace t)) s"
proof -
  have job: "wp (cleanup_upload_job r E) (\<lambda>res t. res = Inr True \<longrightarrow> upload_cleaned E (obj s) (trace t)) t"
    if "obj t = obj s" for t
    using cleanup_upload_job_done [of r E t] that by simp
  show ?thesis
    unfolding cleanupLocalUpload_def Let_def
    by (auto simp: wp_simp recordEvent_def split: prod.split option.split get_result.split delete_result.split
        intro!: job [THEN wp_mono] wp_fail_cleanup)
qed

lemma wp_fail_remote_cleanup: "(\<And>e t. Q (Some e) t) \<Longrightarrow> wp (fail_remote_cleanup r E err) Q s"
  unfolding fail_remote_cleanup_def by (rule wp_any_bind) (simp add: wp_ret)

lemma wp_grows: "does A R m \<Longrightarrow> wp m (\<lambda>_ t. set (trace s) \<subseteq> set (trace t)) s"
  by (rule wp_mono [OF doesD_trace]) auto

lemma remote_cleanup_call_done:
  "wp (remote_cleanup_call r E img target n p) (\<lambda>res t. set (trace s) \<subseteq> set (trace t)
     \<and> (res = None \<longrightarrow> pl_buildModes p \<noteq> None \<longrightarrow> pl_cleanup p \<longrightarrow>
          (\<exists>w. (w, Some (CleanupRemote p (remoteBuildRequest E img target) None)) \<in> set (trace t)))) s"
  unfolding wp_conj
proof
  show "wp (remote_cleanup_call r E img target n p) (\<lambda>_ t. set (trace s) \<subseteq> set (trace t)) s"
    unfolding remote_cleanup_call_def fail_remote_cleanup_def
    by (rule wp_grows [where A = "\<lambda>_. True" and R = any_change])
      (intro does_intro safe_rules does_any [OF does_fail_cleanup] does_mono [OF only_initProviderForTarget [where R = any_change]]; simp)
  show "wp (remote_cleanup_call r E img target n p) (\<lambda>res t. res = None \<longrightarrow> pl_buildModes p \<noteq> None \<longrightarrow> pl_cleanup p \<longrightarrow>
      (\<exists>w. (w, Some (CleanupRemote p (remoteBuildRequest E img target) None)) \<in> set (trace t))) s"
    unfolding remote_cleanup_call_def
    by (intro wp_if wp_any_bind)
      (auto simp: wp_simp split: option.split prod.split intro!: wp_fail_remote_cleanup)
qed

lemma cleanupRemoteBuild_done:
  "wp (cleanupRemoteBuild r E) (\<lambda>res t. res = None \<longrightarrow> is_remote (obj s) \<longrightarrow>
     (\<forall>target. spec_targets (img_spec (obj s)) = [target] \<longrightarrow> remote_cleaned E (obj s) target (trace t))) s"
proof -
  have call: "wp (remote_cleanup_call r E img target n p) (\<lambda>result t. wp (State_Monad.bind k (\<lambda>_. ret result))
        (\<lambda>res t. res = None \<longrightarrow> remote_cleaned E img target (trace t)) t) u"
    if read: "k = closeProviderPlugin E p \<or> k = ret ()" "(wc, None) \<in> set (trace u)"
      "get_error (fst (e_getProviderConfig E (img_namespace img) (tgt_providerConfigRef target) wc)) = Inr cfg"
      "(w, None) \<in> set (trace u)" "plugin_for E (pc_provider cfg) w p" for img target n p k u wc cfg w
  proof (rule wp_mono [OF remote_cleanup_call_done])
    fix result :: "go_error option" and t :: "'a st"
    assume t: "set (trace u) \<subseteq> set (trace t) \<and> (result = None \<longrightarrow> pl_buildModes p \<noteq> None \<longrightarrow> pl_cleanup p \<longrightarrow>
      (\<exists>w. (w, Some (CleanupRemote p (remoteBuildRequest E img target) None)) \<in> set (trace t)))"
    have "result = None \<longrightarrow> remote_cleaned E img target (trace t)"
      unfolding remote_cleaned_def using t read by blast
    with read(1) show "wp (State_Monad.bind k (\<lambda>_. ret result))
        (\<lambda>res t. res = None \<longrightarrow> remote_cleaned E img target (trace t)) t"
      by (auto simp: closeProviderPlugin_def wp_simp split: prod.split elim!: cleaned_mono(2))
  qed
  have chosen: "wp (remote_cleanup_call r E (obj s) target n p) (\<lambda>result t. wp (State_Monad.bind k (\<lambda>_. ret result))
        (\<lambda>res t. res = None \<longrightarrow> remote_cleaned E (obj s) target (trace t)) t) u"
    if "e_getProviderConfig E (img_namespace (obj s)) (tgt_providerConfigRef target) (world s) = (x, w)"
      "get_error x = Inr cfg" "e_getPlatformProvider E (pc_provider cfg) w = (y, w')"
      "k = closeProviderPlugin E p \<or> k = ret ()" "plugin_for E (pc_provider cfg) w p"
      "(world s, None) \<in> set (trace u)" "(w, None) \<in> set (trace u)" for target n p k x w cfg y w' u
    by (rule call [of k p "world s"]) (use that in simp_all)
  show ?thesis
    unfolding cleanupRemoteBuild_def wp_get_bind providerNameForTarget_def providerPlugin_def registry_New_def
    by (auto simp: wp_simp is_remote_def split: list.split prod.split sum.split get_result.split if_split
        intro!: wp_fail_remote_cleanup; rule chosen; assumption?; simp add: plugin_for_def)
qed

text \<open>The slots an image refers to are free.\<close>

definition slots_free :: "(string \<times> string \<rightharpoonup> Lease) \<Rightarrow> VMImage \<Rightarrow> bool" where
  "slots_free v img \<longleftrightarrow>
     (\<forall>ref \<in> set (st_buildLeaseRefs (img_status img)). \<exists>k. ref_key ref = Some k \<and> \<not> held_by v k (leaseHolder img))"

lemma releaseImageBuildSlots_frees:
  assumes "lease_store E view clk"
  shows "wp (releaseImageBuildSlots E) (\<lambda>res t. res = None \<longrightarrow> slots_free (view (world t)) (obj s)) s"
proof -
  have "wp (releaseBuildSlots E (st_buildLeaseRefs (img_status (obj s))) (leaseHolder (obj s)))
      (\<lambda>res t. res = None \<longrightarrow> slots_free (view (world t)) (obj s)) s"
    by (rule wp_mono [OF releaseBuildSlots_wp [OF assms]]) (auto simp: released_post_def slots_free_def)
  then show ?thesis
    by (auto simp: releaseImageBuildSlots_def wp_simp slots_free_def)
qed

fun no_update :: "call \<Rightarrow> bool" where
  "no_update (UpdateObject img e) = False"
| "no_update _ = True"

text \<open>What has to stand before the update of the object, which happens in the world \<open>w\<close>.\<close>

definition releasing_cleanup ::
    "('w \<Rightarrow> string \<times> string \<rightharpoonup> Lease) \<Rightarrow> 'w Env \<Rightarrow> VMImage \<Rightarrow> ('w \<times> call option) list \<Rightarrow> 'w \<Rightarrow> bool" where
  "releasing_cleanup view E img before w \<longleftrightarrow>
     slots_free (view w) img
     \<and> (is_remote img \<longrightarrow> (\<forall>target. spec_targets (img_spec img) = [target] \<longrightarrow> remote_cleaned E img target before))
     \<and> (\<not> is_remote img \<and> img_phase img = PhaseUploading \<and> st_buildArtifact (img_status img) \<noteq> None
          \<and> usesArtifactPVC img \<longrightarrow> upload_cleaned E img before)"

definition updates_after_cleanup ::
    "('w \<Rightarrow> string \<times> string \<rightharpoonup> Lease) \<Rightarrow> 'w Env \<Rightarrow> VMImage \<Rightarrow> ('w \<times> call option) list \<Rightarrow> bool" where
  "updates_after_cleanup view E img0 tr \<longleftrightarrow>
     (\<forall>before w img e rest. tr = before @ (w, Some (UpdateObject img e)) # rest \<longrightarrow>
        releasing_cleanup view E img0 before w \<and> finalizerName \<notin> set (img_finalizers img) \<and> img_spec img = img_spec img0)"

definition no_updates :: "('w \<times> call option) list \<Rightarrow> bool" where
  "no_updates tr \<longleftrightarrow> list_all no_update (made tr)"

lemma no_updates_simps [simp]:
  "no_updates []" "no_updates (a @ b) \<longleftrightarrow> no_updates a \<and> no_updates b"
  by (simp_all add: no_updates_def)

lemma no_updates_after: "no_updates tr \<Longrightarrow> updates_after_cleanup view E img0 tr"
  by (auto simp: updates_after_cleanup_def no_updates_def)

lemma updates_after_last:
  assumes "no_updates tr" and "releasing_cleanup view E img0 tr w"
    and "finalizerName \<notin> set (img_finalizers img)" and "img_spec img = img_spec img0"
  shows "updates_after_cleanup view E img0 (tr @ [(w, Some (UpdateObject img e))])"
  unfolding updates_after_cleanup_def
proof (intro allI impI)
  fix before w' img' e' rest
  assume split: "tr @ [(w, Some (UpdateObject img e))] = before @ (w', Some (UpdateObject img' e')) # rest"
  have "rest = []"
  proof (rule ccontr)
    assume "rest \<noteq> []"
    with split have "tr = before @ (w', Some (UpdateObject img' e')) # butlast rest"
      by (metis butlast_append butlast_snoc list.discI butlast.simps(2))
    with assms(1) show False by (simp add: no_updates_def)
  qed
  with split assms(2-) show "releasing_cleanup view E img0 before w' \<and> finalizerName \<notin> set (img_finalizers img')
      \<and> img_spec img' = img_spec img0" by simp
qed

lemma wp_frame_trace:
  fixes m :: "('w, 'a) handler"
  assumes "does A R m" and "wp m V s"
    and "\<And>a t tr. V a t \<Longrightarrow> R (obj s) (obj t) \<Longrightarrow> trace t = trace s @ tr \<Longrightarrow> calls t = calls s @ made tr \<Longrightarrow>
      \<forall>c \<in> set (made tr). A c \<Longrightarrow> Q a t"
  shows "wp m Q s"
proof -
  have "wp m (\<lambda>a t. V a t \<and> R (obj s) (obj t) \<and> (\<exists>tr. trace t = trace s @ tr \<and> calls t = calls s @ made tr
      \<and> (\<forall>c \<in> set (made tr). A c))) s"
    using assms(2) doesD_trace [OF assms(1)] by (simp add: wp_conj)
  then show ?thesis by (rule wp_mono) (use assms(3) in blast)
qed

lemma lease_call_no_update: "lease_call c \<Longrightarrow> no_update c"
  by (cases c) auto

lemma remove_finalizer_after:
  fixes E :: "'w Env"
  assumes laws: "lease_store E view clk" and core: "core (obj s) = core img0" and before: "no_updates (trace s)"
    and cleaned: "\<And>tr w. slots_free (view w) img0 \<Longrightarrow> releasing_cleanup view E img0 (trace s @ tr) w"
  shows "wp (remove_finalizer E) (\<lambda>_ t. updates_after_cleanup view E img0 (trace t)) s"
proof -
  have free: "slots_free v (obj s) = slots_free v img0" for v
    using core_fields [OF core] by (simp add: slots_free_def leaseHolder_def)
  have frame: "only no_update (releaseImageBuildSlots E)"
    by (rule only_releaseImageBuildSlots) (rule lease_call_no_update)
  show ?thesis
    unfolding remove_finalizer_def wp_bind
  proof (rule wp_frame_trace [OF frame releaseImageBuildSlots_frees [OF laws]])
    fix res :: "go_error option" and t :: "'w st" and tr
    assume t: "res = None \<longrightarrow> slots_free (view (world t)) (obj s)" "obj s = obj t" "trace t = trace s @ tr"
      "\<forall>c \<in> set (made tr). no_update c"
    have none: "no_updates (trace t)" using before t(3,4) by (auto simp: no_updates_def list_all_iff)
    show "wp (case res of Some err \<Rightarrow> ret (0, Some (wrapf ''release build slots during deletion: '' err))
        | None \<Rightarrow> do {
            set_obj (\<lambda>img. img\<lparr>img_finalizers := filter (\<lambda>f. f \<noteq> finalizerName) (img_finalizers img)\<rparr>);
            updated \<leftarrow> update_object E;
            ret (0, map_option (wrapf ''remove finalizer: '') updated)
          }) (\<lambda>_ t. updates_after_cleanup view E img0 (trace t)) t"
    proof (cases res)
      case None
      with t(1) free have "slots_free (view (world t)) img0" by simp
      then have "releasing_cleanup view E img0 (trace t) (world t)" using cleaned t(3) by simp
      then show ?thesis
        using None none t(2) core_fields(1) [OF core]
        by (auto simp: wp_simp update_object_def split: prod.split intro!: updates_after_last)
    qed (use none in \<open>simp add: wp_ret no_updates_after\<close>)
  qed
qed

lemma delete_cleans_up:
  fixes E :: "'w Env"
  assumes laws: "lease_store E view clk" and none: "no_updates (trace s)"
  shows "wp (reconcileDelete r E) (\<lambda>_ t. updates_after_cleanup view E (obj s) (trace t)) s"
proof -
  have after: "wp (remove_finalizer E) (\<lambda>_ t. updates_after_cleanup view E (obj s) (trace t)) t"
    if "same_core {''CleanupFailed''} (obj s) (obj t)" "no_updates (trace t)"
      "\<And>tr w. slots_free (view w) (obj s) \<Longrightarrow> releasing_cleanup view E (obj s) (trace t @ tr) w" for t
    using that by (intro remove_finalizer_after [OF laws]) (auto simp: same_core_def)
  have quiet: "no_updates tr" if "\<forall>c \<in> set (made tr). no_update c" for tr :: "('w \<times> call option) list"
    using that by (simp add: no_updates_def list_all_iff)
  have remote: "does no_update (same_core {''CleanupFailed''}) (cleanupRemoteBuild r E)"
    by (rule does_cleanupRemoteBuild) simp_all
  have upload: "does no_update (same_core {''CleanupFailed''}) (cleanupLocalUpload r E)"
    by (rule does_cleanupLocalUpload) simp_all
  show ?thesis
    unfolding reconcileDelete_def wp_get_bind
  proof (intro wp_if)
    assume "buildMode (obj s) = BuildModeRemote"
    then show "wp (do {
        cleaned \<leftarrow> cleanupRemoteBuild r E;
        case cleaned of Some err \<Rightarrow> ret (0, Some (wrapf ''cleanup remote build during deletion: '' err))
        | None \<Rightarrow> remove_finalizer E }) (\<lambda>_ t. updates_after_cleanup view E (obj s) (trace t)) s"
      unfolding wp_bind
      by (intro wp_frame_trace [OF remote cleanupRemoteBuild_done])
        (auto simp: wp_simp is_remote_def releasing_cleanup_def quiet none split: option.split
          intro!: after no_updates_after elim!: cleaned_mono(2))
  next
    assume "buildMode (obj s) \<noteq> BuildModeRemote" "img_phase (obj s) = PhaseUploading"
    then show "wp (do {
        cleaned \<leftarrow> cleanupLocalUpload r E;
        case cleaned of Inl err \<Rightarrow> ret (0, Some (wrapf ''cleanup local upload during deletion: '' err))
        | Inr False \<Rightarrow> ret (requeueAfter, None) | Inr True \<Rightarrow> remove_finalizer E })
        (\<lambda>_ t. updates_after_cleanup view E (obj s) (trace t)) s"
      unfolding wp_bind
      by (intro wp_frame_trace [OF upload cleanupLocalUpload_done])
        (auto simp: wp_simp is_remote_def releasing_cleanup_def quiet none split: sum.split bool.split
          intro!: after no_updates_after elim!: cleaned_mono(1))
  next
    assume "buildMode (obj s) \<noteq> BuildModeRemote" "img_phase (obj s) \<noteq> PhaseUploading"
    then show "wp (remove_finalizer E) (\<lambda>_ t. updates_after_cleanup view E (obj s) (trace t)) s"
      using none by (intro after) (auto simp: same_core_def releasing_cleanup_def is_remote_def)
  qed
qed

section \<open>Failure\<close>

definition failed_status :: "VMImage \<Rightarrow> bool" where
  "failed_status img \<longleftrightarrow>
     img_phase img = PhaseFailed \<and> st_completionTime (img_status img) \<noteq> None
     \<and> st_buildLeaseRefs (img_status img) = [] \<and> has_condition img ''Failed'' ConditionTrue"

definition fails_only :: "'w st \<Rightarrow> bool" where
  "fails_only s \<longleftrightarrow> failed_status (obj s) \<and> list_all failed_status (status_writes (calls s))"

lemma status_writes_append [simp]: "status_writes (cs @ ds) = status_writes cs @ status_writes ds"
  by (induction cs rule: status_writes.induct) auto

lemma status_writes_quiet: "\<forall>c \<in> set cs. quiet c \<Longrightarrow> status_writes cs = []"
  by (induction cs rule: status_writes.induct) auto

lemma failed_status_same_core:
  assumes "same_core {''CleanupFailed''} x y" and "failed_status x"
  shows "failed_status y"
proof -
  have "core x = core y" and f: "find (\<lambda>c. cond_type c = ''Failed'') (st_conditions (img_status x)) =
      find (\<lambda>c. cond_type c = ''Failed'') (st_conditions (img_status y))"
    using assms(1) by (simp_all add: same_core_def)
  with core_fields [OF this(1)] assms(2) show ?thesis
    by (simp add: failed_status_def has_condition_def f)
qed

lemma does_fails_only:
  fixes m :: "('w, 'a) handler"
  assumes "does quiet (same_core {''CleanupFailed''}) m"
  shows "keeps fails_only m"
proof (rule keepsI)
  fix s :: "'w st" assume s: "fails_only s"
  show "wp m (\<lambda>_. fails_only) s"
    by (rule wp_mono [OF doesD [OF assms]])
      (use s failed_status_same_core in \<open>auto simp: fails_only_def status_writes_quiet\<close>)
qed

lemma update_fails_only: "keeps fails_only (update_status E)"
  by (rule keepsI) (auto simp: update_status_def wp_simp fails_only_def split: prod.split)

lemma only_quiet_core: "only quiet m \<Longrightarrow> does quiet (same_core T) m"
  by (erule does_mono) (auto simp: same_core_def)

lemma markCleanupFailure_fails_only: "keeps fails_only (markCleanupFailure r E scope reason err)"
  unfolding markCleanupFailure_def Let_def
  by (intro keeps_intro update_fails_only does_fails_only does_intro) simp_all

lemma cleanupArtifactStorage_fails_only: "keeps fails_only (cleanupArtifactStorage r E b)"
  unfolding cleanupArtifactStorage_def Let_def
  by (intro keeps_intro markCleanupFailure_fails_only does_fails_only does_intro) simp_all

lemma lease_call_quiet: "lease_call c \<Longrightarrow> quiet c"
  by (cases c) auto

lemma setFailedWithReason_writes:
  fixes E :: "'w Env"
  assumes "status_writes (calls s) = []"
  shows "wp (setFailedWithReason r E reason message) (\<lambda>_ t. list_all failed_status (status_writes (calls t))) s"
proof -
  have release: "only quiet (releaseImageBuildSlots E)"
    by (rule only_releaseImageBuildSlots) (rule lease_call_quiet)
  define rest :: "('w, outcome) handler" where "rest = do {
         updated \<leftarrow> update_status E;
         case updated of
           Some err \<Rightarrow> ret (0, Some (wrapf ''update status to Failed: '' err))
         | None \<Rightarrow> do {
             recordEvent r EventWarning reason message;
             cleaned \<leftarrow> cleanupArtifactStorage r E False;
             case cleaned of
               Some err \<Rightarrow> ret (0, Some (wrapf ''cleanup artifact storage after failure: '' err))
             | None \<Rightarrow> ret (0, None)
           }
       }"
  have keeps: "keeps fails_only rest"
    unfolding rest_def
    by (intro keeps_intro update_fails_only cleanupArtifactStorage_fails_only does_fails_only does_intro) simp_all
  have rest: "wp rest (\<lambda>_ t. list_all failed_status (status_writes (calls t))) t" if "fails_only t" for t
    by (rule wp_mono [OF keepsD [OF keeps that]]) (simp add: fails_only_def)
  have tail: "wp (do {
        set_status (\<lambda>st. st\<lparr>st_buildLeaseRefs := [], st_scheduledNodeName := ''''\<rparr>);
        setCondition E ''Failed'' ConditionTrue reason message;
        rest }) (\<lambda>_ t. list_all failed_status (status_writes (calls t))) t"
    if "img_phase (obj t) = PhaseFailed" "st_completionTime (img_status (obj t)) \<noteq> None"
      "status_writes (calls t) = []" for t
    using that
    by (auto simp: wp_simp setCondition_def fails_only_def failed_status_def has_condition_def set_condition_def
        find_upsert_first img_phase_def split: prod.split option.split intro!: rest)
  show ?thesis
    unfolding setFailedWithReason_def rest_def [symmetric] wp_bind
    by (simp add: wp_query wp_set_status split: prod.split, intro allI impI wp_only [OF release])
      (auto simp: wp_ret wp_bind [symmetric] status_writes_quiet assms img_phase_def split: option.split
        intro!: tail)
qed

section \<open>Garbage collection\<close>

abbreviation (input) revision_label :: string where "revision_label \<equiv> ''imagebuilder.io/revision''"

text \<open>A label names an old revision.\<close>

definition historical :: "'w Env \<Rightarrow> VMImage \<Rightarrow> strmap \<Rightarrow> bool" where
  "historical E img labels \<longleftrightarrow> get_str labels revision_label \<notin> {'''', Hash (e_sha256 E) (img_revision img)}"

fun gc_call :: "'w Env \<Rightarrow> VMImage \<Rightarrow> ('w \<times> call option) list \<Rightarrow> call \<Rightarrow> bool" where
  "gc_call E img before (DeleteJob ns n x) \<longleftrightarrow>
     (\<exists>w js j. (w, None) \<in> set before
        \<and> fst (e_listJobs E (img_namespace img) (revision_selector img) w) = Inr js \<and> j \<in> set js
        \<and> job_namespace j = ns \<and> job_name j = n \<and> historical E img (job_labels j))"
| "gc_call E img before (DeletePVC ns n x) \<longleftrightarrow>
     (\<exists>w ps p. (w, None) \<in> set before
        \<and> fst (e_listPVCs E (img_namespace img) (revision_selector img) w) = Inr ps \<and> p \<in> set ps
        \<and> pvcl_namespace p = ns \<and> pvcl_name p = n \<and> historical E img (pvcl_labels p))"
| "gc_call E img before _ = False"

lemma gc_call_mono: "gc_call E img before c \<Longrightarrow> set before \<subseteq> set before' \<Longrightarrow> gc_call E img before' c"
  by (cases c) auto

text \<open>Every call of the trace is a deletion of something that was listed before it and belongs to an old revision.\<close>

definition collects_listed :: "'w Env \<Rightarrow> VMImage \<Rightarrow> ('w \<times> call option) list \<Rightarrow> bool" where
  "collects_listed E img tr \<longleftrightarrow>
     (\<forall>before w c rest. tr = before @ (w, Some c) # rest \<longrightarrow> gc_call E img before c)"

lemma collects_listedI:
  assumes "made pre = []" and "\<forall>c \<in> set (made tr). gc_call E img pre c"
  shows "collects_listed E img (pre @ tr)"
  unfolding collects_listed_def
proof (intro allI impI)
  fix before w c rest assume eq: "pre @ tr = before @ (w, Some c) # rest"
  have "(w, Some c) \<notin> set pre" using made_mem [of c pre] assms(1) by auto
  have "\<exists>us. before = pre @ us \<and> tr = us @ (w, Some c) # rest"
    using eq [unfolded append_eq_append_conv2] \<open>(w, Some c) \<notin> set pre\<close> by (auto simp: append_eq_Cons_conv)
  then obtain us where us: "before = pre @ us" "tr = us @ (w, Some c) # rest" by blast
  then have "gc_call E img pre c" using assms(2) by simp
  with us(1) show "gc_call E img before c" by (auto elim: gc_call_mono)
qed

definition group_within :: "Job set \<Rightarrow> PVC set \<Rightarrow> revisionGroup \<Rightarrow> bool" where
  "group_within J P g \<longleftrightarrow> set (grp_jobs g) \<subseteq> J \<and> set (grp_pvcs g) \<subseteq> P"

definition groups_within :: "Job set \<Rightarrow> PVC set \<Rightarrow> groups \<Rightarrow> bool" where
  "groups_within J P groups \<longleftrightarrow> (\<forall>x \<in> set groups. group_within J P (snd x))"

lemma set_upsert_first: "set (upsert_first key k f new xs) \<subseteq> set xs \<union> f ` set xs \<union> {new}"
  using set_update_first [of "\<lambda>x. key x = k" f xs] by (auto simp: upsert_first_def)

lemma groups_within_ensure:
  assumes "groups_within J P groups" and add: "\<And>g. group_within J P g \<Longrightarrow> group_within J P (add g)"
  shows "groups_within J P (ensure_group hash created add groups)"
proof -
  let ?f = "\<lambda>(h, g). (h, add (if created > grp_created g then g\<lparr>grp_created := created\<rparr> else g))"
  let ?new = "(hash, add \<lparr>grp_created = created, grp_jobs = [], grp_pvcs = []\<rparr>)"
  have f: "group_within J P (snd (?f x))" if "group_within J P (snd x)" for x
    using that add [of "snd x"] add [of "(snd x)\<lparr>grp_created := created\<rparr>"]
    by (simp add: group_within_def case_prod_beta)
  have new: "group_within J P (snd ?new)" using add by (simp add: group_within_def)
  have "set (ensure_group hash created add groups) \<subseteq> set groups \<union> ?f ` set groups \<union> {?new}"
    unfolding ensure_group_def by (rule set_upsert_first)
  moreover have "group_within J P (snd x)" if "x \<in> set groups \<union> ?f ` set groups \<union> {?new}" for x
    using that assms(1) f new unfolding groups_within_def by blast
  ultimately show ?thesis unfolding groups_within_def by blast
qed

lemma does_query_bind:
  fixes f :: "'b \<Rightarrow> ('w, 'a) handler"
  assumes "\<And>w. does A R (f (fst (g w)))"
  shows "does A R (State_Monad.bind (query g) f)"
  unfolding does_def
proof
  fix s :: "'w st"
  obtain a w where g: "g (world s) = (a, w)" by fastforce
  have "does A R (f a)" using assms [of "world s"] g by simp
  then obtain tr where "R (obj s) (obj (snd (run_state (f a) (after_read s w))))"
    "trace (snd (run_state (f a) (after_read s w))) = trace s @ (world s, None) # tr"
    "calls (snd (run_state (f a) (after_read s w))) = calls s @ made tr" "\<forall>c \<in> set (made tr). A c"
    unfolding does_def by (metis after_simps(1,3,4) append.assoc append_Cons append_Nil)
  then show "R (obj s) (obj (snd (run_state (State_Monad.bind (query g) f) s)))
      \<and> (\<exists>tr. trace (snd (run_state (State_Monad.bind (query g) f) s)) = trace s @ tr
        \<and> calls (snd (run_state (State_Monad.bind (query g) f) s)) = calls s @ made tr \<and> (\<forall>c \<in> set (made tr). A c))"
    using g by (auto simp: query_def intro!: exI [of _ "(world s, None) # tr"])
qed

lemma fold_groups_within:
  assumes "\<And>x groups. x \<in> set xs \<Longrightarrow> groups_within J P groups \<Longrightarrow> groups_within J P (add x groups)"
    and "groups_within J P groups"
  shows "groups_within J P (fold add xs groups)"
  using assms by (induction xs arbitrary: groups) auto

lemma collected_groups_within:
  assumes "\<And>j. j \<in> set js \<Longrightarrow> get_str (job_labels j) revision_label \<notin> {'''', current} \<Longrightarrow> j \<in> J"
    and "\<And>p. p \<in> set ps \<Longrightarrow> get_str (pvcl_labels p) revision_label \<notin> {'''', current} \<Longrightarrow> p \<in> P"
  shows "groups_within J P (fold (add_pvc current) ps (fold (add_job current) js []))"
proof (intro fold_groups_within)
  show "groups_within J P (add_pvc current p groups)" if "p \<in> set ps" "groups_within J P groups" for p groups
    using that assms(2) [OF that(1)]
    by (auto simp: add_pvc_def Let_def group_within_def intro!: groups_within_ensure)
  show "groups_within J P (add_job current j groups)" if "j \<in> set js" "groups_within J P groups" for j groups
    using that assms(1) [OF that(1)]
    by (auto simp: add_job_def Let_def group_within_def intro!: groups_within_ensure)
qed (simp add: groups_within_def)

lemma set_expired_entries: "set (expired_entries policy now entries) \<subseteq> set entries"
  by (auto simp: expired_entries_def in_set_enumerate_eq) (metis nth_mem length_sort set_sort)+

lemma does_for_each_in:
  "reflp R \<Longrightarrow> transp R \<Longrightarrow> (\<And>x. x \<in> set xs \<Longrightarrow> does A R (f x)) \<Longrightarrow> does A R (for_each xs f)"
  by (induction xs) (auto intro!: does_intro)

lemma does_sum_eq:
  "(\<And>e. x = Inl e \<Longrightarrow> does A R (g e)) \<Longrightarrow> (\<And>y. x = Inr y \<Longrightarrow> does A R (f y)) \<Longrightarrow>
   does A R (case x of Inl e \<Rightarrow> g e | Inr y \<Rightarrow> f y)"
  by (cases x) auto

lemma does_delete_group:
  assumes "\<And>j x. j \<in> set (grp_jobs g) \<Longrightarrow> A (DeleteJob (job_namespace j) (job_name j) x)"
    and "\<And>p x. p \<in> set (grp_pvcs g) \<Longrightarrow> A (DeletePVC (pvcl_namespace p) (pvcl_name p) x)"
  shows "only A (do {
    failed \<leftarrow> for_each (grp_jobs g) (delete_historical_job E);
    case failed of Some err \<Rightarrow> ret (Some err) | None \<Rightarrow> for_each (grp_pvcs g) (delete_historical_pvc E) })"
  unfolding delete_historical_job_def delete_historical_pvc_def
  by (intro does_bind does_option does_ret does_for_each_in does_command frame_eq assms)

lemma garbageCollect_calls:
  "wp (garbageCollectHistoricalRevisions E) (\<lambda>_ t. \<exists>tr. trace t = trace s @ tr \<and> collects_listed E (obj s) tr) s"
proof -
  let ?img = "obj s"
  let ?cur = "Hash (e_sha256 E) (img_revision ?img)"
  let ?A = "\<lambda>w w'. gc_call E ?img [(w, None), (w', None)]"
  have within: "group_within {j. ?A w w' (DeleteJob (job_namespace j) (job_name j) Deleted)}
        {p. ?A w w' (DeletePVC (pvcl_namespace p) (pvcl_name p) Deleted)} g"
    if "e_listJobs E (img_namespace ?img) (revision_selector ?img) w = (Inr js, v)"
      "e_listPVCs E (img_namespace ?img) (revision_selector ?img) w' = (Inr ps, v')"
      "g \<in> set (expired_entries policy now (List.map_filter (\<lambda>hash. map_of
         (fold (add_pvc ?cur) ps (fold (add_job ?cur) js [])) hash) order))" for w w' js ps v v' policy now order g
  proof -
    have "g \<in> set (List.map_filter (\<lambda>hash. map_of (fold (add_pvc ?cur) ps (fold (add_job ?cur) js [])) hash) order)"
      using that(3) set_expired_entries by blast
    then obtain h where "(h, g) \<in> set (fold (add_pvc ?cur) ps (fold (add_job ?cur) js []))"
      by (auto simp: List.map_filter_def) (blast dest: map_of_SomeD)
    moreover have "groups_within {j. ?A w w' (DeleteJob (job_namespace j) (job_name j) Deleted)}
        {p. ?A w w' (DeletePVC (pvcl_namespace p) (pvcl_name p) Deleted)}
        (fold (add_pvc ?cur) ps (fold (add_job ?cur) js []))"
    proof (intro collected_groups_within)
      fix j assume "j \<in> set js" "get_str (job_labels j) revision_label \<notin> {[], ?cur}"
      with that(1) have "fst (e_listJobs E (img_namespace ?img) (revision_selector ?img) w) = Inr js \<and> j \<in> set js
          \<and> historical E ?img (job_labels j)" by (simp add: historical_def)
      then show "j \<in> {j. ?A w w' (DeleteJob (job_namespace j) (job_name j) Deleted)}" by auto
    next
      fix p assume "p \<in> set ps" "get_str (pvcl_labels p) revision_label \<notin> {[], ?cur}"
      with that(2) have "fst (e_listPVCs E (img_namespace ?img) (revision_selector ?img) w') = Inr ps \<and> p \<in> set ps
          \<and> historical E ?img (pvcl_labels p)" by (simp add: historical_def)
      then show "p \<in> {p. ?A w w' (DeletePVC (pvcl_namespace p) (pvcl_name p) Deleted)}" by auto
    qed
    ultimately show ?thesis unfolding groups_within_def by force
  qed
  have tail: "wp (for_each gs (\<lambda>g. do {
        failed \<leftarrow> for_each (grp_jobs g) (delete_historical_job E);
        case failed of Some err \<Rightarrow> ret (Some err) | None \<Rightarrow> for_each (grp_pvcs g) (delete_historical_pvc E) }))
      (\<lambda>_ t. \<exists>tr. trace t = trace s @ tr \<and> collects_listed E ?img tr) u"
    if "\<And>g. g \<in> set gs \<Longrightarrow> group_within {j. ?A w w' (DeleteJob (job_namespace j) (job_name j) Deleted)}
        {p. ?A w w' (DeletePVC (pvcl_namespace p) (pvcl_name p) Deleted)} g"
      "trace u = trace s @ [(w, None), (w', None), (w2, None), (w3, None)]" for gs u w w' w2 w3
  proof (rule wp_frame_trace [OF _ wp_True])
    show "only (?A w w') (for_each gs (\<lambda>g. do {
        failed \<leftarrow> for_each (grp_jobs g) (delete_historical_job E);
        case failed of Some err \<Rightarrow> ret (Some err) | None \<Rightarrow> for_each (grp_pvcs g) (delete_historical_pvc E) }))"
    proof (intro does_for_each_in frame_eq does_delete_group)
      fix g j x assume "g \<in> set gs" "j \<in> set (grp_jobs g)"
      with that(1) have "?A w w' (DeleteJob (job_namespace j) (job_name j) Deleted)" unfolding group_within_def by blast
      then show "?A w w' (DeleteJob (job_namespace j) (job_name j) x)" by (simp only: gc_call.simps)
    next
      fix g p x assume "g \<in> set gs" "p \<in> set (grp_pvcs g)"
      with that(1) have "?A w w' (DeletePVC (pvcl_namespace p) (pvcl_name p) Deleted)" unfolding group_within_def by blast
      then show "?A w w' (DeletePVC (pvcl_namespace p) (pvcl_name p) x)" by (simp only: gc_call.simps)
    qed
  next
    fix t :: "'a st" and tr assume t: "trace t = trace u @ tr" "\<forall>c \<in> set (made tr). ?A w w' c"
    let ?pre = "[(w, None), (w', None), (w2, None), (w3, None)]"
    have "\<forall>c \<in> set (made tr). gc_call E ?img ?pre c" using t(2) by (auto elim!: gc_call_mono)
    then have "collects_listed E ?img (?pre @ tr)" by (intro collects_listedI) simp_all
    then show "\<exists>tr. trace t = trace s @ tr \<and> collects_listed E ?img tr" using t(1) that(2) by auto
  qed
  have collect: "wp (for_each (expired_entries policy now (List.map_filter (\<lambda>hash. map_of
         (fold (add_pvc ?cur) ps (fold (add_job ?cur) js [])) hash) order)) (\<lambda>g. do {
        failed \<leftarrow> for_each (grp_jobs g) (delete_historical_job E);
        case failed of Some err \<Rightarrow> ret (Some err) | None \<Rightarrow> for_each (grp_pvcs g) (delete_historical_pvc E) }))
      (\<lambda>_ t. \<exists>tr. trace t = trace s @ tr \<and> collects_listed E ?img tr)
      (after_read (after_read (after_read (after_read s v) v') v2) v3)"
    if "e_listJobs E (img_namespace ?img) (revision_selector ?img) (world s) = (Inr js, v)"
      "e_listPVCs E (img_namespace ?img) (revision_selector ?img) v = (Inr ps, v')" for policy now ps js order v v' v2 v3
    by (rule tail) (erule within [OF that], simp)
  have quiet: "collects_listed E ?img tr" if "made tr = []" for tr
    using collects_listedI [OF that, of "[]"] by simp
  show ?thesis
    unfolding garbageCollectHistoricalRevisions_def Let_def wp_get_bind
    by (auto simp: wp_simp quiet split: option.split sum.split prod.split intro!: collect)
qed

text \<open>How many revisions are kept: with a maximum count at most that many, and an entry goes only when
  enough newer ones exist or its age reached the TTL.\<close>

lemma filter_enumerate_ge:
  "length (filter (\<lambda>(i, x). int i \<ge> c) (enumerate n xs)) = length xs - nat (c - int n)"
proof (induction xs arbitrary: n)
  case (Cons x xs)
  show ?case
  proof (cases "int n \<ge> c")
    case True
    then have "nat (c - int (Suc n)) = 0" "nat (c - int n) = 0" by auto
    with True Cons [of "Suc n"] show ?thesis by simp
  next
    case False
    then have "nat (c - int n) = Suc (nat (c - int (Suc n)))" by auto
    with False Cons [of "Suc n"] show ?thesis by simp
  qed
qed simp

lemma length_filter_mono: "(\<And>x. P x \<Longrightarrow> Q x) \<Longrightarrow> length (filter P xs) \<le> length (filter Q xs)"
  by (induction xs) (auto intro: le_SucI)

lemma expired_entries_count:
  assumes "ret_maxCount policy = Some c"
  shows "int (length entries) - int (length (expired_entries policy now entries)) \<le> max 0 c"
proof -
  let ?xs = "sort_key (\<lambda>g. - grp_created g) entries"
  have "length (filter (\<lambda>(i, x). int i \<ge> c) (enumerate 0 ?xs)) \<le> length (expired_entries policy now entries)"
    using assms by (auto simp: expired_entries_def intro!: length_filter_mono)
  then show ?thesis by (simp add: filter_enumerate_ge)
qed

lemma expired_entries_cause:
  assumes "g \<in> set (expired_entries policy now entries)"
  shows "(\<exists>c. ret_maxCount policy = Some c
            \<and> c < int (length (filter (\<lambda>h. grp_created h \<ge> grp_created g) entries)))
       \<or> (\<exists>ttl. ret_ttl policy = Some ttl \<and> 0 \<le> ttl \<and> ttl \<le> now - grp_created g)"
proof -
  let ?xs = "sort_key (\<lambda>g. - grp_created g) entries"
  from assms obtain i where "(i, g) \<in> set (enumerate 0 ?xs)"
    and cause: "(case ret_maxCount policy of None \<Rightarrow> False | Some c \<Rightarrow> int i \<ge> c)
       \<or> (case ret_ttl policy of None \<Rightarrow> False | Some ttl \<Rightarrow> ttl \<ge> 0 \<and> now - grp_created g \<ge> ttl)"
    unfolding expired_entries_def set_map set_filter by (elim imageE CollectE conjE) (simp split: prod.splits, blast)
  then have i: "i < length entries" "g = ?xs ! i" by (auto simp: in_set_enumerate_eq)
  have newer: "grp_created (?xs ! j) \<ge> grp_created g" if "j \<le> i" for j
  proof -
    have "sorted (map (\<lambda>g. - grp_created g) ?xs)" by simp
    from sorted_nth_mono [OF this, of j i] show ?thesis using that i by simp
  qed
  have "i < length (filter (\<lambda>h. grp_created h \<ge> grp_created g) ?xs)"
  proof -
    have "filter (\<lambda>h. grp_created h \<ge> grp_created g) (take (Suc i) ?xs) = take (Suc i) ?xs"
      using newer i(1) by (auto simp: filter_id_conv in_set_conv_nth)
    then have "length (filter (\<lambda>h. grp_created h \<ge> grp_created g) ?xs) \<ge> length (take (Suc i) ?xs)"
      by (metis append_take_drop_id filter_append le_add1 length_append)
    with i(1) show ?thesis by simp
  qed
  also have "\<dots> = length (filter (\<lambda>h. grp_created h \<ge> grp_created g) entries)"
    by (simp add: filter_sort)
  finally show ?thesis using cause by (auto split: option.splits)
qed

section \<open>Artifact claims\<close>

text \<open>The calls of the cleanup of an artifact claim; it deletes only what it found under the name of
  the claim that belongs to the build.\<close>

fun claim_call :: "'w Env \<Rightarrow> VMImage \<Rightarrow> call \<Rightarrow> bool" where
  "claim_call E img (DeletePVC ns n x) \<longleftrightarrow>
     (\<exists>w pvc. fst (e_getPVC E (img_namespace img) (WorkspaceClaimName (e_sha256 E) img) w) = Found pvc
        \<and> ns = img_namespace img \<and> n = pvcl_name pvc)"
| "claim_call E img (UpdateStatus x e) = True"
| "claim_call E img (MetricInc n ls) = True"
| "claim_call E img (Event t x m) = True"
| "claim_call E img _ = False"

definition keeps_claim :: "VMImage \<Rightarrow> bool \<Rightarrow> bool" where
  "keeps_claim img success \<longleftrightarrow>
     \<not> usesArtifactPVC img \<or> usesExistingArtifactPVC img \<or> shouldRetainArtifactPVC img success"

definition claim_gone :: "'w Env \<Rightarrow> VMImage \<Rightarrow> bool" where
  "claim_gone E img \<longleftrightarrow>
     (\<exists>w e. fst (e_getPVC E (img_namespace img) (WorkspaceClaimName (e_sha256 E) img) w) = NotFound e)
     \<or> (\<exists>w pvc w' e. fst (e_getPVC E (img_namespace img) (WorkspaceClaimName (e_sha256 E) img) w) = Found pvc
          \<and> fst (e_deletePVC E (img_namespace img) (pvcl_name pvc) w') \<in> {Deleted, DeleteNotFound e})"

lemma does_get_result_eq:
  "(\<And>a. x = Found a \<Longrightarrow> does A R (f a)) \<Longrightarrow> (\<And>e. does A R (g e)) \<Longrightarrow> (\<And>e. does A R (h e)) \<Longrightarrow>
   does A R (case x of Found a \<Rightarrow> f a | NotFound e \<Rightarrow> g e | GetError e \<Rightarrow> h e)"
  by (cases x) auto

lemma cleanupArtifactStorage_calls:
  "wp (cleanupArtifactStorage r E success) (\<lambda>_ t. same_core {''CleanupFailed''} (obj s) (obj t)
     \<and> (\<exists>cs. calls t = calls s @ cs \<and> (\<forall>c \<in> set cs. claim_call E (obj s) c))) s"
  unfolding cleanupArtifactStorage_def Let_def wp_get_bind
  by (rule doesD, intro does_if does_ret does_query_bind does_get_result_eq does_bind does_command does_delete_result
      does_markCleanupFailure same_core_preorder)
    auto

lemma cleanupArtifactStorage_keeps:
  "keeps_claim (obj s) success \<Longrightarrow> run_state (cleanupArtifactStorage r E success) s = (None, s)"
  by (auto simp: cleanupArtifactStorage_def keeps_claim_def get_obj_def)

lemma cleanupArtifactStorage_gone:
  assumes "\<not> keeps_claim (obj s) success"
  shows "wp (cleanupArtifactStorage r E success) (\<lambda>res _. res = None \<longrightarrow> claim_gone E (obj s)) s"
  using assms unfolding cleanupArtifactStorage_def Let_def wp_get_bind keeps_claim_def
  by (intro yieldsD yields_if yields_query_bind yields_get_result yields_command_bind)
    (auto simp: claim_gone_def split: delete_result.split intro!: yields_ret yields_bind)

section \<open>Properties\<close>

text \<open>C4: No plugin is handed an unguarded endpoint: whenever a reconciliation initialises a provider
  plugin with an endpoint, that endpoint parses as https without credentials and without a literal
  address, its name resolved when it was checked, and to no address in a permanently blocked range
  (and to a private one only inside the allowlist of the configuration).\<close>

theorem provider_endpoints_guarded:
  assumes "run_state (Reconcile r E ns n) s = (out, t)" and "calls s = []"
    and "InitPlugin p c err \<in> set (calls t)" and "plc_Endpoint c \<noteq> ''''"
  shows "\<exists>u w addrs nets. e_url_parse E (plc_Endpoint c) = Inr u \<and> toLower (u_scheme u) = ''https''
    \<and> \<not> u_user u \<and> parseIP (u_hostname u) = None
    \<and> e_lookupHost E w (u_hostname u) = Inr addrs \<and> addrs \<noteq> []
    \<and> parseCIDRs (plc_AllowedPrivateCIDRs c) = Inr nets
    \<and> list_all (\<lambda>a. \<forall>ip. parseIP a = Some ip \<longrightarrow>
         list_all (\<lambda>(b, net). \<not> net_contains net ip) permanentlyBlockedCIDRs
         \<and> list_all (\<lambda>(b, net). net_contains net ip \<longrightarrow> containedByAny ip nets) privateCIDRs) addrs"
proof -
  have "wp (Reconcile r E ns n) (\<lambda>_ t. \<exists>cs. calls t = calls s @ cs \<and> (\<forall>c \<in> set cs. safe_init E c)) s"
    by (rule wp_mono [OF doesD [OF safe_Reconcile]]) simp
  then have "safe_init E (InitPlugin p c err)"
    using wp_run [OF _ assms(1)] assms(2,3) by fastforce
  then obtain w where ok: "ValidatePublicHTTPSURL (e_url_parse E) (e_lookupHost E w) ''ProviderConfig endpoint''
      (plc_Endpoint c) \<lparr>o_allowUnresolved = False, o_allowedPrivateCIDRs = plc_AllowedPrivateCIDRs c,
        o_allowedDNSNames = plc_AllowedDNSNames c\<rparr> = None"
    by (auto simp: safe_config_def)
  obtain u nets where u: "e_url_parse E (plc_Endpoint c) = Inr u" "toLower (u_scheme u) = ''https''" "\<not> u_user u"
      "parseIP (u_hostname u) = None" "parseCIDRs (plc_AllowedPrivateCIDRs c) = Inr nets"
      "\<And>addrs a. e_lookupHost E w (u_hostname u) = Inr addrs \<Longrightarrow> a \<in> set addrs \<Longrightarrow>
           check_addr ''ProviderConfig endpoint'' (u_hostname u) nets a = None"
      "\<exists>addrs. e_lookupHost E w (u_hostname u) = Inr addrs \<and> addrs \<noteq> []"
    by (rule ValidatePublicHTTPSURL_None [OF ok assms(4)]) simp
  from u(7) obtain addrs where addrs: "e_lookupHost E w (u_hostname u) = Inr addrs" "addrs \<noteq> []" by blast
  have "list_all (\<lambda>a. \<forall>ip. parseIP a = Some ip \<longrightarrow>
         list_all (\<lambda>(b, net). \<not> net_contains net ip) permanentlyBlockedCIDRs
         \<and> list_all (\<lambda>(b, net). net_contains net ip \<longrightarrow> containedByAny ip nets) privateCIDRs) addrs"
    using u(6) [OF addrs(1)] by (auto simp: list_all_iff dest: check_addr_None)
  with u addrs show ?thesis by blast
qed

definition guarded_config :: ProviderConfig where
  "guarded_config = sample_config\<lparr>pc_endpoint := ''api.cloud.example''\<rparr>"

definition guarded_world :: sample where
  "guarded_world = sample_world\<lparr>sw_image := Some sample_image, sw_configs := [(''ci'', ''cfg'') \<mapsto> guarded_config],
     sw_initError := Some (errorf ''denied'')\<rparr>"

lemma guarded_config_simps:
  "pc_provider guarded_config = ''aws''" "pc_secretRef_name guarded_config = ''''" "pc_name guarded_config = ''cfg''"
  "plc_Endpoint (plugin_config guarded_config Map.empty) = ''api.cloud.example''"
  "plc_AllowedPrivateCIDRs (plugin_config guarded_config Map.empty) = []"
  by (simp_all add: guarded_config_def sample_config_def plugin_config_def providerAllowedPrivateCIDRs_def)

lemma guarded_config_accepted:
  "validateRuntimeProviderEndpoints (e_url_parse sample_env) (e_lookupHost sample_env w) guarded_config = None"
  unfolding guarded_config_def sample_env_def sample_config_def by code_simp

lemma guarded_run:
  "InitPlugin (sample_plugin 0) (plugin_config guarded_config Map.empty) (Some (errorf ''denied'')) \<in>
     set (calls (snd (run_state (Reconcile sample_reconciler sample_env ''ci'' ''web'') (start sample_image guarded_world))))"
  by (simp add: run_simp sample_simp guarded_world_def guarded_config_simps
      guarded_config_accepted [unfolded sample_env_simps] cong: run_cong)

theorem provider_endpoints_guarded_witness:
  "\<exists>addrs. e_lookupHost sample_env guarded_world ''api.cloud.example'' = Inr addrs \<and> addrs \<noteq> []"
proof -
  obtain out t where run: "run_state (Reconcile sample_reconciler sample_env ''ci'' ''web'') (start sample_image guarded_world) = (out, t)"
    by fastforce
  with guarded_run have init: "InitPlugin (sample_plugin 0) (plugin_config guarded_config Map.empty) (Some (errorf ''denied'')) \<in> set (calls t)"
    by simp
  from provider_endpoints_guarded [OF run _ init] show ?thesis
    by (auto simp: guarded_config_simps sample_env_simps)
qed

text \<open>C10: A failure is recorded as such: every status that \<open>setFailedWithReason\<close> sends, the ones that
  record a failed cleanup included, has the phase \<open>Failed\<close>, a completion time, no build leases left
  and a true \<open>Failed\<close> condition.\<close>

theorem failure_is_recorded:
  assumes "run_state (setFailedWithReason r E reason message) s = (out, t)" and "calls s = []"
  shows "list_all failed_status (status_writes (calls t))"
  using wp_run [OF setFailedWithReason_writes assms(1)] assms(2) by simp

lemma failing_run:
  "length (status_writes (calls (snd (run_state (setFailedWithReason sample_reconciler sample_env ''Error'' ''boom'')
     (start sample_image sample_world))))) = 1"
  by (simp add: run_simp sample_simp cong: run_cong)

theorem failure_is_recorded_witness:
  "\<exists>img. status_writes (calls (snd (run_state (setFailedWithReason sample_reconciler sample_env ''Error'' ''boom'')
     (start sample_image sample_world)))) = [img] \<and> failed_status img"
proof -
  obtain out t where run: "run_state (setFailedWithReason sample_reconciler sample_env ''Error'' ''boom'')
      (start sample_image sample_world) = (out, t)" by fastforce
  from failure_is_recorded [OF run] failing_run run show ?thesis
    by (auto simp: length_Suc_conv)
qed

text \<open>C3: The finalizer goes last. Whenever the reconciliation of an image that is being deleted updates the object,
  then before that, in this very run: for a remote build the plugin of the provider that the target's
  configuration names removed what this build left behind (or it has nothing to clean up); for a local
  image that was uploading, its cleanup Job was seen to have succeeded; and at that moment none of the leases
  the image refers to is held by it. The update removes the finalizer and leaves the specification.\<close>

theorem finalizer_removed_after_cleanup:
  assumes "lease_store E view clk"
    and "fst (e_getVMImage E ns n (world s)) = Found img0" and "img_deletionTimestamp img0 \<noteq> None"
    and "run_state (Reconcile r E ns n) s = (out, t)" and "trace s = []"
  shows "updates_after_cleanup view E img0 (trace t)"
proof -
  obtain w where w: "e_getVMImage E ns n (world s) = (Found img0, w)" using assms(2) by (metis prod.collapse)
  have "run_state (reconcileDelete r E) ((after_read s w)\<lparr>obj := img0\<rparr>) = (out, t)"
    using assms(3,4) by (simp add: unfold_run [OF Reconcile_def] unfold_run [OF reconcile_found_def]
        run_bind run_query run_primitive run_result w)
  from wp_run [OF delete_cleans_up [OF assms(1)] this] assms(5) show ?thesis by (simp add: no_updates_def)
qed

text \<open>Two images on their way out: a remote build and a local one that was uploading; both hold a build slot.\<close>

definition deleting_remote :: VMImage where
  "deleting_remote = remote_image\<lparr>img_deletionTimestamp := Some (99 * second), img_status := img_status building_image\<rparr>"

definition deleting_upload :: VMImage where
  "deleting_upload = upd_status (\<lambda>st. st\<lparr>st_phase := PhaseUploading, st_buildArtifact := Some
     \<lparr>art_path = ''/workspace/out.qcow2'', art_format = ''qcow2'', art_checksum = ''sha256:00'', art_sizeBytes = 4096,
       art_os = ''linux'', art_metadata = Map.empty\<rparr>\<rparr>)
     (building_image\<lparr>img_deletionTimestamp := Some (99 * second)\<rparr>)"

definition done_job :: Job where
  "done_job = (job_of sample_image ''-upload-cleanup'')\<lparr>job_conditions := [\<lparr>jc_type = ''Complete'', jc_status = ConditionTrue\<rparr>]\<rparr>"

definition deletion_run :: "VMImage \<Rightarrow> outcome \<times> sample st" where
  "deletion_run img = run_state (Reconcile sample_reconciler sample_env ''ci'' ''web'')
     (start sample_image (building_world\<lparr>sw_image := Some img,
        sw_jobs := [(''ci'', CleanupJobName (e_sha256 sample_env) deleting_upload) \<mapsto> done_job]\<rparr>))"

lemma slot_held: "splitLeaseRef (leaseRef ''ops'' (globalLeaseName 0)) = Inr (''ops'', globalLeaseName 0)"
  by (rule splitLeaseRef_leaseRef) (simp_all add: globalLeaseName_slash_free)

lemma building_image_simps:
  "img_name building_image = ''web''" "img_namespace building_image = ''ci''" "img_uid building_image = ''u1''"
  "img_finalizers building_image = [finalizerName]" "img_spec building_image = sample_spec"
  "st_phase (img_status building_image) = PhaseBuilding"
  "st_buildLeaseRefs (img_status building_image) = [leaseRef ''ops'' (globalLeaseName 0)]"
  "st_uploadJobRef (img_status building_image) = None"
  by (simp_all add: building_image_def empty_status_def)

lemma building_world_simps:
  "sw_configs building_world = [(''ci'', ''cfg'') \<mapsto> sample_config]" "sw_providers building_world = Map.empty"
  "sw_registry building_world = NewRegistry\<lparr>reg_plugins := [''aws'' \<mapsto> sample_plugin 0]\<rparr>"
  "sw_secrets building_world = Map.empty" "sw_initError building_world = None"
  "sw_leases building_world (''ops'', globalLeaseName 0) =
     Some (buildLease ''ops'' (globalLeaseName 0) ''global'' [] 0 ''ci/web/u1'' sample_image (90 * second))"
  by (simp_all add: building_world_def slot_key_def)

lemma sample_config_accepted: "validateRuntimeProviderEndpoints (e_url_parse sample_env) (e_lookupHost sample_env w) sample_config = None"
  unfolding sample_env_def sample_config_def by code_simp

lemmas deletion_simp = run_simp sample_simp releaseBuildSlots.simps [THEN unfold_run] building_image_simps
  building_world_simps slot_held deleteLease_def leaseHolder_def lease_at_def buildLease_def
  sample_config_accepted [unfolded sample_env_simps]

lemma deletion_runs_update:
  "list_ex (\<lambda>c. \<not> no_update c) (calls (snd (deletion_run deleting_remote)))"
  "list_ex (\<lambda>c. \<not> no_update c) (calls (snd (deletion_run deleting_upload)))"
  unfolding deletion_run_def
  by (simp add: deleting_remote_def deletion_simp cong: run_cong)
    (simp add: deleting_upload_def done_job_def isJobSucceeded_def deletion_simp configs_loop.simps [THEN unfold_run]
      Let_def cong: run_cong)

lemma deletion_run_updates:
  assumes "list_ex (\<lambda>c. \<not> no_update c) (calls (snd (deletion_run img)))"
  shows "\<exists>before w new e rest. trace (snd (deletion_run img)) = before @ (w, Some (UpdateObject new e)) # rest"
proof -
  have "calls (snd (deletion_run img)) = made (trace (snd (deletion_run img)))"
    unfolding deletion_run_def by (rule calls_made [OF safe_Reconcile]) simp_all
  with assms obtain c w where "(w, Some c) \<in> set (trace (snd (deletion_run img)))" "\<not> no_update c"
    by (auto simp: list_ex_iff made_mem)
  then obtain before rest new e where "trace (snd (deletion_run img)) = before @ (w, Some (UpdateObject new e)) # rest"
    by (cases c) (auto dest!: split_list)
  then show ?thesis by blast
qed

theorem finalizer_removed_after_cleanup_witness:
  "\<exists>before w img e rest before' w' img' e' rest'.
     trace (snd (deletion_run deleting_remote)) = before @ (w, Some (UpdateObject img e)) # rest
     \<and> remote_cleaned sample_env deleting_remote (hd (spec_targets (img_spec deleting_remote))) before
     \<and> slots_free (lease_at w) deleting_remote \<and> finalizerName \<notin> set (img_finalizers img)
     \<and> trace (snd (deletion_run deleting_upload)) = before' @ (w', Some (UpdateObject img' e')) # rest'
     \<and> upload_cleaned sample_env deleting_upload before' \<and> slots_free (lease_at w') deleting_upload
     \<and> finalizerName \<notin> set (img_finalizers img')"
proof -
  have run: "run_state (Reconcile sample_reconciler sample_env ''ci'' ''web'')
      (start sample_image (building_world\<lparr>sw_image := Some img,
        sw_jobs := [(''ci'', CleanupJobName (e_sha256 sample_env) deleting_upload) \<mapsto> done_job]\<rparr>))
      = (fst (deletion_run img), snd (deletion_run img))" for img
    by (simp add: deletion_run_def)
  have got: "fst (e_getVMImage sample_env ''ci'' ''web'' (world (start sample_image (building_world\<lparr>sw_image := Some img,
        sw_jobs := [(''ci'', CleanupJobName (e_sha256 sample_env) deleting_upload) \<mapsto> done_job]\<rparr>)))) = Found img" for img
    by (simp add: sample_env_simps found_def)
  have deleted: "img_deletionTimestamp deleting_remote \<noteq> None" "img_deletionTimestamp deleting_upload \<noteq> None"
    by (simp_all add: deleting_remote_def deleting_upload_def)
  have after: "updates_after_cleanup lease_at sample_env deleting_remote (trace (snd (deletion_run deleting_remote)))"
    "updates_after_cleanup lease_at sample_env deleting_upload (trace (snd (deletion_run deleting_upload)))"
    using deleted by (auto intro!: finalizer_removed_after_cleanup [OF sample_lease_store got _ run])
  have facts: "is_remote deleting_remote" "\<exists>target. spec_targets (img_spec deleting_remote) = [target]"
    "\<not> is_remote deleting_upload" "img_phase deleting_upload = PhaseUploading"
    "st_buildArtifact (img_status deleting_upload) \<noteq> None" "usesArtifactPVC deleting_upload"
    by (simp_all add: deleting_remote_def deleting_upload_def is_remote_def building_image_simps sample_simp)
  from deletion_run_updates [OF deletion_runs_update(1)] deletion_run_updates [OF deletion_runs_update(2)]
  obtain before w img e rest before' w' img' e' rest' where
    split: "trace (snd (deletion_run deleting_remote)) = before @ (w, Some (UpdateObject img e)) # rest"
      "trace (snd (deletion_run deleting_upload)) = before' @ (w', Some (UpdateObject img' e')) # rest'"
    by blast
  with after facts show ?thesis
    unfolding updates_after_cleanup_def releasing_cleanup_def by (metis list.sel(1))
qed

text \<open>C11: Garbage collection spares the current revision: it makes no calls but deletions of Jobs and claims, and
  whatever it deletes was listed for this image earlier in the same run and carries a revision label that is neither
  empty nor that of the current revision.\<close>

theorem garbage_collection_historical_only:
  assumes "run_state (garbageCollectHistoricalRevisions E) s = (res, t)" and "trace s = []"
  shows "collects_listed E (obj s) (trace t)"
  using wp_run [OF garbageCollect_calls assms(1)] assms(2) by auto

definition old_job :: Job where
  "old_job = (job_of sample_image ''-build'')\<lparr>job_labels := [revision_label \<mapsto> ''0ld'']\<rparr>"

definition current_job :: Job where
  "current_job = (job_of sample_image ''-current'')\<lparr>job_labels := [revision_label \<mapsto> Hash (e_sha256 sample_env) (img_revision sample_image)]\<rparr>"

definition gc_env :: "sample Env" where
  "gc_env = sample_env\<lparr>e_listJobs := \<lambda>ns l w. (Inr [current_job, old_job], w)\<rparr>"

definition gc_image :: VMImage where
  "gc_image = sample_image\<lparr>img_spec := sample_spec\<lparr>spec_build := (spec_build sample_spec)
     \<lparr>bld_revisionRetention := Some \<lparr>ret_maxCount = Some 0, ret_ttl = None\<rparr>\<rparr>\<rparr>\<rparr>"

definition gc_run :: "go_error option \<times> sample st" where
  "gc_run = run_state (garbageCollectHistoricalRevisions gc_env) (start gc_image sample_world)"

definition deleted_job :: "call \<Rightarrow> (string \<times> string) option" where
  "deleted_job c = (case c of DeleteJob ns n x \<Rightarrow> Some (ns, n) | _ \<Rightarrow> None)"

lemma gc_run_calls: "map deleted_job (calls (snd gc_run)) = [Some (''ci'', ''web-build'')]"
  by code_simp

theorem garbage_collection_historical_only_witness:
  "map deleted_job (calls (snd gc_run)) = [Some (''ci'', ''web-build'')]
   \<and> (\<exists>before w x w' rest. trace (snd gc_run) = before @ (w, Some (DeleteJob ''ci'' ''web-build'' x)) # rest
        \<and> (w', None) \<in> set before
        \<and> fst (e_listJobs gc_env ''ci'' (revision_selector gc_image) w') = Inr [current_job, old_job]
        \<and> historical gc_env gc_image (job_labels old_job) \<and> \<not> historical gc_env gc_image (job_labels current_job))"
proof -
  have run: "run_state (garbageCollectHistoricalRevisions gc_env) (start gc_image sample_world) = (fst gc_run, snd gc_run)"
    by (simp add: gc_run_def)
  have safe: "collects_listed gc_env gc_image (trace (snd gc_run))"
    using garbage_collection_historical_only [OF run] by simp
  have "only (\<lambda>_. True) (garbageCollectHistoricalRevisions gc_env)" by (intro only_garbageCollect frame_eq TrueI)
  from calls_made [OF this, of "start gc_image sample_world"]
  have "made (trace (snd gc_run)) = calls (snd gc_run)" by (simp add: gc_run_def)
  moreover obtain c where c: "calls (snd gc_run) = [c]" "deleted_job c = Some (''ci'', ''web-build'')"
    using gc_run_calls by (auto simp: map_eq_Cons_conv)
  moreover obtain x where x: "c = DeleteJob ''ci'' ''web-build'' x"
    using c(2) by (auto simp: deleted_job_def split: call.splits)
  ultimately have "DeleteJob ''ci'' ''web-build'' x \<in> set (made (trace (snd gc_run)))" by simp
  then obtain w before rest where split: "trace (snd gc_run) = before @ (w, Some (DeleteJob ''ci'' ''web-build'' x)) # rest"
    by (auto simp: made_mem dest!: split_list)
  with safe have "gc_call gc_env gc_image before (DeleteJob ''ci'' ''web-build'' x)"
    unfolding collects_listed_def by blast
  then obtain w' j where j: "(w', None) \<in> set before" "j \<in> {current_job, old_job}" "job_name j = ''web-build''"
    "historical gc_env gc_image (job_labels j)"
    by (auto simp: gc_env_def)
  have "j = old_job" using j(2,3) by (auto simp: current_job_def job_of_def)
  moreover have "\<not> historical gc_env gc_image (job_labels current_job)"
    by (simp add: historical_def current_job_def gc_env_def gc_image_def get_str_def img_revision_def)
  ultimately show ?thesis
    using gc_run_calls split j(1,4) by (auto simp: gc_env_def)
qed

text \<open>Retention: with a maximum count, at most that many of the old revisions survive the
  collection; a revision is collected only if more than the maximum count of revisions are at least
  as new as it, or if its age reached the time to live.\<close>

theorem retention_policy:
  "(\<forall>c. ret_maxCount policy = Some c \<longrightarrow>
      int (length entries) - int (length (expired_entries policy now entries)) \<le> max 0 c)
   \<and> (\<forall>g \<in> set (expired_entries policy now entries). g \<in> set entries \<and>
        ((\<exists>c. ret_maxCount policy = Some c
            \<and> c < int (length (filter (\<lambda>h. grp_created h \<ge> grp_created g) entries)))
         \<or> (\<exists>ttl. ret_ttl policy = Some ttl \<and> 0 \<le> ttl \<and> ttl \<le> now - grp_created g)))"
  using expired_entries_count expired_entries_cause set_expired_entries by blast

definition sample_groups :: "revisionGroup list" where
  "sample_groups = map (\<lambda>t. \<lparr>grp_created = t, grp_jobs = [], grp_pvcs = []\<rparr>) [10, 40, 20, 30]"

theorem retention_policy_witness:
  "map grp_created (expired_entries \<lparr>ret_maxCount = Some 2, ret_ttl = None\<rparr> 100 sample_groups) = [20, 10]
   \<and> 2 < length (filter (\<lambda>h. grp_created h \<ge> 20) sample_groups)"
proof -
  let ?p = "\<lparr>ret_maxCount = Some 2, ret_ttl = None\<rparr>"
  have run: "map grp_created (expired_entries ?p 100 sample_groups) = [20, 10]" by code_simp
  from arg_cong [OF run, of set] have "20 \<in> grp_created ` set (expired_entries ?p 100 sample_groups)" by simp
  then obtain g where g: "g \<in> set (expired_entries ?p 100 sample_groups)" "grp_created g = 20" by auto
  from bspec [OF conjunct2 [OF retention_policy] g(1)] g(2) run show ?thesis by simp
qed

text \<open>Artifact claims: the cleanup leaves everything alone when the image uses no claim, brings
  its own claim, or its retention policy keeps it; otherwise it succeeds only when the claim is gone
  or was deleted, and every claim it deletes was found under the name that belongs to the build.\<close>

theorem artifact_claim_policy:
  assumes "run_state (cleanupArtifactStorage r E success) s = (res, t)" and "calls s = []"
  shows "(keeps_claim (obj s) success \<longrightarrow> t = s \<and> res = None)
    \<and> (\<not> keeps_claim (obj s) success \<and> res = None \<longrightarrow> claim_gone E (obj s))
    \<and> list_all (claim_call E (obj s)) (calls t)
    \<and> core (obj t) = core (obj s)"
proof (intro conjI)
  show "keeps_claim (obj s) success \<longrightarrow> t = s \<and> res = None"
    using cleanupArtifactStorage_keeps [of s success r E] assms(1) by auto
  show "\<not> keeps_claim (obj s) success \<and> res = None \<longrightarrow> claim_gone E (obj s)"
    using wp_run [OF cleanupArtifactStorage_gone assms(1)] by blast
  note calls = wp_run [OF cleanupArtifactStorage_calls assms(1)]
  show "list_all (claim_call E (obj s)) (calls t)"
    using calls assms(2) by (auto simp: list_all_iff)
  show "core (obj t) = core (obj s)"
    using calls by (simp add: same_core_def)
qed

theorem artifact_claim_policy_witness:
  "keeps_claim (sample_image\<lparr>img_spec := sample_spec\<lparr>spec_build := (spec_build sample_spec)
     \<lparr>bld_artifactStorage := Some \<lparr>as_type = ''pvc'', as_pvc = Some \<lparr>pvc_claimName = ''mine'', pvc_storageClassName = None,
       pvc_size = '''', pvc_accessMode = '''', pvc_retainPolicy = ''''\<rparr>\<rparr>\<rparr>\<rparr>\<rparr>) True
   \<and> claim_gone sample_env sample_image"
proof -
  obtain res t where run: "run_state (cleanupArtifactStorage sample_reconciler sample_env True) (start sample_image sample_world) = (res, t)"
    by fastforce
  moreover have "fst (run_state (cleanupArtifactStorage sample_reconciler sample_env True) (start sample_image sample_world)) = None"
    by (simp add: run_simp sample_simp cong: run_cong)
  moreover have "\<not> keeps_claim sample_image True"
    by (simp add: keeps_claim_def sample_simp)
  ultimately show ?thesis
    using artifact_claim_policy [OF run] by (simp add: keeps_claim_def sample_simp)
qed

end
