(* ===== verification/Path_Clean.thy ===== *)
theory Path_Clean
  imports Prelude
begin

text \<open>
  Slash-separated paths: \<open>path.Clean\<close> and, on Linux, \<open>filepath.Clean\<close> and \<open>filepath.Join\<close>. A path
  is split into its components; empty and dot components vanish, a double dot removes the last
  component kept, is kept itself at the front of a relative path and vanishes at the root.

  The facts the callers use are about \<^emph>\<open>escaping\<close>: a relative path escapes when, read from left
  to right, it steps above the directory it started in, and this is exactly what a leading double
  dot in the cleaned path shows.
\<close>

section \<open>Cleaning\<close>

fun joinWith :: "string \<Rightarrow> string list \<Rightarrow> string" where
  "joinWith sep [] = []"
| "joinWith sep [x] = x"
| "joinWith sep (x # xs) = x @ sep @ joinWith sep xs"

text \<open>The stack holds the components kept so far, the last one first.\<close>

fun clean_step :: "bool \<Rightarrow> string list \<Rightarrow> string \<Rightarrow> string list" where
  "clean_step rooted stack c =
     (if c = '''' \<or> c = ''.'' then stack
      else if c = ''..'' then
        (case stack of
           [] \<Rightarrow> if rooted then [] else [''..'']
         | d # rest \<Rightarrow> if d = ''..'' then ''..'' # stack else rest)
      else c # stack)"

definition clean_stack :: "bool \<Rightarrow> string list \<Rightarrow> string list" where
  "clean_stack rooted cs = foldl (clean_step rooted) [] cs"

definition is_rooted :: "string \<Rightarrow> bool" where
  "is_rooted p = hasPrefix p ''/''"

definition clean_components :: "string \<Rightarrow> string list" where
  "clean_components p = rev (clean_stack (is_rooted p) (splitOn p ''/''))"

definition path_Clean :: "string \<Rightarrow> string" where
  "path_Clean p =
     (if is_rooted p then ''/'' @ joinWith ''/'' (clean_components p)
      else if clean_components p = [] then ''.'' else joinWith ''/'' (clean_components p))"

text \<open>\<open>filepath.Join\<close> ignores empty elements and cleans the rest.\<close>

definition path_Join :: "string list \<Rightarrow> string" where
  "path_Join ps =
     (let qs = filter (\<lambda>p. p \<noteq> '''') ps in
      if qs = [] then '''' else path_Clean (joinWith ''/'' qs))"

section \<open>Escaping\<close>

text \<open>The depth below the start after reading a component, \<open>None\<close> once the walk is above it.\<close>

fun depth_step :: "nat option \<Rightarrow> string \<Rightarrow> nat option" where
  "depth_step None c = None"
| "depth_step (Some n) c =
     (if c = '''' \<or> c = ''.'' then Some n
      else if c = ''..'' then (case n of 0 \<Rightarrow> None | Suc m \<Rightarrow> Some m)
      else Some (Suc n))"

definition escapes :: "string list \<Rightarrow> bool" where
  "escapes cs = (foldl depth_step (Some 0) cs = None)"

section \<open>Lemmas\<close>

lemma foldl_depth_None [simp]: "foldl depth_step None cs = None"
  by (induction cs) auto

text \<open>Reading left to right: once the walk has left, every longer path has left too.\<close>

lemma escapes_append: "escapes cs \<Longrightarrow> escapes (cs @ ds)"
  by (simp add: escapes_def)

lemma not_escapes_prefix: "\<not> escapes cs \<Longrightarrow> prefix ds cs \<Longrightarrow> \<not> escapes ds"
  by (auto simp: prefix_def dest: escapes_append)

lemma joinWith_Cons: "joinWith sep (x # xs) = (if xs = [] then x else x @ sep @ joinWith sep xs)"
  by (cases xs) auto

lemma hasPrefix_joinWith_Cons: "hasPrefix (joinWith sep (x # xs)) x"
  by (simp add: joinWith_Cons hasPrefix_def)



lemma cut_first: "cut s sep = Some (a, b) \<Longrightarrow> sep \<noteq> [] \<Longrightarrow> length sep = 1 \<Longrightarrow> \<not> contains a sep"
proof (induction s arbitrary: a)
  case Nil
  then show ?case by simp
next
  case (Cons c cs)
  obtain x where sep: "sep = [x]" using Cons.prems by (cases sep) auto
  show ?case
  proof (cases "c = x")
    case True
    with Cons.prems sep show ?thesis by (simp add: hasPrefix_def)
  next
    case False
    with Cons.prems sep obtain a' where a: "a = c # a'" and "cut cs sep = Some (a', b)"
      by (auto simp: hasPrefix_def)
    with Cons.IH Cons.prems have "\<not> contains a' sep" by blast
    with a sep False show ?thesis by (simp add: hasPrefix_def)
  qed
qed

lemma splitOn_components: "c \<in> set (splitOn s ''/'') \<Longrightarrow> \<not> contains c ''/''"
proof (induction s "''/''" rule: splitOn.induct)
  case (1 s)
  show ?case
  proof (cases "cut s ''/''")
    case None
    with "1.prems" show ?thesis by (simp add: splitOn.simps [of s] cut_None)
  next
    case (Some ab)
    obtain a b where ab: "ab = (a, b)" by (cases ab)
    with "1.prems" Some have "c = a \<or> c \<in> set (splitOn b ''/'')" by (simp add: splitOn.simps [of s])
    then show ?thesis
      using "1.hyps" [OF _ Some ab [symmetric]] Some ab cut_first [of s "''/''" a b] by auto
  qed
qed

text \<open>The invariant of cleaning: the kept components are double dots followed by proper names, no
  double dot at all below a root, and the number of names is the depth of the walk.\<close>

definition proper :: "string \<Rightarrow> bool" where
  "proper c \<longleftrightarrow> c \<noteq> '''' \<and> c \<noteq> ''.'' \<and> c \<noteq> ''..''"

definition clean_form :: "bool \<Rightarrow> string list \<Rightarrow> bool" where
  "clean_form rooted stack \<longleftrightarrow>
     (\<exists>names k. stack = names @ replicate k ''..'' \<and> list_all proper names \<and> (rooted \<longrightarrow> k = 0))"

lemma clean_formI:
  "list_all proper names \<Longrightarrow> (rooted \<Longrightarrow> k = 0) \<Longrightarrow> clean_form rooted (names @ replicate k ''..'')"
  by (auto simp: clean_form_def)

lemma clean_form_step:
  assumes "clean_form rooted stack"
  shows "clean_form rooted (clean_step rooted stack c)"
proof -
  obtain names k where st: "stack = names @ replicate k ''..''" "list_all proper names" "rooted \<Longrightarrow> k = 0"
    using assms by (auto simp: clean_form_def)
  show ?thesis
  proof (cases "c = '''' \<or> c = ''.''")
    case True
    with assms show ?thesis by auto
  next
    case False
    show ?thesis
    proof (cases "c = ''..''")
      case False
      with st \<open>\<not> (c = '''' \<or> c = ''.'')\<close> have "list_all proper (c # names)"
        by (simp add: proper_def)
      from clean_formI [OF this st(3)] st(1) False \<open>\<not> (c = '''' \<or> c = ''.'')\<close>
      show ?thesis by simp
    next
      case dd: True
      show ?thesis
      proof (cases names)
        case Nil
        show ?thesis
        proof (cases k)
          case 0
          with st Nil dd show ?thesis
            using clean_formI [of "[]" rooted "0"] clean_formI [of "[]" rooted "1"] by auto
        next
          case (Suc n)
          with st Nil dd show ?thesis
            using clean_formI [of "[]" rooted "Suc k"] by auto
        qed
      next
        case (Cons d ds)
        with st have "d \<noteq> ''..''" "list_all proper ds" by (auto simp: proper_def)
        with st Cons dd show ?thesis using clean_formI [of ds rooted k] by auto
      qed
    qed
  qed
qed

lemma clean_form_foldl: "clean_form rooted stack \<Longrightarrow> clean_form rooted (foldl (clean_step rooted) stack cs)"
  by (induction cs arbitrary: stack) (simp_all add: clean_form_step del: clean_step.simps)

lemma clean_form_clean_stack: "clean_form rooted (clean_stack rooted cs)"
  unfolding clean_stack_def using clean_formI [of "[]" rooted 0] by (simp add: clean_form_foldl)

text \<open>A relative path escapes exactly when the bottom of the stack is a double dot.\<close>

definition depth_of :: "string list \<Rightarrow> nat option" where
  "depth_of stack = (if ''..'' \<in> set stack then None else Some (length stack))"

lemma clean_step_keeps_dotdot: "''..'' \<in> set stack \<Longrightarrow> ''..'' \<in> set (clean_step False stack c)"
  by (cases stack) auto

lemma depth_of_clean_step: "depth_of (clean_step False stack c) = depth_step (depth_of stack) c"
proof (cases "''..'' \<in> set stack")
  case True
  then show ?thesis using clean_step_keeps_dotdot [OF True, of c] by (simp add: depth_of_def)
next
  case False
  then show ?thesis by (cases stack) (auto simp: depth_of_def)
qed

lemma depth_of_clean_stack: "depth_of (clean_stack False cs) = foldl depth_step (Some 0) cs"
proof -
  have "depth_of (foldl (clean_step False) stack cs) = foldl depth_step (depth_of stack) cs" for stack
    by (induction cs arbitrary: stack) (simp_all add: depth_of_clean_step del: clean_step.simps)
  from this [of "[]"] show ?thesis by (simp add: clean_stack_def depth_of_def)
qed

lemma escapes_iff: "escapes cs \<longleftrightarrow> ''..'' \<in> set (clean_stack False cs)"
  unfolding escapes_def depth_of_clean_stack [symmetric] by (simp add: depth_of_def)

lemma dotdot_first:
  assumes "''..'' \<in> set (clean_stack False cs)"
  shows "\<exists>rest. rev (clean_stack False cs) = ''..'' # rest"
proof -
  obtain names k where st: "clean_stack False cs = names @ replicate k ''..''" "list_all proper names"
    using clean_form_clean_stack [of False cs] by (auto simp: clean_form_def)
  with assms have "k \<noteq> 0" by (auto simp: list_all_iff proper_def)
  then obtain m where "k = Suc m" by (cases k) auto
  with st have "rev (clean_stack False cs) = ''..'' # (replicate m ''..'' @ rev names)"
    by (simp add: replicate_append_same)
  then show ?thesis by blast
qed

text \<open>What the guards on a cleaned path test.\<close>

definition climbs :: "string \<Rightarrow> bool" where
  "climbs p \<longleftrightarrow> p = ''..'' \<or> hasPrefix p ''../''"

lemma path_Clean_climbs:
  assumes "\<not> is_rooted p" and "escapes (splitOn p ''/'')"
  shows "climbs (path_Clean p)"
proof -
  obtain rest where "clean_components p = ''..'' # rest"
    using assms dotdot_first by (auto simp: clean_components_def escapes_iff)
  with assms(1) show ?thesis
    by (simp add: path_Clean_def climbs_def joinWith_Cons hasPrefix_def)
qed

lemma joinWith_climbs:
  assumes "\<not> contains c ''/''" and "climbs (joinWith ''/'' (c # cs))"
  shows "c = ''..''"
proof -
  have no: "CHR ''/'' \<notin> set c"
    using assms(1) by (induction c) (auto simp: hasPrefix_def)
  obtain tail where tail: "joinWith ''/'' (c # cs) = c @ tail" "tail = '''' \<or> hd tail = CHR ''/''"
    by (cases cs) auto
  show ?thesis
  proof (cases c)
    case Nil
    with assms(2) tail show ?thesis
      by (cases tail) (auto simp: climbs_def hasPrefix_def simp del: joinWith.simps)
  next
    case (Cons a c')
    with assms(2) tail no show ?thesis
      by (cases c'; cases "List.tl c'"; cases tail)
        (auto simp: climbs_def hasPrefix_def simp del: joinWith.simps)
  qed
qed

lemma clean_components_no_slash: "c \<in> set (clean_components p) \<Longrightarrow> \<not> contains c ''/''"
proof -
  have step: "set (clean_step r stack c) \<subseteq> insert ''..'' (insert c (set stack))" for r stack c
    by (cases stack) auto
  have "set (foldl (clean_step r) stack cs) \<subseteq> insert ''..'' (set cs \<union> set stack)" for r stack cs
  proof (induction cs arbitrary: stack)
    case (Cons x xs)
    then show ?case using step [of r stack x] by (fastforce simp del: clean_step.simps)
  qed auto
  from this [of _ "[]"] show "\<not> contains c ''/''" if "c \<in> set (clean_components p)"
    using that splitOn_components [of c p]
    by (fastforce simp: clean_components_def clean_stack_def hasPrefix_def)
qed

lemma path_Clean_stays:
  assumes "\<not> is_rooted p" and "\<not> escapes (splitOn p ''/'')"
  shows "\<not> climbs (path_Clean p)"
proof
  assume climbs: "climbs (path_Clean p)"
  show False
  proof (cases "clean_components p")
    case Nil
    with climbs assms(1) show ?thesis by (simp add: path_Clean_def climbs_def hasPrefix_def)
  next
    case (Cons c cs)
    with climbs assms(1) have "climbs (joinWith ''/'' (c # cs))" by (simp add: path_Clean_def)
    with Cons clean_components_no_slash [of c p] have "c = ''..''" by (auto dest: joinWith_climbs)
    with Cons assms show ?thesis
      by (metis clean_components_def escapes_iff list.set_intros(1) set_rev)
  qed
qed

lemma path_Clean_rooted: "is_rooted p \<Longrightarrow> is_rooted (path_Clean p)"
  by (simp add: path_Clean_def is_rooted_def hasPrefix_def)

lemma clean_components_nonempty: "c \<in> set (clean_components p) \<Longrightarrow> c \<noteq> ''''"
proof -
  assume "c \<in> set (clean_components p)"
  moreover obtain names k where "clean_stack (is_rooted p) (splitOn p ''/'') = names @ replicate k ''..''"
      "list_all proper names"
    using clean_form_clean_stack [of "is_rooted p" "splitOn p ''/''"] unfolding clean_form_def by blast
  ultimately show "c \<noteq> ''''" by (auto simp: clean_components_def list_all_iff proper_def)
qed

lemma path_Clean_relative:
  assumes "\<not> is_rooted p"
  shows "\<not> is_rooted (path_Clean p)"
proof (cases "clean_components p")
  case Nil
  with assms show ?thesis by (simp add: path_Clean_def is_rooted_def hasPrefix_def)
next
  case (Cons c cs)
  then obtain a c' where c: "c = a # c'" using clean_components_nonempty [of c p] by (cases c) auto
  have "\<not> contains c ''/''" using clean_components_no_slash [of c p] Cons by simp
  with c have "a \<noteq> CHR ''/''" by (auto simp: hasPrefix_def)
  with Cons c assms show ?thesis
    by (simp add: path_Clean_def is_rooted_def joinWith_Cons hasPrefix_def)
qed

text \<open>A guard that tests for a root and for climbing accepts exactly the paths that stay below
  the directory they are resolved in.\<close>

lemma path_Clean_contained:
  "\<not> is_rooted (path_Clean p) \<and> \<not> climbs (path_Clean p) \<longleftrightarrow> \<not> is_rooted p \<and> \<not> escapes (splitOn p ''/'')"
proof (cases "is_rooted p")
  case True
  then show ?thesis by (simp add: path_Clean_rooted)
next
  case False
  then have "\<not> is_rooted (path_Clean p)" by (rule path_Clean_relative)
  with False show ?thesis using path_Clean_climbs path_Clean_stays by blast
qed

section \<open>Joining\<close>

lemma cut_slash_append:
  "cut d ''/'' = Some (a, b) \<Longrightarrow> cut (d @ x) ''/'' = Some (a, b @ x)"
  "cut d ''/'' = None \<Longrightarrow> cut (d @ ''/'' @ x) ''/'' = Some (d, x)"
  by (induction d arbitrary: a) (auto simp: hasPrefix_def split: if_splits)

lemma splitOn_append_slash: "splitOn (d @ ''/'' @ x) ''/'' = splitOn d ''/'' @ splitOn x ''/''"
proof (induction "length d" arbitrary: d rule: less_induct)
  case less
  show ?case
  proof (cases "cut d ''/''")
    case None
    then show ?thesis
      using cut_slash_append(2) [OF None, of x] by (subst splitOn.simps) (simp add: splitOn.simps [of d])
  next
    case (Some ab)
    obtain a b where ab: "cut d ''/'' = Some (a, b)" using Some by (cases ab) auto
    have "length b < length d" using cut_length [OF ab] by simp
    from less [OF this] show ?thesis
      using ab cut_slash_append(1) [OF ab, of "''/'' @ x"]
      by (subst splitOn.simps) (simp add: splitOn.simps [of d])
  qed
qed

lemma joinWith_snoc: "xs \<noteq> [] \<Longrightarrow> joinWith sep (xs @ [x]) = joinWith sep xs @ sep @ x"
  by (induction xs) (auto simp: joinWith_Cons)

text \<open>A path joined with a file name ends with that name.\<close>

lemma path_Join_name:
  assumes "\<not> contains name ''/''" and "name \<notin> {'''', ''.'', ''..''}"
  shows "\<exists>p. path_Join [d, name] = p @ name"
proof -
  define full where "full = (if d = '''' then name else d @ ''/'' @ name)"
  define stack where "stack = clean_stack (is_rooted full) (if d = '''' then [] else splitOn d ''/'')"
  have split: "splitOn full ''/'' = (if d = '''' then [] else splitOn d ''/'') @ [name]"
    using splitOn_append_slash [of d name] splitOn_not_contains [OF assms(1)] by (simp add: full_def)
  have comps: "clean_components full = rev stack @ [name]"
    unfolding clean_components_def split using assms(2) by (simp add: clean_stack_def stack_def)
  have join: "path_Join [d, name] = path_Clean full"
    using assms(2) by (simp add: path_Join_def full_def)
  have "\<exists>q. joinWith ''/'' (rev stack @ [name]) = q @ name"
    by (cases "rev stack = []") (auto simp: joinWith_snoc intro: exI [of _ "[]"])
  then show ?thesis
    unfolding join path_Clean_def comps by auto
qed

end
