(* ===== verification/Image_Policy.thy ===== *)
theory Image_Policy
  imports Api_Types Path_Clean Provider_Errors
begin

text \<open>
  Registry allowlists. The rule \<open>an image is allowed when it is an allowed prefix or lies below it\<close>
  is written three times: in the VMImage webhook (\<open>validateImagePolicy\<close>), in the
  PlatformProvider webhook (\<open>imageAllowedByPrefixes\<close>) and in the PlatformProvider controller
  (\<open>providerPackageAllowed\<close>). The locale states what each of them promises; its lemmas, proved
  once, hold for all three.
\<close>

section \<open>The three copies\<close>

text \<open>The loop of \<open>validateImagePolicy\<close>: whether it returns from within.\<close>

fun policy_prefixes :: "string \<Rightarrow> string list \<Rightarrow> bool" where
  "policy_prefixes ref [] = False"
| "policy_prefixes ref (p # ps) =
     (let pre = trimSuffix p ''/'' in
      if ref = pre \<or> hasPrefix ref (pre @ ''/'') then True else policy_prefixes ref ps)"

definition validateImagePolicy :: "string \<Rightarrow> string \<Rightarrow> ImagePolicySpec option \<Rightarrow> go_error option" where
  "validateImagePolicy fieldPath ref policy =
     (case policy of None \<Rightarrow> None
      | Some p \<Rightarrow>
          if ref = '''' then None
          else if (ip_requireDigest p \<or> ip_verifySignature p) \<and> \<not> contains ref ''@sha256:'' then
            Some (errorf (fieldPath @
              '' must be pinned by digest when requireDigest or verifySignature is enabled''))
          else if ip_allowedRegistries p \<noteq> [] \<and> \<not> policy_prefixes ref (ip_allowedRegistries p) then
            Some (errorf (fieldPath @
              '' registry is not in spec.build.security.provisionerImages.allowedRegistries''))
          else None)"

fun imageAllowedByPrefixes :: "string \<Rightarrow> string list \<Rightarrow> bool" where
  "imageAllowedByPrefixes ref [] = False"
| "imageAllowedByPrefixes ref (p # ps) =
     (let pre = trimSuffix p ''/'' in
      if ref = pre \<or> hasPrefix ref (pre @ ''/'') then True else imageAllowedByPrefixes ref ps)"

fun providerPackageAllowed :: "string \<Rightarrow> string list \<Rightarrow> bool" where
  "providerPackageAllowed ref [] = False"
| "providerPackageAllowed ref (p # ps) =
     (let pre = trimSuffix p ''/'' in
      if ref = pre \<or> hasPrefix ref (pre @ ''/'') then True else providerPackageAllowed ref ps)"

section \<open>The interface\<close>

text \<open>The image is the registry or repository itself, or a path below it.\<close>

definition under :: "string \<Rightarrow> string \<Rightarrow> bool" where
  "under base ref \<longleftrightarrow> ref = base \<or> (\<exists>rest. ref = base @ ''/'' @ rest)"

locale registry_allowlist =
  fixes allowed :: "string \<Rightarrow> string list \<Rightarrow> bool"
  assumes none: "\<not> allowed ref []"
    and each: "allowed ref (p # ps) \<longleftrightarrow> under (trimSuffix p ''/'') ref \<or> allowed ref ps"
begin

lemma allowed_iff: "allowed ref ps \<longleftrightarrow> (\<exists>p \<in> set ps. under (trimSuffix p ''/'') ref)"
  by (induction ps) (auto simp: none each)

lemma allowed_mono: "allowed ref ps \<Longrightarrow> set ps \<subseteq> set qs \<Longrightarrow> allowed ref qs"
  by (auto simp: allowed_iff)

text \<open>A registry whose name merely begins like an allowed one is not allowed: the prefix must end
  where the image ends or at a slash.\<close>

lemma sibling_rejected: "c \<noteq> CHR ''/'' \<Longrightarrow> \<not> allowed (base @ c # rest) [base @ ''/'']"
  by (auto simp: allowed_iff under_def)

lemma trailing_slash_irrelevant: "allowed ref [p @ ''/''] \<longleftrightarrow> under p ref"
  by (simp add: allowed_iff)

end

lemma hasPrefix_iff_ex: "hasPrefix s p \<longleftrightarrow> (\<exists>rest. s = p @ rest)"
  by (auto simp: hasPrefix_iff prefix_def)

interpretation vmimage_images: registry_allowlist policy_prefixes
  by unfold_locales (auto simp: under_def hasPrefix_iff_ex Let_def)

interpretation webhook_packages: registry_allowlist imageAllowedByPrefixes
  by unfold_locales (auto simp: under_def hasPrefix_iff_ex Let_def)

interpretation controller_packages: registry_allowlist providerPackageAllowed
  by unfold_locales (auto simp: under_def hasPrefix_iff_ex Let_def)

lemma webhook_controller_packages: "imageAllowedByPrefixes ref ps = providerPackageAllowed ref ps"
  by (simp add: webhook_packages.allowed_iff controller_packages.allowed_iff)

lemma validateImagePolicy_None:
  assumes "validateImagePolicy f ref (Some p) = None" and "ref \<noteq> ''''"
  shows "ip_requireDigest p \<or> ip_verifySignature p \<Longrightarrow> contains ref ''@sha256:''"
    and "ip_allowedRegistries p \<noteq> [] \<Longrightarrow>
         \<exists>r \<in> set (ip_allowedRegistries p). under (trimSuffix r ''/'') ref"
  using assms by (auto simp: validateImagePolicy_def vmimage_images.allowed_iff split: if_splits)

end
