(* ===== verification/Image_Webhook.thy ===== *)
theory Image_Webhook
  imports Image_Policy Netguard
begin

text \<open>
  The validating admission webhook of \<open>VMImage\<close> (\<open>api/v1alpha1/vmimage_webhook.go\<close>,
  \<open>webhook_validation.go\<close>). Every check is a function that returns the error it reports; \<open>validate\<close>
  collects them all and joins their messages. What \<open>url.Parse\<close> and DNS answer are parameters.
\<close>

section \<open>Shared helpers\<close>

text \<open>\<open>if err := check; err != nil { errs = append(errs, err) }\<close>, for a list of checks.\<close>

definition collect :: "'e option list \<Rightarrow> 'e list" where
  "collect rs = List.map_filter id rs"

definition joinErrors :: "go_error list \<Rightarrow> go_error" where
  "joinErrors errs = errorf (joinWith ''; '' (map err_msg errs))"

definition join_result :: "go_error list \<Rightarrow> go_error option" where
  "join_result errs = (if errs = [] then None else Some (joinErrors errs))"

definition validateNoSSRF :: "url_parser \<Rightarrow> resolver \<Rightarrow> string \<Rightarrow> string \<Rightarrow> go_error option" where
  "validateNoSSRF up lk fieldPath rawURL =
     ValidatePublicHTTPSURL up lk fieldPath rawURL
       \<lparr>o_allowUnresolved = True, o_allowedPrivateCIDRs = [], o_allowedDNSNames = []\<rparr>"

section \<open>Single fields\<close>

definition effectiveArtifactStorageType :: "BuildSpec \<Rightarrow> string" where
  "effectiveArtifactStorageType build =
     (case bld_artifactStorage build of None \<Rightarrow> ''pvc''
      | Some s \<Rightarrow> if as_type s = '''' then ''pvc'' else as_type s)"

definition validateOSSpec :: "OSSpec \<Rightarrow> go_error option" where
  "validateOSSpec os =
     (if os_arch os \<in> {'''', ''amd64'', ''arm64''} then None
      else Some (errorf ''spec.os.arch must be amd64 or arm64''))"

definition validateSourceCache :: "BuildSpec \<Rightarrow> go_error option" where
  "validateSourceCache build =
     (case bld_cache build of None \<Rightarrow> None
      | Some c \<Rightarrow>
          (let legacyRef = (case bld_cacheRef build of None \<Rightarrow> '''' | Some r \<Rightarrow> r);
               effectiveRef = (if cache_ref c = '''' then legacyRef else cache_ref c) in
           if legacyRef \<noteq> '''' \<and> cache_ref c \<noteq> '''' \<and> legacyRef \<noteq> cache_ref c then
             Some (errorf ''spec.build.cacheRef and spec.build.cache.ref must reference the same PVC when both are set'')
           else if effectiveRef = '''' then
             Some (errorf ''spec.build.cache.ref is required when spec.build.cache is set'')
           else if (case cache_ttl c of None \<Rightarrow> False | Some d \<Rightarrow> d \<le> 0) then
             Some (errorf ''spec.build.cache.ttl must be greater than zero'')
           else if cache_retainPolicy c \<in> {'''', ''Always'', ''Never''} then None
           else Some (errorf ''spec.build.cache.retainPolicy must be Always or Never'')))"

definition validateBuildNodeIsolation :: "BuildSpec \<Rightarrow> go_error option" where
  "validateBuildNodeIsolation build =
     (if (case bld_security build of None \<Rightarrow> True | Some s \<Rightarrow> \<not> sec_enableKVM s) then None
      else if get_str (bld_nodeSelector build) ''imagebuilder.io/kvm'' \<noteq> ''true'' then
        Some (errorf ''spec.build.nodeSelector[\"imagebuilder.io/kvm\"] must be \"true\" when spec.build.security.enableKVM=true'')
      else if get_str (bld_nodeSelector build) ''imagebuilder.io/dedicated'' \<noteq> ''imagebuilder'' then
        Some (errorf ''spec.build.nodeSelector[\"imagebuilder.io/dedicated\"] must be \"imagebuilder\" when spec.build.security.enableKVM=true'')
      else None)"

section \<open>Provisioners\<close>

definition isKnownProvisionerType :: "string \<Rightarrow> bool" where
  "isKnownProvisionerType typeName \<longleftrightarrow>
     typeName \<in> set [''cloud-init'', ''shell'', ''file'', ''powershell'', ''sysprep'',
       ''ansible'', ''chef'', ''puppet'', ''saltstack'', ''custom'', ''evidence'']"

definition field_at :: "nat \<Rightarrow> string" where
  "field_at i = ''spec.provisioners['' @ show_nat i @ '']''"

text \<open>\<open>for i, p := range provisioners\<close> with a return at the first error.\<close>

fun indexed_error :: "(nat \<Rightarrow> 'a \<Rightarrow> 'e option) \<Rightarrow> nat \<Rightarrow> 'a list \<Rightarrow> 'e option" where
  "indexed_error f i [] = None"
| "indexed_error f i (x # xs) =
     (case f i x of Some e \<Rightarrow> Some e | None \<Rightarrow> indexed_error f (Suc i) xs)"

definition provisioner_type_error :: "nat \<Rightarrow> ProvisionerSpec \<Rightarrow> go_error option" where
  "provisioner_type_error i p =
     (if trimSpace (prov_type p) = '''' then Some (errorf (field_at i @ ''.type is required''))
      else if isKnownProvisionerType (prov_type p) then None
      else if trimSpace (prov_image p) = '''' then
        Some (errorf (field_at i @ ''.image is required for custom OCI provisioner type '' @
          quoted (prov_type p)))
      else None)"

definition validateProvisionerTypes :: "ProvisionerSpec list \<Rightarrow> go_error option" where
  "validateProvisionerTypes provisioners = indexed_error provisioner_type_error 0 provisioners"

definition validateProvisionerImagePolicy ::
    "ProvisionerSpec list \<Rightarrow> BuildSecuritySpec option \<Rightarrow> go_error option" where
  "validateProvisionerImagePolicy provisioners security =
     (case security of None \<Rightarrow> None
      | Some s \<Rightarrow>
          (case sec_provisionerImages s of None \<Rightarrow> None
           | Some policy \<Rightarrow>
               indexed_error
                 (\<lambda>i p. if prov_image p = '''' then None
                        else validateImagePolicy (field_at i @ ''.image'') (prov_image p) (Some policy))
                 0 provisioners))"

definition git_auth_error :: "string \<Rightarrow> GitProvisionerAuthSpec option \<Rightarrow> go_error option" where
  "git_auth_error fieldPath auth =
     (case auth of None \<Rightarrow> None
      | Some a \<Rightarrow>
          if (case ga_secretRef a of None \<Rightarrow> False | Some r \<Rightarrow> trimSpace (gas_name r) = '''') then
            Some (errorf (fieldPath @ ''.git.auth.secretRef.name is required''))
          else if ga_tokenPath a \<noteq> '''' \<or> ga_usernamePath a \<noteq> '''' \<or> ga_passwordPath a \<noteq> '''' then
            Some (errorf (fieldPath @
              ''.git.auth runtime credential paths are controller-managed; use secretRef''))
          else None)"

definition git_source_error ::
    "url_parser \<Rightarrow> resolver \<Rightarrow> string \<Rightarrow> GitProvisionerSourceSpec \<Rightarrow> go_error option" where
  "git_source_error up lk fieldPath git =
     (if trimSpace (git_url git) = '''' then Some (errorf (fieldPath @ ''.git.url is required''))
      else case validateNoSSRF up lk (fieldPath @ ''.git.url'') (git_url git) of Some err \<Rightarrow> Some err
      | None \<Rightarrow>
          if trimSpace (git_ref git) = '''' then Some (errorf (fieldPath @ ''.git.ref is required''))
          else if trimSpace (git_path git) = '''' then Some (errorf (fieldPath @ ''.git.path is required''))
          else
            (let cleanPath = path_Clean (git_path git) in
             if hasPrefix cleanPath ''/'' \<or> cleanPath = ''..'' \<or> hasPrefix cleanPath ''../'' then
               Some (errorf (fieldPath @ ''.git.path must be a relative repository path without '' @
                 [CHR 39] @ ''..'' @ [CHR 39]))
             else git_auth_error fieldPath (git_auth git)))"

definition provisioner_source_error ::
    "url_parser \<Rightarrow> resolver \<Rightarrow> nat \<Rightarrow> ProvisionerSpec \<Rightarrow> go_error option" where
  "provisioner_source_error up lk i p =
     (let fieldPath = field_at i @ ''.source'' in
      case prov_source p of None \<Rightarrow> None
      | Some src \<Rightarrow>
          if prov_inline p \<noteq> '''' then
            Some (errorf (fieldPath @ '' is mutually exclusive with '' @ field_at i @ ''.inline''))
          else if prov_playbook p \<noteq> '''' then
            Some (errorf (fieldPath @ '' is mutually exclusive with '' @ field_at i @ ''.playbook''))
          else case psrc_git src of
            None \<Rightarrow> Some (errorf (fieldPath @ ''.git is required when source is set''))
          | Some git \<Rightarrow> git_source_error up lk fieldPath git)"

definition validateProvisionerSources ::
    "url_parser \<Rightarrow> resolver \<Rightarrow> ProvisionerSpec list \<Rightarrow> go_error option" where
  "validateProvisionerSources up lk provisioners =
     indexed_error (provisioner_source_error up lk) 0 provisioners"

section \<open>Evidence\<close>

fun evidenceIndexes :: "nat \<Rightarrow> ProvisionerSpec list \<Rightarrow> nat list" where
  "evidenceIndexes i [] = []"
| "evidenceIndexes i (p # ps) =
     (if prov_type p = ''evidence'' then i # evidenceIndexes (Suc i) ps else evidenceIndexes (Suc i) ps)"

fun evidence_content_error :: "ProvisionerSpec list \<Rightarrow> nat list \<Rightarrow> go_error option" where
  "evidence_content_error provisioners [] = None"
| "evidence_content_error provisioners (i # is) =
     (let p = provisioners ! i in
      if trimSpace (prov_inline p) = '''' \<and> prov_source p = None then
        Some (errorf (field_at i @ '' evidence provisioner requires inline or source content''))
      else evidence_content_error provisioners is)"

definition evidence_required_error ::
    "ProvisionerSpec list \<Rightarrow> nat list \<Rightarrow> SourceSpec \<Rightarrow> go_error option" where
  "evidence_required_error provisioners indexes source =
     (if (case src_marketplaceRef source of None \<Rightarrow> False
          | Some m \<Rightarrow> equalFold (trimSpace (mp_version m)) ''latest'') then
        Some (errorf ''spec.source.marketplaceRef.version must be immutable when spec.evidence.required is true'')
      else if length indexes \<noteq> 1 then
        Some (errorf ''spec.evidence.required requires exactly one evidence provisioner'')
      else if int (indexes ! 0) \<noteq> int (length provisioners) - 1 then
        Some (errorf ''the evidence provisioner must be the final spec.provisioners entry'')
      else None)"

definition validateEvidence ::
    "EvidenceSpec option \<Rightarrow> ProvisionerSpec list \<Rightarrow> string \<Rightarrow> SourceSpec \<Rightarrow> go_error option" where
  "validateEvidence evidence provisioners mode source =
     (let indexes = evidenceIndexes 0 provisioners in
      case evidence of
        None \<Rightarrow>
          if indexes \<noteq> [] then
            Some (errorf ''spec.evidence is required when an evidence provisioner is configured'')
          else None
      | Some ev \<Rightarrow>
          if mode \<noteq> BuildModeRemote then
            Some (errorf ''spec.evidence is currently supported only for spec.build.mode remote'')
          else if trimSpace (ev_registryRepository ev) = '''' then
            Some (errorf ''spec.evidence.registryRepository is required'')
          else if contains (ev_registryRepository ev) ''@sha256:'' \<or>
              contains (ev_registryRepository ev) ''://'' \<and> \<not> hasPrefix (ev_registryRepository ev) ''oci://'' then
            Some (errorf ''spec.evidence.registryRepository must be an oci:// repository prefix without a digest'')
          else
            (case (if ev_required ev then evidence_required_error provisioners indexes source else None) of
               Some err \<Rightarrow> Some err
             | None \<Rightarrow> evidence_content_error provisioners indexes))"

section \<open>Installer media\<close>

definition autounattend_error :: "OSSpec \<Rightarrow> InstallerMediaSpec \<Rightarrow> go_error option" where
  "autounattend_error os installer =
     (if os_family os \<noteq> ''windows'' then
        Some (errorf ''spec.source.installer.type autounattend requires spec.os.family windows'')
      else if inst_autounattend installer = '''' \<and> inst_windows installer = None then
        Some (errorf ''spec.source.installer.autounattend or spec.source.installer.windows is required for installer type \"autounattend\"'')
      else if (case inst_windows installer of None \<Rightarrow> False
               | Some w \<Rightarrow> win_cloudbaseInit w \<noteq> None \<and> trimSpace (win_cloudbaseInitMSI w) = '''') then
        Some (errorf ''spec.source.installer.windows.cloudbaseInit requires spec.source.installer.windows.cloudbaseInitMsi'')
      else None)"

definition validateInstallerMedia :: "OSSpec \<Rightarrow> InstallerMediaSpec \<Rightarrow> go_error option" where
  "validateInstallerMedia os installer =
     (if inst_type installer \<in> {''nocloud'', ''autoinstall''} then
        (if os_family os \<noteq> ''linux'' then
           Some (errorf (''spec.source.installer.type '' @ quoted (inst_type installer) @ '' requires spec.os.family linux''))
         else if inst_userData installer = '''' then
           Some (errorf (''spec.source.installer.userData is required for installer type '' @ quoted (inst_type installer)))
         else None)
      else if inst_type installer = ''kickstart'' then
        (if os_family os \<noteq> ''linux'' then
           Some (errorf ''spec.source.installer.type kickstart requires spec.os.family linux'')
         else if inst_kickstart installer = '''' then
           Some (errorf ''spec.source.installer.kickstart is required for installer type \"kickstart\"'')
         else None)
      else if inst_type installer = ''preseed'' then
        (if os_family os \<noteq> ''linux'' then
           Some (errorf ''spec.source.installer.type preseed requires spec.os.family linux'')
         else if inst_preseed installer = '''' then
           Some (errorf ''spec.source.installer.preseed is required for installer type \"preseed\"'')
         else None)
      else if inst_type installer = ''autounattend'' then autounattend_error os installer
      else Some (errorf ''spec.source.installer.type must be nocloud, autoinstall, kickstart, preseed, or autounattend''))"

section \<open>Guest access\<close>

definition guest_protocol_error :: "OSSpec \<Rightarrow> GuestAccessSpec \<Rightarrow> go_error option" where
  "guest_protocol_error os access =
     (if gac_protocol access \<noteq> ''ssh'' \<and> gac_protocol access \<noteq> ''winrm'' then
        Some (errorf ''spec.build.guestAccess.protocol must be ssh or winrm'')
      else if os_family os = ''linux'' \<and> gac_protocol access \<noteq> ''ssh'' then
        Some (errorf ''spec.build.guestAccess.protocol must be ssh when spec.os.family is linux'')
      else if os_family os = ''windows'' \<and> gac_protocol access \<noteq> ''winrm'' then
        Some (errorf ''spec.build.guestAccess.protocol must be winrm when spec.os.family is windows'')
      else None)"

definition guest_network_error :: "GuestAccessSpec \<Rightarrow> string \<Rightarrow> go_error option" where
  "guest_network_error access mode =
     (if mode = BuildModeLocal \<and> gac_host access \<notin> {'''', ''127.0.0.1'', ''localhost''} then
        Some (errorf ''spec.build.guestAccess.host must be 127.0.0.1 or localhost for qemu user networking'')
      else if gac_hostPort access < 1 \<or> gac_hostPort access > 65535 then
        Some (errorf ''spec.build.guestAccess.hostPort must be between 1 and 65535'')
      else if gac_guestPort access < 0 \<or> gac_guestPort access > 65535 then
        Some (errorf ''spec.build.guestAccess.guestPort must be between 1 and 65535 when set'')
      else if (case gac_timeout access of None \<Rightarrow> False | Some d \<Rightarrow> d \<le> 0) then
        Some (errorf ''spec.build.guestAccess.timeout must be greater than zero'')
      else None)"

definition generate_error :: "GuestGeneratedCredentialsSpec option \<Rightarrow> go_error option" where
  "generate_error generate =
     (case generate of None \<Rightarrow> None
      | Some g \<Rightarrow>
          if \<not> gg_sshKey g \<and> \<not> gg_password g then
            Some (errorf ''spec.build.guestAccess.credentials.generate must enable sshKey or password'')
          else if gg_passwordLength g \<noteq> 0 \<and> (gg_passwordLength g < 20 \<or> gg_passwordLength g > 128) then
            Some (errorf ''spec.build.guestAccess.credentials.generate.passwordLength must be between 20 and 128'')
          else None)"

definition injection_error :: "OSSpec \<Rightarrow> string option \<Rightarrow> go_error option" where
  "injection_error os injection =
     (case injection of None \<Rightarrow> None
      | Some m \<Rightarrow>
          if m \<notin> {'''', ''none'', ''cloud-init'', ''autounattend''} then
            Some (errorf ''spec.build.guestAccess.credentials.injection.method must be none, cloud-init, or autounattend'')
          else if os_family os = ''linux'' \<and> m = ''autounattend'' then
            Some (errorf ''spec.build.guestAccess.credentials.injection.method autounattend requires spec.os.family windows'')
          else if os_family os = ''windows'' \<and> m = ''cloud-init'' then
            Some (errorf ''spec.build.guestAccess.credentials.injection.method cloud-init requires spec.os.family linux'')
          else None)"

definition guest_credentials_error :: "OSSpec \<Rightarrow> GuestCredentialsSpec option \<Rightarrow> go_error option" where
  "guest_credentials_error os credentials =
     (case credentials of None \<Rightarrow> None
      | Some creds \<Rightarrow>
          if (case gc_secretRef creds of None \<Rightarrow> False | Some r \<Rightarrow> gcs_name r = '''') then
            Some (errorf ''spec.build.guestAccess.credentials.secretRef.name is required'')
          else if gc_secretRef creds \<noteq> None \<and> gc_generate creds \<noteq> None then
            Some (errorf ''spec.build.guestAccess.credentials.secretRef and generate are mutually exclusive'')
          else first_error [generate_error (gc_generate creds), injection_error os (gc_injection creds)])"

definition generates_password :: "GuestAccessSpec \<Rightarrow> bool" where
  "generates_password access =
     (case gac_credentials access of None \<Rightarrow> False
      | Some c \<Rightarrow> (case gc_generate c of None \<Rightarrow> False | Some g \<Rightarrow> gg_password g))"

definition winrm_error :: "GuestAccessSpec \<Rightarrow> go_error option" where
  "winrm_error access =
     (case gac_winRM access of None \<Rightarrow> None
      | Some w \<Rightarrow>
          if \<not> wr_insecureSkipVerify w then None
          else if gac_protocol access \<noteq> ''winrm'' then
            Some (errorf ''spec.build.guestAccess.winrm.insecureSkipVerify is only valid with protocol winrm'')
          else if wr_https w = Some False then
            Some (errorf ''spec.build.guestAccess.winrm.insecureSkipVerify requires winrm.https true'')
          else if \<not> generates_password access then
            Some (errorf ''spec.build.guestAccess.winrm.insecureSkipVerify is only allowed for generated ephemeral WinRM bootstrap credentials'')
          else None)"

definition validateGuestAccess :: "OSSpec \<Rightarrow> GuestAccessSpec \<Rightarrow> string \<Rightarrow> go_error option" where
  "validateGuestAccess os access mode =
     first_error
       [guest_protocol_error os access, guest_network_error access mode,
        guest_credentials_error os (gac_credentials access), winrm_error access]"

section \<open>The whole image\<close>

definition snapshot_errors :: "SourceSpec \<Rightarrow> string \<Rightarrow> go_error option list" where
  "snapshot_errors src mode =
     (if src_type src = ''snapshot'' then
        [check (mode \<noteq> BuildModeRemote)
           (errorf ''spec.source.type snapshot requires spec.build.mode remote''),
         check (trimSpace (src_providerRef src) = '''')
           (errorf ''spec.source.providerRef is required when spec.source.type is snapshot''),
         check (src_url src \<noteq> '''')
           (errorf ''spec.source.url must be empty when spec.source.type is snapshot'')]
      else [])"

definition marketplace_errors :: "SourceSpec \<Rightarrow> go_error option list" where
  "marketplace_errors src =
     (if src_type src = ''marketplace'' then
        [check (src_marketplaceRef src = None \<and> trimSpace (src_providerRef src) = '''')
           (errorf ''spec.source.marketplaceRef or spec.source.providerRef is required when spec.source.type is marketplace''),
         check (case src_marketplaceRef src of None \<Rightarrow> False
                | Some m \<Rightarrow> trimSpace (mp_publisher m) = '''' \<or> trimSpace (mp_offer m) = '''' \<or>
                    trimSpace (mp_sku m) = '''' \<or> trimSpace (mp_version m) = '''')
           (errorf ''spec.source.marketplaceRef publisher, offer, sku, and version are required when spec.source.type is marketplace''),
         check (src_url src \<noteq> '''')
           (errorf ''spec.source.url must be empty when spec.source.type is marketplace'')]
      else [])"

definition source_url_error :: "url_parser \<Rightarrow> resolver \<Rightarrow> SourceSpec \<Rightarrow> go_error option" where
  "source_url_error up lk src =
     (if hasPrefix (src_url src) ''https://'' then validateNoSSRF up lk ''spec.source.url'' (src_url src)
      else check (src_url src \<noteq> '''')
        (errorf ''spec.source.url must be an https URL; use spec.source.providerRef for provider-native source references''))"

definition only_for_iso :: "string \<Rightarrow> string \<Rightarrow> go_error" where
  "only_for_iso field ty =
     errorf (field @ '' is only supported for source type \"iso\", got '' @ quoted ty)"

definition installer_errors :: "VMImageSpec \<Rightarrow> go_error option list" where
  "installer_errors spec =
     (case src_installer (spec_source spec) of None \<Rightarrow> []
      | Some installer \<Rightarrow>
          [check (src_type (spec_source spec) \<noteq> ''iso'')
             (only_for_iso ''spec.source.installer'' (src_type (spec_source spec))),
           validateInstallerMedia (spec_os spec) installer])"

definition guest_access_errors :: "VMImageSpec \<Rightarrow> string \<Rightarrow> go_error option list" where
  "guest_access_errors spec mode =
     (case bld_guestAccess (spec_build spec) of None \<Rightarrow> []
      | Some access \<Rightarrow>
          [check (mode = BuildModeLocal \<and> src_type (spec_source spec) \<noteq> ''iso'')
             (only_for_iso ''spec.build.guestAccess'' (src_type (spec_source spec))),
           validateGuestAccess (spec_os spec) access mode])"

text \<open>The checks of \<open>validate\<close> in the order of the code; \<open>mode\<close> is its local \<open>buildMode\<close>.\<close>

definition validate_checks :: "url_parser \<Rightarrow> resolver \<Rightarrow> VMImageSpec \<Rightarrow> string \<Rightarrow> go_error option list" where
  "validate_checks up lk spec mode =
     (let src = spec_source spec; build = spec_build spec in
      [check (hasPrefix (src_url src) ''https://'' \<and> src_checksum src = '''')
         (errorf ''spec.source.checksum is required when spec.source.url is set (AS-010)''),
       validateOSSpec (spec_os spec),
       check (mode \<noteq> BuildModeLocal \<and> mode \<noteq> BuildModeRemote)
         (errorf ''spec.build.mode must be local or remote''),
       check (mode = BuildModeLocal \<and> effectiveArtifactStorageType build \<noteq> ''pvc'')
         (errorf ''spec.build.artifactStorage.type must be pvc for local builds'')]
      @ snapshot_errors src mode
      @ marketplace_errors src
      @ [source_url_error up lk src,
         check (src_providerRef src \<noteq> '''' \<and> hasPrefix (src_providerRef src) ''http://'')
           (errorf ''spec.source.providerRef must be a provider-native source reference, not an insecure URL''),
         validateSourceCache build,
         validateBuildNodeIsolation build,
         check (src_bootCommand src \<noteq> [] \<and> src_type src \<noteq> ''iso'')
           (only_for_iso ''spec.source.bootCommand'' (src_type src))]
      @ installer_errors spec
      @ guest_access_errors spec mode
      @ [validateProvisionerTypes (spec_provisioners spec),
         validateProvisionerSources up lk (spec_provisioners spec),
         validateProvisionerImagePolicy (spec_provisioners spec) (bld_security build),
         validateEvidence (spec_evidence spec) (spec_provisioners spec) mode src,
         check (spec_targets spec = []) (errorf ''spec.targets must contain at least one entry''),
         check (mode = BuildModeRemote \<and> length (spec_targets spec) \<noteq> 1)
           (errorf ''spec.build.mode remote currently requires exactly one target'')])"

definition validate :: "url_parser \<Rightarrow> resolver \<Rightarrow> VMImage \<Rightarrow> go_error option" where
  "validate up lk r = join_result (collect (validate_checks up lk (img_spec r) (buildMode r)))"

text \<open>\<open>reflect.DeepEqual\<close> on two specifications is equality of the values.\<close>

definition validateUpdate :: "url_parser \<Rightarrow> resolver \<Rightarrow> VMImage option \<Rightarrow> VMImage \<Rightarrow> go_error option" where
  "validateUpdate up lk old r =
     (case validate up lk r of Some err \<Rightarrow> Some err
      | None \<Rightarrow>
          (case old of None \<Rightarrow> None
           | Some o' \<Rightarrow>
               if img_spec o' = img_spec r then None
               else if img_phase o' \<noteq> PhaseReady \<and> img_phase o' \<noteq> PhaseFailed then
                 Some (errorf (''spec cannot be changed while VMImage phase is '' @ quoted (img_phase o') @
                   ''; wait for Ready or Failed, then change spec.build.revision''))
               else if bld_revision (spec_build (img_spec o')) = bld_revision (spec_build (img_spec r)) then
                 Some (errorf ''terminal VMImage spec changes must change spec.build.revision to request a rebuild'')
               else None))"

section \<open>Lemmas\<close>

lemma collect_Nil_iff: "collect rs = [] \<longleftrightarrow> set rs \<subseteq> {None}"
  by (induction rs) (auto simp: collect_def List.map_filter_def)

lemma collect_mem: "Some e \<in> set rs \<Longrightarrow> e \<in> set (collect rs)"
  by (force simp: collect_def List.map_filter_def)

lemma join_result_None [simp]: "join_result errs = None \<longleftrightarrow> errs = []"
  by (simp add: join_result_def)

lemma join_collect_None: "join_result (collect rs) = None \<Longrightarrow> x \<in> set rs \<Longrightarrow> x = None"
  by (auto simp: collect_Nil_iff)

lemma joinWith_mem: "x \<in> set xs \<Longrightarrow> contains (joinWith sep xs) x"
proof (induction xs)
  case (Cons y ys)
  show ?case
  proof (cases "x = y")
    case True
    then show ?thesis by (auto simp: joinWith_Cons contains_iff)
  next
    case False
    with Cons have "sublist x (joinWith sep ys)" "ys \<noteq> []" by (auto simp: contains_iff)
    then show ?thesis by (simp add: joinWith_Cons contains_iff sublist_append)
  qed
qed simp

lemma join_collect_message:
  assumes "join_result (collect rs) = Some e" and "Some x \<in> set rs"
  shows "contains (err_msg e) (err_msg x)"
  using assms(1) joinWith_mem [of "err_msg x" "map err_msg (collect rs)" "''; ''"] collect_mem [OF assms(2)]
  by (auto simp: join_result_def joinErrors_def errorf_def split: if_splits)

lemma indexed_error_None: "indexed_error f i xs = None \<Longrightarrow> k < length xs \<Longrightarrow> f (i + k) (xs ! k) = None"
proof (induction xs arbitrary: i k)
  case (Cons x xs)
  then show ?case using Cons.IH [of "Suc i" "k - 1"] by (cases k) (auto split: option.splits)
qed simp

text \<open>What the URL guard promises at admission, where no private address is on an allowlist.\<close>

definition public_target :: "url_parser \<Rightarrow> resolver \<Rightarrow> string \<Rightarrow> bool" where
  "public_target up lk url \<longleftrightarrow>
     (\<exists>u. up url = Inr u \<and> toLower (u_scheme u) = ''https'' \<and> \<not> u_user u \<and> parseIP (u_hostname u) = None
        \<and> (\<forall>addrs a ip. lk (u_hostname u) = Inr addrs \<longrightarrow> a \<in> set addrs \<longrightarrow> parseIP a = Some ip \<longrightarrow>
             (\<forall>(c, n) \<in> set permanentlyBlockedCIDRs. \<not> net_contains n ip)
             \<and> (\<forall>(c, n) \<in> set privateCIDRs. \<not> net_contains n ip)))"

lemma validateNoSSRF_None:
  assumes "validateNoSSRF up lk f url = None" and "url \<noteq> ''''"
  shows "public_target up lk url"
proof -
  from assms(1) [unfolded validateNoSSRF_def] obtain u nets where u: "up url = Inr u"
      "toLower (u_scheme u) = ''https''" "\<not> u_user u" "parseIP (u_hostname u) = None"
      "parseCIDRs [] = Inr nets"
      "\<And>addrs a. lk (u_hostname u) = Inr addrs \<Longrightarrow> a \<in> set addrs \<Longrightarrow> check_addr f (u_hostname u) nets a = None"
    by (rule ValidatePublicHTTPSURL_None [OF _ assms(2)]) auto
  from u(5) have no: "\<not> containedByAny ip nets" for ip by (simp add: containedByAny_def)
  have "(\<forall>(c, n) \<in> set permanentlyBlockedCIDRs. \<not> net_contains n ip)
      \<and> (\<forall>(c, n) \<in> set privateCIDRs. \<not> net_contains n ip)"
    if "lk (u_hostname u) = Inr addrs" "a \<in> set addrs" "parseIP a = Some ip" for addrs a ip
    using check_addr_None [OF u(6) [OF that(1,2)] that(3)] no by auto
  with u show ?thesis unfolding public_target_def by blast
qed

lemma validate_None:
  assumes "validate up lk r = None" and "x \<in> set (validate_checks up lk (img_spec r) (buildMode r))"
  shows "x = None"
  using assms unfolding validate_def by (rule join_collect_None)

text \<open>The single checks of an admitted image.\<close>

lemma validate_checks_None:
  assumes "validate up lk r = None"
  defines "spec \<equiv> img_spec r"
  shows "list_all (\<lambda>x. x = None) (snapshot_errors (spec_source spec) (buildMode r))"
    and "list_all (\<lambda>x. x = None) (marketplace_errors (spec_source spec))"
    and "list_all (\<lambda>x. x = None) (installer_errors spec)"
    and "list_all (\<lambda>x. x = None) (guest_access_errors spec (buildMode r))"
    and "source_url_error up lk (spec_source spec) = None"
    and "\<not> (hasPrefix (src_url (spec_source spec)) ''https://'' \<and> src_checksum (spec_source spec) = '''')"
    and "\<not> (buildMode r \<noteq> BuildModeLocal \<and> buildMode r \<noteq> BuildModeRemote)"
    and "\<not> (buildMode r = BuildModeLocal \<and> effectiveArtifactStorageType (spec_build spec) \<noteq> ''pvc'')"
    and "validateBuildNodeIsolation (spec_build spec) = None"
    and "validateSourceCache (spec_build spec) = None"
    and "validateProvisionerTypes (spec_provisioners spec) = None"
    and "validateProvisionerSources up lk (spec_provisioners spec) = None"
    and "validateProvisionerImagePolicy (spec_provisioners spec) (bld_security (spec_build spec)) = None"
    and "validateEvidence (spec_evidence spec) (spec_provisioners spec) (buildMode r) (spec_source spec) = None"
    and "\<not> spec_targets spec = []"
    and "\<not> (buildMode r = BuildModeRemote \<and> length (spec_targets spec) \<noteq> 1)"
proof -
  have all: "list_all (\<lambda>x. x = None) (validate_checks up lk spec (buildMode r))"
    using validate_None [OF assms(1)] by (simp add: spec_def list_all_iff)
  note parts = all [unfolded validate_checks_def Let_def list_all_append list.pred_inject check_None_iff]
  show
    "list_all (\<lambda>x. x = None) (snapshot_errors (spec_source spec) (buildMode r))"
    "list_all (\<lambda>x. x = None) (marketplace_errors (spec_source spec))"
    "list_all (\<lambda>x. x = None) (installer_errors spec)"
    "list_all (\<lambda>x. x = None) (guest_access_errors spec (buildMode r))"
    "source_url_error up lk (spec_source spec) = None"
    "\<not> (hasPrefix (src_url (spec_source spec)) ''https://'' \<and> src_checksum (spec_source spec) = '''')"
    "\<not> (buildMode r \<noteq> BuildModeLocal \<and> buildMode r \<noteq> BuildModeRemote)"
    "\<not> (buildMode r = BuildModeLocal \<and> effectiveArtifactStorageType (spec_build spec) \<noteq> ''pvc'')"
    "validateBuildNodeIsolation (spec_build spec) = None"
    "validateSourceCache (spec_build spec) = None"
    "validateProvisionerTypes (spec_provisioners spec) = None"
    "validateProvisionerSources up lk (spec_provisioners spec) = None"
    "validateProvisionerImagePolicy (spec_provisioners spec) (bld_security (spec_build spec)) = None"
    "validateEvidence (spec_evidence spec) (spec_provisioners spec) (buildMode r) (spec_source spec) = None"
    "\<not> spec_targets spec = []"
    "\<not> (buildMode r = BuildModeRemote \<and> length (spec_targets spec) \<noteq> 1)"
    by (simp_all only: parts simp_thms)
qed


lemma git_source_error_None:
  assumes "git_source_error up lk f git = None"
  shows "public_target up lk (git_url git)" and "trimSpace (git_ref git) \<noteq> ''''" and "trimSpace (git_path git) \<noteq> ''''"
    and "\<not> is_rooted (git_path git)" and "\<not> escapes (splitOn (git_path git) ''/'')"
    and "git_auth_error f (git_auth git) = None"
proof -
  have url: "trimSpace (git_url git) \<noteq> ''''" "validateNoSSRF up lk (f @ ''.git.url'') (git_url git) = None"
    and ref: "trimSpace (git_ref git) \<noteq> ''''" and named: "trimSpace (git_path git) \<noteq> ''''"
    and path: "\<not> is_rooted (path_Clean (git_path git)) \<and> \<not> climbs (path_Clean (git_path git))"
    and auth: "git_auth_error f (git_auth git) = None"
    using assms
    by (auto simp: git_source_error_def Let_def is_rooted_def climbs_def split: if_splits option.splits)
  from url show "public_target up lk (git_url git)" by (auto intro: validateNoSSRF_None)
  from path show "\<not> is_rooted (git_path git)" "\<not> escapes (splitOn (git_path git) ''/'')"
    by (simp_all add: path_Clean_contained)
  show "trimSpace (git_ref git) \<noteq> ''''" "trimSpace (git_path git) \<noteq> ''''" "git_auth_error f (git_auth git) = None"
    by (fact ref named auth)+
qed

lemma evidenceIndexes_mem:
  "k \<in> set (evidenceIndexes i ps) \<longleftrightarrow> (\<exists>j < length ps. k = i + j \<and> prov_type (ps ! j) = ''evidence'')"
proof (induction ps arbitrary: i)
  case (Cons p ps)
  have "(\<exists>j < length (p # ps). k = i + j \<and> prov_type ((p # ps) ! j) = ''evidence'')
      \<longleftrightarrow> k = i \<and> prov_type p = ''evidence'' \<or> (\<exists>j < length ps. k = Suc i + j \<and> prov_type (ps ! j) = ''evidence'')"
    by (auto simp: less_Suc_eq_0_disj)
  with Cons show ?case by auto
qed simp

lemma evidence_content_error_None:
  "evidence_content_error ps is = None \<Longrightarrow> k \<in> set is \<Longrightarrow>
   trimSpace (prov_inline (ps ! k)) \<noteq> '''' \<or> prov_source (ps ! k) \<noteq> None"
  by (induction "is") (auto simp: Let_def split: if_splits)

lemma validateProvisionerSources_None:
  assumes "validateProvisionerSources up lk ps = None" and "i < length ps"
    and "prov_source (ps ! i) = Some src"
  obtains git f where "psrc_git src = Some git" and "prov_inline (ps ! i) = ''''" and "prov_playbook (ps ! i) = ''''"
    and "git_source_error up lk f git = None"
  using indexed_error_None [OF assms(1) [unfolded validateProvisionerSources_def] assms(2)] assms(3) that
  by (auto simp: provisioner_source_error_def Let_def split: if_splits option.splits)

lemma validateEvidence_required:
  assumes "validateEvidence (Some ev) ps mode src = None" and "ev_required ev"
  shows "mode = BuildModeRemote" and "evidenceIndexes 0 ps = [length ps - 1]" and "ps \<noteq> []"
    and "case src_marketplaceRef src of None \<Rightarrow> True | Some m \<Rightarrow> \<not> equalFold (trimSpace (mp_version m)) ''latest''"
    and "evidence_content_error ps [length ps - 1] = None"
proof -
  let ?is = "evidenceIndexes 0 ps"
  have req: "mode = BuildModeRemote" "evidence_required_error ps ?is src = None" "evidence_content_error ps ?is = None"
    using assms by (auto simp: validateEvidence_def Let_def split: if_splits option.splits)
  then have "length ?is = 1" "int (?is ! 0) = int (length ps) - 1"
    by (auto simp: evidence_required_error_def split: if_splits)
  then have "?is = [length ps - 1]" and ne: "ps \<noteq> []"
    by (cases ?is; auto)+
  then show "evidenceIndexes 0 ps = [length ps - 1]" "ps \<noteq> []" "mode = BuildModeRemote"
    "evidence_content_error ps [length ps - 1] = None" using req by auto
  show "case src_marketplaceRef src of None \<Rightarrow> True | Some m \<Rightarrow> \<not> equalFold (trimSpace (mp_version m)) ''latest''"
    using req(2) by (auto simp: evidence_required_error_def split: if_splits option.splits)
qed

lemma validateUpdate_None_iff:
  "validateUpdate up lk old r = None \<longleftrightarrow>
     validate up lk r = None
   \<and> (\<forall>o'. old = Some o' \<and> img_spec o' \<noteq> img_spec r \<longrightarrow>
        img_phase o' \<in> {PhaseReady, PhaseFailed}
        \<and> bld_revision (spec_build (img_spec o')) \<noteq> bld_revision (spec_build (img_spec r)))"
  by (auto simp: validateUpdate_def split: option.splits)

section \<open>Examples\<close>

text \<open>The image of the witnesses: a remote build with required evidence and a Git provisioner, and
  an environment in which its two hosts resolve to a public address.\<close>

definition ex_up :: url_parser where
  "ex_up raw = Inr \<lparr>u_scheme = ''https'', u_user = False, u_hostname = ''images.corp.io''\<rparr>"

definition ex_lk :: resolver where
  "ex_lk host = Inr [''93.184.216.34'']"

definition ex_provisioner :: "string \<Rightarrow> string \<Rightarrow> string \<Rightarrow> ProvisionerSourceSpec option \<Rightarrow> ProvisionerSpec" where
  "ex_provisioner ty img inline src =
     \<lparr>prov_type = ty, prov_image = img, prov_inline = inline, prov_source = src, prov_playbook = '''', prov_args = [],
      prov_env = [], prov_extraVars = Map.empty, prov_windowsConfig = None\<rparr>"

definition ex_git :: GitProvisionerSourceSpec where
  "ex_git = \<lparr>git_url = ''https://images.corp.io/scripts.git'', git_ref = ''v1'', git_path = ''linux/../setup.sh'',
     git_auth = None\<rparr>"

definition ex_admitted :: "string \<Rightarrow> VMImage" where
  "ex_admitted revision =
     \<lparr>img_name = ''web'', img_namespace = ''ci'', img_uid = ''u1'', img_generation = 1, img_finalizers = [],
      img_creationTimestamp = 5, img_deletionTimestamp = None,
      img_spec =
        \<lparr>spec_os = \<lparr>os_family = ''linux'', os_distribution = ''ubuntu'', os_version = ''24.04'', os_arch = ''amd64''\<rparr>,
         spec_source = \<lparr>src_type = ''iso'', src_url = ''https://images.corp.io/base.iso'', src_providerRef = '''',
           src_checksum = ''sha256:00'', src_bootCommand = [], src_installer = None, src_marketplaceRef = None\<rparr>,
         spec_provisioners =
           [ex_provisioner ''shell'' ''ghcr.io/acme/shell@sha256:11'' '''' (Some \<lparr>psrc_git = Some ex_git\<rparr>),
            ex_provisioner ''evidence'' '''' ''collect'' None],
         spec_targets = [\<lparr>tgt_providerConfigRef = ''cfg'', tgt_format = ''ami'', tgt_tags = Map.empty\<rparr>],
         spec_build = \<lparr>bld_revision = revision, bld_revisionRetention = None, bld_mode = BuildModeRemote,
           bld_timeout = None, bld_nodeSelector = Map.empty, bld_resources = None, bld_cacheRef = None,
           bld_cache = None, bld_artifactStorage = None, bld_upload = None, bld_guestAccess = None,
           bld_security = Some \<lparr>sec_enableKVM = False, sec_provisionerImages =
             Some \<lparr>ip_allowedRegistries = [''ghcr.io/acme/''], ip_requireDigest = True, ip_verifySignature = False\<rparr>\<rparr>\<rparr>,
         spec_evidence = Some \<lparr>ev_required = True, ev_sbomFormat = ''spdx'', ev_vulnerabilityScanner = '''',
           ev_failOnSeverity = [], ev_registryRepository = ''oci://ghcr.io/acme/evidence''\<rparr>\<rparr>,
      img_status = empty_status\<lparr>st_phase := PhaseReady\<rparr>\<rparr>"

lemma ex_admitted_valid: "validate ex_up ex_lk (ex_admitted ''r2'') = None"
  by code_simp

text \<open>The same image without a target and with an architecture nobody builds.\<close>

definition ex_rejected :: VMImage where
  "ex_rejected = (ex_admitted ''r2'')
     \<lparr>img_spec := (img_spec (ex_admitted ''r2''))\<lparr>spec_os := \<lparr>os_family = ''linux'', os_distribution = ''ubuntu'',
        os_version = ''24.04'', os_arch = ''sparc''\<rparr>, spec_targets := []\<rparr>\<rparr>"

section \<open>Properties\<close>



text \<open>Admission does not ask for everything a local build needs: it lets through an image source with no URL, which the
  builder requires, and targets of different formats, of which the builder is told only the first.\<close>

definition unbuildable :: VMImage where
  "unbuildable = (ex_admitted ''r2'')\<lparr>img_spec := (img_spec (ex_admitted ''r2''))
     \<lparr>spec_source := (spec_source (img_spec (ex_admitted ''r2'')))\<lparr>src_type := ''cloud-image'', src_url := '''', src_checksum := '''',
        src_bootCommand := [], src_installer := None, src_marketplaceRef := None\<rparr>,
      spec_provisioners := [], spec_evidence := None,
      spec_targets := [\<lparr>tgt_providerConfigRef = ''cfg'', tgt_format = ''qcow2'', tgt_tags = Map.empty\<rparr>,
        \<lparr>tgt_providerConfigRef = ''other'', tgt_format = ''raw'', tgt_tags = Map.empty\<rparr>],
      spec_build := (spec_build (img_spec (ex_admitted ''r2'')))\<lparr>bld_mode := '''', bld_guestAccess := None\<rparr>\<rparr>\<rparr>"

theorem unbuildable_admitted: "validate ex_up ex_lk unbuildable = None"
  by code_simp

text \<open>C18: In an admitted image a provisioner with a source has no inline content and no playbook,
  its repository URL is public for the guard, it names a ref and a path, and the path never leaves the checkout: no
  prefix of it, read component by component, climbs above the repository root, and it is not absolute. The
  credential paths the controller manages are not set by the user.\<close>

theorem admitted_git_sources_contained:
  assumes "validate up lk r = None" and "i < length (spec_provisioners (img_spec r))"
    and "prov_source (spec_provisioners (img_spec r) ! i) = Some src"
  shows "\<exists>git. psrc_git src = Some git
     \<and> prov_inline (spec_provisioners (img_spec r) ! i) = ''''
     \<and> prov_playbook (spec_provisioners (img_spec r) ! i) = ''''
     \<and> public_target up lk (git_url git) \<and> trimSpace (git_ref git) \<noteq> '''' \<and> trimSpace (git_path git) \<noteq> ''''
     \<and> \<not> is_rooted (git_path git)
     \<and> (\<forall>cs. prefix cs (splitOn (git_path git) ''/'') \<longrightarrow> \<not> escapes cs)
     \<and> (\<forall>a. git_auth git = Some a \<longrightarrow> ga_tokenPath a = '''' \<and> ga_usernamePath a = '''' \<and> ga_passwordPath a = '''')"
proof -
  obtain git f where git: "psrc_git src = Some git"
      "prov_inline (spec_provisioners (img_spec r) ! i) = ''''"
      "prov_playbook (spec_provisioners (img_spec r) ! i) = ''''"
      "git_source_error up lk f git = None"
    by (rule validateProvisionerSources_None [OF validate_checks_None(12) [OF assms(1)] assms(2,3)])
  note ok = git_source_error_None [OF git(4)]
  have "\<forall>a. git_auth git = Some a \<longrightarrow> ga_tokenPath a = '''' \<and> ga_usernamePath a = '''' \<and> ga_passwordPath a = ''''"
    using ok(6) by (auto simp: git_auth_error_def split: if_splits)
  with git ok show ?thesis by (intro exI [of _ git]) (auto dest: not_escapes_prefix)
qed

theorem admitted_git_sources_contained_witness:
  "public_target ex_up ex_lk ''https://images.corp.io/scripts.git'' \<and> trimSpace (git_ref ex_git) \<noteq> ''''
   \<and> \<not> escapes (splitOn ''linux/../setup.sh'' ''/'') \<and> \<not> escapes [''linux'', ''..'']"
proof -
  have "prov_source (spec_provisioners (img_spec (ex_admitted ''r2'')) ! 0) = Some \<lparr>psrc_git = Some ex_git\<rparr>"
    "0 < length (spec_provisioners (img_spec (ex_admitted ''r2'')))"
    by (simp_all add: ex_admitted_def ex_provisioner_def)
  moreover have "prefix [''linux'', ''..''] (splitOn ''linux/../setup.sh'' ''/'')" by code_simp
  ultimately show ?thesis
    using admitted_git_sources_contained [OF ex_admitted_valid] by (fastforce simp: ex_git_def)
qed

text \<open>When an admitted image requires evidence, its build is remote, its last provisioner is an
  evidence provisioner with inline or source content, no other provisioner is one, and the
  marketplace version it starts from, if any, is not the moving \<open>latest\<close>.\<close>

theorem required_evidence_is_final:
  assumes "validate up lk r = None" and "spec_evidence (img_spec r) = Some ev" and "ev_required ev"
  shows "let ps = spec_provisioners (img_spec r) in
     buildMode r = BuildModeRemote \<and> ps \<noteq> []
   \<and> (\<forall>j < length ps. prov_type (ps ! j) = ''evidence'' \<longleftrightarrow> j = length ps - 1)
   \<and> (trimSpace (prov_inline (last ps)) \<noteq> '''' \<or> prov_source (last ps) \<noteq> None)
   \<and> (\<forall>m. src_marketplaceRef (spec_source (img_spec r)) = Some m \<longrightarrow>
        \<not> equalFold (trimSpace (mp_version m)) ''latest'')"
proof -
  let ?ps = "spec_provisioners (img_spec r)"
  note ev = validateEvidence_required [OF validate_checks_None(14) [OF assms(1), unfolded assms(2)] assms(3)]
  have "prov_type (?ps ! j) = ''evidence'' \<longleftrightarrow> j = length ?ps - 1" if "j < length ?ps" for j
    using evidenceIndexes_mem [of j 0 ?ps] ev(2) that by auto
  moreover have "trimSpace (prov_inline (last ?ps)) \<noteq> '''' \<or> prov_source (last ?ps) \<noteq> None"
    using evidence_content_error_None [OF ev(5), of "length ?ps - 1"] ev(3) by (simp add: last_conv_nth)
  ultimately show ?thesis using ev(1,3,4) by (auto simp: Let_def)
qed

theorem required_evidence_is_final_witness:
  "prov_type (last (spec_provisioners (img_spec (ex_admitted ''r2'')))) = ''evidence''
   \<and> prov_type (hd (spec_provisioners (img_spec (ex_admitted ''r2'')))) \<noteq> ''evidence''"
proof -
  let ?ps = "spec_provisioners (img_spec (ex_admitted ''r2''))"
  have ev: "spec_evidence (img_spec (ex_admitted ''r2'')) =
      Some \<lparr>ev_required = True, ev_sbomFormat = ''spdx'', ev_vulnerabilityScanner = '''',
        ev_failOnSeverity = [], ev_registryRepository = ''oci://ghcr.io/acme/evidence''\<rparr>"
    by (simp add: ex_admitted_def)
  have all: "\<And>j. j < length ?ps \<Longrightarrow> prov_type (?ps ! j) = ''evidence'' \<longleftrightarrow> j = length ?ps - 1"
    using required_evidence_is_final [OF ex_admitted_valid ev] by (auto simp: Let_def)
  have "length ?ps = 2" by (simp add: ex_admitted_def)
  then show ?thesis using all [of 0] all [of 1] by (cases ?ps) (auto simp: last_conv_nth)
qed

text \<open>A rejection names everything that is wrong: the message of every single check that fails
  is part of the message of the error the webhook returns.\<close>

theorem rejection_reports_every_failure:
  assumes "validate up lk r = Some e"
    and "Some x \<in> set (validate_checks up lk (img_spec r) (buildMode r))"
  shows "contains (err_msg e) (err_msg x)"
  using assms unfolding validate_def by (rule join_collect_message)

theorem rejection_reports_every_failure_witness:
  "\<exists>e. validate ex_up ex_lk ex_rejected = Some e
     \<and> contains (err_msg e) ''spec.os.arch must be amd64 or arm64''
     \<and> contains (err_msg e) ''spec.targets must contain at least one entry''"
proof -
  let ?checks = "validate_checks ex_up ex_lk (img_spec ex_rejected) (buildMode ex_rejected)"
  have "validate ex_up ex_lk ex_rejected \<noteq> None" by code_simp
  then obtain e where e: "validate ex_up ex_lk ex_rejected = Some e" by blast
  have "Some (errorf ''spec.os.arch must be amd64 or arm64'') \<in> set ?checks"
    "Some (errorf ''spec.targets must contain at least one entry'') \<in> set ?checks"
    by (simp_all add: validate_checks_def Let_def ex_rejected_def validateOSSpec_def check_def)
  from this [THEN rejection_reports_every_failure [OF e]] e show ?thesis
    by (simp add: errorf_def)
qed

end
