(* ===== verification/Admission.thy ===== *)
theory Admission
  imports Image_Webhook Guarantees
begin

text \<open>
  Admission and reconciliation together: what the controller does with an object that the webhook
  has let through. The API server is modelled by what it promises for an update of the
  specification: the status is the old one and the generation has moved on.
\<close>

section \<open>A rebuild\<close>

definition fresh_status :: "VMImage \<Rightarrow> VMImageStatus" where
  "fresh_status img =
     empty_status\<lparr>st_observedGeneration := img_generation img, st_observedRevision := img_revision img,
       st_phase := PhasePending\<rparr>"

fun restart_call :: "VMImage \<Rightarrow> call \<Rightarrow> bool" where
  "restart_call img (UpdateStatus img' _) \<longleftrightarrow> img' = upd_status (\<lambda>_. fresh_status img) img"
| "restart_call img (UpdateObject _ _) \<longleftrightarrow> False"
| "restart_call img (CreateJob _ _) \<longleftrightarrow> False"
| "restart_call img _ \<longleftrightarrow> True"

fun status_call :: "call \<Rightarrow> bool" where
  "status_call (UpdateStatus _ _) \<longleftrightarrow> True"
| "status_call _ \<longleftrightarrow> False"

lemma lease_call_restart: "lease_call c \<Longrightarrow> restart_call img c \<and> \<not> status_call c"
  by (cases c) auto

text \<open>Every status in the trace was written in a world in which the build slots of the image were free.\<close>

definition writes_freed :: "('w \<Rightarrow> string \<times> string \<rightharpoonup> Lease) \<Rightarrow> VMImage \<Rightarrow> ('w \<times> call option) list \<Rightarrow> bool" where
  "writes_freed view img tr \<longleftrightarrow> (\<forall>w x e. (w, Some (UpdateStatus x e)) \<in> set tr \<longrightarrow> slots_free (view w) img)"

lemma writes_freed_simps [simp]:
  "writes_freed view img []" "writes_freed view img (a @ b) \<longleftrightarrow> writes_freed view img a \<and> writes_freed view img b"
  unfolding writes_freed_def by (simp_all, blast)

lemma writes_freed_quiet: "\<forall>c \<in> set (made tr). \<not> status_call c \<Longrightarrow> writes_freed view img tr"
proof -
  assume quiet: "\<forall>c \<in> set (made tr). \<not> status_call c"
  have "(w, Some (UpdateStatus x e)) \<notin> set tr" for w x e
    using quiet made_mem [of "UpdateStatus x e" tr] by auto
  then show ?thesis by (simp add: writes_freed_def)
qed

definition restarted :: "('w \<Rightarrow> string \<times> string \<rightharpoonup> Lease) \<Rightarrow> 'w st \<Rightarrow> outcome \<Rightarrow> 'w st \<Rightarrow> bool" where
  "restarted view s out t \<longleftrightarrow>
     (\<exists>tr. trace t = trace s @ tr \<and> (\<forall>c \<in> set (made tr). restart_call (obj s) c) \<and> writes_freed view (obj s) tr
        \<and> (snd out = None \<longrightarrow>
             fst out = nanosecond \<and> obj t = upd_status (\<lambda>_. fresh_status (obj s)) (obj s)
             \<and> UpdateStatus (obj t) None \<in> set (made tr)))"

definition restarts :: "('w \<Rightarrow> string \<times> string \<rightharpoonup> Lease) \<Rightarrow> 'w st \<Rightarrow> outcome option \<Rightarrow> 'w st \<Rightarrow> bool" where
  "restarts view s res t \<longleftrightarrow> (\<exists>out. res = Some out \<and> restarted view s out t)"

lemma restarts_Some [simp]: "restarts view s (Some out) t = restarted view s out t"
  by (simp add: restarts_def)

lemma restarted_failed:
  "trace t = trace s @ tr \<Longrightarrow> \<forall>c \<in> set (made tr). restart_call (obj s) c \<Longrightarrow> writes_freed view (obj s) tr \<Longrightarrow>
   snd out \<noteq> None \<Longrightarrow> restarted view s out t"
  by (auto simp: restarted_def)

text \<open>The last two parts of the rebuild branch of \<open>reconcileSpecGeneration\<close>.\<close>

definition collect_history :: "Reconciler \<Rightarrow> 'w Env \<Rightarrow> string \<Rightarrow> ('w, outcome option) handler" where
  "collect_history r E m = do {
     collected \<leftarrow> garbageCollectHistoricalRevisions E;
     case collected of
       Some err \<Rightarrow> ret (Some (0, Some (wrapf ''garbage collect historical revisions: '' err)))
     | None \<Rightarrow> do { recordEvent r EventNormal ''RebuildRequested'' m; ret (Some (nanosecond, None)) } }"

definition reset_status :: "Reconciler \<Rightarrow> 'w Env \<Rightarrow> VMImage \<Rightarrow> string \<Rightarrow> ('w, outcome option) handler" where
  "reset_status r E img m = do {
     set_status (\<lambda>_. fresh_status img);
     updated \<leftarrow> update_status E;
     case updated of
       Some err \<Rightarrow> ret (Some (0, Some (wrapf ''reset status for rebuild: '' err)))
     | None \<Rightarrow> collect_history r E m }"

lemma only_collect: "only (\<lambda>c. restart_call img c \<and> \<not> status_call c) (garbageCollectHistoricalRevisions E)"
  by (intro only_garbageCollect frame_eq) simp_all

lemma collect_history_wp:
  fixes s t :: "'w st"
  assumes t: "obj t = upd_status (\<lambda>_. fresh_status (obj s)) (obj s)" "trace t = trace s @ tr"
    "\<forall>c \<in> set (made tr). restart_call (obj s) c" "UpdateStatus (obj t) None \<in> set (made tr)" "writes_freed view (obj s) tr"
  shows "wp (collect_history r E m) (restarts view s) t"
  unfolding collect_history_def wp_bind
proof (rule wp_frame_trace [OF only_collect [of "obj s"] wp_True])
  fix a :: "go_error option" and u :: "'w st" and ds
  assume u: "obj t = obj u" "trace u = trace t @ ds" "\<forall>c \<in> set (made ds). restart_call (obj s) c \<and> \<not> status_call c"
  have freed: "writes_freed view (obj s) ds" using u(3) by (intro writes_freed_quiet) blast
  show "wp (case a of
         Some err \<Rightarrow> ret (Some (0, Some (wrapf ''garbage collect historical revisions: '' err)))
       | None \<Rightarrow> do { recordEvent r EventNormal ''RebuildRequested'' m; ret (Some (nanosecond, None)) })
     (restarts view s) u"
  proof (cases a)
    case None
    let ?ev = "[(world u, Some (Event EventNormal ''RebuildRequested'' m))]"
    have "writes_freed view (obj s) ?ev" by (simp add: writes_freed_def)
    with None show ?thesis
      using t u freed by (auto simp: recordEvent_def restarted_def wp_simp)
  next
    case (Some err)
    with t u freed show ?thesis by (auto simp: wp_simp intro!: restarted_failed)
  qed
qed

lemma reset_status_wp:
  fixes s u :: "'w st"
  assumes u: "obj u = obj s" "trace u = trace s @ tr" "\<forall>c \<in> set (made tr). restart_call (obj s) c"
    "writes_freed view (obj s) tr" "slots_free (view (world u)) (obj s)"
  shows "wp (reset_status r E (obj s) m) (restarts view s) u"
proof -
  let ?new = "upd_status (\<lambda>_. fresh_status (obj s)) (obj s)"
  obtain e w where e: "e_updateStatus E ?new (world u) = (e, w)" by fastforce
  have freed: "writes_freed view (obj s) [(world u, Some (UpdateStatus ?new e))]"
    using u(5) by (simp add: writes_freed_def)
  show ?thesis
  proof (cases e)
    case (Some err)
    with e u freed show ?thesis
      by (auto simp: reset_status_def wp_simp update_status_def intro!: restarted_failed)
  next
    case None
    with e u freed show ?thesis
      unfolding reset_status_def wp_bind wp_set_status update_status_def wp_get_obj wp_command
      by (simp add: u(1))
        (rule collect_history_wp [where tr = "tr @ [(world u, Some (UpdateStatus ?new None))]"], auto)
  qed
qed

lemma rebuild_restarts:
  fixes E :: "'w Env" and s :: "'w st"
  assumes laws: "lease_store E view clk" and changed: "revision_changed (obj s)" and finished: "terminal (obj s)"
  shows "wp (reconcileSpecGeneration r E) (restarts view s) s"
proof -
  have rel: "wp (releaseImageBuildSlots E) (\<lambda>res. wp (case res of
         Some err \<Rightarrow> ret (Some (0, Some (wrapf ''release build slots before rebuild: '' err)))
       | None \<Rightarrow> reset_status r E (obj s) m) (restarts view s)) s" for m
  proof (rule wp_frame_trace [OF only_releaseImageBuildSlots [where A = "\<lambda>c. restart_call (obj s) c \<and> \<not> status_call c"]
        releaseImageBuildSlots_frees [OF laws]])
    fix a :: "go_error option" and u :: "'w st" and tr
    assume u: "a = None \<longrightarrow> slots_free (view (world u)) (obj s)" "obj s = obj u" "trace u = trace s @ tr"
      "\<forall>c \<in> set (made tr). restart_call (obj s) c \<and> \<not> status_call c"
    have quiet: "\<forall>c \<in> set (made tr). restart_call (obj s) c" "writes_freed view (obj s) tr"
      using u(4) by (auto intro: writes_freed_quiet)
    show "wp (case a of
         Some err \<Rightarrow> ret (Some (0, Some (wrapf ''release build slots before rebuild: '' err)))
       | None \<Rightarrow> reset_status r E (obj s) m) (restarts view s) u"
    proof (cases a)
      case None
      with u(1) have "slots_free (view (world u)) (obj s)" by simp
      from reset_status_wp [OF u(2) [symmetric] u(3) quiet this] None show ?thesis by simp
    next
      case (Some err)
      with u quiet show ?thesis by (auto simp: wp_simp intro: restarted_failed)
    qed
  qed (rule lease_call_restart)
  have path: "(st_observedGeneration (img_status (obj s)) = img_generation (obj s)) = False"
    "(st_observedGeneration (img_status (obj s)) = 0) = False"
    "(st_observedRevision (img_status (obj s)) = img_revision (obj s)) = False"
    "(\<not> (img_phase (obj s) = PhaseReady \<or> img_phase (obj s) = PhaseFailed)) = False"
    using changed finished by (auto simp: revision_changed_def terminal_def)
  show ?thesis
    unfolding reconcileSpecGeneration_def wp_get_bind Let_def path if_False
    unfolding wp_bind
    by (rule rel [unfolded reset_status_def collect_history_def fresh_status_def])
qed

section \<open>Progress\<close>

text \<open>An API server that answers: leases can be read and deleted, the status can be written, the Jobs and claims of an
  image can be listed and deleted. The two ways in which a reconciliation asks for anything else do not occur in a
  rebuild.\<close>

definition answers :: "'w Env \<Rightarrow> bool" where
  "answers E \<longleftrightarrow>
     (\<forall>ns n w e. fst (e_getLease E ns n w) \<noteq> GetError e) \<and> (\<forall>ns n w e. fst (e_deleteLease E ns n w) \<noteq> DeleteError e)
     \<and> (\<forall>img w. fst (e_updateStatus E img w) = None)
     \<and> (\<forall>ns l w e. fst (e_listJobs E ns l w) \<noteq> Inl e) \<and> (\<forall>ns l w e. fst (e_listPVCs E ns l w) \<noteq> Inl e)
     \<and> (\<forall>ns n w e. fst (e_deleteJob E ns n w) \<noteq> DeleteError e) \<and> (\<forall>ns n w e. fst (e_deletePVC E ns n w) \<noteq> DeleteError e)"

definition lease_refs_ok :: "VMImage \<Rightarrow> bool" where
  "lease_refs_ok img \<longleftrightarrow> list_all (\<lambda>ref. ref_key ref \<noteq> None) (st_buildLeaseRefs (img_status img))"

abbreviation (input) is_None :: "'a option \<Rightarrow> bool" where "is_None r \<equiv> r = None"

lemma yields_then:
  "yields P m \<Longrightarrow> (\<And>x. P x \<Longrightarrow> yields Q (f x)) \<Longrightarrow> yields Q (State_Monad.bind m f)"
  by (rule yields_run_bind) (auto dest: yields_runD)

lemma yields_for_each: "(\<And>x. yields is_None (f x)) \<Longrightarrow> yields is_None (for_each xs f)"
  by (induction xs) (auto intro!: yields_ret yields_then [where P = is_None])

lemma yields_sum_Inr:
  "(\<And>e. x \<noteq> Inl e) \<Longrightarrow> (\<And>y. yields P (f y)) \<Longrightarrow> yields P (case x of Inl e \<Rightarrow> g e | Inr y \<Rightarrow> f y)"
  by (cases x) auto

lemma collect_succeeds:
  assumes "answers E"
  shows "yields is_None (garbageCollectHistoricalRevisions E)"
proof -
  have jobs: "yields is_None (delete_historical_job E j)" and claims: "yields is_None (delete_historical_pvc E p)" for j p
    using assms unfolding delete_historical_job_def delete_historical_pvc_def answers_def
    by (auto intro!: yields_command_bind yields_ret split: delete_result.splits)
  have group: "yields is_None (do {
        failed \<leftarrow> for_each (grp_jobs g) (delete_historical_job E);
        case failed of Some err \<Rightarrow> ret (Some err) | None \<Rightarrow> for_each (grp_pvcs g) (delete_historical_pvc E) })" for g
    by (rule yields_then [OF yields_for_each [OF jobs]]) (simp add: yields_for_each claims)
  show ?thesis
    unfolding garbageCollectHistoricalRevisions_def Let_def
    using assms group
    by (intro yields_bind [of _ _ get_obj] yields_option yields_if yields_ret yields_query_bind yields_sum_Inr yields_for_each)
      (auto simp: answers_def)
qed

lemma release_succeeds:
  assumes "answers E" and "list_all (\<lambda>ref. ref_key ref \<noteq> None) refs"
  shows "yields is_None (releaseBuildSlots E refs h)"
  using assms(2)
proof (induction refs)
  case (Cons ref refs)
  then obtain ns n where "splitLeaseRef ref = Inr (ns, n)"
    by (auto simp: ref_key_def split: sum.splits)
  with Cons assms(1) show ?case
    by (auto simp: answers_def deleteLease_def intro!: yields_query_bind yields_command_bind yields_if
        split: get_result.split delete_result.split)
qed (simp add: yields_ret)

lemma rebuild_succeeds:
  fixes E :: "'w Env" and s :: "'w st"
  assumes "answers E" and "lease_refs_ok (obj s)" and changed: "revision_changed (obj s)" and finished: "terminal (obj s)"
  shows "wp (reconcileSpecGeneration r E) (\<lambda>res _. res = Some (nanosecond, None)) s"
proof -
  have collect: "yields (\<lambda>res. res = Some (nanosecond, None)) (collect_history r E m)" for m
    unfolding collect_history_def
    by (rule yields_then [OF collect_succeeds [OF assms(1)]]) (auto intro!: yields_intro)
  have stored: "yields is_None (update_status E)"
    using assms(1) unfolding update_status_def
    by (intro yields_bind) (simp add: answers_def yields_def command_def Let_def case_prod_beta)
  have reset: "yields (\<lambda>res. res = Some (nanosecond, None)) (reset_status r E img m)" for img m
    unfolding reset_status_def
    by (intro yields_bind yields_then [OF stored]) (simp add: collect)
  have release: "wp (releaseImageBuildSlots E) (\<lambda>res _. res = None) s"
    using yieldsD [OF release_succeeds [OF assms(1) assms(2) [unfolded lease_refs_ok_def]]]
    by (auto simp: releaseImageBuildSlots_def wp_simp)
  have rel: "wp (releaseImageBuildSlots E) (\<lambda>res. wp (case res of
         Some err \<Rightarrow> ret (Some (0, Some (wrapf ''release build slots before rebuild: '' err)))
       | None \<Rightarrow> reset_status r E (obj s) m) (\<lambda>res _. res = Some (nanosecond, None))) s" for m
    by (rule wp_mono [OF release]) (simp add: yieldsD [OF reset])
  have path: "(st_observedGeneration (img_status (obj s)) = img_generation (obj s)) = False"
    "(st_observedGeneration (img_status (obj s)) = 0) = False"
    "(st_observedRevision (img_status (obj s)) = img_revision (obj s)) = False"
    "(\<not> (img_phase (obj s) = PhaseReady \<or> img_phase (obj s) = PhaseFailed)) = False"
    using changed finished by (auto simp: revision_changed_def terminal_def)
  show ?thesis
    unfolding reconcileSpecGeneration_def wp_get_bind Let_def path if_False
    unfolding wp_bind
    by (rule rel [unfolded reset_status_def collect_history_def fresh_status_def])
qed

section \<open>Properties\<close>

text \<open>C16: An admitted change of the specification of an up-to-date image is a rebuild. The image is
  finished (the webhook saw to that), so the next reconciliation releases its build slots, and then
  writes the status of a new image of the new revision: pending, with no artifact, images,
  operations, leases or conditions of the old build. No other status is written, no Job is created, and at
  the moment of the write none of the leases the image refers to is held by it. If the API server answers,
  the rebuild does start: the reconciliation ends without error, the fresh status was accepted, and the image is
  reconciled again at once.\<close>

theorem admitted_update_rebuilds:
  fixes E :: "'w Env" and s :: "'w st"
  assumes "lease_store E view clk"
    and "validateUpdate up lk (Some old) new = None" and "img_spec new \<noteq> img_spec old"
    and "img_status new = img_status old" and "img_generation new > img_generation old"
    and "st_observedGeneration (img_status old) = img_generation old" and "img_generation old > 0"
    and "st_observedRevision (img_status old) = img_revision old"
    and "img_deletionTimestamp new = None" and "finalizerName \<in> set (img_finalizers new)"
    and "fst (e_getVMImage E ns n (world s)) = Found new"
    and "run_state (Reconcile r E ns n) s = (out, t)"
  shows "\<exists>tr. trace t = trace s @ tr
     \<and> (\<forall>w img e. (w, Some (UpdateStatus img e)) \<in> set tr \<longrightarrow>
          img = new\<lparr>img_status := fresh_status new\<rparr> \<and> slots_free (view w) new)
     \<and> (\<forall>w j e. (w, Some (CreateJob j e)) \<notin> set tr)
     \<and> (answers E \<and> lease_refs_ok new \<longrightarrow> out = (nanosecond, None))
     \<and> (snd out = None \<longrightarrow> fst out = nanosecond
          \<and> (\<exists>w. (w, Some (UpdateStatus (new\<lparr>img_status := fresh_status new\<rparr>) None)) \<in> set tr))"
proof -
  obtain w where w: "e_getVMImage E ns n (world s) = (Found new, w)" using assms(11) by (metis prod.collapse)
  let ?s = "(after_read s w)\<lparr>obj := new\<rparr>"
  have run: "run_state (reconcile_found r E) ?s = (out, t)"
    using assms(12) by (simp add: unfold_run [OF Reconcile_def] run_bind run_query run_primitive run_result w)
  have changed: "revision_changed (obj ?s)" "terminal (obj ?s)"
    using assms(2-8) by (auto simp: validateUpdate_None_iff revision_changed_def terminal_def img_phase_def img_revision_def)
  obtain out' u where spec: "run_state (reconcileSpecGeneration r E) ?s = (Some out', u)" and u: "restarted view ?s out' u"
    using rebuild_restarts [OF assms(1) changed, of r] by (auto simp: wp_def restarts_def split: prod.splits)
  with run assms(9,10) have same: "out' = out" "u = t"
    by (simp_all add: unfold_run [OF reconcile_found_def] run_bind run_primitive)
  have progress: "out = (nanosecond, None)" if "answers E \<and> lease_refs_ok new"
    using wp_run [OF rebuild_succeeds [of E ?s, OF _ _ changed] spec] that same by simp
  from u same obtain tr where tr: "trace t = trace s @ (world s, None) # tr"
      "\<forall>c \<in> set (made tr). restart_call new c" "writes_freed view new tr"
      "snd out = None \<longrightarrow> fst out = nanosecond \<and> obj t = upd_status (\<lambda>_. fresh_status new) new
         \<and> UpdateStatus (obj t) None \<in> set (made tr)"
    by (auto simp: restarted_def)
  have "\<forall>w img e. (w, Some (UpdateStatus img e)) \<in> set tr \<longrightarrow> img = new\<lparr>img_status := fresh_status new\<rparr> \<and> slots_free (view w) new"
  proof (intro allI impI)
    fix w img e assume called: "(w, Some (UpdateStatus img e)) \<in> set tr"
    with tr(2) made_mem have "restart_call new (UpdateStatus img e)" by blast
    with called tr(3) show "img = new\<lparr>img_status := fresh_status new\<rparr> \<and> slots_free (view w) new"
      unfolding writes_freed_def by (auto simp: upd_status_def)
  qed
  moreover have "\<forall>w j e. (w, Some (CreateJob j e)) \<notin> set tr" using tr(2) made_mem by (metis restart_call.simps(3))
  moreover have "snd out = None \<longrightarrow> fst out = nanosecond
      \<and> (\<exists>w. (w, Some (UpdateStatus (new\<lparr>img_status := fresh_status new\<rparr>) None)) \<in> set tr)"
    using tr(4) by (auto simp: made_mem upd_status_def)
  ultimately show ?thesis
    using tr(1) progress by (intro exI [of _ "(world s, None) # tr"]) simp
qed

text \<open>The image of the witness: a finished build of revision \<open>r1\<close>, updated to revision \<open>r2\<close>. A build slot of the
  old revision is still held.\<close>

definition finished_image :: VMImage where
  "finished_image = (ex_admitted ''r1'')
     \<lparr>img_finalizers := [finalizerName], img_status := (img_status (ex_admitted ''r1''))
        \<lparr>st_observedGeneration := 1, st_observedRevision := ''r1'', st_phase := PhaseReady,
         st_buildLeaseRefs := [leaseRef ''ops'' (globalLeaseName 0)]\<rparr>\<rparr>"

definition updated_image :: VMImage where
  "updated_image = finished_image\<lparr>img_generation := 2, img_spec := img_spec (ex_admitted ''r2'')\<rparr>"

lemma updated_image_valid: "validateUpdate ex_up ex_lk (Some finished_image) updated_image = None"
proof -
  have "validate ex_up ex_lk updated_image = None" by code_simp
  then show ?thesis
    by (simp add: validateUpdate_None_iff img_phase_def)
      (simp add: finished_image_def updated_image_def ex_admitted_def)
qed

lemma sample_answers: "answers sample_env"
  by (simp add: answers_def sample_env_simps found_def gone_error_def split: option.split)

theorem admitted_update_rebuilds_witness:
  "fst (run_state (Reconcile sample_reconciler sample_env ''ci'' ''web'')
        (start sample_image (building_world\<lparr>sw_image := Some updated_image\<rparr>))) = (nanosecond, None)
   \<and> (\<exists>w. (w, Some (UpdateStatus (updated_image\<lparr>img_status := fresh_status updated_image\<rparr>) None)) \<in>
        set (trace (snd (run_state (Reconcile sample_reconciler sample_env ''ci'' ''web'')
          (start sample_image (building_world\<lparr>sw_image := Some updated_image\<rparr>)))))
      \<and> \<not> held_by (lease_at w) (''ops'', globalLeaseName 0) (leaseHolder updated_image))"
proof -
  let ?s = "start sample_image (building_world\<lparr>sw_image := Some updated_image\<rparr>)"
  obtain out t where run: "run_state (Reconcile sample_reconciler sample_env ''ci'' ''web'') ?s = (out, t)"
    by fastforce
  have got: "fst (e_getVMImage sample_env ''ci'' ''web'' (world ?s)) = Found updated_image"
    by (simp add: sample_env_simps found_def)
  have old: "img_spec updated_image \<noteq> img_spec finished_image" "img_status updated_image = img_status finished_image"
    "img_generation updated_image > img_generation finished_image"
    "st_observedGeneration (img_status finished_image) = img_generation finished_image"
    "img_generation finished_image > 0"
    "st_observedRevision (img_status finished_image) = img_revision finished_image"
    "img_deletionTimestamp updated_image = None" "finalizerName \<in> set (img_finalizers updated_image)"
    by (simp_all add: finished_image_def updated_image_def ex_admitted_def img_revision_def)
  have refs: "st_buildLeaseRefs (img_status updated_image) = [leaseRef ''ops'' (globalLeaseName 0)]"
    by (simp add: updated_image_def finished_image_def)
  have ok: "lease_refs_ok updated_image" by (simp add: lease_refs_ok_def refs ref_key_def slot_held)
  from admitted_update_rebuilds [OF sample_lease_store updated_image_valid old got run] ok sample_answers
  have freed: "\<forall>w img e. (w, Some (UpdateStatus img e)) \<in> set (trace t) \<longrightarrow>
        img = updated_image\<lparr>img_status := fresh_status updated_image\<rparr> \<and> slots_free (lease_at w) updated_image"
    and "out = (nanosecond, None)"
    and "\<exists>w. (w, Some (UpdateStatus (updated_image\<lparr>img_status := fresh_status updated_image\<rparr>) None)) \<in> set (trace t)"
    by simp_all
  then obtain w where tr: "out = (nanosecond, None)"
      "(w, Some (UpdateStatus (updated_image\<lparr>img_status := fresh_status updated_image\<rparr>) None)) \<in> set (trace t)"
      "slots_free (lease_at w) updated_image"
    by blast
  with run refs show ?thesis by (auto simp: slots_free_def ref_key_def slot_held)
qed

end
