(* ===== verification/Provider_Webhooks.thy ===== *)
theory Provider_Webhooks
  imports Image_Webhook
begin

text \<open>
  The admission webhooks of \<open>ProviderConfig\<close> and \<open>PlatformProvider\<close>
  (\<open>api/v1alpha1/providerconfig_webhook.go\<close>, \<open>platformprovider_webhook.go\<close>). The operator's
  admission policy is an argument: a validation reads it once, under its lock. The order in which
  Go iterates over the map of the three Secret references is an argument too.
\<close>

section \<open>ProviderConfig\<close>

definition validateProviderEndpoint ::
    "url_parser \<Rightarrow> resolver \<Rightarrow> string \<Rightarrow> string \<Rightarrow> ProviderNetworkAccessSpec option \<Rightarrow> go_error option" where
  "validateProviderEndpoint up lk fieldPath rawURL access =
     ValidatePublicHTTPSURL up lk fieldPath rawURL
       (case access of
          None \<Rightarrow> \<lparr>o_allowUnresolved = True, o_allowedPrivateCIDRs = [], o_allowedDNSNames = []\<rparr>
        | Some a \<Rightarrow> \<lparr>o_allowUnresolved = True, o_allowedPrivateCIDRs = na_allowedPrivateCIDRs a,
            o_allowedDNSNames = na_allowedDNSNames a\<rparr>)"

definition insecure_warning :: string where
  "insecure_warning =
     ''spec.insecure is true: TLS certificate verification disabled for the provider endpoint. '' @
     ''This must not be used in production environments (AS-036).''"

definition provider_config_checks :: "url_parser \<Rightarrow> resolver \<Rightarrow> ProviderConfig \<Rightarrow> go_error option list" where
  "provider_config_checks up lk r =
     validateProviderEndpoint up lk ''spec.endpoint'' (pc_endpoint r) (pc_networkAccess r) #
     (if equalFold (trimSpace (pc_provider r)) ''gcp'' then
        map (\<lambda>key. validateProviderEndpoint up lk (''spec.extra.'' @ key) (get_str (pc_extra r) key) (pc_networkAccess r))
          [''storageEndpoint'', ''computeEndpoint'', ''storageUploadEndpoint'']
      else [])"

definition validateProviderConfig :: "url_parser \<Rightarrow> resolver \<Rightarrow> ProviderConfig \<Rightarrow> string list \<times> go_error option" where
  "validateProviderConfig up lk r =
     ((if pc_insecure r \<and> pc_endpoint r \<noteq> '''' then [insecure_warning] else []),
      join_result (collect (provider_config_checks up lk r)))"

section \<open>PlatformProvider\<close>

record PlatformProviderAdmissionPolicy =
  pol_RequireMTLS :: bool
  pol_RequireDigest :: bool
  pol_RequireSignature :: bool
  pol_AllowedRegistries :: "string list"
  pol_ProviderNamespace :: string
  pol_RestrictServiceAccounts :: bool
  pol_AllowedServiceAccounts :: "string list"
  pol_ForbidServiceAccountToken :: bool

fun stringAllowed :: "string \<Rightarrow> string list \<Rightarrow> bool" where
  "stringAllowed v [] = False"
| "stringAllowed v (candidate # rest) = (if trimSpace candidate = v then True else stringAllowed v rest)"

definition validatePlatformProviderServiceAccountPolicy ::
    "PlatformProvider \<Rightarrow> PlatformProviderAdmissionPolicy \<Rightarrow> go_error option" where
  "validatePlatformProviderServiceAccountPolicy pp policy =
     (let serviceAccount = trimSpace (pp_serviceAccountName (ppr_spec pp)) in
      if pol_RestrictServiceAccounts policy \<and> serviceAccount \<noteq> '''' \<and>
         \<not> stringAllowed serviceAccount (pol_AllowedServiceAccounts policy) then
        Some (errorf (''spec.serviceAccountName '' @ quoted serviceAccount @ '' is not allowed by operator policy''))
      else if pol_ForbidServiceAccountToken policy \<and>
         pp_automountServiceAccountToken (ppr_spec pp) = Some True then
        Some (errorf ''spec.automountServiceAccountToken=true is forbidden by operator policy'')
      else None)"

definition pinned :: "string \<Rightarrow> bool" where
  "pinned ref \<longleftrightarrow> contains ref ''@sha256:''"

definition verifies_signature :: "PlatformProvider \<Rightarrow> bool" where
  "verifies_signature pp \<longleftrightarrow>
     (case pp_security (ppr_spec pp) of None \<Rightarrow> False | Some s \<Rightarrow> pps_verifySignature s)"

definition validatePlatformProviderPackagePolicy ::
    "PlatformProvider \<Rightarrow> PlatformProviderAdmissionPolicy \<Rightarrow> go_error option" where
  "validatePlatformProviderPackagePolicy pp policy =
     (let ref = pp_package (ppr_spec pp) in
      if pol_RequireDigest policy \<and> \<not> pinned ref then
        Some (errorf ''spec.package must be pinned by digest by operator policy'')
      else if pol_RequireSignature policy \<and> \<not> verifies_signature pp then
        Some (errorf ''spec.security.verifySignature is required by operator policy'')
      else if pol_AllowedRegistries policy \<noteq> [] \<and> \<not> imageAllowedByPrefixes ref (pol_AllowedRegistries policy) then
        Some (errorf ''spec.package registry is not allowed by operator policy'')
      else case pp_security (ppr_spec pp) of None \<Rightarrow> None
      | Some security \<Rightarrow>
          if (pps_requireDigest security \<or> pps_verifySignature security) \<and> \<not> pinned ref then
            Some (errorf ''spec.package must be pinned by digest when requireDigest or verifySignature is enabled'')
          else if pps_allowedRegistries security \<noteq> [] \<and>
              \<not> imageAllowedByPrefixes ref (pps_allowedRegistries security) then
            Some (errorf ''spec.package registry is not in spec.security.allowedRegistries'')
          else None)"

definition tls_spec :: "PlatformProvider \<Rightarrow> ProviderTransportTLSSpec option" where
  "tls_spec pp = (case pp_transport (ppr_spec pp) of None \<Rightarrow> None | Some t \<Rightarrow> tr_tls t)"

definition platformProviderMutualTLS :: "PlatformProvider \<Rightarrow> ProviderTransportTLSSpec option" where
  "platformProviderMutualTLS pp =
     (case tls_spec pp of None \<Rightarrow> None | Some t \<Rightarrow> if tls_mode t \<noteq> ''Mutual'' then None else Some t)"

text \<open>The body of the loop over the Secret references, for one entry of the map; a key that is not
  in the map does not occur.\<close>

definition tls_ref_error :: "string \<Rightarrow> string \<Rightarrow> ProviderTLSSecretRef \<Rightarrow> go_error option" where
  "tls_ref_error providerNamespace field ref =
     (if tsr_name ref = '''' then Some (errorf (''spec.transport.tls.'' @ field @ ''.name is required''))
      else if tsr_namespace ref = '''' then
        Some (errorf (''spec.transport.tls.'' @ field @ ''.namespace is required''))
      else if tsr_namespace ref \<noteq> providerNamespace then
        Some (errorf (''spec.transport.tls.'' @ field @ ''.namespace must match provider namespace '' @
          quoted providerNamespace))
      else None)"

fun tls_refs_error :: "string \<Rightarrow> (string \<times> ProviderTLSSecretRef) list \<Rightarrow> string list \<Rightarrow> go_error option" where
  "tls_refs_error ns refs [] = None"
| "tls_refs_error ns refs (field # rest) =
     (case map_of refs field of None \<Rightarrow> tls_refs_error ns refs rest
      | Some ref \<Rightarrow>
          (case tls_ref_error ns field ref of Some err \<Rightarrow> Some err | None \<Rightarrow> tls_refs_error ns refs rest))"

definition bad_tls_mode :: "PlatformProvider \<Rightarrow> bool" where
  "bad_tls_mode pp \<longleftrightarrow>
     (case tls_spec pp of None \<Rightarrow> False | Some t \<Rightarrow> tls_mode t \<noteq> '''' \<and> tls_mode t \<noteq> ''Disabled'')"

definition validatePlatformProviderTransportPolicy ::
    "string list \<Rightarrow> PlatformProvider \<Rightarrow> PlatformProviderAdmissionPolicy \<Rightarrow> go_error option" where
  "validatePlatformProviderTransportPolicy keys pp policy =
     (case platformProviderMutualTLS pp of
        None \<Rightarrow>
          if bad_tls_mode pp then Some (errorf ''spec.transport.tls.mode must be Disabled or Mutual'')
          else if pol_RequireMTLS policy then
            Some (errorf ''provider mTLS is required by operator policy; set spec.transport.tls.mode=Mutual'')
          else None
      | Some t \<Rightarrow>
          (case (tls_caSecretRef t, tls_clientCertificateSecretRef t, tls_serverCertificateSecretRef t) of
             (None, _, _) \<Rightarrow> Some (errorf ''spec.transport.tls.caSecretRef is required when mode=Mutual'')
           | (_, None, _) \<Rightarrow>
               Some (errorf ''spec.transport.tls.clientCertificateSecretRef is required when mode=Mutual'')
           | (_, _, None) \<Rightarrow>
               Some (errorf ''spec.transport.tls.serverCertificateSecretRef is required when mode=Mutual'')
           | (Some ca, Some client, Some server) \<Rightarrow>
               (let ns = (if pol_ProviderNamespace policy = '''' then ppr_namespace pp
                          else pol_ProviderNamespace policy) in
                if ns \<noteq> '''' then
                  tls_refs_error ns [(''caSecretRef'', ca), (''clientCertificateSecretRef'', client),
                    (''serverCertificateSecretRef'', server)] keys
                else None)))"

definition platform_provider_checks ::
    "string list \<Rightarrow> PlatformProviderAdmissionPolicy \<Rightarrow> PlatformProvider \<Rightarrow> go_error option list" where
  "platform_provider_checks keys policy r =
     [check (trimSpace (pp_package (ppr_spec r)) = '''') (errorf ''spec.package is required''),
      validatePlatformProviderPackagePolicy r policy,
      validatePlatformProviderTransportPolicy keys r policy,
      validatePlatformProviderServiceAccountPolicy r policy]"

definition validatePlatformProvider ::
    "string list \<Rightarrow> PlatformProviderAdmissionPolicy \<Rightarrow> PlatformProvider \<Rightarrow> go_error option" where
  "validatePlatformProvider keys policy r = join_result (collect (platform_provider_checks keys policy r))"

section \<open>Lemmas\<close>

text \<open>An iteration order of the map: each of its three keys once.\<close>

definition tls_order :: "string list \<Rightarrow> bool" where
  "tls_order keys \<longleftrightarrow> distinct keys
     \<and> set keys = {''caSecretRef'', ''clientCertificateSecretRef'', ''serverCertificateSecretRef''}"

lemma tls_refs_error_None_iff:
  "tls_refs_error ns refs keys = None \<longleftrightarrow>
     (\<forall>k ref. k \<in> set keys \<and> map_of refs k = Some ref \<longrightarrow> tls_ref_error ns k ref = None)"
  by (induction keys) (auto split: option.splits)

lemma tls_ref_error_None_iff: "tls_ref_error ns field ref = None \<longleftrightarrow> tsr_name ref \<noteq> '''' \<and> tsr_namespace ref \<noteq> '''' \<and> tsr_namespace ref = ns"
  by (auto simp: tls_ref_error_def)

text \<open>Which reference is reported first depends on the order; whether one is does not.\<close>

lemma tls_refs_error_order:
  assumes "tls_order keys"
  shows "tls_refs_error ns [(''caSecretRef'', ca), (''clientCertificateSecretRef'', client),
            (''serverCertificateSecretRef'', server)] keys = None \<longleftrightarrow>
         (\<forall>ref \<in> {ca, client, server}. tsr_name ref \<noteq> '''' \<and> tsr_namespace ref \<noteq> '''' \<and> tsr_namespace ref = ns)"
  using assms by (simp add: tls_order_def tls_refs_error_None_iff tls_ref_error_None_iff) blast

lemma stringAllowed_iff: "stringAllowed v xs \<longleftrightarrow> v \<in> trimSpace ` set xs"
  by (induction xs) auto

lemma validatePlatformProvider_None_iff:
  "validatePlatformProvider keys policy r = None \<longleftrightarrow>
     trimSpace (pp_package (ppr_spec r)) \<noteq> ''''
   \<and> validatePlatformProviderPackagePolicy r policy = None
   \<and> validatePlatformProviderTransportPolicy keys r policy = None
   \<and> validatePlatformProviderServiceAccountPolicy r policy = None"
  by (auto simp: validatePlatformProvider_def platform_provider_checks_def collect_Nil_iff)

end
