(* ===== verification/Signature_Policy.thy ===== *)
theory Signature_Policy
  imports Provider_Webhooks
begin

text \<open>
  The signature verifier of provider images (\<open>pkg/security/signaturepolicy/verifier.go\<close>). It does
  not check a signature itself: it checks that a Kyverno policy which does is present, enforcing and
  reached by a fail-closed admission webhook.

  The accessors of unstructured objects and the compiler of label selectors belong to the Kubernetes
  libraries and are parameters. An accessor that reports an error also reports that nothing was
  found, and the code treats both alike, so each is an option.
\<close>

section \<open>The objects read\<close>

record 'o Accessors =
  un_string :: "'o \<Rightarrow> string list \<Rightarrow> string option"
  un_bool :: "'o \<Rightarrow> string list \<Rightarrow> bool option"
  un_slice :: "'o \<Rightarrow> string list \<Rightarrow> 'o list option"
  un_strings :: "'o \<Rightarrow> string list \<Rightarrow> string list option"
  un_stringMap :: "'o \<Rightarrow> string list \<Rightarrow> strmap option"
  un_present :: "'o \<Rightarrow> string list \<Rightarrow> bool"
  un_isMap :: "'o \<Rightarrow> bool"  \<comment> \<open>the type assertion to \<open>map[string]any\<close>\<close>

record RuleWithOperations =
  rwo_operations :: "string list"
  rwo_resources :: "string list"

record 's ValidatingWebhook =
  wh_name :: string
  wh_failurePolicy :: "string option"
  wh_service :: "(string \<times> string) option"  \<comment> \<open>name and namespace\<close>
  wh_url :: "string option"
  wh_namespaceSelector :: "'s option"
  wh_objectSelector :: "'s option"
  wh_rules :: "RuleWithOperations list"

record 's WebhookConfiguration =
  whc_name :: string
  whc_webhooks :: "'s ValidatingWebhook list"

text \<open>The verifier: its configuration, the answers of its client, and the library functions.\<close>

record ('o, 's) Verifier =
  ver_PolicyName :: string
  ver_ProviderNamespace :: string
  ver_getPolicy :: "string \<Rightarrow> go_error + 'o"
  ver_listWebhooks :: "go_error + 's WebhookConfiguration list"
  ver_getNamespace :: "string \<Rightarrow> go_error + strmap"
  ver_un :: "'o Accessors"
  ver_compile :: "'s \<Rightarrow> (strmap \<Rightarrow> bool) option"

abbreviation (input) managedByLabel :: string where "managedByLabel \<equiv> ''app.kubernetes.io/managed-by''"
abbreviation (input) providerPodLabel :: string where "providerPodLabel \<equiv> ''imagebuilder.io/provider-pod''"

section \<open>The policy\<close>

fun containsResource :: "string list \<Rightarrow> string \<Rightarrow> bool" where
  "containsResource [] want = False"
| "containsResource (v # rest) want = (if equalFold v want then True else containsResource rest want)"

definition matchesManagedPods :: "'o Accessors \<Rightarrow> 'o \<Rightarrow> bool" where
  "matchesManagedPods un m \<longleftrightarrow>
     un_isMap un m
   \<and> (case un_strings un m [''resources'', ''kinds''] of None \<Rightarrow> False | Some kinds \<Rightarrow> containsResource kinds ''Pod'')
   \<and> (case un_strings un m [''resources'', ''operations''] of None \<Rightarrow> True
      | Some ops \<Rightarrow> containsResource ops ''CREATE'' \<or> containsResource ops ''*'')
   \<and> (case un_stringMap un m [''resources'', ''selector'', ''matchLabels''] of None \<Rightarrow> False
      | Some ls \<Rightarrow> get_str ls managedByLabel = ''imagebuilder'' \<and> get_str ls providerPodLabel = ''true'')"

definition ruleMatchesManagedPods :: "'o Accessors \<Rightarrow> 'o \<Rightarrow> bool" where
  "ruleMatchesManagedPods un rule \<longleftrightarrow>
     (case un_slice un rule [''match'', ''any''] of None \<Rightarrow> False | Some ms \<Rightarrow> list_ex (matchesManagedPods un) ms)"

definition ruleHasExclusions :: "'o Accessors \<Rightarrow> 'o \<Rightarrow> bool" where
  "ruleHasExclusions un rule = un_present un rule [''exclude'']"

fun imageReferenceMatches :: "string \<Rightarrow> string list \<Rightarrow> bool" where
  "imageReferenceMatches ref [] = False"
| "imageReferenceMatches ref (v # rest) =
     (let pattern = trimSpace v in
      if pattern = ref then True
      else if hasSuffix pattern ''*'' \<and> hasPrefix ref (trimSuffix pattern ''*'') then True
      else imageReferenceMatches ref rest)"

definition imageVerificationIsFailClosed :: "'o Accessors \<Rightarrow> 'o \<Rightarrow> string \<Rightarrow> bool" where
  "imageVerificationIsFailClosed un verification ref \<longleftrightarrow>
     un_bool un verification [''required''] = Some True
   \<and> un_bool un verification [''verifyDigest''] = Some True
   \<and> (case un_strings un verification [''imageReferences''] of None \<Rightarrow> False
      | Some refs \<Rightarrow> imageReferenceMatches ref refs)
   \<and> (case un_slice un verification [''attestors''] of None \<Rightarrow> False | Some as \<Rightarrow> as \<noteq> [])"

definition ruleVerifies :: "'o Accessors \<Rightarrow> string \<Rightarrow> 'o \<Rightarrow> bool" where
  "ruleVerifies un ref rule \<longleftrightarrow>
     un_isMap un rule \<and> ruleMatchesManagedPods un rule \<and> \<not> ruleHasExclusions un rule
   \<and> (case un_slice un rule [''verifyImages''] of None \<Rightarrow> False
      | Some vs \<Rightarrow> vs \<noteq> [] \<and> list_all (\<lambda>v. un_isMap un v \<and> imageVerificationIsFailClosed un v ref) vs)"

definition validatePolicy :: "'o Accessors \<Rightarrow> 'o \<Rightarrow> string \<Rightarrow> go_error option" where
  "validatePolicy un policy ref =
     (case un_string un policy [''spec'', ''validationFailureAction''] of
        None \<Rightarrow> Some (errorf ''spec.validationFailureAction must be Enforce'')
      | Some action \<Rightarrow>
          if \<not> equalFold action ''Enforce'' then Some (errorf ''spec.validationFailureAction must be Enforce'')
          else case un_slice un policy [''spec'', ''rules''] of
            None \<Rightarrow> Some (errorf ''spec.rules is required'')
          | Some rules \<Rightarrow>
              if list_ex (ruleVerifies un ref) rules then None
              else Some (errorf (''no rule verifies imagebuilder-managed Pod images with required=true, '' @
                ''verifyDigest=true, image references, and attestors'')))"

section \<open>The webhook\<close>

definition selectorMatches :: "('o, 's) Verifier \<Rightarrow> 's option \<Rightarrow> strmap \<Rightarrow> bool" where
  "selectorMatches v selector values =
     (case selector of None \<Rightarrow> True
      | Some s \<Rightarrow> (case ver_compile v s of None \<Rightarrow> False | Some matches \<Rightarrow> matches values))"

fun containsOperation :: "string list \<Rightarrow> string \<Rightarrow> bool" where
  "containsOperation [] want = False"
| "containsOperation (op # rest) want = (if op = want then True else containsOperation rest want)"

definition ruleMatchesPods :: "RuleWithOperations \<Rightarrow> bool" where
  "ruleMatchesPods rule \<longleftrightarrow>
     (if \<not> containsOperation (rwo_operations rule) ''CREATE'' \<and> \<not> containsOperation (rwo_operations rule) ''*'' then False
      else containsResource (rwo_resources rule) ''pods'' \<or> containsResource (rwo_resources rule) ''pods/*''
         \<or> containsResource (rwo_resources rule) ''*'' \<or> containsResource (rwo_resources rule) ''*/*'')"

definition webhookIntercepts :: "('o, 's) Verifier \<Rightarrow> strmap \<Rightarrow> strmap \<Rightarrow> 's ValidatingWebhook \<Rightarrow> bool" where
  "webhookIntercepts v namespaceLabels podLabels w \<longleftrightarrow>
     wh_failurePolicy w = Some ''Fail'' \<and> (wh_service w \<noteq> None \<or> wh_url w \<noteq> None)
   \<and> selectorMatches v (wh_namespaceSelector w) namespaceLabels \<and> selectorMatches v (wh_objectSelector w) podLabels
   \<and> list_ex ruleMatchesPods (wh_rules w)"

definition validateWebhook ::
    "('o, 's) Verifier \<Rightarrow> 's WebhookConfiguration \<Rightarrow> strmap \<Rightarrow> strmap \<Rightarrow> go_error option" where
  "validateWebhook v configuration namespaceLabels podLabels =
     (if list_ex (webhookIntercepts v namespaceLabels podLabels) (whc_webhooks configuration) then None
      else Some (errorf ''no failurePolicy=Fail webhook rule intercepts Pod admission''))"

definition namesKyverno :: "string \<Rightarrow> bool" where
  "namesKyverno s = contains (toLower s) ''kyverno''"

definition isKyvernoWebhook :: "'s WebhookConfiguration \<Rightarrow> bool" where
  "isKyvernoWebhook configuration \<longleftrightarrow>
     namesKyverno (whc_name configuration)
   \<or> list_ex (\<lambda>w. namesKyverno (wh_name w)
        \<or> (case wh_service w of None \<Rightarrow> False | Some (name, ns) \<Rightarrow> namesKyverno name \<or> namesKyverno ns))
        (whc_webhooks configuration)"

definition providerNamespaceLabels :: "('o, 's) Verifier \<Rightarrow> 's WebhookConfiguration list \<Rightarrow> go_error + strmap" where
  "providerNamespaceLabels v configurations =
     (if \<not> list_ex (\<lambda>c. list_ex (\<lambda>w. wh_namespaceSelector w \<noteq> None) (whc_webhooks c)) configurations
      then Inr Map.empty
      else if trimSpace (ver_ProviderNamespace v) = '''' then
        Inl (errorf ''provider namespace is required to evaluate signature webhook namespace selectors'')
      else case ver_getNamespace v (ver_ProviderNamespace v) of
        Inl err \<Rightarrow> Inl (wrapf (''get provider namespace '' @ quoted (ver_ProviderNamespace v) @
                     '' for signature webhook evaluation: '') err)
      | Inr ls \<Rightarrow> Inr ls)"

section \<open>Verification\<close>

definition managedPodLabels :: strmap where
  "managedPodLabels = [managedByLabel \<mapsto> ''imagebuilder'', providerPodLabel \<mapsto> ''true'']"

definition Verify :: "('o, 's) Verifier \<Rightarrow> string \<Rightarrow> go_error option" where
  "Verify v ref =
     (if trimSpace (ver_PolicyName v) = '''' then Some (errorf ''signature policy name is required'')
      else if trimSpace ref = '''' \<or> \<not> contains ref ''@sha256:'' then
        Some (errorf ''provider image must be digest-pinned before signature verification'')
      else case ver_getPolicy v (ver_PolicyName v) of
        Inl err \<Rightarrow> Some (wrapf (''get enforcing signature ClusterPolicy '' @ quoted (ver_PolicyName v) @ '': '') err)
      | Inr policy \<Rightarrow>
          (case validatePolicy (ver_un v) policy ref of
             Some err \<Rightarrow> Some (wrapf (''signature ClusterPolicy '' @ quoted (ver_PolicyName v) @ '' is not fail-closed: '') err)
           | None \<Rightarrow>
               (case ver_listWebhooks v of
                  Inl err \<Rightarrow> Some (wrapf ''list signature validation webhooks: '' err)
                | Inr items \<Rightarrow>
                    (case providerNamespaceLabels v items of
                       Inl err \<Rightarrow> Some err
                     | Inr namespaceLabels \<Rightarrow>
                         if list_ex (\<lambda>w. isKyvernoWebhook w
                              \<and> validateWebhook v w namespaceLabels managedPodLabels = None) items
                         then None
                         else Some (errorf (''no active Kyverno ValidatingWebhookConfiguration intercepts Pod '' @
                           ''creation with failurePolicy=Fail''))))))"

section \<open>What an accepted image may rely on\<close>

lemma containsResource_iff: "containsResource vs want \<longleftrightarrow> list_ex (\<lambda>v. equalFold v want) vs"
  by (induction vs) auto

lemma containsOperation_iff: "containsOperation vs want \<longleftrightarrow> want \<in> set vs"
  by (induction vs) auto

text \<open>The Pods a match entry of the policy selects, as Kyverno documents \<open>matchLabels\<close>: those
  that carry every listed label.\<close>

definition match_selects :: "'o Accessors \<Rightarrow> 'o \<Rightarrow> strmap \<Rightarrow> bool" where
  "match_selects un m pod \<longleftrightarrow>
     (case un_stringMap un m [''resources'', ''selector'', ''matchLabels''] of None \<Rightarrow> True
      | Some ls \<Rightarrow> ls \<subseteq>\<^sub>m pod)"

lemma get_str_Some: "get_str ls k = v \<Longrightarrow> v \<noteq> '''' \<Longrightarrow> ls k = Some v"
  by (auto simp: get_str_def split: option.splits)

lemma map_le_Some: "m \<subseteq>\<^sub>m m' \<Longrightarrow> m k = Some v \<Longrightarrow> m' k = Some v"
  by (force simp: map_le_def)

text \<open>The entries the verifier accepts select only Pods with both managed labels.\<close>

lemma managed_match_needs_labels:
  assumes "matchesManagedPods un m" and "match_selects un m pod"
  shows "pod managedByLabel = Some ''imagebuilder'' \<and> pod providerPodLabel = Some ''true''"
proof -
  from assms(1) obtain ls where ls: "un_stringMap un m [''resources'', ''selector'', ''matchLabels''] = Some ls"
      "get_str ls managedByLabel = ''imagebuilder''" "get_str ls providerPodLabel = ''true''"
    by (auto simp: matchesManagedPods_def split: option.splits)
  with assms(2) have sub: "ls \<subseteq>\<^sub>m pod" by (simp add: match_selects_def)
  note kept = map_le_Some [OF sub]
  show ?thesis
  proof
    show "pod managedByLabel = Some ''imagebuilder''"
      by (rule kept, rule get_str_Some [OF ls(2)]) simp
    show "pod providerPodLabel = Some ''true''"
      by (rule kept, rule get_str_Some [OF ls(3)]) simp
  qed
qed

lemma Verify_accepts:
  assumes "Verify v ref = None"
  obtains policy rules rule items ns c w where
    "contains ref ''@sha256:''" "ver_getPolicy v (ver_PolicyName v) = Inr policy"
    "un_slice (ver_un v) policy [''spec'', ''rules''] = Some rules" "rule \<in> set rules" "ruleVerifies (ver_un v) ref rule"
    "ver_listWebhooks v = Inr items" "providerNamespaceLabels v items = Inr ns"
    "c \<in> set items" "isKyvernoWebhook c" "w \<in> set (whc_webhooks c)" "webhookIntercepts v ns managedPodLabels w"
proof -
  from assms obtain policy items ns where *: "contains ref ''@sha256:''" "ver_getPolicy v (ver_PolicyName v) = Inr policy"
      "validatePolicy (ver_un v) policy ref = None" "ver_listWebhooks v = Inr items" "providerNamespaceLabels v items = Inr ns"
      "list_ex (\<lambda>w. isKyvernoWebhook w \<and> validateWebhook v w ns managedPodLabels = None) items"
    by (auto simp: Verify_def split: if_splits sum.splits option.splits)
  from *(3) obtain rules rule where "un_slice (ver_un v) policy [''spec'', ''rules''] = Some rules"
      "rule \<in> set rules" "ruleVerifies (ver_un v) ref rule"
    by (auto simp: validatePolicy_def list_ex_iff split: option.splits if_splits)
  moreover from *(6) obtain c where c: "c \<in> set items" "isKyvernoWebhook c" "validateWebhook v c ns managedPodLabels = None"
    by (auto simp: list_ex_iff)
  moreover from c(3) obtain w where "w \<in> set (whc_webhooks c)" "webhookIntercepts v ns managedPodLabels w"
    by (auto simp: validateWebhook_def list_ex_iff split: if_splits)
  ultimately show thesis using * that by blast
qed

end
