(* ===== verification/Pod_Spec.thy ===== *)
theory Pod_Spec
  imports Revision
begin

text \<open>
  The part of the Kubernetes Pod and Job types that the assemblers and the PlatformProvider
  controller fill in, and what makes an assembled Pod acceptable: every mount names a volume of the
  Pod, volume names are distinct, and the restricted security profile holds.
\<close>

section \<open>Types\<close>

record KeyToPath =
  ktp_key :: string
  ktp_path :: string

datatype VolumeSource =
    EmptyDir string  \<comment> \<open>the medium\<close>
  | ClaimVolume string
  | SecretVolume string "KeyToPath list" "int option" "bool option"  \<comment> \<open>name, items, mode, optional\<close>
  | HostPath string string  \<comment> \<open>path and type\<close>

record Volume =
  vol_name :: string
  vol_source :: VolumeSource

record VolumeMount =
  vm_name :: string
  vm_path :: string
  vm_readOnly :: bool

record PodEnvVar =
  pe_name :: string
  pe_value :: string
  pe_secretKeyRef :: "SecretKeyRef option"

record SecurityContext =
  sc_allowPrivilegeEscalation :: "bool option"
  sc_readOnlyRootFilesystem :: "bool option"
  sc_runAsNonRoot :: "bool option"
  sc_privileged :: "bool option"
  sc_drop :: "string list"

record Container =
  ctr_name :: string
  ctr_image :: string
  ctr_pullPolicy :: string
  ctr_args :: "string list"
  ctr_env :: "PodEnvVar list"
  ctr_ports :: "(string \<times> int) list"
  ctr_requests :: "(string \<times> string) list"
  ctr_limits :: "(string \<times> string) list"
  ctr_mounts :: "VolumeMount list"
  ctr_restartPolicy :: "string option"
  ctr_security :: SecurityContext

record Toleration =
  tol_key :: string
  tol_operator :: string
  tol_value :: string
  tol_effect :: string

record PodSpec =
  pod_restartPolicy :: string
  pod_initContainers :: "Container list"
  pod_containers :: "Container list"
  pod_volumes :: "Volume list"
  pod_nodeSelector :: strmap
  pod_antiAffinity :: "(int \<times> strmap \<times> string) list"  \<comment> \<open>weight, labels, topology key\<close>
  pod_tolerations :: "Toleration list"
  pod_imagePullSecrets :: "string list"
  pod_serviceAccountName :: string
  pod_automountToken :: "bool option"
  pod_hostNetwork :: bool
  pod_hostPID :: bool
  pod_hostIPC :: bool
  pod_runAsNonRoot :: "bool option"
  pod_seccomp :: string

record AssembledJob =
  aj_name :: string
  aj_namespace :: string
  aj_labels :: strmap
  aj_backoffLimit :: int
  aj_activeDeadlineSeconds :: int
  aj_failOnExitCodes :: "(string \<times> int list) option"  \<comment> \<open>container and exit codes of a FailJob rule\<close>
  aj_ttlSecondsAfterFinished :: int
  aj_podLabels :: strmap
  aj_pod :: PodSpec

section \<open>Well-formed and restricted Pods\<close>

definition pod_all_containers :: "PodSpec \<Rightarrow> Container list" where
  "pod_all_containers p = pod_initContainers p @ pod_containers p"

definition mounts_resolve :: "PodSpec \<Rightarrow> bool" where
  "mounts_resolve p \<longleftrightarrow>
     list_all (\<lambda>c. list_all (\<lambda>m. vm_name m \<in> vol_name ` set (pod_volumes p)) (ctr_mounts c)) (pod_all_containers p)"

definition restricted_container :: "Container \<Rightarrow> bool" where
  "restricted_container c \<longleftrightarrow>
     (let s = ctr_security c in
      sc_allowPrivilegeEscalation s = Some False \<and> sc_readOnlyRootFilesystem s = Some True
      \<and> sc_runAsNonRoot s = Some True \<and> sc_privileged s \<noteq> Some True \<and> sc_drop s = [''ALL''])"

text \<open>The profile the deployment documents call restricted, besides the volumes.\<close>

definition restricted_pod :: "PodSpec \<Rightarrow> bool" where
  "restricted_pod p \<longleftrightarrow>
     list_all restricted_container (pod_all_containers p)
   \<and> \<not> pod_hostNetwork p \<and> \<not> pod_hostPID p \<and> \<not> pod_hostIPC p
   \<and> pod_runAsNonRoot p = Some True \<and> pod_seccomp p = ''RuntimeDefault''"

definition volumes_distinct :: "PodSpec \<Rightarrow> bool" where
  "volumes_distinct p \<longleftrightarrow> distinct (map vol_name (pod_volumes p))"

text \<open>\<open>fmt.Sprintf("%t", b)\<close>.\<close>

definition show_bool :: "bool \<Rightarrow> string" where
  "show_bool b = (if b then ''true'' else ''false'')"

definition env_var :: "string \<Rightarrow> string \<Rightarrow> PodEnvVar" where
  "env_var n v = \<lparr>pe_name = n, pe_value = v, pe_secretKeyRef = None\<rparr>"

definition emptyDir :: "string \<Rightarrow> Volume" where
  "emptyDir n = \<lparr>vol_name = n, vol_source = EmptyDir ''''\<rparr>"

definition mount :: "string \<Rightarrow> string \<Rightarrow> bool \<Rightarrow> VolumeMount" where
  "mount n path ro = \<lparr>vm_name = n, vm_path = path, vm_readOnly = ro\<rparr>"

lemma mount_simps [simp]: "vm_name (mount n path ro) = n" "vm_path (mount n path ro) = path"
  by (simp_all add: mount_def)

lemma emptyDir_name [simp]: "vol_name (emptyDir n) = n"
  by (simp add: emptyDir_def)

lemma mounts_resolveI:
  "(\<And>c m. c \<in> set (pod_all_containers p) \<Longrightarrow> m \<in> set (ctr_mounts c) \<Longrightarrow> vm_name m \<in> vol_name ` set (pod_volumes p))
   \<Longrightarrow> mounts_resolve p"
  by (auto simp: mounts_resolve_def list_all_iff)

end
