(* ===== verification/Provider_Controller.thy ===== *)
theory Provider_Controller
  imports Signature_Policy Pod_Spec Status_Steps
begin

text \<open>
  The PlatformProvider controller (\<open>pkg/controller/provider/reconciler.go\<close>): it runs a provider's
  package as a Deployment with a Service, shakes hands with it over gRPC and keeps the plugin
  registry and the status in step.

  The state is the part of the cluster the controller touches (the resource, the Deployments and the
  Services by namespace and name), its registry, the health gauge and the adapters it has closed. Each
  call site of the API server has at most one answer per reconciliation, so a fault is chosen per
  site; a conflict with a concurrent writer is such a fault. The gRPC connection, the health check
  and the order in which a map is iterated are parameters.
\<close>

section \<open>State\<close>

record Deployment =
  dep_name :: string
  dep_namespace :: string
  dep_labels :: strmap
  dep_replicas :: int
  dep_selector :: strmap
  dep_podLabels :: strmap
  dep_podAnnotations :: strmap
  dep_pod :: PodSpec
  dep_readyReplicas :: int

record Service =
  svc_name :: string
  svc_namespace :: string
  svc_labels :: strmap
  svc_selector :: strmap
  svc_ports :: "(string \<times> int \<times> int) list"  \<comment> \<open>name, port and target port\<close>
  svc_type :: string

record ControllerState =
  cs_provider :: "PlatformProvider option"
  cs_deployments :: "string \<times> string \<rightharpoonup> Deployment"
  cs_services :: "string \<times> string \<rightharpoonup> Service"
  cs_registry :: "Registry option"
  cs_gauge :: "string \<times> string \<rightharpoonup> int"
  cs_closed :: "nat list"

record ProviderTLSConfig =
  ptc_ServerName :: string
  ptc_CABundle :: string
  ptc_ClientCert :: string
  ptc_ClientKey :: string

record PlatformProviderReconciler =
  rc_ProviderNamespace :: string
  rc_RequireMTLS :: bool
  rc_RequireDigest :: bool
  rc_RequireSignature :: bool
  rc_AllowedRegistries :: "string list"
  rc_RestrictServiceAccounts :: bool
  rc_AllowedServiceAccounts :: "string list"
  rc_ForbidServiceAccountToken :: bool
  rc_SignatureVerifier :: "(string \<Rightarrow> go_error option) option"
  rc_ConnectProvider :: "(string \<Rightarrow> go_error + Plugin) option"

datatype site =
    GetProvider | AddFinalizer | RemoveFinalizer | UpdateStatus | GetForSignature | DeleteDeployment
  | GetDeployment | CreateDeployment | UpdateDeployment | GetService | CreateService | GetHealth

record Environment =
  ev_fault :: "site \<Rightarrow> go_error option"
  ev_secret :: "string \<Rightarrow> string \<Rightarrow> string \<Rightarrow> go_error + strmap"  \<comment> \<open>namespace, name and the key asked for\<close>
  ev_tlsOrder :: "string list"
  ev_setOwner :: "go_error option"
  ev_connect :: "string \<Rightarrow> ProviderTLSConfig option \<Rightarrow> go_error + Plugin"
  ev_healthCheck :: "Plugin \<Rightarrow> go_error option"
  ev_now :: int

text \<open>The answer of a reconciliation: an error, or the delay in nanoseconds after which it runs
  again (0 for none).\<close>

type_synonym 'a step = "ControllerState \<Rightarrow> 'a \<times> ControllerState"
type_synonym outcome = "go_error + int"

abbreviation (input) providerFinalizerName :: string where "providerFinalizerName \<equiv> ''imagebuilder.io/provider-cleanup''"
abbreviation (input) providerPort :: int where "providerPort \<equiv> 50051"
abbreviation (input) healthInterval :: int where "healthInterval \<equiv> 30 * 1000000000"
abbreviation (input) providerTLSMountPath :: string where "providerTLSMountPath \<equiv> ''/var/run/imagebuilder/provider-tls''"
abbreviation (input) providerClientCAMountPath :: string where
  "providerClientCAMountPath \<equiv> ''/var/run/imagebuilder/provider-client-ca''"
abbreviation (input) providerUploadTempPath :: string where "providerUploadTempPath \<equiv> ''/var/lib/imagebuilder/uploads''"
abbreviation (input) providerUploadTempVolume :: string where "providerUploadTempVolume \<equiv> ''provider-upload-tmp''"

section \<open>Helpers\<close>

definition providerDeploymentName :: "PlatformProvider \<Rightarrow> string" where
  "providerDeploymentName pp = ''provider-'' @ ppr_name pp"

definition providerServiceName :: "PlatformProvider \<Rightarrow> string" where
  "providerServiceName pp = ''provider-'' @ ppr_name pp"

definition providerNamespace :: "PlatformProviderReconciler \<Rightarrow> PlatformProvider \<Rightarrow> string" where
  "providerNamespace r pp =
     (if rc_ProviderNamespace r \<noteq> '''' then rc_ProviderNamespace r
      else if ppr_namespace pp \<noteq> '''' then ppr_namespace pp else ''imagebuilder-system'')"

definition providerTLSCAKey :: "ProviderTLSSecretRef \<Rightarrow> string" where
  "providerTLSCAKey ref = (if tsr_caKey ref \<noteq> '''' then tsr_caKey ref else ''ca.crt'')"

definition providerTLSCertKey :: "ProviderTLSSecretRef \<Rightarrow> string" where
  "providerTLSCertKey ref = (if tsr_certKey ref \<noteq> '''' then tsr_certKey ref else ''tls.crt'')"

definition providerTLSKeyKey :: "ProviderTLSSecretRef \<Rightarrow> string" where
  "providerTLSKeyKey ref = (if tsr_keyKey ref \<noteq> '''' then tsr_keyKey ref else ''tls.key'')"

definition providerMutualTLS :: "PlatformProvider \<Rightarrow> ProviderTransportTLSSpec option" where
  "providerMutualTLS pp =
     (case tls_spec pp of None \<Rightarrow> None | Some t \<Rightarrow> if tls_mode t \<noteq> ''Mutual'' then None else Some t)"

definition setCondition :: "int \<Rightarrow> string \<Rightarrow> string \<Rightarrow> string \<Rightarrow> string \<Rightarrow> Condition list \<Rightarrow> Condition list" where
  "setCondition now condType status reason msg =
     upsert_first cond_type condType
       (\<lambda>c. c\<lparr>cond_status := status, cond_reason := reason, cond_message := msg, cond_lastTransitionTime := now\<rparr>)
       \<lparr>cond_type = condType, cond_status = status, cond_reason = reason, cond_message = msg,
        cond_observedGeneration = 0, cond_lastTransitionTime = now\<rparr>"

definition secretData :: "Environment \<Rightarrow> ProviderTLSSecretRef \<Rightarrow> string \<Rightarrow> go_error + string" where
  "secretData E ref key =
     (case ev_secret E (tsr_namespace ref) (tsr_name ref) key of Inl err \<Rightarrow> Inl err
      | Inr data \<Rightarrow>
          if get_str data key = '''' then
            Inl (errorf (''secret '' @ tsr_namespace ref @ ''/'' @ tsr_name ref @ '' key '' @ quoted key @
              '' is empty or missing''))
          else Inr (get_str data key))"

section \<open>Policies\<close>

definition validateProviderPackagePolicy :: "PlatformProviderReconciler \<Rightarrow> PlatformProvider \<Rightarrow> go_error option" where
  "validateProviderPackagePolicy r pp =
     (let ref = pp_package (ppr_spec pp) in
      if ref = '''' then Some (errorf ''spec.package is required'')
      else if rc_RequireDigest r \<and> \<not> contains ref ''@sha256:'' then
        Some (errorf ''spec.package must be pinned by digest by operator policy'')
      else if rc_RequireSignature r \<and> \<not> verifies_signature pp then
        Some (errorf ''spec.security.verifySignature is required by operator policy'')
      else if rc_AllowedRegistries r \<noteq> [] \<and> \<not> providerPackageAllowed ref (rc_AllowedRegistries r) then
        Some (errorf ''spec.package registry is not allowed by operator policy'')
      else case pp_security (ppr_spec pp) of None \<Rightarrow> None
      | Some security \<Rightarrow>
          if (pps_requireDigest security \<or> pps_verifySignature security) \<and> \<not> contains ref ''@sha256:'' then
            Some (errorf ''spec.package must be pinned by digest when requireDigest or verifySignature is enabled'')
          else if pps_allowedRegistries security \<noteq> [] \<and> \<not> providerPackageAllowed ref (pps_allowedRegistries security) then
            Some (errorf ''spec.package registry is not in spec.security.allowedRegistries'')
          else None)"

definition validateProviderTransportPolicy ::
    "PlatformProviderReconciler \<Rightarrow> string list \<Rightarrow> PlatformProvider \<Rightarrow> go_error option" where
  "validateProviderTransportPolicy r order pp =
     (case providerMutualTLS pp of
        None \<Rightarrow>
          if bad_tls_mode pp then Some (errorf ''spec.transport.tls.mode must be Disabled or Mutual'')
          else if rc_RequireMTLS r then
            Some (errorf ''provider mTLS is required by operator policy; set spec.transport.tls.mode=Mutual'')
          else None
      | Some t \<Rightarrow>
          (case (tls_caSecretRef t, tls_clientCertificateSecretRef t, tls_serverCertificateSecretRef t) of
             (None, _, _) \<Rightarrow> Some (errorf ''spec.transport.tls.caSecretRef is required when mode=Mutual'')
           | (_, None, _) \<Rightarrow>
               Some (errorf ''spec.transport.tls.clientCertificateSecretRef is required when mode=Mutual'')
           | (_, _, None) \<Rightarrow>
               Some (errorf ''spec.transport.tls.serverCertificateSecretRef is required when mode=Mutual'')
           | (Some ca, Some client, Some server) \<Rightarrow>
               tls_refs_error (providerNamespace r pp) [(''caSecretRef'', ca), (''clientCertificateSecretRef'', client),
                 (''serverCertificateSecretRef'', server)] order))"

definition validateProviderServiceAccountPolicy :: "PlatformProviderReconciler \<Rightarrow> PlatformProvider \<Rightarrow> go_error option" where
  "validateProviderServiceAccountPolicy r pp =
     (let serviceAccount = trimSpace (pp_serviceAccountName (ppr_spec pp)) in
      if rc_RestrictServiceAccounts r \<and> serviceAccount \<noteq> '''' \<and>
         \<not> list_ex (\<lambda>candidate. trimSpace candidate = serviceAccount) (rc_AllowedServiceAccounts r) then
        Some (errorf (''spec.serviceAccountName '' @ quoted serviceAccount @ '' is not allowed''))
      else if rc_ForbidServiceAccountToken r \<and> pp_automountServiceAccountToken (ppr_spec pp) = Some True then
        Some (errorf ''spec.automountServiceAccountToken=true is forbidden'')
      else None)"

section \<open>Deployment and Service\<close>

definition managedLabels :: "PlatformProvider \<Rightarrow> strmap" where
  "managedLabels pp =
     [''app.kubernetes.io/managed-by'' \<mapsto> ''imagebuilder'', ''imagebuilder.io/provider-name'' \<mapsto> ppr_name pp,
      ''imagebuilder.io/provider-pod'' \<mapsto> ''true'']"

text \<open>The variables of the specification, which the API takes over as they are.\<close>

definition pod_env :: "EnvVar \<Rightarrow> PodEnvVar" where
  "pod_env e = \<lparr>pe_name = env_name e, pe_value = env_value e,
     pe_secretKeyRef = (case env_valueFrom e of None \<Rightarrow> None | Some s \<Rightarrow> evs_secretKeyRef s)\<rparr>"

definition tls_env :: "ProviderTLSSecretRef \<Rightarrow> ProviderTLSSecretRef \<Rightarrow> PodEnvVar list" where
  "tls_env server ca =
     [env_var ''PROVIDER_GRPC_TLS_MODE'' ''Mutual'',
      env_var ''PROVIDER_GRPC_TLS_CERT_FILE'' (providerTLSMountPath @ ''/'' @ providerTLSCertKey server),
      env_var ''PROVIDER_GRPC_TLS_KEY_FILE'' (providerTLSMountPath @ ''/'' @ providerTLSKeyKey server),
      env_var ''PROVIDER_GRPC_TLS_CLIENT_CA_FILE'' (providerClientCAMountPath @ ''/'' @ providerTLSCAKey ca)]"

definition tls_mounts :: "VolumeMount list" where
  "tls_mounts = [mount ''provider-tls'' providerTLSMountPath True, mount ''provider-client-ca'' providerClientCAMountPath True]"

definition tls_volumes :: "ProviderTLSSecretRef \<Rightarrow> ProviderTLSSecretRef \<Rightarrow> Volume list" where
  "tls_volumes server ca =
     [\<lparr>vol_name = ''provider-tls'', vol_source = SecretVolume (tsr_name server) [] None None\<rparr>,
      \<lparr>vol_name = ''provider-client-ca'', vol_source = SecretVolume (tsr_name ca) [] None None\<rparr>]"

text \<open>The references of a mutual-TLS specification; \<open>reconcileDeployment\<close> runs after the transport
  policy, so the pointers it reads are set. Where they are not, the code panics: \<open>None\<close> below.\<close>

definition tls_parts :: "PlatformProvider \<Rightarrow> (ProviderTLSSecretRef \<times> ProviderTLSSecretRef) option option" where
  "tls_parts pp =
     (case providerMutualTLS pp of None \<Rightarrow> Some None
      | Some t \<Rightarrow>
          (case (tls_serverCertificateSecretRef t, tls_caSecretRef t) of
             (Some server, Some ca) \<Rightarrow> Some (Some (server, ca))
           | _ \<Rightarrow> None))"

definition provider_container :: "PlatformProvider \<Rightarrow> (ProviderTLSSecretRef \<times> ProviderTLSSecretRef) option \<Rightarrow> Container" where
  "provider_container pp tls =
     \<lparr>ctr_name = ''provider'', ctr_image = pp_package (ppr_spec pp),
      ctr_pullPolicy = (if pp_packagePullPolicy (ppr_spec pp) \<noteq> '''' then pp_packagePullPolicy (ppr_spec pp)
                        else ''IfNotPresent''),
      ctr_args = [],
      ctr_env = [env_var ''TMPDIR'' providerUploadTempPath] @ map pod_env (pp_env (ppr_spec pp)) @
        (case tls of None \<Rightarrow> [] | Some (server, ca) \<Rightarrow> tls_env server ca),
      ctr_ports = [(''grpc'', providerPort)], ctr_requests = [], ctr_limits = [],
      ctr_mounts = [mount providerUploadTempVolume providerUploadTempPath False] @
        (case tls of None \<Rightarrow> [] | Some _ \<Rightarrow> tls_mounts),
      ctr_restartPolicy = None,
      ctr_security = \<lparr>sc_allowPrivilegeEscalation = Some False, sc_readOnlyRootFilesystem = Some True,
        sc_runAsNonRoot = Some True, sc_privileged = None, sc_drop = [''ALL'']\<rparr>\<rparr>"

definition providerAutomountServiceAccountToken :: "PlatformProvider \<Rightarrow> bool option" where
  "providerAutomountServiceAccountToken pp =
     (case pp_automountServiceAccountToken (ppr_spec pp) of Some b \<Rightarrow> Some b | None \<Rightarrow> Some False)"

definition provider_pod :: "PlatformProvider \<Rightarrow> (ProviderTLSSecretRef \<times> ProviderTLSSecretRef) option \<Rightarrow> PodSpec" where
  "provider_pod pp tls =
     \<lparr>pod_restartPolicy = '''', pod_initContainers = [], pod_containers = [provider_container pp tls],
      pod_volumes = [emptyDir providerUploadTempVolume] @
        (case tls of None \<Rightarrow> [] | Some (server, ca) \<Rightarrow> tls_volumes server ca),
      pod_nodeSelector = Map.empty, pod_antiAffinity = [], pod_tolerations = [],
      pod_imagePullSecrets = pp_packagePullSecrets (ppr_spec pp),
      pod_serviceAccountName = pp_serviceAccountName (ppr_spec pp),
      pod_automountToken = providerAutomountServiceAccountToken pp,
      pod_hostNetwork = False, pod_hostPID = False, pod_hostIPC = False,
      pod_runAsNonRoot = Some True, pod_seccomp = ''RuntimeDefault''\<rparr>"

definition buildDeployment ::
    "PlatformProviderReconciler \<Rightarrow> PlatformProvider \<Rightarrow> (ProviderTLSSecretRef \<times> ProviderTLSSecretRef) option \<Rightarrow> Deployment" where
  "buildDeployment r pp tls =
     (let labels = managedLabels pp ++ pp_podLabels (ppr_spec pp) in
      \<lparr>dep_name = providerDeploymentName pp, dep_namespace = providerNamespace r pp, dep_labels = labels,
       dep_replicas = 1, dep_selector = labels, dep_podLabels = labels,
       dep_podAnnotations = pp_podAnnotations (ppr_spec pp), dep_pod = provider_pod pp tls, dep_readyReplicas = 0\<rparr>)"

definition buildService :: "PlatformProviderReconciler \<Rightarrow> PlatformProvider \<Rightarrow> Service" where
  "buildService r pp =
     \<lparr>svc_name = providerServiceName pp, svc_namespace = providerNamespace r pp, svc_labels = managedLabels pp,
      svc_selector = managedLabels pp, svc_ports = [(''grpc'', providerPort, providerPort)], svc_type = ''ClusterIP''\<rparr>"

section \<open>API server\<close>

text \<open>Reads and writes at a call site: the fault of the site, or what the store holds.\<close>

datatype 'a got = Found 'a | NotFound | Failed go_error

definition fetch :: "Environment \<Rightarrow> site \<Rightarrow> 'a option \<Rightarrow> 'a got" where
  "fetch E s stored =
     (case ev_fault E s of Some err \<Rightarrow> Failed err
      | None \<Rightarrow> (case stored of None \<Rightarrow> NotFound | Some x \<Rightarrow> Found x))"

definition put :: "Environment \<Rightarrow> site \<Rightarrow> (ControllerState \<Rightarrow> ControllerState) \<Rightarrow> go_error option step" where
  "put E s f w = (case ev_fault E s of Some err \<Rightarrow> (Some err, w) | None \<Rightarrow> (None, f w))"

definition set_deployment :: "Deployment \<Rightarrow> ControllerState \<Rightarrow> ControllerState" where
  "set_deployment d w = w\<lparr>cs_deployments := (cs_deployments w)((dep_namespace d, dep_name d) \<mapsto> d)\<rparr>"

definition set_service :: "Service \<Rightarrow> ControllerState \<Rightarrow> ControllerState" where
  "set_service s w = w\<lparr>cs_services := (cs_services w)((svc_namespace s, svc_name s) \<mapsto> s)\<rparr>"

definition set_status :: "PlatformProviderStatus \<Rightarrow> ControllerState \<Rightarrow> ControllerState" where
  "set_status st w = w\<lparr>cs_provider := map_option (\<lambda>old. old\<lparr>ppr_status := st\<rparr>) (cs_provider w)\<rparr>"

text \<open>An update of the resource writes everything but the status subresource; a resource that is
  being deleted goes away with its last finalizer.\<close>

definition set_provider :: "PlatformProvider \<Rightarrow> ControllerState \<Rightarrow> ControllerState" where
  "set_provider pp w =
     w\<lparr>cs_provider :=
         (case cs_provider w of None \<Rightarrow> None
          | Some old \<Rightarrow>
              if ppr_deletionTimestamp old \<noteq> None \<and> ppr_finalizers pp = [] then None
              else Some (pp\<lparr>ppr_status := ppr_status old\<rparr>))\<rparr>"

definition set_gauge :: "PlatformProviderReconciler \<Rightarrow> PlatformProvider \<Rightarrow> int option \<Rightarrow> ControllerState \<Rightarrow> ControllerState" where
  "set_gauge r pp v w = w\<lparr>cs_gauge := (cs_gauge w)((ppr_name pp, providerNamespace r pp) := v)\<rparr>"

section \<open>Registry\<close>

definition deregister :: "PlatformProvider \<Rightarrow> ControllerState \<Rightarrow> ControllerState" where
  "deregister pp w =
     w\<lparr>cs_registry := map_option (\<lambda>reg. snd (DeregisterExternal (ppr_name pp) (ppr_uid pp) reg)) (cs_registry w)\<rparr>"

definition closeProviderPlugin :: "Plugin \<Rightarrow> ControllerState \<Rightarrow> ControllerState" where
  "closeProviderPlugin p w = (if pl_closer p then w\<lparr>cs_closed := cs_closed w @ [pl_handle p]\<rparr> else w)"

text \<open>\<open>RegisterExternal\<close>, and closing the adapter when it is refused.\<close>

definition register_adapter :: "PlatformProvider \<Rightarrow> Plugin \<Rightarrow> Registry \<Rightarrow> go_error option step" where
  "register_adapter pp p reg w =
     (case RegisterExternal (ppr_name pp) (ppr_uid pp) (Some p) reg of
        (Some err, reg') \<Rightarrow> (Some err, closeProviderPlugin p (w\<lparr>cs_registry := Some reg'\<rparr>))
      | (None, reg') \<Rightarrow> (None, w\<lparr>cs_registry := Some reg'\<rparr>))"

section \<open>Connection\<close>

definition providerTLSConfig ::
    "PlatformProviderReconciler \<Rightarrow> Environment \<Rightarrow> PlatformProvider \<Rightarrow> go_error + ProviderTLSConfig option" where
  "providerTLSConfig r E pp =
     (case tls_spec pp of None \<Rightarrow> Inr None
      | Some t \<Rightarrow>
          if tls_mode t = '''' \<or> tls_mode t = ''Disabled'' then Inr None
          else if tls_mode t \<noteq> ''Mutual'' then
            Inl (errorf (''unsupported provider transport tls mode '' @ quoted (tls_mode t)))
          else case (tls_caSecretRef t, tls_clientCertificateSecretRef t) of
            (None, _) \<Rightarrow> Inl (errorf ''provider mTLS requires spec.transport.tls.caSecretRef'')
          | (_, None) \<Rightarrow> Inl (errorf ''provider mTLS requires spec.transport.tls.clientCertificateSecretRef'')
          | (Some ca, Some client) \<Rightarrow>
              (case secretData E ca (providerTLSCAKey ca) of
                 Inl err \<Rightarrow> Inl (wrapf ''load provider mTLS CA bundle: '' err)
               | Inr bundle \<Rightarrow>
                   (case secretData E client (providerTLSCertKey client) of
                      Inl err \<Rightarrow> Inl (wrapf ''load provider mTLS client certificate: '' err)
                    | Inr cert \<Rightarrow>
                        (case secretData E client (providerTLSKeyKey client) of
                           Inl err \<Rightarrow> Inl (wrapf ''load provider mTLS client key: '' err)
                         | Inr key \<Rightarrow>
                             Inr (Some \<lparr>ptc_ServerName = (if tls_serverName t = ''''
                                   then providerServiceName pp @ ''.'' @ providerNamespace r pp @ ''.svc''
                                   else tls_serverName t),
                                 ptc_CABundle = bundle, ptc_ClientCert = cert, ptc_ClientKey = key\<rparr>)))))"

definition connectProvider ::
    "PlatformProviderReconciler \<Rightarrow> Environment \<Rightarrow> PlatformProvider \<Rightarrow> go_error + Plugin" where
  "connectProvider r E pp =
     (let address = providerServiceName pp @ ''.'' @ providerNamespace r pp @ ''.svc:'' @ show_int providerPort in
      case rc_ConnectProvider r of
        Some connect \<Rightarrow> connect address
      | None \<Rightarrow>
          (case providerTLSConfig r E pp of Inl err \<Rightarrow> Inl err | Inr cfg \<Rightarrow> ev_connect E address cfg))"

text \<open>The modes a provider advertises: local, and the others of a remote-build plugin, each once.\<close>

fun modes_loop :: "string list \<Rightarrow> string list \<Rightarrow> string list" where
  "modes_loop [] modes = modes"
| "modes_loop (mode # rest) modes =
     (if mode = '''' \<or> mode \<in> set modes then modes_loop rest modes else modes_loop rest (modes @ [mode]))"

definition buildModesFromPlugin :: "Plugin \<Rightarrow> string list" where
  "buildModesFromPlugin p =
     (case pl_buildModes p of None \<Rightarrow> [BuildModeLocal] | Some ms \<Rightarrow> modes_loop ms [BuildModeLocal])"

definition capabilitiesFromPlugin :: "Plugin \<Rightarrow> ProviderCapabilities" where
  "capabilitiesFromPlugin p =
     \<lparr>cap_providerName = pl_name p, cap_providerVersion = pl_version p, cap_formats = pl_formats p,
      cap_osFamilies = pl_os p, cap_buildModes = buildModesFromPlugin p, cap_protocolVersion = ''v1''\<rparr>"

section \<open>Reconciliation\<close>

definition upd_pstatus :: "(PlatformProviderStatus \<Rightarrow> PlatformProviderStatus) \<Rightarrow> PlatformProvider \<Rightarrow> PlatformProvider" where
  "upd_pstatus f pp = pp\<lparr>ppr_status := f (ppr_status pp)\<rparr>"

definition mark :: "Environment \<Rightarrow> string \<Rightarrow> string \<Rightarrow> string \<Rightarrow> string \<Rightarrow> PlatformProvider \<Rightarrow> PlatformProvider" where
  "mark E phase ready reason msg =
     upd_pstatus (\<lambda>st. st\<lparr>pps_phase := phase,
       pps_conditions := setCondition (ev_now E) ''Ready'' ready reason msg (pps_conditions st)\<rparr>)"

definition setUnhealthy :: "PlatformProviderReconciler \<Rightarrow> Environment \<Rightarrow> PlatformProvider \<Rightarrow> string \<Rightarrow> outcome step" where
  "setUnhealthy r E pp reason w =
     (let w1 = set_gauge r pp (Some 0) (deregister pp w);
          pp1 = mark E ''Unhealthy'' ''False'' ''Error'' reason pp in
      case put E UpdateStatus (set_status (ppr_status pp1)) w1 of
        (Some err, w2) \<Rightarrow> (Inl (wrapf ''update status to Unhealthy: '' err), w2)
      | (None, w2) \<Rightarrow> (Inr healthInterval, w2))"

definition failSignatureVerification ::
    "PlatformProviderReconciler \<Rightarrow> Environment \<Rightarrow> PlatformProvider \<Rightarrow> string \<Rightarrow> outcome step" where
  "failSignatureVerification r E pp reason w =
     (let key = (providerNamespace r pp, providerDeploymentName pp) in
      case fetch E GetForSignature (cs_deployments w key) of
        Failed err \<Rightarrow> (Inl (wrapf ''get provider deployment after signature verification failure: '' err), w)
      | NotFound \<Rightarrow> setUnhealthy r E pp reason w
      | Found _ \<Rightarrow>
          (case put E DeleteDeployment (\<lambda>w. w\<lparr>cs_deployments := (cs_deployments w)(key := None)\<rparr>) w of
             (Some err, w1) \<Rightarrow> (Inl (wrapf ''delete unverified provider deployment: '' err), w1)
           | (None, w1) \<Rightarrow> setUnhealthy r E pp reason w1))"

definition reconcileDeployment ::
    "PlatformProviderReconciler \<Rightarrow> Environment \<Rightarrow> PlatformProvider \<Rightarrow> (ProviderTLSSecretRef \<times> ProviderTLSSecretRef) option \<Rightarrow>
     go_error option step" where
  "reconcileDeployment r E pp tls w =
     (let desired = buildDeployment r pp tls in
      case ev_setOwner E of Some err \<Rightarrow> (Some (wrapf ''set owner reference on deployment: '' err), w)
      | None \<Rightarrow>
          (case fetch E GetDeployment (cs_deployments w (dep_namespace desired, dep_name desired)) of
             NotFound \<Rightarrow> put E CreateDeployment (set_deployment desired) w
           | Failed err \<Rightarrow> (Some (wrapf ''get deployment: '' err), w)
           | Found existing \<Rightarrow>
               (case put E UpdateDeployment (set_deployment (existing\<lparr>dep_replicas := dep_replicas desired,
                     dep_podLabels := dep_podLabels desired, dep_podAnnotations := dep_podAnnotations desired,
                     dep_pod := dep_pod desired\<rparr>)) w of
                  (Some err, w1) \<Rightarrow> (Some (wrapf ''update deployment: '' err), w1)
                | (None, w1) \<Rightarrow> (None, w1))))"

definition reconcileService :: "PlatformProviderReconciler \<Rightarrow> Environment \<Rightarrow> PlatformProvider \<Rightarrow> go_error option step" where
  "reconcileService r E pp w =
     (let desired = buildService r pp in
      case ev_setOwner E of Some err \<Rightarrow> (Some (wrapf ''set owner reference on service: '' err), w)
      | None \<Rightarrow>
          (case fetch E GetService (cs_services w (svc_namespace desired, svc_name desired)) of
             NotFound \<Rightarrow> put E CreateService (set_service desired) w
           | Failed err \<Rightarrow> (Some err, w)
           | Found _ \<Rightarrow> (None, w)))"

definition name_mismatch :: "string \<Rightarrow> PlatformProvider \<Rightarrow> go_error" where
  "name_mismatch advertised pp =
     errorf (''provider advertises name '' @ quoted advertised @ '', which must match PlatformProvider metadata.name '' @
       quoted (ppr_name pp))"

text \<open>A reconnection to a provider that is healthy but not in the registry.\<close>

definition reconnect ::
    "PlatformProviderReconciler \<Rightarrow> Environment \<Rightarrow> PlatformProvider \<Rightarrow> string \<Rightarrow> Registry \<Rightarrow> (go_error + Plugin) step" where
  "reconnect r E pp capName reg w =
     (case connectProvider r E pp of Inl err \<Rightarrow> (Inl err, w)
      | Inr p \<Rightarrow>
          if pl_name p \<noteq> capName then
            (Inl (errorf (''provider capability name changed from '' @ quoted capName @ '' to '' @ quoted (pl_name p))),
             closeProviderPlugin p w)
          else case register_adapter pp p reg w of
            (Some err, w1) \<Rightarrow> (Inl err, w1)
          | (None, w1) \<Rightarrow> (Inr p, w1))"

definition healthCheckRegisteredProvider ::
    "PlatformProviderReconciler \<Rightarrow> Environment \<Rightarrow> PlatformProvider \<Rightarrow> go_error option step" where
  "healthCheckRegisteredProvider r E pp w =
     (case (cs_registry w, pps_capabilities (ppr_status pp)) of
        (Some reg, Some caps) \<Rightarrow>
          if cap_providerName caps = '''' then (None, w)
          else if cap_providerName caps \<noteq> ppr_name pp then (Some (name_mismatch (cap_providerName caps) pp), w)
          else (case External (ppr_name pp) (ppr_uid pp) (cap_providerName caps) reg of
                  Inr p \<Rightarrow> (ev_healthCheck E p, w)
                | Inl _ \<Rightarrow>
                    (case reconnect r E pp (cap_providerName caps) reg w of
                       (Inl err, w1) \<Rightarrow> (Some err, w1)
                     | (Inr p, w1) \<Rightarrow> (ev_healthCheck E p, w1)))
      | _ \<Rightarrow> (None, w))"

text \<open>The first handshake with a ready provider: the capabilities are taken over before the name is
  compared.\<close>

definition handshake ::
    "PlatformProviderReconciler \<Rightarrow> Environment \<Rightarrow> PlatformProvider \<Rightarrow> (string \<times> PlatformProvider + PlatformProvider) step" where
  "handshake r E pp w =
     (case cs_registry w of None \<Rightarrow> (Inr pp, w)
      | Some reg \<Rightarrow>
          (case connectProvider r E pp of
             Inl err \<Rightarrow> (Inl (''provider handshake failed: '' @ err_msg err, pp), w)
           | Inr p \<Rightarrow>
               (let pp1 = upd_pstatus (\<lambda>st. st\<lparr>pps_capabilities := Some (capabilitiesFromPlugin p)\<rparr>) pp in
                if pl_name p \<noteq> ppr_name pp then
                  (Inl (err_msg (name_mismatch (pl_name p) pp), pp1), closeProviderPlugin p w)
                else case register_adapter pp p reg w of
                  (Some err, w1) \<Rightarrow> (Inl (''provider registry update failed: '' @ err_msg err, pp1), w1)
                | (None, w1) \<Rightarrow> (Inr pp1, w1))))"

definition update_status :: "Environment \<Rightarrow> PlatformProvider \<Rightarrow> outcome step" where
  "update_status E pp w =
     (case put E UpdateStatus (set_status (ppr_status pp)) w of
        (Some err, w1) \<Rightarrow> (Inl (wrapf ''update platformprovider status: '' err), w1)
      | (None, w1) \<Rightarrow> (Inr healthInterval, w1))"

definition reconcileReady :: "PlatformProviderReconciler \<Rightarrow> Environment \<Rightarrow> PlatformProvider \<Rightarrow> outcome step" where
  "reconcileReady r E pp w =
     (if pps_phase (ppr_status pp) = ''Healthy'' then
        (case healthCheckRegisteredProvider r E pp w of
           (Some err, w1) \<Rightarrow> setUnhealthy r E pp (''provider health check failed: '' @ err_msg err) w1
         | (None, w1) \<Rightarrow> (Inr healthInterval, set_gauge r pp (Some 1) w1))
      else case handshake r E pp w of
        (Inl (reason, pp1), w1) \<Rightarrow> setUnhealthy r E pp1 reason w1
      | (Inr pp1, w1) \<Rightarrow>
          update_status E (mark E ''Healthy'' ''True'' ''DeploymentReady'' ''Provider deployment has ready replicas'' pp1)
            (set_gauge r pp (Some 1) w1))"

definition reconcileNotReady :: "PlatformProviderReconciler \<Rightarrow> Environment \<Rightarrow> PlatformProvider \<Rightarrow> outcome step" where
  "reconcileNotReady r E pp w =
     (let w1 = set_gauge r pp (Some 0) (deregister pp w);
          phase = pps_phase (ppr_status pp) in
      update_status E
        (if phase = '''' \<or> phase = ''Installing'' then
           mark E ''Installing'' ''False'' ''DeploymentNotReady'' ''Waiting for provider pod to become ready'' pp
         else mark E ''Unhealthy'' ''False'' ''DeploymentUnhealthy'' ''Provider deployment has no ready replicas'' pp) w1)"

definition reconcileHealth :: "PlatformProviderReconciler \<Rightarrow> Environment \<Rightarrow> PlatformProvider \<Rightarrow> outcome step" where
  "reconcileHealth r E pp w =
     (case fetch E GetHealth (cs_deployments w (providerNamespace r pp, providerDeploymentName pp)) of
        Failed err \<Rightarrow> setUnhealthy r E pp (''cannot read deployment: '' @ err_msg err) w
      | NotFound \<Rightarrow> setUnhealthy r E pp ''cannot read deployment: not found'' w
      | Found dep \<Rightarrow> if dep_readyReplicas dep > 0 then reconcileReady r E pp w else reconcileNotReady r E pp w)"

definition reconcileDelete :: "PlatformProviderReconciler \<Rightarrow> Environment \<Rightarrow> PlatformProvider \<Rightarrow> outcome step" where
  "reconcileDelete r E pp w =
     (let w1 = set_gauge r pp None (deregister pp w);
          pp1 = pp\<lparr>ppr_finalizers := filter (\<lambda>f. f \<noteq> providerFinalizerName) (ppr_finalizers pp)\<rparr> in
      case put E RemoveFinalizer (set_provider pp1) w1 of
        (Some err, w2) \<Rightarrow> (Inl (wrapf ''remove finalizer: '' err), w2)
      | (None, w2) \<Rightarrow> (Inr 0, w2))"

definition nil_dereference :: go_error where
  "nil_dereference = errorf ''panic: runtime error: invalid memory address or nil pointer dereference [recovered]''"

text \<open>The checks that come before anything is deployed: the reason of a rejection, and whether it is
  the signature that failed.\<close>

definition verify_signature :: "PlatformProviderReconciler \<Rightarrow> PlatformProvider \<Rightarrow> string option" where
  "verify_signature r pp =
     (if \<not> verifies_signature pp then None
      else case rc_SignatureVerifier r of
        None \<Rightarrow> Some ''provider signature verification requested, but no cryptographic verifier is configured''
      | Some verify \<Rightarrow>
          map_option (\<lambda>err. ''provider signature verification policy is unavailable: '' @ err_msg err)
            (verify (pp_package (ppr_spec pp))))"

definition deploy :: "PlatformProviderReconciler \<Rightarrow> Environment \<Rightarrow> PlatformProvider \<Rightarrow> outcome step" where
  "deploy r E pp w =
     (case tls_parts pp of None \<Rightarrow> (Inl nil_dereference, w)
      | Some tls \<Rightarrow>
          (case reconcileDeployment r E pp tls w of
             (Some err, w1) \<Rightarrow> setUnhealthy r E pp (''deployment reconcile failed: '' @ err_msg err) w1
           | (None, w1) \<Rightarrow>
               (case reconcileService r E pp w1 of
                  (Some err, w2) \<Rightarrow> setUnhealthy r E pp (''service reconcile failed: '' @ err_msg err) w2
                | (None, w2) \<Rightarrow> reconcileHealth r E pp w2)))"

definition reconcileProvider :: "PlatformProviderReconciler \<Rightarrow> Environment \<Rightarrow> PlatformProvider \<Rightarrow> outcome step" where
  "reconcileProvider r E pp w =
     (case validateProviderPackagePolicy r pp of
        Some err \<Rightarrow> setUnhealthy r E pp (''provider package policy rejected image: '' @ err_msg err) w
      | None \<Rightarrow>
          (case verify_signature r pp of
             Some reason \<Rightarrow> failSignatureVerification r E pp reason w
           | None \<Rightarrow>
               (case validateProviderTransportPolicy r (ev_tlsOrder E) pp of
                  Some err \<Rightarrow> setUnhealthy r E pp (''provider transport policy rejected: '' @ err_msg err) w
                | None \<Rightarrow>
                    (case validateProviderServiceAccountPolicy r pp of
                       Some err \<Rightarrow> setUnhealthy r E pp (''provider service account policy rejected: '' @ err_msg err) w
                     | None \<Rightarrow> deploy r E pp w))))"

definition Reconcile :: "PlatformProviderReconciler \<Rightarrow> Environment \<Rightarrow> outcome step" where
  "Reconcile r E w =
     (case fetch E GetProvider (cs_provider w) of
        NotFound \<Rightarrow> (Inr 0, w)
      | Failed err \<Rightarrow> (Inl (wrapf ''get platformprovider: '' err), w)
      | Found pp \<Rightarrow>
          if ppr_deletionTimestamp pp \<noteq> None then reconcileDelete r E pp w
          else if providerFinalizerName \<notin> set (ppr_finalizers pp) then
            (case put E AddFinalizer (set_provider (pp\<lparr>ppr_finalizers := ppr_finalizers pp @ [providerFinalizerName]\<rparr>)) w of
               (Some err, w1) \<Rightarrow> (Inl (wrapf ''add finalizer: '' err), w1)
             | (None, w1) \<Rightarrow> (Inr 1, w1))
          else reconcileProvider r E pp w)"

section \<open>What the steps leave alone\<close>

named_theorems steps \<open>effects of the controller's steps on the state\<close>

lemma put_frame [steps]:
  "cs_deployments (f w) = cs_deployments w \<Longrightarrow> cs_deployments (snd (put E s f w)) = cs_deployments w"
  "cs_registry (f w) = cs_registry w \<Longrightarrow> cs_registry (snd (put E s f w)) = cs_registry w"
  "cs_provider (f w) = cs_provider w \<Longrightarrow> cs_provider (snd (put E s f w)) = cs_provider w"
  by (auto simp: put_def split: option.splits)

lemma set_simps [simp]:
  "cs_deployments (set_status st w) = cs_deployments w" "cs_registry (set_status st w) = cs_registry w"
  "cs_deployments (set_provider pp w) = cs_deployments w" "cs_registry (set_provider pp w) = cs_registry w"
  "cs_deployments (set_service s w) = cs_deployments w" "cs_registry (set_service s w) = cs_registry w"
  "cs_provider (set_service s w) = cs_provider w" "cs_provider (set_deployment d w) = cs_provider w"
  "cs_registry (set_deployment d w) = cs_registry w"
  "cs_deployments (set_gauge r pp v w) = cs_deployments w" "cs_registry (set_gauge r pp v w) = cs_registry w"
  "cs_provider (set_gauge r pp v w) = cs_provider w"
  "cs_deployments (deregister pp w) = cs_deployments w" "cs_provider (deregister pp w) = cs_provider w"
  "cs_deployments (closeProviderPlugin p w) = cs_deployments w" "cs_registry (closeProviderPlugin p w) = cs_registry w"
  "cs_provider (closeProviderPlugin p w) = cs_provider w"
  by (simp_all add: set_status_def set_provider_def set_service_def set_deployment_def set_gauge_def deregister_def
      closeProviderPlugin_def)

lemma register_adapter_frame:
  "register_adapter pp p reg w = (e, w') \<Longrightarrow>
   cs_deployments w' = cs_deployments w \<and> cs_provider w' = cs_provider w"
  by (auto simp: register_adapter_def split: prod.splits option.splits)

lemma handshake_frame [simp]:
  "cs_deployments (snd (handshake r E pp w)) = cs_deployments w"
  "cs_provider (snd (handshake r E pp w)) = cs_provider w"
  by (auto simp: handshake_def Let_def dest: register_adapter_frame
      split: option.splits sum.splits prod.splits if_splits)

lemma healthCheck_frame [simp]:
  "cs_deployments (snd (healthCheckRegisteredProvider r E pp w)) = cs_deployments w"
  "cs_provider (snd (healthCheckRegisteredProvider r E pp w)) = cs_provider w"
  by (auto simp: healthCheckRegisteredProvider_def reconnect_def dest: register_adapter_frame
      split: option.splits sum.splits prod.splits if_splits)

lemma setUnhealthy_deployments [simp]: "cs_deployments (snd (setUnhealthy r E pp reason w)) = cs_deployments w"
  by (auto simp: setUnhealthy_def Let_def put_def split: option.splits prod.splits)

lemma update_status_deployments [simp]: "cs_deployments (snd (update_status E pp w)) = cs_deployments w"
  by (auto simp: update_status_def put_def split: option.splits prod.splits)

lemma reconcileReady_deployments [simp]: "cs_deployments (snd (reconcileReady r E pp w)) = cs_deployments w"
proof -
  obtain o1 w1 where h: "handshake r E pp w = (o1, w1)" by fastforce
  obtain o2 w2 where c: "healthCheckRegisteredProvider r E pp w = (o2, w2)" by fastforce
  have "cs_deployments w1 = cs_deployments w" "cs_deployments w2 = cs_deployments w"
    using handshake_frame(1) [of r E pp w] healthCheck_frame(1) [of r E pp w] h c by simp_all
  then show ?thesis
    by (auto simp: reconcileReady_def h c split: option.splits sum.splits)
qed

lemma reconcileHealth_deployments [simp]: "cs_deployments (snd (reconcileHealth r E pp w)) = cs_deployments w"
  by (auto simp: reconcileHealth_def reconcileNotReady_def Let_def split: got.splits)

lemma reconcileDelete_deployments [simp]: "cs_deployments (snd (reconcileDelete r E pp w)) = cs_deployments w"
  by (auto simp: reconcileDelete_def Let_def put_def split: option.splits prod.splits)

lemma reconcileService_frame [simp]:
  "cs_deployments (snd (reconcileService r E pp w)) = cs_deployments w"
  "cs_registry (snd (reconcileService r E pp w)) = cs_registry w"
  "cs_provider (snd (reconcileService r E pp w)) = cs_provider w"
  by (auto simp: reconcileService_def Let_def put_def split: option.splits got.splits)

lemma reconcileDeployment_frame [simp]:
  "cs_registry (snd (reconcileDeployment r E pp tls w)) = cs_registry w"
  "cs_provider (snd (reconcileDeployment r E pp tls w)) = cs_provider w"
  by (auto simp: reconcileDeployment_def Let_def put_def split: option.splits got.splits)

text \<open>A Deployment that a step writes is the desired one, or the existing one brought to its Pods.\<close>

definition deployed :: "PlatformProviderReconciler \<Rightarrow> PlatformProvider \<Rightarrow> (ProviderTLSSecretRef \<times> ProviderTLSSecretRef) option \<Rightarrow> Deployment \<Rightarrow> bool" where
  "deployed r pp tls d \<longleftrightarrow>
     dep_replicas d = 1 \<and> dep_podLabels d = managedLabels pp ++ pp_podLabels (ppr_spec pp)
   \<and> dep_podAnnotations d = pp_podAnnotations (ppr_spec pp) \<and> dep_pod d = provider_pod pp tls"

definition provider_key :: "PlatformProviderReconciler \<Rightarrow> PlatformProvider \<Rightarrow> string \<times> string" where
  "provider_key r pp = (providerNamespace r pp, providerDeploymentName pp)"

definition deployments_named :: "ControllerState \<Rightarrow> bool" where
  "deployments_named w \<longleftrightarrow> (\<forall>ns n d. cs_deployments w (ns, n) = Some d \<longrightarrow> dep_namespace d = ns \<and> dep_name d = n)"

lemma reconcileDeployment_writes:
  assumes "deployments_named w"
  shows "cs_deployments (snd (reconcileDeployment r E pp tls w)) = cs_deployments w
    \<or> (\<exists>d. deployed r pp tls d
         \<and> cs_deployments (snd (reconcileDeployment r E pp tls w)) = (cs_deployments w)(provider_key r pp \<mapsto> d))"
proof (cases "cs_deployments w (provider_key r pp)")
  case None
  have "deployed r pp tls (buildDeployment r pp tls)" by (simp add: deployed_def buildDeployment_def Let_def)
  moreover have "cs_deployments (snd (reconcileDeployment r E pp tls w)) = cs_deployments w
      \<or> cs_deployments (snd (reconcileDeployment r E pp tls w)) = (cs_deployments w)(provider_key r pp \<mapsto> buildDeployment r pp tls)"
    using None
    by (simp add: reconcileDeployment_def put_def fetch_def set_deployment_def provider_key_def
        buildDeployment_def Let_def split: option.splits)
  ultimately show ?thesis by blast
next
  case (Some x)
  define d where "d = x\<lparr>dep_replicas := 1, dep_podLabels := managedLabels pp ++ pp_podLabels (ppr_spec pp),
     dep_podAnnotations := pp_podAnnotations (ppr_spec pp), dep_pod := provider_pod pp tls\<rparr>"
  have "dep_namespace x = providerNamespace r pp" "dep_name x = providerDeploymentName pp"
    using assms Some by (simp_all add: deployments_named_def provider_key_def)
  then have "cs_deployments (snd (reconcileDeployment r E pp tls w)) = cs_deployments w
      \<or> cs_deployments (snd (reconcileDeployment r E pp tls w)) = (cs_deployments w)(provider_key r pp \<mapsto> d)"
    using Some
    by (simp add: reconcileDeployment_def put_def fetch_def set_deployment_def provider_key_def d_def
        buildDeployment_def Let_def split: option.splits)
  moreover have "deployed r pp tls d" by (simp add: deployed_def d_def)
  ultimately show ?thesis by blast
qed

section \<open>Nothing runs before the policies accept it\<close>

definition policies_accept :: "PlatformProviderReconciler \<Rightarrow> string list \<Rightarrow> PlatformProvider \<Rightarrow> bool" where
  "policies_accept r order pp \<longleftrightarrow>
     validateProviderPackagePolicy r pp = None \<and> verify_signature r pp = None
   \<and> validateProviderTransportPolicy r order pp = None \<and> validateProviderServiceAccountPolicy r pp = None"

lemma deploy_writes:
  assumes "deployments_named w"
  shows "cs_deployments (snd (deploy r E pp w)) = cs_deployments w
    \<or> (\<exists>tls d. tls_parts pp = Some tls \<and> deployed r pp tls d
         \<and> cs_deployments (snd (deploy r E pp w)) = (cs_deployments w)(provider_key r pp \<mapsto> d))"
proof (cases "tls_parts pp")
  case None
  then show ?thesis by (simp add: deploy_def)
next
  case (Some tls)
  obtain e1 w1 where d: "reconcileDeployment r E pp tls w = (e1, w1)" by fastforce
  obtain e2 w2 where s: "reconcileService r E pp w1 = (e2, w2)" by fastforce
  have "cs_deployments w2 = cs_deployments w1" using reconcileService_frame(1) [of r E pp w1] s by simp
  then have "cs_deployments (snd (deploy r E pp w)) = cs_deployments w1"
    by (auto simp: deploy_def Some d s split: option.splits)
  with reconcileDeployment_writes [OF assms, of r E pp tls] d Some show ?thesis by auto
qed

lemma failSignatureVerification_deployments:
  "cs_deployments (snd (failSignatureVerification r E pp reason w)) = cs_deployments w
   \<or> cs_deployments (snd (failSignatureVerification r E pp reason w)) = (cs_deployments w)(provider_key r pp := None)"
proof -
  obtain out w' where f: "failSignatureVerification r E pp reason w = (out, w')" by fastforce
  have unhealthy: "cs_deployments w2 = cs_deployments w1" if "setUnhealthy r E pp reason w1 = (o1, w2)" for o1 w1 w2
    using setUnhealthy_deployments [of r E pp reason w1] that by simp
  from f show ?thesis
    by (auto simp: failSignatureVerification_def Let_def put_def provider_key_def dest: unhealthy
        split: got.splits option.splits)
qed

lemma unverified_deployment_removed:
  assumes "failSignatureVerification r E pp reason w = (Inr d, w')"
  shows "cs_deployments w' (provider_key r pp) = None"
proof -
  have unhealthy: "cs_deployments w2 = cs_deployments w1" if "setUnhealthy r E pp reason w1 = (o1, w2)" for o1 w1 w2
    using setUnhealthy_deployments [of r E pp reason w1] that by simp
  from assms show ?thesis
    by (auto simp: failSignatureVerification_def Let_def put_def fetch_def provider_key_def dest: unhealthy
        split: got.splits option.splits)
qed

lemma reconcileProvider_writes:
  assumes "deployments_named w"
  shows "(cs_deployments (snd (reconcileProvider r E pp w)) = cs_deployments w)
    \<or> (cs_deployments (snd (reconcileProvider r E pp w)) = (cs_deployments w)(provider_key r pp := None))
    \<or> (\<exists>tls d. policies_accept r (ev_tlsOrder E) pp \<and> tls_parts pp = Some tls \<and> deployed r pp tls d
         \<and> cs_deployments (snd (reconcileProvider r E pp w)) = (cs_deployments w)(provider_key r pp \<mapsto> d))"
proof -
  consider (unsigned) reason where "validateProviderPackagePolicy r pp = None" "verify_signature r pp = Some reason"
    | (deploy) "policies_accept r (ev_tlsOrder E) pp"
    | (rejected) "cs_deployments (snd (reconcileProvider r E pp w)) = cs_deployments w"
    by (cases "validateProviderPackagePolicy r pp"; cases "verify_signature r pp";
        cases "validateProviderTransportPolicy r (ev_tlsOrder E) pp"; cases "validateProviderServiceAccountPolicy r pp")
      (auto simp: reconcileProvider_def policies_accept_def)
  then show ?thesis
  proof cases
    case unsigned
    with failSignatureVerification_deployments [of r E pp reason w] show ?thesis
      by (auto simp: reconcileProvider_def)
  next
    case deploy
    then have "reconcileProvider r E pp w = Provider_Controller.deploy r E pp w"
      by (simp add: reconcileProvider_def policies_accept_def)
    with deploy_writes [OF assms, of r E pp] deploy show ?thesis by auto
  qed simp
qed

lemma Reconcile_writes:
  assumes "Reconcile r E w = (out, w')" and "deployments_named w"
    and "cs_deployments w' k = Some d" and "cs_deployments w k \<noteq> Some d"
  obtains pp tls where "cs_provider w = Some pp" "ppr_deletionTimestamp pp = None" "k = provider_key r pp"
    "policies_accept r (ev_tlsOrder E) pp" "tls_parts pp = Some tls" "deployed r pp tls d"
proof -
  have new: "cs_deployments w' \<noteq> cs_deployments w" using assms(3,4) by auto
  have "\<exists>pp. cs_provider w = Some pp \<and> ppr_deletionTimestamp pp = None \<and> Reconcile r E w = reconcileProvider r E pp w"
  proof (rule ccontr)
    assume no: "\<not> ?thesis"
    have "cs_deployments (snd (Reconcile r E w)) = cs_deployments w"
      using no by (auto simp: Reconcile_def fetch_def put_def split: got.splits option.splits)
    with assms(1) new show False by simp
  qed
  then obtain pp where pp: "cs_provider w = Some pp" "ppr_deletionTimestamp pp = None"
      "Reconcile r E w = reconcileProvider r E pp w" by blast
  with assms(1) have w': "w' = snd (reconcileProvider r E pp w)" by (metis snd_conv)
  from reconcileProvider_writes [OF assms(2), of r E pp] new assms(3,4) w' obtain tls d' where
      "policies_accept r (ev_tlsOrder E) pp" "tls_parts pp = Some tls" "deployed r pp tls d'"
      "cs_deployments w' = (cs_deployments w)(provider_key r pp \<mapsto> d')"
    by (auto split: if_splits)
  moreover from this(4) assms(3,4) have "k = provider_key r pp" "d' = d" by (auto split: if_splits)
  ultimately show thesis using that pp by blast
qed

lemma provider_pod_restricted:
  "restricted_pod (provider_pod pp tls)" "mounts_resolve (provider_pod pp tls)" "volumes_distinct (provider_pod pp tls)"
  by (cases tls; simp add: restricted_pod_def restricted_container_def provider_pod_def provider_container_def
      pod_all_containers_def mounts_resolve_def volumes_distinct_def tls_volumes_def tls_mounts_def case_prod_beta)+

section \<open>Admission and the controller agree\<close>

definition policy_of :: "PlatformProviderReconciler \<Rightarrow> PlatformProviderAdmissionPolicy" where
  "policy_of r =
     \<lparr>pol_RequireMTLS = rc_RequireMTLS r, pol_RequireDigest = rc_RequireDigest r, pol_RequireSignature = rc_RequireSignature r,
      pol_AllowedRegistries = rc_AllowedRegistries r, pol_ProviderNamespace = rc_ProviderNamespace r,
      pol_RestrictServiceAccounts = rc_RestrictServiceAccounts r, pol_AllowedServiceAccounts = rc_AllowedServiceAccounts r,
      pol_ForbidServiceAccountToken = rc_ForbidServiceAccountToken r\<rparr>"

lemma stringAllowed_list_ex: "stringAllowed v xs \<longleftrightarrow> list_ex (\<lambda>c. trimSpace c = v) xs"
  by (induction xs) auto

lemma service_account_policies_agree:
  "validatePlatformProviderServiceAccountPolicy pp (policy_of r) = None \<longleftrightarrow> validateProviderServiceAccountPolicy r pp = None"
  by (simp add: validatePlatformProviderServiceAccountPolicy_def validateProviderServiceAccountPolicy_def Let_def
      policy_of_def stringAllowed_list_ex)

lemma package_policies_agree:
  assumes "pp_package (ppr_spec pp) \<noteq> ''''"
  shows "validatePlatformProviderPackagePolicy pp (policy_of r) = validateProviderPackagePolicy r pp"
  using assms
  by (simp add: validatePlatformProviderPackagePolicy_def validateProviderPackagePolicy_def Let_def policy_of_def
      pinned_def webhook_controller_packages split: option.split)

lemma transport_policies_agree:
  assumes "rc_ProviderNamespace r \<noteq> ''''" and "tls_order keys" and "tls_order order"
  shows "validatePlatformProviderTransportPolicy keys pp (policy_of r) = None \<longleftrightarrow>
    validateProviderTransportPolicy r order pp = None"
proof -
  have ns: "providerNamespace r pp = rc_ProviderNamespace r" using assms(1) by (simp add: providerNamespace_def)
  have mutual: "platformProviderMutualTLS pp = providerMutualTLS pp"
    by (simp add: platformProviderMutualTLS_def providerMutualTLS_def)
  show ?thesis
    using assms(1)
    by (simp add: validatePlatformProviderTransportPolicy_def validateProviderTransportPolicy_def mutual ns policy_of_def
        tls_refs_error_order [OF assms(2)] tls_refs_error_order [OF assms(3)] Let_def split: option.split)
qed

lemma transport_policy_tls_parts:
  "validateProviderTransportPolicy r order pp = None \<Longrightarrow> tls_parts pp \<noteq> None"
  by (auto simp: validateProviderTransportPolicy_def tls_parts_def split: option.splits)

section \<open>Registry and status\<close>

definition adapter_of :: "PlatformProvider \<Rightarrow> ControllerState \<Rightarrow> Plugin option" where
  "adapter_of pp w =
     (case cs_registry w of None \<Rightarrow> None
      | Some reg \<Rightarrow>
          (case External (ppr_name pp) (ppr_uid pp) (ppr_name pp) reg of Inl _ \<Rightarrow> None | Inr p \<Rightarrow> Some p))"

lemma adapter_of_cong:
  "cs_registry w = cs_registry w' \<Longrightarrow> ppr_name pp = ppr_name pp' \<Longrightarrow> ppr_uid pp = ppr_uid pp' \<Longrightarrow>
   adapter_of pp w = adapter_of pp' w'"
  by (simp add: adapter_of_def split: option.split)

lemma adapter_of_deregister [simp]: "adapter_of pp (deregister pp w) = None"
  by (auto simp: adapter_of_def deregister_def External_def DeregisterExternal_def split: option.splits)

lemma upd_pstatus_simps [simp]:
  "ppr_name (upd_pstatus f pp) = ppr_name pp" "ppr_uid (upd_pstatus f pp) = ppr_uid pp"
  "ppr_status (upd_pstatus f pp) = f (ppr_status pp)"
  by (simp_all add: upd_pstatus_def)

lemma mark_simps [simp]:
  "ppr_name (mark E ph c rs m pp) = ppr_name pp" "ppr_uid (mark E ph c rs m pp) = ppr_uid pp"
  "pps_phase (ppr_status (mark E ph c rs m pp)) = ph"
  "pps_capabilities (ppr_status (mark E ph c rs m pp)) = pps_capabilities (ppr_status pp)"
  by (simp_all add: mark_def)

lemma External_name: "External o1 u n reg = Inr p \<Longrightarrow> pl_name p = n"
  by (auto simp: External_def split: option.splits if_splits)

lemma register_adapter_Some:
  assumes "register_adapter pp p reg w = (None, w')" and "pl_name p = ppr_name pp"
  shows "adapter_of pp w' = Some p"
  using assms
  by (auto simp: register_adapter_def adapter_of_def External_def RegisterExternal_def Let_def closePlugin_def
      split: prod.splits option.splits if_splits)

text \<open>The status a step stores: that of the stored resource, with the status replaced.\<close>

definition stored_as :: "PlatformProvider \<Rightarrow> PlatformProviderStatus \<Rightarrow> ControllerState \<Rightarrow> bool" where
  "stored_as pp st w \<longleftrightarrow> cs_provider w = Some (pp\<lparr>ppr_status := st\<rparr>)"

lemma setUnhealthy_result:
  assumes "setUnhealthy r E pp reason w = (out, w')" and "cs_provider w = Some p0"
    and "ppr_name p0 = ppr_name pp" and "ppr_uid p0 = ppr_uid pp"
  shows "adapter_of p0 w' = None
    \<and> (\<exists>st. stored_as p0 st w' \<and> (pps_phase st \<noteq> ''Healthy'' \<or> st = ppr_status p0 \<and> (\<exists>err. out = Inl err)))"
proof -
  define st where "st = ppr_status (mark E ''Unhealthy'' ''False'' ''Error'' reason pp)"
  have none: "adapter_of p0 (set_gauge r pp v (deregister pp w)) = None" for v
    using adapter_of_deregister [of pp w] adapter_of_cong [of "set_gauge r pp v (deregister pp w)" "deregister pp w" p0 pp] assms(3,4)
    by simp
  have st: "pps_phase st \<noteq> ''Healthy''" by (simp add: st_def)
  show ?thesis
  proof (cases "ev_fault E UpdateStatus")
    case None
    with assms have "w' = set_status st (set_gauge r pp (Some 0) (deregister pp w))"
      by (simp add: setUnhealthy_def put_def Let_def st_def)
    with none st assms(2) show ?thesis by (auto simp: adapter_of_def stored_as_def set_status_def)
  next
    case (Some err)
    with assms have "w' = set_gauge r pp (Some 0) (deregister pp w)" "out = Inl (wrapf ''update status to Unhealthy: '' err)"
      by (simp_all add: setUnhealthy_def put_def Let_def)
    with none assms(2) show ?thesis by (auto simp: stored_as_def intro!: exI [of _ "ppr_status p0"])
  qed
qed

text \<open>A healthy status names the provider by its resource: what a handshake establishes and every step
  keeps, so that the later checks find the adapter.\<close>

definition caps_named :: "PlatformProvider \<Rightarrow> bool" where
  "caps_named pp \<longleftrightarrow>
     (pps_phase (ppr_status pp) = ''Healthy'' \<longrightarrow>
        (\<exists>c. pps_capabilities (ppr_status pp) = Some c \<and> cap_providerName c = ppr_name pp))"

definition linked :: "PlatformProvider \<Rightarrow> ControllerState \<Rightarrow> bool" where
  "linked pp w \<longleftrightarrow> (pps_phase (ppr_status pp) = ''Healthy'' \<longleftrightarrow> adapter_of pp w \<noteq> None)"

lemma stored_as_linked:
  assumes "stored_as p0 st w'" and "cs_provider w' = Some p1"
  shows "p1 = p0\<lparr>ppr_status := st\<rparr>"
  using assms by (simp add: stored_as_def)

lemma setUnhealthy_linked:
  assumes "setUnhealthy r E pp reason w = (out, w')" and "cs_provider w = Some p0" and "caps_named p0"
    and "ppr_name p0 = ppr_name pp" and "ppr_uid p0 = ppr_uid pp"
  shows "\<exists>p1. cs_provider w' = Some p1 \<and> caps_named p1 \<and> ppr_name p1 = ppr_name p0
    \<and> (\<forall>d. out = Inr d \<longrightarrow> linked p1 w')"
proof -
  from setUnhealthy_result [OF assms(1,2,4,5)] obtain st where
      none: "adapter_of p0 w' = None" and stored: "cs_provider w' = Some (p0\<lparr>ppr_status := st\<rparr>)"
    and st: "pps_phase st \<noteq> ''Healthy'' \<or> st = ppr_status p0 \<and> (\<exists>err. out = Inl err)"
    by (auto simp: stored_as_def)
  have "adapter_of (p0\<lparr>ppr_status := st\<rparr>) w' = None"
    using none adapter_of_cong [of w' w' "p0\<lparr>ppr_status := st\<rparr>" p0] by simp
  with stored st assms(3) show ?thesis by (auto simp: caps_named_def linked_def)
qed

lemma update_status_linked:
  assumes "update_status E pp w = (out, w')" and "cs_provider w = Some p0" and "caps_named p0" and "caps_named pp"
    and "ppr_name p0 = ppr_name pp" and "ppr_uid p0 = ppr_uid pp" and "linked pp w"
  shows "\<exists>p1. cs_provider w' = Some p1 \<and> caps_named p1 \<and> ppr_name p1 = ppr_name p0
    \<and> (\<forall>d. out = Inr d \<longrightarrow> linked p1 w')"
proof (cases "ev_fault E UpdateStatus")
  case None
  let ?p1 = "p0\<lparr>ppr_status := ppr_status pp\<rparr>"
  from None assms(1) have w': "w' = set_status (ppr_status pp) w" by (simp add: update_status_def put_def)
  have "adapter_of ?p1 w' = adapter_of pp w" using w' assms(5,6) by (intro adapter_of_cong) simp_all
  with w' assms show ?thesis by (auto simp: caps_named_def linked_def set_status_def)
next
  case (Some err)
  with assms(1-3) show ?thesis by (auto simp: update_status_def put_def)
qed

lemma reconnect_linked:
  assumes "reconnect r E pp (ppr_name pp) reg w = (Inr p, w')"
  shows "adapter_of pp w' = Some p" and "cs_provider w' = cs_provider w"
  using assms
  by (auto simp: reconnect_def dest: register_adapter_Some register_adapter_frame
      split: sum.splits if_splits prod.splits option.splits)

lemma healthCheck_linked:
  assumes "healthCheckRegisteredProvider r E pp w = (None, w')" and "cs_registry w \<noteq> None"
    and "pps_phase (ppr_status pp) = ''Healthy''" and "caps_named pp" and "ppr_name pp \<noteq> ''''"
  shows "adapter_of pp w' \<noteq> None"
proof -
  from assms(2-4) obtain reg c where "cs_registry w = Some reg" "pps_capabilities (ppr_status pp) = Some c"
      "cap_providerName c = ppr_name pp" by (auto simp: caps_named_def)
  with assms(1,5) show ?thesis
    by (auto simp: healthCheckRegisteredProvider_def adapter_of_def dest: reconnect_linked(1)
        split: sum.splits prod.splits)
qed

lemma handshake_linked:
  assumes "handshake r E pp w = (Inr pp', w')" and "cs_registry w \<noteq> None"
  shows "adapter_of pp w' \<noteq> None" and "ppr_name pp' = ppr_name pp" and "ppr_uid pp' = ppr_uid pp"
    and "\<exists>c. pps_capabilities (ppr_status pp') = Some c \<and> cap_providerName c = ppr_name pp"
  using assms
  by (auto simp: handshake_def Let_def capabilitiesFromPlugin_def dest: register_adapter_Some
      split: sum.splits option.splits if_splits prod.splits)

lemma handshake_names:
  "handshake r E pp w = (Inl (reason, pp'), w') \<Longrightarrow> ppr_name pp' = ppr_name pp \<and> ppr_uid pp' = ppr_uid pp"
  by (auto simp: handshake_def Let_def split: sum.splits option.splits if_splits prod.splits)

lemma reconcileReady_linked:
  assumes "reconcileReady r E pp w = (out, w')" and "cs_provider w = Some pp" and "caps_named pp"
    and "ppr_name pp \<noteq> ''''" and "cs_registry w \<noteq> None"
  shows "\<exists>p1. cs_provider w' = Some p1 \<and> caps_named p1 \<and> ppr_name p1 = ppr_name pp
    \<and> (\<forall>d. out = Inr d \<longrightarrow> linked p1 w')"
proof (cases "pps_phase (ppr_status pp) = ''Healthy''")
  case True
  obtain e w1 where h: "healthCheckRegisteredProvider r E pp w = (e, w1)" by fastforce
  have p: "cs_provider w1 = Some pp" using healthCheck_frame(2) [of r E pp w] h assms(2) by simp
  show ?thesis
  proof (cases e)
    case None
    with True h assms(1) have "w' = set_gauge r pp (Some 1) w1" by (simp add: reconcileReady_def)
    moreover have "adapter_of pp w1 \<noteq> None"
      using healthCheck_linked [OF h [unfolded None] assms(5) True assms(3,4)] .
    moreover have "adapter_of pp (set_gauge r pp (Some 1) w1) = adapter_of pp w1"
      by (rule adapter_of_cong) simp_all
    ultimately show ?thesis using p assms(3) True by (auto simp: linked_def)
  next
    case (Some err)
    with True h assms(1) have "setUnhealthy r E pp (''provider health check failed: '' @ err_msg err) w1 = (out, w')"
      by (simp add: reconcileReady_def)
    from setUnhealthy_linked [OF this p assms(3)] show ?thesis by simp
  qed
next
  case False
  obtain res w1 where h: "handshake r E pp w = (res, w1)" by fastforce
  have p: "cs_provider w1 = Some pp" using handshake_frame(2) [of r E pp w] h assms(2) by simp
  show ?thesis
  proof (cases res)
    case (Inl bad)
    obtain reason pp1 where bad: "bad = (reason, pp1)" by fastforce
    have names: "ppr_name pp = ppr_name pp1" "ppr_uid pp = ppr_uid pp1"
      using handshake_names [OF h [unfolded Inl bad]] by simp_all
    from False h Inl bad assms(1) have "setUnhealthy r E pp1 reason w1 = (out, w')" by (simp add: reconcileReady_def)
    from setUnhealthy_linked [OF this p assms(3) names] show ?thesis by simp
  next
    case (Inr pp1)
    let ?m = "mark E ''Healthy'' ''True'' ''DeploymentReady'' ''Provider deployment has ready replicas'' pp1"
    note ok = handshake_linked [OF h [unfolded Inr] assms(5)]
    from False h Inr assms(1) have upd: "update_status E ?m (set_gauge r pp (Some 1) w1) = (out, w')"
      by (simp add: reconcileReady_def)
    have "adapter_of ?m (set_gauge r pp (Some 1) w1) = adapter_of pp w1"
      using ok(2,3) by (intro adapter_of_cong) simp_all
    then have "linked ?m (set_gauge r pp (Some 1) w1)" using ok(1) by (simp add: linked_def)
    moreover have "caps_named ?m" using ok(2,4) by (auto simp: caps_named_def)
    ultimately show ?thesis
      using update_status_linked [OF upd, of pp] p assms(3) ok(2,3) by simp
  qed
qed

lemma reconcileNotReady_linked:
  assumes "reconcileNotReady r E pp w = (out, w')" and "cs_provider w = Some pp" and "caps_named pp"
  shows "\<exists>p1. cs_provider w' = Some p1 \<and> caps_named p1 \<and> ppr_name p1 = ppr_name pp
    \<and> (\<forall>d. out = Inr d \<longrightarrow> linked p1 w')"
proof -
  let ?w = "set_gauge r pp (Some 0) (deregister pp w)"
  obtain m where upd: "update_status E m ?w = (out, w')"
      and m: "ppr_name m = ppr_name pp" "ppr_uid m = ppr_uid pp" "pps_phase (ppr_status m) \<noteq> ''Healthy''"
    using assms(1) by (auto simp: reconcileNotReady_def Let_def split: if_splits)
  have "adapter_of m ?w = adapter_of pp (deregister pp w)"
    by (rule adapter_of_cong) (simp_all add: m)
  then have "linked m ?w" using m(3) by (simp add: linked_def)
  moreover have "caps_named m" using m(3) by (simp add: caps_named_def)
  ultimately show ?thesis
    using update_status_linked [OF upd, of pp] assms(2,3) m by simp
qed

lemma reconcileHealth_linked:
  assumes "reconcileHealth r E pp w = (out, w')" and "cs_provider w = Some pp" and "caps_named pp"
    and "ppr_name pp \<noteq> ''''" and "cs_registry w \<noteq> None"
  shows "\<exists>p1. cs_provider w' = Some p1 \<and> caps_named p1 \<and> ppr_name p1 = ppr_name pp
    \<and> (\<forall>d. out = Inr d \<longrightarrow> linked p1 w')"
proof -
  consider reason where "setUnhealthy r E pp reason w = (out, w')" | "reconcileReady r E pp w = (out, w')"
    | "reconcileNotReady r E pp w = (out, w')"
    using assms(1) by (auto simp: reconcileHealth_def split: got.splits if_splits)
  then show ?thesis
  proof cases
    case 1
    from setUnhealthy_linked [OF this assms(2,3)] show ?thesis by simp
  next
    case 2
    from reconcileReady_linked [OF this assms(2-5)] show ?thesis .
  next
    case 3
    from reconcileNotReady_linked [OF this assms(2,3)] show ?thesis .
  qed
qed

text \<open>What a reconciliation of a live resource leaves: the capabilities name it, and when it returns without an
  error, status and registry agree.\<close>

definition settled :: "PlatformProvider \<Rightarrow> outcome \<Rightarrow> ControllerState \<Rightarrow> bool" where
  "settled pp out w' \<longleftrightarrow>
     (\<exists>p1. cs_provider w' = Some p1 \<and> caps_named p1 \<and> ppr_name p1 = ppr_name pp
        \<and> (\<forall>d. out = Inr d \<longrightarrow> linked p1 w'))"

lemma reconcileProvider_linked:
  assumes "reconcileProvider r E pp w = (out, w')" and "cs_provider w = Some pp" and "caps_named pp"
    and "ppr_name pp \<noteq> ''''" and "cs_registry w \<noteq> None"
  shows "settled pp out w'"
proof -
  have unhealthy: ?thesis if "setUnhealthy r E pp reason w1 = (out, w')" "cs_provider w1 = cs_provider w" for reason w1
    unfolding settled_def using setUnhealthy_linked [OF that(1), of pp] that(2) assms(2,3) by simp
  have same: "settled pp (Inl err) w" for err
    unfolding settled_def using assms(2,3) by simp
  have signature: ?thesis if "failSignatureVerification r E pp reason w = (out, w')" for reason
    using that same
    by (auto simp: failSignatureVerification_def Let_def put_def intro: unhealthy split: got.splits option.splits)
  have deploy: ?thesis if deploy: "deploy r E pp w = (out, w')"
  proof (cases "tls_parts pp")
    case None
    with deploy same show ?thesis by (auto simp: deploy_def)
  next
    case (Some tls)
    obtain e1 w1 where d: "reconcileDeployment r E pp tls w = (e1, w1)" by fastforce
    obtain e2 w2 where s: "reconcileService r E pp w1 = (e2, w2)" by fastforce
    have w1: "cs_provider w1 = cs_provider w" "cs_registry w1 = cs_registry w"
      using reconcileDeployment_frame [of r E pp tls w] d by simp_all
    then have w2: "cs_provider w2 = cs_provider w" "cs_registry w2 = cs_registry w"
      using reconcileService_frame [of r E pp w1] s by simp_all
    from deploy Some d s consider reason where "setUnhealthy r E pp reason w1 = (out, w')"
      | reason where "setUnhealthy r E pp reason w2 = (out, w')" | "reconcileHealth r E pp w2 = (out, w')"
      by (auto simp: deploy_def split: option.splits)
    then show ?thesis
    proof cases
      case 3
      from reconcileHealth_linked [OF this _ assms(3,4)] w2 assms(2,5) show ?thesis
        unfolding settled_def by simp
    qed (use unhealthy w1 w2 in blast)+
  qed
  show ?thesis
    using assms(1) unhealthy signature deploy
    by (auto simp: reconcileProvider_def split: option.splits)
qed

section \<open>Runs of the controller\<close>

text \<open>What happens to one resource and its registry: users create it (with an empty status), edit it and
  ask for its deletion, other controllers change Deployments and Services, the operator restarts with
  an empty registry, and this controller reconciles.\<close>

inductive controller_run :: "PlatformProviderReconciler \<Rightarrow> ControllerState \<Rightarrow> bool" for r where
  run_install:
    "controller_run r \<lparr>cs_provider = None, cs_deployments = Map.empty, cs_services = Map.empty,
       cs_registry = Some NewRegistry, cs_gauge = Map.empty, cs_closed = []\<rparr>"
| run_create:
    "controller_run r w \<Longrightarrow> cs_provider w = None \<Longrightarrow> ppr_name pp \<noteq> '''' \<Longrightarrow> pps_phase (ppr_status pp) = '''' \<Longrightarrow>
     controller_run r (w\<lparr>cs_provider := Some pp\<rparr>)"
| run_edit:
    "controller_run r w \<Longrightarrow> cs_provider w = Some pp \<Longrightarrow>
     controller_run r (w\<lparr>cs_provider := Some (pp\<lparr>ppr_spec := spec, ppr_deletionTimestamp := dt\<rparr>)\<rparr>)"
| run_cluster: "controller_run r w \<Longrightarrow> controller_run r (w\<lparr>cs_deployments := ds, cs_services := ss\<rparr>)"
| run_restart: "controller_run r w \<Longrightarrow> controller_run r (w\<lparr>cs_registry := Some NewRegistry\<rparr>)"
| run_reconcile: "controller_run r w \<Longrightarrow> Reconcile r E w = (out, w') \<Longrightarrow> controller_run r w'"

inductive_cases controller_stepE: "controller_run r w"

definition run_inv :: "ControllerState \<Rightarrow> bool" where
  "run_inv w \<longleftrightarrow> cs_registry w \<noteq> None
     \<and> (\<forall>pp. cs_provider w = Some pp \<longrightarrow> caps_named pp \<and> ppr_name pp \<noteq> '''')"

lemma register_adapter_registry: "cs_registry (snd (register_adapter pp p reg w)) \<noteq> None"
  by (auto simp: register_adapter_def split: prod.splits option.splits)

lemma registry_kept:
  assumes "cs_registry w \<noteq> None"
  shows "cs_registry (snd (setUnhealthy r E pp reason w)) \<noteq> None"
    and "cs_registry (snd (update_status E pp w)) \<noteq> None"
    and "cs_registry (snd (handshake r E pp w)) \<noteq> None"
    and "cs_registry (snd (healthCheckRegisteredProvider r E pp w)) \<noteq> None"
    and "cs_registry (snd (reconcileDelete r E pp w)) \<noteq> None"
  using assms
  by (auto simp: setUnhealthy_def update_status_def handshake_def healthCheckRegisteredProvider_def reconnect_def
      reconcileDelete_def put_def Let_def deregister_def register_adapter_def
      split: option.splits sum.splits prod.splits if_splits)

lemma registry_kept_provider:
  assumes "cs_registry w \<noteq> None"
  shows "cs_registry (snd (reconcileReady r E pp w)) \<noteq> None"
    and "cs_registry (snd (reconcileNotReady r E pp w)) \<noteq> None"
    and "cs_registry (snd (reconcileHealth r E pp w)) \<noteq> None"
    and "cs_registry (snd (failSignatureVerification r E pp reason w)) \<noteq> None"
proof -
  obtain o1 w1 where h: "handshake r E pp w = (o1, w1)" by fastforce
  obtain o2 w2 where c: "healthCheckRegisteredProvider r E pp w = (o2, w2)" by fastforce
  have "cs_registry w1 \<noteq> None" "cs_registry w2 \<noteq> None"
    using registry_kept(3,4) [OF assms, of r E pp] h c by simp_all
  then show ready: "cs_registry (snd (reconcileReady r E pp w)) \<noteq> None"
    using registry_kept(1,2)
    by (simp add: reconcileReady_def h c split: option.splits sum.splits prod.splits)
  show notready: "cs_registry (snd (reconcileNotReady r E pp w)) \<noteq> None"
    unfolding reconcileNotReady_def Let_def by (rule registry_kept(2)) (use assms in \<open>simp add: deregister_def\<close>)
  show "cs_registry (snd (reconcileHealth r E pp w)) \<noteq> None"
    using ready notready registry_kept(1) [OF assms] by (simp add: reconcileHealth_def split: got.splits)
  show "cs_registry (snd (failSignatureVerification r E pp reason w)) \<noteq> None"
    using assms registry_kept(1)
    by (auto simp: failSignatureVerification_def Let_def put_def split: got.splits option.splits)
qed

lemma registry_kept_reconcileProvider:
  assumes "cs_registry w \<noteq> None"
  shows "cs_registry (snd (reconcileProvider r E pp w)) \<noteq> None"
proof -
  have "cs_registry (snd (deploy r E pp w)) \<noteq> None"
  proof (cases "tls_parts pp")
    case None
    with assms show ?thesis by (simp add: deploy_def)
  next
    case (Some tls)
    obtain e1 w1 where d: "reconcileDeployment r E pp tls w = (e1, w1)" by fastforce
    obtain e2 w2 where s: "reconcileService r E pp w1 = (e2, w2)" by fastforce
    have "cs_registry w1 \<noteq> None" using reconcileDeployment_frame(1) [of r E pp tls w] d assms by simp
    moreover from this have "cs_registry w2 \<noteq> None" using reconcileService_frame(2) [of r E pp w1] s by simp
    ultimately show ?thesis
      using registry_kept(1) registry_kept_provider(3) by (simp add: deploy_def Some d s split: option.splits)
  qed
  with registry_kept(1) [OF assms] registry_kept_provider(4) [OF assms] show ?thesis
    by (simp add: reconcileProvider_def split: option.splits)
qed

lemma Reconcile_run_inv:
  assumes "Reconcile r E w = (out, w')" and "run_inv w"
  shows "run_inv w'"
proof (cases "cs_provider w")
  case None
  with assms show ?thesis by (auto simp: Reconcile_def fetch_def split: option.splits)
next
  case (Some pp)
  have reg: "cs_registry w \<noteq> None" and pp: "caps_named pp" "ppr_name pp \<noteq> ''''"
    using assms(2) Some by (simp_all add: run_inv_def)
  have set: "run_inv (set_provider pp1 w1)"
    if "cs_registry w1 \<noteq> None" "cs_provider w1 = Some pp" "ppr_name pp1 = ppr_name pp" for pp1 w1
    using that pp by (auto simp: run_inv_def set_provider_def caps_named_def split: if_splits)
  have provider: "run_inv w'" if rec: "reconcileProvider r E pp w = (out, w')"
    using reconcileProvider_linked [OF rec Some pp reg] registry_kept_reconcileProvider [OF reg, of r E pp] rec pp(2)
    by (auto simp: settled_def run_inv_def)
  have delete: "run_inv w'" if "reconcileDelete r E pp w = (out, w')"
  proof -
    let ?w1 = "set_gauge r pp None (deregister pp w)"
    let ?pp1 = "pp\<lparr>ppr_finalizers := filter (\<lambda>f. f \<noteq> providerFinalizerName) (ppr_finalizers pp)\<rparr>"
    have w1: "cs_registry ?w1 \<noteq> None" "cs_provider ?w1 = Some pp" using reg Some by (simp_all add: deregister_def)
    then have "run_inv ?w1" using pp by (simp add: run_inv_def)
    moreover have "run_inv (set_provider ?pp1 ?w1)" by (rule set [OF w1]) simp
    ultimately show ?thesis
      using that by (auto simp: reconcileDelete_def put_def Let_def split: option.splits)
  qed
  have add: "run_inv (set_provider (pp\<lparr>ppr_finalizers := fs\<rparr>) w)" for fs
    by (rule set [OF reg Some]) simp
  from assms(1) show ?thesis
    using Some provider delete add assms(2)
    by (auto simp: Reconcile_def fetch_def put_def split: option.splits if_splits)
qed

lemma controller_run_inv: "controller_run r w \<Longrightarrow> run_inv w"
proof (induction rule: controller_run.induct)
  case (run_reconcile w E out w')
  from Reconcile_run_inv [OF run_reconcile(2,3)] show ?case .
qed (auto simp: run_inv_def caps_named_def)

section \<open>Properties\<close>

text \<open>C24: Status and registry agree: at every point of a run of the controller, a reconciliation of a live
  resource that returns without an error leaves the resource Healthy exactly when its adapter, of
  this resource generation and under the resource's name, is in the registry, whatever the API
  server, the provider or the signature policy answered.\<close>

theorem healthy_iff_adapter_registered:
  assumes "controller_run r w" and "Reconcile r E w = (Inr d, w')" and "cs_provider w = Some pp"
    and "ppr_deletionTimestamp pp = None" and "providerFinalizerName \<in> set (ppr_finalizers pp)"
    and "ev_fault E GetProvider = None"
  shows "\<exists>pp'. cs_provider w' = Some pp' \<and> ppr_name pp' = ppr_name pp
    \<and> (pps_phase (ppr_status pp') = ''Healthy'' \<longleftrightarrow> adapter_of pp' w' \<noteq> None)"
proof -
  from controller_run_inv [OF assms(1)] assms(3) have
    "caps_named pp" "ppr_name pp \<noteq> ''''" "cs_registry w \<noteq> None" by (simp_all add: run_inv_def)
  moreover from assms(2-) have "reconcileProvider r E pp w = (Inr d, w')"
    by (simp add: Reconcile_def fetch_def)
  ultimately have "settled pp (Inr d) w'" using reconcileProvider_linked assms(3) by blast
  then show ?thesis by (auto simp: settled_def linked_def)
qed

text \<open>The witnesses: an enforcing policy with a fail-closed webhook, and a provider that is to be
  verified.\<close>

definition ex_accessors :: "unit Accessors" where
  "ex_accessors =
     \<lparr>un_string = (\<lambda>p path. Some ''Enforce''), un_bool = (\<lambda>p path. Some True), un_slice = (\<lambda>p path. Some [()]),
      un_strings = (\<lambda>p path. if path = [''resources'', ''kinds''] then Some [''Pod'']
                     else if path = [''imageReferences''] then Some [''ghcr.io/*''] else None),
      un_stringMap = (\<lambda>p path. Some managedPodLabels), un_present = (\<lambda>p path. False), un_isMap = (\<lambda>p. True)\<rparr>"

definition ex_verifier :: "(unit, unit) Verifier" where
  "ex_verifier =
     \<lparr>ver_PolicyName = ''sig'', ver_ProviderNamespace = ''ib'', ver_getPolicy = (\<lambda>n. Inr ()),
      ver_listWebhooks = Inr [\<lparr>whc_name = ''kyverno'', whc_webhooks =
        [\<lparr>wh_name = ''v'', wh_failurePolicy = Some ''Fail'', wh_service = Some (''svc'', ''kyverno''), wh_url = None,
          wh_namespaceSelector = None, wh_objectSelector = None,
          wh_rules = [\<lparr>rwo_operations = [''CREATE''], rwo_resources = [''pods'']\<rparr>]\<rparr>]\<rparr>],
      ver_getNamespace = (\<lambda>n. Inr Map.empty), ver_un = ex_accessors, ver_compile = (\<lambda>s. None)\<rparr>"

lemma ex_accessors_simps:
  "un_string ex_accessors p path = Some ''Enforce''" "un_bool ex_accessors p path = Some True"
  "un_slice ex_accessors p path = Some [()]" "un_present ex_accessors p path = False" "un_isMap ex_accessors p"
  "un_stringMap ex_accessors p path = Some managedPodLabels"
  "un_strings ex_accessors p [''resources'', ''kinds''] = Some [''Pod'']"
  "un_strings ex_accessors p [''resources'', ''operations''] = None"
  "un_strings ex_accessors p [''imageReferences''] = Some [''ghcr.io/*'']"
  by (simp_all add: ex_accessors_def)

lemma ex_verify: "Verify ex_verifier ''ghcr.io/aws@sha256:0'' = None"
proof -
  have strings: "trimSpace ''sig'' \<noteq> ''''" "trimSpace ''ghcr.io/aws@sha256:0'' \<noteq> ''''"
      "contains ''ghcr.io/aws@sha256:0'' ''@sha256:''" "equalFold ''Enforce'' ''Enforce''"
      "containsResource [''Pod''] ''Pod''" "containsResource [''pods''] ''pods''" "namesKyverno ''kyverno''"
      "imageReferenceMatches ''ghcr.io/aws@sha256:0'' [''ghcr.io/*'']"
      "get_str managedPodLabels managedByLabel = ''imagebuilder''" "get_str managedPodLabels providerPodLabel = ''true''"
    by code_simp+
  have "ruleVerifies ex_accessors ''ghcr.io/aws@sha256:0'' ()"
    by (simp add: ruleVerifies_def ruleMatchesManagedPods_def matchesManagedPods_def ruleHasExclusions_def
        imageVerificationIsFailClosed_def ex_accessors_simps strings
      del: containsResource.simps imageReferenceMatches.simps)
  then have "validatePolicy ex_accessors () ''ghcr.io/aws@sha256:0'' = None"
    by (simp add: validatePolicy_def ex_accessors_simps strings del: equalFold.simps)
  then show ?thesis
    by (simp add: Verify_def ex_verifier_def providerNamespaceLabels_def strings isKyvernoWebhook_def validateWebhook_def
        webhookIntercepts_def selectorMatches_def ruleMatchesPods_def del: containsResource.simps contains.simps)
qed

definition ex_reconciler :: PlatformProviderReconciler where
  "ex_reconciler =
     \<lparr>rc_ProviderNamespace = ''ib'', rc_RequireMTLS = False, rc_RequireDigest = True, rc_RequireSignature = True,
      rc_AllowedRegistries = [''ghcr.io''], rc_RestrictServiceAccounts = False, rc_AllowedServiceAccounts = [],
      rc_ForbidServiceAccountToken = False, rc_SignatureVerifier = Some (Verify ex_verifier), rc_ConnectProvider = None\<rparr>"

definition ex_provider :: "strmap \<Rightarrow> PlatformProvider" where
  "ex_provider ls =
     \<lparr>ppr_name = ''aws'', ppr_namespace = '''', ppr_uid = ''u1'', ppr_finalizers = [providerFinalizerName],
      ppr_deletionTimestamp = None,
      ppr_spec = \<lparr>pp_package = ''ghcr.io/aws@sha256:0'', pp_packagePullPolicy = '''', pp_packagePullSecrets = [],
        pp_controllerConfigRef = None,
        pp_security = Some \<lparr>pps_allowedRegistries = [], pps_requireDigest = True, pps_verifySignature = True\<rparr>,
        pp_transport = None, pp_serviceAccountName = '''', pp_automountServiceAccountToken = None,
        pp_podLabels = ls, pp_podAnnotations = Map.empty, pp_env = []\<rparr>,
      ppr_status = \<lparr>pps_phase = '''', pps_currentRevision = '''', pps_capabilities = None, pps_conditions = []\<rparr>\<rparr>"

definition ex_environment :: Environment where
  "ex_environment =
     \<lparr>ev_fault = (\<lambda>s. None), ev_secret = (\<lambda>ns n k. Inl (errorf ''none'')), ev_tlsOrder = [], ev_setOwner = None,
      ev_connect = (\<lambda>a c. Inl (errorf ''down'')), ev_healthCheck = (\<lambda>p. None), ev_now = 0\<rparr>"

definition ex_installed :: ControllerState where
  "ex_installed =
     \<lparr>cs_provider = None, cs_deployments = Map.empty, cs_services = Map.empty,
      cs_registry = Some NewRegistry, cs_gauge = Map.empty, cs_closed = []\<rparr>"

lemma ex_run: "controller_run ex_reconciler (ex_installed\<lparr>cs_provider := Some (ex_provider ls)\<rparr>)"
  unfolding ex_installed_def by (intro run_create run_install) (simp_all add: ex_provider_def)

lemma ex_policies: "policies_accept ex_reconciler order (ex_provider ls)"
proof -
  have "contains ''ghcr.io/aws@sha256:0'' ''@sha256:''" by code_simp
  moreover have "providerPackageAllowed ''ghcr.io/aws@sha256:0'' [''ghcr.io'']" by code_simp
  moreover note ex_verify
  ultimately show ?thesis
    by (simp add: policies_accept_def validateProviderPackagePolicy_def verify_signature_def verifies_signature_def
        validateProviderTransportPolicy_def validateProviderServiceAccountPolicy_def providerMutualTLS_def tls_spec_def
        bad_tls_mode_def ex_reconciler_def ex_provider_def Let_def)
qed

lemma ex_first_reconcile:
  "\<exists>w'. Reconcile ex_reconciler ex_environment (ex_installed\<lparr>cs_provider := Some (ex_provider ls)\<rparr>) = (Inr healthInterval, w')
     \<and> cs_deployments w' = [(''ib'', ''provider-aws'') \<mapsto> buildDeployment ex_reconciler (ex_provider ls) None]"
proof -
  have "providerMutualTLS (ex_provider ls) = None"
    by (simp add: ex_provider_def providerMutualTLS_def tls_spec_def)
  then show ?thesis
    using ex_policies [of "[]" ls]
    by (simp add: Reconcile_def fetch_def put_def reconcileProvider_def policies_accept_def ex_environment_def
        ex_installed_def deploy_def tls_parts_def reconcileDeployment_def reconcileService_def reconcileHealth_def
        reconcileNotReady_def update_status_def Let_def set_deployment_def set_service_def buildDeployment_def
        buildService_def providerDeploymentName_def providerServiceName_def providerNamespace_def ex_reconciler_def)
      (simp add: ex_provider_def)
qed

theorem healthy_iff_adapter_registered_witness:
  "\<exists>pp'. cs_provider (snd (Reconcile ex_reconciler ex_environment (ex_installed\<lparr>cs_provider := Some (ex_provider Map.empty)\<rparr>))) = Some pp'
     \<and> ppr_name pp' = ''aws''"
proof -
  let ?w = "ex_installed\<lparr>cs_provider := Some (ex_provider Map.empty)\<rparr>"
  obtain w' where rec: "Reconcile ex_reconciler ex_environment ?w = (Inr healthInterval, w')"
    using ex_first_reconcile by blast
  from healthy_iff_adapter_registered [OF ex_run rec, of "ex_provider Map.empty"] show ?thesis
    by (auto simp: rec) (auto simp: ex_provider_def ex_environment_def)
qed

text \<open>C25: Only what the policies accept is run: a Deployment that a reconciliation creates or changes is the
  provider's own, runs exactly its package in a restricted Pod with mounts that resolve, and package,
  signature, transport and service account policy all accepted the resource; and when the signature is
  what fails, a reconciliation without an error leaves no Deployment of the provider behind.\<close>

theorem deployment_only_after_policies:
  assumes "Reconcile r E w = (out, w')" and "deployments_named w"
  shows "(\<forall>k d. cs_deployments w' k = Some d \<and> cs_deployments w k \<noteq> Some d \<longrightarrow>
       (\<exists>pp tls. cs_provider w = Some pp \<and> ppr_deletionTimestamp pp = None \<and> k = provider_key r pp
          \<and> policies_accept r (ev_tlsOrder E) pp \<and> deployed r pp tls d
          \<and> map ctr_image (pod_all_containers (dep_pod d)) = [pp_package (ppr_spec pp)]
          \<and> restricted_pod (dep_pod d) \<and> mounts_resolve (dep_pod d) \<and> volumes_distinct (dep_pod d)))
   \<and> (\<forall>pp reason n. cs_provider w = Some pp \<and> ppr_deletionTimestamp pp = None
        \<and> providerFinalizerName \<in> set (ppr_finalizers pp) \<and> validateProviderPackagePolicy r pp = None
        \<and> verify_signature r pp = Some reason \<and> ev_fault E GetProvider = None \<and> out = Inr n \<longrightarrow>
        cs_deployments w' (provider_key r pp) = None)"
proof (intro conjI allI impI; elim conjE)
  fix k d
  assume "cs_deployments w' k = Some d" "cs_deployments w k \<noteq> Some d"
  from Reconcile_writes [OF assms this] obtain pp tls where
      *: "cs_provider w = Some pp" "ppr_deletionTimestamp pp = None" "k = provider_key r pp"
         "policies_accept r (ev_tlsOrder E) pp" "deployed r pp tls d" by metis
  then have "dep_pod d = provider_pod pp tls" by (simp add: deployed_def)
  with * provider_pod_restricted [of pp tls] show "\<exists>pp tls. cs_provider w = Some pp \<and> ppr_deletionTimestamp pp = None
      \<and> k = provider_key r pp \<and> policies_accept r (ev_tlsOrder E) pp \<and> deployed r pp tls d
      \<and> map ctr_image (pod_all_containers (dep_pod d)) = [pp_package (ppr_spec pp)]
      \<and> restricted_pod (dep_pod d) \<and> mounts_resolve (dep_pod d) \<and> volumes_distinct (dep_pod d)"
    by (intro exI [of _ pp] exI [of _ tls])
      (simp add: provider_pod_def provider_container_def pod_all_containers_def)
next
  fix pp reason n
  assume *: "cs_provider w = Some pp" "ppr_deletionTimestamp pp = None" "providerFinalizerName \<in> set (ppr_finalizers pp)"
     "validateProviderPackagePolicy r pp = None" "verify_signature r pp = Some reason" "ev_fault E GetProvider = None"
     "out = Inr n"
  then have "failSignatureVerification r E pp reason w = (Inr n, w')"
    using assms(1) by (simp add: Reconcile_def fetch_def reconcileProvider_def)
  then show "cs_deployments w' (provider_key r pp) = None" by (rule unverified_deployment_removed)
qed

theorem deployment_only_after_policies_witness:
  "\<exists>d. cs_deployments (snd (Reconcile ex_reconciler ex_environment (ex_installed\<lparr>cs_provider := Some (ex_provider Map.empty)\<rparr>)))
      (''ib'', ''provider-aws'') = Some d \<and> restricted_pod (dep_pod d)"
proof -
  let ?w = "ex_installed\<lparr>cs_provider := Some (ex_provider Map.empty)\<rparr>"
  obtain w' where rec: "Reconcile ex_reconciler ex_environment ?w = (Inr healthInterval, w')"
      and d: "cs_deployments w' = [(''ib'', ''provider-aws'') \<mapsto> buildDeployment ex_reconciler (ex_provider Map.empty) None]"
    using ex_first_reconcile by blast
  have "deployments_named ?w" by (simp add: deployments_named_def ex_installed_def)
  note all = deployment_only_after_policies [OF rec this, THEN conjunct1, rule_format]
  have "cs_deployments w' (''ib'', ''provider-aws'') = Some (buildDeployment ex_reconciler (ex_provider Map.empty) None)"
      "cs_deployments ?w (''ib'', ''provider-aws'') \<noteq> Some (buildDeployment ex_reconciler (ex_provider Map.empty) None)"
    by (simp_all add: d ex_installed_def)
  from all [OF conjI, OF this] this(1) rec show ?thesis by auto
qed

lemma trimSpace_empty: "trimSpace '''' = ''''"
  by code_simp

text \<open>Admission and the controller agree: with the same settings and a provider namespace, the webhook
  admits exactly the resources whose package is not blank and which all three policies of the
  controller accept, in whatever order either walks its map of Secret references.\<close>

theorem admission_matches_controller:
  assumes "rc_ProviderNamespace r \<noteq> ''''" and "tls_order keys" and "tls_order order"
  shows "validatePlatformProvider keys (policy_of r) pp = None \<longleftrightarrow>
     trimSpace (pp_package (ppr_spec pp)) \<noteq> ''''
   \<and> validateProviderPackagePolicy r pp = None \<and> validateProviderTransportPolicy r order pp = None
   \<and> validateProviderServiceAccountPolicy r pp = None"
proof (cases "trimSpace (pp_package (ppr_spec pp)) = ''''")
  case True
  then show ?thesis by (simp add: validatePlatformProvider_None_iff)
next
  case False
  then have "pp_package (ppr_spec pp) \<noteq> ''''" by (auto simp: trimSpace_empty)
  with False show ?thesis
    by (simp add: validatePlatformProvider_None_iff package_policies_agree service_account_policies_agree
        transport_policies_agree [OF assms])
qed

theorem admission_matches_controller_witness:
  "validatePlatformProvider [''caSecretRef'', ''serverCertificateSecretRef'', ''clientCertificateSecretRef'']
     (policy_of ex_reconciler) (ex_provider Map.empty) = None"
proof -
  let ?o1 = "[''caSecretRef'', ''serverCertificateSecretRef'', ''clientCertificateSecretRef'']"
  have "tls_order ?o1" by (auto simp: tls_order_def)
  moreover have "trimSpace ''ghcr.io/aws@sha256:0'' \<noteq> ''''" by code_simp
  moreover have "rc_ProviderNamespace ex_reconciler \<noteq> ''''" by (simp add: ex_reconciler_def)
  moreover have "pp_package (ppr_spec (ex_provider Map.empty)) = ''ghcr.io/aws@sha256:0''" by (simp add: ex_provider_def)
  ultimately show ?thesis
    using admission_matches_controller [of ex_reconciler ?o1 ?o1 "ex_provider Map.empty"] ex_policies [of ?o1 Map.empty]
    by (simp only: policies_accept_def simp_thms)
qed

text \<open>The guard of the signature can be escaped: a resource whose Pod labels override the provider label
  is deployed although the operator demands verified signatures, and the Pods it runs are selected by
  none of the policy entries on which the verifier relied, so nothing verifies their image.\<close>

theorem overriding_labels_escape_policy:
  assumes "Reconcile r E w = (out, w')" and "deployments_named w" and "cs_provider w = Some pp"
    and "rc_SignatureVerifier r = Some (Verify v)" and "verifies_signature pp"
    and "pp_podLabels (ppr_spec pp) providerPodLabel = Some l" and "l \<noteq> ''true''"
    and "cs_deployments w' k = Some d" and "cs_deployments w k \<noteq> Some d"
  shows "Verify v (pp_package (ppr_spec pp)) = None
    \<and> (\<forall>m. matchesManagedPods (ver_un v) m \<longrightarrow> \<not> match_selects (ver_un v) m (dep_podLabels d))"
proof
  from Reconcile_writes [OF assms(1,2,8,9)] assms(3) obtain tls where
      "policies_accept r (ev_tlsOrder E) pp" and d: "deployed r pp tls d" by (metis option.inject)
  then show "Verify v (pp_package (ppr_spec pp)) = None"
    using assms(4,5) by (simp add: policies_accept_def verify_signature_def)
  have "dep_podLabels d providerPodLabel = Some l"
    using d assms(6) by (simp add: deployed_def map_add_def)
  then show "\<forall>m. matchesManagedPods (ver_un v) m \<longrightarrow> \<not> match_selects (ver_un v) m (dep_podLabels d)"
    using managed_match_needs_labels [of "ver_un v" _ "dep_podLabels d"] assms(7) by auto
qed

theorem overriding_labels_escape_policy_witness:
  "\<not> match_selects ex_accessors ()
     (dep_podLabels (buildDeployment ex_reconciler (ex_provider [''imagebuilder.io/provider-pod'' \<mapsto> ''no'']) None))"
proof -
  let ?pp = "ex_provider [providerPodLabel \<mapsto> ''no'']"
  let ?w = "ex_installed\<lparr>cs_provider := Some ?pp\<rparr>"
  let ?d = "buildDeployment ex_reconciler ?pp None"
  obtain w' where rec: "Reconcile ex_reconciler ex_environment ?w = (Inr healthInterval, w')"
      and d: "cs_deployments w' = [(''ib'', ''provider-aws'') \<mapsto> ?d]"
    using ex_first_reconcile by blast
  have named: "deployments_named ?w" by (simp add: deployments_named_def ex_installed_def)
  have "\<forall>m. matchesManagedPods (ver_un ex_verifier) m \<longrightarrow> \<not> match_selects (ver_un ex_verifier) m (dep_podLabels ?d)"
    by (rule overriding_labels_escape_policy [OF rec named, where pp = ?pp and l = "''no''", THEN conjunct2])
      (simp_all add: d ex_installed_def ex_reconciler_def, simp_all add: ex_provider_def verifies_signature_def)
  moreover have "matchesManagedPods ex_accessors ()"
  proof -
    have "containsResource [''Pod''] ''Pod''" "get_str managedPodLabels managedByLabel = ''imagebuilder''"
        "get_str managedPodLabels providerPodLabel = ''true''" by code_simp+
    then show ?thesis by (simp add: matchesManagedPods_def ex_accessors_simps del: containsResource.simps)
  qed
  moreover have "ver_un ex_verifier = ex_accessors" by (simp add: ex_verifier_def)
  ultimately show ?thesis by metis
qed

end
