(* ===== verification/Build_Pod.thy ===== *)
theory Build_Pod
  imports Pod_Spec Provider_Errors
begin

text \<open>
  The assembler of build Jobs (\<open>pkg/controller/buildpod/assembler.go\<close>) and the classification of
  provisioner types it relies on (\<open>pkg/provisioner/interface.go\<close>). The process environment, the
  registry of in-process provisioners, JSON encoding, quantity parsing and SHA-256 are the fields of
  a record of parameters. \<open>resource.MustParse\<close> panics on a string that is not a quantity: \<open>Assemble\<close>
  returns \<open>None\<close> for a panic.
\<close>

record PodParams =
  pv_getenv :: "string \<Rightarrow> string"
  pv_inProcess :: "string \<Rightarrow> bool"
  pv_jsonStrings :: "string list \<Rightarrow> string"
  pv_jsonProvisioners :: "ProvisionerSpec list \<Rightarrow> string"
  pv_parseQuantity :: "string \<Rightarrow> string option"
  pv_sha256 :: "string \<Rightarrow> string"
  pv_setControllerReference :: "VMImage \<Rightarrow> go_error option"

section \<open>Provisioner types\<close>

definition IsBuiltInInitContainer :: "string \<Rightarrow> bool" where
  "IsBuiltInInitContainer typeName \<longleftrightarrow> typeName \<in> set [''ansible'', ''chef'', ''custom'', ''puppet'', ''saltstack'']"

definition IsBuiltInInProcess :: "string \<Rightarrow> bool" where
  "IsBuiltInInProcess typeName \<longleftrightarrow> typeName \<in> set [''cloud-init'', ''file'', ''powershell'', ''shell'', ''sysprep'']"

definition IsInitContainer :: "(string \<Rightarrow> bool) \<Rightarrow> string \<Rightarrow> bool" where
  "IsInitContainer inProcessRegistry typeName =
     (if IsBuiltInInitContainer typeName then True
      else if IsBuiltInInProcess typeName then False
      else \<not> inProcessRegistry typeName)"

section \<open>Constants and predicates\<close>

abbreviation (input) workspaceMount :: string where "workspaceMount \<equiv> ''/workspace''"
abbreviation (input) workspaceVol :: string where "workspaceVol \<equiv> ''workspace''"
abbreviation (input) cacheMount :: string where "cacheMount \<equiv> ''/cache''"
abbreviation (input) cacheVol :: string where "cacheVol \<equiv> ''build-cache''"
abbreviation (input) guestCredsMount :: string where "guestCredsMount \<equiv> ''/credentials/guest''"
abbreviation (input) guestCredsVol :: string where "guestCredsVol \<equiv> ''guest-credentials''"
abbreviation (input) generatedCredsMount :: string where "generatedCredsMount \<equiv> ''/credentials/generated''"
abbreviation (input) generatedCredsVol :: string where "generatedCredsVol \<equiv> ''generated-credentials''"
abbreviation (input) gitCredsMount :: string where "gitCredsMount \<equiv> ''/credentials/git''"
abbreviation (input) gitCredsVolPrefix :: string where "gitCredsVolPrefix \<equiv> ''git-credentials-''"
abbreviation (input) tmpVol :: string where "tmpVol \<equiv> ''tmp''"
abbreviation (input) kvmMount :: string where "kvmMount \<equiv> ''/dev/kvm''"
abbreviation (input) kvmVol :: string where "kvmVol \<equiv> ''dev-kvm''"

definition guest_credentials :: "VMImage \<Rightarrow> GuestCredentialsSpec option" where
  "guest_credentials img =
     Option.bind (bld_guestAccess (spec_build (img_spec img))) gac_credentials"

definition guest_secret :: "VMImage \<Rightarrow> GuestCredentialsSecretRef option" where
  "guest_secret img = Option.bind (guest_credentials img) gc_secretRef"

definition hasGuestCredentials :: "VMImage \<Rightarrow> bool" where
  "hasGuestCredentials img \<longleftrightarrow> (case guest_secret img of None \<Rightarrow> False | Some r \<Rightarrow> gcs_name r \<noteq> '''')"

definition generatesGuestCredentials :: "VMImage \<Rightarrow> bool" where
  "generatesGuestCredentials img \<longleftrightarrow> Option.bind (guest_credentials img) gc_generate \<noteq> None"

definition sshPrivateKeyKey :: "VMImage \<Rightarrow> string" where
  "sshPrivateKeyKey img =
     (case guest_secret img of
        Some r \<Rightarrow> if \<not> hasGuestCredentials img then ''''
                  else if gcs_sshPrivateKeyKey r = '''' then ''id_ed25519'' else gcs_sshPrivateKeyKey r
      | None \<Rightarrow> '''')"

definition passwordKey :: "VMImage \<Rightarrow> string" where
  "passwordKey img =
     (case guest_secret img of
        Some r \<Rightarrow> if \<not> hasGuestCredentials img then ''''
                  else if gcs_passwordKey r = '''' then ''password'' else gcs_passwordKey r
      | None \<Rightarrow> '''')"

definition cacheRef :: "VMImage \<Rightarrow> string" where
  "cacheRef img =
     (let build = spec_build (img_spec img);
          legacy = (case bld_cacheRef build of None \<Rightarrow> '''' | Some r \<Rightarrow> r) in
      case bld_cache build of None \<Rightarrow> legacy
      | Some c \<Rightarrow> if cache_ref c \<noteq> '''' then cache_ref c else legacy)"

definition hasCacheRef :: "VMImage \<Rightarrow> bool" where
  "hasCacheRef img \<longleftrightarrow> cacheRef img \<noteq> ''''"

definition kvmEnabled :: "VMImage \<Rightarrow> bool" where
  "kvmEnabled img \<longleftrightarrow>
     (case bld_security (spec_build (img_spec img)) of None \<Rightarrow> False | Some s \<Rightarrow> sec_enableKVM s)"

definition usesArtifactPVC :: "VMImage \<Rightarrow> bool" where
  "usesArtifactPVC img \<longleftrightarrow>
     (case bld_artifactStorage (spec_build (img_spec img)) of None \<Rightarrow> True
      | Some s \<Rightarrow> as_type s = '''' \<or> as_type s = ''pvc'')"

section \<open>Git credentials\<close>

definition gitAuthTokenKey :: "GitProvisionerAuthSecretRef \<Rightarrow> string" where
  "gitAuthTokenKey ref = (if gas_tokenKey ref \<noteq> '''' then gas_tokenKey ref else ''token'')"

definition gitAuthUsernameKey :: "GitProvisionerAuthSecretRef \<Rightarrow> string" where
  "gitAuthUsernameKey ref = (if gas_usernameKey ref \<noteq> '''' then gas_usernameKey ref else ''username'')"

definition gitAuthPasswordKey :: "GitProvisionerAuthSecretRef \<Rightarrow> string" where
  "gitAuthPasswordKey ref = (if gas_passwordKey ref \<noteq> '''' then gas_passwordKey ref else ''password'')"

definition gitAuthSecretIdentity :: "GitProvisionerAuthSecretRef \<Rightarrow> string" where
  "gitAuthSecretIdentity ref =
     gas_name ref @ ''/'' @ gitAuthTokenKey ref @ ''/'' @ gitAuthUsernameKey ref @ ''/'' @ gitAuthPasswordKey ref"

definition gitAuthVolumeName :: "nat \<Rightarrow> string" where
  "gitAuthVolumeName index = gitCredsVolPrefix @ show_nat index"

definition gitAuthMountPath :: "nat \<Rightarrow> string" where
  "gitAuthMountPath index = gitCredsMount @ ''/'' @ show_nat index"

definition gitAuthSecretFile :: "nat \<Rightarrow> string \<Rightarrow> string" where
  "gitAuthSecretFile index key = gitAuthMountPath index @ ''/'' @ key"

text \<open>The reference that the nil checks of both loops below let through.\<close>

definition git_auth_ref :: "ProvisionerSpec \<Rightarrow> GitProvisionerAuthSecretRef option" where
  "git_auth_ref spec =
     (case Option.bind (Option.bind (Option.bind (prov_source spec) psrc_git) git_auth) ga_secretRef of
        None \<Rightarrow> None
      | Some ref \<Rightarrow> if gas_name ref = '''' then None else Some ref)"

fun git_refs_loop ::
    "ProvisionerSpec list \<Rightarrow> string list \<Rightarrow> GitProvisionerAuthSecretRef list \<Rightarrow> GitProvisionerAuthSecretRef list" where
  "git_refs_loop [] seen refs = refs"
| "git_refs_loop (spec # specs) seen refs =
     (case git_auth_ref spec of None \<Rightarrow> git_refs_loop specs seen refs
      | Some ref \<Rightarrow>
          (let key = gitAuthSecretIdentity ref in
           if key \<in> set seen then git_refs_loop specs seen refs
           else git_refs_loop specs (seen @ [key]) (refs @ [ref])))"

definition gitAuthSecretRefs :: "VMImage \<Rightarrow> GitProvisionerAuthSecretRef list" where
  "gitAuthSecretRefs img = git_refs_loop (spec_provisioners (img_spec img)) [] []"

definition set_git_paths :: "nat \<Rightarrow> GitProvisionerAuthSecretRef \<Rightarrow> ProvisionerSpec \<Rightarrow> ProvisionerSpec" where
  "set_git_paths index ref spec =
     spec\<lparr>prov_source := map_option (\<lambda>src. src\<lparr>psrc_git := map_option (\<lambda>git. git\<lparr>git_auth := map_option
       (\<lambda>a. a\<lparr>ga_tokenPath := gitAuthSecretFile index (gitAuthTokenKey ref),
              ga_usernamePath := gitAuthSecretFile index (gitAuthUsernameKey ref),
              ga_passwordPath := gitAuthSecretFile index (gitAuthPasswordKey ref)\<rparr>)
       (git_auth git)\<rparr>) (psrc_git src)\<rparr>) (prov_source spec)\<rparr>"

text \<open>\<open>secretIndex\<close> maps an identity to its position; a new one gets the size of the map. The
  list holds the identities in the order of their positions.\<close>

fun git_paths_loop :: "ProvisionerSpec list \<Rightarrow> string list \<Rightarrow> ProvisionerSpec list \<Rightarrow> ProvisionerSpec list" where
  "git_paths_loop [] secretIndex out = out"
| "git_paths_loop (spec # specs) secretIndex out =
     (case git_auth_ref spec of None \<Rightarrow> git_paths_loop specs secretIndex (out @ [spec])
      | Some ref \<Rightarrow>
          (let key = gitAuthSecretIdentity ref in
           case find_index (\<lambda>k. k = key) secretIndex of
             Some index \<Rightarrow> git_paths_loop specs secretIndex (out @ [set_git_paths index ref spec])
           | None \<Rightarrow>
               git_paths_loop specs (secretIndex @ [key])
                 (out @ [set_git_paths (length secretIndex) ref spec])))"

definition withGitAuthMountPaths :: "ProvisionerSpec list \<Rightarrow> ProvisionerSpec list" where
  "withGitAuthMountPaths provisioners = git_paths_loop provisioners [] []"

definition git_volume :: "nat \<Rightarrow> GitProvisionerAuthSecretRef \<Rightarrow> Volume" where
  "git_volume i ref = \<lparr>vol_name = gitAuthVolumeName i, vol_source = SecretVolume (gas_name ref) [] (Some 0x100) None\<rparr>"

definition gitAuthVolumes :: "VMImage \<Rightarrow> Volume list" where
  "gitAuthVolumes img =
     map (\<lambda>(i, ref). git_volume i ref) (List.enumerate 0 (gitAuthSecretRefs img))"

definition gitAuthVolumeMounts :: "VMImage \<Rightarrow> VolumeMount list" where
  "gitAuthVolumeMounts img =
     map (\<lambda>i. mount (gitAuthVolumeName i) (gitAuthMountPath i) True) [0..<length (gitAuthSecretRefs img)]"

section \<open>Init containers\<close>

definition envOrDefault :: "PodParams \<Rightarrow> string \<Rightarrow> string \<Rightarrow> string" where
  "envOrDefault E name fallback =
     (let v = trimSpace (pv_getenv E name) in if v \<noteq> '''' then v else fallback)"

definition defaultImageForProvisioner :: "PodParams \<Rightarrow> string \<Rightarrow> string" where
  "defaultImageForProvisioner E provisionerType =
     (if provisionerType = ''ansible'' then
        envOrDefault E ''PROVISIONER_ANSIBLE_IMAGE'' ''ghcr.io/anwendt/imagebuilder-provisioner-ansible:0.3.0''
      else if provisionerType = ''chef'' then
        envOrDefault E ''PROVISIONER_CHEF_IMAGE'' ''ghcr.io/anwendt/imagebuilder-provisioner-chef:0.3.0''
      else if provisionerType = ''custom'' then
        envOrDefault E ''PROVISIONER_CUSTOM_IMAGE'' ''ghcr.io/anwendt/imagebuilder-provisioner-custom:0.3.0''
      else if provisionerType = ''puppet'' then
        envOrDefault E ''PROVISIONER_PUPPET_IMAGE'' ''ghcr.io/anwendt/imagebuilder-provisioner-puppet:0.3.0''
      else if provisionerType = ''saltstack'' then
        envOrDefault E ''PROVISIONER_SALTSTACK_IMAGE'' ''ghcr.io/anwendt/imagebuilder-provisioner-saltstack:0.3.0''
      else '''')"

definition translateEnvVar :: "EnvVar \<Rightarrow> PodEnvVar" where
  "translateEnvVar e =
     \<lparr>pe_name = env_name e, pe_value = env_value e,
      pe_secretKeyRef = Option.bind (env_valueFrom e) evs_secretKeyRef\<rparr>"

definition restrictedSecCtx :: SecurityContext where
  "restrictedSecCtx =
     \<lparr>sc_allowPrivilegeEscalation = Some False, sc_readOnlyRootFilesystem = Some True,
      sc_runAsNonRoot = Some True, sc_privileged = Some False, sc_drop = [''ALL'']\<rparr>"

definition guest_mounts :: "VMImage \<Rightarrow> VolumeMount list" where
  "guest_mounts img =
     (if hasGuestCredentials img then [mount guestCredsVol guestCredsMount True] else [])"

definition generated_mounts :: "VMImage \<Rightarrow> VolumeMount list" where
  "generated_mounts img =
     (if generatesGuestCredentials img then [mount generatedCredsVol generatedCredsMount False] else [])"

definition step_path :: "nat \<Rightarrow> string \<Rightarrow> string" where
  "step_path step file = workspaceMount @ ''/provisioners/step-'' @ show_nat step @ ''/'' @ file"

definition init_container :: "VMImage \<Rightarrow> nat \<Rightarrow> string \<Rightarrow> ProvisionerSpec \<Rightarrow> Container" where
  "init_container img step ref p =
     \<lparr>ctr_name = ''provisioner-'' @ show_nat step @ ''-'' @ prov_type p, ctr_image = ref, ctr_pullPolicy = '''',
      ctr_args = prov_args p,
      ctr_env = [env_var ''PROVISIONER_STEP'' (show_nat step),
        env_var ''PROVISIONER_CONFIG_PATH'' (step_path step ''config.json''),
        env_var ''PROVISIONER_STATUS_PATH'' (step_path step ''status.json'')]
        @ map translateEnvVar (prov_env p),
      ctr_ports = [], ctr_requests = [], ctr_limits = [],
      ctr_mounts = [mount workspaceVol workspaceMount False] @ guest_mounts img @ generated_mounts img
        @ gitAuthVolumeMounts img,
      ctr_restartPolicy = Some ''Always'', ctr_security = restrictedSecCtx\<rparr>"

fun init_containers_loop ::
    "PodParams \<Rightarrow> VMImage \<Rightarrow> nat \<Rightarrow> ProvisionerSpec list \<Rightarrow> Container list \<Rightarrow> go_error + Container list" where
  "init_containers_loop E img step [] containers = Inr containers"
| "init_containers_loop E img step (p # ps) containers =
     (if \<not> IsInitContainer (pv_inProcess E) (prov_type p) then init_containers_loop E img step ps containers
      else
        (let ref = (if prov_image p = '''' then defaultImageForProvisioner E (prov_type p) else prov_image p) in
         if ref = '''' then
           Inl (errorf (''provisioner '' @ quoted (prov_type p) @ '' has no image and no built-in default''))
         else init_containers_loop E img (Suc step) ps (containers @ [init_container img step ref p])))"

definition buildInitContainers :: "PodParams \<Rightarrow> VMImage \<Rightarrow> go_error + Container list" where
  "buildInitContainers E img = init_containers_loop E img 0 (spec_provisioners (img_spec img)) []"

section \<open>The build container\<close>

definition builderImage :: "PodParams \<Rightarrow> string" where
  "builderImage E = envOrDefault E ''BUILDER_IMAGE'' ''ghcr.io/anwendt/imagebuilder-builder:0.3.0''"

definition buildID :: "VMImage \<Rightarrow> string" where
  "buildID img =
     (if img_uid img \<noteq> '''' then img_uid img
      else if img_namespace img \<noteq> '''' then img_namespace img @ ''/'' @ img_name img
      else img_name img)"

text \<open>CPU and memory, requested and limited alike; \<open>None\<close> when a quantity does not parse.\<close>

definition quantity_of :: "PodParams \<Rightarrow> string \<Rightarrow> string \<Rightarrow> (string \<times> string) list option" where
  "quantity_of E name q =
     (if q = '''' then Some [] else map_option (\<lambda>v. [(name, v)]) (pv_parseQuantity E q))"

definition build_resources :: "PodParams \<Rightarrow> VMImage \<Rightarrow> (string \<times> string) list option" where
  "build_resources E img =
     (case bld_resources (spec_build (img_spec img)) of None \<Rightarrow> Some []
      | Some r \<Rightarrow>
          (case quantity_of E ''cpu'' (rr_cpu r) of None \<Rightarrow> None
           | Some cpu \<Rightarrow> map_option (\<lambda>mem. cpu @ mem) (quantity_of E ''memory'' (rr_memory r))))"

definition bootCommandEnv :: "PodParams \<Rightarrow> string list \<Rightarrow> PodEnvVar list" where
  "bootCommandEnv E cmds = (if cmds = [] then [] else [env_var ''BOOT_COMMAND'' (pv_jsonStrings E cmds)])"

definition provisionersEnv :: "PodParams \<Rightarrow> ProvisionerSpec list \<Rightarrow> PodEnvVar list" where
  "provisionersEnv E ps = (if ps = [] then [] else [env_var ''PROVISIONERS'' (pv_jsonProvisioners E ps)])"

definition secret_named :: "GuestAccessSpec \<Rightarrow> bool" where
  "secret_named access \<longleftrightarrow>
     (case Option.bind (gac_credentials access) gc_secretRef of None \<Rightarrow> False | Some r \<Rightarrow> gcs_name r \<noteq> '''')"

definition guestSSHKeyPath :: "GuestAccessSpec \<Rightarrow> string" where
  "guestSSHKeyPath access =
     (if gac_sshKeyPath access \<noteq> '''' then gac_sshKeyPath access
      else if secret_named access then guestCredsMount @ ''/id_ed25519'' else '''')"

definition guestPasswordPath :: "GuestAccessSpec \<Rightarrow> string" where
  "guestPasswordPath access =
     (if gac_passwordPath access \<noteq> '''' then gac_passwordPath access
      else if secret_named access then guestCredsMount @ ''/password'' else '''')"

definition winrm_env :: "WinRMAccessSpec option \<Rightarrow> PodEnvVar list" where
  "winrm_env w =
     (case w of None \<Rightarrow> []
      | Some r \<Rightarrow>
          (case wr_https r of None \<Rightarrow> [] | Some h \<Rightarrow> [env_var ''GUEST_ACCESS_WINRM_HTTPS'' (show_bool h)])
          @ [env_var ''GUEST_ACCESS_WINRM_INSECURE_SKIP_VERIFY'' (show_bool (wr_insecureSkipVerify r))])"

definition generate_env :: "GuestGeneratedCredentialsSpec option \<Rightarrow> PodEnvVar list" where
  "generate_env g =
     (case g of None \<Rightarrow> []
      | Some r \<Rightarrow>
          [env_var ''GUEST_CREDENTIALS_GENERATE_SSH_KEY'' (show_bool (gg_sshKey r)),
           env_var ''GUEST_CREDENTIALS_GENERATE_PASSWORD'' (show_bool (gg_password r))]
          @ (if gg_passwordLength r \<noteq> 0 then
               [env_var ''GUEST_CREDENTIALS_GENERATE_PASSWORD_LENGTH'' (show_int (gg_passwordLength r))] else []))"

definition guestAccessEnv :: "GuestAccessSpec option \<Rightarrow> PodEnvVar list" where
  "guestAccessEnv access =
     (case access of None \<Rightarrow> []
      | Some a \<Rightarrow>
          [env_var ''GUEST_ACCESS_PROTOCOL'' (gac_protocol a),
           env_var ''GUEST_ACCESS_HOST'' (gac_host a),
           env_var ''GUEST_ACCESS_HOST_PORT'' (show_int (gac_hostPort a)),
           env_var ''GUEST_ACCESS_GUEST_PORT'' (show_int (gac_guestPort a)),
           env_var ''GUEST_ACCESS_USER'' (gac_user a),
           env_var ''GUEST_ACCESS_SSH_KEY_PATH'' (guestSSHKeyPath a),
           env_var ''GUEST_ACCESS_PASSWORD_PATH'' (guestPasswordPath a)]
          @ (case gac_timeout a of None \<Rightarrow> [] | Some d \<Rightarrow> [env_var ''GUEST_ACCESS_TIMEOUT'' (show_duration d)])
          @ winrm_env (gac_winRM a)
          @ generate_env (Option.bind (gac_credentials a) gc_generate)
          @ (case Option.bind (gac_credentials a) gc_injection of None \<Rightarrow> []
             | Some m \<Rightarrow> if m \<noteq> '''' then [env_var ''GUEST_CREDENTIALS_INJECTION_METHOD'' m] else []))"

definition cache_env :: "VMImage \<Rightarrow> PodEnvVar list" where
  "cache_env img =
     (if hasCacheRef img then
        [env_var ''CACHE_DIR'' cacheMount]
        @ (case bld_cache (spec_build (img_spec img)) of None \<Rightarrow> []
           | Some c \<Rightarrow>
               (case cache_ttl c of None \<Rightarrow> [] | Some d \<Rightarrow> [env_var ''CACHE_TTL'' (show_duration d)])
               @ (if cache_retainPolicy c \<noteq> '''' then [env_var ''CACHE_RETAIN_POLICY'' (cache_retainPolicy c)] else []))
      else [])"

definition build_env :: "PodParams \<Rightarrow> VMImage \<Rightarrow> PodEnvVar list" where
  "build_env E img =
     (let spec = img_spec img in
      [env_var ''BUILD_ID'' (buildID img), env_var ''VMIMAGE_NAME'' (img_name img),
       env_var ''VMIMAGE_NAMESPACE'' (img_namespace img), env_var ''OS_FAMILY'' (os_family (spec_os spec)),
       env_var ''OS_DISTRIBUTION'' (os_distribution (spec_os spec)), env_var ''OS_VERSION'' (os_version (spec_os spec)),
       env_var ''OS_ARCH'' (os_arch (spec_os spec)), env_var ''SOURCE_TYPE'' (src_type (spec_source spec)),
       env_var ''SOURCE_URL'' (src_url (spec_source spec)), env_var ''SOURCE_CHECKSUM'' (src_checksum (spec_source spec)),
       env_var ''WORKSPACE_DIR'' workspaceMount]
      @ (case spec_targets spec of [] \<Rightarrow> []
         | t # _ \<Rightarrow> [env_var ''TARGET_PROVIDER_CONFIG'' (tgt_providerConfigRef t), env_var ''TARGET_FORMAT'' (tgt_format t)])
      @ bootCommandEnv E (src_bootCommand (spec_source spec))
      @ provisionersEnv E (withGitAuthMountPaths (spec_provisioners spec))
      @ guestAccessEnv (bld_guestAccess (spec_build spec))
      @ (if generatesGuestCredentials img then [env_var ''GUEST_CREDENTIALS_DIR'' generatedCredsMount] else [])
      @ cache_env img
      @ (if kvmEnabled img then [env_var ''QEMU_ENABLE_KVM'' ''true''] else []))"

definition build_mounts :: "VMImage \<Rightarrow> VolumeMount list" where
  "build_mounts img =
     [mount workspaceVol workspaceMount False, mount tmpVol ''/tmp'' False]
     @ guest_mounts img @ gitAuthVolumeMounts img @ generated_mounts img
     @ (if hasCacheRef img then [mount cacheVol cacheMount False] else [])
     @ (if kvmEnabled img then [mount kvmVol kvmMount False] else [])"

definition buildMainContainer :: "PodParams \<Rightarrow> VMImage \<Rightarrow> Container option" where
  "buildMainContainer E img =
     (case build_resources E img of None \<Rightarrow> None
      | Some res \<Rightarrow> Some
          \<lparr>ctr_name = ''build'', ctr_image = builderImage E, ctr_pullPolicy = '''', ctr_args = [],
           ctr_env = build_env E img, ctr_ports = [], ctr_requests = res, ctr_limits = res,
           ctr_mounts = build_mounts img, ctr_restartPolicy = None, ctr_security = restrictedSecCtx\<rparr>)"

section \<open>Volumes\<close>

definition workspaceVolume :: "PodParams \<Rightarrow> VMImage \<Rightarrow> Volume" where
  "workspaceVolume E img =
     (if usesArtifactPVC img
      then \<lparr>vol_name = workspaceVol, vol_source = ClaimVolume (WorkspaceClaimName (pv_sha256 E) img)\<rparr>
      else emptyDir workspaceVol)"

definition guestCredentialsVolume :: "VMImage \<Rightarrow> Volume" where
  "guestCredentialsVolume img =
     \<lparr>vol_name = guestCredsVol,
      vol_source = SecretVolume (case guest_secret img of None \<Rightarrow> '''' | Some r \<Rightarrow> gcs_name r)
        ((if sshPrivateKeyKey img \<noteq> '''' then [\<lparr>ktp_key = sshPrivateKeyKey img, ktp_path = ''id_ed25519''\<rparr>] else [])
         @ (if passwordKey img \<noteq> '''' then [\<lparr>ktp_key = passwordKey img, ktp_path = ''password''\<rparr>] else []))
        (Some 0x100) None\<rparr>"

definition buildVolumes :: "PodParams \<Rightarrow> VMImage \<Rightarrow> Volume list" where
  "buildVolumes E img =
     [workspaceVolume E img, emptyDir tmpVol]
     @ (if hasCacheRef img then [\<lparr>vol_name = cacheVol, vol_source = ClaimVolume (cacheRef img)\<rparr>] else [])
     @ (if hasGuestCredentials img then [guestCredentialsVolume img] else [])
     @ gitAuthVolumes img
     @ (if generatesGuestCredentials img then [\<lparr>vol_name = generatedCredsVol, vol_source = EmptyDir ''Memory''\<rparr>] else [])
     @ (if kvmEnabled img then [\<lparr>vol_name = kvmVol, vol_source = HostPath kvmMount ''CharDevice''\<rparr>] else [])"

section \<open>The Job\<close>

definition jobLabels :: "PodParams \<Rightarrow> VMImage \<Rightarrow> strmap" where
  "jobLabels E img =
     [''app.kubernetes.io/managed-by'' \<mapsto> ''imagebuilder'', ''imagebuilder.io/vmimage'' \<mapsto> img_name img,
      ''imagebuilder.io/job-kind'' \<mapsto> ''build'', ''imagebuilder.io/revision'' \<mapsto> Hash (pv_sha256 E) (img_revision img)]"

definition buildDeadlineSeconds :: "VMImage \<Rightarrow> int" where
  "buildDeadlineSeconds img =
     (case bld_timeout (spec_build (img_spec img)) of
        Some d \<Rightarrow> if d > 0 then max (d div second) 1 else 2 * hour div second
      | None \<Rightarrow> 2 * hour div second)"

definition buildAffinity :: "(int \<times> strmap \<times> string) list" where
  "buildAffinity =
     [(100, [''app.kubernetes.io/managed-by'' \<mapsto> ''imagebuilder'', ''imagebuilder.io/job-kind'' \<mapsto> ''build''],
       ''kubernetes.io/hostname'')]"

definition buildTolerations :: "VMImage \<Rightarrow> Toleration list" where
  "buildTolerations img =
     (if kvmEnabled img then
        [\<lparr>tol_key = ''imagebuilder.io/dedicated'', tol_operator = ''Equal'', tol_value = ''imagebuilder'',
          tol_effect = ''NoSchedule''\<rparr>]
      else [])"

definition build_pod :: "PodParams \<Rightarrow> VMImage \<Rightarrow> Container list \<Rightarrow> Container \<Rightarrow> PodSpec" where
  "build_pod E img initContainers mainContainer =
     \<lparr>pod_restartPolicy = ''Never'', pod_initContainers = initContainers, pod_containers = [mainContainer],
      pod_volumes = buildVolumes E img, pod_nodeSelector = bld_nodeSelector (spec_build (img_spec img)),
      pod_antiAffinity = buildAffinity, pod_tolerations = buildTolerations img, pod_imagePullSecrets = [],
      pod_serviceAccountName = '''', pod_automountToken = Some False, pod_hostNetwork = False,
      pod_hostPID = False, pod_hostIPC = False, pod_runAsNonRoot = Some True, pod_seccomp = ''RuntimeDefault''\<rparr>"

definition Assemble :: "PodParams \<Rightarrow> VMImage \<Rightarrow> (go_error + AssembledJob) option" where
  "Assemble E img =
     (case buildInitContainers E img of
        Inl err \<Rightarrow> Some (Inl (wrapf ''build init containers: '' err))
      | Inr initContainers \<Rightarrow>
          (case buildMainContainer E img of None \<Rightarrow> None
           | Some mainContainer \<Rightarrow>
               (case pv_setControllerReference E img of
                  Some err \<Rightarrow> Some (Inl (wrapf ''set owner reference: '' err))
                | None \<Rightarrow> Some (Inr
                    \<lparr>aj_name = jobName (pv_sha256 E) img, aj_namespace = img_namespace img,
                     aj_labels = jobLabels E img, aj_backoffLimit = 0,
                     aj_activeDeadlineSeconds = buildDeadlineSeconds img, aj_failOnExitCodes = None,
                     aj_ttlSecondsAfterFinished = 3600, aj_podLabels = jobLabels E img,
                     aj_pod = build_pod E img initContainers mainContainer\<rparr>))))"

section \<open>Lemmas\<close>

text \<open>The external provisioners, in order: one init container each, numbered from zero.\<close>

definition external_provisioners :: "PodParams \<Rightarrow> ProvisionerSpec list \<Rightarrow> ProvisionerSpec list" where
  "external_provisioners E ps = filter (\<lambda>p. IsInitContainer (pv_inProcess E) (prov_type p)) ps"

lemma init_containers_loop_result:
  "init_containers_loop E img step ps acc = Inr cs \<Longrightarrow>
   \<exists>new. cs = acc @ new \<and> length new = length (external_provisioners E ps)
     \<and> (\<forall>k < length new. \<exists>ref. ref \<noteq> '''' \<and> new ! k = init_container img (step + k) ref (external_provisioners E ps ! k))"
proof (induction ps arbitrary: step acc)
  case Nil
  then show ?case by (simp add: external_provisioners_def)
next
  case (Cons p ps)
  show ?case
  proof (cases "IsInitContainer (pv_inProcess E) (prov_type p)")
    case False
    with Cons show ?thesis by (simp add: external_provisioners_def)
  next
    case True
    then obtain ref where ref: "ref \<noteq> ''''"
        "init_containers_loop E img (Suc step) ps (acc @ [init_container img step ref p]) = Inr cs"
      using Cons.prems by (auto simp: Let_def split: if_splits)
    with Cons.IH obtain new where new: "cs = (acc @ [init_container img step ref p]) @ new"
        "length new = length (external_provisioners E ps)"
        "\<forall>k < length new. \<exists>ref. ref \<noteq> '''' \<and> new ! k = init_container img (Suc step + k) ref (external_provisioners E ps ! k)"
      by blast
    have "\<exists>ref'. ref' \<noteq> '''' \<and> (init_container img step ref p # new) ! k
        = init_container img (step + k) ref' (external_provisioners E (p # ps) ! k)"
      if "k < length (init_container img step ref p # new)" for k
      using that ref new(3) True by (cases k) (auto simp: external_provisioners_def)
    with new True show ?thesis
      by (intro exI [of _ "init_container img step ref p # new"]) (auto simp: external_provisioners_def)
  qed
qed

lemma buildInitContainers_result:
  assumes "buildInitContainers E img = Inr cs"
  shows "length cs = length (external_provisioners E (spec_provisioners (img_spec img)))"
    and "k < length cs \<Longrightarrow> \<exists>ref. ref \<noteq> '''' \<and>
           cs ! k = init_container img k ref (external_provisioners E (spec_provisioners (img_spec img)) ! k)"
  using init_containers_loop_result [OF assms [unfolded buildInitContainers_def]] by auto

lemma init_container_simps [simp]:
  "ctr_mounts (init_container img step ref p) =
     [mount workspaceVol workspaceMount False] @ guest_mounts img @ generated_mounts img @ gitAuthVolumeMounts img"
  "ctr_security (init_container img step ref p) = restrictedSecCtx"
  by (simp_all add: init_container_def)

lemma Assemble_cases:
  assumes "Assemble E img = Some (Inr job)"
  obtains cs main where "buildInitContainers E img = Inr cs" and "buildMainContainer E img = Some main"
    and "aj_pod job = build_pod E img cs main" and "aj_name job = jobName (pv_sha256 E) img"
    and "aj_labels job = jobLabels E img" and "aj_namespace job = img_namespace img"
    and "aj_activeDeadlineSeconds job = buildDeadlineSeconds img"
  using assms by (auto simp: Assemble_def split: sum.splits option.splits)

text \<open>The identities met so far, in order of their first occurrence.\<close>

fun identities :: "ProvisionerSpec list \<Rightarrow> string list \<Rightarrow> string list" where
  "identities [] seen = seen"
| "identities (spec # specs) seen =
     (case git_auth_ref spec of None \<Rightarrow> identities specs seen
      | Some ref \<Rightarrow> identities specs (if gitAuthSecretIdentity ref \<in> set seen then seen
                                       else seen @ [gitAuthSecretIdentity ref]))"

lemma prefix_identities: "prefix seen (identities specs seen)"
  by (induction specs arbitrary: seen)
    (auto split: option.split intro: prefix_order.trans append_prefixD)

lemma distinct_identities: "distinct seen \<Longrightarrow> distinct (identities specs seen)"
  by (induction specs arbitrary: seen) (auto split: option.split)

lemma git_refs_identities:
  "map gitAuthSecretIdentity refs = seen \<Longrightarrow>
   map gitAuthSecretIdentity (git_refs_loop specs seen refs) = identities specs seen"
  by (induction specs arbitrary: seen refs) (auto simp: Let_def split: option.split)

lemma find_index_Some: "find_index P xs = Some i \<Longrightarrow> i < length xs \<and> P (xs ! i)"
  by (induction xs arbitrary: i) (auto split: if_splits)

lemma find_index_None: "find_index P xs = None \<longleftrightarrow> (\<forall>x \<in> set xs. \<not> P x)"
  by (induction xs) auto

lemma prefix_nth: "prefix xs ys \<Longrightarrow> i < length xs \<Longrightarrow> ys ! i = xs ! i \<and> i < length ys"
  by (auto simp: prefix_def nth_append)

definition mounted_at :: "string list \<Rightarrow> ProvisionerSpec \<Rightarrow> ProvisionerSpec \<Rightarrow> bool" where
  "mounted_at ids spec spec' \<longleftrightarrow>
     (case git_auth_ref spec of None \<Rightarrow> spec' = spec
      | Some ref \<Rightarrow> \<exists>i < length ids. ids ! i = gitAuthSecretIdentity ref \<and> spec' = set_git_paths i ref spec)"

lemma mounted_at_mono: "mounted_at ids spec spec' \<Longrightarrow> prefix ids ids' \<Longrightarrow> mounted_at ids' spec spec'"
  by (auto simp: mounted_at_def split: option.splits) (metis prefix_nth)

lemma mounted_at_None: "git_auth_ref spec = None \<Longrightarrow> mounted_at ids spec spec"
  by (simp add: mounted_at_def)

lemma git_paths_loop_result:
  "\<exists>new. git_paths_loop specs seen out = out @ new \<and> list_all2 (mounted_at (identities specs seen)) specs new"
proof (induction specs arbitrary: seen out)
  case Nil
  then show ?case by simp
next
  case (Cons spec specs)
  show ?case
  proof (cases "git_auth_ref spec")
    case None
    obtain new where new: "git_paths_loop specs seen (out @ [spec]) = (out @ [spec]) @ new"
        "list_all2 (mounted_at (identities specs seen)) specs new"
      using Cons.IH by blast
    with None show ?thesis
      by (intro exI [of _ "spec # new"]) (simp add: mounted_at_None)
  next
    case (Some ref)
    let ?key = "gitAuthSecretIdentity ref"
    define seen' where "seen' = (if ?key \<in> set seen then seen else seen @ [?key])"
    obtain i where i: "i < length seen'" "seen' ! i = ?key"
      "git_paths_loop (spec # specs) seen out = git_paths_loop specs seen' (out @ [set_git_paths i ref spec])"
    proof (cases "find_index (\<lambda>k. k = ?key) seen")
      case None
      with Some that [of "length seen"] show thesis
        by (auto simp: Let_def seen'_def find_index_None)
    next
      case (Some j)
      have at: "j < length seen" "seen ! j = ?key" using find_index_Some [OF Some] by auto
      then have "seen' = seen" unfolding seen'_def by (metis nth_mem)
      with \<open>git_auth_ref spec = Some ref\<close> Some at that [of j] show thesis by (simp add: Let_def)
    qed
    obtain new where new: "git_paths_loop specs seen' (out @ [set_git_paths i ref spec]) = (out @ [set_git_paths i ref spec]) @ new"
        "list_all2 (mounted_at (identities specs seen')) specs new"
      using Cons.IH by blast
    have "mounted_at seen' spec (set_git_paths i ref spec)"
      using Some i by (auto simp: mounted_at_def)
    then have "mounted_at (identities specs seen') spec (set_git_paths i ref spec)"
      using prefix_identities by (rule mounted_at_mono)
    moreover have "identities (spec # specs) seen = identities specs seen'"
      using Some by (simp add: seen'_def)
    ultimately show ?thesis
      using i(3) new by (intro exI [of _ "set_git_paths i ref spec # new"]) auto
  qed
qed

text \<open>The identity of a reference determines it when its parts contain no slash, as no Secret name
  and no Secret key does.\<close>

definition no_slash :: "string \<Rightarrow> bool" where
  "no_slash s \<longleftrightarrow> CHR ''/'' \<notin> set s"

definition plain_ref :: "GitProvisionerAuthSecretRef \<Rightarrow> bool" where
  "plain_ref ref \<longleftrightarrow> no_slash (gas_name ref) \<and> no_slash (gas_tokenKey ref) \<and> no_slash (gas_usernameKey ref)
     \<and> no_slash (gas_passwordKey ref)"

lemma slash_cut_inj:
  "a @ ''/'' @ b = c @ ''/'' @ d \<Longrightarrow> no_slash a \<Longrightarrow> no_slash c \<Longrightarrow> a = c \<and> b = d"
  by (induction a arbitrary: c) (auto simp: no_slash_def Cons_eq_append_conv append_eq_Cons_conv)

lemma no_slash_keys:
  "plain_ref ref \<Longrightarrow> no_slash (gitAuthTokenKey ref) \<and> no_slash (gitAuthUsernameKey ref) \<and> no_slash (gitAuthPasswordKey ref)"
  by (auto simp: plain_ref_def gitAuthTokenKey_def gitAuthUsernameKey_def gitAuthPasswordKey_def no_slash_def)

lemma gitAuthSecretIdentity_inj:
  assumes "gitAuthSecretIdentity r1 = gitAuthSecretIdentity r2" and "plain_ref r1" and "plain_ref r2"
  shows "gas_name r1 = gas_name r2 \<and> gitAuthTokenKey r1 = gitAuthTokenKey r2
    \<and> gitAuthUsernameKey r1 = gitAuthUsernameKey r2 \<and> gitAuthPasswordKey r1 = gitAuthPasswordKey r2"
  using assms no_slash_keys [OF assms(2)] no_slash_keys [OF assms(3)]
  unfolding gitAuthSecretIdentity_def plain_ref_def by (blast dest!: slash_cut_inj)

lemma gitAuthVolumes_names: "map vol_name (gitAuthVolumes img) = map gitAuthVolumeName [0..<length (gitAuthSecretRefs img)]"
  by (rule nth_equalityI) (simp_all add: gitAuthVolumes_def git_volume_def nth_enumerate_eq)

lemma gitAuthVolumeName_inj: "gitAuthVolumeName i = gitAuthVolumeName j \<Longrightarrow> i = j"
  by (auto simp: gitAuthVolumeName_def dest: show_nat_inj)

lemma gitAuthVolumeName_neq [simp]:
  "gitAuthVolumeName i \<noteq> workspaceVol" "gitAuthVolumeName i \<noteq> tmpVol" "gitAuthVolumeName i \<noteq> cacheVol"
  "gitAuthVolumeName i \<noteq> guestCredsVol" "gitAuthVolumeName i \<noteq> generatedCredsVol" "gitAuthVolumeName i \<noteq> kvmVol"
  by (simp_all add: gitAuthVolumeName_def)

lemma buildVolumes_names:
  "map vol_name (buildVolumes E img) =
     [workspaceVol, tmpVol] @ (if hasCacheRef img then [cacheVol] else [])
     @ (if hasGuestCredentials img then [guestCredsVol] else [])
     @ map gitAuthVolumeName [0..<length (gitAuthSecretRefs img)]
     @ (if generatesGuestCredentials img then [generatedCredsVol] else [])
     @ (if kvmEnabled img then [kvmVol] else [])"
  by (simp add: buildVolumes_def workspaceVolume_def guestCredentialsVolume_def gitAuthVolumes_names)

lemma buildVolumes_distinct: "distinct (map vol_name (buildVolumes E img))"
proof -
  have git: "distinct (map gitAuthVolumeName [0..<n])" for n
    by (auto simp: distinct_map inj_on_def dest: gitAuthVolumeName_inj)
  have other: "x \<notin> gitAuthVolumeName ` A" if "\<And>i. gitAuthVolumeName i \<noteq> x" for x A
    using that by (metis imageE)
  show ?thesis
    unfolding buildVolumes_names using git gitAuthVolumeName_neq [THEN other] by simp
qed

lemma no_host_path_parts:
  "vol_source (workspaceVolume E img) \<noteq> HostPath path ty" "vol_source (emptyDir n) \<noteq> HostPath path ty"
  "vol_source (guestCredentialsVolume img) \<noteq> HostPath path ty"
  "v \<in> set (gitAuthVolumes img) \<Longrightarrow> vol_source v \<noteq> HostPath path ty"
  by (auto simp: workspaceVolume_def emptyDir_def guestCredentialsVolume_def gitAuthVolumes_def git_volume_def)

lemma no_host_path: "\<not> kvmEnabled img \<Longrightarrow> v \<in> set (buildVolumes E img) \<Longrightarrow> vol_source v \<noteq> HostPath path ty"
  by (auto simp: buildVolumes_def no_host_path_parts split: if_splits)

lemma mount_names:
  "vm_name ` set (build_mounts img) \<subseteq> vol_name ` set (buildVolumes E img)"
  "vm_name ` set (ctr_mounts (init_container img step ref p)) \<subseteq> vol_name ` set (buildVolumes E img)"
proof -
  have names: "vol_name ` set (buildVolumes E img) = set (map vol_name (buildVolumes E img))" by simp
  show "vm_name ` set (build_mounts img) \<subseteq> vol_name ` set (buildVolumes E img)"
    unfolding names buildVolumes_names
    by (auto simp: build_mounts_def guest_mounts_def generated_mounts_def gitAuthVolumeMounts_def)
  show "vm_name ` set (ctr_mounts (init_container img step ref p)) \<subseteq> vol_name ` set (buildVolumes E img)"
    unfolding names buildVolumes_names
    by (auto simp: guest_mounts_def generated_mounts_def gitAuthVolumeMounts_def)
qed

lemma buildMainContainer_simps:
  assumes "buildMainContainer E img = Some main"
  shows "ctr_mounts main = build_mounts img" and "ctr_security main = restrictedSecCtx"
    and "ctr_env main = build_env E img"
  using assms by (auto simp: buildMainContainer_def split: option.splits)

lemma restricted_containerI: "ctr_security c = restrictedSecCtx \<Longrightarrow> restricted_container c"
  by (simp add: restricted_container_def restrictedSecCtx_def)

section \<open>Properties\<close>

text \<open>C19: An assembled build Pod is well formed and restricted: every mount of every container names a
  volume of the Pod, no two volumes share a name, all containers drop every capability, cannot
  gain privileges and run as non-root on a read-only root, the Pod shares no host namespace and
  carries no API token; a host device is mounted only when the image enables KVM; the deadline is
  positive.\<close>

theorem build_pod_wellformed:
  assumes "Assemble E img = Some (Inr job)"
  shows "mounts_resolve (aj_pod job) \<and> volumes_distinct (aj_pod job) \<and> restricted_pod (aj_pod job)
    \<and> pod_automountToken (aj_pod job) = Some False
    \<and> ((\<exists>v path ty. v \<in> set (pod_volumes (aj_pod job)) \<and> vol_source v = HostPath path ty) \<longrightarrow> kvmEnabled img)
    \<and> aj_activeDeadlineSeconds job \<ge> 1"
proof -
  obtain cs main where job: "buildInitContainers E img = Inr cs" "buildMainContainer E img = Some main"
      "aj_pod job = build_pod E img cs main" "aj_activeDeadlineSeconds job = buildDeadlineSeconds img"
    by (rule Assemble_cases [OF assms])
  have init: "\<exists>k ref p. c = init_container img k ref p" if "c \<in> set cs" for c
    using that buildInitContainers_result(2) [OF job(1)] by (metis in_set_conv_nth)
  have mounts: "vm_name ` set (ctr_mounts c) \<subseteq> vol_name ` set (buildVolumes E img)" if "c \<in> set (cs @ [main])" for c
  proof (cases "c = main")
    case True
    then show ?thesis using mount_names(1) buildMainContainer_simps(1) [OF job(2)] by simp
  next
    case False
    with that init [of c] obtain k ref p where "c = init_container img k ref p" by auto
    then show ?thesis using mount_names(2) by blast
  qed
  have "mounts_resolve (aj_pod job)"
    using mounts by (intro mounts_resolveI) (auto simp: job(3) build_pod_def pod_all_containers_def)
  moreover have "volumes_distinct (aj_pod job)"
    by (simp add: volumes_distinct_def job(3) build_pod_def buildVolumes_distinct)
  moreover have "restricted_container c" if "c \<in> set (cs @ [main])" for c
    using that init [of c] buildMainContainer_simps(2) [OF job(2)] by (auto intro!: restricted_containerI)
  then have "restricted_pod (aj_pod job)"
    by (simp add: restricted_pod_def job(3) build_pod_def pod_all_containers_def list_all_iff)
  moreover have "(\<exists>v path ty. v \<in> set (pod_volumes (aj_pod job)) \<and> vol_source v = HostPath path ty) \<longrightarrow> kvmEnabled img"
    using no_host_path [of img] by (auto simp: job(3) build_pod_def)
  moreover have "aj_activeDeadlineSeconds job \<ge> 1"
    by (auto simp: job(4) buildDeadlineSeconds_def split: option.split)
  moreover have "pod_automountToken (aj_pod job) = Some False" by (simp add: job(3) build_pod_def)
  ultimately show ?thesis by blast
qed

text \<open>The image of the witnesses: a shell step and an Ansible step, whose scripts are in private
  repositories with one Secret.\<close>

definition ex_params :: PodParams where
  "ex_params =
     \<lparr>pv_getenv = (\<lambda>n. ''''), pv_inProcess = (\<lambda>t. False), pv_jsonStrings = (\<lambda>xs. ''[]''),
      pv_jsonProvisioners = (\<lambda>ps. ''[]''), pv_parseQuantity = Some, pv_sha256 = (\<lambda>s. replicate 32 CHR ''0''),
      pv_setControllerReference = (\<lambda>img. None)\<rparr>"

definition ex_ref :: GitProvisionerAuthSecretRef where
  "ex_ref = \<lparr>gas_name = ''git'', gas_tokenKey = '''', gas_usernameKey = '''', gas_passwordKey = ''''\<rparr>"

definition ex_step :: "string \<Rightarrow> ProvisionerSpec" where
  "ex_step ty =
     \<lparr>prov_type = ty, prov_image = '''', prov_inline = '''',
      prov_source = Some \<lparr>psrc_git = Some \<lparr>git_url = ''https://git.corp.io/a.git'', git_ref = ''v1'', git_path = ''a'',
        git_auth = Some \<lparr>ga_secretRef = Some ex_ref, ga_tokenPath = '''', ga_usernamePath = '''', ga_passwordPath = '''',
          ga_runtimeToken = '''', ga_runtimeUsername = '''', ga_runtimePassword = ''''\<rparr>\<rparr>\<rparr>,
      prov_playbook = '''', prov_args = [], prov_env = [], prov_extraVars = Map.empty, prov_windowsConfig = None\<rparr>"

definition ex_build :: VMImage where
  "ex_build =
     \<lparr>img_name = ''web'', img_namespace = ''ci'', img_uid = ''u1'', img_generation = 1, img_finalizers = [],
      img_creationTimestamp = 5, img_deletionTimestamp = None,
      img_spec =
        \<lparr>spec_os = \<lparr>os_family = ''linux'', os_distribution = ''ubuntu'', os_version = ''24.04'', os_arch = ''amd64''\<rparr>,
         spec_source = \<lparr>src_type = ''iso'', src_url = ''https://images.corp.io/base.iso'', src_providerRef = '''',
           src_checksum = ''sha256:00'', src_bootCommand = [], src_installer = None, src_marketplaceRef = None\<rparr>,
         spec_provisioners = [ex_step ''shell'', ex_step ''ansible''],
         spec_targets = [\<lparr>tgt_providerConfigRef = ''cfg'', tgt_format = ''ami'', tgt_tags = Map.empty\<rparr>],
         spec_build = \<lparr>bld_revision = ''r1'', bld_revisionRetention = None, bld_mode = '''',
           bld_timeout = Some 500000000, bld_nodeSelector = Map.empty, bld_resources = None, bld_cacheRef = None,
           bld_cache = None, bld_artifactStorage = None, bld_upload = None, bld_guestAccess = None,
           bld_security = Some \<lparr>sec_enableKVM = True, sec_provisionerImages = None\<rparr>\<rparr>,
         spec_evidence = None\<rparr>,
      img_status = empty_status\<rparr>"

definition job_when :: "(AssembledJob \<Rightarrow> bool) \<Rightarrow> (go_error + AssembledJob) option \<Rightarrow> bool" where
  "job_when P r \<longleftrightarrow> (case r of Some (Inr job) \<Rightarrow> P job | _ \<Rightarrow> False)"

lemma ex_build_assembles: "\<exists>job. Assemble ex_params ex_build = Some (Inr job)"
proof -
  have "job_when (\<lambda>_. True) (Assemble ex_params ex_build)" by code_simp
  then show ?thesis by (auto simp: job_when_def split: option.splits sum.splits)
qed

theorem build_pod_wellformed_witness:
  "job_when (\<lambda>job. mounts_resolve (aj_pod job) \<and> volumes_distinct (aj_pod job) \<and> restricted_pod (aj_pod job))
     (Assemble ex_params ex_build)"
proof -
  obtain job where job: "Assemble ex_params ex_build = Some (Inr job)" using ex_build_assembles by blast
  from build_pod_wellformed [OF job] job show ?thesis by (simp add: job_when_def)
qed

text \<open>The credential paths the builder is given are the files the Pod mounts: the provisioners in
  its environment are the image's, and each one whose Git source names a Secret (without slashes in
  its names, as Kubernetes requires) is given the token, user and password files below the mount
  point of a volume that is backed by that very Secret. The two loops of the code that number the
  Secrets agree.\<close>

theorem git_credentials_mounted:
  assumes "k < length ps" and "ps = spec_provisioners (img_spec img)"
    and "git_auth_ref (ps ! k) = Some ref"
    and "list_all plain_ref (gitAuthSecretRefs img)" and "plain_ref ref"
  shows "length (withGitAuthMountPaths ps) = length ps
    \<and> (\<exists>i < length (gitAuthSecretRefs img).
         withGitAuthMountPaths ps ! k = set_git_paths i ref (ps ! k)
       \<and> mount (gitAuthVolumeName i) (gitAuthMountPath i) True \<in> set (build_mounts img)
       \<and> \<lparr>vol_name = gitAuthVolumeName i, vol_source = SecretVolume (gas_name ref) [] (Some 0x100) None\<rparr>
           \<in> set (buildVolumes E img))"
proof -
  let ?refs = "gitAuthSecretRefs img"
  have ids: "map gitAuthSecretIdentity ?refs = identities ps []"
    using git_refs_identities [of "[]" "[]" ps] by (simp add: gitAuthSecretRefs_def assms(2))
  have paths: "list_all2 (mounted_at (identities ps [])) ps (withGitAuthMountPaths ps)"
    using git_paths_loop_result [of ps "[]" "[]"] by (auto simp: withGitAuthMountPaths_def)
  from list_all2_nthD [OF paths assms(1)] assms(3) obtain i where i: "i < length ?refs"
      "identities ps [] ! i = gitAuthSecretIdentity ref" "withGitAuthMountPaths ps ! k = set_git_paths i ref (ps ! k)"
    unfolding ids [symmetric] by (auto simp: mounted_at_def)
  then have "gitAuthSecretIdentity (?refs ! i) = gitAuthSecretIdentity ref"
    by (simp add: ids [symmetric])
  with assms(4,5) i(1) have "gas_name (?refs ! i) = gas_name ref"
    using gitAuthSecretIdentity_inj [of "?refs ! i" ref] by (auto simp: list_all_length)
  then have "\<lparr>vol_name = gitAuthVolumeName i, vol_source = SecretVolume (gas_name ref) [] (Some 0x100) None\<rparr>
      \<in> set (buildVolumes E img)"
    using i(1) by (auto simp: buildVolumes_def gitAuthVolumes_def git_volume_def in_set_enumerate_eq image_iff
        intro!: bexI [of _ "(i, ?refs ! i)"])
  moreover have "mount (gitAuthVolumeName i) (gitAuthMountPath i) True \<in> set (build_mounts img)"
    using i(1) by (simp add: build_mounts_def gitAuthVolumeMounts_def)
  ultimately show ?thesis using i paths by (auto dest: list_all2_lengthD)
qed

theorem git_credentials_mounted_witness:
  "withGitAuthMountPaths [ex_step ''shell'', ex_step ''ansible''] ! 1 = set_git_paths 0 ex_ref (ex_step ''ansible'')"
proof -
  let ?ps = "[ex_step ''shell'', ex_step ''ansible'']"
  have refs: "length (gitAuthSecretRefs ex_build) = 1" "list_all plain_ref (gitAuthSecretRefs ex_build)" "plain_ref ex_ref"
    by (simp_all add: gitAuthSecretRefs_def ex_build_def ex_step_def git_auth_ref_def ex_ref_def Let_def
        plain_ref_def no_slash_def)
  have at: "1 < length ?ps" "?ps = spec_provisioners (img_spec ex_build)" "git_auth_ref (?ps ! 1) = Some ex_ref"
    by (simp_all add: ex_build_def git_auth_ref_def ex_step_def ex_ref_def)
  from git_credentials_mounted [OF at refs(2,3)] obtain i where "i < 1"
      "withGitAuthMountPaths ?ps ! 1 = set_git_paths i ex_ref (?ps ! 1)"
    unfolding refs(1) by blast
  moreover from \<open>i < 1\<close> have "i = 0" by simp
  ultimately show ?thesis by (simp only: nth_Cons_Suc nth_Cons_0 One_nat_def)
qed

end
