(* ===== verification/Upload_Pod.thy ===== *)
theory Upload_Pod
  imports Build_Pod Cluster
begin

text \<open>
  The assembler of upload and cleanup Jobs (\<open>pkg/controller/uploadpod/assembler.go\<close>): the
  configuration it hands to the uploader, the Pod, and that the Pod mounts what the configuration
  names. JSON encoding, SHA-256, the process environment and the clock are parameters.
\<close>

record UploadParams =
  up_getenv :: "string \<Rightarrow> string"
  up_sha256 :: "string \<Rightarrow> string"
  up_setControllerReference :: "VMImage \<Rightarrow> go_error option"
  up_now :: int

section \<open>Configuration of the uploader\<close>

record GRPCTLSConfig =
  gt_ServerName :: string
  gt_CAPath :: string
  gt_ClientCertPath :: string
  gt_ClientKeyPath :: string

record GRPCConfig =
  gr_Address :: string
  gr_TLS :: "GRPCTLSConfig option"

record TargetConfig =
  tc_ProviderConfigName :: string
  tc_Provider :: string
  tc_Region :: string
  tc_Endpoint :: string
  tc_Insecure :: bool
  tc_Extra :: strmap
  tc_Format :: string
  tc_Tags :: strmap
  tc_CredentialsPath :: string
  tc_GRPC :: "GRPCConfig option"
  tc_AllowedPrivateCIDRs :: "string list"
  tc_AllowedDNSNames :: "string list"

definition providerTLSMountPath :: "string \<Rightarrow> string" where
  "providerTLSMountPath providerName = ''/provider-tls/'' @ providerName"

definition grpc_config :: "string \<Rightarrow> ProviderConnection \<Rightarrow> GRPCConfig" where
  "grpc_config provider connection =
     \<lparr>gr_Address = conn_Address connection,
      gr_TLS = (if conn_TLSSecretName connection \<noteq> ''''
        then Some \<lparr>gt_ServerName = conn_ServerName connection,
               gt_CAPath = providerTLSMountPath provider @ ''/ca.crt'',
               gt_ClientCertPath = providerTLSMountPath provider @ ''/tls.crt'',
               gt_ClientKeyPath = providerTLSMountPath provider @ ''/tls.key''\<rparr>
        else None)\<rparr>"

definition target_config :: "(string \<rightharpoonup> ProviderConnection) \<Rightarrow> ProviderConfig \<Rightarrow> TargetSpec \<Rightarrow> TargetConfig" where
  "target_config connections cfg target =
     \<lparr>tc_ProviderConfigName = pc_name cfg, tc_Provider = pc_provider cfg, tc_Region = pc_region cfg,
      tc_Endpoint = pc_endpoint cfg, tc_Insecure = pc_insecure cfg, tc_Extra = pc_extra cfg,
      tc_Format = tgt_format target, tc_Tags = tgt_tags target,
      tc_CredentialsPath = ''/credentials/'' @ pc_name cfg,
      tc_GRPC = map_option (grpc_config (pc_provider cfg)) (connections (pc_provider cfg)),
      tc_AllowedPrivateCIDRs = (case pc_networkAccess cfg of None \<Rightarrow> [] | Some a \<Rightarrow> na_allowedPrivateCIDRs a),
      tc_AllowedDNSNames = (case pc_networkAccess cfg of None \<Rightarrow> [] | Some a \<Rightarrow> na_allowedDNSNames a)\<rparr>"

text \<open>\<open>byName\<close>: a later configuration of a name replaces an earlier one.\<close>

definition configs_by_name :: "ProviderConfig list \<Rightarrow> string \<rightharpoonup> ProviderConfig" where
  "configs_by_name configs = map_of (rev (map (\<lambda>c. (pc_name c, c)) configs))"

fun targets_loop ::
    "(string \<rightharpoonup> ProviderConfig) \<Rightarrow> (string \<rightharpoonup> ProviderConnection) \<Rightarrow> TargetSpec list \<Rightarrow> TargetConfig list \<Rightarrow>
     go_error + TargetConfig list" where
  "targets_loop byName connections [] targets = Inr targets"
| "targets_loop byName connections (t # rest) targets =
     (case byName (tgt_providerConfigRef t) of
        None \<Rightarrow> Inl (errorf (''provider config '' @ quoted (tgt_providerConfigRef t) @ '' not supplied''))
      | Some cfg \<Rightarrow> targets_loop byName connections rest (targets @ [target_config connections cfg t]))"

definition targetConfigs ::
    "VMImage \<Rightarrow> ProviderConfig list \<Rightarrow> (string \<rightharpoonup> ProviderConnection) \<Rightarrow> go_error + TargetConfig list" where
  "targetConfigs img configs connections =
     targets_loop (configs_by_name configs) connections (spec_targets (img_spec img)) []"

section \<open>Volumes and mounts\<close>

definition credentialVolumeName :: "string \<Rightarrow> string" where
  "credentialVolumeName providerConfigName = ''credentials-'' @ providerConfigName"

definition providerTLSVolumeName :: "UploadParams \<Rightarrow> string \<Rightarrow> string" where
  "providerTLSVolumeName E providerName = ''provider-tls-'' @ hex (take 6 (up_sha256 E providerName))"

definition credentialItems :: "ProviderConfig \<Rightarrow> KeyToPath list" where
  "credentialItems cfg =
     (if pc_secretRef_key cfg = '''' then [] else [\<lparr>ktp_key = pc_secretRef_key cfg, ktp_path = ''credentials''\<rparr>])"

text \<open>The configurations the two loops over credentials, and the two over TLS Secrets, act on.\<close>

fun credential_configs :: "string list \<Rightarrow> ProviderConfig list \<Rightarrow> ProviderConfig list" where
  "credential_configs seen [] = []"
| "credential_configs seen (cfg # rest) =
     (if pc_secretRef_name cfg = '''' \<or> pc_name cfg \<in> set seen then credential_configs seen rest
      else cfg # credential_configs (pc_name cfg # seen) rest)"

fun tls_configs ::
    "(string \<rightharpoonup> ProviderConnection) \<Rightarrow> string list \<Rightarrow> ProviderConfig list \<Rightarrow> (string \<times> ProviderConnection) list" where
  "tls_configs connections seen [] = []"
| "tls_configs connections seen (cfg # rest) =
     (case connections (pc_provider cfg) of None \<Rightarrow> tls_configs connections seen rest
      | Some c \<Rightarrow>
          if conn_TLSSecretName c = '''' \<or> pc_provider cfg \<in> set seen then tls_configs connections seen rest
          else (pc_provider cfg, c) # tls_configs connections (pc_provider cfg # seen) rest)"

definition uploadVolumeMounts ::
    "UploadParams \<Rightarrow> ProviderConfig list \<Rightarrow> (string \<rightharpoonup> ProviderConnection) \<Rightarrow> VolumeMount list" where
  "uploadVolumeMounts E configs connections =
     [mount workspaceVol workspaceMount False]
     @ map (\<lambda>cfg. mount (credentialVolumeName (pc_name cfg)) (''/credentials/'' @ pc_name cfg) True)
         (credential_configs [] configs)
     @ map (\<lambda>(p, c). mount (providerTLSVolumeName E p) (providerTLSMountPath p) True) (tls_configs connections [] configs)"

definition workspaceVolume :: "UploadParams \<Rightarrow> VMImage \<Rightarrow> Volume" where
  "workspaceVolume E img =
     \<lparr>vol_name = workspaceVol, vol_source = ClaimVolume (WorkspaceClaimName (up_sha256 E) img)\<rparr>"

definition uploadVolumes ::
    "UploadParams \<Rightarrow> VMImage \<Rightarrow> ProviderConfig list \<Rightarrow> (string \<rightharpoonup> ProviderConnection) \<Rightarrow> Volume list" where
  "uploadVolumes E img configs connections =
     [workspaceVolume E img]
     @ map (\<lambda>cfg. \<lparr>vol_name = credentialVolumeName (pc_name cfg),
               vol_source = SecretVolume (pc_secretRef_name cfg) (credentialItems cfg) None (Some False)\<rparr>)
         (credential_configs [] configs)
     @ map (\<lambda>(p, c). \<lparr>vol_name = providerTLSVolumeName E p,
               vol_source = SecretVolume (conn_TLSSecretName c) [] None (Some False)\<rparr>)
         (tls_configs connections [] configs)"

section \<open>The Job\<close>

definition uploadDeadlineSeconds :: "UploadParams \<Rightarrow> VMImage \<Rightarrow> bool \<Rightarrow> int" where
  "uploadDeadlineSeconds E img cleanupOnly =
     (if cleanupOnly then 30 * minute div second
      else let total = (case bld_timeout (spec_build (img_spec img)) of
                          Some d \<Rightarrow> if d > 0 then d else 2 * hour | None \<Rightarrow> 2 * hour);
               remaining = (case st_startTime (img_status img) of
                              None \<Rightarrow> total | Some t \<Rightarrow> total - (up_now E - t)) in
        max (remaining div second) 1)"

definition uploaderImage :: "UploadParams \<Rightarrow> VMImage \<Rightarrow> string" where
  "uploaderImage E img =
     (let env = trimSpace (up_getenv E ''UPLOADER_IMAGE'');
          fallback = (if env \<noteq> '''' then env else ''ghcr.io/anwendt/imagebuilder-uploader:0.3.0'') in
      case bld_upload (spec_build (img_spec img)) of None \<Rightarrow> fallback | Some i \<Rightarrow> if i \<noteq> '''' then i else fallback)"

definition jobLabels :: "UploadParams \<Rightarrow> VMImage \<Rightarrow> strmap" where
  "jobLabels E img =
     [''app.kubernetes.io/managed-by'' \<mapsto> ''imagebuilder'', ''imagebuilder.io/vmimage'' \<mapsto> img_name img,
      ''imagebuilder.io/job-kind'' \<mapsto> ''upload'', ''imagebuilder.io/revision'' \<mapsto> Hash (up_sha256 E) (img_revision img)]"

definition upload_container ::
    "UploadParams \<Rightarrow> VMImage \<Rightarrow> ProviderConfig list \<Rightarrow> (string \<rightharpoonup> ProviderConnection) \<Rightarrow> string \<Rightarrow> bool \<Rightarrow> Container" where
  "upload_container E img configs connections targetData cleanupOnly =
     \<lparr>ctr_name = ''upload'', ctr_image = uploaderImage E img, ctr_pullPolicy = '''', ctr_args = [],
      ctr_env = [env_var ''WORKSPACE_DIR'' workspaceMount, env_var ''UPLOAD_TARGETS_JSON'' targetData,
        env_var ''UPLOAD_CLEANUP_ONLY'' (show_bool cleanupOnly),
        env_var ''UPLOAD_DEADLINE_SECONDS'' (show_int (uploadDeadlineSeconds E img cleanupOnly))],
      ctr_ports = [], ctr_requests = [], ctr_limits = [], ctr_mounts = uploadVolumeMounts E configs connections,
      ctr_restartPolicy = None, ctr_security = restrictedSecCtx\<rparr>"

definition upload_pod ::
    "UploadParams \<Rightarrow> VMImage \<Rightarrow> ProviderConfig list \<Rightarrow> (string \<rightharpoonup> ProviderConnection) \<Rightarrow> string \<Rightarrow> bool \<Rightarrow> PodSpec" where
  "upload_pod E img configs connections targetData cleanupOnly =
     \<lparr>pod_restartPolicy = ''Never'', pod_initContainers = [],
      pod_containers = [upload_container E img configs connections targetData cleanupOnly],
      pod_volumes = uploadVolumes E img configs connections,
      pod_nodeSelector = bld_nodeSelector (spec_build (img_spec img)), pod_antiAffinity = [], pod_tolerations = [],
      pod_imagePullSecrets = [], pod_serviceAccountName = '''', pod_automountToken = Some False,
      pod_hostNetwork = False, pod_hostPID = False, pod_hostIPC = False, pod_runAsNonRoot = Some True,
      pod_seccomp = ''RuntimeDefault''\<rparr>"

text \<open>The encoder of the targets is an argument; it can fail.\<close>

definition assemble ::
    "UploadParams \<Rightarrow> (TargetConfig list \<Rightarrow> go_error + string) \<Rightarrow> VMImage \<Rightarrow> ProviderConfig list \<Rightarrow>
     (string \<rightharpoonup> ProviderConnection) \<Rightarrow> bool \<Rightarrow> go_error + AssembledJob" where
  "assemble E encode img configs connections cleanupOnly =
     (case targetConfigs img configs connections of Inl err \<Rightarrow> Inl err
      | Inr targets \<Rightarrow>
          (case encode targets of Inl err \<Rightarrow> Inl (wrapf ''marshal upload targets: '' err)
           | Inr targetData \<Rightarrow>
               (case up_setControllerReference E img of
                  Some err \<Rightarrow> Inl (wrapf ''set owner reference: '' err)
                | None \<Rightarrow> Inr
                    \<lparr>aj_name = jobNameForMode (up_sha256 E) img cleanupOnly, aj_namespace = img_namespace img,
                     aj_labels = jobLabels E img, aj_backoffLimit = (if cleanupOnly then 0 else 3),
                     aj_activeDeadlineSeconds = uploadDeadlineSeconds E img cleanupOnly,
                     aj_failOnExitCodes = (if cleanupOnly then None else Some (''upload'', [1])),
                     aj_ttlSecondsAfterFinished = 3600, aj_podLabels = jobLabels E img,
                     aj_pod = upload_pod E img configs connections targetData cleanupOnly\<rparr>)))"

section \<open>Lemmas\<close>

lemma uploadDeadlineSeconds_pos: "uploadDeadlineSeconds E img cleanupOnly \<ge> 1"
  by (simp add: uploadDeadlineSeconds_def Let_def)

lemma targets_loop_result:
  "targets_loop byName connections ts acc = Inr targets \<Longrightarrow>
   \<exists>cfgs. targets = acc @ map2 (target_config connections) cfgs ts \<and> length cfgs = length ts
     \<and> list_all2 (\<lambda>cfg t. byName (tgt_providerConfigRef t) = Some cfg) cfgs ts"
proof (induction ts arbitrary: acc)
  case (Cons t ts)
  then obtain cfg where cfg: "byName (tgt_providerConfigRef t) = Some cfg"
      and rest: "targets_loop byName connections ts (acc @ [target_config connections cfg t]) = Inr targets"
    by (auto split: option.splits)
  from Cons.IH [OF rest] obtain cfgs where
      "targets = (acc @ [target_config connections cfg t]) @ map2 (target_config connections) cfgs ts"
      "length cfgs = length ts" "list_all2 (\<lambda>cfg t. byName (tgt_providerConfigRef t) = Some cfg) cfgs ts" by blast
  with cfg show ?case by (intro exI [of _ "cfg # cfgs"]) simp
qed simp

lemma configs_by_name_in: "configs_by_name configs n = Some cfg \<Longrightarrow> cfg \<in> set configs \<and> pc_name cfg = n"
  unfolding configs_by_name_def by (drule map_of_SomeD) auto

lemma credential_configs_mem:
  assumes "distinct (map pc_name configs)" and "set seen \<inter> pc_name ` set configs = {}"
  shows "set (credential_configs seen configs) = {c \<in> set configs. pc_secretRef_name c \<noteq> ''''}"
  using assms by (induction configs arbitrary: seen) auto

lemma tls_configs_mem:
  "(p, k) \<in> set (tls_configs connections seen configs) \<longleftrightarrow>
     connections p = Some k \<and> conn_TLSSecretName k \<noteq> [] \<and> p \<notin> set seen \<and> p \<in> pc_provider ` set configs"
  by (induction configs arbitrary: seen) (auto split: option.splits)

lemma tls_configs_fresh: "x \<in> set (tls_configs connections seen configs) \<Longrightarrow> fst x \<notin> set seen"
  by (cases x) (simp add: tls_configs_mem)

lemma tls_configs_distinct: "distinct (map fst (tls_configs connections seen configs))"
  by (induction configs arbitrary: seen) (auto dest: tls_configs_fresh split: option.splits)

lemma credential_configs_fresh: "x \<in> set (credential_configs seen configs) \<Longrightarrow> pc_name x \<notin> set seen"
  by (induction configs arbitrary: seen) (force split: if_splits)+

lemma credential_configs_distinct: "distinct (map pc_name (credential_configs seen configs))"
proof (induction configs arbitrary: seen)
  case (Cons cfg configs)
  have "pc_name cfg \<notin> pc_name ` set (credential_configs (pc_name cfg # seen) configs)"
    using credential_configs_fresh [of _ "pc_name cfg # seen" configs] by fastforce
  with Cons.IH show ?case by simp
qed simp

lemma upload_mount_names: "map vm_name (uploadVolumeMounts E configs connections) = map vol_name (uploadVolumes E img configs connections)"
  by (simp add: uploadVolumeMounts_def uploadVolumes_def workspaceVolume_def comp_def case_prod_beta)

lemma upload_mounts_resolve: "mounts_resolve (upload_pod E img configs connections targetData cleanupOnly)"
proof (rule mounts_resolveI)
  fix c m
  assume "c \<in> set (pod_all_containers (upload_pod E img configs connections targetData cleanupOnly))"
    and "m \<in> set (ctr_mounts c)"
  then have "vm_name m \<in> set (map vm_name (uploadVolumeMounts E configs connections))"
    by (simp add: pod_all_containers_def upload_pod_def upload_container_def)
  then show "vm_name m \<in> vol_name ` set (pod_volumes (upload_pod E img configs connections targetData cleanupOnly))"
    by (simp add: upload_mount_names [of E configs connections img] upload_pod_def)
qed

lemma upload_volumes_distinct:
  assumes "inj_on (providerTLSVolumeName E) (pc_provider ` set configs)"
  shows "volumes_distinct (upload_pod E img configs connections targetData cleanupOnly)"
proof -
  let ?cred = "credential_configs [] configs" and ?tls = "tls_configs connections [] configs"
  have names: "map vol_name (uploadVolumes E img configs connections) =
      [workspaceVol] @ map credentialVolumeName (map pc_name ?cred) @ map (providerTLSVolumeName E) (map fst ?tls)"
    by (simp add: uploadVolumes_def workspaceVolume_def comp_def case_prod_beta)
  have "set (map fst ?tls) \<subseteq> pc_provider ` set configs" by (auto simp: tls_configs_mem)
  then have "distinct (map (providerTLSVolumeName E) (map fst ?tls))"
    using tls_configs_distinct [of connections "[]" configs] assms
    by (auto simp: distinct_map intro!: comp_inj_on intro: inj_on_subset)
  moreover have "distinct (map credentialVolumeName (map pc_name ?cred))"
    using credential_configs_distinct [of "[]" configs] by (simp add: distinct_map inj_on_def credentialVolumeName_def)
  ultimately show ?thesis
    unfolding volumes_distinct_def upload_pod_def PodSpec.simps names
    by (auto simp: credentialVolumeName_def providerTLSVolumeName_def)
qed

text \<open>A Secret is mounted at a path of a container of the Pod.\<close>

definition secret_mounted :: "PodSpec \<Rightarrow> string \<Rightarrow> string \<Rightarrow> bool" where
  "secret_mounted p path secret \<longleftrightarrow>
     (\<exists>c m v items. c \<in> set (pod_containers p) \<and> m \<in> set (ctr_mounts c) \<and> vm_path m = path \<and> vm_readOnly m
        \<and> v \<in> set (pod_volumes p) \<and> vol_name v = vm_name m \<and> vol_source v = SecretVolume secret items None (Some False))"

lemma secret_mountedI:
  assumes "m \<in> set (uploadVolumeMounts E configs connections)" and "v \<in> set (uploadVolumes E img configs connections)"
    and "vol_name v = vm_name m" and "vm_path m = path" and "vm_readOnly m"
    and "vol_source v = SecretVolume secret items None (Some False)"
  shows "secret_mounted (upload_pod E img configs connections targetData cleanupOnly) path secret"
proof -
  let ?c = "upload_container E img configs connections targetData cleanupOnly"
  have "?c \<in> set (pod_containers (upload_pod E img configs connections targetData cleanupOnly))"
    "m \<in> set (ctr_mounts ?c)" "v \<in> set (pod_volumes (upload_pod E img configs connections targetData cleanupOnly))"
    using assms by (simp_all add: upload_pod_def upload_container_def)
  with assms show ?thesis unfolding secret_mounted_def by blast
qed

lemma credentials_mounted:
  assumes "distinct (map pc_name configs)" and "cfg \<in> set configs" and "pc_secretRef_name cfg \<noteq> []"
  shows "secret_mounted (upload_pod E img configs connections targetData cleanupOnly)
    (''/credentials/'' @ pc_name cfg) (pc_secretRef_name cfg)"
proof -
  have "cfg \<in> set (credential_configs [] configs)"
    using assms credential_configs_mem [OF assms(1), of "[]"] by simp
  then show ?thesis
    by (intro secret_mountedI [where m = "mount (credentialVolumeName (pc_name cfg)) (''/credentials/'' @ pc_name cfg) True"
          and v = "\<lparr>vol_name = credentialVolumeName (pc_name cfg),
                    vol_source = SecretVolume (pc_secretRef_name cfg) (credentialItems cfg) None (Some False)\<rparr>"
          and items = "credentialItems cfg"])
      (simp_all add: uploadVolumeMounts_def uploadVolumes_def mount_def)
qed

lemma tls_mounted:
  assumes "cfg \<in> set configs" and "connections (pc_provider cfg) = Some k" and "conn_TLSSecretName k \<noteq> []"
  shows "secret_mounted (upload_pod E img configs connections targetData cleanupOnly)
    (providerTLSMountPath (pc_provider cfg)) (conn_TLSSecretName k)"
proof -
  have "(pc_provider cfg, k) \<in> set (tls_configs connections [] configs)"
    using assms by (simp add: tls_configs_mem)
  then show ?thesis
    by (intro secret_mountedI [where m = "mount (providerTLSVolumeName E (pc_provider cfg)) (providerTLSMountPath (pc_provider cfg)) True"
          and v = "\<lparr>vol_name = providerTLSVolumeName E (pc_provider cfg),
                    vol_source = SecretVolume (conn_TLSSecretName k) [] None (Some False)\<rparr>" and items = "[]"])
      (force simp: uploadVolumeMounts_def uploadVolumes_def mount_def)+
qed

section \<open>Properties\<close>

text \<open>The upload Pod serves the configuration it is given: for configurations with distinct names and
  providers with distinct volume names, an assembled Job has a well-formed restricted Pod and a
  deadline of at least a second, and every target of the configuration finds the Secret of its
  ProviderConfig at its credentials path and, when its provider is reached over TLS, the Secret with
  the certificates in the directory its three file names point to.\<close>

theorem upload_pod_serves_targets:
  assumes "assemble E encode img configs connections cleanupOnly = Inr job"
    and "targetConfigs img configs connections = Inr targets"
    and "distinct (map pc_name configs)" and "inj_on (providerTLSVolumeName E) (pc_provider ` set configs)"
  shows "mounts_resolve (aj_pod job) \<and> volumes_distinct (aj_pod job) \<and> restricted_pod (aj_pod job)
    \<and> aj_activeDeadlineSeconds job \<ge> 1
    \<and> length targets = length (spec_targets (img_spec img))
    \<and> (\<forall>t \<in> set targets. \<exists>cfg \<in> set configs. tc_ProviderConfigName t = pc_name cfg \<and> tc_Provider t = pc_provider cfg
         \<and> (pc_secretRef_name cfg \<noteq> '''' \<longrightarrow> secret_mounted (aj_pod job) (tc_CredentialsPath t) (pc_secretRef_name cfg))
         \<and> (\<forall>g tls. tc_GRPC t = Some g \<and> gr_TLS g = Some tls \<longrightarrow>
              (\<exists>k dir. connections (pc_provider cfg) = Some k \<and> secret_mounted (aj_pod job) dir (conn_TLSSecretName k)
                 \<and> gt_CAPath tls = dir @ ''/ca.crt'' \<and> gt_ClientCertPath tls = dir @ ''/tls.crt''
                 \<and> gt_ClientKeyPath tls = dir @ ''/tls.key'')))"
proof -
  from assms(1) obtain targetData where
      pod: "aj_pod job = upload_pod E img configs connections targetData cleanupOnly"
      and dl: "aj_activeDeadlineSeconds job = uploadDeadlineSeconds E img cleanupOnly"
    by (auto simp: assemble_def split: sum.splits option.splits)
  have restricted: "restricted_pod (aj_pod job)"
    by (simp add: pod upload_pod_def restricted_pod_def pod_all_containers_def upload_container_def restricted_container_def
        restrictedSecCtx_def Let_def)
  from targets_loop_result [OF assms(2) [unfolded targetConfigs_def]] obtain cfgs where
      targets: "targets = map2 (target_config connections) cfgs (spec_targets (img_spec img))"
      "length cfgs = length (spec_targets (img_spec img))"
      "list_all2 (\<lambda>cfg t. configs_by_name configs (tgt_providerConfigRef t) = Some cfg) cfgs (spec_targets (img_spec img))"
    by auto
  have each: "\<exists>cfg \<in> set configs. tc_ProviderConfigName t = pc_name cfg \<and> tc_Provider t = pc_provider cfg
      \<and> (pc_secretRef_name cfg \<noteq> '''' \<longrightarrow> secret_mounted (aj_pod job) (tc_CredentialsPath t) (pc_secretRef_name cfg))
      \<and> (\<forall>g tls. tc_GRPC t = Some g \<and> gr_TLS g = Some tls \<longrightarrow>
           (\<exists>k dir. connections (pc_provider cfg) = Some k \<and> secret_mounted (aj_pod job) dir (conn_TLSSecretName k)
              \<and> gt_CAPath tls = dir @ ''/ca.crt'' \<and> gt_ClientCertPath tls = dir @ ''/tls.crt''
              \<and> gt_ClientKeyPath tls = dir @ ''/tls.key''))"
    if "t \<in> set targets" for t
  proof -
    from that targets obtain cfg spec where t: "t = target_config connections cfg spec" and cfg: "cfg \<in> set configs"
      by (auto simp: list_all2_iff set_zip dest: configs_by_name_in) (metis configs_by_name_in nth_mem)
    have creds: "pc_secretRef_name cfg \<noteq> '''' \<Longrightarrow> secret_mounted (aj_pod job) (tc_CredentialsPath t) (pc_secretRef_name cfg)"
      using credentials_mounted [OF assms(3) cfg] by (simp add: t target_config_def pod)
    have tls: "\<exists>k dir. connections (pc_provider cfg) = Some k \<and> secret_mounted (aj_pod job) dir (conn_TLSSecretName k)
        \<and> gt_CAPath tls = dir @ ''/ca.crt'' \<and> gt_ClientCertPath tls = dir @ ''/tls.crt''
        \<and> gt_ClientKeyPath tls = dir @ ''/tls.key''" if g: "tc_GRPC t = Some g" "gr_TLS g = Some tls" for g tls
    proof -
      from g t obtain k where k: "connections (pc_provider cfg) = Some k" "conn_TLSSecretName k \<noteq> ''''"
          "tls = \<lparr>gt_ServerName = conn_ServerName k, gt_CAPath = providerTLSMountPath (pc_provider cfg) @ ''/ca.crt'',
             gt_ClientCertPath = providerTLSMountPath (pc_provider cfg) @ ''/tls.crt'',
             gt_ClientKeyPath = providerTLSMountPath (pc_provider cfg) @ ''/tls.key''\<rparr>"
        by (auto simp: target_config_def grpc_config_def split: if_splits)
      have "secret_mounted (aj_pod job) (providerTLSMountPath (pc_provider cfg)) (conn_TLSSecretName k)"
        unfolding pod by (rule tls_mounted [where connections = connections, OF cfg]) (fact k)+
      with k show ?thesis
        by (intro exI [of _ k] exI [of _ "providerTLSMountPath (pc_provider cfg)"]) simp
    qed
    from cfg creds tls t show ?thesis by (intro bexI [of _ cfg]) (auto simp: target_config_def)
  qed
  show ?thesis
    using upload_mounts_resolve upload_volumes_distinct [OF assms(4)] restricted each targets(1,2)
    by (simp add: pod dl uploadDeadlineSeconds_pos)
qed

definition ex_upload_params :: UploadParams where
  "ex_upload_params =
     \<lparr>up_getenv = (\<lambda>n. ''''), up_sha256 = (\<lambda>s. replicate 32 CHR ''0''), up_setControllerReference = (\<lambda>img. None), up_now = 0\<rparr>"

definition ex_upload :: VMImage where
  "ex_upload = ex_build\<lparr>img_spec := (img_spec ex_build)\<lparr>spec_targets :=
     [\<lparr>tgt_providerConfigRef = ''prod'', tgt_format = ''vmdk'', tgt_tags = Map.empty\<rparr>]\<rparr>\<rparr>"

definition ex_config :: ProviderConfig where
  "ex_config =
     \<lparr>pc_name = ''prod'', pc_namespace = ''ns'', pc_provider = ''vsphere'', pc_secretRef_name = ''creds'',
      pc_secretRef_key = '''', pc_region = '''', pc_endpoint = '''', pc_insecure = False, pc_extra = Map.empty,
      pc_networkAccess = None\<rparr>"

theorem upload_pod_serves_targets_witness:
  "case assemble ex_upload_params (\<lambda>ts. Inr ''[]'') ex_upload [ex_config] Map.empty False of
     Inl err \<Rightarrow> False
   | Inr job \<Rightarrow> secret_mounted (aj_pod job) ''/credentials/prod'' ''creds''"
proof -
  let ?t = "target_config Map.empty ex_config \<lparr>tgt_providerConfigRef = ''prod'', tgt_format = ''vmdk'', tgt_tags = Map.empty\<rparr>"
  have targets: "targetConfigs ex_upload [ex_config] Map.empty = Inr [?t]"
    by (simp add: targetConfigs_def ex_upload_def configs_by_name_def ex_config_def)
  then obtain job where job: "assemble ex_upload_params (\<lambda>ts. Inr ''[]'') ex_upload [ex_config] Map.empty False = Inr job"
    by (simp add: assemble_def ex_upload_params_def)
  have "distinct (map pc_name [ex_config])" "inj_on (providerTLSVolumeName ex_upload_params) (pc_provider ` set [ex_config])"
    by simp_all
  from upload_pod_serves_targets [OF job targets this] job show ?thesis
    by (auto simp: target_config_def ex_config_def)
qed

end
