(* ===== verification/Upload_Checkpoint.thy ===== *)
theory Upload_Checkpoint
  imports Upload_Pod "HOL-Library.List_Lexorder" "HOL-Library.Char_ord" "HOL-Library.Product_Lexorder"
begin

text \<open>
  The checkpoints of the uploader (\<open>cmd/uploader/main.go\<close>): the session and the operation file in the
  workspace, how they are written (atomically, with a backup of the last valid version) and how they
  are read back after a crash.

  The workspace is a map from file names to contents, with the list of the contents it has had: a
  process that dies leaves one of them. The temporary file of an atomic write is not shown, since no
  reader looks at it. JSON coding is a parameter, as are the outcomes of the writes, by their number.
\<close>

section \<open>Records\<close>

record Session =
  ses_Provider :: string
  ses_ProviderConfigName :: string
  ses_Format :: string
  ses_Checksum :: string
  ses_SizeBytes :: int
  ses_IdempotencyKey :: string
  ses_ResumeToken :: string
  ses_CommittedOffset :: int
  ses_ResumeMode :: string
  ses_Phase :: string
  ses_ProviderRef :: string
  ses_Metadata :: strmap
  ses_Image :: "ImageStatus option"
  ses_Operation :: "UploadOperationStatus option"

record OperationRecord =
  opr_Provider :: string
  opr_ProviderConfigName :: string
  opr_Format :: string
  opr_ProviderRef :: string
  opr_Metadata :: strmap

type_synonym files = "string \<rightharpoonup> string"

datatype write_fate = Written | NotWritten go_error | NotSynced go_error
  \<comment> \<open>the last: renamed into place, but the directory could not be synced\<close>

record Workspace_Env =
  we_fate :: "nat \<Rightarrow> write_fate"
  we_readError :: "string \<Rightarrow> go_error option"
  we_encodeSessions :: "Session list \<Rightarrow> string"
  we_decodeSessions :: "string \<Rightarrow> go_error + int \<times> Session list"  \<comment> \<open>version and sessions\<close>
  we_encodeOperations :: "OperationRecord list \<Rightarrow> string"
  we_decodeOperations :: "string \<Rightarrow> go_error + OperationRecord list"
  we_sha256 :: "string \<Rightarrow> string"

text \<open>What the uploader does to the outside world besides writing files, with the files at that time.\<close>

record UploadResult =
  ur_ProviderRef :: string
  ur_Metadata :: strmap

datatype event =
    InitEvent string PluginConfig
  | UploadEvent string string  \<comment> \<open>ProviderConfig and idempotency key\<close>
  | RegisterEvent string UploadResult files
  | CleanupEvent string BuildArtifact

record UploaderState =
  us_files :: files
  us_past :: "files list"
  us_writes :: nat
  us_sessions :: "Session list"
  us_events :: "event list"

type_synonym 'a uploader = "(UploaderState, 'a) state"

abbreviation (input) sessionsName :: string where "sessionsName \<equiv> ''upload-sessions.json''"
abbreviation (input) operationsName :: string where "operationsName \<equiv> ''upload-operations.json''"
abbreviation (input) newline :: string where "newline \<equiv> [CHR 0x0A]"

section \<open>Files\<close>

definition put_file :: "string \<Rightarrow> string \<Rightarrow> UploaderState \<Rightarrow> UploaderState" where
  "put_file path data s = s\<lparr>us_files := (us_files s)(path \<mapsto> data), us_past := us_files s # us_past s\<rparr>"

definition writeAtomicFile :: "Workspace_Env \<Rightarrow> string \<Rightarrow> string \<Rightarrow> go_error option uploader" where
  "writeAtomicFile E path data = do {
     n \<leftarrow> gets us_writes;
     modify (\<lambda>s. s\<lparr>us_writes := Suc n\<rparr>);
     case we_fate E n of
       NotWritten err \<Rightarrow> ret (Some err)
     | Written \<Rightarrow> do { modify (put_file path data); ret None }
     | NotSynced err \<Rightarrow> do { modify (put_file path data); ret (Some err) }
   }"

text \<open>\<open>os.ReadFile\<close>: the content, \<open>NotExist\<close>, or another error.\<close>

datatype content = Content string | NotExist | Unreadable go_error

definition readFile :: "Workspace_Env \<Rightarrow> files \<Rightarrow> string \<Rightarrow> content" where
  "readFile E fs path =
     (case fs path of None \<Rightarrow> NotExist
      | Some c \<Rightarrow> (case we_readError E path of Some err \<Rightarrow> Unreadable err | None \<Rightarrow> Content c))"

definition writeCheckpointWithBackup ::
    "Workspace_Env \<Rightarrow> string \<Rightarrow> string \<Rightarrow> (string \<Rightarrow> bool) \<Rightarrow> go_error option uploader" where
  "writeCheckpointWithBackup E path data valid = do {
     fs \<leftarrow> gets us_files;
     case readFile E fs path of
       Unreadable err \<Rightarrow> ret (Some (wrapf ''read current checkpoint: '' err))
     | NotExist \<Rightarrow> writeAtomicFile E path data
     | Content current \<Rightarrow>
         if valid current then do {
           e \<leftarrow> writeAtomicFile E (path @ ''.bak'') current;
           case e of Some err \<Rightarrow> ret (Some (wrapf ''commit checkpoint backup: '' err))
           | None \<Rightarrow> writeAtomicFile E path data
         } else writeAtomicFile E path data
   }"

section \<open>Sessions\<close>

datatype read_error = Absent | Broken go_error

definition show_read_error :: "read_error \<Rightarrow> string" where
  "show_read_error e = (case e of Absent \<Rightarrow> ''file does not exist'' | Broken err \<Rightarrow> err_msg err)"

definition readUploadSessionFile :: "Workspace_Env \<Rightarrow> files \<Rightarrow> string \<Rightarrow> read_error + Session list" where
  "readUploadSessionFile E fs path =
     (case readFile E fs path of NotExist \<Rightarrow> Inl Absent | Unreadable err \<Rightarrow> Inl (Broken err)
      | Content data \<Rightarrow>
          (case we_decodeSessions E data of
             Inl err \<Rightarrow> Inl (Broken (wrapf (''parse '' @ path @ '': '') err))
           | Inr (version, sessions) \<Rightarrow>
               if version \<noteq> 1 then
                 Inl (Broken (errorf (''unsupported upload session file version '' @ show_int version @ '' in '' @ path)))
               else Inr sessions))"

definition readUploadSessions :: "Workspace_Env \<Rightarrow> files \<Rightarrow> string \<Rightarrow> go_error + Session list" where
  "readUploadSessions E fs path =
     (case readUploadSessionFile E fs path of Inr sessions \<Rightarrow> Inr sessions
      | Inl primaryErr \<Rightarrow>
          (case readUploadSessionFile E fs (path @ ''.bak'') of Inr sessions \<Rightarrow> Inr sessions
           | Inl backupErr \<Rightarrow>
               if primaryErr = Absent \<and> backupErr = Absent then Inr []
               else Inl (errorf (''read upload sessions: primary: '' @ show_read_error primaryErr @ ''; backup: '' @
                      show_read_error backupErr))))"

definition validUploadSessionData :: "Workspace_Env \<Rightarrow> string \<Rightarrow> bool" where
  "validUploadSessionData E data \<longleftrightarrow>
     (case we_decodeSessions E data of Inl _ \<Rightarrow> False | Inr (version, _) \<Rightarrow> version = 1)"

definition writeUploadSessions :: "Workspace_Env \<Rightarrow> string \<Rightarrow> Session list \<Rightarrow> go_error option uploader" where
  "writeUploadSessions E path sessions =
     writeCheckpointWithBackup E path (we_encodeSessions E sessions @ newline) (validUploadSessionData E)"

definition same_target :: "TargetConfig \<Rightarrow> Session \<Rightarrow> bool" where
  "same_target target s \<longleftrightarrow>
     ses_ProviderConfigName s = tc_ProviderConfigName target \<and> ses_Format s = tc_Format target"

definition idempotencyKey :: "Workspace_Env \<Rightarrow> TargetConfig \<Rightarrow> BuildArtifact \<Rightarrow> string" where
  "idempotencyKey E target artifact =
     ''upload-'' @ hex (we_sha256 E (get_str (ba_Metadata artifact) ''buildID'' @ [CHR 0x00] @ tc_Provider target @ [CHR 0x00] @
       tc_ProviderConfigName target @ [CHR 0x00] @ tc_Format target @ [CHR 0x00] @ ba_Checksum artifact @ [CHR 0x00] @
       show_int (ba_SizeBytes artifact)))"

definition new_session :: "Workspace_Env \<Rightarrow> TargetConfig \<Rightarrow> BuildArtifact \<Rightarrow> Session" where
  "new_session E target artifact =
     \<lparr>ses_Provider = tc_Provider target, ses_ProviderConfigName = tc_ProviderConfigName target,
      ses_Format = tc_Format target, ses_Checksum = ba_Checksum artifact, ses_SizeBytes = ba_SizeBytes artifact,
      ses_IdempotencyKey = idempotencyKey E target artifact, ses_ResumeToken = '''', ses_CommittedOffset = 0,
      ses_ResumeMode = '''', ses_Phase = ''uploading'', ses_ProviderRef = '''', ses_Metadata = Map.empty,
      ses_Image = None, ses_Operation = None\<rparr>"

text \<open>The stable sort by ProviderConfig and format.\<close>

definition sort_sessions :: "Session list \<Rightarrow> Session list" where
  "sort_sessions = sort_key (\<lambda>s. (ses_ProviderConfigName s, ses_Format s))"

text \<open>The session of a target: its position in the session list, which stands for the pointer of the
  code.\<close>

definition ensureUploadSession ::
    "Workspace_Env \<Rightarrow> string \<Rightarrow> TargetConfig \<Rightarrow> BuildArtifact \<Rightarrow> (go_error + nat) uploader" where
  "ensureUploadSession E path target artifact = do {
     sessions \<leftarrow> gets us_sessions;
     case find_index (same_target target) sessions of
       Some i \<Rightarrow>
         (let s = sessions ! i in
          if ses_Provider s \<noteq> tc_Provider target \<or> ses_Checksum s \<noteq> ba_Checksum artifact
             \<or> ses_SizeBytes s \<noteq> ba_SizeBytes artifact then
            ret (Inl (errorf (''upload session for ProviderConfig '' @ quoted (tc_ProviderConfigName target) @
              '' does not match the current provider or artifact'')))
          else ret (Inr i))
     | None \<Rightarrow> do {
         modify (\<lambda>s. s\<lparr>us_sessions := sort_sessions (sessions @ [new_session E target artifact])\<rparr>);
         sorted \<leftarrow> gets us_sessions;
         e \<leftarrow> writeUploadSessions E path sorted;
         ret (case e of Some err \<Rightarrow> Inl err
              | None \<Rightarrow>
                  (case find_index (same_target target) sorted of
                     Some i \<Rightarrow> Inr i
                   | None \<Rightarrow> Inl (errorf (''create upload session for ProviderConfig '' @
                               quoted (tc_ProviderConfigName target)))))
       }
   }"

section \<open>Operations\<close>

definition readUploadOperationsFile :: "Workspace_Env \<Rightarrow> files \<Rightarrow> string \<Rightarrow> read_error + OperationRecord list" where
  "readUploadOperationsFile E fs path =
     (case readFile E fs path of NotExist \<Rightarrow> Inl Absent | Unreadable err \<Rightarrow> Inl (Broken err)
      | Content data \<Rightarrow>
          (case we_decodeOperations E data of
             Inl err \<Rightarrow> Inl (Broken (wrapf (''parse '' @ path @ '': '') err))
           | Inr ops \<Rightarrow> Inr ops))"

definition validUploadOperationsData :: "Workspace_Env \<Rightarrow> string \<Rightarrow> bool" where
  "validUploadOperationsData E data \<longleftrightarrow> (case we_decodeOperations E data of Inl _ \<Rightarrow> False | Inr _ \<Rightarrow> True)"

definition operation_of_session :: "Session \<Rightarrow> OperationRecord" where
  "operation_of_session s =
     \<lparr>opr_Provider = ses_Provider s, opr_ProviderConfigName = ses_ProviderConfigName s, opr_Format = ses_Format s,
      opr_ProviderRef = ses_ProviderRef s,
      opr_Metadata = (ses_Metadata s)(''providerRef'' \<mapsto> ses_ProviderRef s,
        ''providerConfigName'' \<mapsto> ses_ProviderConfigName s)\<rparr>"

definition reconstructUploadOperationsFromSessions ::
    "Workspace_Env \<Rightarrow> files \<Rightarrow> string \<Rightarrow> go_error + OperationRecord list" where
  "reconstructUploadOperationsFromSessions E fs sessionPath =
     (case readUploadSessions E fs sessionPath of Inl err \<Rightarrow> Inl err
      | Inr sessions \<Rightarrow> Inr (map operation_of_session (filter (\<lambda>s. ses_ProviderRef s \<noteq> '''') sessions)))"

definition readUploadOperations :: "Workspace_Env \<Rightarrow> files \<Rightarrow> read_error + OperationRecord list" where
  "readUploadOperations E fs =
     (case readUploadOperationsFile E fs operationsName of Inr ops \<Rightarrow> Inr ops
      | Inl primaryErr \<Rightarrow>
          (case readUploadOperationsFile E fs (operationsName @ ''.bak'') of Inr ops \<Rightarrow> Inr ops
           | Inl backupErr \<Rightarrow>
               (let reconstructed = reconstructUploadOperationsFromSessions E fs sessionsName in
                case reconstructed of
                  Inr (op # ops) \<Rightarrow> Inr (op # ops)
                | _ \<Rightarrow>
                    if primaryErr = Absent \<and> backupErr = Absent then Inl Absent
                    else Inl (Broken (errorf (''read upload operations: primary: '' @ show_read_error primaryErr @
                      ''; backup: '' @ show_read_error backupErr @ ''; sessions: '' @
                      (case reconstructed of Inl err \<Rightarrow> err_msg err | Inr _ \<Rightarrow> ''<nil>'')))))))"

definition sort_operations :: "OperationRecord list \<Rightarrow> OperationRecord list" where
  "sort_operations = sort_key (\<lambda>op. (opr_ProviderConfigName op, opr_ProviderRef op))"

definition same_operation :: "OperationRecord \<Rightarrow> OperationRecord \<Rightarrow> bool" where
  "same_operation op x \<longleftrightarrow> opr_ProviderConfigName x = opr_ProviderConfigName op \<and> opr_ProviderRef x = opr_ProviderRef op"

definition upsert_operation :: "OperationRecord \<Rightarrow> OperationRecord list \<Rightarrow> OperationRecord list" where
  "upsert_operation op ops =
     (if list_ex (same_operation op) ops then update_first (same_operation op) (\<lambda>_. op) ops else ops @ [op])"

definition recordUploadOperation :: "Workspace_Env \<Rightarrow> OperationRecord \<Rightarrow> go_error option uploader" where
  "recordUploadOperation E op =
     (if opr_ProviderConfigName op = '''' \<or> opr_ProviderRef op = '''' then
        ret (Some (errorf ''provider config and provider ref are required''))
      else do {
        fs \<leftarrow> gets us_files;
        case (case readUploadOperations E fs of Inr ops \<Rightarrow> Inr ops | Inl Absent \<Rightarrow> Inr [] | Inl (Broken err) \<Rightarrow> Inl err) of
          Inl err \<Rightarrow> ret (Some err)
        | Inr ops \<Rightarrow>
            writeCheckpointWithBackup E operationsName
              (we_encodeOperations E (sort_operations (upsert_operation op ops)) @ newline) (validUploadOperationsData E)
      })"

section \<open>Crashes\<close>

text \<open>The contents of the workspace a computation passes through, the first and the last included: what a
  process that dies during it can leave.\<close>

definition crash_states :: "UploaderState \<Rightarrow> UploaderState \<Rightarrow> files set" where
  "crash_states s s' = insert (us_files s) (insert (us_files s')
     (set (take (length (us_past s') - length (us_past s)) (us_past s'))))"

lemma bak_neq [simp]: "path @ ''.bak'' \<noteq> path" "path \<noteq> path @ ''.bak''"
  by simp_all

lemma readFile_other [simp]: "p \<noteq> q \<Longrightarrow> readFile E (fs(q \<mapsto> c)) p = readFile E fs p"
  by (simp add: readFile_def)

lemma readFile_new: "readFile E (fs(p \<mapsto> c)) p = (case we_readError E p of Some err \<Rightarrow> Unreadable err | None \<Rightarrow> Content c)"
  by (simp add: readFile_def split: option.split)

lemma readUploadSessionFile_other [simp]:
  "p \<noteq> q \<Longrightarrow> readUploadSessionFile E (fs(q \<mapsto> c)) p = readUploadSessionFile E fs p"
  by (simp add: readUploadSessionFile_def)

text \<open>One atomic write.\<close>

lemma writeAtomicFile_result:
  "run_state (writeAtomicFile E path data) s = (e, s') \<Longrightarrow>
     us_files s' = us_files s \<and> us_past s' = us_past s \<and> e \<noteq> None
   \<or> us_files s' = (us_files s)(path \<mapsto> data) \<and> us_past s' = us_files s # us_past s"
  by (auto simp: writeAtomicFile_def gets_def modify_def ret_def put_file_def split: write_fate.splits)

text \<open>A checkpoint is at most two of them: the backup takes over a valid current version, then the new
  version takes its place.\<close>

lemma checkpoint_states:
  assumes "run_state (writeCheckpointWithBackup E path data valid) s = (e, s')"
  shows "(crash_states s s' = {us_files s} \<and> us_files s' = us_files s \<and> e \<noteq> None)
    \<or> (\<exists>current. readFile E (us_files s) path = Content current \<and> valid current
        \<and> (let fs1 = (us_files s)(path @ ''.bak'' \<mapsto> current) in
             crash_states s s' \<subseteq> {us_files s, fs1, fs1(path \<mapsto> data)}
           \<and> (us_files s' = fs1(path \<mapsto> data) \<or> e \<noteq> None)))
    \<or> ((readFile E (us_files s) path = NotExist \<or> (\<exists>c. readFile E (us_files s) path = Content c \<and> \<not> valid c))
        \<and> crash_states s s' \<subseteq> {us_files s, (us_files s)(path \<mapsto> data)}
        \<and> (us_files s' = (us_files s)(path \<mapsto> data) \<or> e \<noteq> None))"
proof (cases "readFile E (us_files s) path")
  case (Unreadable err)
  with assms show ?thesis by (auto simp: writeCheckpointWithBackup_def gets_def ret_def crash_states_def)
next
  case NotExist
  with assms have "run_state (writeAtomicFile E path data) s = (e, s')"
    by (simp add: writeCheckpointWithBackup_def gets_def)
  from writeAtomicFile_result [OF this] NotExist show ?thesis by (auto simp: crash_states_def)
next
  case (Content current)
  show ?thesis
  proof (cases "valid current")
    case False
    with assms Content have "run_state (writeAtomicFile E path data) s = (e, s')"
      by (simp add: writeCheckpointWithBackup_def gets_def)
    from writeAtomicFile_result [OF this] Content False show ?thesis by (auto simp: crash_states_def)
  next
    case True
    obtain e1 s1 where b: "run_state (writeAtomicFile E (path @ ''.bak'') current) s = (e1, s1)" by fastforce
    show ?thesis
    proof (cases e1)
      case (Some err)
      with assms Content True b have "s' = s1" "e = Some (wrapf ''commit checkpoint backup: '' err)"
        by (simp_all add: writeCheckpointWithBackup_def gets_def ret_def)
      with writeAtomicFile_result [OF b] Content True show ?thesis by (auto simp: crash_states_def Let_def)
    next
      case None
      with assms Content True b have w: "run_state (writeAtomicFile E path data) s1 = (e, s')"
        by (simp add: writeCheckpointWithBackup_def gets_def)
      from writeAtomicFile_result [OF b] None have
        "us_files s1 = (us_files s)(path @ ''.bak'' \<mapsto> current)" "us_past s1 = us_files s # us_past s" by simp_all
      with writeAtomicFile_result [OF w] Content True show ?thesis by (auto simp: crash_states_def Let_def)
    qed
  qed
qed

lemma readUploadSessionFile_content:
  "we_readError E p = None \<Longrightarrow> readUploadSessionFile E (fs(p \<mapsto> c)) p =
     (case we_decodeSessions E c of
        Inl err \<Rightarrow> Inl (Broken (wrapf (''parse '' @ p @ '': '') err))
      | Inr (version, sessions) \<Rightarrow>
          if version \<noteq> 1 then
            Inl (Broken (errorf (''unsupported upload session file version '' @ show_int version @ '' in '' @ p)))
          else Inr sessions)"
  by (simp add: readUploadSessionFile_def readFile_new)

lemma valid_session_file:
  "we_readError E p = None \<Longrightarrow> validUploadSessionData E c \<longleftrightarrow> (\<exists>ss. readUploadSessionFile E (fs(p \<mapsto> c)) p = Inr ss)"
  by (auto simp: readUploadSessionFile_content validUploadSessionData_def split: sum.splits)

lemma readFile_Content: "readFile E fs p = Content c \<longleftrightarrow> fs p = Some c \<and> we_readError E p = None"
  by (auto simp: readFile_def split: option.splits)

lemma valid_session_current:
  assumes "readFile E fs p = Content c"
  shows "validUploadSessionData E c \<longleftrightarrow> (\<exists>ss. readUploadSessionFile E fs p = Inr ss)"
proof -
  from assms have "fs p = Some c" "we_readError E p = None" by (simp_all add: readFile_Content)
  with valid_session_file [of E p c fs] show ?thesis by (simp add: map_upd_triv)
qed

text \<open>The version just written reads back, and a damaged version is replaced by the backup.\<close>

lemma saved_sessions_readable:
  assumes "we_decodeSessions E data = Inr (1, stored)" and "we_readError E path = None"
  shows "readUploadSessions E (fs(path \<mapsto> data)) path = Inr stored"
  using assms by (simp add: readUploadSessions_def readUploadSessionFile_content)

lemma backup_recovers:
  assumes err: "we_readError E path = None" "we_readError E (path @ ''.bak'') = None"
    and pre: "readFile E fs path = Content current" "readUploadSessionFile E fs path = Inr old" "\<not> validUploadSessionData E junk"
  shows "readUploadSessions E ((fs(path @ ''.bak'' \<mapsto> current, path \<mapsto> data))(path \<mapsto> junk)) path = Inr old"
proof -
  let ?bak = "path @ ''.bak''"
  have "readUploadSessionFile E (fs(?bak \<mapsto> current)) ?bak = Inr old"
    using pre(1,2) err by (auto simp: readUploadSessionFile_def readFile_def split: sum.splits option.splits if_splits)
  moreover obtain e where "readUploadSessionFile E ((fs(?bak \<mapsto> current))(path \<mapsto> junk)) path = Inl e"
    using pre(3) valid_session_file [OF err(1), of junk "fs(?bak \<mapsto> current)"]
    by (cases "readUploadSessionFile E ((fs(?bak \<mapsto> current))(path \<mapsto> junk)) path") auto
  ultimately show ?thesis by (simp add: readUploadSessions_def)
qed

section \<open>Properties\<close>

text \<open>C28: The session checkpoint survives a crash: whatever its writes answer, at every moment of writing
  new sessions the workspace reads back as the sessions it had or as the new ones; after a write
  without an error it reads back as the new ones; and if the file written then is damaged, it reads
  back as the sessions of the version it replaced.\<close>

theorem checkpoint_crash_safe:
  assumes "run_state (writeUploadSessions E path sessions) s = (e, s')"
    and "we_decodeSessions E (we_encodeSessions E sessions @ newline) = Inr (1, stored)"
    and "we_readError E path = None" and "we_readError E (path @ ''.bak'') = None"
  shows "(\<forall>fs \<in> crash_states s s'. readUploadSessions E fs path = readUploadSessions E (us_files s) path
            \<or> readUploadSessions E fs path = Inr stored)
    \<and> (e = None \<longrightarrow> readUploadSessions E (us_files s') path = Inr stored)
    \<and> (\<forall>old junk. e = None \<and> readUploadSessionFile E (us_files s) path = Inr old \<and> \<not> validUploadSessionData E junk
         \<longrightarrow> readUploadSessions E ((us_files s')(path \<mapsto> junk)) path = Inr old)"
proof -
  let ?data = "we_encodeSessions E sessions @ newline" and ?bak = "path @ ''.bak''"
  note new = saved_sessions_readable [OF assms(2,3)]
  note junk = backup_recovers [OF assms(3,4)]
  from checkpoint_states [OF assms(1) [unfolded writeUploadSessions_def]]
  consider (same) "crash_states s s' = {us_files s}" "us_files s' = us_files s" "e \<noteq> None"
    | (both) current where "readFile E (us_files s) path = Content current" "validUploadSessionData E current"
        "crash_states s s' \<subseteq> {us_files s, (us_files s)(?bak \<mapsto> current), (us_files s)(?bak \<mapsto> current, path \<mapsto> ?data)}"
        "us_files s' = (us_files s)(?bak \<mapsto> current, path \<mapsto> ?data) \<or> e \<noteq> None"
    | (plain) "readFile E (us_files s) path = NotExist \<or> (\<exists>c. readFile E (us_files s) path = Content c \<and> \<not> validUploadSessionData E c)"
        "crash_states s s' \<subseteq> {us_files s, (us_files s)(path \<mapsto> ?data)}"
        "us_files s' = (us_files s)(path \<mapsto> ?data) \<or> e \<noteq> None"
    by (auto simp: Let_def)
  then show ?thesis
  proof cases
    case same
    then show ?thesis by auto
  next
    case both
    from both(1,2) obtain old where old: "readUploadSessionFile E (us_files s) path = Inr old"
      using valid_session_current by blast
    then have kept: "readUploadSessions E ((us_files s)(?bak \<mapsto> current)) path = readUploadSessions E (us_files s) path"
      by (simp add: readUploadSessions_def)
    have "readUploadSessions E fs path = readUploadSessions E (us_files s) path \<or> readUploadSessions E fs path = Inr stored"
      if "fs \<in> crash_states s s'" for fs
    proof -
      from that both(3) consider "fs = us_files s" | "fs = (us_files s)(?bak \<mapsto> current)"
        | "fs = (us_files s)(?bak \<mapsto> current, path \<mapsto> ?data)" by blast
      then show ?thesis by cases (simp_all add: kept new)
    qed
    moreover have "e = None \<Longrightarrow> readUploadSessions E (us_files s') path = Inr stored"
      using both(4) new by auto
    moreover have "readUploadSessions E ((us_files s')(path \<mapsto> j)) path = Inr o'"
      if "e = None" "readUploadSessionFile E (us_files s) path = Inr o'" "\<not> validUploadSessionData E j" for j o'
      using junk [OF both(1) that(2,3)] both(4) that(1) by simp
    ultimately show ?thesis by (intro conjI ballI allI impI) simp_all
  next
    case plain
    have "readUploadSessions E fs path = readUploadSessions E (us_files s) path \<or> readUploadSessions E fs path = Inr stored"
      if "fs \<in> crash_states s s'" for fs
    proof -
      from that plain(2) consider "fs = us_files s" | "fs = (us_files s)(path \<mapsto> ?data)" by blast
      then show ?thesis by cases (simp_all add: new)
    qed
    moreover have "e = None \<Longrightarrow> readUploadSessions E (us_files s') path = Inr stored"
      using plain(3) new by auto
    moreover have none: "readUploadSessionFile E (us_files s) path \<noteq> Inr o'" for o'
      using plain(1) valid_session_current [of E "us_files s" path] by (auto simp: readUploadSessionFile_def)
    ultimately show ?thesis by (intro conjI ballI allI impI) (blast | (use none in blast))+
  qed
qed

definition sample_workspace :: Workspace_Env where
  "sample_workspace =
     \<lparr>we_fate = \<lambda>_. Written, we_readError = \<lambda>_. None, we_encodeSessions = \<lambda>_. ''{}'',
      we_decodeSessions = \<lambda>d. if d = ''{}'' @ newline then Inr (1, []) else Inl (errorf ''unexpected input''),
      we_encodeOperations = \<lambda>_. ''[]'', we_decodeOperations = \<lambda>_. Inr [], we_sha256 = id\<rparr>"

definition empty_uploader :: UploaderState where
  "empty_uploader = \<lparr>us_files = [''old.json'' \<mapsto> ''{}'' @ newline], us_past = [], us_writes = 0, us_sessions = [], us_events = []\<rparr>"

theorem checkpoint_crash_safe_witness:
  "readUploadSessions sample_workspace
     ((us_files (snd (run_state (writeUploadSessions sample_workspace ''old.json'' []) empty_uploader)))(''old.json'' \<mapsto> ''{'')) ''old.json''
   = Inr []"
proof -
  let ?E = sample_workspace
  obtain e s' where run: "run_state (writeUploadSessions ?E ''old.json'' []) empty_uploader = (e, s')" by fastforce
  have ok: "e = None"
    using run by (simp add: writeUploadSessions_def writeCheckpointWithBackup_def writeAtomicFile_def gets_def modify_def
        ret_def put_file_def sample_workspace_def empty_uploader_def readFile_def validUploadSessionData_def)
  have dec: "we_decodeSessions ?E (we_encodeSessions ?E [] @ newline) = Inr (1, [])"
    "we_readError ?E ''old.json'' = None" "we_readError ?E (''old.json'' @ ''.bak'') = None"
    by (simp_all add: sample_workspace_def)
  have old: "readUploadSessionFile ?E (us_files empty_uploader) ''old.json'' = Inr []"
    "\<not> validUploadSessionData ?E ''{''"
    by (simp_all add: sample_workspace_def empty_uploader_def readUploadSessionFile_def readFile_def validUploadSessionData_def)
  from checkpoint_crash_safe [OF run dec] ok old run show ?thesis by simp
qed

end
