(* ===== verification/Artifact_Stream.thy ===== *)
theory Artifact_Stream
  imports Provider_Errors
begin

text \<open>
  The validating reader of the provider SDK (\<open>pkg/provider/sdk/stream.go\<close>): it counts and hashes
  the bytes it passes on, and \<open>Verify\<close> compares them with the declared size and checksum. The
  uploader checks the build artifact with it before an upload, the SDK server every upload stream.

  The underlying reader is the list of its answers, each some bytes and how the call ended; behind
  the list it is at its end. Sizes are \<open>int64\<close> counters of bytes that exist, so they do not overflow.
  SHA-256 is a parameter.
\<close>

section \<open>Checksums\<close>

definition hex_value :: "char \<Rightarrow> nat option" where
  "hex_value c =
     (let n = of_char c :: nat in
      if 48 \<le> n \<and> n \<le> 57 then Some (n - 48)
      else if 97 \<le> n \<and> n \<le> 102 then Some (n - 87)
      else if 65 \<le> n \<and> n \<le> 70 then Some (n - 55) else None)"

text \<open>\<open>hex.DecodeString\<close>.\<close>

fun hex_decode :: "string \<Rightarrow> string option" where
  "hex_decode [] = Some []"
| "hex_decode [c] = None"
| "hex_decode (c # d # s) =
     (case (hex_value c, hex_value d, hex_decode s) of
        (Some h, Some l, Some r) \<Rightarrow> Some (char_of (16 * h + l) # r)
      | _ \<Rightarrow> None)"

text \<open>No checksum is the empty list of bytes, as the nil slice of the code.\<close>

definition parseSHA256 :: "string \<Rightarrow> go_error + string" where
  "parseSHA256 raw =
     (let checksum = trimSpace raw in
      if checksum = '''' then Inr []
      else case cut checksum '':'' of
        None \<Rightarrow> Inl (errorf ''artifact checksum must use sha256:<hex>'')
      | Some (algorithm, v) \<Rightarrow>
          if \<not> equalFold algorithm ''sha256'' then Inl (errorf ''artifact checksum must use sha256:<hex>'')
          else case hex_decode v of
            None \<Rightarrow> Inl (errorf ''artifact SHA-256 checksum must contain 64 hexadecimal characters'')
          | Some decoded \<Rightarrow>
              if length decoded \<noteq> 32 then Inl (errorf ''artifact SHA-256 checksum must contain 64 hexadecimal characters'')
              else Inr decoded)"

section \<open>The reader\<close>

datatype read_end = More | EOF | ReadFails go_error

type_synonym source = "(string \<times> read_end) list"

record ValidatingReader =
  vr_reader :: source
  vr_hash :: string  \<comment> \<open>the bytes written to the hash\<close>
  vr_expectedSize :: int
  vr_expectedHash :: string
  vr_read :: int
  vr_reachedEOF :: bool
  vr_progressErr :: "go_error option"

definition source_read :: "source \<Rightarrow> (string \<times> read_end) \<times> source" where
  "source_read xs = (case xs of [] \<Rightarrow> (([], EOF), []) | x # rest \<Rightarrow> (x, rest))"

definition NewValidatingReader :: "source option \<Rightarrow> int \<Rightarrow> string \<Rightarrow> go_error + ValidatingReader" where
  "NewValidatingReader reader totalSize checksum =
     (case reader of None \<Rightarrow> Inl (errorf ''artifact stream is required'')
      | Some src \<Rightarrow>
          if totalSize < 0 then Inl (errorf ''artifact size must not be negative'')
          else case parseSHA256 checksum of Inl err \<Rightarrow> Inl err
          | Inr expected \<Rightarrow>
              Inr \<lparr>vr_reader = src, vr_hash = [], vr_expectedSize = totalSize, vr_expectedHash = expected, vr_read = 0,
                   vr_reachedEOF = False, vr_progressErr = None\<rparr>)"

definition exceeded :: "int \<Rightarrow> go_error" where
  "exceeded expectedSize = errorf (''artifact stream exceeded declared size '' @ show_int expectedSize)"

text \<open>\<open>Read\<close>, with the progress callback as an argument; without one, \<open>\<lambda>n. None\<close>.\<close>

definition Read :: "(int \<Rightarrow> go_error option) \<Rightarrow> ValidatingReader \<Rightarrow> (string \<times> read_end) \<times> ValidatingReader" where
  "Read onProgress r =
     (case vr_progressErr r of Some err \<Rightarrow> (([], ReadFails err), r)
      | None \<Rightarrow>
          if vr_reachedEOF r then (([], EOF), r)
          else let ((d, e), rest) = source_read (vr_reader r);
                   r1 = r\<lparr>vr_reader := rest\<rparr>;
                   n = vr_read r + int (length d) in
            if d \<noteq> [] then
              if vr_expectedSize r > 0 \<and> n > vr_expectedSize r then
                ((d, ReadFails (exceeded (vr_expectedSize r))), r1\<lparr>vr_read := n\<rparr>)
              else let r2 = r1\<lparr>vr_read := n, vr_hash := vr_hash r @ d\<rparr> in
                case onProgress n of
                  Some err \<Rightarrow> ((d, ReadFails err), r2\<lparr>vr_progressErr := Some err\<rparr>)
                | None \<Rightarrow> ((d, e), r2\<lparr>vr_reachedEOF := (e = EOF)\<rparr>)
            else ((d, e), r1\<lparr>vr_reachedEOF := (e = EOF)\<rparr>))"

definition Verify :: "(string \<Rightarrow> string) \<Rightarrow> ValidatingReader \<Rightarrow> go_error option" where
  "Verify sha256 r =
     (case vr_progressErr r of Some err \<Rightarrow> Some err
      | None \<Rightarrow>
          (let check = (\<lambda>eof.
             if \<not> eof then Some (errorf ''target upload returned before consuming the complete artifact stream'')
             else if vr_expectedSize r > 0 \<and> vr_read r \<noteq> vr_expectedSize r then
               Some (errorf (''artifact stream size '' @ show_int (vr_read r) @ '' does not match declared size '' @
                 show_int (vr_expectedSize r)))
             else if vr_expectedHash r \<noteq> [] \<and> sha256 (vr_hash r) \<noteq> vr_expectedHash r then
               Some (errorf ''artifact stream SHA-256 does not match declared checksum'')
             else None) in
           if \<not> vr_reachedEOF r \<and> vr_expectedSize r > 0 \<and> vr_read r = vr_expectedSize r then
             (case fst (source_read (vr_reader r)) of
                (d, e) \<Rightarrow>
                  if d \<noteq> [] then Some (exceeded (vr_expectedSize r))
                  else (case e of
                          EOF \<Rightarrow> check True
                        | ReadFails err \<Rightarrow> Some (wrapf ''verify artifact stream termination: '' err)
                        | More \<Rightarrow> Some (errorf ''verify artifact stream termination: %!w(<nil>)'')))
           else check (vr_reachedEOF r)))"

section \<open>Reading to the end\<close>

text \<open>\<open>io.Copy\<close> to a writer that takes everything: read until a call ends with an error.\<close>



lemma Read_More_shorter: "Read f r = ((d, More), r') \<Longrightarrow> length (vr_reader r') < length (vr_reader r)"
  by (cases "vr_reader r") (auto simp: Read_def source_read_def Let_def split: option.splits if_splits)

function copy :: "(int \<Rightarrow> go_error option) \<Rightarrow> ValidatingReader \<Rightarrow> go_error option \<times> ValidatingReader" where
  "copy f r =
     (case Read f r of
        ((d, More), r') \<Rightarrow> copy f r'
      | ((d, EOF), r') \<Rightarrow> (None, r')
      | ((d, ReadFails err), r') \<Rightarrow> (Some err, r'))"
  by pat_completeness auto
termination
  by (relation "measure (\<lambda>(f, r). length (vr_reader r))") (auto dest: Read_More_shorter [OF sym])

declare copy.simps [simp del]

text \<open>The check of the build artifact before an upload (\<open>verifyArtifactFile\<close> of \<open>cmd/uploader/main.go\<close>),
  from the opened file on.\<close>

definition verify_artifact :: "(string \<Rightarrow> string) \<Rightarrow> source \<Rightarrow> int \<Rightarrow> string \<Rightarrow> go_error option" where
  "verify_artifact sha256 content sizeBytes checksum =
     (case NewValidatingReader (Some content) sizeBytes checksum of Inl err \<Rightarrow> Some err
      | Inr reader \<Rightarrow>
          (case copy (\<lambda>n. None) reader of
             (Some err, r) \<Rightarrow> Some (wrapf ''read artifact: '' err)
           | (None, r) \<Rightarrow> Verify sha256 r))"

section \<open>What is accepted\<close>

text \<open>The content of a source: its bytes up to the end, or the error before it.\<close>

fun delivered :: "source \<Rightarrow> go_error + string" where
  "delivered [] = Inr []"
| "delivered ((d, EOF) # rest) = Inr d"
| "delivered ((d, ReadFails err) # rest) = Inl err"
| "delivered ((d, More) # rest) = (case delivered rest of Inl err \<Rightarrow> Inl err | Inr b \<Rightarrow> Inr (d @ b))"

definition reading :: "ValidatingReader \<Rightarrow> bool" where
  "reading r \<longleftrightarrow> vr_progressErr r = None \<and> \<not> vr_reachedEOF r \<and> vr_read r = int (length (vr_hash r))"

text \<open>Every run of the copy ends in one of three ways: all bytes hashed, the source's error, or too
  many bytes.\<close>

lemma copy_result:
  assumes "reading r" and "vr_expectedSize r > 0 \<longrightarrow> vr_read r \<le> vr_expectedSize r"
  shows "case delivered (vr_reader r) of
      Inr b \<Rightarrow>
        if vr_expectedSize r > 0 \<and> vr_read r + int (length b) > vr_expectedSize r
        then fst (copy (\<lambda>n. None) r) \<noteq> None
        else \<exists>r'. copy (\<lambda>n. None) r = (None, r') \<and> vr_reachedEOF r' \<and> vr_progressErr r' = None
          \<and> vr_hash r' = vr_hash r @ b \<and> vr_read r' = vr_read r + int (length b)
          \<and> vr_expectedSize r' = vr_expectedSize r \<and> vr_expectedHash r' = vr_expectedHash r
    | Inl err \<Rightarrow> fst (copy (\<lambda>n. None) r) \<noteq> None"
  using assms
proof (induction "vr_reader r" arbitrary: r rule: delivered.induct)
  case 1
  then show ?case
    by (auto simp: copy.simps [of _ r] Read_def source_read_def reading_def 1(1) [symmetric])
next
  case (2 d rest)
  then show ?case
    by (auto simp: copy.simps [of _ r] Read_def source_read_def reading_def Let_def 2(1) [symmetric])
next
  case (3 d err rest)
  then show ?case
    by (simp add: copy.simps [of _ r] Read_def source_read_def reading_def Let_def 3(1) [symmetric])
next
  case (4 d rest)
  note src = 4(2) [symmetric]
  show ?case
  proof (cases "vr_expectedSize r > 0 \<and> vr_read r + int (length d) > vr_expectedSize r")
    case True
    then have "d \<noteq> []" using 4(4) by auto
    with True 4(3) src have "fst (copy (\<lambda>n. None) r) \<noteq> None"
      by (simp add: copy.simps [of _ r] Read_def source_read_def reading_def Let_def)
    with True src show ?thesis by (auto split: sum.splits)
  next
    case False
    let ?r = "r\<lparr>vr_reader := rest, vr_read := vr_read r + int (length d), vr_hash := vr_hash r @ d\<rparr>"
    have "Read (\<lambda>n. None) r = ((d, More), ?r)"
      using False 4(3) src by (cases r) (auto simp: Read_def source_read_def reading_def Let_def)
    then have step: "copy (\<lambda>n. None) r = copy (\<lambda>n. None) ?r" by (simp add: copy.simps [of _ r])
    have "reading ?r" "vr_expectedSize ?r > 0 \<longrightarrow> vr_read ?r \<le> vr_expectedSize ?r"
      using 4(3) False by (auto simp: reading_def)
    from 4(1) [OF _ this] show ?thesis
      by (auto simp: src step algebra_simps split: sum.splits if_splits)
  qed
qed

text \<open>A target that stops reading at exactly the declared size, without having seen the end: the probe of
  \<open>Verify\<close> finds out whether there was more.\<close>

lemma Verify_at_size:
  assumes "reading r" and "vr_expectedSize r > 0" and "vr_read r = vr_expectedSize r" and "vr_reader r = (d, e) # rest"
  shows "Verify sha256 r = None \<longleftrightarrow> d = [] \<and> e = EOF \<and> (vr_expectedHash r \<noteq> [] \<longrightarrow> sha256 (vr_hash r) = vr_expectedHash r)"
  using assms by (auto simp: Verify_def reading_def source_read_def Let_def split: read_end.splits)

section \<open>Encoded digests\<close>

lemma trimSpace_plain:
  assumes "s \<noteq> []" and "hd s \<notin> hd ` set space_runes" and "last s \<notin> last ` set space_runes"
  shows "trimSpace s = s"
proof -
  have nonempty: "w \<noteq> []" if "w \<in> set space_runes" for w using that by (auto simp: space_runes_def)
  have "\<not> hasPrefix s w" if "w \<in> set space_runes" for w
    using nonempty [OF that] assms(1,2) that by (cases s; cases w) (force simp: hasPrefix_def)+
  then have left: "space_at_start s = None" by (auto simp: space_at_start_def find_None_iff)
  have "\<not> hasSuffix s w" if w: "w \<in> set space_runes" for w
  proof
    assume "hasSuffix s w"
    then obtain x where "s = x @ w" by (metis append_take_drop_id hasSuffix_def)
    then have "last s = last w" using nonempty [OF w] by simp
    then show False using assms(3) w by blast
  qed
  then have right: "space_at_end s = None" by (auto simp: space_at_end_def find_None_iff)
  show ?thesis
    by (simp add: trimSpace_def trimSpaceLeft.simps [of s] trimSpaceRight.simps [of s] left right)
qed

lemma char_div_16: "(of_char c :: nat) div 16 < 16"
  using nat_of_char_less_256 [of c] by (simp add: div_less_iff_less_mult)

lemma hex_value_digit: "n < 16 \<Longrightarrow> hex_value (hex_digit n) = Some n"
proof -
  have "list_all (\<lambda>n. hex_value (hex_digit n) = Some n) [0..<16]" by code_simp
  then show "n < 16 \<Longrightarrow> hex_value (hex_digit n) = Some n" by (simp add: list_all_iff)
qed

lemma hex_decode_hex: "hex_decode (hex s) = Some s"
proof (induction s)
  case (Cons c s)
  then show ?case
    using char_div_16 [of c] by (simp add: hex_def hex_byte_def Let_def hex_value_digit)
qed (simp add: hex_def)

lemma hex_last:
  assumes "hex d \<noteq> []"
  shows "last (hex d) \<notin> last ` set space_runes"
proof -
  have "set (hex d) \<subseteq> hex_digit ` {..<16}"
    by (auto simp: hex_def hex_byte_def Let_def char_div_16)
  then have digit: "last (hex d) \<in> hex_digit ` {..<16}" using assms last_in_set by blast
  have "list_all (\<lambda>n. hex_digit n \<notin> set (map last space_runes)) [0..<16]" by code_simp
  then have "\<And>n. n < 16 \<Longrightarrow> hex_digit n \<notin> last ` set space_runes" by (simp add: list_all_iff)
  with digit show ?thesis by (metis imageE lessThan_iff)
qed

lemma parseSHA256_hex:
  assumes "length d = 32"
  shows "parseSHA256 (''sha256:'' @ hex d) = Inr d"
proof -
  have "hex d \<noteq> []" using assms length_hex [of d] by (metis length_0_conv mult_eq_0_iff zero_neq_numeral)
  then have "trimSpace (''sha256:'' @ hex d) = ''sha256:'' @ hex d"
    using hex_last [of d] by (intro trimSpace_plain) (auto simp: space_runes_def)
  moreover have "cut (''sha256:'' @ hex d) '':'' = Some (''sha256'', hex d)" by (simp add: hasPrefix_def)
  moreover have "equalFold ''sha256'' ''sha256''" by code_simp
  ultimately show ?thesis
    using assms by (simp add: parseSHA256_def Let_def hex_decode_hex del: equalFold.simps)
qed

text \<open>The check as a whole.\<close>

lemma verify_artifact_iff:
  "verify_artifact sha256 content sizeBytes checksum = None \<longleftrightarrow>
     sizeBytes \<ge> 0
   \<and> (\<exists>expected bytes. parseSHA256 checksum = Inr expected \<and> delivered content = Inr bytes
        \<and> \<not> (sizeBytes > 0 \<and> int (length bytes) \<noteq> sizeBytes)
        \<and> \<not> (expected \<noteq> [] \<and> sha256 bytes \<noteq> expected))"
proof (cases "sizeBytes < 0")
  case True
  then show ?thesis by (simp add: verify_artifact_def NewValidatingReader_def)
next
  case False
  show ?thesis
  proof (cases "parseSHA256 checksum")
    case (Inl err)
    with False show ?thesis by (simp add: verify_artifact_def NewValidatingReader_def)
  next
    case (Inr expected)
    define r where "r = \<lparr>vr_reader = content, vr_hash = [], vr_expectedSize = sizeBytes, vr_expectedHash = expected,
      vr_read = 0, vr_reachedEOF = False, vr_progressErr = None\<rparr>"
    have new: "NewValidatingReader (Some content) sizeBytes checksum = Inr r"
      using False Inr by (simp add: NewValidatingReader_def r_def)
    have "reading r" "vr_expectedSize r > 0 \<longrightarrow> vr_read r \<le> vr_expectedSize r"
      using False by (simp_all add: reading_def r_def)
    note result = copy_result [OF this]
    show ?thesis
    proof (cases "delivered content")
      case (Inl err)
      with result have "fst (copy (\<lambda>n. None) r) \<noteq> None" by (simp add: r_def)
      then have "verify_artifact sha256 content sizeBytes checksum \<noteq> None"
        by (auto simp: verify_artifact_def new split: prod.splits option.splits)
      with Inl show ?thesis by simp
    next
      case (Inr bytes)
      show ?thesis
      proof (cases "sizeBytes > 0 \<and> int (length bytes) > sizeBytes")
        case True
        with result Inr have "fst (copy (\<lambda>n. None) r) \<noteq> None" by (simp add: r_def)
        then have "verify_artifact sha256 content sizeBytes checksum \<noteq> None"
          by (auto simp: verify_artifact_def new split: prod.splits option.splits)
        with True Inr show ?thesis by auto
      next
        case small: False
        with result Inr obtain r' where "copy (\<lambda>n. None) r = (None, r')" "vr_reachedEOF r'" "vr_progressErr r' = None"
            "vr_hash r' = bytes" "vr_read r' = int (length bytes)" "vr_expectedSize r' = sizeBytes"
            "vr_expectedHash r' = expected"
          by (auto simp: r_def)
        then have "verify_artifact sha256 content sizeBytes checksum = None \<longleftrightarrow>
            \<not> (sizeBytes > 0 \<and> int (length bytes) \<noteq> sizeBytes) \<and> \<not> (expected \<noteq> [] \<and> sha256 bytes \<noteq> expected)"
          by (simp add: verify_artifact_def new Verify_def Let_def)
        with False Inr \<open>parseSHA256 checksum = Inr expected\<close> show ?thesis by simp
      qed
    qed
  qed
qed

section \<open>Properties\<close>

text \<open>C30: The artifact check accepts exactly the declared artifact: it ends without an error if and only if
  the declared size is not negative, the checksum is empty or a well-formed SHA-256, the file can be
  read to its end, and its bytes have the declared size (when one is declared) and the declared
  checksum (when one is declared), however the reader cuts them into pieces.\<close>

theorem artifact_check_exact:
  "verify_artifact sha256 content sizeBytes checksum = None \<longleftrightarrow>
     sizeBytes \<ge> 0
   \<and> (\<exists>expected bytes. parseSHA256 checksum = Inr expected \<and> delivered content = Inr bytes
        \<and> \<not> (sizeBytes > 0 \<and> int (length bytes) \<noteq> sizeBytes)
        \<and> \<not> (expected \<noteq> [] \<and> sha256 bytes \<noteq> expected))"
  by (rule verify_artifact_iff)

end
