(* ===== verification/Uploader.thy ===== *)
theory Uploader
  imports Upload_Checkpoint Artifact_Stream Netguard Path_Clean
begin

text \<open>
  The upload process (\<open>cmd/uploader/main.go\<close>): the upload of every target with its session
  checkpoints, the cleanup of what was uploaded, and the exit code of the process.

  Providers are parameters: an answer may depend on everything that happened before, which is the
  list of events. A resumable upload is a script of checkpoints, each of which the provider continues
  with what the checkpoint callback returned. Clocks, the environment, JSON, files outside the workspace
  and the DNS are parameters as well. Times are in seconds, as JSON stores them.
\<close>

section \<open>Providers and environment\<close>

record PlatformSession =
  ps_IdempotencyKey :: string
  ps_ResumeToken :: string
  ps_CommittedOffset :: int
  ps_ResumeMode :: string

datatype upload_script =
    Finished "UploadResult option" "go_error option"
  | Progress PlatformSession "go_error option \<Rightarrow> upload_script"

record ImageRef =
  ir_ID :: string
  ir_Location :: string

record UploadProvider =
  upr_init :: "event list \<Rightarrow> PluginConfig \<Rightarrow> go_error option"
  upr_validate :: "event list \<Rightarrow> TargetSpec \<Rightarrow> go_error option"
  upr_uploadResumable :: "(event list \<Rightarrow> BuildArtifact \<Rightarrow> PlatformSession \<Rightarrow> upload_script) option"
  upr_upload :: "event list \<Rightarrow> BuildArtifact \<Rightarrow> UploadResult option \<times> go_error option"
  upr_register :: "event list \<Rightarrow> UploadResult \<Rightarrow> ImageRef option \<times> go_error option"
  upr_cleanup :: "event list \<Rightarrow> BuildArtifact \<Rightarrow> go_error option"

record ProviderTLSConfig =
  ptc_ServerName :: string
  ptc_CABundle :: string
  ptc_ClientCert :: string
  ptc_ClientKey :: string

record Uploader_Env =
  ue_ws :: Workspace_Env
  ue_getenv :: "string \<Rightarrow> string"
  ue_decodeTargets :: "string \<Rightarrow> go_error + TargetConfig list"
  ue_decodeArtifact :: "string \<Rightarrow> go_error + ArtifactStatus"
  ue_open :: "string \<Rightarrow> go_error + source"
  ue_readFile :: "string \<Rightarrow> go_error + string"
  ue_readDir :: "string \<Rightarrow> go_error + (string \<times> bool) list"  \<comment> \<open>names, and which are directories\<close>
  ue_decodeStringMap :: "string \<Rightarrow> go_error + strmap"
  ue_New :: "string \<Rightarrow> go_error + UploadProvider"
  ue_Connect :: "event list \<Rightarrow> string \<Rightarrow> ProviderTLSConfig option \<Rightarrow> go_error + string \<times> UploadProvider"
  ue_url_parse :: url_parser
  ue_lookupHost :: "event list \<Rightarrow> resolver"
  ue_range :: "strmap \<Rightarrow> string list"
  ue_parseInt :: "string \<Rightarrow> int option"
  ue_now :: "event list \<Rightarrow> int"
  ue_since :: "event list \<Rightarrow> int"

abbreviation (input) resultFileName :: string where "resultFileName \<equiv> ''result.json''"

definition log_event :: "event \<Rightarrow> unit uploader" where
  "log_event ev = modify (\<lambda>s. s\<lparr>us_events := us_events s @ [ev]\<rparr>)"

text \<open>\<open>if err != nil { return ..., wrap(err) }\<close> after a call with only an error, and after one with a
  value.\<close>

definition checked :: "(go_error \<Rightarrow> go_error) \<Rightarrow> go_error option uploader \<Rightarrow> (go_error + 'a) uploader \<Rightarrow> (go_error + 'a) uploader" where
  "checked wrap m k = do { e \<leftarrow> m; case e of Some err \<Rightarrow> ret (Inl (wrap err)) | None \<Rightarrow> k }"

definition trying :: "(go_error + 'b) uploader \<Rightarrow> ('b \<Rightarrow> (go_error + 'a) uploader) \<Rightarrow> (go_error + 'a) uploader" where
  "trying m k = do { r \<leftarrow> m; case r of Inl err \<Rightarrow> ret (Inl err) | Inr x \<Rightarrow> k x }"

section \<open>Reading the inputs\<close>

definition artifact_of_status :: "ArtifactStatus \<Rightarrow> BuildArtifact" where
  "artifact_of_status st =
     \<lparr>ba_Path = art_path st, ba_Format = art_format st, ba_Checksum = art_checksum st, ba_SizeBytes = art_sizeBytes st,
      ba_OS = art_os st, ba_Metadata = art_metadata st\<rparr>"

text \<open>The error of a missing file is wrapped, and \<open>os.IsNotExist\<close> does not look through wrapped errors:
  the answer is \<open>Broken\<close> for every failure.\<close>

definition readArtifact :: "Uploader_Env \<Rightarrow> files \<Rightarrow> read_error + BuildArtifact" where
  "readArtifact E fs =
     (case readFile (ue_ws E) fs resultFileName of
        NotExist \<Rightarrow> Inl (Broken (wrapf ''read build result: '' (errorf (show_read_error Absent))))
      | Unreadable err \<Rightarrow> Inl (Broken (wrapf ''read build result: '' err))
      | Content data \<Rightarrow>
          (case ue_decodeArtifact E data of
             Inl err \<Rightarrow> Inl (Broken (wrapf ''parse build result: '' err))
           | Inr st \<Rightarrow> Inr (artifact_of_status st)))"

definition readTargets :: "Uploader_Env \<Rightarrow> string \<Rightarrow> go_error + TargetConfig list" where
  "readTargets E raw =
     (if raw = '''' then Inl (errorf ''UPLOAD_TARGETS_JSON is required'')
      else case ue_decodeTargets E raw of
        Inl err \<Rightarrow> Inl (wrapf ''parse UPLOAD_TARGETS_JSON: '' err)
      | Inr targets \<Rightarrow>
          if targets = [] then Inl (errorf ''at least one upload target is required'') else Inr targets)"

definition verifyArtifactFile :: "Uploader_Env \<Rightarrow> BuildArtifact \<Rightarrow> go_error option" where
  "verifyArtifactFile E artifact =
     (if ba_Path artifact = '''' then Some (errorf ''artifact path is required'')
      else case ue_open E (ba_Path artifact) of
        Inl err \<Rightarrow> Some (wrapf ''open artifact: '' err)
      | Inr file \<Rightarrow> verify_artifact (we_sha256 (ue_ws E)) file (ba_SizeBytes artifact) (ba_Checksum artifact))"

definition expandJSONCredentials :: "Uploader_Env \<Rightarrow> string \<Rightarrow> strmap option" where
  "expandJSONCredentials E raw = (case ue_decodeStringMap E raw of Inl _ \<Rightarrow> None | Inr values \<Rightarrow> Some values)"

fun secret_entries :: "Uploader_Env \<Rightarrow> string \<Rightarrow> (string \<times> bool) list \<Rightarrow> strmap \<Rightarrow> go_error + strmap" where
  "secret_entries E dir [] data = Inr data"
| "secret_entries E dir ((name, isDir) # entries) data =
     (if isDir then secret_entries E dir entries data
      else case ue_readFile E (dir @ ''/'' @ name) of Inl err \<Rightarrow> Inl err
      | Inr v \<Rightarrow>
          (case (if name = ''credentials'' then expandJSONCredentials E v else None) of
             Some expanded \<Rightarrow> secret_entries E dir entries (data ++ expanded)
           | None \<Rightarrow> secret_entries E dir entries (data(name \<mapsto> v))))"

definition readSecretData :: "Uploader_Env \<Rightarrow> string \<Rightarrow> go_error + strmap" where
  "readSecretData E dir =
     (case ue_readDir E dir of Inl err \<Rightarrow> Inl err | Inr entries \<Rightarrow> secret_entries E dir entries Map.empty)"

section \<open>The provider of a target\<close>

definition providerTLSConfig :: "Uploader_Env \<Rightarrow> GRPCTLSConfig option \<Rightarrow> go_error + ProviderTLSConfig option" where
  "providerTLSConfig E config =
     (case config of None \<Rightarrow> Inr None
      | Some c \<Rightarrow>
          if gt_CAPath c = '''' \<or> gt_ClientCertPath c = '''' \<or> gt_ClientKeyPath c = '''' then
            Inl (errorf ''CA, client certificate, and client key paths are required'')
          else case ue_readFile E (gt_CAPath c) of Inl err \<Rightarrow> Inl (wrapf ''read CA bundle: '' err)
          | Inr ca \<Rightarrow>
              (case ue_readFile E (gt_ClientCertPath c) of Inl err \<Rightarrow> Inl (wrapf ''read client certificate: '' err)
               | Inr cert \<Rightarrow>
                   (case ue_readFile E (gt_ClientKeyPath c) of Inl err \<Rightarrow> Inl (wrapf ''read client key: '' err)
                    | Inr key \<Rightarrow>
                        Inr (Some \<lparr>ptc_ServerName = gt_ServerName c, ptc_CABundle = ca, ptc_ClientCert = cert,
                                   ptc_ClientKey = key\<rparr>))))"

definition providerPluginForTarget :: "Uploader_Env \<Rightarrow> TargetConfig \<Rightarrow> (go_error + UploadProvider) uploader" where
  "providerPluginForTarget E target = do {
     h \<leftarrow> gets us_events;
     ret (case tc_GRPC target of
            None \<Rightarrow>
              (case ue_New E (tc_Provider target) of
                 Inl err \<Rightarrow> Inl (wrapf (''get provider '' @ quoted (tc_Provider target) @ '': '') err)
               | Inr p \<Rightarrow> Inr p)
          | Some grpc \<Rightarrow>
              if gr_Address grpc = '''' then
                Inl (errorf (''gRPC address for provider '' @ quoted (tc_Provider target) @ '' is required''))
              else case providerTLSConfig E (gr_TLS grpc) of
                Inl err \<Rightarrow> Inl (wrapf (''load gRPC TLS config for provider '' @ quoted (tc_Provider target) @ '': '') err)
              | Inr tls \<Rightarrow>
                  (case ue_Connect E h (gr_Address grpc) tls of
                     Inl err \<Rightarrow>
                       Inl (wrapf (''connect to PlatformProvider '' @ quoted (tc_Provider target) @ '' at '' @
                         gr_Address grpc @ '': '') err)
                   | Inr (name, p) \<Rightarrow>
                       if name \<noteq> tc_Provider target then
                         Inl (errorf (''PlatformProvider at '' @ gr_Address grpc @ '' reported name '' @ quoted name @
                           '', want '' @ quoted (tc_Provider target)))
                       else Inr p))
   }"

definition target_options :: "TargetConfig \<Rightarrow> Options" where
  "target_options target =
     \<lparr>o_allowUnresolved = False, o_allowedPrivateCIDRs = tc_AllowedPrivateCIDRs target,
      o_allowedDNSNames = tc_AllowedDNSNames target\<rparr>"

definition endpoint_rejected :: "TargetConfig \<Rightarrow> go_error \<Rightarrow> go_error" where
  "endpoint_rejected target =
     wrapf (''provider endpoint for '' @ quoted (tc_ProviderConfigName target) @ '' rejected by SSRF protection: '')"

definition validateProviderEndpoint :: "Uploader_Env \<Rightarrow> resolver \<Rightarrow> TargetConfig \<Rightarrow> go_error option" where
  "validateProviderEndpoint E lookup target =
     (if tc_Endpoint target = '''' then None
      else map_option (endpoint_rejected target)
        (ValidatePublicHTTPSURL (ue_url_parse E) lookup ''provider endpoint'' (tc_Endpoint target) (target_options target)))"

definition extra_endpoint_keys :: "string list" where
  "extra_endpoint_keys = [''storageEndpoint'', ''computeEndpoint'', ''storageUploadEndpoint'']"

definition validateProviderExtraEndpoints :: "Uploader_Env \<Rightarrow> resolver \<Rightarrow> TargetConfig \<Rightarrow> go_error option" where
  "validateProviderExtraEndpoints E lookup target =
     (if \<not> equalFold (tc_Provider target) ''gcp'' then None
      else map_option (endpoint_rejected target) (first_error (map (\<lambda>key.
        ValidatePublicHTTPSURL (ue_url_parse E) lookup (''provider extra '' @ key) (get_str (tc_Extra target) key)
          (target_options target)) extra_endpoint_keys)))"

definition plugin_config_of :: "TargetConfig \<Rightarrow> strmap \<Rightarrow> PluginConfig" where
  "plugin_config_of target secretData =
     \<lparr>plc_ProviderConfigName = tc_ProviderConfigName target, plc_SecretData = secretData, plc_Region = tc_Region target,
      plc_Endpoint = tc_Endpoint target, plc_Insecure = tc_Insecure target, plc_Extra = tc_Extra target,
      plc_AllowedPrivateCIDRs = tc_AllowedPrivateCIDRs target, plc_AllowedDNSNames = tc_AllowedDNSNames target\<rparr>"

text \<open>What uploads and cleanups do first: the provider, its credentials, the endpoint checks and
  \<open>Init\<close>.\<close>

definition initialisedProvider :: "Uploader_Env \<Rightarrow> TargetConfig \<Rightarrow> (go_error + UploadProvider) uploader" where
  "initialisedProvider E target =
     trying (providerPluginForTarget E target) (\<lambda>p.
       case readSecretData E (tc_CredentialsPath target) of
         Inl err \<Rightarrow> ret (Inl (wrapf (''read credentials for '' @ quoted (tc_ProviderConfigName target) @ '': '') err))
       | Inr secretData \<Rightarrow>
           checked id (gets (\<lambda>s. validateProviderEndpoint E (ue_lookupHost E (us_events s)) target))
           (checked id (gets (\<lambda>s. validateProviderExtraEndpoints E (ue_lookupHost E (us_events s)) target))
           (checked (wrapf (''init provider '' @ quoted (tc_Provider target) @ '': ''))
              (do {
                 h \<leftarrow> gets us_events;
                 log_event (InitEvent (tc_ProviderConfigName target) (plugin_config_of target secretData));
                 ret (upr_init p h (plugin_config_of target secretData))
               })
              (ret (Inr p)))))"

section \<open>Uploading one target\<close>

definition update_session :: "nat \<Rightarrow> (Session \<Rightarrow> Session) \<Rightarrow> unit uploader" where
  "update_session i f = modify (\<lambda>s. s\<lparr>us_sessions := (us_sessions s)[i := f (us_sessions s ! i)]\<rparr>)"

definition get_session :: "nat \<Rightarrow> Session uploader" where
  "get_session i = gets (\<lambda>s. us_sessions s ! i)"

definition save_sessions :: "Uploader_Env \<Rightarrow> go_error option uploader" where
  "save_sessions E = do { sessions \<leftarrow> gets us_sessions; writeUploadSessions (ue_ws E) sessionsName sessions }"

definition operation_record :: "TargetConfig \<Rightarrow> string \<Rightarrow> strmap \<Rightarrow> OperationRecord" where
  "operation_record target ref metadata =
     \<lparr>opr_Provider = tc_Provider target, opr_ProviderConfigName = tc_ProviderConfigName target,
      opr_Format = tc_Format target, opr_ProviderRef = ref, opr_Metadata = metadata\<rparr>"

definition restoreRegistered ::
    "Uploader_Env \<Rightarrow> TargetConfig \<Rightarrow> Session \<Rightarrow> (go_error + ImageStatus \<times> UploadOperationStatus) uploader" where
  "restoreRegistered E target session =
     (case (ses_Image session, ses_Operation session) of
        (Some img, Some operation) \<Rightarrow>
          if ses_ProviderRef session = '''' then
            ret (Inl (errorf (''registered upload session for '' @ quoted (tc_ProviderConfigName target) @ '' is incomplete'')))
          else
            checked (wrapf (''restore upload operation for provider '' @ quoted (tc_Provider target) @ '': ''))
              (recordUploadOperation (ue_ws E) (operation_record target (ses_ProviderRef session) (ses_Metadata session)))
              (ret (Inr (img, operation)))
      | _ \<Rightarrow>
          ret (Inl (errorf (''registered upload session for '' @ quoted (tc_ProviderConfigName target) @ '' is incomplete''))))"

definition artifact_for_target :: "TargetConfig \<Rightarrow> Session \<Rightarrow> BuildArtifact \<Rightarrow> BuildArtifact" where
  "artifact_for_target target session artifact =
     artifact\<lparr>ba_Metadata := (ba_Metadata artifact)(
       ''providerConfigName'' \<mapsto> tc_ProviderConfigName target, ''format'' \<mapsto> tc_Format target,
       ''upload.idempotencyKey'' \<mapsto> ses_IdempotencyKey session, ''upload.sessionToken'' \<mapsto> ses_ResumeToken session)\<rparr>"

text \<open>The checkpoint callback of a resumable upload, and the upload that calls it. The artifact is shared with
  the callback, which keeps its session token up to date.\<close>

definition apply_checkpoint :: "PlatformSession \<Rightarrow> Session \<Rightarrow> Session" where
  "apply_checkpoint checkpoint session =
     session\<lparr>ses_ResumeToken := ps_ResumeToken checkpoint, ses_CommittedOffset := ps_CommittedOffset checkpoint,
       ses_ResumeMode := ps_ResumeMode checkpoint\<rparr>"

primrec run_script ::
    "Uploader_Env \<Rightarrow> nat \<Rightarrow> upload_script \<Rightarrow> BuildArtifact \<Rightarrow>
     (UploadResult option \<times> go_error option \<times> BuildArtifact) uploader" where
  "run_script E i (Finished result err) = (\<lambda>artifact. ret (result, err, artifact))"
| "run_script E i (Progress checkpoint continue) = (\<lambda>artifact. do {
     update_session i (apply_checkpoint checkpoint);
     saved \<leftarrow> save_sessions E;
     run_script E i (continue saved)
       (artifact\<lparr>ba_Metadata := (ba_Metadata artifact)(''upload.sessionToken'' \<mapsto> ps_ResumeToken checkpoint)\<rparr>)
   })"

definition platform_session :: "Session \<Rightarrow> PlatformSession" where
  "platform_session session =
     \<lparr>ps_IdempotencyKey = ses_IdempotencyKey session, ps_ResumeToken = ses_ResumeToken session,
      ps_CommittedOffset = ses_CommittedOffset session, ps_ResumeMode = ses_ResumeMode session\<rparr>"

definition call_upload ::
    "Uploader_Env \<Rightarrow> UploadProvider \<Rightarrow> TargetConfig \<Rightarrow> nat \<Rightarrow> BuildArtifact \<Rightarrow>
     (UploadResult option \<times> go_error option \<times> BuildArtifact) uploader" where
  "call_upload E p target i artifact = do {
     session \<leftarrow> get_session i;
     h \<leftarrow> gets us_events;
     log_event (UploadEvent (tc_ProviderConfigName target) (ses_IdempotencyKey session));
     case upr_uploadResumable p of
       Some resumable \<Rightarrow> run_script E i (resumable h artifact (platform_session session)) artifact
     | None \<Rightarrow> ret (case upr_upload p h artifact of (result, err) \<Rightarrow> (result, err, artifact))
   }"

definition call_cleanup :: "UploadProvider \<Rightarrow> string \<Rightarrow> BuildArtifact \<Rightarrow> go_error option uploader" where
  "call_cleanup p pcn artifact = do {
     h \<leftarrow> gets us_events;
     log_event (CleanupEvent pcn artifact);
     ret (upr_cleanup p h artifact)
   }"

text \<open>What follows the return of the upload: a failed one is cleaned up unless it can be resumed at an
  offset, a finished one is saved in the session.\<close>

definition uploadReturned ::
    "Uploader_Env \<Rightarrow> UploadProvider \<Rightarrow> TargetConfig \<Rightarrow> nat \<Rightarrow> BuildArtifact \<Rightarrow>
     UploadResult option \<Rightarrow> go_error option \<Rightarrow> BuildArtifact \<Rightarrow> (go_error + UploadResult \<times> int \<times> BuildArtifact) uploader" where
  "uploadReturned E p target i artifact result err targetArtifact = do {
     millis \<leftarrow> gets (\<lambda>s. ue_since E (us_events s));
     session \<leftarrow> get_session i;
     case err of
       Some err \<Rightarrow> do {
         ignored \<leftarrow> (if ses_ResumeMode session \<noteq> ''offset'' then call_cleanup p (tc_ProviderConfigName target) targetArtifact
                     else ret None);
         ret (Inl (wrapf (''upload provider '' @ quoted (tc_Provider target) @ '' session '' @
           quoted (ses_IdempotencyKey session) @ '': '') err))
       }
     | None \<Rightarrow>
         (case result of
            None \<Rightarrow> ret (Inl (errorf (''provider '' @ quoted (tc_Provider target) @ '' returned empty upload result'')))
          | Some r \<Rightarrow>
              if ur_ProviderRef r = '''' then
                ret (Inl (errorf (''provider '' @ quoted (tc_Provider target) @ '' returned empty upload result'')))
              else do {
                update_session i (\<lambda>session. session\<lparr>ses_Phase := ''uploaded'', ses_ProviderRef := ur_ProviderRef r,
                  ses_CommittedOffset := ba_SizeBytes artifact, ses_Metadata := ur_Metadata r\<rparr>);
                checked (wrapf (''checkpoint completed upload for provider '' @ quoted (tc_Provider target) @ '': ''))
                  (save_sessions E) (ret (Inr (r, millis, targetArtifact)))
              })
   }"

text \<open>The upload of a session that is not yet uploaded: the result with the milliseconds it took, and
  the artifact.\<close>

definition uploadArtifact ::
    "Uploader_Env \<Rightarrow> UploadProvider \<Rightarrow> TargetConfig \<Rightarrow> nat \<Rightarrow> BuildArtifact \<Rightarrow> BuildArtifact \<Rightarrow>
     (go_error + UploadResult \<times> int \<times> BuildArtifact) uploader" where
  "uploadArtifact E p target i artifact targetArtifact = do {
     session \<leftarrow> get_session i;
     if ses_Phase session = ''uploaded'' then
       ret (Inr (\<lparr>ur_ProviderRef = ses_ProviderRef session, ur_Metadata = ses_Metadata session\<rparr>, 0, targetArtifact))
     else do {
       (result, err, targetArtifact) \<leftarrow> call_upload E p target i targetArtifact;
       uploadReturned E p target i artifact result err targetArtifact
     }
   }"

definition tag_metadata :: "Uploader_Env \<Rightarrow> strmap \<Rightarrow> strmap \<Rightarrow> strmap" where
  "tag_metadata E tags metadata =
     fold (\<lambda>key m. m(''target.tag.'' @ key \<mapsto> get_str tags key)) (ue_range E tags) metadata"

definition result_for_register :: "Uploader_Env \<Rightarrow> TargetConfig \<Rightarrow> Session \<Rightarrow> UploadResult \<Rightarrow> UploadResult" where
  "result_for_register E target session r =
     r\<lparr>ur_Metadata := tag_metadata E (tc_Tags target) ((ur_Metadata r)(''providerRef'' \<mapsto> ur_ProviderRef r,
       ''providerConfigName'' \<mapsto> tc_ProviderConfigName target,
       ''register.idempotencyKey'' \<mapsto> ses_IdempotencyKey session))\<rparr>"

definition call_register :: "UploadProvider \<Rightarrow> TargetConfig \<Rightarrow> UploadResult \<Rightarrow> (ImageRef option \<times> go_error option) uploader" where
  "call_register p target r = do {
     h \<leftarrow> gets us_events;
     fs \<leftarrow> gets us_files;
     log_event (RegisterEvent (tc_ProviderConfigName target) r fs);
     ret (upr_register p h r)
   }"

definition operation_status ::
    "TargetConfig \<Rightarrow> Session \<Rightarrow> BuildArtifact \<Rightarrow> string \<Rightarrow> string \<Rightarrow> int \<Rightarrow> int \<Rightarrow> int \<Rightarrow> UploadOperationStatus" where
  "operation_status target session artifact ref imageID now uploadMillis registerMillis =
     \<lparr>uo_provider = tc_Provider target, uo_providerConfig = tc_ProviderConfigName target, uo_format = tc_Format target,
      uo_phase = ''Succeeded'', uo_operationRef = ref, uo_imageRef = imageID, uo_message = '''', uo_lastTransitionTime = now,
      uo_uploadMilliseconds = uploadMillis, uo_uploadBytes = ba_SizeBytes artifact, uo_registerMilliseconds = registerMillis,
      uo_resumeMode = ses_ResumeMode session, uo_committedBytes = ses_CommittedOffset session, uo_retryCount = 0,
      uo_lastRetryTime = None, uo_lastRetryReason = ''''\<rparr>"

definition image_status :: "TargetConfig \<Rightarrow> BuildArtifact \<Rightarrow> ImageRef \<Rightarrow> ImageStatus" where
  "image_status target artifact ref =
     \<lparr>is_provider = tc_Provider target, is_providerConfig = tc_ProviderConfigName target, is_imageRef = ir_ID ref,
      is_location = ir_Location ref, is_format = tc_Format target, is_checksum = ba_Checksum artifact\<rparr>"

text \<open>What follows the call of \<open>Register\<close>: the image is recorded in the session, then in the operation.\<close>

definition recordImage ::
    "Uploader_Env \<Rightarrow> TargetConfig \<Rightarrow> nat \<Rightarrow> BuildArtifact \<Rightarrow> Session \<Rightarrow> UploadResult \<Rightarrow> int \<Rightarrow>
     ImageRef option \<Rightarrow> go_error option \<Rightarrow> (go_error + ImageStatus \<times> UploadOperationStatus) uploader" where
  "recordImage E target i artifact session r uploadMillis imageRef err = do {
     registerMillis \<leftarrow> gets (\<lambda>s. ue_since E (us_events s));
     case err of
       Some err \<Rightarrow>
         ret (Inl (wrapf (''register provider '' @ quoted (tc_Provider target) @ '' session '' @
           quoted (ses_IdempotencyKey session) @ '': '') err))
     | None \<Rightarrow>
         (case imageRef of
            None \<Rightarrow> ret (Inl (errorf (''provider '' @ quoted (tc_Provider target) @ '' returned empty image reference'')))
          | Some ref \<Rightarrow>
              if ir_ID ref = '''' then
                ret (Inl (errorf (''provider '' @ quoted (tc_Provider target) @ '' returned empty image reference'')))
              else do {
                now \<leftarrow> gets (\<lambda>s. ue_now E (us_events s));
                let metadata = (ur_Metadata r)(''imageRef'' \<mapsto> ir_ID ref);
                let operation = operation_status target session artifact (ur_ProviderRef r) (ir_ID ref) now uploadMillis registerMillis;
                let img = image_status target artifact ref;
                update_session i (\<lambda>session. session\<lparr>ses_Phase := ''registered'', ses_Metadata := metadata,
                  ses_Image := Some img, ses_Operation := Some operation\<rparr>);
                checked (wrapf (''checkpoint registered image for provider '' @ quoted (tc_Provider target) @ '': ''))
                  (save_sessions E)
                  (checked (wrapf (''record registered operation for provider '' @ quoted (tc_Provider target) @ '': ''))
                    (recordUploadOperation (ue_ws E) (operation_record target (ur_ProviderRef r) metadata))
                    (ret (Inr (img, operation))))
              })
   }"

text \<open>The operation is recorded before the image is registered; without a record, the upload is
  cleaned up.\<close>

definition registerImage ::
    "Uploader_Env \<Rightarrow> UploadProvider \<Rightarrow> TargetConfig \<Rightarrow> nat \<Rightarrow> BuildArtifact \<Rightarrow> BuildArtifact \<Rightarrow> UploadResult \<Rightarrow> int \<Rightarrow>
     (go_error + ImageStatus \<times> UploadOperationStatus) uploader" where
  "registerImage E p target i artifact targetArtifact r0 uploadMillis = do {
     session \<leftarrow> get_session i;
     let r = result_for_register E target session r0;
     recorded \<leftarrow> recordUploadOperation (ue_ws E) (operation_record target (ur_ProviderRef r) (ur_Metadata r));
     case recorded of
       Some err \<Rightarrow> do {
         ignored \<leftarrow> call_cleanup p (tc_ProviderConfigName target) targetArtifact;
         ret (Inl (wrapf (''record upload operation for provider '' @ quoted (tc_Provider target) @ '': '') err))
       }
     | None \<Rightarrow> do {
         (imageRef, err) \<leftarrow> call_register p target r;
         recordImage E target i artifact session r uploadMillis imageRef err
       }
   }"

definition target_spec_of :: "TargetConfig \<Rightarrow> TargetSpec" where
  "target_spec_of target =
     \<lparr>tgt_providerConfigRef = tc_ProviderConfigName target, tgt_format = tc_Format target, tgt_tags = tc_Tags target\<rparr>"

definition uploadAndRegister ::
    "Uploader_Env \<Rightarrow> TargetConfig \<Rightarrow> BuildArtifact \<Rightarrow> nat \<Rightarrow> Session \<Rightarrow> (go_error + ImageStatus \<times> UploadOperationStatus) uploader" where
  "uploadAndRegister E target artifact i session =
     trying (initialisedProvider E target) (\<lambda>p.
       checked (wrapf (''validate provider '' @ quoted (tc_Provider target) @ '': ''))
         (gets (\<lambda>s. upr_validate p (us_events s) (target_spec_of target)))
         (trying (uploadArtifact E p target i artifact (artifact_for_target target session artifact))
           (\<lambda>(r, uploadMillis, targetArtifact). registerImage E p target i artifact targetArtifact r uploadMillis)))"

definition processUploadTarget ::
    "Uploader_Env \<Rightarrow> TargetConfig \<Rightarrow> BuildArtifact \<Rightarrow> (go_error + ImageStatus \<times> UploadOperationStatus) uploader" where
  "processUploadTarget E target artifact =
     trying (ensureUploadSession (ue_ws E) sessionsName target artifact) (\<lambda>i. do {
       session \<leftarrow> get_session i;
       if ses_Phase session = ''registered'' then restoreRegistered E target session
       else uploadAndRegister E target artifact i session
     })"

section \<open>All targets\<close>

type_synonym target_failure = "TargetConfig \<times> go_error"

definition failures_Error :: "target_failure list \<Rightarrow> string" where
  "failures_Error items =
     ''upload targets failed: '' @ joinWith ''; ''
       (map (\<lambda>(target, err). tc_Provider target @ ''/'' @ tc_ProviderConfigName target @ '': '' @ err_msg err) items)"

definition failures_Transient :: "target_failure list \<Rightarrow> bool" where
  "failures_Transient items \<longleftrightarrow> (if items = [] then False else list_all (\<lambda>(target, err). IsTransient (Some err)) items)"

definition failures_error :: "target_failure list \<Rightarrow> go_error" where
  "failures_error items = Err (failures_Error items) (no_caps\<lparr>cap_transient := Some (failures_Transient items)\<rparr>) None"

type_synonym target_result = "ImageStatus \<times> UploadOperationStatus"

fun upload_targets ::
    "Uploader_Env \<Rightarrow> BuildArtifact \<Rightarrow> TargetConfig list \<Rightarrow> target_result list \<Rightarrow> target_failure list \<Rightarrow>
     (target_result list \<times> target_failure list) uploader" where
  "upload_targets E artifact [] results failures = ret (results, failures)"
| "upload_targets E artifact (target # targets) results failures = do {
     r \<leftarrow> processUploadTarget E target artifact;
     case r of
       Inl err \<Rightarrow> upload_targets E artifact targets results (failures @ [(target, err)])
     | Inr res \<Rightarrow> upload_targets E artifact targets (results @ [res]) failures
   }"

text \<open>The upload branch of \<open>run\<close>. The results that accompany an error are not used by \<open>main\<close>.\<close>

definition uploadAll :: "Uploader_Env \<Rightarrow> (go_error + target_result list) uploader" where
  "uploadAll E = do {
     fs \<leftarrow> gets us_files;
     case readArtifact E fs of
       Inl Absent \<Rightarrow> ret (Inl (errorf (show_read_error Absent)))
     | Inl (Broken err) \<Rightarrow> ret (Inl err)
     | Inr artifact \<Rightarrow>
         checked (wrapf ''verify build artifact before upload: '') (ret (verifyArtifactFile E artifact))
           (case readTargets E (ue_getenv E ''UPLOAD_TARGETS_JSON'') of
              Inl err \<Rightarrow> ret (Inl err)
            | Inr targets \<Rightarrow>
                (case readUploadSessions (ue_ws E) fs sessionsName of
                   Inl err \<Rightarrow> ret (Inl err)
                 | Inr sessions \<Rightarrow> do {
                     modify (\<lambda>s. s\<lparr>us_sessions := sessions\<rparr>);
                     (results, failures) \<leftarrow> upload_targets E artifact targets [] [];
                     ret (if failures \<noteq> [] then Inl (failures_error failures) else Inr results)
                   }))
   }"

section \<open>Cleanup\<close>

definition metadata_default :: "string \<Rightarrow> string \<Rightarrow> strmap \<Rightarrow> strmap" where
  "metadata_default key v m = (if m key = None then m(key \<mapsto> v) else m)"

definition fallback_operation :: "Uploader_Env \<Rightarrow> BuildArtifact \<Rightarrow> TargetConfig \<Rightarrow> OperationRecord" where
  "fallback_operation E artifact target =
     (let m1 = (ba_Metadata artifact)(''providerConfigName'' \<mapsto> tc_ProviderConfigName target);
          m2 = metadata_default ''os'' (ba_OS artifact) (metadata_default ''checksum'' (ba_Checksum artifact)
                 (metadata_default ''format'' (ba_Format artifact) m1));
          m3 = fold (\<lambda>key m. m(key \<mapsto> get_str (tc_Extra target) key, ''provider.extra.'' @ key \<mapsto> get_str (tc_Extra target) key))
                 (ue_range E (tc_Extra target)) m2;
          m4 = tag_metadata E (tc_Tags target) m3
      in \<lparr>opr_Provider = tc_Provider target, opr_ProviderConfigName = tc_ProviderConfigName target,
          opr_Format = (if tc_Format target = '''' then ba_Format artifact else tc_Format target),
          opr_ProviderRef = get_str m4 ''providerRef'', opr_Metadata = m4\<rparr>)"

definition fallbackUploadOperations ::
    "Uploader_Env \<Rightarrow> files \<Rightarrow> TargetConfig list \<Rightarrow> go_error + OperationRecord list" where
  "fallbackUploadOperations E fs targets =
     (case readArtifact E fs of
        Inl Absent \<Rightarrow> Inr []
      | Inl (Broken err) \<Rightarrow> Inl err
      | Inr artifact \<Rightarrow> Inr (map (fallback_operation E artifact) targets))"

definition targets_by_config :: "TargetConfig list \<Rightarrow> string \<rightharpoonup> TargetConfig" where
  "targets_by_config targets = map_of (rev (map (\<lambda>t. (tc_ProviderConfigName t, t)) targets))"

definition cleanup_artifact :: "OperationRecord \<Rightarrow> BuildArtifact" where
  "cleanup_artifact op =
     \<lparr>ba_Path = '''', ba_Format = opr_Format op, ba_Checksum = '''', ba_SizeBytes = 0, ba_OS = '''',
      ba_Metadata = (opr_Metadata op)(''providerRef'' \<mapsto> opr_ProviderRef op,
        ''providerConfigName'' \<mapsto> opr_ProviderConfigName op)\<rparr>"

definition cleanup_operation :: "Uploader_Env \<Rightarrow> (string \<rightharpoonup> TargetConfig) \<Rightarrow> OperationRecord \<Rightarrow> go_error option uploader" where
  "cleanup_operation E byConfig op =
     (case byConfig (opr_ProviderConfigName op) of
        None \<Rightarrow>
          ret (Some (errorf (''cleanup operation references unknown ProviderConfig '' @ quoted (opr_ProviderConfigName op))))
      | Some target \<Rightarrow>
          if opr_Provider op \<noteq> '''' \<and> opr_Provider op \<noteq> tc_Provider target then
            ret (Some (errorf (''cleanup operation provider '' @ quoted (opr_Provider op) @ '' does not match ProviderConfig '' @
              quoted (opr_ProviderConfigName op) @ '' provider '' @ quoted (tc_Provider target))))
          else do {
            init \<leftarrow> initialisedProvider E target;
            case init of Inl err \<Rightarrow> ret (Some err)
            | Inr p \<Rightarrow> do {
                e \<leftarrow> call_cleanup p (opr_ProviderConfigName op) (cleanup_artifact op);
                ret (map_option (wrapf (''cleanup provider '' @ quoted (tc_Provider target) @ '' operation '' @
                  quoted (opr_ProviderRef op) @ '': '')) e)
              }
          })"

text \<open>The operations to clean up: those on record, otherwise one for every target.\<close>

definition operations_to_clean :: "Uploader_Env \<Rightarrow> files \<Rightarrow> TargetConfig list \<Rightarrow> go_error + OperationRecord list" where
  "operations_to_clean E fs targets =
     (case readUploadOperations (ue_ws E) fs of
        Inr ops \<Rightarrow> Inr ops
      | Inl Absent \<Rightarrow> fallbackUploadOperations E fs targets
      | Inl (Broken err) \<Rightarrow> Inl err)"

definition cleanupUploadedArtifacts :: "Uploader_Env \<Rightarrow> (go_error + target_result list) uploader" where
  "cleanupUploadedArtifacts E = do {
     fs \<leftarrow> gets us_files;
     case readTargets E (ue_getenv E ''UPLOAD_TARGETS_JSON'') of
       Inl err \<Rightarrow> ret (Inl err)
     | Inr targets \<Rightarrow>
         (case operations_to_clean E fs targets of
            Inl err \<Rightarrow> ret (Inl err)
          | Inr ops \<Rightarrow> checked id (for_each ops (cleanup_operation E (targets_by_config targets))) (ret (Inr [])))
   }"

section \<open>The process\<close>

definition run :: "Uploader_Env \<Rightarrow> (go_error + target_result list) uploader" where
  "run E = (if ue_getenv E ''UPLOAD_CLEANUP_ONLY'' = ''true'' then cleanupUploadedArtifacts E else uploadAll E)"

definition failed_operation :: "int \<Rightarrow> string \<Rightarrow> Session \<Rightarrow> UploadOperationStatus" where
  "failed_operation now reason session =
     \<lparr>uo_provider = ses_Provider session, uo_providerConfig = ses_ProviderConfigName session, uo_format = ses_Format session,
      uo_phase = (if ses_Phase session = ''uploaded'' then ''Registering''
                  else if ses_Phase session = ''registered'' then ''Succeeded'' else ''Uploading''),
      uo_operationRef = ses_ProviderRef session, uo_imageRef = '''', uo_message = '''', uo_lastTransitionTime = now,
      uo_uploadMilliseconds = 0, uo_uploadBytes = 0, uo_registerMilliseconds = 0, uo_resumeMode = ses_ResumeMode session,
      uo_committedBytes = ses_CommittedOffset session, uo_retryCount = 0, uo_lastRetryTime = None, uo_lastRetryReason = reason\<rparr>"

definition failedUploadOperations :: "Uploader_Env \<Rightarrow> int \<Rightarrow> files \<Rightarrow> string \<Rightarrow> UploadOperationStatus list" where
  "failedUploadOperations E now fs reason =
     (case readUploadSessions (ue_ws E) fs sessionsName of
        Inl _ \<Rightarrow> [] | Inr sessions \<Rightarrow> map (failed_operation now reason) sessions)"

record Termination =
  tm_Images :: "ImageStatus list"
  tm_Operations :: "UploadOperationStatus list"
  tm_Error :: string

definition temporaryFailureExitCode :: int where
  "temporaryFailureExitCode = 75"

text \<open>\<open>main\<close>: what it writes to the termination log, and the exit code. The deadline itself acts through the
  answers of the providers.\<close>

definition main :: "Uploader_Env \<Rightarrow> (Termination option \<times> int) uploader" where
  "main E =
     (let raw = trimSpace (ue_getenv E ''UPLOAD_DEADLINE_SECONDS'') in
      if raw \<noteq> '''' \<and> (case ue_parseInt E raw of None \<Rightarrow> True | Some seconds \<Rightarrow> seconds \<le> 0) then ret (None, 1)
      else do {
        result \<leftarrow> run E;
        now \<leftarrow> gets (\<lambda>s. ue_now E (us_events s));
        fs \<leftarrow> gets us_files;
        ret (case result of
          Inl err \<Rightarrow>
            (Some \<lparr>tm_Images = [], tm_Operations = failedUploadOperations E now fs (err_msg err), tm_Error = err_msg err\<rparr>,
             if IsTransient (Some err) then temporaryFailureExitCode else 1)
        | Inr results \<Rightarrow>
            (Some \<lparr>tm_Images = map fst results, tm_Operations = map snd results, tm_Error = ''''\<rparr>, 0))
      })"

section \<open>What the operations leave alone\<close>

lemma wp_log_event [wp_simp]: "wp (log_event ev) Q s = Q () (s\<lparr>us_events := us_events s @ [ev]\<rparr>)"
  by (simp add: log_event_def wp_simp)

lemma wp_get_session [wp_simp]: "wp (get_session i) Q s = Q (us_sessions s ! i) s"
  by (simp add: get_session_def wp_simp)

lemma wp_update_session [wp_simp]:
  "wp (update_session i f) Q s = Q () (s\<lparr>us_sessions := (us_sessions s)[i := f (us_sessions s ! i)]\<rparr>)"
  by (simp add: update_session_def wp_simp)

lemma wp_checked [wp_simp]:
  "wp (checked wrap m k) Q s = wp m (\<lambda>e t. case e of Some err \<Rightarrow> Q (Inl (wrap err)) t | None \<Rightarrow> wp k Q t) s"
  unfolding checked_def wp_bind by (intro arg_cong [of _ _ "\<lambda>R. wp m R s"] ext) (simp add: wp_simp split: option.split)

lemma wp_trying [wp_simp]:
  "wp (trying m k) Q s = wp m (\<lambda>r t. case r of Inl err \<Rightarrow> Q (Inl err) t | Inr x \<Rightarrow> wp (k x) Q t) s"
  unfolding trying_def wp_bind by (intro arg_cong [of _ _ "\<lambda>R. wp m R s"] ext) (simp add: wp_simp split: sum.split)

lemma keeps_checked [keeps_intro]: "keeps I m \<Longrightarrow> keeps I k \<Longrightarrow> keeps I (checked wrap m k)"
  by (auto simp: checked_def intro!: keeps_intro)

lemma keeps_trying [keeps_intro]: "keeps I m \<Longrightarrow> (\<And>x. keeps I (k x)) \<Longrightarrow> keeps I (trying m k)"
  by (auto simp: trying_def intro!: keeps_intro)

text \<open>An invariant that does not look at the files survives every write.\<close>

definition ignores_files :: "(UploaderState \<Rightarrow> bool) \<Rightarrow> bool" where
  "ignores_files I \<longleftrightarrow> (\<forall>s fs past n. I (s\<lparr>us_files := fs, us_past := past, us_writes := n\<rparr>) = I s)"

lemma ignores_files_write:
  assumes "ignores_files I"
  shows "I (s\<lparr>us_writes := n\<rparr>) = I s" "I (put_file path data s) = I s"
proof -
  have "s\<lparr>us_writes := n\<rparr> = s\<lparr>us_files := us_files s, us_past := us_past s, us_writes := n\<rparr>" by simp
  then show "I (s\<lparr>us_writes := n\<rparr>) = I s" using assms unfolding ignores_files_def by metis
  have "put_file path data s =
      s\<lparr>us_files := (us_files s)(path \<mapsto> data), us_past := us_files s # us_past s, us_writes := us_writes s\<rparr>"
    by (simp add: put_file_def)
  then show "I (put_file path data s) = I s" using assms unfolding ignores_files_def by metis
qed

lemma keeps_writeAtomicFile: "ignores_files I \<Longrightarrow> keeps I (writeAtomicFile W path data)"
  by (auto simp: writeAtomicFile_def ignores_files_write intro!: keeps_intro keeps_modify split: write_fate.split)

lemma keeps_writeCheckpoint: "ignores_files I \<Longrightarrow> keeps I (writeCheckpointWithBackup W path data valid)"
  by (auto simp: writeCheckpointWithBackup_def intro!: keeps_intro keeps_writeAtomicFile split: content.split)

lemma keeps_recordUploadOperation: "ignores_files I \<Longrightarrow> keeps I (recordUploadOperation W op)"
  by (auto simp: recordUploadOperation_def intro!: keeps_intro keeps_writeCheckpoint)

lemma keeps_save_sessions: "ignores_files I \<Longrightarrow> keeps I (save_sessions E)"
  by (auto simp: save_sessions_def writeUploadSessions_def intro!: keeps_intro keeps_writeCheckpoint)

lemma ignores_events [intro, simp]: "ignores_files (\<lambda>s. P (us_events s))"
  by (simp add: ignores_files_def)

lemma ignores_sessions [intro, simp]: "ignores_files (\<lambda>s. P (us_sessions s))"
  by (simp add: ignores_files_def)

lemma ignores_both [intro, simp]: "ignores_files (\<lambda>s. P (us_events s) (us_sessions s))"
  by (simp add: ignores_files_def)

section \<open>The log of events\<close>

text \<open>Every event behind \<open>old\<close> satisfies \<open>P\<close> with the events before it.\<close>

definition logged :: "(event list \<Rightarrow> event \<Rightarrow> bool) \<Rightarrow> event list \<Rightarrow> UploaderState \<Rightarrow> bool" where
  "logged P old s \<longleftrightarrow>
     (\<exists>new. us_events s = old @ new \<and> (\<forall>h ev rest. new = h @ ev # rest \<longrightarrow> P (old @ h) ev))"

lemma logged_start [simp]: "logged P (us_events s) s"
  by (simp add: logged_def)

lemma ignores_logged [intro, simp]: "ignores_files (logged P old)"
  by (simp add: ignores_files_def logged_def)

lemma logged_events: "us_events s = us_events t \<Longrightarrow> logged P old s = logged P old t"
  by (simp add: logged_def)

lemma logged_sessions [simp]: "logged P old (us_sessions_update f s) = logged P old s"
  by (simp add: logged_def)

lemma logged_event:
  assumes "logged P old s" and "P (us_events s) ev"
  shows "logged P old (s\<lparr>us_events := us_events s @ [ev]\<rparr>)"
proof -
  from assms(1) obtain new where new: "us_events s = old @ new"
      "\<And>h ev rest. new = h @ ev # rest \<Longrightarrow> P (old @ h) ev" by (auto simp: logged_def)
  have "P (old @ h) e" if "new @ [ev] = h @ e # rest" for h e rest
  proof (cases rest rule: rev_cases)
    case Nil
    with that have "new = h" "e = ev" by simp_all
    with assms(2) new(1) show ?thesis by simp
  next
    case (snoc xs x)
    with that have "(new @ [ev]) = (h @ e # xs) @ [x]" by simp
    then have "new = h @ e # xs" by (simp only: append1_eq_conv)
    then show ?thesis by (rule new(2))
  qed
  then show ?thesis by (auto simp: logged_def new(1))
qed

lemma keeps_log_event: "(\<And>h. P h ev) \<Longrightarrow> keeps (logged P old) (log_event ev)"
  by (rule keepsI) (simp add: wp_simp logged_event)

lemma loggedD:
  assumes "logged P old s" and "us_events s = h @ ev # rest" and "length old \<le> length h"
  shows "P h ev"
proof -
  from assms(1) obtain new where new: "us_events s = old @ new"
      "\<And>h ev rest. new = h @ ev # rest \<Longrightarrow> P (old @ h) ev" by (auto simp: logged_def)
  from assms(2,3) new(1) obtain h' where "h = old @ h'"
    by (metis append_eq_append_conv_if append_eq_conv_conj)
  with assms(2) new show ?thesis by simp
qed

text \<open>What the log guarantees: an endpoint that was accepted at that moment, for \<open>Init\<close>, and a
  record on disk, for \<open>Register\<close>.\<close>

definition endpoint_accepted :: "Uploader_Env \<Rightarrow> event list \<Rightarrow> TargetConfig \<Rightarrow> bool" where
  "endpoint_accepted E h target \<longleftrightarrow>
     validateProviderEndpoint E (ue_lookupHost E h) target = None \<and> validateProviderExtraEndpoints E (ue_lookupHost E h) target = None"

definition recorded :: "Uploader_Env \<Rightarrow> string \<Rightarrow> string \<Rightarrow> files \<Rightarrow> bool" where
  "recorded E pcn ref fs \<longleftrightarrow>
     (\<exists>ops op. fs operationsName = Some (we_encodeOperations (ue_ws E) ops @ newline) \<and> op \<in> set ops
        \<and> opr_ProviderConfigName op = pcn \<and> opr_ProviderRef op = ref)"

definition proper_event :: "Uploader_Env \<Rightarrow> TargetConfig list \<Rightarrow> event list \<Rightarrow> event \<Rightarrow> bool" where
  "proper_event E targets h ev \<longleftrightarrow>
     (case ev of
        InitEvent pcn cfg \<Rightarrow>
          (\<exists>target secret. target \<in> set targets \<and> pcn = tc_ProviderConfigName target \<and> cfg = plugin_config_of target secret
             \<and> endpoint_accepted E h target)
      | RegisterEvent pcn r fs \<Rightarrow> recorded E pcn (ur_ProviderRef r) fs
      | _ \<Rightarrow> True)"

lemma writeAtomicFile_written: "wp (writeAtomicFile W p d) (\<lambda>e t. e = None \<longrightarrow> us_files t p = Some d) s"
  by (simp add: writeAtomicFile_def wp_simp put_file_def split: write_fate.split)

lemma writeCheckpoint_written:
  "wp (writeCheckpointWithBackup W path data valid) (\<lambda>e t. e = None \<longrightarrow> us_files t path = Some data) s"
proof -
  have after: "wp (writeAtomicFile W p d) (\<lambda>e t. wp (case e of Some err \<Rightarrow> ret (Some (f err))
      | None \<Rightarrow> writeAtomicFile W path data) (\<lambda>e t. e = None \<longrightarrow> us_files t path = Some data) t) s" for p d f
    by (rule wp_mono [OF wp_True]) (simp add: wp_simp writeAtomicFile_written split: option.split)
  show ?thesis
    by (simp add: writeCheckpointWithBackup_def wp_simp writeAtomicFile_written after split: content.split)
qed

lemma upsert_mem: "op \<in> set (sort_operations (upsert_operation op ops))"
proof -
  have "op \<in> set (update_first P (\<lambda>_. op) ops)" if "list_ex P ops" for P
    using that by (induction ops) auto
  then show ?thesis by (simp add: sort_operations_def upsert_operation_def)
qed

lemma recordedI:
  "fs operationsName = Some (we_encodeOperations (ue_ws E) ops @ newline) \<Longrightarrow> op \<in> set ops \<Longrightarrow>
     recorded E (opr_ProviderConfigName op) (opr_ProviderRef op) fs"
  unfolding recorded_def by blast

lemma recordUploadOperation_recorded:
  "wp (recordUploadOperation (ue_ws E) op)
     (\<lambda>e t. e = None \<longrightarrow> recorded E (opr_ProviderConfigName op) (opr_ProviderRef op) (us_files t) \<and> opr_ProviderRef op \<noteq> '''') s"
proof -
  have step: "wp (writeCheckpointWithBackup (ue_ws E) operationsName
      (we_encodeOperations (ue_ws E) (sort_operations (upsert_operation op ops)) @ newline) valid)
      (\<lambda>e t. e = None \<longrightarrow> recorded E (opr_ProviderConfigName op) (opr_ProviderRef op) (us_files t)) s" for ops valid
    by (rule wp_mono [OF writeCheckpoint_written]) (use recordedI [OF _ upsert_mem] in blast)
  show ?thesis
    unfolding recordUploadOperation_def
    by (simp add: wp_simp step split: option.split sum.split read_error.split)
qed

section \<open>The log of a run\<close>

lemma keeps_call_cleanup: "keeps (logged (proper_event E targets) old) (call_cleanup p pcn a)"
  unfolding call_cleanup_def
  by (intro keeps_intro keeps_log_event) (simp add: proper_event_def)

lemma keeps_update_session: "(\<And>s f. I (us_sessions_update f s) = I s) \<Longrightarrow> keeps I (update_session i g)"
  unfolding update_session_def
proof (rule keeps_modify)
  fix s assume all: "\<And>s f. I (us_sessions_update f s) = I s" and "I s"
  have "s\<lparr>us_sessions := v\<rparr> = us_sessions_update (\<lambda>_. v) s" for v by simp
  with all \<open>I s\<close> show "I (s\<lparr>us_sessions := (us_sessions s)[i := g (us_sessions s ! i)]\<rparr>)" by metis
qed

lemma keeps_run_script_logged: "keeps (logged P old) (run_script E i script a)"
  by (induction script arbitrary: a)
    (auto intro!: keeps_intro keeps_update_session keeps_save_sessions)

lemma proper_init:
  "target \<in> set targets \<Longrightarrow> endpoint_accepted E h target \<Longrightarrow>
     proper_event E targets h (InitEvent (tc_ProviderConfigName target) (plugin_config_of target secret))"
  unfolding proper_event_def by auto

lemma initialisedProvider_logs:
  assumes "target \<in> set targets" and "logged (proper_event E targets) old s"
  shows "wp (initialisedProvider E target) (\<lambda>_. logged (proper_event E targets) old) s"
  using assms unfolding initialisedProvider_def providerPluginForTarget_def
  by (auto simp: wp_simp endpoint_accepted_def split: sum.split option.split
      intro!: logged_event proper_init)

lemma keeps_initialisedProvider:
  "target \<in> set targets \<Longrightarrow> keeps (logged (proper_event E targets) old) (initialisedProvider E target)"
  by (rule keepsI) (rule initialisedProvider_logs)

lemma keeps_uploadArtifact: "keeps (logged (proper_event E targets) old) (uploadArtifact E p target i a b)"
proof -
  have up: "keeps (logged (proper_event E targets) old) (call_upload E p target i a)" for a
    unfolding call_upload_def get_session_def
    by (intro keeps_intro keeps_log_event keeps_run_script_logged) (simp add: proper_event_def)
  show ?thesis
    unfolding uploadArtifact_def uploadReturned_def get_session_def
    by (intro keeps_intro up keeps_call_cleanup keeps_update_session keeps_save_sessions) auto
qed

text \<open>In \<open>registerImage\<close> the call of the provider follows a record that is on disk.\<close>

lemma keeps_registered:
  assumes "\<And>h fs. us_files s = fs \<Longrightarrow> P h (RegisterEvent (tc_ProviderConfigName target) r fs)" and "logged P old s"
  shows "wp (call_register p target r) (\<lambda>_. logged P old) s"
  using assms by (auto simp: call_register_def wp_simp intro!: logged_event)

lemma keeps_recordImage: "keeps (logged P old) (recordImage E target i a session r ms imageRef err)"
  unfolding recordImage_def Let_def
  by (intro keeps_intro keeps_update_session keeps_save_sessions keeps_recordUploadOperation) auto

lemma registerImage_logs:
  assumes "logged (proper_event E targets) old s"
  shows "wp (registerImage E p target i a b r0 ms) (\<lambda>_. logged (proper_event E targets) old) s"
proof -
  let ?L = "logged (proper_event E targets) old"
  let ?r = "result_for_register E target (us_sessions s ! i) r0"
  let ?op = "operation_record target (ur_ProviderRef ?r) (ur_Metadata ?r)"
  have rec: "wp (recordUploadOperation (ue_ws E) ?op)
      (\<lambda>e t. ?L t \<and> (e = None \<longrightarrow> recorded E (tc_ProviderConfigName target) (ur_ProviderRef ?r) (us_files t))) s"
    unfolding wp_conj
    using recordUploadOperation_recorded [of E ?op s]
      keepsD [OF keeps_recordUploadOperation [OF ignores_logged], OF assms]
    by (auto simp: operation_record_def elim: wp_mono)
  have go: "wp (call_register p target ?r) (\<lambda>x. wp (case x of (imageRef, err) \<Rightarrow>
      recordImage E target i a session ?r ms imageRef err) (\<lambda>_. ?L)) t"
    if "?L t" "recorded E (tc_ProviderConfigName target) (ur_ProviderRef ?r) (us_files t)" for t session
  proof (rule wp_mono)
    show "wp (call_register p target ?r) (\<lambda>_. ?L) t"
      by (rule keeps_registered [OF _ that(1)]) (use that(2) in \<open>simp add: proper_event_def\<close>)
  qed (auto simp: case_prod_beta intro!: keepsD [OF keeps_recordImage])
  show ?thesis
    unfolding registerImage_def Let_def wp_bind wp_get_session
  proof (rule wp_mono [OF rec])
    fix e :: "go_error option" and t
    assume "?L t \<and> (e = None \<longrightarrow> recorded E (tc_ProviderConfigName target) (ur_ProviderRef ?r) (us_files t))"
    then show "wp (case e of None \<Rightarrow> do {
          (imageRef, err) \<leftarrow> call_register p target ?r;
          recordImage E target i a (us_sessions s ! i) ?r ms imageRef err }
        | Some err \<Rightarrow> do { ignored \<leftarrow> call_cleanup p (tc_ProviderConfigName target) b;
            ret (Inl (wrapf (''record upload operation for provider '' @ quoted (tc_Provider target) @ '': '') err)) })
        (\<lambda>_. ?L) t"
    proof (cases e)
      case None
      with \<open>?L t \<and> _\<close> show ?thesis by (simp only: option.case wp_bind) (rule go, simp_all)
    next
      case (Some err)
      with \<open>?L t \<and> _\<close> show ?thesis
        by (simp only: option.case wp_bind) (rule wp_mono [OF keepsD [OF keeps_call_cleanup]], simp_all add: wp_ret)
    qed
  qed
qed

lemma keeps_registerImage: "keeps (logged (proper_event E targets) old) (registerImage E p target i a b r0 ms)"
  by (rule keepsI) (rule registerImage_logs)

lemma keeps_ensureUploadSession:
  "(\<And>s f. I (us_sessions_update f s) = I s) \<Longrightarrow> ignores_files I \<Longrightarrow> keeps I (ensureUploadSession W path target a)"
  unfolding ensureUploadSession_def Let_def writeUploadSessions_def
proof (intro keeps_intro keeps_writeCheckpoint keeps_modify)
  fix s sessions assume all: "\<And>s f. I (us_sessions_update f s) = I s" and "I s"
  have "s\<lparr>us_sessions := v\<rparr> = us_sessions_update (\<lambda>_. v) s" for v by simp
  with all \<open>I s\<close> show "I (s\<lparr>us_sessions := sort_sessions (sessions @ [new_session W target a])\<rparr>)" by metis
qed auto

lemma keeps_restoreRegistered: "ignores_files I \<Longrightarrow> keeps I (restoreRegistered E target session)"
  unfolding restoreRegistered_def by (intro keeps_intro keeps_recordUploadOperation) auto

lemma keeps_processUploadTarget:
  "target \<in> set targets \<Longrightarrow> keeps (logged (proper_event E targets) old) (processUploadTarget E target a)"
  unfolding processUploadTarget_def uploadAndRegister_def get_session_def
  by (intro keeps_intro keeps_ensureUploadSession keeps_restoreRegistered keeps_initialisedProvider
      keeps_uploadArtifact keeps_registerImage) auto

lemma keeps_upload_targets:
  "set ts \<subseteq> set targets \<Longrightarrow> keeps (logged (proper_event E targets) old) (upload_targets E a ts results failures)"
  by (induction ts arbitrary: results failures) (auto intro!: keeps_intro keeps_processUploadTarget)

lemma targets_by_config_mem:
  "targets_by_config targets pcn = Some target \<Longrightarrow> target \<in> set targets \<and> tc_ProviderConfigName target = pcn"
  by (auto simp: targets_by_config_def dest!: map_of_SomeD)

lemma keeps_cleanup_operation:
  "keeps (logged (proper_event E targets) old) (cleanup_operation E (targets_by_config targets) op)"
  unfolding cleanup_operation_def
  by (intro keeps_intro keeps_initialisedProvider keeps_call_cleanup) (auto dest: targets_by_config_mem)

lemma readTargets_mem: "readTargets E raw = Inr targets \<Longrightarrow> ue_decodeTargets E raw = Inr targets"
  by (auto simp: readTargets_def split: if_splits sum.splits)

definition the_targets :: "Uploader_Env \<Rightarrow> TargetConfig list" where
  "the_targets E = (case ue_decodeTargets E (ue_getenv E ''UPLOAD_TARGETS_JSON'') of Inl _ \<Rightarrow> [] | Inr targets \<Rightarrow> targets)"

lemma the_targets: "readTargets E (ue_getenv E ''UPLOAD_TARGETS_JSON'') = Inr targets \<Longrightarrow> targets = the_targets E"
  by (auto simp: the_targets_def dest: readTargets_mem)

lemma keeps_run: "keeps (logged (proper_event E (the_targets E)) old) (run E)"
proof -
  have "keeps (logged (proper_event E (the_targets E)) old) (uploadAll E)"
    unfolding uploadAll_def
    by (intro keeps_intro keeps_upload_targets keeps_modify) (auto dest: the_targets split: read_error.split intro!: keeps_intro)
  moreover have "keeps (logged (proper_event E (the_targets E)) old) (cleanupUploadedArtifacts E)"
    unfolding cleanupUploadedArtifacts_def
    by (intro keeps_intro) (auto dest: the_targets intro!: keeps_intro keeps_cleanup_operation)
  ultimately show ?thesis by (simp add: run_def)
qed

lemma run_events:
  assumes "run_state (run E) s = (r, s')" and "us_events s' = h @ ev # rest" and "length (us_events s) \<le> length h"
  shows "proper_event E (the_targets E) h ev"
proof -
  have "logged (proper_event E (the_targets E)) (us_events s) s'"
    by (rule keeps_runD [OF keeps_run _ assms(1)]) simp
  then show ?thesis by (rule loggedD [OF _ assms(2,3)])
qed

text \<open>A workspace without a build result and without operations cannot be cleaned up: the fallback does not
  recognise the missing file.\<close>

lemma missing_result_fails_cleanup:
  assumes "us_files s = Map.empty" and "readTargets E (ue_getenv E ''UPLOAD_TARGETS_JSON'') = Inr targets"
  shows "fst (run_state (cleanupUploadedArtifacts E) s) = Inl (wrapf ''read build result: '' (errorf ''file does not exist''))"
  using assms
  by (simp add: cleanupUploadedArtifacts_def operations_to_clean_def readUploadOperations_def readUploadOperationsFile_def
      reconstructUploadOperationsFromSessions_def readUploadSessions_def readUploadSessionFile_def readFile_def
      fallbackUploadOperations_def readArtifact_def show_read_error_def)

end
