(* ===== verification/Upload_Retry.thy ===== *)
theory Upload_Retry
  imports Uploader
begin

text \<open>
  A retried upload Job: what a run without an error has left in the session file, and that a second
  process which starts from these files calls no provider and reports the same images.
\<close>

section \<open>Sessions by target\<close>

definition same_origin :: "Session \<Rightarrow> Session \<Rightarrow> bool" where
  "same_origin x y \<longleftrightarrow>
     ses_Provider x = ses_Provider y \<and> ses_ProviderConfigName x = ses_ProviderConfigName y \<and> ses_Format x = ses_Format y
   \<and> ses_Checksum x = ses_Checksum y \<and> ses_SizeBytes x = ses_SizeBytes y"

text \<open>Only the session at one position has changed, and it still belongs to the same target and artifact.\<close>

definition touches :: "nat \<Rightarrow> Session list \<Rightarrow> Session list \<Rightarrow> bool" where
  "touches i ss ss' \<longleftrightarrow>
     length ss' = length ss \<and> (\<forall>j. j \<noteq> i \<longrightarrow> ss' ! j = ss ! j) \<and> same_origin (ss ! i) (ss' ! i)"

lemma touches_refl [simp]: "touches i ss ss"
  by (simp add: touches_def same_origin_def)

lemma touches_update: "touches i ss ss' \<Longrightarrow> (\<And>x. same_origin x (f x)) \<Longrightarrow> touches i ss (ss'[i := f (ss' ! i)])"
  by (cases "i < length ss'") (fastforce simp: touches_def same_origin_def, simp add: list_update_beyond)

lemma find_index_cong:
  "length xs = length ys \<Longrightarrow> (\<And>j. j < length xs \<Longrightarrow> P (xs ! j) = P (ys ! j)) \<Longrightarrow> find_index P xs = find_index P ys"
proof (induction xs ys rule: list_induct2)
  case (Cons x xs y ys)
  from Cons.prems [of 0] have "P x = P y" by simp
  moreover have "find_index P xs = find_index P ys" using Cons.prems [of "Suc _"] by (intro Cons.IH) auto
  ultimately show ?case by simp
qed simp

lemma touches_find:
  assumes "touches i ss ss'"
  shows "find_index (same_target t) ss' = find_index (same_target t) ss"
proof (rule find_index_cong)
  fix j
  have "ss' ! j = ss ! j \<or> same_origin (ss ! j) (ss' ! j)" using assms by (auto simp: touches_def)
  then show "same_target t (ss' ! j) = same_target t (ss ! j)" by (auto simp: same_target_def same_origin_def)
qed (use assms in \<open>simp add: touches_def\<close>)

lemma find_index_find: "find P xs = map_option ((!) xs) (find_index P xs)"
  by (induction xs) (auto simp: option.map_comp comp_def)

lemma find_filter: "find P xs = (case filter P xs of [] \<Rightarrow> None | x # _ \<Rightarrow> Some x)"
  by (induction xs) auto

lemma filter_sort_sessions: "filter (same_target t) (sort_sessions xs) = filter (same_target t) xs"
proof -
  have "same_target t = (\<lambda>s. (ses_ProviderConfigName s, ses_Format s) = (tc_ProviderConfigName t, tc_Format t))"
    by (auto simp: same_target_def)
  then show ?thesis by (simp only: sort_sessions_def sort_key_stable)
qed

section \<open>Finished targets\<close>

definition registered_session :: "TargetConfig \<Rightarrow> BuildArtifact \<Rightarrow> target_result \<Rightarrow> Session \<Rightarrow> bool" where
  "registered_session t a res x \<longleftrightarrow>
     ses_Provider x = tc_Provider t \<and> ses_Checksum x = ba_Checksum a \<and> ses_SizeBytes x = ba_SizeBytes a
   \<and> ses_Phase x = ''registered'' \<and> ses_Image x = Some (fst res) \<and> ses_Operation x = Some (snd res) \<and> ses_ProviderRef x \<noteq> ''''"

definition finished :: "TargetConfig \<Rightarrow> BuildArtifact \<Rightarrow> target_result \<Rightarrow> Session list \<Rightarrow> bool" where
  "finished t a res ss \<longleftrightarrow> (\<exists>x. find (same_target t) ss = Some x \<and> registered_session t a res x)"

lemma finished_index:
  "finished t a res ss \<longleftrightarrow> (\<exists>i. find_index (same_target t) ss = Some i \<and> registered_session t a res (ss ! i))"
  by (auto simp: finished_def find_index_find)

lemma touches_finished:
  assumes "touches i ss ss'" and "ses_Phase (ss ! i) \<noteq> ''registered''" and "finished t a res ss"
  shows "finished t a res ss'"
proof -
  from assms(3) obtain j where j: "find_index (same_target t) ss = Some j" "registered_session t a res (ss ! j)"
    by (auto simp: finished_index)
  with assms(2) have "j \<noteq> i" by (auto simp: registered_session_def)
  with assms(1) j touches_find [OF assms(1)] show ?thesis by (auto simp: finished_index touches_def)
qed

lemma finished_new:
  assumes "finished t a res ss"
  shows "finished t a res (sort_sessions (ss @ [n]))"
  using assms by (auto simp: finished_def find_filter filter_sort_sessions split: list.splits)

section \<open>Only one session is touched\<close>

definition only_touches :: "nat \<Rightarrow> Session list \<Rightarrow> UploaderState \<Rightarrow> bool" where
  "only_touches i ss s \<longleftrightarrow> touches i ss (us_sessions s)"

lemma ignores_only_touches [intro, simp]: "ignores_files (only_touches i ss)"
  by (simp add: ignores_files_def only_touches_def)

lemma only_touches_log [simp]: "only_touches i ss (us_events_update f s) = only_touches i ss s"
  by (simp add: only_touches_def)

lemma keeps_log_only_touches: "keeps (only_touches i ss) (log_event ev)"
  by (rule keepsI) (simp add: wp_simp only_touches_def)

lemma keeps_update_only_touches: "(\<And>x. same_origin x (f x)) \<Longrightarrow> keeps (only_touches i ss) (update_session i f)"
  by (rule keepsI) (simp add: wp_simp only_touches_def touches_update)

lemma keeps_run_script_touches: "keeps (only_touches i ss) (run_script E i script a)"
  by (induction script arbitrary: a)
    (auto intro!: keeps_intro keeps_update_only_touches keeps_save_sessions simp: apply_checkpoint_def same_origin_def)

lemma keeps_uploadArtifact_touches: "keeps (only_touches i ss) (uploadArtifact E p target i a b)"
  unfolding uploadArtifact_def uploadReturned_def call_upload_def call_cleanup_def get_session_def
  by (intro keeps_intro keeps_log_only_touches keeps_run_script_touches keeps_update_only_touches keeps_save_sessions)
    (auto simp: same_origin_def)

lemma keeps_registerImage_touches: "keeps (only_touches i ss) (registerImage E p target i a b r0 ms)"
  unfolding registerImage_def recordImage_def call_register_def call_cleanup_def get_session_def Let_def
  by (intro keeps_intro keeps_log_only_touches keeps_update_only_touches keeps_save_sessions keeps_recordUploadOperation)
    (auto simp: same_origin_def)

lemma keeps_initialisedProvider_touches: "keeps (only_touches i ss) (initialisedProvider E target)"
  unfolding initialisedProvider_def providerPluginForTarget_def
  by (intro keeps_intro keeps_log_only_touches)

lemma keeps_uploadAndRegister_touches: "keeps (only_touches i ss) (uploadAndRegister E target a i session)"
  unfolding uploadAndRegister_def
  by (intro keeps_intro keeps_initialisedProvider_touches keeps_uploadArtifact_touches keeps_registerImage_touches)

section \<open>Processing a target\<close>

definition synced :: "Workspace_Env \<Rightarrow> UploaderState \<Rightarrow> bool" where
  "synced W s \<longleftrightarrow>
     us_files s sessionsName = Some (we_encodeSessions W (us_sessions s) @ newline)
   \<or> readUploadSessions W (us_files s) sessionsName = Inr (us_sessions s)"

definition owned :: "TargetConfig \<Rightarrow> BuildArtifact \<Rightarrow> nat \<Rightarrow> Session list \<Rightarrow> bool" where
  "owned target a i ss \<longleftrightarrow>
     find_index (same_target target) ss = Some i \<and> ses_Provider (ss ! i) = tc_Provider target
   \<and> ses_Checksum (ss ! i) = ba_Checksum a \<and> ses_SizeBytes (ss ! i) = ba_SizeBytes a"

lemma wp_save: "keeps I (writeUploadSessions W sessionsName ss) \<Longrightarrow> I s \<Longrightarrow>
    wp (writeUploadSessions W sessionsName ss)
      (\<lambda>e t. I t \<and> (e = None \<longrightarrow> us_files t sessionsName = Some (we_encodeSessions W ss @ newline))) s"
  unfolding wp_conj using keepsD [of I] writeCheckpoint_written [of W sessionsName] by (auto simp: writeUploadSessions_def)

lemma keeps_writeUploadSessions: "ignores_files I \<Longrightarrow> keeps I (writeUploadSessions W path ss)"
  unfolding writeUploadSessions_def by (rule keeps_writeCheckpoint)

text \<open>A new session is found again behind the sort, with the data it was made of.\<close>

lemma new_session_owned:
  assumes "find_index (same_target target) ss = None"
    and "find_index (same_target target) (sort_sessions (ss @ [new_session W target a])) = Some i"
  shows "owned target a i (sort_sessions (ss @ [new_session W target a]))"
proof -
  let ?n = "new_session W target a"
  have "filter (same_target target) ss = []" using assms(1) by (simp add: find_index_None filter_empty_conv)
  moreover have "same_target target ?n" by (simp add: same_target_def new_session_def)
  ultimately have "find (same_target target) (sort_sessions (ss @ [?n])) = Some ?n"
    by (simp add: find_filter filter_sort_sessions)
  with assms(2) have "sort_sessions (ss @ [?n]) ! i = ?n" by (simp add: find_index_find)
  with assms(2) show ?thesis by (simp add: owned_def new_session_def)
qed

lemma ensureUploadSession_result:
  "wp (ensureUploadSession W sessionsName target a)
     (\<lambda>r t. us_events t = us_events s \<and> (\<forall>t' res. finished t' a res (us_sessions s) \<longrightarrow> finished t' a res (us_sessions t))
       \<and> (\<forall>i. r = Inr i \<longrightarrow> owned target a i (us_sessions t) \<and> (synced W s \<longrightarrow> synced W t))) s"
proof (cases "find_index (same_target target) (us_sessions s)")
  case (Some i)
  then show ?thesis by (auto simp: ensureUploadSession_def wp_simp Let_def owned_def)
next
  case None
  let ?ss = "sort_sessions (us_sessions s @ [new_session W target a])"
  let ?t = "s\<lparr>us_sessions := ?ss\<rparr>"
  have "wp (writeUploadSessions W sessionsName ?ss)
      (\<lambda>e t. (us_events t = us_events s \<and> us_sessions t = ?ss)
        \<and> (e = None \<longrightarrow> us_files t sessionsName = Some (we_encodeSessions W ?ss @ newline))) ?t"
    by (rule wp_save [where I = "\<lambda>t. us_events t = us_events s \<and> us_sessions t = ?ss"])
      (auto intro!: keeps_writeUploadSessions simp: ignores_files_def)
  then show ?thesis
    unfolding ensureUploadSession_def
    by (auto simp: None wp_simp finished_new synced_def new_session_owned [OF None] elim!: wp_mono split: option.splits)
qed

lemma readUploadSessions_cong:
  assumes "fs p = fs' p" and "fs (p @ ''.bak'') = fs' (p @ ''.bak'')"
  shows "readUploadSessions W fs p = readUploadSessions W fs' p"
proof -
  have "readUploadSessionFile W fs q = readUploadSessionFile W fs' q" if "fs q = fs' q" for q
    by (simp add: readUploadSessionFile_def readFile_def that)
  then show ?thesis unfolding readUploadSessions_def by (simp only: assms)
qed

lemma readUploadSessions_record:
  "keeps (\<lambda>s. readUploadSessions W (us_files s) sessionsName = x) (recordUploadOperation W op)"
  "keeps (\<lambda>s. us_files s sessionsName = y) (recordUploadOperation W op)"
proof -
  have atomic: "keeps (\<lambda>s. I (us_files s sessionsName) (us_files s ''upload-sessions.json.bak'')) (writeAtomicFile W p d)"
    if "p \<noteq> sessionsName" "p \<noteq> ''upload-sessions.json.bak''" for I p d
    using that by (auto simp: writeAtomicFile_def put_file_def intro!: keeps_intro keeps_modify split: write_fate.split)
  have all: "keeps (\<lambda>s. I (us_files s sessionsName) (us_files s ''upload-sessions.json.bak'')) (recordUploadOperation W op)" for I
    unfolding recordUploadOperation_def writeCheckpointWithBackup_def
    by (auto intro!: keeps_intro atomic split: content.split)
  have read: "readUploadSessions W fs sessionsName =
      readUploadSessions W ((\<lambda>_. None)(sessionsName := fs sessionsName, ''upload-sessions.json.bak'' := fs ''upload-sessions.json.bak''))
        sessionsName" for fs
    by (rule readUploadSessions_cong) simp_all
  show "keeps (\<lambda>s. readUploadSessions W (us_files s) sessionsName = x) (recordUploadOperation W op)"
    by (subst read) (rule all [where I = "\<lambda>a b. readUploadSessions W ((\<lambda>_. None)(sessionsName := a, ''upload-sessions.json.bak'' := b)) sessionsName = x"])
  show "keeps (\<lambda>s. us_files s sessionsName = y) (recordUploadOperation W op)"
    by (rule all [where I = "\<lambda>a b. a = y"])
qed

lemma keeps_record_synced: "keeps (synced W) (recordUploadOperation W op)"
proof (rule keepsI)
  fix s assume start: "synced W s"
  have "wp (recordUploadOperation W op) (\<lambda>_ t. us_sessions t = us_sessions s) s"
    by (rule keepsD [OF keeps_recordUploadOperation]) (simp_all add: ignores_files_def)
  moreover have "wp (recordUploadOperation W op)
      (\<lambda>_ t. readUploadSessions W (us_files t) sessionsName = readUploadSessions W (us_files s) sessionsName) s"
    by (rule keepsD [OF readUploadSessions_record(1)]) simp
  moreover have "wp (recordUploadOperation W op) (\<lambda>_ t. us_files t sessionsName = us_files s sessionsName) s"
    by (rule keepsD [OF readUploadSessions_record(2)]) simp
  ultimately have "wp (recordUploadOperation W op) (\<lambda>_ t. us_sessions t = us_sessions s \<and>
      readUploadSessions W (us_files t) sessionsName = readUploadSessions W (us_files s) sessionsName \<and>
      us_files t sessionsName = us_files s sessionsName) s" by (simp add: wp_conj)
  then show "wp (recordUploadOperation W op) (\<lambda>_. synced W) s"
    using start by (auto simp: synced_def elim: wp_mono)
qed

text \<open>A registration that succeeds leaves the session registered, saved, and with the reference of the
  upload.\<close>

lemma recordImage_result:
  assumes "i < length (us_sessions s)"
  shows "wp (recordImage E target i a session r ms imageRef err)
    (\<lambda>res t. \<forall>img op. res = Inr (img, op) \<longrightarrow> synced (ue_ws E) t \<and> ses_Phase (us_sessions t ! i) = ''registered''
       \<and> ses_Image (us_sessions t ! i) = Some img \<and> ses_Operation (us_sessions t ! i) = Some op
       \<and> ses_ProviderRef (us_sessions t ! i) = ses_ProviderRef (us_sessions s ! i)) s"
proof -
  have saved: "wp (save_sessions E) (\<lambda>e t. us_sessions t = us_sessions u \<and> (e = None \<longrightarrow> synced (ue_ws E) t)) u" for u
  proof -
    have "wp (writeUploadSessions (ue_ws E) sessionsName (us_sessions u)) (\<lambda>e t. us_sessions t = us_sessions u
        \<and> (e = None \<longrightarrow> us_files t sessionsName = Some (we_encodeSessions (ue_ws E) (us_sessions u) @ newline))) u"
      by (rule wp_save [where I = "\<lambda>t. us_sessions t = us_sessions u"]) (auto intro!: keeps_writeUploadSessions simp: ignores_files_def)
    then show ?thesis by (auto simp: save_sessions_def wp_simp synced_def elim!: wp_mono)
  qed
  have rec: "wp (recordUploadOperation (ue_ws E) op) (\<lambda>_ t. us_sessions t = us_sessions u \<and> synced (ue_ws E) t) u"
    if "synced (ue_ws E) u" for op u
    unfolding wp_conj using that
    by (auto intro!: keepsD [OF keeps_record_synced] keepsD [OF keeps_recordUploadOperation] simp: ignores_files_def)
  show ?thesis
    unfolding recordImage_def Let_def
    apply (auto simp: wp_simp split: option.split)
    subgoal using assms by (auto intro!: wp_mono [OF saved] wp_mono [OF rec] split: option.split)
    done
qed

lemma save_sessions_keeps: "wp (save_sessions E) (\<lambda>_ t. us_sessions t = us_sessions s) s"
  by (rule keepsD [OF keeps_save_sessions]) (simp_all add: ignores_files_def)

lemma uploadReturned_result:
  assumes "i < length (us_sessions s)"
  shows "wp (uploadReturned E p target i a result err b)
    (\<lambda>res t. case res of Inl _ \<Rightarrow> True | Inr x \<Rightarrow> ses_ProviderRef (us_sessions t ! i) = ur_ProviderRef (fst x)) s"
  using assms unfolding uploadReturned_def
  by (auto simp: wp_simp call_cleanup_def intro!: wp_mono [OF save_sessions_keeps] split: option.split)

lemma uploadArtifact_result:
  assumes "i < length (us_sessions s)"
  shows "wp (uploadArtifact E p target i a b)
    (\<lambda>res t. case res of Inl _ \<Rightarrow> True | Inr x \<Rightarrow> ses_ProviderRef (us_sessions t ! i) = ur_ProviderRef (fst x)) s"
proof (cases "ses_Phase (us_sessions s ! i) = ''uploaded''")
  case True
  then show ?thesis by (simp add: uploadArtifact_def wp_simp)
next
  case False
  have "wp (call_upload E p target i b) (\<lambda>_. only_touches i (us_sessions s)) s"
    by (rule keepsD) (auto simp: call_upload_def get_session_def only_touches_def
        intro!: keeps_intro keeps_log_only_touches keeps_run_script_touches)
  then have "wp (call_upload E p target i b) (\<lambda>_ t. i < length (us_sessions t)) s"
    using assms by (auto simp: only_touches_def touches_def elim: wp_mono)
  with False show ?thesis
    unfolding uploadArtifact_def wp_bind wp_get_session
    by (auto simp: wp_bind case_prod_beta intro!: uploadReturned_result elim!: wp_mono)
qed

lemma recordUploadOperation_ref:
  "wp (recordUploadOperation W op) (\<lambda>e t. e = None \<longrightarrow> opr_ProviderRef op \<noteq> '''') s"
  by (auto simp: recordUploadOperation_def wp_simp intro!: wp_mono [OF wp_True])

lemma registerImage_result:
  assumes "i < length (us_sessions s)" and "ses_ProviderRef (us_sessions s ! i) = ur_ProviderRef r0"
  shows "wp (registerImage E p target i a b r0 ms)
    (\<lambda>res t. case res of Inl _ \<Rightarrow> True | Inr x \<Rightarrow> synced (ue_ws E) t \<and> ses_Phase (us_sessions t ! i) = ''registered''
       \<and> ses_Image (us_sessions t ! i) = Some (fst x) \<and> ses_Operation (us_sessions t ! i) = Some (snd x)
       \<and> ses_ProviderRef (us_sessions t ! i) \<noteq> '''') s"
    (is "wp _ ?Q s")
proof -
  let ?r = "result_for_register E target (us_sessions s ! i) r0"
  let ?op = "operation_record target (ur_ProviderRef ?r) (ur_Metadata ?r)"
  have ref: "ur_ProviderRef ?r = ur_ProviderRef r0" by (simp add: result_for_register_def)
  have first: "wp (recordUploadOperation (ue_ws E) ?op)
      (\<lambda>e t. us_sessions t = us_sessions s \<and> (e = None \<longrightarrow> ur_ProviderRef r0 \<noteq> '''')) s"
    unfolding wp_conj using recordUploadOperation_ref [of "ue_ws E" ?op s]
    by (auto intro!: keepsD [OF keeps_recordUploadOperation] simp: ignores_files_def operation_record_def ref)
  have rec: "wp (recordImage E target i a session ?r ms imageRef err) ?Q t"
    if "us_sessions t = us_sessions s" "ur_ProviderRef r0 \<noteq> ''''" for session imageRef err t
    by (rule wp_mono [OF recordImage_result]) (use assms that in \<open>auto split: sum.split\<close>)
  show ?thesis
    unfolding registerImage_def Let_def wp_bind wp_get_session
  proof (rule wp_mono [OF first])
    fix e :: "go_error option" and t :: UploaderState
    assume t: "us_sessions t = us_sessions s \<and> (e = None \<longrightarrow> ur_ProviderRef r0 \<noteq> '''')"
    show "wp (case e of None \<Rightarrow> do {
          (imageRef, err) \<leftarrow> call_register p target ?r;
          recordImage E target i a (us_sessions s ! i) ?r ms imageRef err }
        | Some err \<Rightarrow> do { ignored \<leftarrow> call_cleanup p (tc_ProviderConfigName target) b;
            ret (Inl (wrapf (''record upload operation for provider '' @ quoted (tc_Provider target) @ '': '') err)) }) ?Q t"
    proof (cases e)
      case None
      with t show ?thesis
        by (auto simp: call_register_def wp_simp case_prod_beta intro!: rec)
    next
      case (Some err)
      then show ?thesis by (simp add: wp_simp call_cleanup_def)
    qed
  qed
qed

lemma touches_owned: "touches i ss ss' \<Longrightarrow> owned target a i ss \<Longrightarrow> owned target a i ss'"
  using touches_find [of i ss ss' target] by (auto simp: owned_def touches_def same_origin_def)

definition completed :: "Uploader_Env \<Rightarrow> TargetConfig \<Rightarrow> BuildArtifact \<Rightarrow> go_error + target_result \<Rightarrow> UploaderState \<Rightarrow> bool" where
  "completed E target a res t \<longleftrightarrow>
     (case res of Inl _ \<Rightarrow> True | Inr x \<Rightarrow> synced (ue_ws E) t \<and> finished target a x (us_sessions t))"

lemma completed_Inl [simp]: "completed E target a (Inl err) t"
  by (simp add: completed_def)

lemma uploadAndRegister_result:
  assumes own: "owned target a i (us_sessions s)"
  shows "wp (uploadAndRegister E target a i session)
    (\<lambda>res t. touches i (us_sessions s) (us_sessions t)
       \<and> completed E target a res t) s"
proof -
  let ?T = "only_touches i (us_sessions s)"
  have start: "?T s" by (simp add: only_touches_def)
  have long: "?T t \<Longrightarrow> i < length (us_sessions t)" for t
    using own find_index_Some [of _ "us_sessions s"] by (auto simp: only_touches_def touches_def owned_def)
  have final: "finished target a x (us_sessions t)"
    if "?T t" "ses_Phase (us_sessions t ! i) = ''registered''" "ses_Image (us_sessions t ! i) = Some (fst x)"
      "ses_Operation (us_sessions t ! i) = Some (snd x)" "ses_ProviderRef (us_sessions t ! i) \<noteq> ''''" for x t
    using touches_owned [OF _ own, of "us_sessions t"] that
    by (auto simp: finished_index registered_session_def owned_def only_touches_def)
  have reg: "wp (registerImage E p target i a c r ms)
      (\<lambda>res t. completed E target a res t) t"
    if "?T t" "ses_ProviderRef (us_sessions t ! i) = ur_ProviderRef r" for p c r ms t
  proof -
    from wp_conj [THEN iffD2, OF conjI, OF registerImage_result [OF long [OF that(1)] that(2)]
        keepsD [OF keeps_registerImage_touches that(1)]]
    show ?thesis by (rule wp_mono) (auto simp: completed_def split: sum.splits intro: final)
  qed
  have up: "wp (uploadArtifact E p target i a b) (\<lambda>res t. ?T t \<and>
      (case res of Inl _ \<Rightarrow> True | Inr x \<Rightarrow> ses_ProviderRef (us_sessions t ! i) = ur_ProviderRef (fst x))) t"
    if "?T t" for p b t
    unfolding wp_conj using keepsD [OF keeps_uploadArtifact_touches that] uploadArtifact_result [OF long [OF that]] by blast
  have result: "wp (uploadAndRegister E target a i session)
      (\<lambda>res t. completed E target a res t) s"
    unfolding uploadAndRegister_def wp_trying
  proof (rule wp_mono [OF keepsD [OF keeps_initialisedProvider_touches start]], goal_cases)
    case (1 res t)
    then show ?case
      by (auto simp: wp_simp split: sum.split option.split intro!: wp_mono [OF up] reg)
  qed
  show ?thesis
    unfolding wp_conj using result keepsD [OF keeps_uploadAndRegister_touches start]
    by (simp add: only_touches_def)
qed

lemma processUploadTarget_result:
  "wp (processUploadTarget E target a)
     (\<lambda>res t. (\<forall>t' x. finished t' a x (us_sessions s) \<longrightarrow> finished t' a x (us_sessions t))
       \<and> (synced (ue_ws E) s \<longrightarrow> completed E target a res t)) s"
  unfolding processUploadTarget_def wp_trying
proof (rule wp_mono [OF ensureUploadSession_result], goal_cases)
  case (1 res t)
  show ?case
  proof (cases res)
    case (Inl err)
    with 1 show ?thesis by simp
  next
    case (Inr i)
    with 1 have own: "owned target a i (us_sessions t)" and sync: "synced (ue_ws E) s \<Longrightarrow> synced (ue_ws E) t"
      and fin: "\<And>t' x. finished t' a x (us_sessions s) \<Longrightarrow> finished t' a x (us_sessions t)" by auto
    let ?x = "us_sessions t ! i"
    show ?thesis
    proof (cases "ses_Phase ?x = ''registered''")
      case True
      have kept: "wp (recordUploadOperation (ue_ws E) op)
          (\<lambda>_ u. us_sessions u = us_sessions t \<and> (synced (ue_ws E) t \<longrightarrow> synced (ue_ws E) u)) t" for op
      proof -
        have "wp (recordUploadOperation (ue_ws E) op) (\<lambda>_ u. us_sessions u = us_sessions t) t"
          by (rule keepsD [OF keeps_recordUploadOperation]) (simp_all add: ignores_files_def)
        moreover have "wp (recordUploadOperation (ue_ws E) op) (\<lambda>_ u. synced (ue_ws E) t \<longrightarrow> synced (ue_ws E) u) t"
          by (cases "synced (ue_ws E) t") (simp_all add: keepsD [OF keeps_record_synced])
        ultimately show ?thesis by (simp add: wp_conj)
      qed
      have "finished target a (img, operation) (us_sessions t)"
        if "ses_Image ?x = Some img" "ses_Operation ?x = Some operation" "ses_ProviderRef ?x \<noteq> ''''" for img operation
        using that own True by (auto simp: finished_index registered_session_def owned_def)
      with True Inr fin sync show ?thesis
        by (auto simp: wp_simp restoreRegistered_def completed_def intro!: wp_mono [OF kept] split: option.split)
    next
      case False
      with Inr show ?thesis
        by (auto simp: wp_simp intro!: wp_mono [OF uploadAndRegister_result [OF own]] fin touches_finished [OF _ False])
    qed
  qed
qed

section \<open>A run, and its repetition\<close>

lemma upload_targets_failures:
  "wp (upload_targets E a ts results failures) (\<lambda>(rs, fs) t. failures \<noteq> [] \<longrightarrow> fs \<noteq> []) s"
proof (induction ts arbitrary: results failures s)
  case (Cons target ts)
  show ?case
    by (simp add: wp_bind, rule wp_mono [OF wp_True], simp split: sum.split)
      (auto intro!: wp_mono [OF Cons.IH])
qed (simp add: wp_simp)

lemma upload_targets_result:
  assumes "failures = [] \<longrightarrow> synced (ue_ws E) s"
  shows "wp (upload_targets E a ts results failures)
     (\<lambda>(rs, fs) t. fs = [] \<longrightarrow> synced (ue_ws E) t \<and> (\<forall>t' x. finished t' a x (us_sessions s) \<longrightarrow> finished t' a x (us_sessions t))
        \<and> (\<exists>new. rs = results @ new \<and> list_all2 (\<lambda>target x. finished target a x (us_sessions t)) ts new)) s"
  using assms
proof (induction ts arbitrary: results failures s)
  case Nil
  then show ?case by (simp add: wp_simp)
next
  case (Cons target ts)
  let ?Q = "\<lambda>results ts (rs, fs) t. fs = [] \<longrightarrow> synced (ue_ws E) t
      \<and> (\<forall>t' x. finished t' a x (us_sessions s) \<longrightarrow> finished t' a x (us_sessions t))
      \<and> (\<exists>new. rs = results @ new \<and> list_all2 (\<lambda>target x. finished target a x (us_sessions t)) ts new)"
  have "wp (case res of Inl err \<Rightarrow> upload_targets E a ts results (failures @ [(target, err)])
      | Inr x \<Rightarrow> upload_targets E a ts (results @ [x]) failures) (?Q results (target # ts)) u"
    if fin: "\<And>t' x. finished t' a x (us_sessions s) \<Longrightarrow> finished t' a x (us_sessions u)"
      and now_ok: "synced (ue_ws E) s \<Longrightarrow> completed E target a res u" for res u
  proof (cases res)
    case (Inl err)
    then show ?thesis
      by (auto intro: wp_mono [OF upload_targets_failures])
  next
    case (Inr x)
    have "failures = [] \<longrightarrow> synced (ue_ws E) u" and now: "failures = [] \<Longrightarrow> finished target a x (us_sessions u)"
      using Cons.prems now_ok Inr by (auto simp: completed_def)
    note rest = Cons.IH [OF this(1), of "results @ [x]"]
    have failed: "wp (upload_targets E a ts (results @ [x]) failures) (\<lambda>(rs, fs) t. failures \<noteq> [] \<longrightarrow> fs \<noteq> []) u"
      by (rule upload_targets_failures)
    from wp_conj [THEN iffD2, OF conjI, OF rest failed] show ?thesis
      unfolding Inr sum.case by (rule wp_mono) (use fin now in \<open>fastforce simp: case_prod_beta\<close>)
  qed
  then show ?case
    by (simp add: wp_bind) (rule wp_mono [OF processUploadTarget_result], blast)
qed

text \<open>No step writes the result of the build.\<close>

definition build_result :: "string option \<Rightarrow> UploaderState \<Rightarrow> bool" where
  "build_result y s \<longleftrightarrow> us_files s resultFileName = y"

lemma keeps_checkpoint_result:
  "path = sessionsName \<or> path = operationsName \<Longrightarrow> keeps (build_result y) (writeCheckpointWithBackup W path data valid)"
proof -
  have "keeps (build_result y) (writeAtomicFile W p d)" if "p \<noteq> resultFileName" for p d
    using that unfolding build_result_def
    by (auto simp: writeAtomicFile_def put_file_def intro!: keeps_intro keeps_modify split: write_fate.split)
  then show "path = sessionsName \<or> path = operationsName \<Longrightarrow> ?thesis"
    unfolding writeCheckpointWithBackup_def by (auto intro!: keeps_intro split: content.split)
qed

lemma keeps_result_log: "keeps (build_result y) (log_event ev)"
  by (rule keepsI) (simp add: wp_simp build_result_def)

lemma keeps_result_update: "keeps (build_result y) (update_session i f)"
  by (rule keepsI) (simp add: wp_simp build_result_def)

lemma keeps_result_save: "keeps (build_result y) (save_sessions E)" "keeps (build_result y) (writeUploadSessions W sessionsName ss)"
  by (auto simp: save_sessions_def writeUploadSessions_def intro!: keeps_intro keeps_checkpoint_result)

lemma keeps_result_record: "keeps (build_result y) (recordUploadOperation W op)"
  unfolding recordUploadOperation_def by (auto intro!: keeps_intro keeps_checkpoint_result)

lemmas keeps_result = keeps_result_log keeps_result_update keeps_result_save keeps_result_record

lemma keeps_result_script: "keeps (build_result y) (run_script E i script a)"
  by (induction script arbitrary: a) (auto intro!: keeps_intro keeps_result)

lemma keeps_result_target: "keeps (build_result y) (processUploadTarget E target a)"
proof -
  have "keeps (build_result y) (initialisedProvider E target)"
    unfolding initialisedProvider_def providerPluginForTarget_def by (intro keeps_intro keeps_result)
  moreover have "keeps (build_result y) (uploadArtifact E p target i a b)" for p i b
    unfolding uploadArtifact_def uploadReturned_def call_upload_def call_cleanup_def get_session_def
    by (intro keeps_intro keeps_result keeps_result_script)
  moreover have "keeps (build_result y) (registerImage E p target i a b r ms)" for p i b r ms
    unfolding registerImage_def recordImage_def call_register_def call_cleanup_def get_session_def Let_def
    by (intro keeps_intro keeps_result)
  moreover have "keeps (build_result y) (ensureUploadSession W sessionsName target a)" for W
    unfolding ensureUploadSession_def Let_def
    by (intro keeps_intro keeps_result keeps_modify) (simp add: build_result_def)
  ultimately show ?thesis
    unfolding processUploadTarget_def uploadAndRegister_def restoreRegistered_def get_session_def
    by (intro keeps_intro keeps_result) auto
qed

lemma keeps_result_targets: "keeps (build_result y) (upload_targets E a ts results failures)"
  by (induction ts arbitrary: results failures) (auto intro!: keeps_intro keeps_result_target)

text \<open>A finished target only has its operation recorded again.\<close>

lemma finished_target_again:
  assumes "finished target a x (us_sessions s)"
  shows "wp (processUploadTarget E target a)
    (\<lambda>res t. us_events t = us_events s \<and> us_sessions t = us_sessions s \<and> (\<forall>y. res = Inr y \<longrightarrow> y = x)) s"
proof -
  from assms obtain i where i: "find_index (same_target target) (us_sessions s) = Some i"
      "registered_session target a x (us_sessions s ! i)" by (auto simp: finished_index)
  have rec: "wp (recordUploadOperation (ue_ws E) op) (\<lambda>_ t. us_events t = us_events s \<and> us_sessions t = us_sessions s) s" for op
    by (rule keepsD [OF keeps_recordUploadOperation]) (simp_all add: ignores_files_def)
  from i show ?thesis
    by (auto simp: processUploadTarget_def ensureUploadSession_def restoreRegistered_def registered_session_def wp_simp Let_def
        intro!: wp_mono [OF rec] split: option.split)
qed

lemma finished_targets_again:
  assumes "list_all2 (\<lambda>target x. finished target a x (us_sessions s)) ts xs"
  shows "wp (upload_targets E a ts results failures)
    (\<lambda>(rs, fs) t. us_events t = us_events s \<and> us_sessions t = us_sessions s \<and> (fs = [] \<longrightarrow> rs = results @ xs)) s"
  using assms
proof (induction ts arbitrary: xs results failures s)
  case Nil
  then show ?case by (simp add: wp_simp)
next
  case (Cons target ts)
  from Cons.prems obtain x xs' where xs: "xs = x # xs'" and now: "finished target a x (us_sessions s)"
      and rest: "list_all2 (\<lambda>target x. finished target a x (us_sessions s)) ts xs'"
    by (auto simp: list_all2_Cons1)
  show ?case
  proof (simp only: upload_targets.simps wp_bind, rule wp_mono [OF finished_target_again [OF now]], goal_cases)
    case (1 res t)
    then have same: "us_sessions t = us_sessions s" by simp
    show ?case
    proof (cases res)
      case (Inl err)
      have failed: "wp (upload_targets E a ts results (failures @ [(target, err)])) (\<lambda>(rs, fs) t. fs \<noteq> []) t"
        by (rule wp_mono [OF upload_targets_failures]) auto
      have same_rest: "wp (upload_targets E a ts results (failures @ [(target, err)]))
          (\<lambda>(rs, fs) u. us_events u = us_events t \<and> us_sessions u = us_sessions t \<and> (fs = [] \<longrightarrow> rs = results @ xs')) t"
        using rest by (intro Cons.IH) (simp add: same)
      from wp_conj [THEN iffD2, OF conjI, OF failed same_rest] show ?thesis
        unfolding Inl sum.case by (rule wp_mono) (use 1 in auto)
    next
      case (Inr y)
      have "wp (upload_targets E a ts (results @ [y]) failures)
          (\<lambda>(rs, fs) u. us_events u = us_events t \<and> us_sessions u = us_sessions t \<and> (fs = [] \<longrightarrow> rs = (results @ [y]) @ xs')) t"
        using rest by (intro Cons.IH) (simp add: same)
      with 1 Inr xs show ?thesis by (auto elim!: wp_mono)
    qed
  qed
qed

end
