(* ===== verification/Upload_Guarantees.thy ===== *)
theory Upload_Guarantees
  imports Upload_Retry
begin

text \<open>
  The guarantees of the upload process (\<open>cmd/uploader/main.go\<close>) and the concrete process their witnesses
  run: nothing is registered before it is on record, no provider is initialised with an endpoint the
  guard rejects, and a repeated run repeats nothing.
\<close>

section \<open>A concrete process\<close>

text \<open>A concrete process: one target, a provider that reports two checkpoints, and a session format with a
  letter for the phase of every session.\<close>

definition ex_target :: TargetConfig where
  "ex_target =
     \<lparr>tc_ProviderConfigName = ''pc'', tc_Provider = ''GCP'', tc_Region = '''', tc_Endpoint = ''u'', tc_Insecure = False,
      tc_Extra = Map.empty, tc_Format = ''raw'', tc_Tags = [''team'' \<mapsto> ''a''], tc_CredentialsPath = ''/c'', tc_GRPC = None,
      tc_AllowedPrivateCIDRs = ['' 10.1.0.0/16''], tc_AllowedDNSNames = [''*.corp.io.'']\<rparr>"

definition ex_artifact :: ArtifactStatus where
  "ex_artifact =
     \<lparr>art_path = ''/d'', art_format = ''raw'', art_checksum = '''', art_sizeBytes = 2, art_os = ''linux'', art_metadata = Map.empty\<rparr>"

definition ex_provider :: UploadProvider where
  "ex_provider =
     \<lparr>upr_init = \<lambda>_ _. None, upr_validate = \<lambda>_ _. None,
      upr_uploadResumable = Some (\<lambda>_ _ session. Progress (session\<lparr>ps_CommittedOffset := 1, ps_ResumeMode := ''offset''\<rparr>)
        (\<lambda>e. Finished (Some \<lparr>ur_ProviderRef = ''r1'', ur_Metadata = Map.empty\<rparr>) e)),
      upr_upload = \<lambda>_ _. (None, None), upr_register = \<lambda>_ _. (Some \<lparr>ir_ID = ''ami'', ir_Location = ''eu''\<rparr>, None),
      upr_cleanup = \<lambda>_ _. None\<rparr>"

definition ex_workspace :: "Session list \<Rightarrow> Workspace_Env" where
  "ex_workspace stored =
     \<lparr>we_fate = \<lambda>_. Written, we_readError = \<lambda>_. None, we_encodeSessions = map (\<lambda>s. hd (ses_Phase s)),
      we_decodeSessions = \<lambda>d. Inr (1, if d = ''r'' @ newline then stored else []), we_encodeOperations = \<lambda>ops. concat (map opr_ProviderRef ops),
      we_decodeOperations = \<lambda>_. Inr [], we_sha256 = \<lambda>_. ''k''\<rparr>"

definition ex_uploader :: "Session list \<Rightarrow> Uploader_Env" where
  "ex_uploader stored =
     \<lparr>ue_ws = ex_workspace stored, ue_getenv = \<lambda>n. if n = ''UPLOAD_TARGETS_JSON'' then ''t'' else '''',
      ue_decodeTargets = \<lambda>_. Inr [ex_target], ue_decodeArtifact = \<lambda>_. Inr ex_artifact,
      ue_open = \<lambda>_. Inr [(''ab'', More)], ue_readFile = \<lambda>_. Inr '''', ue_readDir = \<lambda>_. Inr [],
      ue_decodeStringMap = \<lambda>_. Inr Map.empty, ue_New = \<lambda>_. Inr ex_provider,
      ue_Connect = \<lambda>_ _ _. Inl (errorf ''unavailable''), ue_url_parse = ex_url_parse, ue_lookupHost = \<lambda>_. ex_lookup,
      ue_range = \<lambda>_. [''team''], ue_parseInt = \<lambda>_. None, ue_now = \<lambda>_. 7, ue_since = \<lambda>_. 3\<rparr>"

definition ex_start :: UploaderState where
  "ex_start = \<lparr>us_files = [''result.json'' \<mapsto> ''{}''], us_past = [], us_writes = 0, us_sessions = [], us_events = []\<rparr>"

lemma ex_verified: "verifyArtifactFile (ex_uploader stored) (artifact_of_status ex_artifact) = None"
proof -
  have "verify_artifact (\<lambda>_. ''k'') [(''ab'', More)] 2 '''' = None" by code_simp
  then show ?thesis
    by (simp add: verifyArtifactFile_def artifact_of_status_def ex_artifact_def ex_uploader_def ex_workspace_def)
qed

lemma ex_accepted: "endpoint_accepted (ex_uploader stored) h ex_target"
proof -
  have "ValidatePublicHTTPSURL ex_url_parse ex_lookup ''provider endpoint'' ''u'' ex_options = None" by code_simp
  moreover have "ValidatePublicHTTPSURL up lookup field '''' options = None" for up lookup field options
    by (simp add: ValidatePublicHTTPSURL_def)
  moreover have "target_options ex_target = ex_options" by (simp add: target_options_def ex_target_def ex_options_def)
  ultimately show ?thesis
    by (simp add: endpoint_accepted_def validateProviderEndpoint_def validateProviderExtraEndpoints_def
        extra_endpoint_keys_def get_str_def ex_target_def ex_uploader_def del: equalFold.simps)
qed

lemma ex_inputs:
  "readArtifact (ex_uploader stored) (us_files ex_start) = Inr (artifact_of_status ex_artifact)"
  "readTargets (ex_uploader stored) (ue_getenv (ex_uploader stored) ''UPLOAD_TARGETS_JSON'') = Inr [ex_target]"
  "readUploadSessions (ex_workspace stored) (us_files ex_start) sessionsName = Inr []"
  "ue_getenv (ex_uploader stored) ''UPLOAD_CLEANUP_ONLY'' = ''''"
  "readSecretData (ex_uploader stored) d = Inr Map.empty"
  by (simp_all add: readArtifact_def readTargets_def ex_uploader_def ex_workspace_def readFile_def readUploadSessions_def
    readUploadSessionFile_def readSecretData_def ex_start_def)

definition ex_session :: Session where
  "ex_session = new_session (ex_workspace []) ex_target (artifact_of_status ex_artifact)"

lemma ex_ensure:
  "run_state (ensureUploadSession (ex_workspace stored) sessionsName ex_target (artifact_of_status ex_artifact)) ex_start =
     (Inr 0, ex_start\<lparr>us_sessions := [ex_session], us_files := (us_files ex_start)(sessionsName \<mapsto> ''u'' @ newline),
        us_past := [us_files ex_start], us_writes := 1\<rparr>)"
  by (simp add: ensureUploadSession_def ex_start_def writeUploadSessions_def writeCheckpointWithBackup_def readFile_def
      writeAtomicFile_def put_file_def ex_uploader_def ex_workspace_def sort_sessions_def Let_def same_target_def
      new_session_def ex_session_def idempotencyKey_def)

lemma ex_initialised: "run_state (initialisedProvider (ex_uploader stored) ex_target) s
  = (Inr ex_provider, s\<lparr>us_events := us_events s @ [InitEvent ''pc'' (plugin_config_of ex_target Map.empty)]\<rparr>)"
  using ex_accepted [of stored "us_events s"]
  by (simp add: initialisedProvider_def trying_def checked_def providerPluginForTarget_def ex_inputs endpoint_accepted_def log_event_def)
   (simp add: ex_target_def ex_uploader_def ex_provider_def)

lemmas ex_defs = get_session_def log_event_def update_session_def save_sessions_def writeUploadSessions_def
  writeCheckpointWithBackup_def readFile_def writeAtomicFile_def put_file_def validUploadSessionData_def checked_def trying_def Let_def

lemma ex_proj: "ue_ws (ex_uploader stored) = ex_workspace stored" "we_fate (ex_workspace stored) = (\<lambda>_. Written)"
  "we_readError (ex_workspace stored) = (\<lambda>_. None)" "we_decodeOperations (ex_workspace stored) = (\<lambda>_. Inr [])"
  "we_encodeSessions (ex_workspace stored) = map (\<lambda>s. hd (ses_Phase s))"
  "we_decodeSessions (ex_workspace stored) = (\<lambda>d. Inr (1, if d = ''r'' @ newline then stored else []))"
  "we_encodeOperations (ex_workspace stored) = (\<lambda>ops. concat (map opr_ProviderRef ops))"
  "ue_since (ex_uploader stored) = (\<lambda>_. 3)" "ue_now (ex_uploader stored) = (\<lambda>_. 7)" "ue_range (ex_uploader stored) = (\<lambda>_. [''team''])"
  by (simp_all add: ex_uploader_def ex_workspace_def)

lemma ex_data: "ses_Phase ex_session = ''uploading''" "tc_ProviderConfigName ex_target = ''pc''"
  by (simp_all add: ex_session_def new_session_def ex_target_def)

lemma ex_files: "us_files ex_start = [''result.json'' \<mapsto> ''{}'']" "us_events ex_start = []"
  by (simp_all add: ex_start_def)

lemma ex_same:
 "ex_start\<lparr>us_sessions := []\<rparr> = ex_start" by (simp add: ex_start_def)

text \<open>The run, evaluated: first up to the upload, then the upload, then the registration.\<close>

lemmas ex_until_upload = run_def uploadAll_def ex_proj ex_same ex_inputs ex_verified checked_def processUploadTarget_def
  trying_def ex_ensure get_session_def ex_data uploadAndRegister_def ex_initialised

lemmas ex_uploading = ex_provider_def uploadArtifact_def uploadReturned_def call_upload_def ex_defs ex_data ex_proj
  platform_session_def apply_checkpoint_def

lemmas ex_registering = registerImage_def recordImage_def call_register_def recordUploadOperation_def readUploadOperations_def
  readUploadOperationsFile_def reconstructUploadOperationsFromSessions_def readUploadSessions_def readUploadSessionFile_def
  ex_defs ex_proj result_for_register_def tag_metadata_def operation_record_def upsert_operation_def sort_operations_def
  validUploadOperationsData_def ex_data same_operation_def ex_files

definition ex_final :: UploaderState where
  "ex_final = snd (run_state (run (ex_uploader [])) ex_start)"

lemma ex_upload_run:
  "\<exists>img op k r fs. run_state (run (ex_uploader stored)) ex_start = (Inr [(img, op)], ex_final) \<and> is_imageRef img = ''ami''
     \<and> us_events ex_final = [InitEvent ''pc'' (plugin_config_of ex_target Map.empty), UploadEvent ''pc'' k, RegisterEvent ''pc'' r fs]
     \<and> ur_ProviderRef r = ''r1'' \<and> us_files ex_final sessionsName = Some (''r'' @ newline)
     \<and> map ses_Phase (us_sessions ex_final) = [''registered'']"
  unfolding ex_final_def
  apply (simp add: ex_until_upload)
  apply (simp add: ex_uploading)
  apply (simp add: ex_registering)
  apply (simp add: image_status_def)
  done

section \<open>Properties\<close>

text \<open>C27: Nothing is registered in secret: whenever the process asks a provider to register an upload, the
  operation file in the workspace already names that upload, with its ProviderConfig, so that a
  cleanup after a crash at any later moment finds it.\<close>

theorem register_after_record:
  assumes "run_state (run E) s = (r, s')" and "us_events s' = h @ RegisterEvent pcn result fs # rest"
    and "length (us_events s) \<le> length h"
  shows "\<exists>ops op. fs operationsName = Some (we_encodeOperations (ue_ws E) ops @ newline) \<and> op \<in> set ops
    \<and> opr_ProviderConfigName op = pcn \<and> opr_ProviderRef op = ur_ProviderRef result"
  using run_events [OF assms] by (simp add: proper_event_def recorded_def)

theorem register_after_record_witness:
  "\<exists>r fs (ops :: OperationRecord list) op. RegisterEvent ''pc'' r fs \<in> set (us_events ex_final) \<and> ur_ProviderRef r = ''r1''
     \<and> fs operationsName = Some (concat (map opr_ProviderRef ops) @ newline) \<and> op \<in> set ops
     \<and> opr_ProviderConfigName op = ''pc'' \<and> opr_ProviderRef op = ''r1''"
proof -
  obtain img op k r fs where run: "run_state (run (ex_uploader [])) ex_start = (Inr [(img, op)], ex_final)"
      and ev: "us_events ex_final = [InitEvent ''pc'' (plugin_config_of ex_target Map.empty), UploadEvent ''pc'' k] @ RegisterEvent ''pc'' r fs # []"
      and ref: "ur_ProviderRef r = ''r1''"
    using ex_upload_run [of "[]"] by auto
  have "length (us_events ex_start) \<le> length [InitEvent ''pc'' (plugin_config_of ex_target Map.empty), UploadEvent ''pc'' k]"
    by (simp add: ex_start_def)
  from register_after_record [OF run ev this]
  have "\<exists>(ops :: OperationRecord list) op. fs operationsName = Some (concat (map opr_ProviderRef ops) @ newline) \<and> op \<in> set ops
      \<and> opr_ProviderConfigName op = ''pc'' \<and> opr_ProviderRef op = ''r1''"
    unfolding ex_proj ref .
  moreover have "RegisterEvent ''pc'' r fs \<in> set (us_events ex_final)" by (simp add: ev)
  ultimately show ?thesis using ref by blast
qed

text \<open>C29: The upload process initialises a provider only for one of its targets, with exactly the
  configuration of that target, and only after the SSRF guard accepted the endpoint, and for GCP
  every endpoint of the extra settings, with the addresses DNS answered at that moment.\<close>

theorem uploader_endpoints_guarded:
  assumes "run_state (run E) s = (r, s')" and "us_events s' = h @ InitEvent pcn cfg # rest"
    and "length (us_events s) \<le> length h"
  shows "\<exists>targets target secret. ue_decodeTargets E (ue_getenv E ''UPLOAD_TARGETS_JSON'') = Inr targets \<and> target \<in> set targets
    \<and> pcn = tc_ProviderConfigName target \<and> cfg = plugin_config_of target secret
    \<and> ValidatePublicHTTPSURL (ue_url_parse E) (ue_lookupHost E h) ''provider endpoint'' (tc_Endpoint target) (target_options target) = None
    \<and> (equalFold (tc_Provider target) ''gcp'' \<longrightarrow> (\<forall>key \<in> {''storageEndpoint'', ''computeEndpoint'', ''storageUploadEndpoint''}.
         ValidatePublicHTTPSURL (ue_url_parse E) (ue_lookupHost E h) (''provider extra '' @ key) (get_str (tc_Extra target) key)
           (target_options target) = None))"
proof -
  from run_events [OF assms] obtain target secret where target: "target \<in> set (the_targets E)" "pcn = tc_ProviderConfigName target"
      "cfg = plugin_config_of target secret" and ok: "endpoint_accepted E h target"
    by (auto simp: proper_event_def)
  from target(1) obtain targets where "ue_decodeTargets E (ue_getenv E ''UPLOAD_TARGETS_JSON'') = Inr targets" "target \<in> set targets"
    by (cases "ue_decodeTargets E (ue_getenv E ''UPLOAD_TARGETS_JSON'')") (auto simp: the_targets_def)
  moreover have "ValidatePublicHTTPSURL up lookup field '''' options = None" for up lookup field options
    by (simp add: ValidatePublicHTTPSURL_def)
  ultimately show ?thesis
    using target ok
    by (intro exI [of _ targets] exI [of _ target] exI [of _ secret])
      (auto simp: endpoint_accepted_def validateProviderEndpoint_def validateProviderExtraEndpoints_def extra_endpoint_keys_def
        first_error_None_iff simp del: equalFold.simps split: if_splits)
qed

theorem uploader_endpoints_guarded_witness:
  "ValidatePublicHTTPSURL ex_url_parse ex_lookup ''provider endpoint'' ''u'' (target_options ex_target) = None"
proof -
  obtain img op k r fs where run: "run_state (run (ex_uploader [])) ex_start = (Inr [(img, op)], ex_final)"
      and ev: "us_events ex_final = [] @ InitEvent ''pc'' (plugin_config_of ex_target Map.empty) # [UploadEvent ''pc'' k, RegisterEvent ''pc'' r fs]"
    using ex_upload_run [of "[]"] by auto
  from uploader_endpoints_guarded [OF run ev] show ?thesis
    by (auto simp: ex_start_def ex_uploader_def ex_target_def)
qed

text \<open>C26: A retried upload repeats nothing: after a run without an error, a second process that finds the files
  of the first calls no provider at all, keeps the sessions, and if it can write its operation
  record again, reports exactly the same images and operations.\<close>

theorem upload_retry_idempotent:
  assumes "run_state (uploadAll E) s = (Inr results, s')"
    and "we_decodeSessions (ue_ws E) (we_encodeSessions (ue_ws E) (us_sessions s') @ newline) = Inr (1, us_sessions s')"
    and "we_readError (ue_ws E) sessionsName = None"
    and "us_files t = us_files s'" and "run_state (uploadAll E) t = (r, t')"
  shows "us_events t' = us_events t \<and> (\<forall>again. r = Inr again \<longrightarrow> again = results \<and> us_sessions t' = us_sessions s')"
proof -
  let ?W = "ue_ws E"
  from assms(1) obtain a targets sessions where
      inputs: "readArtifact E (us_files s) = Inr a" "verifyArtifactFile E a = None"
        "readTargets E (ue_getenv E ''UPLOAD_TARGETS_JSON'') = Inr targets"
        "readUploadSessions ?W (us_files s) sessionsName = Inr sessions"
      and loop: "run_state (upload_targets E a targets [] []) (s\<lparr>us_sessions := sessions\<rparr>) = ((results, []), s')"
    by (auto simp: uploadAll_def checked_def case_prod_beta split: sum.splits read_error.splits option.splits if_splits)
      (metis (no_types, lifting) prod.exhaust_sel)
  have start: "synced ?W (s\<lparr>us_sessions := sessions\<rparr>)" using inputs(4) by (simp add: synced_def)
  have saved: "synced ?W s'" and fin: "list_all2 (\<lambda>target x. finished target a x (us_sessions s')) targets results"
    using wp_run [OF upload_targets_result loop] start by auto
  have "readUploadSessions ?W (us_files s') sessionsName = Inr (us_sessions s')"
    using saved assms(2,3)
    by (auto simp: synced_def readUploadSessions_def readUploadSessionFile_def readFile_def)
  moreover have "us_files s' resultFileName = us_files s resultFileName"
    using keeps_runD [OF keeps_result_targets _ loop, of "us_files s resultFileName"] by (simp add: build_result_def)
  then have "readArtifact E (us_files s') = Inr a" using inputs(1) by (simp add: readArtifact_def readFile_def)
  ultimately have again: "run_state (uploadAll E) t =
      (case run_state (upload_targets E a targets [] []) (t\<lparr>us_sessions := us_sessions s'\<rparr>) of
         ((rs, fs), t') \<Rightarrow> (if fs \<noteq> [] then Inl (failures_error fs) else Inr rs, t'))"
    using inputs(2,3) assms(4) by (simp add: uploadAll_def checked_def case_prod_beta)
  obtain rs fs t1 where second: "run_state (upload_targets E a targets [] []) (t\<lparr>us_sessions := us_sessions s'\<rparr>) = ((rs, fs), t1)"
    by (metis prod.exhaust)
  have "list_all2 (\<lambda>target x. finished target a x (us_sessions (t\<lparr>us_sessions := us_sessions s'\<rparr>))) targets results"
    using fin by simp
  from wp_run [OF finished_targets_again [OF this] second] again second assms(5)
  show ?thesis by (auto split: if_splits)
qed

theorem upload_retry_idempotent_witness:
  "us_events (snd (run_state (uploadAll (ex_uploader (us_sessions ex_final))) ex_final)) = us_events ex_final"
proof -
  let ?E = "ex_uploader (us_sessions ex_final)"
  obtain img op where "run_state (run ?E) ex_start = (Inr [(img, op)], ex_final)"
      and phases: "map ses_Phase (us_sessions ex_final) = [''registered'']"
    using ex_upload_run [of "us_sessions ex_final"] by auto
  then have run: "run_state (uploadAll ?E) ex_start = (Inr [(img, op)], ex_final)" by (simp add: run_def ex_inputs)
  have "we_encodeSessions (ue_ws ?E) (us_sessions ex_final) = map hd (map ses_Phase (us_sessions ex_final))"
    by (simp add: ex_proj)
  then have "we_encodeSessions (ue_ws ?E) (us_sessions ex_final) = ''r''" unfolding phases by simp
  then have dec: "we_decodeSessions (ue_ws ?E) (we_encodeSessions (ue_ws ?E) (us_sessions ex_final) @ newline) = Inr (1, us_sessions ex_final)"
    "we_readError (ue_ws ?E) sessionsName = None"
    by (simp_all add: ex_proj)
  obtain r t where "run_state (uploadAll ?E) ex_final = (r, t)" by fastforce
  from upload_retry_idempotent [OF run dec refl this] this show ?thesis by simp
qed

end
