(* ===== verification/Git_Source.thy ===== *)
theory Git_Source
  imports Netguard Path_Clean Api_Types
begin

text \<open>
  Provisioners whose content is in a Git repository (\<open>pkg/provisioner/source/git.go\<close>), expanded by
  the builder before it runs them. The file system, go-git and the proxy configuration are the
  fields of a record of parameters; \<open>filepath.Rel\<close> is modelled on path components.
\<close>

section \<open>Relative paths\<close>

fun strip_common :: "string list \<Rightarrow> string list \<Rightarrow> string list \<times> string list" where
  "strip_common (b # bs) (t # ts) = (if b = t then strip_common bs ts else (b # bs, t # ts))"
| "strip_common bs ts = (bs, ts)"

text \<open>\<open>filepath.Rel\<close> of resolved paths, \<open>None\<close> for an error: one of them is relative and the other is not, or the way
  from the base starts with a step up from it that has no name.\<close>

definition path_Rel :: "string \<Rightarrow> string \<Rightarrow> string option" where
  "path_Rel base targ =
     (let (bs, ts) = strip_common (clean_components base) (clean_components targ);
          comps = replicate (length bs) ''..'' @ ts in
      if is_rooted base \<noteq> is_rooted targ \<or> bs \<noteq> [] \<and> hd bs = ''..'' then None
      else Some (if comps = [] then ''.'' else joinWith ''/'' comps))"

lemma strip_common_fst_Nil: "strip_common bs ts = ([], rest) \<Longrightarrow> ts = bs @ rest"
  by (induction bs ts rule: strip_common.induct) (auto split: if_splits)

text \<open>A relative path that does not climb leads to a place below the base.\<close>

lemma path_Rel_contained:
  assumes "path_Rel base targ = Some rel" and "\<not> climbs rel"
  shows "is_rooted base = is_rooted targ" and "prefix (clean_components base) (clean_components targ)"
proof -
  obtain bs ts where strip: "strip_common (clean_components base) (clean_components targ) = (bs, ts)" by fastforce
  then have rel: "is_rooted base = is_rooted targ"
      "rel = (if replicate (length bs) ''..'' @ ts = [] then ''.'' else joinWith ''/'' (replicate (length bs) ''..'' @ ts))"
    using assms(1) by (auto simp: path_Rel_def Let_def split: if_splits)
  have "bs = []"
  proof (rule ccontr)
    assume "bs \<noteq> []"
    then obtain b bs' where "bs = b # bs'" by (cases bs) auto
    with rel have "climbs rel" by (auto simp: climbs_def joinWith_Cons hasPrefix_def)
    with assms(2) show False by simp
  qed
  then show "is_rooted base = is_rooted targ" "prefix (clean_components base) (clean_components targ)"
    using rel(1) strip by (auto dest: strip_common_fst_Nil)
qed

section \<open>Parameters\<close>

datatype git_auth_method = TokenAuth string | BasicAuth string string

record GitParams =
  gp_url_parse :: url_parser
  gp_lookupHost :: resolver
  gp_isInitContainer :: "string \<Rightarrow> bool"
  gp_removeAll :: "string \<Rightarrow> go_error option"
  gp_mkdirAll :: "string \<Rightarrow> go_error option"
  gp_proxy :: "string \<Rightarrow> go_error + string"
  gp_clone :: "string \<Rightarrow> string \<Rightarrow> git_auth_method option \<Rightarrow> string \<Rightarrow> go_error option"
  gp_checkout :: "string \<Rightarrow> string \<Rightarrow> go_error option"
  gp_evalSymlinks :: "string \<Rightarrow> go_error + string"
  gp_isDir :: "string \<Rightarrow> go_error + bool"
  gp_walk :: "string \<Rightarrow> go_error + string list"  \<comment> \<open>the regular files below a directory\<close>
  gp_openRoot :: "string \<Rightarrow> go_error option"
  gp_openFile :: "string \<Rightarrow> string \<Rightarrow> go_error + bool \<times> string"  \<comment> \<open>root, relative path: regular?, content\<close>
  gp_readFile :: "string \<Rightarrow> string option"

abbreviation (input) maxGitProvisionerFileBytes :: nat where "maxGitProvisionerFileBytes \<equiv> 1048576"
abbreviation (input) maxGitProvisionerTotalBytes :: nat where "maxGitProvisionerTotalBytes \<equiv> 10485760"

section \<open>Credentials and checks\<close>

definition readSecretFile :: "GitParams \<Rightarrow> string \<Rightarrow> string" where
  "readSecretFile G path =
     (if trimSpace path = '''' then ''''
      else case gp_readFile G path of None \<Rightarrow> '''' | Some bytes \<Rightarrow> trimSpace bytes)"

definition firstNonEmpty :: "string list \<Rightarrow> string" where
  "firstNonEmpty values = (case find (\<lambda>v. trimSpace v \<noteq> '''') values of None \<Rightarrow> '''' | Some v \<Rightarrow> trimSpace v)"

definition gitAuth :: "GitParams \<Rightarrow> GitProvisionerSourceSpec \<Rightarrow> git_auth_method option" where
  "gitAuth G git =
     (case git_auth git of None \<Rightarrow> None
      | Some a \<Rightarrow>
          (let token = firstNonEmpty [ga_runtimeToken a, readSecretFile G (ga_tokenPath a)];
               username = firstNonEmpty [ga_runtimeUsername a, readSecretFile G (ga_usernamePath a)];
               password = firstNonEmpty [ga_runtimePassword a, readSecretFile G (ga_passwordPath a)] in
           if token \<noteq> '''' then Some (TokenAuth token)
           else if username \<noteq> '''' \<or> password \<noteq> '''' then Some (BasicAuth username password)
           else None))"

definition git_field :: "nat \<Rightarrow> string" where
  "git_field step = ''spec.provisioners['' @ show_nat step @ ''].source.git''"

definition validateGitProvisionerSource :: "GitParams \<Rightarrow> nat \<Rightarrow> GitProvisionerSourceSpec \<Rightarrow> go_error option" where
  "validateGitProvisionerSource G step git =
     (case ValidatePublicHTTPSURL (gp_url_parse G) (gp_lookupHost G) (git_field step @ ''.url'') (git_url git)
             \<lparr>o_allowUnresolved = False, o_allowedPrivateCIDRs = [], o_allowedDNSNames = []\<rparr> of
        Some err \<Rightarrow> Some err
      | None \<Rightarrow>
          if trimSpace (git_ref git) = '''' then Some (errorf (git_field step @ ''.ref is required''))
          else if trimSpace (git_path git) = '''' then Some (errorf (git_field step @ ''.path is required''))
          else None)"

section \<open>Files of a checkout\<close>

definition safeRepoPath :: "GitParams \<Rightarrow> string \<Rightarrow> string \<Rightarrow> go_error + string" where
  "safeRepoPath G repoDir rel =
     (let clean = path_Clean (trimSpace rel) in
      if clean = ''.'' \<or> hasPrefix clean ''..'' \<or> is_rooted clean then
        Inl (errorf ''git provisioner path must be relative and stay within the repository'')
      else
        (let full0 = path_Join [repoDir, clean] in
         case gp_evalSymlinks G repoDir of Inl err \<Rightarrow> Inl (wrapf ''resolve git repository: '' err)
         | Inr repo \<Rightarrow>
             (case gp_evalSymlinks G full0 of Inl err \<Rightarrow> Inl (wrapf ''resolve git provisioner path: '' err)
              | Inr full \<Rightarrow>
                  (case path_Rel repo full of
                     None \<Rightarrow> Inl (errorf ''resolve git provisioner path: Rel: cannot make path relative'')
                   | Some relToRepo \<Rightarrow>
                       if relToRepo = ''..'' \<or> hasPrefix relToRepo ''../'' then
                         Inl (errorf ''git provisioner path must stay within the repository'')
                       else Inr full))))"

definition readGitProvisionerFile :: "GitParams \<Rightarrow> string \<Rightarrow> string \<Rightarrow> go_error + string" where
  "readGitProvisionerFile G repoDir path =
     (case gp_evalSymlinks G repoDir of Inl err \<Rightarrow> Inl (wrapf ''resolve git repository: '' err)
      | Inr resolvedRepo \<Rightarrow>
          (case path_Rel resolvedRepo path of
             None \<Rightarrow> Inl (errorf ''resolve git provisioner file: Rel: cannot make path relative'')
           | Some rel \<Rightarrow>
               (case gp_openRoot G resolvedRepo of Some err \<Rightarrow> Inl (wrapf ''open git repository: '' err)
                | None \<Rightarrow>
                    (case gp_openFile G resolvedRepo rel of
                       Inl err \<Rightarrow> Inl (wrapf ''open git provisioner file: '' err)
                     | Inr (regular, content) \<Rightarrow>
                         if \<not> regular then Inl (errorf ''git provisioner source must be a regular file'')
                         else if length (take (maxGitProvisionerFileBytes + 1) content) > maxGitProvisionerFileBytes then
                           Inl (errorf (''git provisioner file exceeds '' @ show_nat maxGitProvisionerFileBytes @ '' bytes''))
                         else Inr (take (maxGitProvisionerFileBytes + 1) content)))))"

definition provisionerSourceFiles :: "GitParams \<Rightarrow> string \<Rightarrow> go_error + string list" where
  "provisionerSourceFiles G path =
     (case gp_isDir G path of Inl err \<Rightarrow> Inl (wrapf (''stat git provisioner path '' @ quoted path @ '': '') err)
      | Inr isDir \<Rightarrow>
          if \<not> isDir then Inr [path]
          else case gp_walk G path of
            Inl err \<Rightarrow> Inl (wrapf (''walk git provisioner directory '' @ quoted path @ '': '') err)
          | Inr files \<Rightarrow>
              if files = [] then
                Inl (errorf (''git provisioner directory '' @ quoted path @ '' does not contain regular files''))
              else Inr files)"

text \<open>The loop over the files; \<open>bytes\<close> is the number of bytes read so far.\<close>

fun git_steps :: "GitParams \<Rightarrow> string \<Rightarrow> ProvisionerSpec \<Rightarrow> string list \<Rightarrow> nat \<Rightarrow> ProvisionerSpec list \<Rightarrow>
    go_error + ProvisionerSpec list" where
  "git_steps G repoDir spec [] bytes steps = Inr steps"
| "git_steps G repoDir spec (file # files) bytes steps =
     (case readGitProvisionerFile G repoDir file of Inl err \<Rightarrow> Inl err
      | Inr content \<Rightarrow>
          (let bytes' = bytes + length content in
           if bytes' > maxGitProvisionerTotalBytes then
             Inl (errorf (''git provisioner source exceeds '' @ show_nat maxGitProvisionerTotalBytes @ '' bytes total''))
           else git_steps G repoDir spec files bytes'
             (steps @ [spec\<lparr>prov_source := None, prov_inline := content\<rparr>])))"

definition show_step3 :: "nat \<Rightarrow> string" where
  "show_step3 step = (let s = show_nat step in replicate (3 - length s) CHR ''0'' @ s)"

definition repo_dir :: "string \<Rightarrow> nat \<Rightarrow> string" where
  "repo_dir workspaceDir step = path_Join [workspaceDir, ''provisioner-sources'', show_step3 step]"

definition checkout_git :: "GitParams \<Rightarrow> string \<Rightarrow> GitProvisionerSourceSpec \<Rightarrow> go_error option" where
  "checkout_git G repoDir git =
     (case gp_removeAll G repoDir of Some err \<Rightarrow> Some (wrapf ''clean git provisioner workspace: '' err)
      | None \<Rightarrow>
          (case gp_mkdirAll G repoDir of Some err \<Rightarrow> Some (wrapf ''create git provisioner workspace: '' err)
           | None \<Rightarrow>
               (case gp_proxy G (git_url git) of
                  Inl err \<Rightarrow> Some (wrapf ''resolve proxy for provisioner git source: '' err)
                | Inr proxy \<Rightarrow>
                    (case gp_clone G repoDir (git_url git) (gitAuth G git) proxy of
                       Some err \<Rightarrow> Some (wrapf (''clone provisioner git source '' @ quoted (git_url git) @ '': '') err)
                     | None \<Rightarrow>
                         map_option (wrapf (''checkout provisioner git ref '' @ quoted (git_ref git) @ '': ''))
                           (gp_checkout G repoDir (git_ref git))))))"

definition expandGitProvisioner ::
    "GitParams \<Rightarrow> string \<Rightarrow> nat \<Rightarrow> ProvisionerSpec \<Rightarrow> GitProvisionerSourceSpec \<Rightarrow> go_error + ProvisionerSpec list" where
  "expandGitProvisioner G workspaceDir step spec git =
     (case validateGitProvisionerSource G step git of Some err \<Rightarrow> Inl err
      | None \<Rightarrow>
          (let repoDir = repo_dir workspaceDir step in
           case checkout_git G repoDir git of Some err \<Rightarrow> Inl err
           | None \<Rightarrow>
               (case safeRepoPath G repoDir (git_path git) of Inl err \<Rightarrow> Inl err
                | Inr sourcePath \<Rightarrow>
                    (case provisionerSourceFiles G sourcePath of Inl err \<Rightarrow> Inl err
                     | Inr files \<Rightarrow>
                         if gp_isInitContainer G (prov_type spec) \<and> length files > 1 then
                           Inl (errorf (''git provisioner source for init-container type '' @ quoted (prov_type spec) @
                             '' expands to '' @ show_nat (length files) @
                             '' files; use one provisioner entry per init-container step''))
                         else git_steps G repoDir spec files 0 []))))"

definition git_of :: "ProvisionerSpec \<Rightarrow> GitProvisionerSourceSpec option" where
  "git_of spec = Option.bind (prov_source spec) psrc_git"

fun expand_loop ::
    "GitParams \<Rightarrow> string \<Rightarrow> nat \<Rightarrow> ProvisionerSpec list \<Rightarrow> ProvisionerSpec list \<Rightarrow> go_error + ProvisionerSpec list" where
  "expand_loop G workspaceDir i [] expanded = Inr expanded"
| "expand_loop G workspaceDir i (spec # specs) expanded =
     (case git_of spec of None \<Rightarrow> expand_loop G workspaceDir (Suc i) specs (expanded @ [spec])
      | Some git \<Rightarrow>
          (case expandGitProvisioner G workspaceDir i spec git of Inl err \<Rightarrow> Inl err
           | Inr steps \<Rightarrow> expand_loop G workspaceDir (Suc i) specs (expanded @ steps)))"

definition ExpandProvisioners :: "GitParams \<Rightarrow> string \<Rightarrow> ProvisionerSpec list \<Rightarrow> go_error + ProvisionerSpec list" where
  "ExpandProvisioners G workspaceDir specs = expand_loop G workspaceDir 0 specs []"

section \<open>Lemmas\<close>

definition expanded_step :: "ProvisionerSpec \<Rightarrow> ProvisionerSpec \<Rightarrow> bool" where
  "expanded_step spec step \<longleftrightarrow>
     (\<exists>content. step = spec\<lparr>prov_source := None, prov_inline := content\<rparr> \<and> length content \<le> maxGitProvisionerFileBytes)"

text \<open>A step made from one file: the provisioner with what was read from this file.\<close>

definition step_of_file :: "GitParams \<Rightarrow> string \<Rightarrow> ProvisionerSpec \<Rightarrow> string \<Rightarrow> ProvisionerSpec \<Rightarrow> bool" where
  "step_of_file G repoDir spec path step \<longleftrightarrow>
     (\<exists>content. readGitProvisionerFile G repoDir path = Inr content \<and> length content \<le> maxGitProvisionerFileBytes
        \<and> step = spec\<lparr>prov_source := None, prov_inline := content\<rparr>)"

lemma step_of_file_expanded: "step_of_file G repoDir spec path step \<Longrightarrow> expanded_step spec step"
  by (auto simp: step_of_file_def expanded_step_def)

definition inline_bytes :: "ProvisionerSpec list \<Rightarrow> nat" where
  "inline_bytes steps = sum_list (map (\<lambda>p. length (prov_inline p)) steps)"

lemma readGitProvisionerFile_bound:
  "readGitProvisionerFile G repoDir file = Inr content \<Longrightarrow> length content \<le> maxGitProvisionerFileBytes"
  by (auto simp: readGitProvisionerFile_def split: sum.splits option.splits if_splits)

lemma git_steps_result:
  "git_steps G repoDir spec files b steps = Inr out \<Longrightarrow>
   \<exists>new. out = steps @ new \<and> list_all2 (step_of_file G repoDir spec) files new
     \<and> (b \<le> maxGitProvisionerTotalBytes \<longrightarrow> b + inline_bytes new \<le> maxGitProvisionerTotalBytes)"
proof (induction files arbitrary: b steps)
  case Nil
  then show ?case by (simp add: inline_bytes_def)
next
  case (Cons f fs)
  then obtain content where content: "readGitProvisionerFile G repoDir f = Inr content"
      "b + length content \<le> maxGitProvisionerTotalBytes"
      "git_steps G repoDir spec fs (b + length content)
         (steps @ [spec\<lparr>prov_source := None, prov_inline := content\<rparr>]) = Inr out"
    by (auto simp: Let_def split: sum.splits if_splits)
  let ?step = "spec\<lparr>prov_source := None, prov_inline := content\<rparr>"
  obtain new where "out = (steps @ [?step]) @ new" "list_all2 (step_of_file G repoDir spec) fs new"
      "b + length content + inline_bytes new \<le> maxGitProvisionerTotalBytes"
    using Cons.IH [OF content(3)] content(2) by auto
  moreover have "step_of_file G repoDir spec f ?step"
    using readGitProvisionerFile_bound [OF content(1)] content(1) by (auto simp: step_of_file_def)
  ultimately show ?case
    by (intro exI [of _ "?step # new"]) (auto simp: inline_bytes_def)
qed

lemma provisionerSourceFiles_nonempty: "provisionerSourceFiles G path = Inr files \<Longrightarrow> files \<noteq> []"
  by (auto simp: provisionerSourceFiles_def split: sum.splits if_splits)

lemma expandGitProvisioner_result:
  assumes "expandGitProvisioner G ws i spec git = Inr steps"
  shows "list_all (expanded_step spec) steps" and "steps \<noteq> []"
    and "gp_isInitContainer G (prov_type spec) \<Longrightarrow> length steps = 1"
    and "inline_bytes steps \<le> maxGitProvisionerTotalBytes"
    and "validateGitProvisionerSource G i git = None"
    and "\<exists>path files. safeRepoPath G (repo_dir ws i) (git_path git) = Inr path \<and> provisionerSourceFiles G path = Inr files
      \<and> list_all2 (step_of_file G (repo_dir ws i) spec) files steps"
proof -
  obtain path files where f: "validateGitProvisionerSource G i git = None"
      "safeRepoPath G (repo_dir ws i) (git_path git) = Inr path"
      "provisionerSourceFiles G path = Inr files"
      "\<not> (gp_isInitContainer G (prov_type spec) \<and> length files > 1)"
      "git_steps G (repo_dir ws i) spec files 0 [] = Inr steps"
    using assms
    by (auto simp: expandGitProvisioner_def Let_def split: option.splits sum.splits if_splits)
  from git_steps_result [OF f(5)] have made: "list_all2 (step_of_file G (repo_dir ws i) spec) files steps"
    "inline_bytes steps \<le> maxGitProvisionerTotalBytes" by auto
  have "list_all (expanded_step spec) steps"
    using made(1) by (auto simp: list_all2_conv_all_nth list_all_length intro: step_of_file_expanded)
  with made list_all2_lengthD [OF made(1)] provisionerSourceFiles_nonempty [OF f(3)] f(4)
  show "list_all (expanded_step spec) steps" "steps \<noteq> []"
    "gp_isInitContainer G (prov_type spec) \<Longrightarrow> length steps = 1"
    "inline_bytes steps \<le> maxGitProvisionerTotalBytes"
    by (cases files; auto)+
  show "validateGitProvisionerSource G i git = None"
    "\<exists>path files. safeRepoPath G (repo_dir ws i) (git_path git) = Inr path \<and> provisionerSourceFiles G path = Inr files
      \<and> list_all2 (step_of_file G (repo_dir ws i) spec) files steps"
    using f(1-3) made(1) by blast+
qed

lemma expanded_step_simps:
  "expanded_step spec step \<Longrightarrow> prov_type step = prov_type spec"
  "expanded_step spec step \<Longrightarrow> git_of step = None"
  by (auto simp: expanded_step_def git_of_def)

lemma expand_loop_types:
  "expand_loop G ws i specs acc = Inr out \<Longrightarrow>
   \<exists>new. out = acc @ new \<and> list_all (\<lambda>p. git_of p = None) new
     \<and> filter (gp_isInitContainer G) (map prov_type new) = filter (gp_isInitContainer G) (map prov_type specs)
     \<and> length specs \<le> length new"
proof (induction specs arbitrary: i acc)
  case Nil
  then show ?case by simp
next
  case (Cons spec specs)
  show ?case
  proof (cases "git_of spec")
    case None
    with Cons.prems have "expand_loop G ws (Suc i) specs (acc @ [spec]) = Inr out" by simp
    from Cons.IH [OF this] obtain new where "out = (acc @ [spec]) @ new" "list_all (\<lambda>p. git_of p = None) new"
      "filter (gp_isInitContainer G) (map prov_type new) = filter (gp_isInitContainer G) (map prov_type specs)"
      "length specs \<le> length new" by blast
    with None show ?thesis by (intro exI [of _ "spec # new"]) auto
  next
    case (Some git)
    with Cons.prems obtain steps where steps: "expandGitProvisioner G ws i spec git = Inr steps"
        "expand_loop G ws (Suc i) specs (acc @ steps) = Inr out"
      by (auto split: sum.splits)
    from Cons.IH [OF steps(2)] obtain new where new: "out = (acc @ steps) @ new" "list_all (\<lambda>p. git_of p = None) new"
      "filter (gp_isInitContainer G) (map prov_type new) = filter (gp_isInitContainer G) (map prov_type specs)"
      "length specs \<le> length new" by blast
    note res = expandGitProvisioner_result [OF steps(1)]
    have types: "map prov_type steps = replicate (length steps) (prov_type spec)"
      using res(1) expanded_step_simps(1) by (intro replicate_eqI) (auto simp: list_all_iff)
    have "filter (gp_isInitContainer G) (map prov_type steps) = filter (gp_isInitContainer G) [prov_type spec]"
      using res(3) by (cases "gp_isInitContainer G (prov_type spec)") (simp_all add: types)
    moreover have "list_all (\<lambda>p. git_of p = None) steps"
      using res(1) expanded_step_simps(2) by (auto simp: list_all_iff)
    moreover have "length steps \<ge> 1" using res(2) by (cases steps) auto
    ultimately show ?thesis
      using new by (intro exI [of _ "steps @ new"]) auto
  qed
qed

section \<open>Properties\<close>

text \<open>C20: The file or directory whose content a Git provisioner runs lies inside the checkout: when
  \<open>safeRepoPath\<close> returns a path, the configured path is relative and does not climb out of the
  repository read component by component, and the returned path, with all symbolic links resolved,
  is below the resolved repository, component for component, whatever the links in the repository
  point to.\<close>

theorem git_path_inside_checkout:
  assumes "safeRepoPath G repoDir rel = Inr full"
  shows "\<exists>repo. gp_evalSymlinks G repoDir = Inr repo
    \<and> prefix (clean_components repo) (clean_components full) \<and> is_rooted repo = is_rooted full
    \<and> \<not> is_rooted (trimSpace rel) \<and> \<not> escapes (splitOn (trimSpace rel) ''/'')"
proof -
  let ?clean = "path_Clean (trimSpace rel)"
  obtain repo r where f: "\<not> hasPrefix ?clean ''..''" "\<not> is_rooted ?clean" "gp_evalSymlinks G repoDir = Inr repo"
      "path_Rel repo full = Some r" "\<not> climbs r"
    using assms by (auto simp: safeRepoPath_def Let_def climbs_def split: if_splits sum.splits option.splits)
  have "\<not> climbs ?clean"
    using f(1) prefix_order.trans [of "''..''" "''../''" ?clean] by (auto simp: climbs_def hasPrefix_iff)
  with f(2) have "\<not> is_rooted (trimSpace rel) \<and> \<not> escapes (splitOn (trimSpace rel) ''/'')"
    by (simp flip: path_Clean_contained)
  with f(3) path_Rel_contained [OF f(4,5)] show ?thesis by blast
qed

text \<open>The file system of the witnesses: \<open>run\<close> is a symbolic link to \<open>scripts/site.yml\<close>.\<close>

definition ex_fs :: GitParams where
  "ex_fs =
     \<lparr>gp_url_parse = (\<lambda>raw. Inr \<lparr>u_scheme = ''https'', u_user = False, u_hostname = ''git.corp.io''\<rparr>),
      gp_lookupHost = (\<lambda>host. Inr [''93.184.216.34'']), gp_isInitContainer = (\<lambda>ty. ty = ''ansible''),
      gp_removeAll = (\<lambda>d. None), gp_mkdirAll = (\<lambda>d. None), gp_proxy = (\<lambda>u. Inr ''''),
      gp_clone = (\<lambda>d u a p. None), gp_checkout = (\<lambda>d r. None),
      gp_evalSymlinks = (\<lambda>p. Inr (if hasSuffix p ''/run'' then trimSuffix p ''run'' @ ''scripts/site.yml'' else p)),
      gp_isDir = (\<lambda>p. Inr False), gp_walk = (\<lambda>p. Inr []), gp_openRoot = (\<lambda>p. None),
      gp_openFile = (\<lambda>p r. Inr (True, ''- hosts: all'')), gp_readFile = (\<lambda>p. None)\<rparr>"

definition ex_repo :: GitProvisionerSourceSpec where
  "ex_repo = \<lparr>git_url = ''https://git.corp.io/a.git'', git_ref = ''v1'', git_path = ''ansible/../run'', git_auth = None\<rparr>"

definition ex_spec :: ProvisionerSpec where
  "ex_spec =
     \<lparr>prov_type = ''ansible'', prov_image = '''', prov_inline = '''', prov_source = Some \<lparr>psrc_git = Some ex_repo\<rparr>,
      prov_playbook = '''', prov_args = [], prov_env = [], prov_extraVars = Map.empty, prov_windowsConfig = None\<rparr>"

lemma ex_safe_path:
  "safeRepoPath ex_fs ''/workspace/provisioner-sources/001'' ''ansible/../run'' =
     Inr ''/workspace/provisioner-sources/001/scripts/site.yml''"
  by code_simp

lemma ex_expansion: "expandGitProvisioner ex_fs ''/workspace'' 1 ex_spec ex_repo =
    Inr [ex_spec\<lparr>prov_source := None, prov_inline := ''- hosts: all''\<rparr>]"
proof -
  let ?dir = "''/workspace/provisioner-sources/001''"
  have dir: "repo_dir ''/workspace'' 1 = ?dir" by code_simp
  have checked: "validateGitProvisionerSource ex_fs 1 ex_repo = None" by code_simp
  have path: "safeRepoPath ex_fs ?dir (git_path ex_repo) = Inr ''/workspace/provisioner-sources/001/scripts/site.yml''"
    using ex_safe_path by (simp add: ex_repo_def)
  have rel: "path_Rel ?dir ''/workspace/provisioner-sources/001/scripts/site.yml'' = Some ''scripts/site.yml''"
    by code_simp
  have read: "readGitProvisionerFile ex_fs ?dir ''/workspace/provisioner-sources/001/scripts/site.yml'' = Inr ''- hosts: all''"
    unfolding readGitProvisionerFile_def using rel by (simp add: ex_fs_def hasSuffix_def)
  have out: "checkout_git ex_fs ?dir ex_repo = None"
    by (simp add: checkout_git_def ex_fs_def)
  have files: "provisionerSourceFiles ex_fs f = Inr [f]" for f
    by (simp add: provisionerSourceFiles_def ex_fs_def)
  show ?thesis
    by (simp add: expandGitProvisioner_def dir checked out path files read Let_def del: One_nat_def)
qed

theorem git_path_inside_checkout_witness:
  "prefix (clean_components ''/workspace/provisioner-sources/001'')
     (clean_components ''/workspace/provisioner-sources/001/scripts/site.yml'')"
  using git_path_inside_checkout [OF ex_safe_path] by (auto simp: ex_fs_def hasSuffix_def)

text \<open>C21: Expanding a Git source makes one step of each file, in order: the path of the source leads to files of the
  checkout, and the j-th step is the provisioner with no source left and, inline, exactly what was read from the j-th
  file, at most one MiB; together they have at most ten MiB. There is at least one step, and exactly one for
  a type that runs as an init container.\<close>

theorem git_expansion_bounded:
  assumes "expandGitProvisioner G workspaceDir i spec git = Inr steps"
  shows "\<exists>path files. safeRepoPath G (repo_dir workspaceDir i) (git_path git) = Inr path
    \<and> provisionerSourceFiles G path = Inr files
    \<and> length steps = length files
    \<and> (\<forall>j < length files. \<exists>content.
         readGitProvisionerFile G (repo_dir workspaceDir i) (files ! j) = Inr content
         \<and> length content \<le> maxGitProvisionerFileBytes
         \<and> steps ! j = spec\<lparr>prov_source := None, prov_inline := content\<rparr>)
    \<and> steps \<noteq> [] \<and> inline_bytes steps \<le> maxGitProvisionerTotalBytes
    \<and> (gp_isInitContainer G (prov_type spec) \<longrightarrow> length steps = 1)"
proof -
  obtain path files where f: "safeRepoPath G (repo_dir workspaceDir i) (git_path git) = Inr path"
      "provisionerSourceFiles G path = Inr files" "list_all2 (step_of_file G (repo_dir workspaceDir i) spec) files steps"
    using expandGitProvisioner_result(6) [OF assms] by blast
  from f(3) have "length steps = length files" "\<forall>j < length files. step_of_file G (repo_dir workspaceDir i) spec (files ! j) (steps ! j)"
    by (simp_all add: list_all2_conv_all_nth)
  with f(1,2) expandGitProvisioner_result(2-4) [OF assms] show ?thesis
    unfolding step_of_file_def by blast
qed

theorem git_expansion_bounded_witness:
  "\<exists>file content. readGitProvisionerFile ex_fs (repo_dir ''/workspace'' 1) file = Inr content
     \<and> length content \<le> maxGitProvisionerFileBytes
     \<and> expandGitProvisioner ex_fs ''/workspace'' 1 ex_spec ex_repo = Inr [ex_spec\<lparr>prov_source := None, prov_inline := content\<rparr>]"
proof -
  let ?step = "ex_spec\<lparr>prov_source := None, prov_inline := ''- hosts: all''\<rparr>"
  obtain files where len: "length [?step] = length files"
    and each: "\<forall>j < length files. \<exists>content. readGitProvisionerFile ex_fs (repo_dir ''/workspace'' 1) (files ! j) = Inr content
       \<and> length content \<le> maxGitProvisionerFileBytes
       \<and> [?step] ! j = ex_spec\<lparr>prov_source := None, prov_inline := content\<rparr>"
    using git_expansion_bounded [OF ex_expansion] by blast
  from len have "0 < length files" by (simp only: list.size)
  with each obtain content where "readGitProvisionerFile ex_fs (repo_dir ''/workspace'' 1) (files ! 0) = Inr content"
      "length content \<le> maxGitProvisionerFileBytes" "?step = ex_spec\<lparr>prov_source := None, prov_inline := content\<rparr>"
    by fastforce
  with ex_expansion show ?thesis by metis
qed

end
