(* ===== verification/Provisioning.thy ===== *)
theory Provisioning
  imports Git_Source Build_Pod
begin

text \<open>
  The provisioner runner of the builder (\<open>pkg/builder/provisioning.go\<close>) and its contract with the
  restartable init containers of the build Pod: the builder writes
  \<open>provisioners/step-N/config.json\<close> and waits for \<open>provisioners/step-N/status.json\<close>.

  The workspace is the state: the two files of every step directory and the result file. \<open>ws_waits\<close> belongs to
  the proofs alone, no operation looks at it: the directories the runner has waited for, each with the configuration
  that stood in it. What the
  containers write while the builder waits for a tick of its ticker, and what file operations and
  in-process provisioners answer, are parameters; the context is done after \<open>ws_polls\<close> more ticks.
  Measured durations are left out.
\<close>

section \<open>Files and requests\<close>

record ProvisionerInput =
  pin_VMAddress :: string
  pin_VMUser :: string
  pin_Protocol :: string
  pin_SSHPort :: int
  pin_SSHKeyPath :: string
  pin_VMPasswordPath :: string
  pin_WinRMHTTPS :: bool
  pin_WinRMInsecureSkipVerify :: bool
  pin_OS :: string
  pin_Step :: nat
  pin_UserConfig :: ProvisionerSpec

record ProvisionerOutput =
  pout_Success :: bool
  pout_Message :: string
  pout_Error :: string

text \<open>A status file that is empty or no JSON object counts as not written yet.\<close>

datatype status_file = Unparsable | Output ProvisionerOutput

record ProvisionerStepStatus =
  pst_Step :: nat
  pst_Type :: string
  pst_Success :: bool
  pst_Message :: string
  pst_Artifacts :: "string list"
  pst_Error :: string

record Workspace =
  ws_config :: "nat \<rightharpoonup> ProvisionerInput"
  ws_status :: "nat \<rightharpoonup> status_file"
  ws_result :: "ProvisionerStepStatus list option"
  ws_polls :: nat
  ws_waits :: "(nat \<times> ProvisionerInput option) list"

record GuestAccess =
  gst_Protocol :: string
  gst_Host :: string
  gst_HostPort :: int
  gst_User :: string
  gst_SSHKeyPath :: string
  gst_PasswordPath :: string
  gst_GuestPort :: int
  gst_Timeout :: int
  gst_WinRMHTTPS :: bool
  gst_InsecureSkipVerify :: bool

record ProvisioningRequest =
  prq_provisioners :: "ProvisionerSpec list"
  prq_osFamily :: string
  prq_workspaceDir :: string
  prq_guest :: GuestAccess

record RunResult =
  rres_Message :: string
  rres_Artifacts :: "string list"

record Provisioner =
  rn_inProcess :: bool
  rn_validate :: "ProvisionerSpec \<Rightarrow> go_error option"
  rn_run :: "ProvisionerInput \<Rightarrow> go_error + RunResult option"

record Runtime =
  rt_lookup :: "string \<Rightarrow> Provisioner option"
  rt_initContainer :: "string \<Rightarrow> bool"
  rt_others :: "nat \<Rightarrow> Workspace \<Rightarrow> Workspace"
  rt_readError :: "nat \<Rightarrow> Workspace \<Rightarrow> go_error option"
  rt_writeConfig :: "nat \<Rightarrow> Workspace \<Rightarrow> go_error option"
  rt_writeStatus :: "nat \<Rightarrow> Workspace \<Rightarrow> go_error option"
  rt_writeResult :: "Workspace \<Rightarrow> go_error option"
  rt_redact :: "string \<Rightarrow> string"  \<comment> \<open>the two regular expressions\<close>
  rt_git :: GitParams

section \<open>Error details\<close>

text \<open>\<open>strings.NewReplacer\<close>: at every position the first pair (in argument order) whose old string
  matches is applied; an empty old string matches everywhere, but not twice at one position.\<close>

lemma consumed_less:
  "hasPrefix s old \<Longrightarrow> old \<noteq> [] \<Longrightarrow> length s - length old < length s"
  "hasPrefix s old \<Longrightarrow> old \<noteq> [] \<Longrightarrow> Suc (2 * (length s - length old)) < 2 * length s"
  by (cases s; cases old; auto simp: hasPrefix_def)+

function replace_all :: "(string \<times> string) list \<Rightarrow> bool \<Rightarrow> string \<Rightarrow> string" where
  "replace_all pairs prevMatchEmpty s =
     (case find (\<lambda>(old, new). hasPrefix s old \<and> (old \<noteq> [] \<or> \<not> prevMatchEmpty)) pairs of
        Some (old, new) \<Rightarrow>
          new @ (if old = [] then replace_all pairs True s else replace_all pairs False (drop (length old) s))
      | None \<Rightarrow> (case s of [] \<Rightarrow> [] | c # cs \<Rightarrow> c # replace_all pairs False cs))"
  by pat_completeness auto
termination
  by (relation "measure (\<lambda>(pairs, prev, s). 2 * length s + (if prev then 0 else 1))")
    (auto simp: find_Some_iff intro: consumed_less)

declare replace_all.simps [simp del]

definition sanitizeProvisionerDetail :: "Runtime \<Rightarrow> ProvisioningRequest \<Rightarrow> string \<Rightarrow> string" where
  "sanitizeProvisionerDetail R req detail =
     (if detail = '''' then ''''
      else rt_redact R (replace_all
        [(gst_SSHKeyPath (prq_guest req), ''[ssh-key]''), (gst_PasswordPath (prq_guest req), ''[guest-password]''),
         (prq_workspaceDir req, ''[workspace]'')] False detail))"

section \<open>Step files\<close>

definition requiresGuestAccess :: "string \<Rightarrow> bool" where
  "requiresGuestAccess typeName \<longleftrightarrow> typeName \<noteq> ''cloud-init''"

definition run_request :: "ProvisioningRequest \<Rightarrow> nat \<Rightarrow> ProvisionerSpec \<Rightarrow> ProvisionerInput" where
  "run_request req step spec =
     (let g = prq_guest req in
      \<lparr>pin_VMAddress = gst_Host g, pin_VMUser = gst_User g, pin_Protocol = gst_Protocol g,
       pin_SSHPort = gst_HostPort g, pin_SSHKeyPath = gst_SSHKeyPath g, pin_VMPasswordPath = gst_PasswordPath g,
       pin_WinRMHTTPS = gst_WinRMHTTPS g, pin_WinRMInsecureSkipVerify = gst_InsecureSkipVerify g,
       pin_OS = prq_osFamily req, pin_Step = step, pin_UserConfig = spec\<rparr>)"

definition writeProvisionerInput ::
    "Runtime \<Rightarrow> ProvisioningRequest \<Rightarrow> nat \<Rightarrow> ProvisionerSpec \<Rightarrow> Workspace \<Rightarrow> go_error option \<times> Workspace" where
  "writeProvisionerInput R req step spec ws =
     (if prq_workspaceDir req = '''' then (None, ws)
      else case rt_writeConfig R step ws of Some err \<Rightarrow> (Some err, ws)
      | None \<Rightarrow> (None, ws\<lparr>ws_config := (ws_config ws)(step \<mapsto> run_request req step spec)\<rparr>))"

definition writeProvisionerStepOutput ::
    "Runtime \<Rightarrow> ProvisioningRequest \<Rightarrow> nat \<Rightarrow> ProvisionerStepStatus \<Rightarrow> Workspace \<Rightarrow> go_error option \<times> Workspace" where
  "writeProvisionerStepOutput R req step status ws =
     (if prq_workspaceDir req = '''' then (None, ws)
      else case rt_writeStatus R step ws of Some err \<Rightarrow> (Some err, ws)
      | None \<Rightarrow> (None, ws\<lparr>ws_status := (ws_status ws)(step \<mapsto> Output
          \<lparr>pout_Success = pst_Success status, pout_Message = pst_Message status, pout_Error = pst_Error status\<rparr>)\<rparr>))"

definition writeProvisionerStatuses ::
    "Runtime \<Rightarrow> ProvisioningRequest \<Rightarrow> ProvisionerStepStatus list \<Rightarrow> Workspace \<Rightarrow> go_error option \<times> Workspace" where
  "writeProvisionerStatuses R req statuses ws =
     (if prq_workspaceDir req = '''' then (None, ws)
      else case rt_writeResult R ws of Some err \<Rightarrow> (Some err, ws)
      | None \<Rightarrow> (None, ws\<lparr>ws_result := Some statuses\<rparr>))"

definition readProvisionerOutput ::
    "Runtime \<Rightarrow> nat \<Rightarrow> Workspace \<Rightarrow> go_error + ProvisionerOutput option" where
  "readProvisionerOutput R step ws =
     (case rt_readError R step ws of Some err \<Rightarrow> Inl err
      | None \<Rightarrow> Inr (case ws_status ws step of Some (Output out) \<Rightarrow> Some out | _ \<Rightarrow> None))"

text \<open>The polling loop: \<open>n\<close> ticks until the context is done.\<close>

fun poll_output ::
    "Runtime \<Rightarrow> nat \<Rightarrow> nat \<Rightarrow> Workspace \<Rightarrow> (go_error + ProvisionerOutput) \<times> nat \<times> Workspace" where
  "poll_output R step n ws =
     (case readProvisionerOutput R step ws of
        Inl err \<Rightarrow> (Inl err, n, ws)
      | Inr (Some out) \<Rightarrow> (Inr out, n, ws)
      | Inr None \<Rightarrow>
          (case n of 0 \<Rightarrow> (Inl (errorf ''context canceled''), 0, ws)
           | Suc m \<Rightarrow> poll_output R step m ((rt_others R m ws)\<lparr>ws_waits := ws_waits ws\<rparr>)))"

declare poll_output.simps [simp del]

definition waitForInitContainerOutput ::
    "Runtime \<Rightarrow> ProvisioningRequest \<Rightarrow> nat \<Rightarrow> Workspace \<Rightarrow> (go_error + ProvisionerOutput) \<times> Workspace" where
  "waitForInitContainerOutput R req step ws =
     (if prq_workspaceDir req = '''' then
        (Inl (errorf ''workspace directory is required for init-container provisioner''), ws)
      else case poll_output R step (ws_polls ws) (ws\<lparr>ws_waits := ws_waits ws @ [(step, ws_config ws step)]\<rparr>) of
        (out, n, ws') \<Rightarrow> (out, ws'\<lparr>ws_polls := n\<rparr>))"

section \<open>The run\<close>

definition pending_status :: "nat \<Rightarrow> string \<Rightarrow> ProvisionerStepStatus" where
  "pending_status step ty =
     \<lparr>pst_Step = step, pst_Type = ty, pst_Success = False, pst_Message = '''', pst_Artifacts = [], pst_Error = ''''\<rparr>"

text \<open>What every failing branch does: record the error, write the step's own status file where
  \<open>out\<close> says so (failures of these writes are ignored), and return the error.\<close>

definition fail_step ::
    "Runtime \<Rightarrow> ProvisioningRequest \<Rightarrow> nat option \<Rightarrow> ProvisionerStepStatus \<Rightarrow> ProvisionerStepStatus list \<Rightarrow> go_error \<Rightarrow>
     Workspace \<Rightarrow> go_error option \<times> Workspace" where
  "fail_step R req out status statuses err ws =
     (let status' = status\<lparr>pst_Error := sanitizeProvisionerDetail R req (err_msg err)\<rparr>;
          ws1 = (case out of None \<Rightarrow> ws | Some dir \<Rightarrow> snd (writeProvisionerStepOutput R req dir status' ws)) in
      (Some err, snd (writeProvisionerStatuses R req (statuses @ [status']) ws1)))"

text \<open>\<open>fmt.Sprintf("provisioner step %d type %q ...", step, spec.Type, ...)\<close>.\<close>

definition step_label :: "nat \<Rightarrow> ProvisionerSpec \<Rightarrow> string" where
  "step_label step spec = ''provisioner step '' @ show_nat step @ '' type '' @ quoted (prov_type spec)"

text \<open>An external step: \<open>dir\<close> is \<open>configStep\<close>. \<open>Inl\<close> carries the error the run ends with, \<open>Inr\<close> the
  statuses to go on with.\<close>

definition external_step ::
    "Runtime \<Rightarrow> ProvisioningRequest \<Rightarrow> nat \<Rightarrow> nat \<Rightarrow> ProvisionerSpec \<Rightarrow> ProvisionerStepStatus list \<Rightarrow> Workspace \<Rightarrow>
     (go_error + ProvisionerStepStatus list) \<times> Workspace" where
  "external_step R req step dir spec statuses ws =
     (let status = pending_status step (prov_type spec);
          failed = (\<lambda>out err w. case fail_step R req out status statuses err w of (_, w') \<Rightarrow> (Inl err, w')) in
      case writeProvisionerInput R req dir spec ws of
        (Some err, ws1) \<Rightarrow> failed (Some dir) err ws1
      | (None, ws1) \<Rightarrow>
          (case waitForInitContainerOutput R req dir ws1 of
             (Inl err, ws2) \<Rightarrow> failed (Some dir) (wrapf (''wait for '' @ step_label step spec @ '': '') err) ws2
           | (Inr output, ws2) \<Rightarrow>
               if \<not> pout_Success output then
                 failed None (errorf (step_label step spec @ '' failed: '' @
                   (if pout_Error output = '''' then pout_Message output else pout_Error output))) ws2
               else
                 (let status' = status\<lparr>pst_Success := True, pst_Message := pout_Message output\<rparr> in
                  case writeProvisionerStatuses R req (statuses @ [status']) ws2 of
                    (Some err, ws3) \<Rightarrow> (Inl err, ws3)
                  | (None, ws3) \<Rightarrow> (Inr (statuses @ [status']), ws3))))"

definition inProcess_step ::
    "Runtime \<Rightarrow> ProvisioningRequest \<Rightarrow> nat \<Rightarrow> ProvisionerSpec \<Rightarrow> ProvisionerStepStatus list \<Rightarrow> Workspace \<Rightarrow>
     (go_error + ProvisionerStepStatus list) \<times> Workspace" where
  "inProcess_step R req step spec statuses ws =
     (let status = pending_status step (prov_type spec);
          failed = (\<lambda>err w. case fail_step R req (Some step) status statuses err w of (_, w') \<Rightarrow> (Inl err, w')) in
      case writeProvisionerInput R req step spec ws of
        (Some err, ws1) \<Rightarrow> failed err ws1
      | (None, ws1) \<Rightarrow>
          (case rt_lookup R (prov_type spec) of
             None \<Rightarrow> failed (errorf (step_label step spec @ '' is not available in the builder runtime'')) ws1
           | Some p \<Rightarrow>
               if \<not> rn_inProcess p then
                 failed (errorf (step_label step spec @ '' has unsupported execution type in builder runtime'')) ws1
               else case rn_validate p spec of
                 Some err \<Rightarrow> failed (wrapf (''validate '' @ step_label step spec @ '': '') err) ws1
               | None \<Rightarrow>
                   (case rn_run p (run_request req step spec) of
                      Inl err \<Rightarrow> failed (wrapf (''run '' @ step_label step spec @ '': '') err) ws1
                    | Inr res \<Rightarrow>
                        (let status' = status\<lparr>pst_Success := True,
                               pst_Message := (case res of None \<Rightarrow> '''' | Some r \<Rightarrow> rres_Message r),
                               pst_Artifacts := (case res of None \<Rightarrow> [] | Some r \<Rightarrow> rres_Artifacts r)\<rparr> in
                         case writeProvisionerStepOutput R req step status' ws1 of
                           (Some err, ws2) \<Rightarrow> (Inl err, ws2)
                         | (None, ws2) \<Rightarrow>
                             (case writeProvisionerStatuses R req (statuses @ [status']) ws2 of
                                (Some err, ws3) \<Rightarrow> (Inl err, ws3)
                              | (None, ws3) \<Rightarrow> (Inr (statuses @ [status']), ws3))))))"

fun run_steps ::
    "Runtime \<Rightarrow> ProvisioningRequest \<Rightarrow> nat \<Rightarrow> nat \<Rightarrow> ProvisionerSpec list \<Rightarrow> ProvisionerStepStatus list \<Rightarrow> Workspace \<Rightarrow>
     go_error option \<times> Workspace" where
  "run_steps R req step externalStep [] statuses ws = (None, ws)"
| "run_steps R req step externalStep (spec # specs) statuses ws =
     (if requiresGuestAccess (prov_type spec) \<and> gst_Host (prq_guest req) = '''' then
        fail_step R req (Some step) (pending_status step (prov_type spec)) statuses
          (errorf (step_label step spec @ '' requires spec.build.guestAccess'')) ws
      else if rt_initContainer R (prov_type spec) then
        (case external_step R req step externalStep spec statuses ws of
           (Inl err, ws') \<Rightarrow> (Some err, ws')
         | (Inr statuses', ws') \<Rightarrow> run_steps R req (Suc step) (Suc externalStep) specs statuses' ws')
      else
        (case inProcess_step R req step spec statuses ws of
           (Inl err, ws') \<Rightarrow> (Some err, ws')
         | (Inr statuses', ws') \<Rightarrow> run_steps R req (Suc step) externalStep specs statuses' ws'))"

text \<open>\<open>SequentialProvisionerRunner.Run\<close>; a nil image is the argument \<open>None\<close>.\<close>

definition Run :: "Runtime \<Rightarrow> ProvisioningRequest option \<Rightarrow> Workspace \<Rightarrow> go_error option \<times> Workspace" where
  "Run R request ws =
     (case request of None \<Rightarrow> (Some (errorf ''provisioning image is required''), ws)
      | Some req \<Rightarrow>
          if prq_provisioners req = [] then (None, ws)
          else case ExpandProvisioners (rt_git R) (prq_workspaceDir req) (prq_provisioners req) of
            Inl err \<Rightarrow> (Some err, ws)
          | Inr provisioners \<Rightarrow> run_steps R req 0 0 provisioners [] ws)"

section \<open>Lemmas\<close>

definition external_first :: "Runtime \<Rightarrow> ProvisionerSpec list \<Rightarrow> ProvisionerSpec list \<Rightarrow> bool" where
  "external_first R ext rest \<longleftrightarrow>
     list_all (\<lambda>p. rt_initContainer R (prov_type p)) ext \<and> list_all (\<lambda>p. \<not> rt_initContainer R (prov_type p)) rest"

lemma fail_step_error [simp]: "fst (fail_step R req out status statuses err ws) = Some err"
  by (simp add: fail_step_def Let_def)

lemma fail_step_neq [simp]: "fail_step R req out status statuses err ws \<noteq> (None, ws')"
  by (metis fail_step_error fst_conv option.distinct(1))

text \<open>Container \<open>k\<close> never writes its status file.\<close>

definition silent :: "Runtime \<Rightarrow> nat \<Rightarrow> bool" where
  "silent R k \<longleftrightarrow> (\<forall>n ws. ws_status (rt_others R n ws) k = ws_status ws k)"

lemma poll_output_silent:
  "silent R k \<Longrightarrow> poll_output R step n ws = (out, m, ws') \<Longrightarrow> ws_status ws' k = ws_status ws k"
  by (induction R step n ws rule: poll_output.induct)
    (subst (asm) (2) poll_output.simps, auto simp: silent_def split: sum.splits option.splits nat.splits)

lemma poll_output_reads:
  "poll_output R step n ws = (Inr out, m, ws') \<Longrightarrow> ws_status ws' step = Some (Output out)"
  by (induction R step n ws rule: poll_output.induct)
    (subst (asm) (2) poll_output.simps,
      auto simp: readProvisionerOutput_def split: sum.splits option.splits nat.splits status_file.splits)

lemma writeProvisionerInput_status: "ws_status (snd (writeProvisionerInput R req step spec ws)) = ws_status ws"
  by (simp add: writeProvisionerInput_def split: option.split)

lemma writeProvisionerStatuses_status: "ws_status (snd (writeProvisionerStatuses R req sts ws)) = ws_status ws"
  by (simp add: writeProvisionerStatuses_def split: option.split)

lemma external_step_Inr:
  assumes "external_step R req step dir spec statuses ws = (Inr statuses', ws')"
  obtains ws1 ws2 out where "writeProvisionerInput R req dir spec ws = (None, ws1)"
    and "waitForInitContainerOutput R req dir ws1 = (Inr out, ws2)" and "pout_Success out"
    and "statuses' = statuses @ [(pending_status step (prov_type spec))\<lparr>pst_Success := True, pst_Message := pout_Message out\<rparr>]"
    and "writeProvisionerStatuses R req statuses' ws2 = (None, ws')"
  using assms
  by (auto simp: external_step_def Let_def split: prod.splits option.splits sum.splits if_splits)

lemma external_step_silent:
  assumes "external_step R req step dir spec statuses ws = (Inr statuses', ws')"
    and "silent R k" and "ws_status ws k = None"
  shows "dir \<noteq> k" and "ws_status ws' k = None"
proof -
  obtain ws1 ws2 out where f: "writeProvisionerInput R req dir spec ws = (None, ws1)"
      "waitForInitContainerOutput R req dir ws1 = (Inr out, ws2)"
      "writeProvisionerStatuses R req statuses' ws2 = (None, ws')"
    using assms(1) by (rule external_step_Inr)
  obtain n w where poll: "poll_output R dir (ws_polls ws1) (ws1\<lparr>ws_waits := ws_waits ws1 @ [(dir, ws_config ws1 dir)]\<rparr>) =
      (Inr out, n, w)" "ws2 = w\<lparr>ws_polls := n\<rparr>"
    using f(2) by (auto simp: waitForInitContainerOutput_def split: if_splits prod.splits)
  have "ws_status w k = None"
    using poll_output_silent [OF assms(2) poll(1)] writeProvisionerInput_status [of R req dir spec ws] f(1) assms(3) by simp
  moreover have "ws_status w dir = Some (Output out)" using poll(1) by (rule poll_output_reads)
  ultimately show "dir \<noteq> k" by auto
  show "ws_status ws' k = None"
    using \<open>ws_status w k = None\<close> writeProvisionerStatuses_status [of R req statuses' ws2] f(3) poll(2) by simp
qed

lemma run_steps_silent:
  assumes "silent R k" and "ws_status ws k = None" and "e \<le> k" and "k < e + length ext"
    and "list_all (\<lambda>p. rt_initContainer R (prov_type p)) ext"
  shows "fst (run_steps R req step e (ext @ rest) statuses ws) \<noteq> None"
  using assms(2-)
proof (induction ext arbitrary: step e statuses ws)
  case Nil
  then show ?case by simp
next
  case (Cons p ext)
  show ?case
  proof (cases "requiresGuestAccess (prov_type p) \<and> gst_Host (prq_guest req) = ''''")
    case True
    then show ?thesis by simp
  next
    case False
    obtain res ws' where ext: "external_step R req step e p statuses ws = (res, ws')" by fastforce
    show ?thesis
    proof (cases res)
      case (Inl err)
      with False Cons.prems ext show ?thesis by simp
    next
      case (Inr statuses')
      with ext external_step_silent [OF _ assms(1) Cons.prems(1)] have "e \<noteq> k" "ws_status ws' k = None" by blast+
      with False Cons.prems ext Inr Cons.IH [of ws' "Suc e" "Suc step" statuses'] show ?thesis by simp
    qed
  qed
qed

text \<open>What the runner waits for: the directories in order, each with the configuration of its own step.\<close>

lemma writes_keep_waits [simp]:
  "ws_waits (snd (writeProvisionerInput R req step spec ws)) = ws_waits ws"
  "ws_waits (snd (writeProvisionerStepOutput R req step status ws)) = ws_waits ws"
  "ws_waits (snd (writeProvisionerStatuses R req sts ws)) = ws_waits ws"
  "ws_waits (snd (fail_step R req out status sts err ws)) = ws_waits ws"
  by (simp_all add: writeProvisionerInput_def writeProvisionerStepOutput_def writeProvisionerStatuses_def fail_step_def Let_def
      split: option.split)

lemma poll_output_waits: "ws_waits (snd (snd (poll_output R step n ws))) = ws_waits ws"
  by (induction R step n ws rule: poll_output.induct)
    (subst poll_output.simps, auto split: sum.split option.split nat.split)

lemma external_step_waits:
  assumes "external_step R req step dir spec statuses ws = (res, ws')"
  shows "ws_waits ws' = ws_waits ws \<and> (\<exists>err. res = Inl err)
    \<or> ws_waits ws' = ws_waits ws @ [(dir, Some (run_request req dir spec))]"
proof (cases "prq_workspaceDir req = ''''")
  case True
  with assms show ?thesis
    by (auto simp: external_step_def Let_def waitForInitContainerOutput_def writeProvisionerInput_def fail_step_def
        writeProvisionerStepOutput_def writeProvisionerStatuses_def)
next
  case False
  obtain err ws1 where input: "writeProvisionerInput R req dir spec ws = (err, ws1)" by fastforce
  obtain out ws2 where wait: "waitForInitContainerOutput R req dir ws1 = (out, ws2)" by fastforce
  have waits: "ws_waits ws1 = ws_waits ws"
    using writes_keep_waits(1) [of R req dir spec ws] input by simp
  have config: "err = None \<Longrightarrow> ws_config ws1 dir = Some (run_request req dir spec)"
    using input False by (auto simp: writeProvisionerInput_def split: option.splits)
  have waited: "ws_waits ws2 = ws_waits ws1 @ [(dir, ws_config ws1 dir)]"
    using wait False poll_output_waits [of R dir "ws_polls ws1" "ws1\<lparr>ws_waits := ws_waits ws1 @ [(dir, ws_config ws1 dir)]\<rparr>"]
    by (auto simp: waitForInitContainerOutput_def split: prod.splits)
  have step: "snd (external_step R req step dir spec statuses ws) = ws'" using assms by simp
  show ?thesis
  proof (cases err)
    case (Some e)
    with assms input waits show ?thesis
      by (auto simp: external_step_def Let_def case_prod_beta)
  next
    case None
    with assms input wait waits waited config show ?thesis
      by (auto simp: external_step_def Let_def case_prod_beta split: sum.splits if_splits option.splits)
  qed
qed

lemma inProcess_step_waits: "ws_waits (snd (inProcess_step R req step spec statuses ws)) = ws_waits ws"
proof -
  obtain err ws1 where input: "writeProvisionerInput R req step spec ws = (err, ws1)" by fastforce
  have "ws_waits ws1 = ws_waits ws" using writes_keep_waits(1) [of R req step spec ws] input by simp
  then show ?thesis
    by (auto simp: inProcess_step_def Let_def input case_prod_beta split: option.split sum.split prod.split)
qed

lemma run_steps_waits:
  assumes "run_steps R req step e specs statuses ws = (res, ws')"
  shows "\<exists>new. ws_waits ws' = ws_waits ws @ new
    \<and> length new \<le> length (filter (\<lambda>p. rt_initContainer R (prov_type p)) specs)
    \<and> (res = None \<longrightarrow> length new = length (filter (\<lambda>p. rt_initContainer R (prov_type p)) specs))
    \<and> (\<forall>k < length new. new ! k =
         (e + k, Some (run_request req (e + k) (filter (\<lambda>p. rt_initContainer R (prov_type p)) specs ! k))))"
  using assms
proof (induction specs arbitrary: step e statuses ws)
  case Nil
  then show ?case by simp
next
  case (Cons p specs)
  show ?case
  proof (cases "requiresGuestAccess (prov_type p) \<and> gst_Host (prq_guest req) = ''''")
    case True
    with Cons.prems have "snd (fail_step R req (Some step) (pending_status step (prov_type p)) statuses
        (errorf (step_label step p @ '' requires spec.build.guestAccess'')) ws) = ws'" "res \<noteq> None"
      by (auto dest: arg_cong [where f = fst] simp: fail_step_def Let_def)
    then have "ws_waits ws' = ws_waits ws" "res \<noteq> None" by auto
    then show ?thesis by (intro exI [of _ "[]"]) auto
  next
    case guest: False
    show ?thesis
    proof (cases "rt_initContainer R (prov_type p)")
      case False
      obtain r ws1 where here: "inProcess_step R req step p statuses ws = (r, ws1)" by fastforce
      then have same: "ws_waits ws1 = ws_waits ws" using inProcess_step_waits [of R req step p statuses ws] by simp
      have none: "filter (\<lambda>p. rt_initContainer R (prov_type p)) (p # specs) = filter (\<lambda>p. rt_initContainer R (prov_type p)) specs"
        using False by simp
      show ?thesis
      proof (cases r)
        case (Inl err)
        with Cons.prems here guest False same show ?thesis by (intro exI [of _ "[]"]) auto
      next
        case (Inr statuses')
        with Cons.prems here guest False have "run_steps R req (Suc step) e specs statuses' ws1 = (res, ws')" by auto
        from Cons.IH [OF this] show ?thesis unfolding none same .
      qed
    next
      case True
      obtain r ws1 where here: "external_step R req step e p statuses ws = (r, ws1)" by fastforce
      note waits = external_step_waits [OF here]
      show ?thesis
      proof (cases r)
        case (Inl err)
        with Cons.prems here guest True have "res \<noteq> None" "ws' = ws1" by auto
        with waits True show ?thesis
          by (elim disjE) (auto intro: exI [of _ "[]"] exI [of _ "[(e, Some (run_request req e p))]"])
      next
        case (Inr statuses')
        with waits have ws1: "ws_waits ws1 = ws_waits ws @ [(e, Some (run_request req e p))]" by simp
        from Cons.prems here guest True Inr have "run_steps R req (Suc step) (Suc e) specs statuses' ws1 = (res, ws')" by simp
        from Cons.IH [OF this] obtain new where new: "ws_waits ws' = ws_waits ws1 @ new"
          "length new \<le> length (filter (\<lambda>p. rt_initContainer R (prov_type p)) specs)"
          "res = None \<longrightarrow> length new = length (filter (\<lambda>p. rt_initContainer R (prov_type p)) specs)"
          "\<forall>k < length new. new ! k =
             (Suc e + k, Some (run_request req (Suc e + k) (filter (\<lambda>p. rt_initContainer R (prov_type p)) specs ! k)))"
          by blast
        let ?all = "(e, Some (run_request req e p)) # new"
        have "?all ! k = (e + k, Some (run_request req (e + k)
            (filter (\<lambda>p. rt_initContainer R (prov_type p)) (p # specs) ! k)))" if "k < length ?all" for k
          using that new(4) True by (cases k) auto
        with new(1-3) ws1 True show ?thesis by (intro exI [of _ ?all]) auto
      qed
    qed
  qed
qed

text \<open>What a step that goes on appends to the statuses, and leaves in the result file.\<close>

definition step_done :: "nat \<Rightarrow> ProvisionerSpec \<Rightarrow> ProvisionerStepStatus \<Rightarrow> bool" where
  "step_done step spec st \<longleftrightarrow> pst_Step st = step \<and> pst_Type st = prov_type spec \<and> pst_Success st \<and> pst_Error st = ''''"

lemma writeProvisionerStatuses_result:
  "writeProvisionerStatuses R req sts ws = (None, ws') \<Longrightarrow> prq_workspaceDir req \<noteq> '''' \<Longrightarrow> ws_result ws' = Some sts"
  by (auto simp: writeProvisionerStatuses_def split: option.splits)

lemma external_step_done:
  "external_step R req step dir spec statuses ws = (Inr statuses', ws') \<Longrightarrow> prq_workspaceDir req \<noteq> '''' \<Longrightarrow>
   ws_result ws' = Some statuses' \<and> (\<exists>st. statuses' = statuses @ [st] \<and> step_done step spec st)"
  by (erule external_step_Inr)
    (auto simp: step_done_def pending_status_def dest: writeProvisionerStatuses_result)

lemma inProcess_step_done:
  "inProcess_step R req step spec statuses ws = (Inr statuses', ws') \<Longrightarrow> prq_workspaceDir req \<noteq> '''' \<Longrightarrow>
   ws_result ws' = Some statuses' \<and> (\<exists>st. statuses' = statuses @ [st] \<and> step_done step spec st)"
  by (auto simp: inProcess_step_def Let_def step_done_def pending_status_def
      split: prod.splits option.splits sum.splits if_splits dest: writeProvisionerStatuses_result)

lemma run_steps_done:
  assumes "run_steps R req step e specs statuses ws = (None, ws')" and "prq_workspaceDir req \<noteq> ''''"
    and "specs \<noteq> []"
  shows "\<exists>sts. ws_result ws' = Some (statuses @ sts) \<and> length sts = length specs
    \<and> (\<forall>i < length specs. step_done (step + i) (specs ! i) (sts ! i))"
  using assms
proof (induction specs arbitrary: step e statuses ws)
  case Nil
  then show ?case by simp
next
  case (Cons p specs)
  obtain statuses' e' ws1 where "run_steps R req (Suc step) e' specs statuses' ws1 = (None, ws')"
      "external_step R req step e p statuses ws = (Inr statuses', ws1)
       \<or> inProcess_step R req step p statuses ws = (Inr statuses', ws1)"
    using Cons.prems(1) by (auto split: if_splits prod.splits sum.splits)
  then obtain st where st: "step_done step p st" "ws_result ws1 = Some (statuses @ [st])"
      "run_steps R req (Suc step) e' specs (statuses @ [st]) ws1 = (None, ws')"
    using external_step_done [OF _ Cons.prems(2)] inProcess_step_done [OF _ Cons.prems(2)] by metis
  show ?case
  proof (cases "specs = []")
    case True
    with st show ?thesis by (intro exI [of _ "[st]"]) simp
  next
    case False
    with Cons.IH [OF st(3) Cons.prems(2)] obtain sts where sts: "ws_result ws' = Some ((statuses @ [st]) @ sts)"
        "length sts = length specs" "\<forall>i < length specs. step_done (Suc step + i) (specs ! i) (sts ! i)" by blast
    have "step_done (step + i) ((p # specs) ! i) ((st # sts) ! i)" if "i < length (p # specs)" for i
      using that st(1) sts(3) by (cases i) auto
    with sts show ?thesis by (intro exI [of _ "st # sts"]) auto
  qed
qed

lemma replace_all_empty:
  assumes "a \<noteq> ''''" and "b \<noteq> ''''" and "\<not> contains s a" and "\<not> contains s b"
  shows "replace_all [(a, x), ('''', y), (b, z)] False s = y @ concat (map (\<lambda>c. c # y) s)"
  using assms(3,4)
proof (induction s)
  case Nil
  with assms(1,2) show ?case
    by (subst replace_all.simps, subst replace_all.simps) (auto simp: hasPrefix_def)
next
  case (Cons c s)
  then have no: "\<not> hasPrefix (c # s) a" "\<not> hasPrefix (c # s) b" "\<not> contains s a" "\<not> contains s b" by auto
  have "replace_all [(a, x), ('''', y), (b, z)] False (c # s) =
      y @ replace_all [(a, x), ('''', y), (b, z)] True (c # s)"
    using no assms(1) by (subst replace_all.simps) simp
  also have "replace_all [(a, x), ('''', y), (b, z)] True (c # s) = c # replace_all [(a, x), ('''', y), (b, z)] False s"
    using no by (subst replace_all.simps) simp
  finally show ?case using Cons.IH no by simp
qed

section \<open>Properties\<close>

text \<open>The environment of the witnesses: a shell script, which succeeds, and an Ansible step, whose
  container (the only one) never writes its status.\<close>

definition plain_step :: "string \<Rightarrow> ProvisionerSpec" where
  "plain_step ty =
     \<lparr>prov_type = ty, prov_image = '''', prov_inline = ''true'', prov_source = None, prov_playbook = '''', prov_args = [],
      prov_env = [], prov_extraVars = Map.empty, prov_windowsConfig = None\<rparr>"

definition ex_runtime :: Runtime where
  "ex_runtime =
     \<lparr>rt_lookup = (\<lambda>ty. Some \<lparr>rn_inProcess = True, rn_validate = (\<lambda>s. None), rn_run = (\<lambda>q. Inr None)\<rparr>),
      rt_initContainer = IsInitContainer (\<lambda>ty. False), rt_others = (\<lambda>n ws. ws), rt_readError = (\<lambda>k ws. None),
      rt_writeConfig = (\<lambda>k ws. None), rt_writeStatus = (\<lambda>k ws. None), rt_writeResult = (\<lambda>ws. None),
      rt_redact = (\<lambda>s. s), rt_git = ex_fs\<lparr>gp_isInitContainer := IsInitContainer (\<lambda>ty. False)\<rparr>\<rparr>"

definition ex_request :: "ProvisionerSpec list \<Rightarrow> ProvisioningRequest" where
  "ex_request ps =
     \<lparr>prq_provisioners = ps, prq_osFamily = ''linux'', prq_workspaceDir = ''/workspace'',
      prq_guest = \<lparr>gst_Protocol = ''ssh'', gst_Host = ''127.0.0.1'', gst_HostPort = 2222, gst_User = ''root'',
        gst_SSHKeyPath = ''/workspace/id'', gst_PasswordPath = '''', gst_GuestPort = 22, gst_Timeout = 10 * minute, gst_WinRMHTTPS = False, gst_InsecureSkipVerify = False\<rparr>\<rparr>"

definition empty_workspace :: Workspace where
  "empty_workspace = \<lparr>ws_config = Map.empty, ws_status = Map.empty, ws_result = None, ws_polls = 3, ws_waits = []\<rparr>"

text \<open>C22: The builder and the assembler number external steps alike. Whatever the provisioners before it are, in
  process or not, and however the run ends: the k-th directory for which the builder waits is directory k, and the
  configuration that stands in it then is the one of the k-th external provisioner, after the Git sources were expanded; init
  container k of the Pod is the one of this provisioner's type and waits for the configuration file of step
  directory k. The builder never waits more often than there are containers, and exactly as often in a run that
  succeeds.\<close>

theorem external_steps_match_containers:
  assumes "prq_provisioners req = spec_provisioners (img_spec img)"
    and "ExpandProvisioners (rt_git R) (prq_workspaceDir req) (prq_provisioners req) = Inr out"
    and "gp_isInitContainer (rt_git R) = IsInitContainer (pv_inProcess E)"
    and "rt_initContainer R = IsInitContainer (pv_inProcess E)"
    and "buildInitContainers E img = Inr cs"
    and "Run R (Some req) ws = (res, ws')" and "ws_waits ws = []"
  shows "length cs = length (external_provisioners E out)
    \<and> length (ws_waits ws') \<le> length cs \<and> (res = None \<longrightarrow> length (ws_waits ws') = length cs)
    \<and> (\<forall>k < length (ws_waits ws').
         ws_waits ws' ! k = (k, Some (run_request req k (external_provisioners E out ! k))))
    \<and> (\<forall>k < length cs. env_var ''PROVISIONER_CONFIG_PATH'' (step_path k ''config.json'') \<in> set (ctr_env (cs ! k))
         \<and> ctr_name (cs ! k) = ''provisioner-'' @ show_nat k @ ''-'' @ prov_type (external_provisioners E out ! k))"
proof -
  let ?ps = "spec_provisioners (img_spec img)"
  have types: "map prov_type (external_provisioners E out) = map prov_type (external_provisioners E ?ps)"
    using expand_loop_types [OF assms(2) [unfolded ExpandProvisioners_def]]
    by (simp add: external_provisioners_def assms(1,3) filter_map comp_def)
  then have len: "length (external_provisioners E out) = length (external_provisioners E ?ps)"
    by (metis length_map)
  note cs = buildInitContainers_result [OF assms(5)]
  have named: "env_var ''PROVISIONER_CONFIG_PATH'' (step_path k ''config.json'') \<in> set (ctr_env (cs ! k))
      \<and> ctr_name (cs ! k) = ''provisioner-'' @ show_nat k @ ''-'' @ prov_type (external_provisioners E out ! k)"
    if k: "k < length cs" for k
  proof -
    have "map prov_type (external_provisioners E out) ! k = map prov_type (external_provisioners E ?ps) ! k"
      by (simp add: types)
    with k cs(1) len have "prov_type (external_provisioners E out ! k) = prov_type (external_provisioners E ?ps ! k)"
      by simp
    with cs(2) [OF k] show ?thesis by (auto simp: init_container_def)
  qed
  have external: "filter (\<lambda>p. rt_initContainer R (prov_type p)) out = external_provisioners E out"
    by (simp add: external_provisioners_def assms(4))
  have "\<exists>new. ws_waits ws' = new \<and> length new \<le> length (external_provisioners E out)
    \<and> (res = None \<longrightarrow> length new = length (external_provisioners E out))
    \<and> (\<forall>k < length new. new ! k = (k, Some (run_request req k (external_provisioners E out ! k))))"
  proof (cases "prq_provisioners req = []")
    case True
    with assms(2,6,7) show ?thesis
      by (auto simp: Run_def ExpandProvisioners_def external_provisioners_def)
  next
    case False
    with assms(2,6) have "run_steps R req 0 0 out [] ws = (res, ws')" by (simp add: Run_def)
    from run_steps_waits [OF this] assms(7) external show ?thesis by simp
  qed
  with cs(1) len named show ?thesis by simp
qed

definition plain_build :: VMImage where
  "plain_build = ex_build\<lparr>img_spec := (img_spec ex_build)\<lparr>spec_provisioners := [plain_step ''shell'', plain_step ''ansible'']\<rparr>\<rparr>"

theorem external_steps_match_containers_witness:
  "\<exists>cs. buildInitContainers ex_params plain_build = Inr cs \<and> map ctr_name cs = [''provisioner-0-ansible'']
     \<and> ws_waits (snd (Run ex_runtime (Some (ex_request [plain_step ''shell'', plain_step ''ansible''])) empty_workspace)) =
         [(0, Some (run_request (ex_request [plain_step ''shell'', plain_step ''ansible'']) 0 (plain_step ''ansible'')))]"
proof -
  let ?ps = "[plain_step ''shell'', plain_step ''ansible'']"
  have steps: "prq_provisioners (ex_request ?ps) = spec_provisioners (img_spec plain_build)"
    by (simp add: plain_build_def ex_request_def)
  have expand: "ExpandProvisioners (rt_git ex_runtime) (prq_workspaceDir (ex_request ?ps)) (prq_provisioners (ex_request ?ps)) = Inr ?ps"
    by (simp add: ex_request_def ExpandProvisioners_def git_of_def plain_step_def)
  have same: "gp_isInitContainer (rt_git ex_runtime) = IsInitContainer (pv_inProcess ex_params)"
    "rt_initContainer ex_runtime = IsInitContainer (pv_inProcess ex_params)"
    by (simp_all add: ex_runtime_def ex_params_def)
  have ext: "external_provisioners ex_params ?ps = [plain_step ''ansible'']"
    by (simp add: external_provisioners_def plain_step_def ex_params_def IsInitContainer_def
        IsBuiltInInitContainer_def IsBuiltInInProcess_def)
  obtain cs where cs: "buildInitContainers ex_params plain_build = Inr cs"
    by (simp add: buildInitContainers_def plain_build_def Let_def plain_step_def ex_params_def IsInitContainer_def
        IsBuiltInInitContainer_def IsBuiltInInProcess_def defaultImageForProvisioner_def envOrDefault_def)
  have ok: "fst (Run ex_runtime (Some (ex_request ?ps)) empty_workspace) = None" by code_simp
  obtain ws' where run: "Run ex_runtime (Some (ex_request ?ps)) empty_workspace = (None, ws')"
    using ok by (metis prod.collapse)
  have zero: "show_nat 0 = ''0''" by code_simp
  have "ws_waits empty_workspace = []" by (simp add: empty_workspace_def)
  note match = external_steps_match_containers [OF steps expand same cs run this, unfolded ext]
  have len: "length cs = 1" "length (ws_waits ws') = 1" using match by auto
  then have "ws_waits ws' ! 0 = (0, Some (run_request (ex_request ?ps) 0 (plain_step ''ansible'')))"
    "ctr_name (cs ! 0) = ''provisioner-0-ansible''"
    using match zero by (auto simp: plain_step_def)
  with len have "ws_waits ws' = [(0, Some (run_request (ex_request ?ps) 0 (plain_step ''ansible'')))]"
    "map ctr_name cs = [''provisioner-0-ansible'']"
    by (auto simp: length_Suc_conv)
  with cs run show ?thesis by auto
qed

text \<open>C23: When the external provisioners come first, the build does not succeed without them: if one of
  their containers never writes its status file, and the file was not there before, the run ends
  with an error, whatever the other containers do.\<close>

theorem silent_container_fails_build:
  assumes "ExpandProvisioners (rt_git R) (prq_workspaceDir req) (prq_provisioners req) = Inr (ext @ rest)"
    and "external_first R ext rest" and "k < length ext"
    and "silent R k" and "ws_status ws k = None"
  shows "fst (Run R (Some req) ws) \<noteq> None"
proof -
  have "prq_provisioners req \<noteq> []"
    using assms(1,3) by (auto simp: ExpandProvisioners_def)
  with assms(1) run_steps_silent [OF assms(4,5), of 0 ext req 0 rest "[]"] assms(2,3) show ?thesis
    by (simp add: Run_def external_first_def)
qed

theorem silent_container_fails_build_witness:
  "fst (Run ex_runtime (Some (ex_request [plain_step ''ansible'', plain_step ''shell''])) empty_workspace) \<noteq> None"
proof -
  have "ExpandProvisioners (rt_git ex_runtime) ''/workspace'' [plain_step ''ansible'', plain_step ''shell''] =
      Inr ([plain_step ''ansible''] @ [plain_step ''shell''])"
    by (simp add: ExpandProvisioners_def git_of_def plain_step_def)
  moreover have "external_first ex_runtime [plain_step ''ansible''] [plain_step ''shell'']"
    by (simp add: external_first_def ex_runtime_def plain_step_def IsInitContainer_def IsBuiltInInitContainer_def
        IsBuiltInInProcess_def)
  moreover have "silent ex_runtime 0"
    by (simp add: silent_def ex_runtime_def)
  ultimately show ?thesis
    using silent_container_fails_build [where R = ex_runtime and k = 0 and ext = "[plain_step ''ansible'']"
        and rest = "[plain_step ''shell'']" and ws = empty_workspace
        and req = "ex_request [plain_step ''ansible'', plain_step ''shell'']"]
    by (simp add: ex_request_def empty_workspace_def)
qed

text \<open>When an in-process provisioner comes before the first external one, the external one is not
  waited for: the in-process step has left its own successful status in step directory 0, where the
  builder then looks for that of the container. Without any container writing anything, and without
  a single tick of the clock, the run succeeds and reports both steps as successful.\<close>

theorem stale_status_skips_container:
  assumes "prq_workspaceDir req \<noteq> ''''" and "gst_Host (prq_guest req) \<noteq> ''''"
    and "prq_provisioners req = [p, q]" and "git_of p = None" and "git_of q = None"
    and "\<not> rt_initContainer R (prov_type p)" and "rt_initContainer R (prov_type q)"
    and "rt_lookup R (prov_type p) = Some runner" and "rn_inProcess runner" and "rn_validate runner p = None"
    and "rn_run runner (run_request req 0 p) = Inr res"
    and "\<And>k w. rt_writeConfig R k w = None \<and> rt_writeStatus R k w = None \<and> rt_writeResult R w = None \<and> rt_readError R k w = None"
  shows "\<exists>ws'. Run R (Some req) ws = (None, ws') \<and> ws_polls ws' = ws_polls ws
     \<and> (\<exists>sts. ws_result ws' = Some sts \<and> map pst_Type sts = [prov_type p, prov_type q] \<and> list_all pst_Success sts)"
  using assms
  by (simp add: Run_def ExpandProvisioners_def inProcess_step_def external_step_def Let_def
      writeProvisionerInput_def writeProvisionerStepOutput_def writeProvisionerStatuses_def
      waitForInitContainerOutput_def poll_output.simps readProvisionerOutput_def pending_status_def)

theorem stale_status_skips_container_witness:
  "fst (Run ex_runtime (Some (ex_request [plain_step ''shell'', plain_step ''ansible''])) empty_workspace) = None"
proof -
  have "\<exists>ws'. Run ex_runtime (Some (ex_request [plain_step ''shell'', plain_step ''ansible''])) empty_workspace = (None, ws')
     \<and> ws_polls ws' = ws_polls empty_workspace
     \<and> (\<exists>sts. ws_result ws' = Some sts
          \<and> map pst_Type sts = [prov_type (plain_step ''shell''), prov_type (plain_step ''ansible'')] \<and> list_all pst_Success sts)"
    by (rule stale_status_skips_container [where runner = "\<lparr>rn_inProcess = True, rn_validate = (\<lambda>s. None), rn_run = (\<lambda>q. Inr None)\<rparr>"])
      (simp_all add: ex_request_def plain_step_def git_of_def ex_runtime_def IsInitContainer_def
        IsBuiltInInitContainer_def IsBuiltInInProcess_def)
  then show ?thesis by auto
qed

text \<open>A successful run reports every step: with a workspace and at least one provisioner, the result
  file lists one entry per expanded provisioner, in order, with its number and type, marked as
  successful and without an error.\<close>

theorem successful_run_reports_all:
  assumes "Run R (Some req) ws = (None, ws')" and "prq_workspaceDir req \<noteq> ''''"
    and "ExpandProvisioners (rt_git R) (prq_workspaceDir req) (prq_provisioners req) = Inr specs" and "specs \<noteq> []"
  shows "\<exists>sts. ws_result ws' = Some sts \<and> length sts = length specs
    \<and> (\<forall>i < length specs. step_done i (specs ! i) (sts ! i))"
proof -
  have "prq_provisioners req \<noteq> []" using assms(3,4) by (auto simp: ExpandProvisioners_def)
  with assms(1,3) have "run_steps R req 0 0 specs [] ws = (None, ws')" by (simp add: Run_def)
  from run_steps_done [OF this assms(2,4)] show ?thesis by simp
qed

theorem successful_run_reports_all_witness:
  "\<exists>sts. ws_result (snd (Run ex_runtime (Some (ex_request [plain_step ''shell''])) empty_workspace)) = Some sts
     \<and> length sts = 1"
proof -
  have expand: "ExpandProvisioners (rt_git ex_runtime) (prq_workspaceDir (ex_request [plain_step ''shell'']))
      (prq_provisioners (ex_request [plain_step ''shell''])) = Inr [plain_step ''shell'']"
    by (simp add: ExpandProvisioners_def git_of_def plain_step_def ex_request_def)
  obtain err ws' where run: "Run ex_runtime (Some (ex_request [plain_step ''shell''])) empty_workspace = (err, ws')"
    by fastforce
  then have "err = None"
    using expand
    by (simp add: Run_def inProcess_step_def Let_def writeProvisionerInput_def writeProvisionerStepOutput_def
        writeProvisionerStatuses_def ex_runtime_def ex_request_def plain_step_def IsInitContainer_def
        IsBuiltInInitContainer_def IsBuiltInInProcess_def)
  with run successful_run_reports_all [OF _ _ expand, of empty_workspace ws'] show ?thesis
    by (auto simp: ex_request_def)
qed

text \<open>A guest without a password file makes error details unreadable: the empty path matches at
  every position, so the placeholder is inserted before every byte and at the end of a detail in
  which neither the key path nor the workspace occurs.\<close>

theorem empty_credential_path_garbles_details:
  assumes "gst_PasswordPath (prq_guest req) = ''''" and "gst_SSHKeyPath (prq_guest req) \<noteq> ''''"
    and "prq_workspaceDir req \<noteq> ''''" and "detail \<noteq> ''''"
    and "\<not> contains detail (gst_SSHKeyPath (prq_guest req))" and "\<not> contains detail (prq_workspaceDir req)"
  shows "sanitizeProvisionerDetail R req detail =
    rt_redact R (''[guest-password]'' @ concat (map (\<lambda>c. c # ''[guest-password]'') detail))"
  using assms by (simp add: sanitizeProvisionerDetail_def replace_all_empty)

theorem empty_credential_path_garbles_details_witness:
  "sanitizeProvisionerDetail ex_runtime (ex_request []) ''no'' = ''[guest-password]n[guest-password]o[guest-password]''"
  by (subst empty_credential_path_garbles_details) (simp_all add: ex_request_def ex_runtime_def hasPrefix_def)

end
