(* ===== verification/Provider_Messages.thy ===== *)
theory Provider_Messages
  imports Cluster
begin

text \<open>
  The remote-build calls of external providers: what the adapter of the operator
  (\<open>pkg/plugin/grpc/adapter.go\<close>) sends, what the server of the provider SDK
  (\<open>pkg/provider/sdk/server.go\<close>) hands to the provider, and how the provider's answer or error comes
  back. The protobuf messages are records with the fields of the generated code; gRPC itself, which
  carries a message unchanged and an error as its status, is a parameter.

  An image reference of the platform has only the fields the controller reads (see \<open>Cluster\<close>).
\<close>

section \<open>Messages\<close>

record MarketplaceMsg =
  mm_Publisher :: string
  mm_Offer :: string
  mm_Sku :: string
  mm_Version :: string

record GitAuthMsg =
  gam_Token :: string
  gam_Username :: string
  gam_Password :: string

record GitSourceMsg =
  gsm_Url :: string
  gsm_Ref :: string
  gsm_Path :: string
  gsm_Auth :: "GitAuthMsg option"

record ProvisionerMsg =
  pm_Type :: string
  pm_Image :: string
  pm_Inline :: string
  pm_Playbook :: string
  pm_Args :: "string list"
  pm_ExtraVars :: strmap
  pm_Source :: "GitSourceMsg option option"  \<comment> \<open>a source message, and its Git source\<close>

record GuestAccessMsg =
  gm_Protocol :: string
  gm_User :: string
  gm_GuestPort :: int
  gm_GeneratedSshKey :: bool
  gm_GeneratedPassword :: bool
  gm_InjectionMethod :: string

record EvidencePolicyMsg =
  em_Required :: bool
  em_SbomFormat :: string
  em_VulnerabilityScanner :: string
  em_FailOnSeverity :: "string list"
  em_RegistryRepository :: string

record RemoteBuildMsg =
  rm_BuildId :: string
  rm_OperationRef :: string
  rm_ImageName :: string
  rm_Namespace :: string
  rm_OsFamily :: string
  rm_OsDistribution :: string
  rm_OsVersion :: string
  rm_OsArch :: string
  rm_SourceType :: string
  rm_SourceUrl :: string
  rm_SourceProviderRef :: string
  rm_SourceMarketplace :: "MarketplaceMsg option"
  rm_SourceChecksum :: string
  rm_ProviderConfigName :: string
  rm_Format :: string
  rm_Tags :: strmap
  rm_Provisioners :: "ProvisionerMsg list"
  rm_GuestAccess :: "GuestAccessMsg option"
  rm_Evidence :: "EvidencePolicyMsg option"
  rm_TimeoutSeconds :: int

text \<open>The answer.\<close>

record RemoteArtifactMsg =
  am_Path :: string
  am_Format :: string
  am_Checksum :: string
  am_SizeBytes :: int
  am_OsFamily :: string
  am_Metadata :: strmap

record HygieneMsg =
  hm_Status :: string
  hm_Message :: string
  hm_Checks :: "string list"
  hm_ResultRef :: string

record EvidenceMsg =
  vm_Status :: string
  vm_Message :: string
  vm_SbomRef :: string
  vm_VulnerabilityReportRef :: string
  vm_ProvenanceRef :: string
  vm_SignatureRef :: string

record RemoteImageMsg =
  im_Provider :: string
  im_ProviderConfigName :: string
  im_ImageRef :: string
  im_ImageName :: string
  im_Location :: string
  im_Format :: string
  im_Checksum :: string
  im_Tags :: strmap

record RemoteBuildResponseMsg =
  bm_OperationRef :: string
  bm_Phase :: string
  bm_Message :: string
  bm_Done :: bool
  bm_Artifact :: "RemoteArtifactMsg option"
  bm_Hygiene :: "HygieneMsg option"
  bm_Evidence :: "EvidenceMsg option"
  bm_Images :: "RemoteImageMsg list"

section \<open>The types of the provider SDK\<close>

record SDKGitAuth =
  sga_Token :: string
  sga_Username :: string
  sga_Password :: string

record SDKGitSource =
  sgs_URL :: string
  sgs_Ref :: string
  sgs_Path :: string
  sgs_Auth :: "SDKGitAuth option"

record RemoteProvisioner =
  rp_Type :: string
  rp_Image :: string
  rp_Inline :: string
  rp_Playbook :: string
  rp_Args :: "string list"
  rp_ExtraVars :: strmap
  rp_Source :: "SDKGitSource option option"

record RemoteGuestAccess =
  rg_Protocol :: string
  rg_User :: string
  rg_GuestPort :: int
  rg_GeneratedSSHKey :: bool
  rg_GeneratedPassword :: bool
  rg_InjectionMethod :: string

record RemoteEvidencePolicy =
  rep_Required :: bool
  rep_SBOMFormat :: string
  rep_VulnerabilityScanner :: string
  rep_FailOnSeverity :: "string list"
  rep_RegistryRepository :: string

record RemoteBuildInput =
  rbi_BuildID :: string
  rbi_OperationRef :: string
  rbi_ImageName :: string
  rbi_Namespace :: string
  rbi_OSFamily :: string
  rbi_OSDistribution :: string
  rbi_OSVersion :: string
  rbi_OSArch :: string
  rbi_SourceType :: string
  rbi_SourceURL :: string
  rbi_SourceProviderRef :: string
  rbi_SourceMarketplace :: "MarketplaceRef option"
  rbi_SourceChecksum :: string
  rbi_ProviderConfigName :: string
  rbi_Format :: string
  rbi_Tags :: strmap
  rbi_Provisioners :: "RemoteProvisioner list"
  rbi_GuestAccess :: "RemoteGuestAccess option"
  rbi_Evidence :: "RemoteEvidencePolicy option"
  rbi_TimeoutSeconds :: int

record SDKRemoteImage =
  sri_Provider :: string
  sri_ProviderConfigName :: string
  sri_ImageRef :: string
  sri_ImageName :: string
  sri_Location :: string
  sri_Format :: string
  sri_Checksum :: string
  sri_Tags :: strmap

record SDKRemoteArtifact =
  sra_Path :: string
  sra_Format :: string
  sra_Checksum :: string
  sra_SizeBytes :: int
  sra_OSFamily :: string
  sra_Metadata :: strmap

record SDKRemoteResult =
  srr_OperationRef :: string
  srr_Phase :: string
  srr_Message :: string
  srr_Done :: bool
  srr_Images :: "SDKRemoteImage list"
  srr_Artifact :: "SDKRemoteArtifact option"
  srr_Hygiene :: "RemoteHygieneResult option"
  srr_Evidence :: "RemoteEvidenceResult option"

section \<open>The request\<close>

definition grpcMarketplaceRef :: "MarketplaceRef option \<Rightarrow> MarketplaceMsg option" where
  "grpcMarketplaceRef ref = map_option (\<lambda>r.
     \<lparr>mm_Publisher = mp_publisher r, mm_Offer = mp_offer r, mm_Sku = mp_sku r, mm_Version = mp_version r\<rparr>) ref"

definition grpc_git_auth :: "GitProvisionerAuthSpec \<Rightarrow> GitAuthMsg" where
  "grpc_git_auth a = \<lparr>gam_Token = ga_runtimeToken a, gam_Username = ga_runtimeUsername a, gam_Password = ga_runtimePassword a\<rparr>"

definition grpcRemoteProvisionerSource :: "ProvisionerSourceSpec option \<Rightarrow> GitSourceMsg option option" where
  "grpcRemoteProvisionerSource source = map_option (\<lambda>s. map_option (\<lambda>g.
     \<lparr>gsm_Url = git_url g, gsm_Ref = git_ref g, gsm_Path = git_path g, gsm_Auth = map_option grpc_git_auth (git_auth g)\<rparr>)
     (psrc_git s)) source"

definition grpc_provisioner :: "ProvisionerSpec \<Rightarrow> ProvisionerMsg" where
  "grpc_provisioner p =
     \<lparr>pm_Type = prov_type p, pm_Image = prov_image p, pm_Inline = prov_inline p, pm_Playbook = prov_playbook p,
      pm_Args = prov_args p, pm_ExtraVars = prov_extraVars p, pm_Source = grpcRemoteProvisionerSource (prov_source p)\<rparr>"

definition grpc_guest_access :: "GuestAccessSpec \<Rightarrow> GuestAccessMsg" where
  "grpc_guest_access g =
     (let generate = Option.bind (gac_credentials g) gc_generate;
          injection = Option.bind (gac_credentials g) gc_injection in
      \<lparr>gm_Protocol = gac_protocol g, gm_User = gac_user g, gm_GuestPort = gac_guestPort g,
       gm_GeneratedSshKey = (case generate of None \<Rightarrow> False | Some c \<Rightarrow> gg_sshKey c),
       gm_GeneratedPassword = (case generate of None \<Rightarrow> False | Some c \<Rightarrow> gg_password c),
       gm_InjectionMethod = (case injection of None \<Rightarrow> '''' | Some m \<Rightarrow> m)\<rparr>)"

definition grpc_evidence :: "EvidenceSpec \<Rightarrow> EvidencePolicyMsg" where
  "grpc_evidence e =
     \<lparr>em_Required = ev_required e, em_SbomFormat = ev_sbomFormat e, em_VulnerabilityScanner = ev_vulnerabilityScanner e,
      em_FailOnSeverity = ev_failOnSeverity e, em_RegistryRepository = ev_registryRepository e\<rparr>"

text \<open>Durations are nanoseconds; the message has whole seconds (exact below 2^22 seconds, where the floating-point
  seconds of the code have room for the nanoseconds).\<close>

definition remoteBuildProtoRequest :: "RemoteBuildRequest \<Rightarrow> RemoteBuildMsg" where
  "remoteBuildProtoRequest req =
     \<lparr>rm_BuildId = rq_BuildID req, rm_OperationRef = rq_OperationRef req, rm_ImageName = rq_ImageName req,
      rm_Namespace = rq_Namespace req, rm_OsFamily = rq_OSFamily req, rm_OsDistribution = rq_OSDistribution req,
      rm_OsVersion = rq_OSVersion req, rm_OsArch = rq_OSArch req, rm_SourceType = rq_SourceType req,
      rm_SourceUrl = rq_SourceURL req, rm_SourceProviderRef = rq_SourceProviderRef req,
      rm_SourceMarketplace = grpcMarketplaceRef (rq_SourceMarketplace req), rm_SourceChecksum = rq_SourceChecksum req,
      rm_ProviderConfigName = tgt_providerConfigRef (rq_Target req), rm_Format = tgt_format (rq_Target req),
      rm_Tags = tgt_tags (rq_Target req), rm_Provisioners = map grpc_provisioner (rq_Provisioners req),
      rm_GuestAccess = map_option grpc_guest_access (rq_GuestAccess req),
      rm_Evidence = map_option grpc_evidence (rq_Evidence req),
      rm_TimeoutSeconds = (if rq_Timeout req < 0 then - ((- rq_Timeout req) div second) else rq_Timeout req div second)\<rparr>"

definition sdkMarketplaceRef :: "MarketplaceMsg option \<Rightarrow> MarketplaceRef option" where
  "sdkMarketplaceRef ref = map_option (\<lambda>r.
     \<lparr>mp_publisher = mm_Publisher r, mp_offer = mm_Offer r, mp_sku = mm_Sku r, mp_version = mm_Version r\<rparr>) ref"

definition sdk_git_auth :: "GitAuthMsg \<Rightarrow> SDKGitAuth" where
  "sdk_git_auth a = \<lparr>sga_Token = gam_Token a, sga_Username = gam_Username a, sga_Password = gam_Password a\<rparr>"

definition sdkRemoteProvisionerSource :: "GitSourceMsg option option \<Rightarrow> SDKGitSource option option" where
  "sdkRemoteProvisionerSource source = map_option (map_option (\<lambda>g.
     \<lparr>sgs_URL = gsm_Url g, sgs_Ref = gsm_Ref g, sgs_Path = gsm_Path g, sgs_Auth = map_option sdk_git_auth (gsm_Auth g)\<rparr>)) source"

definition sdk_provisioner :: "ProvisionerMsg \<Rightarrow> RemoteProvisioner" where
  "sdk_provisioner p =
     \<lparr>rp_Type = pm_Type p, rp_Image = pm_Image p, rp_Inline = pm_Inline p, rp_Playbook = pm_Playbook p, rp_Args = pm_Args p,
      rp_ExtraVars = pm_ExtraVars p, rp_Source = sdkRemoteProvisionerSource (pm_Source p)\<rparr>"

definition sdk_guest_access :: "GuestAccessMsg \<Rightarrow> RemoteGuestAccess" where
  "sdk_guest_access g =
     \<lparr>rg_Protocol = gm_Protocol g, rg_User = gm_User g, rg_GuestPort = gm_GuestPort g, rg_GeneratedSSHKey = gm_GeneratedSshKey g,
      rg_GeneratedPassword = gm_GeneratedPassword g, rg_InjectionMethod = gm_InjectionMethod g\<rparr>"

definition sdk_evidence :: "EvidencePolicyMsg \<Rightarrow> RemoteEvidencePolicy" where
  "sdk_evidence e =
     \<lparr>rep_Required = em_Required e, rep_SBOMFormat = em_SbomFormat e, rep_VulnerabilityScanner = em_VulnerabilityScanner e,
      rep_FailOnSeverity = em_FailOnSeverity e, rep_RegistryRepository = em_RegistryRepository e\<rparr>"

definition remoteBuildInputFromProto :: "RemoteBuildMsg \<Rightarrow> RemoteBuildInput" where
  "remoteBuildInputFromProto req =
     \<lparr>rbi_BuildID = rm_BuildId req, rbi_OperationRef = rm_OperationRef req, rbi_ImageName = rm_ImageName req,
      rbi_Namespace = rm_Namespace req, rbi_OSFamily = rm_OsFamily req, rbi_OSDistribution = rm_OsDistribution req,
      rbi_OSVersion = rm_OsVersion req, rbi_OSArch = rm_OsArch req, rbi_SourceType = rm_SourceType req,
      rbi_SourceURL = rm_SourceUrl req, rbi_SourceProviderRef = rm_SourceProviderRef req,
      rbi_SourceMarketplace = sdkMarketplaceRef (rm_SourceMarketplace req), rbi_SourceChecksum = rm_SourceChecksum req,
      rbi_ProviderConfigName = rm_ProviderConfigName req, rbi_Format = rm_Format req, rbi_Tags = rm_Tags req,
      rbi_Provisioners = map sdk_provisioner (rm_Provisioners req),
      rbi_GuestAccess = map_option sdk_guest_access (rm_GuestAccess req),
      rbi_Evidence = map_option sdk_evidence (rm_Evidence req), rbi_TimeoutSeconds = rm_TimeoutSeconds req\<rparr>"

section \<open>The answer\<close>

definition remote_image_msg :: "SDKRemoteImage \<Rightarrow> RemoteImageMsg" where
  "remote_image_msg i =
     \<lparr>im_Provider = sri_Provider i, im_ProviderConfigName = sri_ProviderConfigName i, im_ImageRef = sri_ImageRef i,
      im_ImageName = sri_ImageName i, im_Location = sri_Location i, im_Format = sri_Format i, im_Checksum = sri_Checksum i,
      im_Tags = sri_Tags i\<rparr>"

definition remote_response_msg :: "SDKRemoteResult \<Rightarrow> RemoteBuildResponseMsg" where
  "remote_response_msg r =
     \<lparr>bm_OperationRef = srr_OperationRef r, bm_Phase = srr_Phase r, bm_Message = srr_Message r, bm_Done = srr_Done r,
      bm_Artifact = map_option (\<lambda>a. \<lparr>am_Path = sra_Path a, am_Format = sra_Format a, am_Checksum = sra_Checksum a,
        am_SizeBytes = sra_SizeBytes a, am_OsFamily = sra_OSFamily a, am_Metadata = sra_Metadata a\<rparr>) (srr_Artifact r),
      bm_Hygiene = map_option (\<lambda>h. \<lparr>hm_Status = rh_Status h, hm_Message = rh_Message h, hm_Checks = rh_Checks h,
        hm_ResultRef = rh_ResultRef h\<rparr>) (srr_Hygiene r),
      bm_Evidence = map_option (\<lambda>e. \<lparr>vm_Status = re_Status e, vm_Message = re_Message e, vm_SbomRef = re_SBOMRef e,
        vm_VulnerabilityReportRef = re_VulnerabilityReportRef e, vm_ProvenanceRef = re_ProvenanceRef e,
        vm_SignatureRef = re_SignatureRef e\<rparr>) (srr_Evidence r),
      bm_Images = map remote_image_msg (srr_Images r)\<rparr>"

text \<open>The status errors of the server. A provider error it regards as transient becomes \<open>Unavailable\<close>, with the
  delay the provider asked for, every other one \<open>FailedPrecondition\<close>.\<close>

definition status_error :: "nat \<Rightarrow> string \<Rightarrow> int option \<Rightarrow> go_error" where
  "status_error code m delay = Err m (no_caps\<lparr>cap_grpcStatus := Some (code, delay)\<rparr>) None"

definition remote_status :: "go_error \<Rightarrow> go_error" where
  "remote_status err =
     (if IsTransient (Some err) then
        status_error codes_Unavailable ''provider remote build is temporarily unavailable''
          (if RetryAfter (Some err) > 0 then Some (RetryAfter (Some err)) else None)
      else status_error codes_FailedPrecondition (err_msg err) None)"

record RemoteProvider =
  rpr_reconcile :: "(RemoteBuildInput \<Rightarrow> go_error + SDKRemoteResult) option"  \<comment> \<open>\<open>RemoteBuildProvider\<close>\<close>
  rpr_cleanup :: "(RemoteBuildInput \<Rightarrow> go_error + bool \<times> string) option"  \<comment> \<open>\<open>RemoteBuildCleanupProvider\<close>\<close>

definition server_ReconcileRemoteBuild :: "RemoteProvider \<Rightarrow> RemoteBuildMsg \<Rightarrow> go_error + RemoteBuildResponseMsg" where
  "server_ReconcileRemoteBuild p req =
     (case rpr_reconcile p of
        None \<Rightarrow> Inl (status_error codes_Unimplemented ''remote build is not implemented by this provider'' None)
      | Some reconcile \<Rightarrow>
          (case reconcile (remoteBuildInputFromProto req) of
             Inl err \<Rightarrow> Inl (remote_status err)
           | Inr result \<Rightarrow> Inr (remote_response_msg result)))"

definition server_CleanupRemoteBuild :: "RemoteProvider \<Rightarrow> RemoteBuildMsg \<Rightarrow> go_error + bool \<times> string" where
  "server_CleanupRemoteBuild p req =
     (case rpr_cleanup p of
        None \<Rightarrow> Inl (status_error codes_Unimplemented ''remote build cleanup is not implemented by this provider'' None)
      | Some cleanup \<Rightarrow> cleanup (remoteBuildInputFromProto req))"

section \<open>The adapter\<close>

definition remote_image_of :: "RemoteImageMsg \<Rightarrow> RemoteImageRef" where
  "remote_image_of i =
     \<lparr>ri_Provider = im_Provider i, ri_ProviderConfig = im_ProviderConfigName i, ri_ImageRef_ID = im_ImageRef i,
      ri_ImageRef_Location = im_Location i, ri_Format = im_Format i, ri_Checksum = im_Checksum i\<rparr>"

definition remote_result_of :: "RemoteBuildResponseMsg \<Rightarrow> RemoteBuildResult" where
  "remote_result_of m =
     \<lparr>rr_OperationRef = bm_OperationRef m, rr_Phase = bm_Phase m, rr_Message = bm_Message m,
      rr_Images = map remote_image_of (bm_Images m),
      rr_Artifact = map_option (\<lambda>a. \<lparr>ba_Path = am_Path a, ba_Format = am_Format a, ba_Checksum = am_Checksum a,
        ba_SizeBytes = am_SizeBytes a, ba_OS = am_OsFamily a, ba_Metadata = am_Metadata a\<rparr>) (bm_Artifact m),
      rr_Hygiene = map_option (\<lambda>h. \<lparr>rh_Status = hm_Status h, rh_Message = hm_Message h, rh_Checks = hm_Checks h,
        rh_ResultRef = hm_ResultRef h\<rparr>) (bm_Hygiene m),
      rr_Evidence = map_option (\<lambda>e. \<lparr>re_Status = vm_Status e, re_Message = vm_Message e, re_SBOMRef = vm_SbomRef e,
        re_VulnerabilityReportRef = vm_VulnerabilityReportRef e, re_ProvenanceRef = vm_ProvenanceRef e,
        re_SignatureRef = vm_SignatureRef e\<rparr>) (bm_Evidence m),
      rr_Done = bm_Done m\<rparr>"

text \<open>The calls of the adapter, with the server behind gRPC: \<open>wire\<close> is the error the client sees for an error the
  server returned.\<close>

definition adapter_ReconcileRemoteBuild ::
    "(go_error \<Rightarrow> go_error) \<Rightarrow> RemoteProvider \<Rightarrow> RemoteBuildRequest \<Rightarrow> go_error + RemoteBuildResult" where
  "adapter_ReconcileRemoteBuild wire p req =
     (case server_ReconcileRemoteBuild p (remoteBuildProtoRequest req) of
        Inl err \<Rightarrow> Inl (wrapf ''gRPC ReconcileRemoteBuild: '' (wire err))
      | Inr resp \<Rightarrow> Inr (remote_result_of resp))"

definition adapter_CleanupRemoteBuild :: "(go_error \<Rightarrow> go_error) \<Rightarrow> RemoteProvider \<Rightarrow> RemoteBuildRequest \<Rightarrow> go_error option" where
  "adapter_CleanupRemoteBuild wire p req =
     (case server_CleanupRemoteBuild p (remoteBuildProtoRequest req) of
        Inl err \<Rightarrow> Some (wrapf ''gRPC CleanupRemoteBuild: '' (wire err)) | Inr _ \<Rightarrow> None)"

section \<open>Properties\<close>

text \<open>What the code relies on of gRPC: a status error of the server reaches the client as the same
  status.\<close>

definition delivers_statuses :: "(go_error \<Rightarrow> go_error) \<Rightarrow> bool" where
  "delivers_statuses wire \<longleftrightarrow> (\<forall>code m delay. code \<noteq> codes_OK \<longrightarrow> wire (status_error code m delay) = status_error code m delay)"

lemma status_error_class [simp]:
  "errors_as cap_transient (status_error code m delay) = None"
  "errors_as cap_retryAfter (status_error code m delay) = None"
  "errors_as cap_grpcStatus (status_error code m delay) = Some (code, delay)"
  "errors_as cap_netTimeout (status_error code m delay) = None"
  "errors_as cap_httpStatusCode (status_error code m delay) = None"
  "errors_as cap_statusCode (status_error code m delay) = None"
  "errors_as cap_errorCode (status_error code m delay) = None"
  "\<not> errors_is cap_deadlineExceeded (status_error code m delay)"
  "\<not> errors_is cap_canceled (status_error code m delay)"
  by (simp_all add: status_error_def errors_as_Err errors_is_Err)

lemma IsTransient_status:
  "code \<notin> {codes_OK, codes_Unknown} \<Longrightarrow> IsTransient (Some (status_error code m delay)) \<longleftrightarrow>
     code \<in> {codes_Unavailable, codes_DeadlineExceeded, codes_ResourceExhausted, codes_Aborted}"
  by (simp add: IsTransient_def genericTransient_def status_Code_def Let_def)

lemma RetryAfter_status: "RetryAfter (Some (status_error code m delay)) = (case delay of None \<Rightarrow> 0 | Some d \<Rightarrow> d)"
  by (simp add: RetryAfter_def split: option.split)

text \<open>C34: The class of a remote-build error survives the transport: for every error of an external provider, whatever
  makes it transient there, the error the controller gets from the adapter is transient exactly when the
  provider's is, and then carries the same retry delay (none when it was not positive).\<close>

theorem remote_error_class_preserved:
  assumes "rpr_reconcile p = Some reconcile"
    and "reconcile (remoteBuildInputFromProto (remoteBuildProtoRequest req)) = Inl err"
    and "delivers_statuses wire"
  shows "\<exists>e. adapter_ReconcileRemoteBuild wire p req = Inl e \<and> IsTransient (Some e) = IsTransient (Some err)
    \<and> RetryAfter (Some e) = (if IsTransient (Some err) \<and> RetryAfter (Some err) > 0 then RetryAfter (Some err) else 0)"
proof -
  let ?e = "remote_status err"
  have "wire ?e = ?e" using assms(3) by (simp add: delivers_statuses_def remote_status_def)
  with assms(1,2) have "adapter_ReconcileRemoteBuild wire p req = Inl (wrapf ''gRPC ReconcileRemoteBuild: '' ?e)"
    by (simp add: adapter_ReconcileRemoteBuild_def server_ReconcileRemoteBuild_def)
  then show ?thesis
    by (simp add: remote_status_def IsTransient_status RetryAfter_status)
qed

text \<open>A request for the witnesses, and two providers.\<close>

definition ex_remote_request :: RemoteBuildRequest where
  "ex_remote_request =
     \<lparr>rq_BuildID = ''b'', rq_OperationRef = ''op'', rq_ImageName = ''image'', rq_Namespace = ''ns'', rq_OSFamily = ''linux'',
      rq_OSDistribution = ''ubuntu'', rq_OSVersion = ''24.04'', rq_OSArch = ''amd64'', rq_SourceType = ''marketplace'',
      rq_SourceURL = '''', rq_SourceProviderRef = '''',
      rq_SourceMarketplace = Some \<lparr>mp_publisher = ''p'', mp_offer = ''o'', mp_sku = ''s'', mp_version = ''1''\<rparr>,
      rq_SourceChecksum = '''',
      rq_Target = \<lparr>tgt_providerConfigRef = ''pc'', tgt_format = ''ami'', tgt_tags = Map.empty\<rparr>,
      rq_Provisioners = [], rq_GuestAccess = None, rq_Evidence = None, rq_Timeout = 90500000000\<rparr>"

definition slow_down :: go_error where
  "slow_down = classifiedError (errorf ''slow down'') True 7000000000"

definition ex_throttled :: RemoteProvider where
  "ex_throttled = \<lparr>rpr_reconcile = Some (\<lambda>input. Inl slow_down), rpr_cleanup = None\<rparr>"



theorem remote_error_class_preserved_witness:
  "case adapter_ReconcileRemoteBuild id ex_throttled ex_remote_request of
     Inl e \<Rightarrow> IsTransient (Some e) \<and> RetryAfter (Some e) = 7000000000
   | Inr r \<Rightarrow> False"
  using remote_error_class_preserved [of ex_throttled "\<lambda>input. Inl slow_down" ex_remote_request slow_down id]
  by (auto simp: ex_throttled_def slow_down_def delivers_statuses_def RetryAfter_def)



end
