(* ===== verification/Provider_Transport.thy ===== *)
theory Provider_Transport
  imports Provider_Messages Artifact_Stream
begin

text \<open>
  The upload stream between the adapter of the operator (\<open>pkg/plugin/grpc/adapter.go\<close>, \<open>Upload\<close> and
  \<open>UploadResumable\<close>) and the server of the provider SDK (\<open>pkg/provider/sdk/server.go\<close>,
  \<open>UploadArtifact\<close>): the chunks the adapter cuts an artifact into, the session the two sides agree on, the
  checks of the server on every chunk, the pipe it passes the bytes through, and the progress messages back.

  gRPC is a parameter: whether a message can be sent, and the error a client sees for an error of the
  server. The provider's own upload is a \<open>consumer\<close>, which reads from the body, reports progress and finishes, and
  whose continuation may depend on every answer. The server's copying goroutine writes to an unbuffered
  pipe: a write returns when the body has been read so far, so what it does is the list of writes of the chunks
  it received, and the consumer takes them from the front.
\<close>

section \<open>Messages\<close>

record UploadChunk =
  uc_Data :: string
  uc_Offset :: int
  uc_Format :: string
  uc_Checksum :: string
  uc_TotalSizeBytes :: int
  uc_OsFamily :: string
  uc_Metadata :: strmap
  uc_ProviderConfigName :: string
  uc_Last :: bool
  uc_IdempotencyKey :: string
  uc_SessionToken :: string
  uc_ResumeOffset :: int

record UploadProgressMsg =
  um_BytesWritten :: int
  um_TotalBytes :: int
  um_Phase :: string
  um_Message :: string
  um_ProviderRef :: string
  um_SessionToken :: string
  um_CommittedOffset :: int
  um_ResumeMode :: string

text \<open>\<open>UploadSession\<close> of the SDK; the plugin interface has a type with the same fields.\<close>

record UploadSession =
  uss_IdempotencyKey :: string
  uss_ResumeToken :: string
  uss_CommittedOffset :: int
  uss_ResumeMode :: string

record ArtifactInfo =
  ai_Format :: string
  ai_Checksum :: string
  ai_TotalSizeBytes :: int
  ai_OSFamily :: string
  ai_Metadata :: strmap
  ai_ProviderConfigName :: string
  ai_IdempotencyKey :: string

record SDKUploadResult =
  sur_ProviderRef :: string
  sur_Metadata :: strmap

record ProgressReport =
  pg_BytesWritten :: int
  pg_TotalBytes :: int
  pg_Phase :: string
  pg_Message :: string
  pg_SessionToken :: string
  pg_CommittedOffset :: int
  pg_ResumeMode :: string

section \<open>The chunks of an artifact\<close>

text \<open>The first chunk from the start of the artifact describes it.\<close>

definition chunk_of :: "BuildArtifact \<Rightarrow> bool \<Rightarrow> string \<Rightarrow> int \<Rightarrow> bool \<Rightarrow> UploadChunk" where
  "chunk_of a first d offset final =
     \<lparr>uc_Data = d, uc_Offset = offset, uc_Format = (if first then ba_Format a else ''''),
      uc_Checksum = (if first then ba_Checksum a else ''''), uc_TotalSizeBytes = (if first then ba_SizeBytes a else 0),
      uc_OsFamily = (if first then ba_OS a else ''''), uc_Metadata = (if first then ba_Metadata a else Map.empty),
      uc_ProviderConfigName = (if first then get_str (ba_Metadata a) ''providerConfigName'' else ''''),
      uc_Last = final, uc_IdempotencyKey = '''', uc_SessionToken = '''', uc_ResumeOffset = 0\<rparr>"

text \<open>The loop over the reads of the file. \<open>send i\<close> is the outcome of sending chunk \<open>i\<close>; the result is the chunks sent
  and the offset reached.\<close>

definition final_chunk ::
    "(nat \<Rightarrow> go_error option) \<Rightarrow> BuildArtifact \<Rightarrow> int \<Rightarrow> bool \<Rightarrow> bool \<Rightarrow> nat \<Rightarrow> UploadChunk list \<times> (go_error + int)" where
  "final_chunk send a offset first sentLast i =
     (if sentLast then ([], Inr offset)
      else (case send i of
              Some err \<Rightarrow> ([], Inl (wrapf (''send final chunk at offset '' @ show_int offset @ '': '') err))
            | None \<Rightarrow> ([chunk_of a first [] offset True], Inr offset)))"

fun send_chunks ::
    "(nat \<Rightarrow> go_error option) \<Rightarrow> BuildArtifact \<Rightarrow> source \<Rightarrow> int \<Rightarrow> bool \<Rightarrow> bool \<Rightarrow> nat \<Rightarrow> UploadChunk list \<times> (go_error + int)" where
  "send_chunks send a [] offset first sentLast i = final_chunk send a offset first sentLast i"
| "send_chunks send a ((d, e) # rest) offset first sentLast i =
     (if d \<noteq> [] then
        (case send i of
           Some err \<Rightarrow> ([], Inl (wrapf (''send chunk at offset '' @ show_int offset @ '': '') err))
         | None \<Rightarrow>
             (let reached = offset + int (length d);
                  (chunks, r) = (case e of
                     EOF \<Rightarrow> final_chunk send a reached False True (Suc i)
                   | ReadFails err \<Rightarrow> ([], Inl (wrapf (''read artifact at offset '' @ show_int reached @ '': '') err))
                   | More \<Rightarrow> send_chunks send a rest reached False False (Suc i)) in
              (chunk_of a first d offset (e = EOF) # chunks, r)))
      else (case e of
              EOF \<Rightarrow> final_chunk send a offset first sentLast i
            | ReadFails err \<Rightarrow> ([], Inl (wrapf (''read artifact at offset '' @ show_int offset @ '': '') err))
            | More \<Rightarrow> send_chunks send a rest offset first sentLast i))"

text \<open>A file, opened by its path, gives a source when it is positioned.\<close>

type_synonym artifact_files = "string \<Rightarrow> go_error + (int \<Rightarrow> go_error + source)"

definition streamArtifactFromOffset ::
    "artifact_files \<Rightarrow> (nat \<Rightarrow> go_error option) \<Rightarrow> BuildArtifact \<Rightarrow> int \<Rightarrow> UploadChunk list \<times> go_error option" where
  "streamArtifactFromOffset openFile send a offset =
     (case openFile (ba_Path a) of
        Inl err \<Rightarrow> ([], Some (wrapf (''open artifact '' @ ba_Path a @ '': '') err))
      | Inr seek \<Rightarrow>
          if offset < 0 \<or> offset > ba_SizeBytes a then
            ([], Some (errorf (''resume offset '' @ show_int offset @ '' is outside artifact size '' @ show_int (ba_SizeBytes a))))
          else (case seek offset of
            Inl err \<Rightarrow> ([], Some (wrapf (''seek artifact to offset '' @ show_int offset @ '': '') err))
          | Inr src \<Rightarrow>
              (case send_chunks send a src offset (offset = 0) False 0 of
                 (chunks, Inl err) \<Rightarrow> (chunks, Some err)
               | (chunks, Inr reached) \<Rightarrow>
                   (chunks, if reached \<noteq> ba_SizeBytes a then
                      Some (errorf (''artifact ended at offset '' @ show_int reached @ '', want declared size '' @ show_int (ba_SizeBytes a)))
                    else None))))"

definition streamArtifact ::
    "artifact_files \<Rightarrow> (nat \<Rightarrow> go_error option) \<Rightarrow> BuildArtifact \<Rightarrow> UploadChunk list \<times> go_error option" where
  "streamArtifact openFile send a = streamArtifactFromOffset openFile send a 0"

section \<open>Receiving the chunks\<close>

text \<open>One chunk: what is written to the pipe, and the next offset or an error.\<close>

definition writeChunk :: "int \<Rightarrow> int \<Rightarrow> UploadChunk \<Rightarrow> string list \<times> (go_error + int)" where
  "writeChunk totalSize expectedOffset chunk =
     (if uc_Offset chunk \<noteq> expectedOffset then
        ([], Inl (errorf (''upload chunk offset '' @ show_int (uc_Offset chunk) @ '' does not match expected offset '' @ show_int expectedOffset)))
      else if int (length (uc_Data chunk)) > totalSize - expectedOffset then
        ([], Inl (errorf (''upload chunk at offset '' @ show_int expectedOffset @ '' exceeds artifact size '' @ show_int totalSize)))
      else
        (let reached = expectedOffset + int (length (uc_Data chunk));
             written = (if uc_Data chunk \<noteq> [] then [uc_Data chunk] else []) in
         (written,
          if uc_Last chunk \<and> reached \<noteq> totalSize then
            Inl (errorf (''final upload chunk ended at offset '' @ show_int reached @ '', want '' @ show_int totalSize))
          else Inr reached)))"

text \<open>The copying loop over what \<open>Recv\<close> returns, which is \<open>io.EOF\<close> behind the list: the writes, the error the
  writer is closed with, and the result.\<close>

fun copy_loop ::
    "int \<Rightarrow> int \<Rightarrow> (go_error + UploadChunk) list \<Rightarrow> string list \<times> go_error option \<times> go_error option" where
  "copy_loop totalSize expectedOffset [] =
     (let err = errorf (''upload stream ended at offset '' @ show_int expectedOffset @ '' without final chunk'') in
      ([], Some err, Some err))"
| "copy_loop totalSize expectedOffset (Inl err # rest) = ([], Some err, Some (wrapf ''receive upload chunk: '' err))"
| "copy_loop totalSize expectedOffset (Inr chunk # rest) =
     (case writeChunk totalSize expectedOffset chunk of
        (w, Inl err) \<Rightarrow> (w, Some err, Some err)
      | (w, Inr reached) \<Rightarrow>
          if uc_Last chunk then (w, None, None)
          else (case copy_loop totalSize reached rest of (ws, r) \<Rightarrow> (w @ ws, r)))"

definition copyUploadChunks ::
    "UploadChunk \<Rightarrow> int \<Rightarrow> int \<Rightarrow> bool \<Rightarrow> (go_error + UploadChunk) list \<Rightarrow> string list \<times> go_error option \<times> go_error option" where
  "copyUploadChunks first totalSize startOffset sessionProtocol recvs =
     copy_loop totalSize startOffset (if sessionProtocol then recvs else Inr first # recvs)"

section \<open>The provider's upload\<close>

datatype consumer =
    Finish "go_error + SDKUploadResult"
  | ReadBody nat "string \<times> read_end \<Rightarrow> consumer"  \<comment> \<open>with the size of the buffer\<close>
  | ReportProgress ProgressReport "go_error option \<Rightarrow> consumer"

text \<open>\<open>io.Pipe\<close>: a read takes at most its buffer's size from the current write; behind the writes it returns the error
  the writer was closed with.\<close>

definition pipe_read :: "nat \<Rightarrow> string list \<Rightarrow> go_error option \<Rightarrow> (string \<times> read_end) \<times> string list" where
  "pipe_read n writes closing =
     (case writes of
        [] \<Rightarrow> (([], case closing of None \<Rightarrow> EOF | Some err \<Rightarrow> ReadFails err), [])
      | w # ws \<Rightarrow> ((take n w, More), if drop n w = [] then ws else drop n w # ws))"

text \<open>\<open>uploadProgressReporter.Report\<close>.\<close>

definition progress_message :: "UploadSession \<Rightarrow> ProgressReport \<Rightarrow> UploadProgressMsg" where
  "progress_message session progress =
     \<lparr>um_BytesWritten = pg_BytesWritten progress, um_TotalBytes = pg_TotalBytes progress, um_Phase = pg_Phase progress,
      um_Message = pg_Message progress, um_ProviderRef = '''',
      um_SessionToken = (if pg_SessionToken progress \<noteq> '''' then pg_SessionToken progress else uss_ResumeToken session),
      um_CommittedOffset =
        (if uss_ResumeMode session = ''offset'' then
           (if pg_CommittedOffset progress = 0 then pg_BytesWritten progress else pg_CommittedOffset progress)
         else 0),
      um_ResumeMode = (if pg_ResumeMode progress \<noteq> '''' then pg_ResumeMode progress else uss_ResumeMode session)\<rparr>"

text \<open>A run of the consumer: its result, the writes it has not taken, the bytes it has read, and the messages
  sent.\<close>

record consumer_run =
  cr_result :: "go_error + SDKUploadResult"
  cr_unread :: "string list"
  cr_read :: string
  cr_sent :: "UploadProgressMsg list"

primrec run_consumer ::
    "(UploadProgressMsg \<Rightarrow> go_error option) \<Rightarrow> UploadSession \<Rightarrow> go_error option \<Rightarrow> consumer \<Rightarrow> string list \<Rightarrow> consumer_run" where
  "run_consumer send session closing (Finish r) =
     (\<lambda>writes. \<lparr>cr_result = r, cr_unread = writes, cr_read = [], cr_sent = []\<rparr>)"
| "run_consumer send session closing (ReadBody n k) =
     (\<lambda>writes.
        let (answer, writes') = pipe_read n writes closing;
            run = run_consumer send session closing (k answer) writes' in
        run\<lparr>cr_read := fst answer @ cr_read run\<rparr>)"
| "run_consumer send session closing (ReportProgress p k) =
     (\<lambda>writes.
        let m = progress_message session p;
            run = run_consumer send session closing (k (send m)) writes in
        if send m = None then run\<lparr>cr_sent := m # cr_sent run\<rparr> else run)"

section \<open>The session\<close>

definition validateUploadSession :: "UploadSession \<Rightarrow> int \<Rightarrow> go_error option" where
  "validateUploadSession session totalSize =
     (if uss_IdempotencyKey session = '''' \<or> uss_ResumeToken session = '''' then
        Some (errorf ''upload session idempotency key and resume token are required'')
      else if uss_ResumeMode session \<noteq> ''restart'' \<and> uss_ResumeMode session \<noteq> ''offset'' then
        Some (errorf (''unsupported upload resume mode '' @ quoted (uss_ResumeMode session)))
      else if uss_CommittedOffset session < 0 \<or> uss_CommittedOffset session > totalSize then
        Some (errorf (''committed offset '' @ show_int (uss_CommittedOffset session) @ '' is outside artifact size '' @ show_int totalSize))
      else if uss_ResumeMode session = ''restart'' \<and> uss_CommittedOffset session \<noteq> 0 then
        Some (errorf ''restart upload session must begin at offset zero'')
      else None)"

text \<open>A provider of the SDK, as far as uploads go; \<open>ResumableProvider\<close> is optional.\<close>

record UploadProvider =
  upv_upload :: "ArtifactInfo \<Rightarrow> consumer"
  upv_resumable :: "((ArtifactInfo \<Rightarrow> UploadSession \<Rightarrow> go_error + UploadSession) \<times> (ArtifactInfo \<Rightarrow> UploadSession \<Rightarrow> consumer)) option"

definition artifact_info :: "UploadChunk \<Rightarrow> ArtifactInfo" where
  "artifact_info first =
     \<lparr>ai_Format = uc_Format first, ai_Checksum = uc_Checksum first, ai_TotalSizeBytes = uc_TotalSizeBytes first,
      ai_OSFamily = uc_OsFamily first, ai_Metadata = uc_Metadata first,
      ai_ProviderConfigName = uc_ProviderConfigName first, ai_IdempotencyKey = uc_IdempotencyKey first\<rparr>"

definition no_session :: UploadSession where
  "no_session = \<lparr>uss_IdempotencyKey = '''', uss_ResumeToken = '''', uss_CommittedOffset = 0, uss_ResumeMode = ''''\<rparr>"

text \<open>The session part of \<open>UploadArtifact\<close> for a first chunk with an idempotency key.\<close>

definition open_session :: "UploadProvider \<Rightarrow> UploadChunk \<Rightarrow> go_error + UploadSession" where
  "open_session p first =
     (let artifact = artifact_info first;
          requested = \<lparr>uss_IdempotencyKey = uc_IdempotencyKey first, uss_ResumeToken = uc_SessionToken first,
            uss_CommittedOffset = uc_ResumeOffset first, uss_ResumeMode = ''restart''\<rparr> in
      if uss_CommittedOffset requested < 0 \<or> uss_CommittedOffset requested > ai_TotalSizeBytes artifact then
        Inl (errorf (''resume offset '' @ show_int (uss_CommittedOffset requested) @ '' is outside artifact size '' @
          show_int (ai_TotalSizeBytes artifact)))
      else
        result_bind
          (case upv_resumable p of
             Some (prepare, _) \<Rightarrow> map_error (wrapf ''prepare resumable upload: '') (prepare artifact requested)
           | None \<Rightarrow> Inr (requested\<lparr>uss_ResumeToken := uss_IdempotencyKey requested, uss_CommittedOffset := 0\<rparr>))
          (\<lambda>session. case validateUploadSession session (ai_TotalSizeBytes artifact) of
             Some err \<Rightarrow> Inl err | None \<Rightarrow> Inr session))"

definition acknowledgement :: "UploadSession \<Rightarrow> int \<Rightarrow> UploadProgressMsg" where
  "acknowledgement session totalSize =
     \<lparr>um_BytesWritten = 0, um_TotalBytes = totalSize, um_Phase = ''session'', um_Message = ''upload session accepted'',
      um_ProviderRef = '''', um_SessionToken = uss_ResumeToken session, um_CommittedOffset = uss_CommittedOffset session,
      um_ResumeMode = uss_ResumeMode session\<rparr>"

section \<open>The handler\<close>

text \<open>The handler returns, or it waits for its copying goroutine, which waits for a reader.\<close>

datatype outcome = Returned "go_error option" | Blocked

record handler_run =
  hr_sent :: "UploadProgressMsg list"
  hr_read :: string
  hr_outcome :: outcome

definition done_message :: "UploadSession \<Rightarrow> int \<Rightarrow> SDKUploadResult \<Rightarrow> UploadProgressMsg" where
  "done_message session totalSize result =
     \<lparr>um_BytesWritten = totalSize, um_TotalBytes = totalSize, um_Phase = ''done'', um_Message = ''upload completed'',
      um_ProviderRef = sur_ProviderRef result,
      um_SessionToken = (if get_str (sur_Metadata result) ''upload.sessionToken'' \<noteq> ''''
        then get_str (sur_Metadata result) ''upload.sessionToken'' else uss_ResumeToken session),
      um_CommittedOffset = totalSize, um_ResumeMode = uss_ResumeMode session\<rparr>"

text \<open>From the pipe on: \<open>recvs\<close> is what the client sends after the first chunk, or after the acknowledgement.\<close>

definition transfer ::
    "(UploadProgressMsg \<Rightarrow> go_error option) \<Rightarrow> UploadProvider \<Rightarrow> UploadChunk \<Rightarrow> UploadSession \<Rightarrow> (go_error + UploadChunk) list \<Rightarrow> handler_run" where
  "transfer send p first session recvs =
     (let artifact = artifact_info first;
          totalSize = ai_TotalSizeBytes artifact;
          sessionProtocol = (uc_IdempotencyKey first \<noteq> '''');
          (writes, closing, copyErr) =
            copyUploadChunks first totalSize (uss_CommittedOffset session) sessionProtocol recvs;
          body = (case upv_resumable p of
             Some (_, resume) \<Rightarrow> if sessionProtocol then resume artifact session else upv_upload p artifact
           | None \<Rightarrow> upv_upload p artifact);
          run = run_consumer send session closing body writes in
      case cr_result run of
        Inl err \<Rightarrow> \<lparr>hr_sent = cr_sent run, hr_read = cr_read run, hr_outcome = Returned (Some err)\<rparr>
      | Inr result \<Rightarrow>
          if cr_unread run \<noteq> [] then \<lparr>hr_sent = cr_sent run, hr_read = cr_read run, hr_outcome = Blocked\<rparr>
          else (case copyErr of
            Some err \<Rightarrow> \<lparr>hr_sent = cr_sent run, hr_read = cr_read run, hr_outcome = Returned (Some err)\<rparr>
          | None \<Rightarrow>
              if sur_ProviderRef result = '''' then
                \<lparr>hr_sent = cr_sent run, hr_read = cr_read run,
                 hr_outcome = Returned (Some (errorf ''upload result provider ref is required''))\<rparr>
              else
                (let m = done_message session totalSize result in
                 \<lparr>hr_sent = cr_sent run @ (if send m = None then [m] else []), hr_read = cr_read run,
                  hr_outcome = Returned (send m)\<rparr>)))"

text \<open>What the client sends after the first chunk may depend on the acknowledgement.\<close>

definition server_UploadArtifact ::
    "(UploadProgressMsg \<Rightarrow> go_error option) \<Rightarrow> UploadProvider \<Rightarrow> go_error + UploadChunk \<Rightarrow>
     (UploadProgressMsg option \<Rightarrow> (go_error + UploadChunk) list) \<Rightarrow> handler_run" where
  "server_UploadArtifact send p received later =
     (let failed = (\<lambda>err. \<lparr>hr_sent = [], hr_read = [], hr_outcome = Returned (Some err)\<rparr>) in
      case received of
        Inl err \<Rightarrow> failed (wrapf ''receive first upload chunk: '' err)
      | Inr first \<Rightarrow>
          if uc_TotalSizeBytes first < 0 then failed (errorf ''upload total size must not be negative'')
          else if uc_IdempotencyKey first = '''' then transfer send p first no_session (later None)
          else (case open_session p first of
            Inl err \<Rightarrow> failed err
          | Inr session \<Rightarrow>
              (let ack = acknowledgement session (uc_TotalSizeBytes first) in
               case send ack of
                 Some err \<Rightarrow> failed (wrapf ''acknowledge upload session: '' err)
               | None \<Rightarrow>
                   (let run = transfer send p first session (later (Some ack)) in
                    run\<lparr>hr_sent := ack # hr_sent run\<rparr>))))"

section \<open>The adapter\<close>

definition upload_header :: "BuildArtifact \<Rightarrow> UploadSession \<Rightarrow> UploadChunk" where
  "upload_header a session =
     \<lparr>uc_Data = '''', uc_Offset = uss_CommittedOffset session, uc_Format = ba_Format a, uc_Checksum = ba_Checksum a,
      uc_TotalSizeBytes = ba_SizeBytes a, uc_OsFamily = ba_OS a, uc_Metadata = ba_Metadata a,
      uc_ProviderConfigName = get_str (ba_Metadata a) ''providerConfigName'', uc_Last = False,
      uc_IdempotencyKey = uss_IdempotencyKey session, uc_SessionToken = uss_ResumeToken session,
      uc_ResumeOffset = uss_CommittedOffset session\<rparr>"

definition validateAcceptedSession :: "UploadSession \<Rightarrow> int \<Rightarrow> go_error option" where
  "validateAcceptedSession session totalSize =
     (if uss_ResumeToken session = '''' then Some (errorf ''gRPC provider returned an empty upload session token'')
      else if uss_ResumeMode session \<noteq> ''restart'' \<and> uss_ResumeMode session \<noteq> ''offset'' then
        Some (errorf (''gRPC provider returned unsupported upload resume mode '' @ quoted (uss_ResumeMode session)))
      else if uss_CommittedOffset session < 0 \<or> uss_CommittedOffset session > totalSize then
        Some (errorf (''gRPC provider returned committed offset '' @ show_int (uss_CommittedOffset session) @
          '' outside artifact size '' @ show_int totalSize))
      else if uss_ResumeMode session = ''restart'' \<and> uss_CommittedOffset session \<noteq> 0 then
        Some (errorf (''gRPC restart session returned non-zero committed offset '' @ show_int (uss_CommittedOffset session)))
      else None)"

definition accepted_session :: "UploadSession \<Rightarrow> int \<Rightarrow> UploadProgressMsg \<Rightarrow> go_error + UploadSession" where
  "accepted_session session totalSize ack =
     (if um_Phase ack \<noteq> ''session'' then
        Inl (errorf (''gRPC provider returned phase '' @ quoted (um_Phase ack) @ '' before upload session acknowledgement''))
      else
        (let accepted = \<lparr>uss_IdempotencyKey = uss_IdempotencyKey session, uss_ResumeToken = um_SessionToken ack,
               uss_CommittedOffset = um_CommittedOffset ack, uss_ResumeMode = um_ResumeMode ack\<rparr> in
         case validateAcceptedSession accepted totalSize of Some err \<Rightarrow> Inl err | None \<Rightarrow> Inr accepted))"

text \<open>The answers after the stream: every one is a checkpoint; the last committed offset is the one of the
  accepted session. The sessions given to the callback are part of the result; \<open>finish\<close> is how the stream
  ends.\<close>

definition next_session :: "UploadSession \<Rightarrow> UploadProgressMsg \<Rightarrow> UploadSession" where
  "next_session accepted progress =
     accepted\<lparr>uss_CommittedOffset := um_CommittedOffset progress,
       uss_ResumeToken := (if um_SessionToken progress \<noteq> '''' then um_SessionToken progress else uss_ResumeToken accepted)\<rparr>"

definition next_ref :: "string \<Rightarrow> UploadProgressMsg \<Rightarrow> string" where
  "next_ref ref progress = (if um_ProviderRef progress \<noteq> '''' then um_ProviderRef progress else ref)"

fun receive_progress ::
    "(UploadSession \<Rightarrow> go_error option) option \<Rightarrow> int \<Rightarrow> go_error option \<Rightarrow> UploadSession \<Rightarrow> string \<Rightarrow>
     UploadProgressMsg list \<Rightarrow> UploadSession list \<times> (go_error + string)" where
  "receive_progress checkpoint totalSize finish accepted providerRef [] =
     ([], case finish of Some err \<Rightarrow> Inl (wrapf ''gRPC UploadArtifact recv: '' err) | None \<Rightarrow> Inr providerRef)"
| "receive_progress checkpoint totalSize finish accepted providerRef (progress # rest) =
     (if um_CommittedOffset progress < uss_CommittedOffset accepted \<or> um_CommittedOffset progress > totalSize then
        ([], Inl (errorf (''gRPC provider returned invalid committed offset '' @ show_int (um_CommittedOffset progress) @ '' after '' @
          show_int (uss_CommittedOffset accepted))))
      else
        (case checkpoint of
           None \<Rightarrow> receive_progress checkpoint totalSize finish (next_session accepted progress) (next_ref providerRef progress) rest
         | Some persist \<Rightarrow>
             (case persist (next_session accepted progress) of
                Some err \<Rightarrow> ([next_session accepted progress], Inl (wrapf ''persist upload checkpoint: '' err))
              | None \<Rightarrow>
                  (case receive_progress checkpoint totalSize finish (next_session accepted progress) (next_ref providerRef progress) rest of
                     (ss, r) \<Rightarrow> (next_session accepted progress # ss, r)))))"

definition upload_result :: "BuildArtifact \<Rightarrow> go_error + string \<Rightarrow> go_error + SDKUploadResult" where
  "upload_result a r =
     (case r of Inl err \<Rightarrow> Inl err
      | Inr ref \<Rightarrow>
          if ref = '''' then Inl (errorf ''gRPC provider did not return a provider_ref after upload'')
          else Inr \<lparr>sur_ProviderRef = ref, sur_Metadata = ba_Metadata a\<rparr>)"

text \<open>The legacy upload reads progress without checkpoints or checks.\<close>

fun last_ref :: "string \<Rightarrow> UploadProgressMsg list \<Rightarrow> string" where
  "last_ref ref [] = ref"
| "last_ref ref (m # ms) = last_ref (if um_ProviderRef m \<noteq> '''' then um_ProviderRef m else ref) ms"

text \<open>The answers of a server of the SDK to a stream without a session; a handler that blocks leaves the client
  waiting (\<open>None\<close>). \<open>wire\<close> is the error the client sees for an error of the handler.\<close>

definition adapter_Upload ::
    "(go_error \<Rightarrow> go_error) \<Rightarrow> UploadProvider \<Rightarrow> artifact_files \<Rightarrow> BuildArtifact \<Rightarrow> (go_error + SDKUploadResult) option" where
  "adapter_Upload wire p openFile a =
     (case streamArtifact openFile (\<lambda>i. None) a of
        (chunks, Some err) \<Rightarrow> Some (Inl (wrapf ''stream artifact: '' err))
      | (chunks, None) \<Rightarrow>
          (let run = server_UploadArtifact (\<lambda>m. None) p
                 (case chunks of [] \<Rightarrow> Inl (errorf ''EOF'') | c # _ \<Rightarrow> Inr c) (\<lambda>ack. map Inr (tl chunks)) in
           case hr_outcome run of
             Blocked \<Rightarrow> None
           | Returned (Some err) \<Rightarrow> Some (Inl (wrapf ''gRPC UploadArtifact recv: '' (wire err)))
           | Returned None \<Rightarrow> Some (upload_result a (Inr (last_ref '''' (hr_sent run))))))"

text \<open>The resumable upload against a server of the SDK: it sends the header, streams from the acknowledged offset, and
  reads the answers when the stream is closed. A client that gives up ends the stream with an error.\<close>

definition gives_up :: "(go_error + UploadChunk) list" where
  "gives_up = [Inl (errorf ''canceled'')]"

definition client_stream ::
    "artifact_files \<Rightarrow> (UploadSession \<Rightarrow> go_error option) option \<Rightarrow> BuildArtifact \<Rightarrow> UploadSession \<Rightarrow>
     UploadProgressMsg option \<Rightarrow> (go_error + UploadChunk) list" where
  "client_stream openFile checkpoint a session ack =
     (case ack of None \<Rightarrow> gives_up
      | Some m \<Rightarrow>
          (case accepted_session session (ba_SizeBytes a) m of
             Inl err \<Rightarrow> gives_up
           | Inr accepted \<Rightarrow>
               if (case checkpoint of None \<Rightarrow> None | Some persist \<Rightarrow> persist accepted) \<noteq> None then gives_up
               else (case streamArtifactFromOffset openFile (\<lambda>i. None) a (uss_CommittedOffset accepted) of
                       (chunks, None) \<Rightarrow> map Inr chunks
                     | (chunks, Some err) \<Rightarrow> map Inr chunks @ gives_up)))"

definition session_upload ::
    "(go_error \<Rightarrow> go_error) \<Rightarrow> UploadProvider \<Rightarrow> artifact_files \<Rightarrow> (UploadSession \<Rightarrow> go_error option) option \<Rightarrow>
     BuildArtifact \<Rightarrow> UploadSession \<Rightarrow> (UploadSession list \<times> (go_error + SDKUploadResult)) option" where
  "session_upload wire p openFile checkpoint a session =
     (if uss_IdempotencyKey session = '''' then Some ([], Inl (errorf ''upload idempotency key is required''))
      else
        (let run = server_UploadArtifact (\<lambda>m. None) p (Inr (upload_header a session)) (client_stream openFile checkpoint a session) in
         case hr_sent run of
           [] \<Rightarrow>
             (case hr_outcome run of
                Blocked \<Rightarrow> None
              | Returned e \<Rightarrow>
                  Some ([], Inl (wrapf ''receive upload session acknowledgement: ''
                    (case e of None \<Rightarrow> errorf ''EOF'' | Some err \<Rightarrow> wire err))))
         | ack # progress \<Rightarrow>
             (case accepted_session session (ba_SizeBytes a) ack of
                Inl err \<Rightarrow> Some ([], Inl err)
              | Inr accepted \<Rightarrow>
                  (let (first, persisted) =
                     (case checkpoint of None \<Rightarrow> ([], None) | Some persist \<Rightarrow> ([accepted], persist accepted)) in
                   case persisted of
                     Some err \<Rightarrow> Some (first, Inl (wrapf ''persist upload session acknowledgement: '' err))
                   | None \<Rightarrow>
                       (case streamArtifactFromOffset openFile (\<lambda>i. None) a (uss_CommittedOffset accepted) of
                          (chunks, Some err) \<Rightarrow> Some (first, Inl (wrapf ''stream artifact: '' err))
                        | (chunks, None) \<Rightarrow>
                            (case hr_outcome run of
                               Blocked \<Rightarrow> None
                             | Returned e \<Rightarrow>
                                 (case receive_progress checkpoint (ba_SizeBytes a) (map_option wire e) accepted '''' progress of
                                    (ss, r) \<Rightarrow> Some (first @ ss, upload_result a r))))))))"

text \<open>\<open>UploadResumable\<close>: providers that declared no resume mode get the legacy upload.\<close>

definition adapter_UploadResumable ::
    "string \<Rightarrow> (go_error \<Rightarrow> go_error) \<Rightarrow> UploadProvider \<Rightarrow> artifact_files \<Rightarrow> (UploadSession \<Rightarrow> go_error option) option \<Rightarrow>
     BuildArtifact \<Rightarrow> UploadSession \<Rightarrow> (UploadSession list \<times> (go_error + SDKUploadResult)) option" where
  "adapter_UploadResumable resumeMode wire p openFile checkpoint a session =
     (if resumeMode = '''' then
        (if uss_CommittedOffset session \<noteq> 0 then Some ([], Inl (errorf ''gRPC provider does not support upload resume''))
         else map_option (\<lambda>r. ([], r)) (adapter_Upload wire p openFile a))
      else session_upload wire p openFile checkpoint a session)"

section \<open>What the copying loop accepts\<close>

lemma writeChunk_writes:
  assumes "writeChunk total_size offset chunk = (w, r)" and "offset \<le> total_size"
  shows "int (length (concat w)) \<le> total_size - offset" "[] \<notin> set w"
    "\<And>reached. r = Inr reached \<Longrightarrow> reached = offset + int (length (concat w)) \<and> reached \<le> total_size
       \<and> uc_Offset chunk = offset \<and> concat w = uc_Data chunk \<and> (uc_Last chunk \<longrightarrow> reached = total_size)"
  using assms by (auto simp: writeChunk_def Let_def split: if_splits)

text \<open>Whatever the client sends, the pipe gets no more than the declared bytes; and a run without error gets them
  exactly, in chunks that follow each other without a gap, of which only the last one is marked.\<close>

lemma copy_loop_bound:
  assumes "copy_loop total_size offset recvs = (ws, closing, r)" and "offset \<le> total_size"
  shows "int (length (concat ws)) \<le> total_size - offset \<and> [] \<notin> set ws \<and> (closing = None \<longleftrightarrow> r = None)
    \<and> (r = None \<longrightarrow> int (length (concat ws)) = total_size - offset)"
  using assms
proof (induction total_size offset recvs arbitrary: ws closing r rule: copy_loop.induct)
  case (3 total_size offset chunk rest)
  obtain w r1 where w: "writeChunk total_size offset chunk = (w, r1)" by fastforce
  note facts = writeChunk_writes [OF w 3(3)]
  show ?case
  proof (cases r1)
    case (Inl err)
    then show ?thesis using 3(2) w facts(1,2) by auto
  next
    case (Inr reached)
    note n = facts(3) [OF Inr]
    obtain ws' c' r' where rest: "copy_loop total_size reached rest = (ws', c', r')" by (metis surj_pair)
    show ?thesis
    proof (cases "uc_Last chunk")
      case True
      then show ?thesis using 3(2) w Inr n facts(1,2) by auto
    next
      case False
      have "int (length (concat ws')) \<le> total_size - reached \<and> [] \<notin> set ws' \<and> (c' = None) = (r' = None)
          \<and> (r' = None \<longrightarrow> int (length (concat ws')) = total_size - reached)"
        by (rule 3(1) [OF w [symmetric] Inr False rest]) (use n in blast)
      then show ?thesis using 3(2) w Inr False rest n facts(2) by auto
    qed
  qed
qed (auto simp: Let_def)

text \<open>What \<open>streamArtifactFromOffset\<close> sends is accepted, and the pipe gets what the file delivered.\<close>

lemma send_chunks_accepted:
  assumes "delivered src = Inr b"
  shows "\<exists>chunks. send_chunks (\<lambda>i. None) a src offset first False i = (chunks, Inr (offset + int (length b)))
    \<and> chunks \<noteq> [] \<and> (offset + int (length b) = total_size \<longrightarrow>
         (\<exists>ws. copy_loop total_size offset (map Inr chunks) = (ws, None, None) \<and> concat ws = b))"
  using assms
proof (induction src arbitrary: offset first i b rule: delivered.induct)
  case 1
  then show ?case by (auto simp: final_chunk_def chunk_of_def writeChunk_def)
next
  case (2 d rest)
  then show ?case by (cases "d = []") (auto simp: final_chunk_def chunk_of_def writeChunk_def Let_def)
next
  case (4 d rest)
  obtain b' where b': "delivered rest = Inr b'" "b = d @ b'" using 4(2) by (auto split: sum.splits)
  show ?case
  proof (cases "d = []")
    case True
    then show ?thesis using 4(1) [OF b'(1), of offset first i] b'(2) by simp
  next
    case False
    obtain chunks where c: "send_chunks (\<lambda>i. None) a rest (offset + int (length d)) False False (Suc i) =
        (chunks, Inr (offset + int (length d) + int (length b')))"
      "offset + int (length d) + int (length b') = total_size \<longrightarrow>
         (\<exists>ws. copy_loop total_size (offset + int (length d)) (map Inr chunks) = (ws, None, None) \<and> concat ws = b')"
      using 4(1) [OF b'(1), of "offset + int (length d)" False "Suc i"] by blast
    show ?thesis
      using False c b'(2) by (auto simp: chunk_of_def writeChunk_def Let_def)
  qed
qed simp

section \<open>What the provider reads\<close>

lemma pipe_read_takes:
  assumes "pipe_read n writes closing = (answer, writes')" and "[] \<notin> set writes"
  shows "fst answer @ concat writes' = concat writes" "[] \<notin> set writes'"
    "snd answer = EOF \<Longrightarrow> writes = [] \<and> closing = None" "writes = [] \<Longrightarrow> writes' = []"
  using assms append_take_drop_id [of n "hd writes"]
  by (auto simp: pipe_read_def simp flip: append_assoc split: list.splits if_splits option.splits)

lemma run_consumer_takes:
  "[] \<notin> set writes \<Longrightarrow> cr_read (run_consumer send session closing c writes)
     @ concat (cr_unread (run_consumer send session closing c writes)) = concat writes"
proof (induction c arbitrary: writes)
  case (ReadBody n k)
  obtain answer writes' where r: "pipe_read n writes closing = (answer, writes')" by fastforce
  note facts = pipe_read_takes [OF r ReadBody.prems]
  show ?case
    using ReadBody.IH [OF rangeI facts(2), of answer] facts(1) by (simp add: r Let_def)
qed (simp_all add: Let_def)

text \<open>A provider reads to the end if it reports success only after it has seen the end of the body.\<close>

primrec reads_to_end :: "consumer \<Rightarrow> bool \<Rightarrow> bool" where
  "reads_to_end (Finish r) = (\<lambda>seen. case r of Inl err \<Rightarrow> True | Inr result \<Rightarrow> seen)"
| "reads_to_end (ReadBody n k) = (\<lambda>seen. \<forall>answer. reads_to_end (k answer) (seen \<or> snd answer = EOF))"
| "reads_to_end (ReportProgress p k) = (\<lambda>seen. \<forall>answer. reads_to_end (k answer) seen)"

lemma run_to_end:
  assumes "reads_to_end c seen" and "[] \<notin> set writes" and "seen \<Longrightarrow> writes = [] \<and> closing = None"
  shows "case cr_result (run_consumer send session closing c writes) of Inl err \<Rightarrow> True
    | Inr result \<Rightarrow> cr_unread (run_consumer send session closing c writes) = [] \<and> closing = None"
  using assms
proof (induction c arbitrary: seen writes)
  case (Finish r)
  then show ?case by (auto split: sum.splits)
next
  case (ReadBody n k)
  obtain answer writes' where r: "pipe_read n writes closing = (answer, writes')" by fastforce
  note facts = pipe_read_takes [OF r ReadBody.prems(2)]
  have "reads_to_end (k answer) (seen \<or> snd answer = EOF)"
    using ReadBody.prems(1) by (cases answer) simp
  then show ?case
    using ReadBody.IH [OF rangeI _ facts(2), of answer "seen \<or> snd answer = EOF"] facts(3,4) ReadBody.prems(3)
    by (auto simp: r Let_def cong: sum.case_cong)
next
  case (ReportProgress p k)
  let ?answer = "send (progress_message session p)"
  have ends: "reads_to_end (k ?answer) seen" using ReportProgress.prems(1) by simp
  have same: "cr_result (run_consumer send session closing (ReportProgress p k) writes) =
      cr_result (run_consumer send session closing (k ?answer) writes)
    \<and> cr_unread (run_consumer send session closing (ReportProgress p k) writes) =
      cr_unread (run_consumer send session closing (k ?answer) writes)"
    by (simp add: Let_def)
  show ?case
    unfolding conjunct1 [OF same] conjunct2 [OF same]
    by (rule ReportProgress.IH [OF rangeI ends ReportProgress.prems(2,3)])
qed

text \<open>A provider whose uploads all do so.\<close>

definition provider_reads_to_end :: "UploadProvider \<Rightarrow> bool" where
  "provider_reads_to_end p \<longleftrightarrow> (\<forall>artifact. reads_to_end (upv_upload p artifact) False)
     \<and> (\<forall>prepare resume artifact session. upv_resumable p = Some (prepare, resume) \<longrightarrow> reads_to_end (resume artifact session) False)"

lemma open_session_valid:
  assumes "open_session p first = Inr session"
  shows "0 \<le> uss_CommittedOffset session \<and> uss_CommittedOffset session \<le> uc_TotalSizeBytes first
    \<and> uss_ResumeToken session \<noteq> '''' \<and> uss_ResumeMode session \<in> {''restart'', ''offset''}
    \<and> (uss_ResumeMode session = ''restart'' \<longrightarrow> uss_CommittedOffset session = 0)"
  using assms
  by (auto simp: open_session_def Let_def validateUploadSession_def artifact_info_def
      split: if_splits option.splits)

lemma transfer_reads:
  assumes "provider_reads_to_end p" and "0 \<le> uss_CommittedOffset session"
    and "uss_CommittedOffset session \<le> uc_TotalSizeBytes first"
    and copy: "copyUploadChunks first (uc_TotalSizeBytes first) (uss_CommittedOffset session) (uc_IdempotencyKey first \<noteq> '''') recvs = (ws, closing, r)"
  shows "let run = transfer send p first session recvs in hr_outcome run \<noteq> Blocked
    \<and> (\<exists>unread. hr_read run @ unread = concat ws)
    \<and> (hr_outcome run = Returned None \<longrightarrow> r = None \<and> hr_read run = concat ws)"
proof -
  define body where "body = (case upv_resumable p of
       Some (_, resume) \<Rightarrow> if uc_IdempotencyKey first \<noteq> '''' then resume (artifact_info first) session else upv_upload p (artifact_info first)
     | None \<Rightarrow> upv_upload p (artifact_info first))"
  have ends: "reads_to_end body False"
    using assms(1) by (auto simp: body_def provider_reads_to_end_def split: option.splits)
  have ws: "[] \<notin> set ws" "closing = None \<longleftrightarrow> r = None"
    using copy_loop_bound [of _ _ _ ws closing r] copy assms(3) unfolding copyUploadChunks_def by auto
  let ?run = "run_consumer send session closing body ws"
  note taken = run_consumer_takes [OF ws(1), of send session closing body]
  note finished = run_to_end [OF ends ws(1), of closing send session]
  show ?thesis
    unfolding transfer_def body_def [symmetric] Let_def
    using copy taken finished ws(2)
    by (auto simp: artifact_info_def body_def [symmetric] split: sum.splits option.splits)
qed

section \<open>The two sides together\<close>

text \<open>The artifact's file: reading it from an offset delivers the rest of its content.\<close>

definition stores :: "artifact_files \<Rightarrow> BuildArtifact \<Rightarrow> string \<Rightarrow> bool" where
  "stores openFile a content \<longleftrightarrow>
     (case openFile (ba_Path a) of Inl err \<Rightarrow> False
      | Inr seek \<Rightarrow> (\<forall>offset. 0 \<le> offset \<and> offset \<le> int (length content) \<longrightarrow>
          (case seek offset of Inl err \<Rightarrow> False | Inr src \<Rightarrow> delivered src = Inr (drop (nat offset) content))))"

lemma stream_accepted:
  assumes "stores openFile a content" and "ba_SizeBytes a = int (length content)"
    and "0 \<le> offset" and "offset \<le> ba_SizeBytes a"
  shows "\<exists>chunks ws. streamArtifactFromOffset openFile (\<lambda>i. None) a offset = (chunks, None)
    \<and> copy_loop (ba_SizeBytes a) offset (map Inr chunks) = (ws, None, None) \<and> concat ws = drop (nat offset) content"
proof -
  have range: "0 \<le> offset \<and> offset \<le> int (length content)" using assms(2-4) by simp
  obtain seek where seek: "openFile (ba_Path a) = Inr seek"
    using assms(1) by (cases "openFile (ba_Path a)") (auto simp: stores_def)
  obtain src where src: "seek offset = Inr src" "delivered src = Inr (drop (nat offset) content)"
    using assms(1) range by (cases "seek offset") (auto simp: stores_def seek)
  have n: "offset + int (length (drop (nat offset) content)) = ba_SizeBytes a" using assms(2-4) by simp
  obtain chunks ws where "send_chunks (\<lambda>i. None) a src offset (offset = 0) False 0 = (chunks, Inr (ba_SizeBytes a))"
    "copy_loop (ba_SizeBytes a) offset (map Inr chunks) = (ws, None, None)" "concat ws = drop (nat offset) content"
    using send_chunks_accepted [OF src(2), of a offset "offset = 0" 0 "ba_SizeBytes a", unfolded n] by blast
  then show ?thesis
    using seek src assms(3,4) by (auto simp: streamArtifactFromOffset_def)
qed

text \<open>Every session the server acknowledges is one the adapter accepts.\<close>

lemma acknowledgement_accepted:
  assumes "open_session p (upload_header a session) = Inr ses"
  shows "accepted_session session (ba_SizeBytes a) (acknowledgement ses (ba_SizeBytes a)) =
    Inr (ses\<lparr>uss_IdempotencyKey := uss_IdempotencyKey session\<rparr>)"
  using open_session_valid [OF assms]
  by (auto simp: accepted_session_def acknowledgement_def validateAcceptedSession_def upload_header_def Let_def)

text \<open>The sessions given to the callback have offsets that never go back and stay within the artifact.\<close>

lemma receive_progress_monotone:
  assumes "receive_progress checkpoint total_size finish accepted ref ms = (ss, r)"
    and "uss_CommittedOffset accepted \<le> total_size"
  shows "sorted (uss_CommittedOffset accepted # map uss_CommittedOffset ss) \<and> (\<forall>s \<in> set ss. uss_CommittedOffset s \<le> total_size)
    \<and> (\<forall>res. r = Inr res \<longrightarrow> finish = None)"
  using assms
proof (induction ms arbitrary: accepted ref ss r)
  case Nil
  then show ?case by (auto split: option.splits)
next
  case (Cons progress rest)
  show ?case
  proof (cases "um_CommittedOffset progress < uss_CommittedOffset accepted \<or> um_CommittedOffset progress > total_size")
    case True
    then show ?thesis using Cons.prems by auto
  next
    case False
    let ?n = "next_session accepted progress"
    have c: "uss_CommittedOffset accepted \<le> uss_CommittedOffset ?n" "uss_CommittedOffset ?n \<le> total_size"
      using False by (auto simp: next_session_def)
    obtain ss' r' where rest: "receive_progress checkpoint total_size finish ?n (next_ref ref progress) rest = (ss', r')"
      by fastforce
    show ?thesis
      using Cons.prems(1) c False rest Cons.IH [OF rest c(2)] by (auto split: option.splits intro: order_trans)
  qed
qed

lemma next_session_offset [simp]: "uss_CommittedOffset (next_session accepted progress) = um_CommittedOffset progress"
  by (simp add: next_session_def)



section \<open>Properties\<close>


text \<open>A provider that reads four bytes at a time up to the end, and one artifact.\<close>

primrec drain :: "nat \<Rightarrow> string \<Rightarrow> consumer" where
  "drain 0 ref = Finish (Inl (errorf ''too many reads''))"
| "drain (Suc n) ref = ReadBody 4 (\<lambda>answer.
     case snd answer of
       More \<Rightarrow> drain n ref
     | EOF \<Rightarrow> Finish (Inr \<lparr>sur_ProviderRef = ref, sur_Metadata = Map.empty\<rparr>)
     | ReadFails err \<Rightarrow> Finish (Inl err))"

lemma drain_reads_to_end: "reads_to_end (drain n ref) seen"
  by (induction n arbitrary: seen) (auto split: read_end.splits)

definition ex_upload_provider :: UploadProvider where
  "ex_upload_provider = \<lparr>upv_upload = (\<lambda>artifact. drain 8 ''vol-1''), upv_resumable = None\<rparr>"

lemma ex_upload_provider_reads: "provider_reads_to_end ex_upload_provider"
  by (simp add: provider_reads_to_end_def ex_upload_provider_def drain_reads_to_end)

definition ex_artifact :: BuildArtifact where
  "ex_artifact = \<lparr>ba_Path = ''/work/a.img'', ba_Format = ''raw'', ba_Checksum = ''c'', ba_SizeBytes = 6, ba_OS = ''linux'',
     ba_Metadata = Map.empty\<rparr>"

definition ex_session :: UploadSession where
  "ex_session = \<lparr>uss_IdempotencyKey = ''k'', uss_ResumeToken = '''', uss_CommittedOffset = 0, uss_ResumeMode = ''restart''\<rparr>"

definition ex_files :: artifact_files where
  "ex_files path = Inr (\<lambda>offset. Inr [(drop (nat offset) ''abcdef'', More)])"

lemma ex_files_store: "stores ex_files ex_artifact ''abcdef''"
  by (simp add: stores_def ex_files_def)


text \<open>A provider that reports success without reading leaves the handler waiting for the goroutine that still writes
  to the pipe, and the handler's stream open: the client waits for its answer.\<close>

theorem early_success_blocks:
  assumes "upv_upload p = (\<lambda>artifact. Finish (Inr result))" and "uc_IdempotencyKey first = ''''"
    and "uc_Offset first = 0" and "uc_Data first \<noteq> []" and "int (length (uc_Data first)) \<le> uc_TotalSizeBytes first"
  shows "hr_outcome (server_UploadArtifact send p (Inr first) later) = Blocked"
  using assms
  by (auto simp: server_UploadArtifact_def transfer_def Let_def copyUploadChunks_def no_session_def writeChunk_def artifact_info_def
      split: option.splits prod.splits if_splits sum.splits)

text \<open>C31: An upload in a session that succeeds has delivered the artifact: the server's provider has read the content of
  the file exactly from the offset the session was opened with to its end, no byte skipped and none sent
  twice; and the sessions persisted on the way have offsets within the artifact that never go back.\<close>

theorem resumed_upload_delivers:
  assumes "provider_reads_to_end p" and "stores openFile a content" and "ba_SizeBytes a = int (length content)"
    and "session_upload wire p openFile checkpoint a session = Some (saved, Inr result)"
  shows "\<exists>ses. open_session p (upload_header a session) = Inr ses
    \<and> hr_read (server_UploadArtifact (\<lambda>m. None) p (Inr (upload_header a session)) (client_stream openFile checkpoint a session))
        = drop (nat (uss_CommittedOffset ses)) content
    \<and> sorted (uss_CommittedOffset ses # map uss_CommittedOffset saved)
    \<and> (\<forall>s \<in> set saved. uss_CommittedOffset s \<le> ba_SizeBytes a)"
proof -
  define run where "run = server_UploadArtifact (\<lambda>m. None) p (Inr (upload_header a session)) (client_stream openFile checkpoint a session)"
  have header: "uc_IdempotencyKey (upload_header a session) = uss_IdempotencyKey session"
    "uc_TotalSizeBytes (upload_header a session) = ba_SizeBytes a"
    by (simp_all add: upload_header_def)
  have named: "uss_IdempotencyKey session \<noteq> ''''"
    using assms(4) by (auto simp: session_upload_def split: if_splits)
  obtain ses where ses: "open_session p (upload_header a session) = Inr ses"
    using assms(4) named header assms(3)
    by (cases "open_session p (upload_header a session)") (auto simp: session_upload_def server_UploadArtifact_def Let_def)
  define accepted where "accepted = ses\<lparr>uss_IdempotencyKey := uss_IdempotencyKey session\<rparr>"
  note acc = acknowledgement_accepted [OF ses, folded accepted_def]
  have range: "0 \<le> uss_CommittedOffset ses" "uss_CommittedOffset ses \<le> ba_SizeBytes a"
    using open_session_valid [OF ses] header(2) by auto
  obtain chunks ws where stream: "streamArtifactFromOffset openFile (\<lambda>i. None) a (uss_CommittedOffset ses) = (chunks, None)"
    "copy_loop (ba_SizeBytes a) (uss_CommittedOffset ses) (map Inr chunks) = (ws, None, None)"
    "concat ws = drop (nat (uss_CommittedOffset ses)) content"
    using stream_accepted [OF assms(2,3) range] by blast
  let ?later = "client_stream openFile checkpoint a session (Some (acknowledgement ses (ba_SizeBytes a)))"
  let ?rest = "transfer (\<lambda>m. None) p (upload_header a session) ses ?later"
  have run: "run = ?rest\<lparr>hr_sent := acknowledgement ses (ba_SizeBytes a) # hr_sent ?rest\<rparr>"
    using named ses header assms(3) by (simp add: run_def server_UploadArtifact_def Let_def)
  have persisted: "(case checkpoint of None \<Rightarrow> None | Some persist \<Rightarrow> persist accepted) = None"
    using assms(4) named acc by (auto simp: session_upload_def run_def [symmetric] run Let_def split: option.splits)
  then have later: "?later = map Inr chunks"
    using stream(1) acc by (auto simp: client_stream_def accepted_def split: option.splits)
  obtain ss r where progress: "\<And>e. hr_outcome ?rest = Returned e \<Longrightarrow>
      receive_progress checkpoint (ba_SizeBytes a) (map_option wire e) accepted '''' (hr_sent ?rest) = (ss, r)
      \<and> saved = (case checkpoint of None \<Rightarrow> [] | Some persist \<Rightarrow> [accepted]) @ ss \<and> upload_result a r = Inr result"
    "hr_outcome ?rest \<noteq> Blocked"
    using assms(4) named acc persisted stream(1)
    by (cases "hr_outcome ?rest")
      (auto simp: session_upload_def run_def [symmetric] run Let_def accepted_def split: option.splits prod.splits)
  obtain e where e: "hr_outcome ?rest = Returned e" using progress(2) by (cases "hr_outcome ?rest") auto
  note facts = receive_progress_monotone [OF conjunct1 [OF progress(1) [OF e]]] progress(1) [OF e]
  have "e = None" using facts range(2) by (auto simp: upload_result_def accepted_def split: sum.splits)
  then have "hr_read ?rest = concat ws"
    using transfer_reads [OF assms(1), of ses "upload_header a session" ?later ws None None "\<lambda>m. None"] range stream(2) later e named
    by (simp add: header copyUploadChunks_def Let_def)
  then show ?thesis
    using ses facts range(2) stream(3)
    by (auto simp: run_def [symmetric] run accepted_def split: option.splits)
qed

lemma ex_upload_runs:
  "case session_upload id ex_upload_provider ex_files None ex_artifact ex_session of
     None \<Rightarrow> False | Some (saved, Inl err) \<Rightarrow> False | Some (saved, Inr result) \<Rightarrow> sur_ProviderRef result = ''vol-1''"
  by code_simp

theorem resumed_upload_delivers_witness:
  "hr_read (server_UploadArtifact (\<lambda>m. None) ex_upload_provider (Inr (upload_header ex_artifact ex_session))
     (client_stream ex_files None ex_artifact ex_session)) = ''abcdef''"
proof -
  have size: "ba_SizeBytes ex_artifact = int (length ''abcdef'')" by (simp add: ex_artifact_def)
  have opened: "open_session ex_upload_provider (upload_header ex_artifact ex_session) = Inr (ex_session\<lparr>uss_ResumeToken := ''k''\<rparr>)"
    by (simp add: open_session_def ex_upload_provider_def upload_header_def ex_session_def ex_artifact_def artifact_info_def
        validateUploadSession_def Let_def)
  obtain saved r where run: "session_upload id ex_upload_provider ex_files None ex_artifact ex_session = Some (saved, r)"
    using ex_upload_runs by (auto split: option.splits)
  then obtain result where "r = Inr result" using ex_upload_runs by (cases r) auto
  then have "session_upload id ex_upload_provider ex_files None ex_artifact ex_session = Some (saved, Inr result)"
    using run by simp
  from resumed_upload_delivers [OF ex_upload_provider_reads ex_files_store size this] obtain ses where
    "open_session ex_upload_provider (upload_header ex_artifact ex_session) = Inr ses"
    "hr_read (server_UploadArtifact (\<lambda>m. None) ex_upload_provider (Inr (upload_header ex_artifact ex_session))
       (client_stream ex_files None ex_artifact ex_session)) = drop (nat (uss_CommittedOffset ses)) ''abcdef''"
    by blast
  moreover have "uss_CommittedOffset ex_session = 0" by (simp add: ex_session_def)
  ultimately show ?thesis using opened by auto
qed




end
