(* ===== verification/Provider_Calls.thy ===== *)
theory Provider_Calls
  imports Provider_Messages
begin

text \<open>
  The other calls between the adapter (\<open>pkg/plugin/grpc/adapter.go\<close>) and the server of the provider SDK
  (\<open>pkg/provider/sdk/server.go\<close>): the TLS settings of both ends, the capability handshake, the validation of a
  configuration, the registration and deletion of images, and the health check.

  X.509 is a parameter (whether a bundle has certificates, whether a key pair loads), as is dialling; the
  provider is a record of its methods. \<open>wire\<close> is the error a client sees for an error of the server.
\<close>

section \<open>Transport security\<close>

record ProviderTLSConfig =
  ptc_ServerName :: string
  ptc_CABundle :: string
  ptc_ClientCert :: string
  ptc_ClientKey :: string

record X509 =
  x5_hasCerts :: "string \<Rightarrow> bool"  \<comment> \<open>\<open>AppendCertsFromPEM\<close>\<close>
  x5_keyPair :: "string \<Rightarrow> string \<Rightarrow> go_error option"  \<comment> \<open>\<open>X509KeyPair\<close>\<close>

datatype transport = InsecureTransport | ClientTLS string string string string
  \<comment> \<open>server name, root certificates, client certificate and key\<close>

definition transportCredentials :: "X509 \<Rightarrow> ProviderTLSConfig option \<Rightarrow> go_error + transport" where
  "transportCredentials x config =
     (case config of None \<Rightarrow> Inr InsecureTransport
      | Some c \<Rightarrow>
          if ptc_CABundle c = '''' then Inl (errorf ''provider mTLS requires CA bundle'')
          else if ptc_ClientCert c = '''' \<or> ptc_ClientKey c = '''' then
            Inl (errorf ''provider mTLS requires client certificate and key'')
          else if \<not> x5_hasCerts x (ptc_CABundle c) then Inl (errorf ''provider mTLS CA bundle contains no certificates'')
          else (case x5_keyPair x (ptc_ClientCert c) (ptc_ClientKey c) of
                  Some err \<Rightarrow> Inl (wrapf ''load provider mTLS client certificate: '' err)
                | None \<Rightarrow> Inr (ClientTLS (ptc_ServerName c) (ptc_CABundle c) (ptc_ClientCert c) (ptc_ClientKey c))))"

datatype server_transport = PlainServer | MutualTLS string string  \<comment> \<open>certificate file and client certificates\<close>

definition ServerOptionsFromEnv ::
    "(string \<Rightarrow> string \<Rightarrow> go_error option) \<Rightarrow> (string \<Rightarrow> go_error + string) \<Rightarrow> X509 \<Rightarrow> strmap \<Rightarrow> go_error + server_transport" where
  "ServerOptionsFromEnv loadKeyPair readFile x env =
     (let mode = get_str env ''PROVIDER_GRPC_TLS_MODE'';
          certFile = get_str env ''PROVIDER_GRPC_TLS_CERT_FILE'';
          keyFile = get_str env ''PROVIDER_GRPC_TLS_KEY_FILE'';
          clientCAFile = get_str env ''PROVIDER_GRPC_TLS_CLIENT_CA_FILE'' in
      if mode = '''' \<or> mode = ''Disabled'' then Inr PlainServer
      else if mode \<noteq> ''Mutual'' then Inl (errorf (''unsupported PROVIDER_GRPC_TLS_MODE '' @ quoted mode))
      else if certFile = '''' \<or> keyFile = '''' \<or> clientCAFile = '''' then
        Inl (errorf ''PROVIDER_GRPC_TLS_CERT_FILE, PROVIDER_GRPC_TLS_KEY_FILE, and PROVIDER_GRPC_TLS_CLIENT_CA_FILE are required for mTLS'')
      else (case loadKeyPair certFile keyFile of
              Some err \<Rightarrow> Inl (wrapf ''load provider server certificate: '' err)
            | None \<Rightarrow>
                (case readFile clientCAFile of
                   Inl err \<Rightarrow> Inl (wrapf ''read provider client CA: '' err)
                 | Inr caPEM \<Rightarrow>
                     if \<not> x5_hasCerts x caPEM then Inl (errorf ''provider client CA contains no certificates'')
                     else Inr (MutualTLS certFile caPEM))))"

text \<open>A configured side never falls back to a connection without certificates.\<close>

lemma transportCredentials_never_insecure:
  "transportCredentials x (Some c) \<noteq> Inr InsecureTransport"
  by (simp add: transportCredentials_def split: option.split)

lemma server_mode_mutual:
  "ServerOptionsFromEnv loadKeyPair readFile x env = Inr PlainServer \<Longrightarrow>
     get_str env ''PROVIDER_GRPC_TLS_MODE'' \<in> {'''', ''Disabled''}"
  by (simp add: ServerOptionsFromEnv_def Let_def split: if_splits option.splits sum.splits)

section \<open>Capabilities\<close>

record SDKCapabilities =
  sc_ProviderName :: string
  sc_ProviderVersion :: string
  sc_Formats :: "string list"
  sc_OSFamilies :: "string list"
  sc_BuildModes :: "string list"
  sc_UploadResumeMode :: string

record CapabilitiesMsg =
  cm_ProviderName :: string
  cm_ProviderVersion :: string
  cm_Formats :: "string list"
  cm_OsFamilies :: "string list"
  cm_BuildModes :: "string list"
  cm_ProtocolVersion :: string
  cm_UploadResumeMode :: string

record SDKConfig =
  sdc_ProviderConfigName :: string
  sdc_Credentials :: strmap
  sdc_Region :: string
  sdc_Endpoint :: string
  sdc_Insecure :: bool
  sdc_Extra :: strmap
  sdc_AllowedPrivateCIDRs :: "string list"
  sdc_AllowedDNSNames :: "string list"

record RegisterInput =
  rgi_ProviderRef :: string
  rgi_ImageName :: string
  rgi_Tags :: strmap
  rgi_ProviderConfigName :: string
  rgi_Format :: string
  rgi_IdempotencyKey :: string

record SDKImageRef =
  sir_ID :: string
  sir_Name :: string
  sir_Location :: string
  sir_Tags :: strmap

text \<open>The provider; a deletion tells whether something was deleted, and a message.\<close>

record SDKProvider =
  sp_capabilities :: "go_error + SDKCapabilities"
  sp_validateConfig :: "SDKConfig \<Rightarrow> go_error option"
  sp_registerImage :: "RegisterInput \<Rightarrow> go_error + SDKImageRef"
  sp_deleteArtifact :: "string \<Rightarrow> string \<Rightarrow> go_error + bool \<times> string"  \<comment> \<open>provider reference, configuration\<close>
  sp_healthCheck :: "go_error + string"
  sp_isResumable :: bool  \<comment> \<open>implements \<open>ResumableProvider\<close>\<close>

definition server_GetCapabilities :: "SDKProvider \<Rightarrow> go_error + CapabilitiesMsg" where
  "server_GetCapabilities p =
     (case sp_capabilities p of Inl err \<Rightarrow> Inl err
      | Inr caps \<Rightarrow>
          if sc_ProviderName caps = '''' then Inl (errorf ''provider capabilities must include provider name'')
          else if sc_ProviderVersion caps = '''' then Inl (errorf ''provider capabilities must include provider version'')
          else
            (let resumeMode = (if sc_UploadResumeMode caps = '''' then ''restart'' else sc_UploadResumeMode caps) in
             if resumeMode \<noteq> ''restart'' \<and> resumeMode \<noteq> ''offset'' then
               Inl (errorf (''provider capabilities include unsupported upload resume mode '' @ quoted resumeMode))
             else if resumeMode = ''offset'' \<and> \<not> sp_isResumable p then
               Inl (errorf ''provider advertises offset upload resume without implementing ResumableProvider'')
             else Inr
               \<lparr>cm_ProviderName = sc_ProviderName caps, cm_ProviderVersion = sc_ProviderVersion caps,
                cm_Formats = sc_Formats caps, cm_OsFamilies = sc_OSFamilies caps, cm_BuildModes = sc_BuildModes caps,
                cm_ProtocolVersion = ''v1'', cm_UploadResumeMode = resumeMode\<rparr>))"

text \<open>The adapter: its address, and what it has learnt of the provider.\<close>

record Adapter =
  ad_address :: string
  ad_tlsConfig :: "ProviderTLSConfig option"
  ad_connected :: bool  \<comment> \<open>has a connection to close\<close>
  ad_capabilities :: "CapabilitiesMsg option"

definition NewAdapterWithTLS :: "string \<Rightarrow> ProviderTLSConfig option \<Rightarrow> Adapter" where
  "NewAdapterWithTLS address config =
     \<lparr>ad_address = address, ad_tlsConfig = config, ad_connected = False, ad_capabilities = None\<rparr>"

text \<open>\<open>Connect\<close>, with the outcome of dialling and the answer of \<open>GetCapabilities\<close> as the client sees it. The
  connection is kept, closed, in the adapter when the handshake fails.\<close>

definition Connect ::
    "X509 \<Rightarrow> (transport \<Rightarrow> go_error option) \<Rightarrow> go_error + CapabilitiesMsg \<Rightarrow> Adapter \<Rightarrow> go_error option \<times> Adapter" where
  "Connect x dial answer a =
     (case transportCredentials x (ad_tlsConfig a) of Inl err \<Rightarrow> (Some err, a)
      | Inr transport \<Rightarrow>
          (case dial transport of
             Some err \<Rightarrow> (Some (wrapf (''grpc dial '' @ ad_address a @ '': '') err), a)
           | None \<Rightarrow>
               (let connected = a\<lparr>ad_connected := True\<rparr> in
                case answer of
                  Inl err \<Rightarrow> (Some (wrapf (''GetCapabilities from '' @ ad_address a @ '': '') err), connected)
                | Inr caps \<Rightarrow>
                    if cm_ProtocolVersion caps \<noteq> ''v1'' then
                      (Some (errorf (''provider at '' @ ad_address a @ '' uses protocol '' @ quoted (cm_ProtocolVersion caps) @
                         '', operator requires v1'')), connected)
                    else (None, connected\<lparr>ad_capabilities := Some caps\<rparr>))))"

definition Name :: "Adapter \<Rightarrow> string" where
  "Name a = (case ad_capabilities a of Some caps \<Rightarrow> cm_ProviderName caps | None \<Rightarrow> ad_address a)"

definition Version :: "Adapter \<Rightarrow> string" where
  "Version a = (case ad_capabilities a of Some caps \<Rightarrow> cm_ProviderVersion caps | None \<Rightarrow> ''unknown'')"

definition SupportedFormats :: "Adapter \<Rightarrow> string list" where
  "SupportedFormats a = (case ad_capabilities a of Some caps \<Rightarrow> cm_Formats caps | None \<Rightarrow> [])"

definition SupportedOS :: "Adapter \<Rightarrow> string list" where
  "SupportedOS a = (case ad_capabilities a of Some caps \<Rightarrow> cm_OsFamilies caps | None \<Rightarrow> [])"

definition SupportedBuildModes :: "Adapter \<Rightarrow> string list" where
  "SupportedBuildModes a =
     (case ad_capabilities a of None \<Rightarrow> [''local'']
      | Some caps \<Rightarrow> if cm_BuildModes caps = [] then [''local''] else cm_BuildModes caps)"

section \<open>Configuration, registration, deletion and health\<close>

text \<open>A configuration the provider refuses is an answer, not an error of the call.\<close>

definition server_ValidateConfig :: "SDKProvider \<Rightarrow> SDKConfig \<Rightarrow> bool \<times> string" where
  "server_ValidateConfig p config =
     (case sp_validateConfig p config of Some err \<Rightarrow> (False, err_msg err) | None \<Rightarrow> (True, ''''))"

definition config_request :: "PluginConfig \<Rightarrow> SDKConfig" where
  "config_request cfg =
     \<lparr>sdc_ProviderConfigName = plc_ProviderConfigName cfg, sdc_Credentials = plc_SecretData cfg, sdc_Region = plc_Region cfg,
      sdc_Endpoint = plc_Endpoint cfg, sdc_Insecure = plc_Insecure cfg, sdc_Extra = plc_Extra cfg,
      sdc_AllowedPrivateCIDRs = plc_AllowedPrivateCIDRs cfg, sdc_AllowedDNSNames = plc_AllowedDNSNames cfg\<rparr>"

text \<open>\<open>net\<close> is the error of a call that does not reach the server.\<close>

definition adapter_Init :: "go_error option \<Rightarrow> SDKProvider \<Rightarrow> PluginConfig \<Rightarrow> go_error option" where
  "adapter_Init net p cfg =
     (case net of Some err \<Rightarrow> Some (wrapf ''gRPC ValidateConfig: '' err)
      | None \<Rightarrow>
          (case server_ValidateConfig p (config_request cfg) of
             (True, _) \<Rightarrow> None | (False, message) \<Rightarrow> Some (errorf (''provider rejected config: '' @ message))))"

text \<open>\<open>Validate\<close> sends the name of the configuration and nothing else.\<close>

definition adapter_Validate :: "go_error option \<Rightarrow> SDKProvider \<Rightarrow> TargetSpec \<Rightarrow> go_error option" where
  "adapter_Validate net p target =
     (case net of Some err \<Rightarrow> Some (wrapf ''gRPC ValidateConfig: '' err)
      | None \<Rightarrow> case server_ValidateConfig p
        \<lparr>sdc_ProviderConfigName = tgt_providerConfigRef target, sdc_Credentials = Map.empty, sdc_Region = '''', sdc_Endpoint = '''',
         sdc_Insecure = False, sdc_Extra = Map.empty, sdc_AllowedPrivateCIDRs = [], sdc_AllowedDNSNames = []\<rparr> of
        (True, _) \<Rightarrow> None | (False, message) \<Rightarrow> Some (errorf (''provider validation failed: '' @ message)))"



definition adapter_Cleanup :: "(go_error \<Rightarrow> go_error) \<Rightarrow> SDKProvider \<Rightarrow> BuildArtifact \<Rightarrow> go_error option" where
  "adapter_Cleanup wire p a =
     (let providerRef = get_str (ba_Metadata a) ''providerRef'' in
      if providerRef = '''' then None
      else (case sp_deleteArtifact p providerRef (get_str (ba_Metadata a) ''providerConfigName'') of
              Inl err \<Rightarrow> Some (wrapf ''gRPC DeleteArtifact: '' (wire err)) | Inr _ \<Rightarrow> None))"

definition server_HealthCheck :: "SDKProvider \<Rightarrow> bool \<times> string" where
  "server_HealthCheck p = (case sp_healthCheck p of Inl err \<Rightarrow> (False, err_msg err) | Inr message \<Rightarrow> (True, message))"

definition adapter_HealthCheck :: "go_error option \<Rightarrow> SDKProvider \<Rightarrow> go_error option" where
  "adapter_HealthCheck net p =
     (case net of Some err \<Rightarrow> Some (wrapf ''gRPC HealthCheck: '' err)
      | None \<Rightarrow>
          (case server_HealthCheck p of
             (True, _) \<Rightarrow> None | (False, message) \<Rightarrow> Some (errorf (''provider reported unhealthy: '' @ message))))"

section \<open>Properties\<close>

text \<open>The capability handshake with a server of the SDK succeeds exactly when the transport can be set up and the
  provider's capabilities are complete, and the adapter then reports what the provider declared: a non-empty
  name, its formats, the resume mode \<open>restart\<close> when it declared none, byte offsets only for a provider that
  implements them, and the local build mode when it declared none. A failed handshake leaves it without
  capabilities.\<close>

theorem handshake_result:
  "case Connect x dial (map_error wire (server_GetCapabilities p)) (NewAdapterWithTLS address config) of (err, a') \<Rightarrow>
    (err = None \<longleftrightarrow>
       (case transportCredentials x config of Inl e \<Rightarrow> False | Inr transport \<Rightarrow> dial transport = None) \<and>
       (case sp_capabilities p of Inl e \<Rightarrow> False
        | Inr caps \<Rightarrow> sc_ProviderName caps \<noteq> '''' \<and> sc_ProviderVersion caps \<noteq> '''' \<and>
            (sc_UploadResumeMode caps \<in> {'''', ''restart''} \<or> sc_UploadResumeMode caps = ''offset'' \<and> sp_isResumable p)))
    \<and> (if err = None then
         (case sp_capabilities p of Inl e \<Rightarrow> False
          | Inr caps \<Rightarrow> Name a' = sc_ProviderName caps \<and> Name a' \<noteq> '''' \<and> Version a' = sc_ProviderVersion caps
              \<and> SupportedFormats a' = sc_Formats caps \<and> SupportedOS a' = sc_OSFamilies caps
              \<and> SupportedBuildModes a' = (if sc_BuildModes caps = [] then [''local''] else sc_BuildModes caps)
              \<and> map_option cm_UploadResumeMode (ad_capabilities a') =
                  Some (if sc_UploadResumeMode caps = '''' then ''restart'' else sc_UploadResumeMode caps))
       else ad_capabilities a' = None)"
proof (cases "transportCredentials x config")
  case (Inl e)
  then show ?thesis by (simp add: Connect_def NewAdapterWithTLS_def)
next
  case transport: (Inr t)
  show ?thesis
  proof (cases "dial t")
    case None
    then show ?thesis
      using transport
      by (cases "sp_capabilities p")
        (auto simp: Connect_def NewAdapterWithTLS_def server_GetCapabilities_def Let_def Name_def Version_def SupportedFormats_def SupportedOS_def
          SupportedBuildModes_def)
  next
    case (Some err)
    then show ?thesis using transport by (simp add: Connect_def NewAdapterWithTLS_def)
  qed
qed





end
