(* ===== verification/Build_Engine.thy ===== *)
theory Build_Engine
  imports Sample_Cluster Provisioning Artifact_Stream Path_Clean
begin

text \<open>
  The build engine (\<open>pkg/builder/engine.go\<close>): the download of a source image with its checksum, its
  cache and the SSRF guard on every hop, the choice of a backend, and the two backends that convert an
  image without booting it (\<open>CloudImageBackend\<close>, and \<open>QEMUImageBackend\<close> of \<open>qemu_backend.go\<close> with the
  archive of \<open>gce_archive.go\<close>), with the errors of \<open>errors.go\<close>.

  The state is the builder's file system, a map from paths to contents, and the list of the URLs
  requested so far. Parameters are the outcome of file operations, the ages of files, HTTP, hashes and
  external programs. \<open>http.Client\<close> follows redirects without a limit of its own, because the engine
  installs a \<open>CheckRedirect\<close>: the model has fuel for them, and \<open>None\<close> means that it was not enough.
\<close>

section \<open>Errors\<close>

datatype build_error =
    PlainErr go_error
  | Classified string build_error  \<comment> \<open>\<open>ClassifiedError\<close>\<close>
  | Wrapped string build_error  \<comment> \<open>\<open>fmt.Errorf\<close> with \<open>%w\<close>\<close>

fun berr_msg :: "build_error \<Rightarrow> string" where
  "berr_msg (PlainErr err) = err_msg err"
| "berr_msg (Classified reason err) = reason @ '': '' @ berr_msg err"
| "berr_msg (Wrapped m err) = m @ berr_msg err"

abbreviation (input) ReasonBuildFailed :: string where "ReasonBuildFailed \<equiv> ''BuildFailed''"


fun first_classified :: "build_error \<Rightarrow> (string \<times> build_error) option" where
  "first_classified (PlainErr err) = None"
| "first_classified (Classified reason err) = Some (reason, err)"
| "first_classified (Wrapped m err) = first_classified err"

definition ErrorReason :: "build_error \<Rightarrow> string" where
  "ErrorReason err =
     (case first_classified err of
        Some (reason, _) \<Rightarrow> if reason \<noteq> '''' then reason else ReasonBuildFailed
      | None \<Rightarrow> ReasonBuildFailed)"

definition ErrorDetail :: "build_error \<Rightarrow> string" where
  "ErrorDetail err = (case first_classified err of Some (_, e) \<Rightarrow> berr_msg e | None \<Rightarrow> berr_msg err)"

section \<open>The builder's world\<close>

datatype http_answer = Redirect string | Response int source | NetError go_error

record Command =
  cmd_Name :: string
  cmd_Args :: "string list"
  cmd_Dir :: string

text \<open>What the builder does besides reading and writing files: the commands it runs, and its dealings with the virtual
  machine of an ISO build.\<close>

datatype build_event =
    RanCommand Command
  | StartedVM Command
  | Slept int
  | TypedKeys string  \<comment> \<open>a human monitor command over QMP\<close>
  | WaitedForGuest GuestAccess
  | RanGuestScript GuestAccess string
  | StoppedVM  \<comment> \<open>killed and waited for\<close>
  | WaitedForVM

text \<open>The files of the builder, the URLs it has requested, its events, and the step files of the provisioners.\<close>

record BuilderState =
  bs_files :: "string \<rightharpoonup> string"
  bs_requests :: "string list"
  bs_events :: "build_event list"
  bs_steps :: Workspace

type_synonym 'a builder = "(BuilderState, 'a) state"

record Builder_World =
  bw_url_parse :: url_parser
  bw_url_string :: "URL \<Rightarrow> string"  \<comment> \<open>\<open>URL.String\<close>\<close>
  bw_lookupHost :: resolver
  bw_http :: "string list \<Rightarrow> string \<Rightarrow> http_answer"  \<comment> \<open>the answer to a request after the earlier ones; redirect targets are resolved\<close>
  bw_abs :: "string \<Rightarrow> go_error + string"  \<comment> \<open>\<open>filepath.Abs\<close> of a clean path\<close>
  bw_ioErr :: "string \<Rightarrow> string \<Rightarrow> go_error option"  \<comment> \<open>failure of an operation on a path\<close>
  bw_age :: "string \<Rightarrow> int"  \<comment> \<open>time since the modification\<close>
  bw_digest :: "string \<Rightarrow> string \<Rightarrow> string"  \<comment> \<open>algorithm and content\<close>
  bw_run :: "Command \<Rightarrow> (string \<rightharpoonup> string) \<Rightarrow> go_error option \<times> (string \<rightharpoonup> string)"
  bw_output :: "Command \<Rightarrow> (string \<rightharpoonup> string) \<Rightarrow> go_error + string"

definition put :: "string \<Rightarrow> string \<Rightarrow> unit builder" where
  "put path content = modify (\<lambda>s. s\<lparr>bs_files := (bs_files s)(path \<mapsto> content)\<rparr>)"

definition remove_file :: "string \<Rightarrow> unit builder" where
  "remove_file path = modify (\<lambda>s. s\<lparr>bs_files := (bs_files s)(path := None)\<rparr>)"

definition file_at :: "string \<Rightarrow> string option builder" where
  "file_at path = gets (\<lambda>s. bs_files s path)"

text \<open>A plain error of the engine.\<close>

definition plain :: "go_error \<Rightarrow> build_error + 'a" where
  "plain err = Inl (PlainErr err)"

section \<open>Sources\<close>

record SourceArtifact =
  sa_Path :: string
  sa_Checksum :: string
  sa_SizeBytes :: int
  sa_Type :: string
  sa_SourceURL :: string
  sa_CacheHit :: bool

record SourceCacheOptions =
  sco_TTL :: int
  sco_RetainPolicy :: string

definition normalizeCacheRetainPolicy :: "string \<Rightarrow> string" where
  "normalizeCacheRetainPolicy policy = (if policy = ''Never'' then ''Never'' else ''Always'')"

definition parseChecksum :: "string \<Rightarrow> go_error + string \<times> string" where
  "parseChecksum raw =
     (case cut raw '':'' of
        None \<Rightarrow> Inl (errorf ''checksum must use algorithm:hex format'')
      | Some (a, v) \<Rightarrow>
          (let algo = toLower a; digest = toLower v in
           if algo = ''sha256'' \<and> length digest \<noteq> 64 then Inl (errorf ''sha256 checksum must be 64 hex characters'')
           else if algo = ''sha512'' \<and> length digest \<noteq> 128 then Inl (errorf ''sha512 checksum must be 128 hex characters'')
           else if algo \<noteq> ''sha256'' \<and> algo \<noteq> ''sha512'' then Inl (errorf (''unsupported checksum algorithm '' @ quoted algo))
           else (case hex_decode digest of
                   None \<Rightarrow> Inl (errorf ''checksum is not valid hex'')
                 | Some _ \<Rightarrow> Inr (algo, digest))))"

definition cacheFileName :: "string \<Rightarrow> string \<Rightarrow> string" where
  "cacheFileName algo expected = algo @ ''-'' @ expected @ ''.img''"

definition validateSafeSourceURL :: "Builder_World \<Rightarrow> URL \<Rightarrow> go_error option" where
  "validateSafeSourceURL W u =
     ValidatePublicHTTPSURL (bw_url_parse W) (bw_lookupHost W) ''source URL'' (bw_url_string W u)
       \<lparr>o_allowUnresolved = False, o_allowedPrivateCIDRs = [], o_allowedDNSNames = []\<rparr>"

text \<open>The \<open>CheckRedirect\<close> that \<open>NewHTTPFetcher\<close> installs.\<close>

definition check_redirect :: "Builder_World \<Rightarrow> string \<Rightarrow> go_error option" where
  "check_redirect W target =
     (case bw_url_parse W target of Inl err \<Rightarrow> Some err
      | Inr u \<Rightarrow>
          if toLower (u_scheme u) \<noteq> ''https'' then Some (errorf ''redirect to non-HTTPS URL is not allowed'')
          else validateSafeSourceURL W u)"

datatype http_result = Answered int source | HttpFailed go_error | StillRedirecting

fun http_do :: "nat \<Rightarrow> Builder_World \<Rightarrow> string \<Rightarrow> http_result builder" where
  "http_do 0 W target = ret StillRedirecting"
| "http_do (Suc n) W target = do {
     earlier \<leftarrow> gets bs_requests;
     modify (\<lambda>s. s\<lparr>bs_requests := bs_requests s @ [target]\<rparr>);
     case bw_http W earlier target of
       Response status body \<Rightarrow> ret (Answered status body)
     | NetError err \<Rightarrow> ret (HttpFailed err)
     | Redirect location \<Rightarrow>
         (case check_redirect W location of
            Some err \<Rightarrow> ret (HttpFailed err)
          | None \<Rightarrow> http_do n W location)
   }"

definition cleanDirectory :: "Builder_World \<Rightarrow> string \<Rightarrow> string \<Rightarrow> go_error + string" where
  "cleanDirectory W path label =
     (case bw_abs W (path_Clean path) of
        Inl err \<Rightarrow> Inl (wrapf (''clean '' @ label @ '' path: '') err)
      | Inr cleaned \<Rightarrow>
          (case bw_ioErr W ''mkdir'' cleaned of
             Some err \<Rightarrow> Inl (wrapf (''create '' @ label @ '' '' @ cleaned @ '': '') err)
           | None \<Rightarrow> Inr cleaned))"

definition cleanWorkspace :: "Builder_World \<Rightarrow> string \<Rightarrow> go_error + string" where
  "cleanWorkspace W workspaceDir =
     (if workspaceDir = '''' then Inl (errorf ''workspace directory is required'')
      else cleanDirectory W workspaceDir ''workspace'')"

text \<open>\<open>copyFile\<close>; the context of the builder has no deadline.\<close>

definition copyFile :: "Builder_World \<Rightarrow> string \<Rightarrow> string \<Rightarrow> go_error option builder" where
  "copyFile W srcPath dstPath = do {
     src \<leftarrow> file_at srcPath;
     case (bw_ioErr W ''open'' srcPath, src) of
       (Some err, _) \<Rightarrow> ret (Some (wrapf ''open source artifact: '' err))
     | (None, None) \<Rightarrow> ret (Some (errorf ''open source artifact: no such file or directory''))
     | (None, Some content) \<Rightarrow>
         (case bw_ioErr W ''create'' dstPath of
            Some err \<Rightarrow> ret (Some (wrapf ''create build artifact: '' err))
          | None \<Rightarrow>
              (case bw_ioErr W ''write'' dstPath of
                 Some err \<Rightarrow> do { remove_file dstPath; ret (Some (wrapf ''write build artifact: '' err)) }
               | None \<Rightarrow>
                   (case bw_ioErr W ''close'' dstPath of
                      Some err \<Rightarrow> do { remove_file dstPath; ret (Some (wrapf ''close build artifact: '' err)) }
                    | None \<Rightarrow> do { put dstPath content; ret None })))
   }"

definition writeVerifiedSource ::
    "Builder_World \<Rightarrow> string \<Rightarrow> source \<Rightarrow> SourceSpec \<Rightarrow> string \<Rightarrow> string \<Rightarrow> (go_error + SourceArtifact) builder" where
  "writeVerifiedSource W dstPath body spec algo expected =
     (case bw_ioErr W ''create'' dstPath of
        Some err \<Rightarrow> ret (Inl (wrapf ''create source file: '' err))
      | None \<Rightarrow>
          (case (bw_ioErr W ''write'' dstPath, delivered body) of
             (Some err, _) \<Rightarrow> do { remove_file dstPath; ret (Inl (wrapf ''write source file: '' err)) }
           | (None, Inl err) \<Rightarrow> do { remove_file dstPath; ret (Inl (wrapf ''write source file: '' err)) }
           | (None, Inr content) \<Rightarrow>
               (case bw_ioErr W ''close'' dstPath of
                  Some err \<Rightarrow> do { remove_file dstPath; ret (Inl (wrapf ''close source file: '' err)) }
                | None \<Rightarrow>
                    (let actual = hex (bw_digest W algo content) in
                     if actual \<noteq> expected then do {
                       remove_file dstPath;
                       ret (Inl (errorf (''checksum mismatch for source: '' @ algo @ '':'' @ actual @ '' does not match '' @ src_checksum spec)))
                     }
                     else do {
                       put dstPath content;
                       ret (Inr \<lparr>sa_Path = dstPath, sa_Checksum = algo @ '':'' @ actual, sa_SizeBytes = int (length content),
                         sa_Type = src_type spec, sa_SourceURL = src_url spec, sa_CacheHit = False\<rparr>)
                     }))))"

text \<open>The file that is read for verification; a missing file is an error as well.\<close>

definition verifyFileChecksum :: "Builder_World \<Rightarrow> string \<Rightarrow> string \<Rightarrow> string \<Rightarrow> (string option \<times> bool) builder" where
  "verifyFileChecksum W path algo expected = do {
     content \<leftarrow> file_at path;
     ret (case (bw_ioErr W ''open'' path, content) of
            (None, Some c) \<Rightarrow> (Some c, hex (bw_digest W algo c) = expected)
          | _ \<Rightarrow> (None, False))
   }"

text \<open>Whether the cache entry is expired; \<open>None\<close> when it cannot be examined.\<close>

definition cacheEntryExpired :: "Builder_World \<Rightarrow> string \<Rightarrow> int \<Rightarrow> bool option builder" where
  "cacheEntryExpired W cachePath ttl = do {
     content \<leftarrow> file_at cachePath;
     ret (if ttl \<le> 0 then Some False
          else if content = None \<or> bw_ioErr W ''stat'' cachePath \<noteq> None then None
          else Some (bw_age W cachePath > ttl))
   }"

text \<open>An entry that is missing is left alone, one that cannot be read, is expired or does not verify is removed.
  Removing a missing file changes nothing, so the two cases of an error are one.\<close>

definition copyValidCache ::
    "Builder_World \<Rightarrow> string \<Rightarrow> string \<Rightarrow> SourceSpec \<Rightarrow> string \<Rightarrow> string \<Rightarrow> SourceCacheOptions \<Rightarrow>
     (go_error + SourceArtifact option) builder" where
  "copyValidCache W cachePath dstPath spec algo expected opts = do {
     expired \<leftarrow> cacheEntryExpired W cachePath (sco_TTL opts);
     case expired of
       Some False \<Rightarrow> do {
         verified \<leftarrow> verifyFileChecksum W cachePath algo expected;
         case verified of
           (Some content, True) \<Rightarrow> do {
             copied \<leftarrow> copyFile W cachePath dstPath;
             case copied of
               Some err \<Rightarrow> ret (Inl (wrapf ''copy cached source: '' err))
             | None \<Rightarrow> do {
                 (if normalizeCacheRetainPolicy (sco_RetainPolicy opts) = ''Never'' then remove_file cachePath else ret ());
                 ret (Inr (Some \<lparr>sa_Path = dstPath, sa_Checksum = algo @ '':'' @ expected, sa_SizeBytes = int (length content),
                   sa_Type = src_type spec, sa_SourceURL = src_url spec, sa_CacheHit = True\<rparr>))
               }
           }
         | _ \<Rightarrow> do { remove_file cachePath; ret (Inr None) }
       }
     | _ \<Rightarrow> do { remove_file cachePath; ret (Inr None) }
   }"

text \<open>The download, and the copy into the cache.\<close>

definition download ::
    "nat \<Rightarrow> Builder_World \<Rightarrow> SourceSpec \<Rightarrow> string \<Rightarrow> string option \<Rightarrow> string \<Rightarrow> string \<Rightarrow> SourceCacheOptions \<Rightarrow>
     ((go_error + SourceArtifact) option) builder" where
  "download fuel W spec dstPath cachePath algo expected opts = do {
     answer \<leftarrow> http_do fuel W (src_url spec);
     case answer of
       StillRedirecting \<Rightarrow> ret None
     | HttpFailed err \<Rightarrow> ret (Some (Inl (wrapf ''download source: '' err)))
     | Answered status body \<Rightarrow>
         if status < 200 \<or> status \<ge> 300 then
           ret (Some (Inl (errorf (''download source: unexpected HTTP status '' @ show_int status))))
         else do {
           artifact \<leftarrow> writeVerifiedSource W dstPath body spec algo expected;
           case artifact of
             Inl err \<Rightarrow> ret (Some (Inl err))
           | Inr a \<Rightarrow>
               (case cachePath of
                  None \<Rightarrow> ret (Some (Inr a))
                | Some path \<Rightarrow>
                    if normalizeCacheRetainPolicy (sco_RetainPolicy opts) = ''Never'' then ret (Some (Inr a))
                    else do {
                      copied \<leftarrow> copyFile W (sa_Path a) path;
                      case copied of
                        Some err \<Rightarrow> ret (Some (Inl (wrapf ''write source cache: '' err)))
                      | None \<Rightarrow> ret (Some (Inr a))
                    })
         }
   }"

definition fetch ::
    "nat \<Rightarrow> Builder_World \<Rightarrow> SourceSpec \<Rightarrow> string \<Rightarrow> string \<Rightarrow> SourceCacheOptions \<Rightarrow> ((go_error + SourceArtifact) option) builder" where
  "fetch fuel W spec workspaceDir cacheDir opts =
     (let failed = (\<lambda>err. ret (Some (Inl err))) in
      if toLower (src_type spec) \<noteq> ''cloud-image'' \<and> toLower (src_type spec) \<noteq> ''iso'' then
        failed (errorf (''source type '' @ quoted (src_type spec) @ '' is not fetchable via URL''))
      else (case bw_url_parse W (src_url spec) of
        Inl err \<Rightarrow> failed (wrapf ''parse source URL: '' err)
      | Inr u \<Rightarrow>
        (case validateSafeSourceURL W u of Some err \<Rightarrow> failed err
         | None \<Rightarrow>
        (case parseChecksum (src_checksum spec) of Inl err \<Rightarrow> failed err
         | Inr (algo, expected) \<Rightarrow>
        (case cleanWorkspace W workspaceDir of Inl err \<Rightarrow> failed err
         | Inr workspace \<Rightarrow>
             (let dstPath = path_Join [workspace, ''source.img''] in
              if cacheDir = '''' then download fuel W spec dstPath None algo expected opts
              else (case cleanDirectory W cacheDir ''cache'' of Inl err \<Rightarrow> failed err
                    | Inr cache \<Rightarrow>
                        (let cachePath = path_Join [cache, cacheFileName algo expected] in do {
                           cached \<leftarrow> copyValidCache W cachePath dstPath spec algo expected opts;
                           case cached of
                             Inl err \<Rightarrow> failed err
                           | Inr (Some a) \<Rightarrow> ret (Some (Inr a))
                           | Inr None \<Rightarrow> download fuel W spec dstPath (Some cachePath) algo expected opts
                         }))))))))"

section \<open>The engine\<close>










section \<open>The cloud-image backend\<close>



section \<open>The qemu-img backend\<close>

text \<open>The metadata of \<open>qemu-img info\<close>; the members of an object in the order of the iteration.\<close>

datatype json = JNull | JBool bool | JNumber int | JString string | JArray "json list" | JObject "(string \<times> json) list"

















section \<open>Lemmas\<close>

lemmas world_simps = put_def remove_file_def file_at_def plain_def

lemma wp_copyFile:
  "wp (copyFile W src dst) (\<lambda>r s'. bs_requests s' = bs_requests s \<and>
     (r = None \<longrightarrow> (\<exists>c. bs_files s src = Some c \<and> bs_files s' = (bs_files s)(dst \<mapsto> c)))) s"
  by (auto simp: copyFile_def world_simps wp_simp split: option.splits)

lemma wp_writeVerifiedSource:
  "wp (writeVerifiedSource W dst body spec algo expected) (\<lambda>r s'. bs_requests s' = bs_requests s \<and>
     (case r of Inl err \<Rightarrow> True
      | Inr a \<Rightarrow> (\<exists>c. delivered body = Inr c \<and> bs_files s' dst = Some c \<and> hex (bw_digest W algo c) = expected
          \<and> sa_Path a = dst \<and> sa_Checksum a = algo @ '':'' @ expected \<and> sa_SizeBytes a = int (length c)))) s"
  by (auto simp: writeVerifiedSource_def world_simps wp_simp Let_def split: option.splits sum.splits)

text \<open>What a verified source is: the file is there, and its digest is the expected one.\<close>

definition verified_source :: "Builder_World \<Rightarrow> string \<Rightarrow> string \<Rightarrow> string \<Rightarrow> BuilderState \<Rightarrow> SourceArtifact \<Rightarrow> bool" where
  "verified_source W dst algo expected s a \<longleftrightarrow>
     (\<exists>c. bs_files s dst = Some c \<and> hex (bw_digest W algo c) = expected \<and> sa_Path a = dst
       \<and> sa_Checksum a = algo @ '':'' @ expected \<and> sa_SizeBytes a = int (length c))"

lemma wp_copyValidCache:
  assumes "cachePath \<noteq> dst"
  shows "wp (copyValidCache W cachePath dst spec algo expected opts) (\<lambda>r s'. bs_requests s' = bs_requests s \<and>
     (case r of Inl err \<Rightarrow> True | Inr None \<Rightarrow> True | Inr (Some a) \<Rightarrow> verified_source W dst algo expected s' a)) s"
  using assms
  by (auto simp: copyValidCache_def cacheEntryExpired_def verifyFileChecksum_def world_simps wp_simp verified_source_def
      split: option.splits bool.splits prod.splits intro!: wp_copyFile [THEN wp_mono])

text \<open>Every request after the first goes to a target that the redirect check accepted.\<close>

lemma wp_http_do:
  assumes "okay target" and "\<And>t. check_redirect W t = None \<Longrightarrow> okay t"
  shows "wp (http_do fuel W target) (\<lambda>r s'. bs_files s' = bs_files s
    \<and> (\<exists>new. bs_requests s' = bs_requests s @ new \<and> list_all okay new)) s"
  using assms(1)
proof (induction fuel arbitrary: target s)
  case 0
  then show ?case by (simp add: wp_simp)
next
  case (Suc fuel)
  show ?case
    using Suc.prems
    by (auto simp: wp_simp split: http_answer.splits option.splits
        intro!: wp_mono [OF Suc.IH [OF assms(2)]])
qed

text \<open>The cache file is not the file of the workspace: its name ends with a digest.\<close>

lemma hex_decode_digits: "hex_decode s = Some b \<Longrightarrow> list_all (\<lambda>c. hex_value c \<noteq> None) s"
  by (induction s arbitrary: b rule: hex_decode.induct) (auto split: option.splits)

lemma parseChecksum_digits:
  assumes "parseChecksum raw = Inr (algo, expected)"
  shows "list_all (\<lambda>c. hex_value c \<noteq> None) expected \<and> length expected \<ge> 64 \<and> algo \<in> {''sha256'', ''sha512''}"
  using assms by (auto simp: parseChecksum_def Let_def split: option.splits prod.splits if_splits dest: hex_decode_digits)

lemma contains_char: "contains s [c] \<longleftrightarrow> c \<in> set s"
  by (auto simp: contains_iff sublist_def in_set_conv_decomp)

lemma shorter_suffix: "a @ e = q @ r \<Longrightarrow> length r \<le> length e \<Longrightarrow> \<exists>x. e = x @ r"
  by (auto simp: append_eq_append_conv2)

lemma cache_is_not_source:
  assumes "parseChecksum raw = Inr (algo, expected)"
  shows "path_Join [cache, cacheFileName algo expected] \<noteq> path_Join [workspace, ''source.img'']"
proof -
  note digits = parseChecksum_digits [OF assms(1)]
  have plain_digits: "CHR ''/'' \<notin> set expected" "CHR ''s'' \<notin> set expected"
    using digits by (auto simp: list_all_iff hex_value_def)
  have name: "\<not> contains (cacheFileName algo expected) ''/''"
    unfolding contains_char using digits plain_digits by (auto simp: cacheFileName_def)
  obtain p where p: "path_Join [cache, cacheFileName algo expected] = p @ cacheFileName algo expected"
    using path_Join_name [OF name] digits by (auto simp: cacheFileName_def)
  have "\<not> contains ''source.img'' ''/''" by code_simp
  then obtain q where q: "path_Join [workspace, ''source.img''] = q @ ''source.img''"
    using path_Join_name [of "''source.img''"] by auto
  show ?thesis
  proof
    assume "path_Join [cache, cacheFileName algo expected] = path_Join [workspace, ''source.img'']"
    then have "p @ cacheFileName algo expected = q @ ''source.img''" unfolding p q .
    then have "(p @ algo @ ''-'' @ expected) @ ''.img'' = (q @ ''source'') @ ''.img''" by (simp add: cacheFileName_def)
    then have "p @ algo @ ''-'' @ expected = q @ ''source''" unfolding append_same_eq .
    then have "(p @ algo @ ''-'') @ expected = q @ ''source''" by simp
    then obtain x where "expected = x @ ''source''"
      using shorter_suffix [of "p @ algo @ ''-''" expected q "''source''"] digits by auto
    then show False using plain_digits(2) by simp
  qed
qed

lemma wp_download:
  assumes "okay (src_url spec)" and "\<And>t. check_redirect W t = None \<Longrightarrow> okay t"
  shows "wp (download fuel W spec dst cachePath algo expected opts) (\<lambda>r s'.
     (\<exists>new. bs_requests s' = bs_requests s @ new \<and> list_all okay new) \<and>
     (case r of Some (Inr a) \<Rightarrow> verified_source W dst algo expected s' a | _ \<Rightarrow> True)) s"
  unfolding download_def wp_simp
  by (rule wp_http_do [where okay = okay, OF assms, THEN wp_mono])
    (auto simp: wp_simp split: http_result.splits sum.splits option.splits
      intro!: wp_writeVerifiedSource [THEN wp_mono] wp_copyFile [THEN wp_mono] simp: verified_source_def)

lemma wp_fetch:
  assumes "\<And>u. bw_url_parse W (src_url spec) = Inr u \<Longrightarrow> validateSafeSourceURL W u = None \<Longrightarrow> okay (src_url spec)"
    and "\<And>t. check_redirect W t = None \<Longrightarrow> okay t"
  shows "wp (fetch fuel W spec workspaceDir cacheDir opts) (\<lambda>r s'.
     (\<exists>new. bs_requests s' = bs_requests s @ new \<and> list_all okay new) \<and>
     (case r of Some (Inr a) \<Rightarrow> (\<exists>algo expected workspace. parseChecksum (src_checksum spec) = Inr (algo, expected)
          \<and> cleanWorkspace W workspaceDir = Inr workspace
          \<and> verified_source W (path_Join [workspace, ''source.img'']) algo expected s' a)
      | _ \<Rightarrow> True)) s"
proof -
  have cached: "wp (do {
         cached \<leftarrow> copyValidCache W (path_Join [cache, cacheFileName algo expected]) (path_Join [ws, ''source.img'']) spec algo expected opts;
         case cached of
           Inl err \<Rightarrow> ret (Some (Inl err))
         | Inr (Some a) \<Rightarrow> ret (Some (Inr a))
         | Inr None \<Rightarrow> download fuel W spec (path_Join [ws, ''source.img'']) (Some (path_Join [cache, cacheFileName algo expected])) algo expected opts
       }) (\<lambda>r s'. (\<exists>new. bs_requests s' = bs_requests s @ new \<and> list_all okay new) \<and>
         (case r of Some (Inr a) \<Rightarrow> verified_source W (path_Join [ws, ''source.img'']) algo expected s' a | _ \<Rightarrow> True)) s"
    if "parseChecksum (src_checksum spec) = Inr (algo, expected)" "okay (src_url spec)" for cache algo expected ws
    unfolding wp_simp
    by (rule wp_copyValidCache [OF cache_is_not_source [OF that(1)], THEN wp_mono])
      (auto simp: wp_simp split: sum.splits option.splits intro!: wp_download [where okay = okay, OF that(2) assms(2), THEN wp_mono])
  show ?thesis
    unfolding fetch_def Let_def
    by (auto simp: wp_ret split del: if_split split: sum.split option.split if_splits
        intro!: cached [THEN wp_mono] wp_download [where okay = okay, OF _ assms(2), THEN wp_mono] dest: assms(1))
qed

section \<open>Properties\<close>

text \<open>C38: A fetched source is the requested one: when \<open>fetch\<close> returns a source, from the cache or from the
  network, the specification has a well-formed checksum, and the file it names has, at that moment, content
  with exactly this digest; the recorded checksum and size are those of that content.\<close>

theorem fetched_source_verified:
  assumes "run_state (fetch fuel W spec workspaceDir cacheDir opts) s = (Some (Inr a), s')"
  shows "\<exists>algo expected content. parseChecksum (src_checksum spec) = Inr (algo, expected)
    \<and> bs_files s' (sa_Path a) = Some content \<and> hex (bw_digest W algo content) = expected
    \<and> sa_Checksum a = algo @ '':'' @ expected \<and> sa_SizeBytes a = int (length content)"
  using wp_run [OF wp_fetch [where okay = "\<lambda>t. True"] assms] by (auto simp: verified_source_def)

text \<open>C39: Every HTTP request of a fetch, the redirected ones included, goes to a URL that the SSRF guard accepted,
  with no private addresses and no unresolved names allowed.\<close>

theorem source_requests_guarded:
  "\<exists>new. bs_requests (snd (run_state (fetch fuel W spec workspaceDir cacheDir opts) s)) = bs_requests s @ new \<and>
    list_all (\<lambda>t. \<exists>u. bw_url_parse W t = Inr u \<and>
      ValidatePublicHTTPSURL (bw_url_parse W) (bw_lookupHost W) ''source URL'' (bw_url_string W u)
        \<lparr>o_allowUnresolved = False, o_allowedPrivateCIDRs = [], o_allowedDNSNames = []\<rparr> = None) new"
proof -
  let ?okay = "\<lambda>t. \<exists>u. bw_url_parse W t = Inr u \<and> validateSafeSourceURL W u = None"
  have "check_redirect W t = None \<Longrightarrow> ?okay t" for t
    by (auto simp: check_redirect_def split: sum.splits if_splits)
  then have "wp (fetch fuel W spec workspaceDir cacheDir opts)
      (\<lambda>r s'. \<exists>new. bs_requests s' = bs_requests s @ new \<and> list_all ?okay new) s"
    by (intro wp_fetch [where okay = ?okay, THEN wp_mono]) auto
  then show ?thesis by (simp add: wp_def validateSafeSourceURL_def split: prod.splits)
qed

text \<open>Redirects have no limit: against a server that redirects for ever to an acceptable address no fuel is
  enough.\<close>

theorem endless_redirects:
  assumes "\<And>earlier t. bw_http W earlier t = Redirect t" and "check_redirect W target = None"
  shows "fst (run_state (http_do fuel W target) s) = StillRedirecting"
  using assms by (induction fuel arbitrary: s) auto

text \<open>A world with one image, whose digests are constant.\<close>

definition ex_builder_world :: Builder_World where
  "ex_builder_world =
     \<lparr>bw_url_parse = (\<lambda>s. Inr \<lparr>u_scheme = ''https'', u_user = False, u_hostname = ''images.example.org''\<rparr>),
      bw_url_string = (\<lambda>u. ''https://images.example.org/''), bw_lookupHost = (\<lambda>h. Inr [''93.184.216.34'']),
      bw_http = (\<lambda>earlier target. Response 200 [(''disk'', More)]), bw_abs = Inr, bw_ioErr = (\<lambda>operation path. None),
      bw_age = (\<lambda>path. 0), bw_digest = (\<lambda>algo content. replicate 32 (CHR 0x00)),
      bw_run = (\<lambda>cmd fs. (None, fs)), bw_output = (\<lambda>cmd fs. Inr '''')\<rparr>"

definition ex_image_source :: SourceSpec where
  "ex_image_source =
     \<lparr>src_type = ''cloud-image'', src_url = ''https://images.example.org/a.img'', src_providerRef = '''',
      src_checksum = ''sha256:'' @ replicate 64 (CHR ''0''), src_bootCommand = [], src_installer = None, src_marketplaceRef = None\<rparr>"

abbreviation (input) no_files :: BuilderState where "no_files \<equiv> \<lparr>bs_files = Map.empty, bs_requests = [], bs_events = [], bs_steps = empty_workspace\<rparr>"

lemma ex_fetch_runs:
  "case fst (run_state (fetch 1 ex_builder_world ex_image_source ''/workspace'' ''/cache'' \<lparr>sco_TTL = 0, sco_RetainPolicy = ''''\<rparr>) no_files) of
     Some (Inr a) \<Rightarrow> sa_Path a = ''/workspace/source.img'' | _ \<Rightarrow> False"
  by code_simp

theorem fetched_source_verified_witness:
  "\<exists>a s' content. run_state (fetch 1 ex_builder_world ex_image_source ''/workspace'' ''/cache'' \<lparr>sco_TTL = 0, sco_RetainPolicy = ''''\<rparr>) no_files
      = (Some (Inr a), s') \<and> bs_files s' ''/workspace/source.img'' = Some content \<and> sa_SizeBytes a = int (length content)"
proof -
  let ?run = "run_state (fetch 1 ex_builder_world ex_image_source ''/workspace'' ''/cache'' \<lparr>sco_TTL = 0, sco_RetainPolicy = ''''\<rparr>) no_files"
  obtain r where r: "fst ?run = Some r" using ex_fetch_runs by (cases "fst ?run") auto
  then obtain a where a: "r = Inr a" "sa_Path a = ''/workspace/source.img''" using ex_fetch_runs by (cases r) auto
  have "?run = (Some (Inr a), snd ?run)" using r a(1) by (metis prod.collapse)
  from this fetched_source_verified [OF this] a(2) show ?thesis by metis
qed

section \<open>Self-contained images\<close>








section \<open>Builder and uploader\<close>

text \<open>The file and the recorded data of an artifact: the digest is the one of its checksum.\<close>

definition recorded_artifact :: "Builder_World \<Rightarrow> string \<Rightarrow> BuilderState \<Rightarrow> BuildArtifact \<Rightarrow> bool" where
  "recorded_artifact W algo s a \<longleftrightarrow>
     (\<exists>c. bs_files s (ba_Path a) = Some c \<and> ba_Checksum a = algo @ '':'' @ hex (bw_digest W algo c) \<and> ba_SizeBytes a = int (length c))"




lemma recorded_artifact_update [simp]:
  "p \<noteq> ba_Path a \<Longrightarrow> recorded_artifact W algo (s\<lparr>bs_files := (bs_files s)(p := v)\<rparr>) a = recorded_artifact W algo s a"
  by (simp add: recorded_artifact_def)











text \<open>The exception is real: the cloud-image backend, the last resort for formats \<open>qemu-img\<close> does not write, records
  the checksum of the source, and the uploader knows SHA-256 only.\<close>

theorem sha512_artifact_refused:
  assumes "hex d \<noteq> ''''"
  shows "verify_artifact sha256 content sizeBytes (''sha512:'' @ hex d) \<noteq> None"
proof -
  have "trimSpace (''sha512:'' @ hex d) = ''sha512:'' @ hex d"
    using assms hex_last [OF assms] by (intro trimSpace_plain) (auto simp: space_runes_def)
  moreover have "cut (''sha512:'' @ hex d) '':'' = Some (''sha512'', hex d)" by (simp add: hasPrefix_def)
  moreover have "\<not> equalFold ''sha512'' ''sha256''" by code_simp
  ultimately show ?thesis
    unfolding verify_artifact_iff by (auto simp: parseSHA256_def Let_def simp del: equalFold.simps)
qed

end
