(* ===== verification/Spec2Isabelle.thy ===== *)
theory Spec2Isabelle
  imports Netguard Registry Scheduler Guarantees Admission Provider_Controller Upload_Guarantees Provisioning
    Provider_Transport Provider_Calls Build_Engine
begin

text \<open>
  A verification development for the VM image operator: see the text blocks of the imported
  theories.
\<close>

end
